(* ===== verification/Prelude.thy ===== *)
theory Prelude
  imports Complex_Main "HOL-Library.Word" "HOL-Library.Multiset" "HOL-Library.AList"
begin

text \<open>
  Shared vocabulary of the connector-host development.

  \<^item> Time: an instant of Go's \<open>time.Time\<close> is an \<open>int\<close>, nanoseconds since the zero time
    (year 1), so \<open>IsZero\<close> is \<open>t = 0\<close>; \<open>Time.Sub\<close> saturates at the int64 range as in Go.
    A \<open>time.Duration\<close> is an \<open>int\<close> of nanoseconds; \<open>wrap64\<close> is the int64 wrap-around.
  \<^item> Dynamic values: \<open>goval\<close> is a value of type \<open>interface{}\<close>, by its dynamic Go type;
    \<open>map[string]interface{}\<close> is an association list read with \<open>map_of\<close>, updated with
    \<open>AList.update\<close> and \<open>AList.delete\<close>.
  \<^item> Strings are byte strings; the case and space functions of package \<open>strings\<close> are the
    ASCII ones.
  \<^item> Generic lemmas on lists and multisets, and a contract for a buffer that serves its
    smallest element first.
\<close>

named_theorems go_defs \<open>definitions of the small Go library functions\<close>
named_theorems uq_inv \<open>preservation lemmas of the upload system\<close>
named_theorems sup_frame \<open>frame facts of the supervisor's operations\<close>

section \<open>Time and durations\<close>

type_synonym time = int
type_synonym duration = int

abbreviation (input) zero_time :: time where
  "zero_time \<equiv> 0"

definition second :: duration where
  "second = 1000000000"

definition minute :: duration where
  "minute = 60 * second"

definition max_duration :: duration where
  "max_duration = 2 ^ 63 - 1"

definition min_duration :: duration where
  "min_duration = - (2 ^ 63)"

definition wrap64 :: "int \<Rightarrow> int" where
  "wrap64 x = (x + 2 ^ 63) mod 2 ^ 64 - 2 ^ 63"

definition time_sub :: "time \<Rightarrow> time \<Rightarrow> duration" where
  "time_sub t u = max min_duration (min max_duration (t - u))"

text \<open>Go's integer division truncates towards zero.\<close>

definition go_div :: "int \<Rightarrow> int \<Rightarrow> int" where
  "go_div a b = sgn a * sgn b * (\<bar>a\<bar> div \<bar>b\<bar>)"

lemmas duration_defs = second_def minute_def max_duration_def min_duration_def

lemma wrap64_id: "min_duration \<le> x \<Longrightarrow> x \<le> max_duration \<Longrightarrow> wrap64 x = x"
  by (simp add: wrap64_def duration_defs)

lemma wrap64_range: "min_duration \<le> wrap64 x \<and> wrap64 x \<le> max_duration"
proof -
  have "0 \<le> (x + 2 ^ 63) mod 2 ^ 64" and "(x + 2 ^ 63) mod 2 ^ 64 < (2 ^ 64 :: int)"
    by simp_all
  then show ?thesis by (simp add: wrap64_def duration_defs)
qed

lemma time_sub_less:
  "d \<le> max_duration \<Longrightarrow> min_duration < d \<Longrightarrow> time_sub t u < d \<longleftrightarrow> t - u < d"
  by (auto simp: time_sub_def)

lemma time_sub_greater:
  "d < max_duration \<Longrightarrow> min_duration \<le> d \<Longrightarrow> d < time_sub t u \<longleftrightarrow> d < t - u"
  by (auto simp: time_sub_def)

section \<open>Dynamic values\<close>

datatype goval =
    VNil
  | VBool bool
  | VInt int
  | VInt64 int
  | VFloat rat
  | VNumber "rat option"
  | VString string
  | VSlice "goval list"
  | VStrSlice "string list"
  | VMapSlice "(string \<times> goval) list list"
  | VMap "(string \<times> goval) list"
  | VOpaque string

type_synonym gomap = "(string \<times> goval) list"

definition lookup_str :: "gomap \<Rightarrow> string \<Rightarrow> string" where
  "lookup_str m k = (case map_of m k of Some (VString s) \<Rightarrow> s | _ \<Rightarrow> '''')"

definition lookup_map :: "gomap \<Rightarrow> string \<Rightarrow> gomap option" where
  "lookup_map m k = (case map_of m k of Some (VMap x) \<Rightarrow> Some x | _ \<Rightarrow> None)"

section \<open>Strings\<close>

definition char_code :: "char \<Rightarrow> nat" where
  "char_code c = (of_char c :: nat)"

definition to_upper_char :: "char \<Rightarrow> char" where
  "to_upper_char c = (if 97 \<le> char_code c \<and> char_code c \<le> 122
                      then char_of (char_code c - 32) else c)"

definition to_lower_char :: "char \<Rightarrow> char" where
  "to_lower_char c = (if 65 \<le> char_code c \<and> char_code c \<le> 90
                      then char_of (char_code c + 32) else c)"

definition to_upper :: "string \<Rightarrow> string" where
  "to_upper s = map to_upper_char s"

definition to_lower :: "string \<Rightarrow> string" where
  "to_lower s = map to_lower_char s"

definition is_space :: "char \<Rightarrow> bool" where
  "is_space c = (char_code c \<in> {9, 10, 11, 12, 13, 32})"

definition trim_space :: "string \<Rightarrow> string" where
  "trim_space s = rev (dropWhile is_space (rev (dropWhile is_space s)))"

fun has_prefix :: "string \<Rightarrow> string \<Rightarrow> bool" where
  "has_prefix s [] = True"
| "has_prefix [] (p # ps) = False"
| "has_prefix (c # s) (p # ps) = (c = p \<and> has_prefix s ps)"

definition has_suffix :: "string \<Rightarrow> string \<Rightarrow> bool" where
  "has_suffix s p = has_prefix (rev s) (rev p)"

fun str_contains :: "string \<Rightarrow> string \<Rightarrow> bool" where
  "str_contains [] p = (p = [])"
| "str_contains (c # s) p = (has_prefix (c # s) p \<or> str_contains s p)"

fun split_on :: "char \<Rightarrow> string \<Rightarrow> string list" where
  "split_on c [] = [[]]"
| "split_on c (x # s) =
     (if x = c then [] # split_on c s
      else (case split_on c s of [] \<Rightarrow> [[x]] | w # ws \<Rightarrow> (x # w) # ws))"

fun join_with :: "string \<Rightarrow> string list \<Rightarrow> string" where
  "join_with sep [] = ''''"
| "join_with sep [x] = x"
| "join_with sep (x # y # xs) = x @ sep @ join_with sep (y # xs)"

definition trim_right :: "char \<Rightarrow> string \<Rightarrow> string" where
  "trim_right c s = rev (dropWhile (\<lambda>x. x = c) (rev s))"

lemma has_prefix_append: "has_prefix s p \<longleftrightarrow> (\<exists>r. s = p @ r)"
  by (induction s p rule: has_prefix.induct) auto

lemma str_contains_iff: "str_contains s p \<longleftrightarrow> (\<exists>a b. s = a @ p @ b)"
proof (induction s)
  case Nil
  then show ?case by auto
next
  case (Cons c s)
  show ?case
  proof
    assume "str_contains (c # s) p"
    then consider "has_prefix (c # s) p" | "str_contains s p" by auto
    then show "\<exists>a b. c # s = a @ p @ b"
    proof cases
      case 1
      then show ?thesis unfolding has_prefix_append by (metis append_Nil)
    next
      case 2
      with Cons.IH obtain a b where "s = a @ p @ b" by blast
      then have "c # s = (c # a) @ p @ b" by simp
      then show ?thesis by blast
    qed
  next
    assume "\<exists>a b. c # s = a @ p @ b"
    then obtain a b where e: "c # s = a @ p @ b" by blast
    show "str_contains (c # s) p"
    proof (cases a)
      case Nil
      with e have "has_prefix (c # s) p" by (auto simp: has_prefix_append)
      then show ?thesis by simp
    next
      case (Cons d a')
      with e have "s = a' @ p @ b" by simp
      with Cons.IH show ?thesis by auto
    qed
  qed
qed

lemma split_on_nonempty: "split_on c s \<noteq> []"
  by (induction c s rule: split_on.induct) (auto split: list.splits)

lemma split_on_plain: "c \<notin> set s \<Longrightarrow> split_on c s = [s]"
  by (induction s) auto

lemma split_on_append: "split_on c (a @ c # b) = split_on c a @ split_on c b"
proof (induction a)
  case Nil
  then show ?case by simp
next
  case (Cons x a)
  then show ?case using split_on_nonempty [of c a] by (auto split: list.splits)
qed

section \<open>Numbers as text\<close>

text \<open>The UTF-8 bytes of the dash in the messages.\<close>

definition em_dash :: string where "em_dash = [CHR 0xE2, CHR 0x80, CHR 0x94]"

text \<open>\<open>strconv.Itoa\<close> and \<open>strconv.Atoi\<close>: an optional sign, decimal digits, and the int64 range.\<close>

fun show_nat :: "nat \<Rightarrow> string" where
  "show_nat n = (if n < 10 then [char_of (48 + n)] else show_nat (n div 10) @ [char_of (48 + n mod 10)])"

declare show_nat.simps [simp del]

definition show_int :: "int \<Rightarrow> string" where
  "show_int i = (if i < 0 then CHR ''-'' # show_nat (nat (- i)) else show_nat (nat i))"

fun digits_val :: "int \<Rightarrow> string \<Rightarrow> int option" where
  "digits_val acc [] = Some acc"
| "digits_val acc (c # s) =
     (if 48 \<le> char_code c \<and> char_code c \<le> 57 then digits_val (10 * acc + int (char_code c) - 48) s else None)"

definition atoi :: "string \<Rightarrow> int option" where
  "atoi s =
     (let (neg, d) = (case s of c # r \<Rightarrow> if c = CHR ''-'' then (True, r) else if c = CHR ''+'' then (False, r) else (False, s)
                      | [] \<Rightarrow> (False, s))
      in if d = [] then None
         else (case digits_val 0 d of None \<Rightarrow> None
               | Some n \<Rightarrow> (let v = (if neg then - n else n)
                            in if min_duration \<le> v \<and> v \<le> max_duration then Some v else None)))"

definition hex_digit :: "nat \<Rightarrow> char" where
  "hex_digit n = (if n < 10 then char_of (48 + n) else char_of (87 + n))"

fun show_octal :: "nat \<Rightarrow> string" where
  "show_octal n = (if n < 8 then [char_of (48 + n)] else show_octal (n div 8) @ [char_of (48 + n mod 8)])"

declare show_octal.simps [simp del]

text \<open>\<open>%q\<close> of the Go formatter on bytes: the short escapes, \<open>\xNN\<close> for the other control characters;
  bytes from 0x80 on belong to printable multi-byte characters and stay.\<close>

definition quote_char :: "char \<Rightarrow> string" where
  "quote_char c =
     (let n = char_code c; bs = CHR 0x5C
      in if n = 34 \<or> n = 92 then [bs, c]
         else if n = 7 then bs # ''a'' else if n = 8 then bs # ''b'' else if n = 12 then bs # ''f''
         else if n = 10 then bs # ''n'' else if n = 13 then bs # ''r'' else if n = 9 then bs # ''t''
         else if n = 11 then bs # ''v''
         else if n < 32 \<or> n = 127 then bs # ''x'' @ [hex_digit (n div 16), hex_digit (n mod 16)]
         else [c])"

definition go_quote :: "string \<Rightarrow> string" where
  "go_quote s = [CHR 0x22] @ concat (map quote_char s) @ [CHR 0x22]"

lemma show_nat_digits: "c \<in> set (show_nat n) \<Longrightarrow> 48 \<le> char_code c \<and> char_code c \<le> 57"
proof (induction n rule: show_nat.induct)
  case (1 n)
  have d: "48 \<le> char_code (char_of (48 + m)) \<and> char_code (char_of (48 + m)) \<le> 57" if "m < 10" for m :: nat
    using that by (simp add: char_code_def)
  show ?case
  proof (cases "n < 10")
    case True
    then show ?thesis using 1(2) d [of n] by (simp add: show_nat.simps [of n])
  next
    case False
    then have "c = char_of (48 + n mod 10) \<or> c \<in> set (show_nat (n div 10))"
      using 1(2) by (simp add: show_nat.simps [of n])
    then show ?thesis using 1(1) [OF False] d [of "n mod 10"] by auto
  qed
qed

lemma digits_val_snoc:
  "digits_val acc (s @ [c]) =
     (case digits_val acc s of None \<Rightarrow> None
      | Some n \<Rightarrow> if 48 \<le> char_code c \<and> char_code c \<le> 57 then Some (10 * n + int (char_code c) - 48) else None)"
  by (induction s arbitrary: acc) auto

lemma digits_val_show_nat: "digits_val 0 (show_nat n) = Some (int n)"
proof (induction n rule: show_nat.induct)
  case (1 n)
  have d: "char_code (char_of (48 + m)) = 48 + m" if "m < 10" for m :: nat
    using that by (simp add: char_code_def)
  show ?case
  proof (cases "n < 10")
    case False
    have "int n = 10 * int (n div 10) + int (n mod 10)" by presburger
    then show ?thesis using False 1 d [of "n mod 10"] by (simp add: show_nat.simps [of n] digits_val_snoc)
  qed (use d [of n] in \<open>simp add: show_nat.simps [of n]\<close>)
qed

lemma atoi_show_int: "0 \<le> n \<Longrightarrow> n \<le> max_duration \<Longrightarrow> atoi (show_int n) = Some n"
proof -
  assume n: "0 \<le> n" "n \<le> max_duration"
  have d: "show_nat k \<noteq> []" "hd (show_nat k) \<noteq> CHR ''-''" "hd (show_nat k) \<noteq> CHR ''+''" for k
  proof -
    show ne: "show_nat k \<noteq> []" by (subst show_nat.simps) simp
    have "48 \<le> char_code (hd (show_nat k))" using show_nat_digits ne by (metis list.set_sel(1))
    then show "hd (show_nat k) \<noteq> CHR ''-''" "hd (show_nat k) \<noteq> CHR ''+''" by (auto simp: char_code_def)
  qed
  then obtain c r where "show_nat (nat n) = c # r" "c \<noteq> CHR ''-''" "c \<noteq> CHR ''+''" by (metis list.exhaust list.sel(1))
  then show ?thesis using n digits_val_show_nat [of "nat n"] by (auto simp: atoi_def show_int_def duration_defs)
qed

text \<open>The conversion of a float to int64 truncates; out of range the amd64 instruction gives the smallest
  int64.\<close>

definition float_to_int64 :: "rat \<Rightarrow> int" where
  "float_to_int64 q =
     (let t = (if 0 \<le> q then \<lfloor>q\<rfloor> else \<lceil>q\<rceil>)
      in if min_duration \<le> t \<and> t \<le> max_duration then t else min_duration)"

text \<open>\<open>io.ReadAll\<close> on an \<open>io.LimitReader\<close>: bytes past the limit, and an error after it, are never seen.\<close>

definition read_limited :: "int \<Rightarrow> string \<Rightarrow> bool \<Rightarrow> string option" where
  "read_limited limit body broken =
     (if limit \<le> int (length body) then Some (take (nat limit) body) else if broken then None else Some body)"

section \<open>Lists\<close>

definition remove_nth :: "nat \<Rightarrow> 'a list \<Rightarrow> 'a list" where
  "remove_nth i xs = take i xs @ drop (Suc i) xs"

lemma mset_remove_nth:
  assumes "i < length xs"
  shows "mset xs = add_mset (xs ! i) (mset (remove_nth i xs))"
proof -
  have "xs = take i xs @ xs ! i # drop (Suc i) xs"
    using assms by (rule id_take_nth_drop)
  then have "mset xs = mset (take i xs @ xs ! i # drop (Suc i) xs)"
    by (rule arg_cong [where f = mset])
  also have "\<dots> = add_mset (xs ! i) (mset (remove_nth i xs))" by (simp add: remove_nth_def)
  finally show ?thesis .
qed

lemma length_remove_nth: "i < length xs \<Longrightarrow> length (remove_nth i xs) = length xs - 1"
  by (simp add: remove_nth_def min_def)

lemma set_remove_nth: "set (remove_nth i xs) \<subseteq> set xs"
  unfolding remove_nth_def by (auto dest: in_set_takeD in_set_dropD)

lemma remove_nth_subset: "x \<in> set (remove_nth i xs) \<Longrightarrow> x \<in> set xs"
  by (rule subsetD [OF set_remove_nth])

section \<open>Association lists\<close>

lemma set_AList_update: "set (AList.update k v xs) \<subseteq> insert (k, v) (set xs)"
  by (induction xs) auto

lemma length_AList_update: "length (AList.update k v xs) \<le> Suc (length xs)"
  by (induction xs) auto

lemma map_of_AList_update [simp]:
  "map_of (AList.update k v xs) k' = (if k' = k then Some v else map_of xs k')"
  by (simp add: update_conv')

lemma map_of_AList_delete [simp]:
  "map_of (AList.delete k xs) k' = (if k' = k then None else map_of xs k')"
  by (simp add: delete_conv')

lemma map_of_if: "map_of (if c then a else b) k = (if c then map_of a k else map_of b k)"
  by simp

section \<open>A buffer that serves its smallest element first\<close>

text \<open>
  \<open>drain deq n q\<close> removes up to \<open>n\<close> elements, one \<open>deq\<close> at a time, and collects them in
  the order they were served.
\<close>

fun drain :: "('q \<Rightarrow> ('a \<times> 'q) option) \<Rightarrow> nat \<Rightarrow> 'q \<Rightarrow> 'a list \<times> 'q" where
  "drain deq 0 q = ([], q)"
| "drain deq (Suc n) q =
     (case deq q of
        None \<Rightarrow> ([], q)
      | Some (x, q') \<Rightarrow> (let (xs, q'') = drain deq n q' in (x # xs, q'')))"

locale served_buffer =
  fixes deq :: "'q \<Rightarrow> ('a \<times> 'q) option"
    and content :: "'q \<Rightarrow> 'a multiset"
    and key :: "'a \<Rightarrow> 'k::linorder"
  assumes deq_None: "deq q = None \<longleftrightarrow> content q = {#}"
    and deq_content: "deq q = Some (x, q') \<Longrightarrow> content q = add_mset x (content q')"
    and deq_least: "deq q = Some (x, q') \<Longrightarrow> y \<in># content q' \<Longrightarrow> key x \<le> key y"
begin

lemma drain_content:
  "drain deq n q = (xs, q') \<Longrightarrow> content q = mset xs + content q'"
proof (induction n arbitrary: q xs q')
  case 0
  then show ?case by simp
next
  case (Suc n)
  show ?case
  proof (cases "deq q")
    case None
    with Suc.prems show ?thesis by simp
  next
    case (Some p)
    then obtain x r where d: "deq q = Some (x, r)" by (cases p) auto
    obtain ys s where e: "drain deq n r = (ys, s)" by (cases "drain deq n r")
    from Suc.prems d e have "xs = x # ys" and "q' = s" by simp_all
    with deq_content [OF d] Suc.IH [OF e] show ?thesis by simp
  qed
qed

lemma drain_mem:
  "drain deq n q = (xs, q') \<Longrightarrow> x \<in> set xs \<Longrightarrow> x \<in># content q"
  using drain_content by (metis set_mset_mset union_iff)

lemma drain_sorted:
  "drain deq n q = (xs, q') \<Longrightarrow> sorted (map key xs)"
proof (induction n arbitrary: q xs q')
  case 0
  then show ?case by simp
next
  case (Suc n)
  show ?case
  proof (cases "deq q")
    case None
    with Suc.prems show ?thesis by simp
  next
    case (Some p)
    then obtain x r where d: "deq q = Some (x, r)" by (cases p) auto
    obtain ys s where e: "drain deq n r = (ys, s)" by (cases "drain deq n r")
    from Suc.prems d e have xs: "xs = x # ys" by simp
    have "\<And>y. y \<in> set ys \<Longrightarrow> key x \<le> key y"
      using deq_least [OF d] drain_mem [OF e] by blast
    with Suc.IH [OF e] xs show ?thesis by auto
  qed
qed

lemma drain_empties:
  "drain deq n q = (xs, q') \<Longrightarrow> size (content q) \<le> n \<Longrightarrow> content q' = {#}"
proof (induction n arbitrary: q xs q')
  case 0
  then show ?case by simp
next
  case (Suc n)
  show ?case
  proof (cases "deq q")
    case None
    with Suc.prems deq_None show ?thesis by auto
  next
    case (Some p)
    then obtain x r where d: "deq q = Some (x, r)" by (cases p) auto
    obtain ys s where e: "drain deq n r = (ys, s)" by (cases "drain deq n r")
    from Suc.prems d e have "q' = s" by simp
    moreover from deq_content [OF d] Suc.prems have "size (content r) \<le> n" by simp
    ultimately show ?thesis using Suc.IH [OF e] by simp
  qed
qed

lemma drain_all:
  assumes "drain deq n q = (xs, q')" and "size (content q) \<le> n"
  shows "mset xs = content q \<and> sorted (map key xs)"
proof -
  have "content q' = {#}" using drain_empties [OF assms] .
  then have "mset xs = content q" using drain_content [OF assms(1)] by simp
  then show ?thesis using drain_sorted [OF assms(1)] by simp
qed

end

end
