(* ===== verification/HostTypes.thy ===== *)
theory HostTypes
  imports Prelude
begin

text \<open>
  The data of the connector host: types.go and the payload model of desired_state.go.
  \<open>TargetStatus\<close>, \<open>ProfileMode\<close> and \<open>AuthType\<close> are strings in the code and arrive from the
  control plane, so they stay strings here; \<open>WorkerStatus\<close> is only ever one of its constants and
  is a datatype. A JSON pointer that may be absent is an option. The float64 back-off multiplier
  is a rational.
\<close>

section \<open>Target profiles\<close>

definition TargetStatusPending :: string where "TargetStatusPending = ''pending''"
definition TargetStatusActive :: string where "TargetStatusActive = ''active''"
definition TargetStatusPaused :: string where "TargetStatusPaused = ''paused''"
definition TargetStatusDegraded :: string where "TargetStatusDegraded = ''degraded''"
definition TargetStatusRevoked :: string where "TargetStatusRevoked = ''revoked''"
definition TargetStatusError :: string where "TargetStatusError = ''error''"

lemmas target_status_defs = TargetStatusPending_def TargetStatusActive_def TargetStatusPaused_def
  TargetStatusDegraded_def TargetStatusRevoked_def TargetStatusError_def

record tls_config =
  tl_InsecureSkipVerify :: bool
  tl_CACertPath :: string
  tl_ClientCertPath :: string
  tl_ClientKeyPath :: string
  tl_Policy :: string

record proxy_config =
  px_HTTPProxy :: string
  px_HTTPSProxy :: string
  px_NoProxy :: string

record resource_limits =
  rl_MaxMemoryMB :: int
  rl_MaxResponseMB :: int
  rl_TimeoutSecs :: int

record target_profile =
  tp_TargetID :: string
  tp_Name :: string
  tp_TargetType :: string
  tp_Mode :: string
  tp_Enabled :: bool
  tp_Status :: string
  tp_Endpoint :: string
  tp_TLS :: tls_config
  tp_Proxy :: proxy_config
  tp_AuthType :: string
  tp_Labels :: "(string \<times> string) list"
  tp_Capabilities :: "string list"
  tp_PollIntervalSecs :: int
  tp_ResourceLimits :: resource_limits
  tp_Paused :: bool
  tp_MaintenanceReason :: string
  tp_CredentialRef :: string
  tp_CredentialRotationDays :: int
  tp_ConfigVersion :: int
  tp_UpdatedAt :: time
  tp_TargetConfig :: "gomap option"

section \<open>Workers\<close>

datatype worker_status = WorkerStatusIdle | WorkerStatusStarting | WorkerStatusRunning
  | WorkerStatusStopped | WorkerStatusDegraded | WorkerStatusPaused | WorkerStatusFailed
  | WorkerStatusStuck

fun worker_status_string :: "worker_status \<Rightarrow> string" where
  "worker_status_string WorkerStatusIdle = ''idle''"
| "worker_status_string WorkerStatusStarting = ''starting''"
| "worker_status_string WorkerStatusRunning = ''running''"
| "worker_status_string WorkerStatusStopped = ''stopped''"
| "worker_status_string WorkerStatusDegraded = ''degraded''"
| "worker_status_string WorkerStatusPaused = ''paused''"
| "worker_status_string WorkerStatusFailed = ''failed''"
| "worker_status_string WorkerStatusStuck = ''stuck''"

record worker_state =
  ws_TargetID :: string
  ws_Status :: worker_status
  ws_LastCollectionAt :: time
  ws_LastErrorAt :: time
  ws_LastError :: string
  ws_ConsecutiveErrors :: int
  ws_TotalCollections :: int
  ws_StartedAt :: time
  ws_CurrentStage :: string
  ws_LastProgressAt :: time
  ws_NextScheduledAt :: time
  ws_RestartCount :: int
  ws_LastRestartAt :: time
  ws_CycleStartedAt :: time

record retry_policy =
  rp_MaxConsecutiveErrors :: int
  rp_InitialBackoff :: duration
  rp_MaxBackoff :: duration
  rp_BackoffMultiplier :: rat
  rp_FailedAfterErrors :: int
  rp_WatchdogTimeoutSecs :: int

definition DefaultRetryPolicy :: retry_policy where
  "DefaultRetryPolicy =
     \<lparr>rp_MaxConsecutiveErrors = 5, rp_InitialBackoff = 10 * second, rp_MaxBackoff = 60 * second,
      rp_BackoffMultiplier = 2, rp_FailedAfterErrors = 20, rp_WatchdogTimeoutSecs = 300\<rparr>"

section \<open>Host\<close>

text \<open>The version a build may override at link time.\<close>

definition HostVersion :: string where
  "HostVersion = ''0.7.0-dev''"

record host_identity =
  hi_HostID :: string
  hi_Label :: string
  hi_EnrolledAt :: time
  hi_ConnectorToken :: string
  hi_BackendURL :: string
  hi_PublicKey :: string

record host_config =
  hc_LogLevel :: string
  hc_MaxConcurrentWorkers :: int
  hc_WatchdogTimeoutSecs :: int
  hc_AutoUpdatePolicy :: string
  hc_PinnedPublicKey :: string
  hc_InsecureSkipVerify :: bool
  hc_SyncIntervalSecs :: int
  hc_LocalRetentionDays :: int
  hc_LanOnly :: bool
  hc_RemoteLiveQueryEnabled :: bool
  hc_RemoteRestartEnabled :: bool

definition DefaultHostConfig :: host_config where
  "DefaultHostConfig =
     \<lparr>hc_LogLevel = ''info'', hc_MaxConcurrentWorkers = 0, hc_WatchdogTimeoutSecs = 300,
      hc_AutoUpdatePolicy = ''disabled'', hc_PinnedPublicKey = '''', hc_InsecureSkipVerify = False,
      hc_SyncIntervalSecs = 60, hc_LocalRetentionDays = 0, hc_LanOnly = False,
      hc_RemoteLiveQueryEnabled = False, hc_RemoteRestartEnabled = False\<rparr>"

record update_state =
  up_CurrentVersion :: string
  up_AvailableVersion :: string
  up_LastCheckedAt :: string
  up_LastUpdateAt :: string
  up_RollbackVersion :: string
  up_UpdatePolicy :: string

record host_state =
  hs_Identity :: host_identity
  hs_Config :: host_config
  hs_Targets :: "target_profile list"
  hs_Update :: update_state
  hs_Version :: int
  hs_LastSyncRevision :: int
  hs_LastSyncAt :: time
  hs_LastAckStatus :: string

definition SupportedTargetTypes :: "string list" where
  "SupportedTargetTypes = [''brocade'']"

definition IsValidTargetType :: "string \<Rightarrow> bool" where
  "IsValidTargetType t = list_ex (\<lambda>valid. t = valid) SupportedTargetTypes"

section \<open>Desired state\<close>

record credential_envelope =
  ce_Format :: string
  ce_TargetID :: string
  ce_Algorithm :: string
  ce_SenderPublicKey :: string
  ce_Nonce :: string
  ce_Ciphertext :: string

record credential_payload =
  cp_EncryptionMethod :: string
  cp_Credentials :: "(string \<times> string) list"
  cp_EncryptedBlob :: string
  cp_Envelope :: "credential_envelope option"

record desired_profile =
  dp_TargetID :: string
  dp_Name :: string
  dp_TargetType :: string
  dp_Mode :: string
  dp_Enabled :: bool
  dp_Status :: string
  dp_Endpoint :: string
  dp_TLS :: tls_config
  dp_PollIntervalSecs :: int
  dp_Labels :: "(string \<times> string) list"
  dp_Capabilities :: "string list"
  dp_ResourceLimits :: resource_limits
  dp_Paused :: bool
  dp_MaintenanceReason :: string
  dp_AuthType :: string
  dp_CredentialPayload :: "credential_payload option"
  dp_CredentialRotationDays :: int
  dp_TargetConfig :: "gomap option"
  dp_ConfigVersion :: int

record host_config_override =
  ho_LogLevel :: string
  ho_SyncIntervalSecs :: int
  ho_MaxConcurrentWorkers :: int
  ho_DisplayMode :: string

record host_policy =
  hp_AutoUpdatePolicy :: string
  hp_CredentialRotationDays :: int
  hp_MaintenanceWindow :: string

record wipe_instruction =
  wi_Action :: string
  wi_RequestedAt :: string
  wi_RequestedBy :: string

record relay_command =
  rc_ID :: string
  rc_Method :: string
  rc_Path :: string
  rc_Body :: "gomap option"
  rc_Platform :: string
  rc_OperationID :: string
  rc_TargetProfileID :: string
  rc_SafetyLevel :: string

record desired_state_payload =
  ds_Revision :: int
  ds_RevisionHash :: string
  ds_HostConfig :: "host_config_override option"
  ds_Targets :: "desired_profile list"
  ds_Policy :: "host_policy option"
  ds_WipeInstruction :: "wipe_instruction option"
  ds_PendingCommands :: "relay_command list"

end
