(* ===== verification/Metrics.thy ===== *)
theory Metrics
  imports Prelude
begin

text \<open>
  The metrics registry (metrics.go) and the sub-collection runner (collector.go).
  The atomic counters are 64-bit words and the queue depth a 32-bit word, so \<open>Add\<close> wraps
  as \<open>atomic.Int64\<close> does. A sub-collection task is given by its name, what its function
  returns (a map or nil, and an error or nil) and how long it runs; \<open>jlen\<close> is the length of
  \<open>json.Marshal\<close>'s output, \<open>None\<close> when it fails.
\<close>

section \<open>Registry\<close>

record sub_call_metric =
  sc_Name :: string
  sc_Duration :: duration
  sc_Status :: string
  sc_Error :: string
  sc_Bytes :: int

record collection_metrics =
  cm_TargetID :: string
  cm_TargetType :: string
  cm_TargetName :: string
  cm_LastDuration :: duration
  cm_LastPayloadBytes :: int
  cm_LastStatus :: string
  cm_LastCollectedAt :: time
  cm_SubCalls :: "sub_call_metric list"
  cm_TotalCycles :: int
  cm_TotalErrors :: int
  cm_TotalPartial :: int
  cm_ConsecutiveErrors :: int
  cm_AvgDuration :: duration
  cm_durationSum :: duration

record metrics_registry =
  mr_collections :: "(string \<times> collection_metrics) list"
  mr_uploadsTotal :: "64 word"
  mr_uploadsSuccess :: "64 word"
  mr_uploadsFailed :: "64 word"
  mr_uploadsDropped :: "64 word"
  mr_uploadBytesTotal :: "64 word"
  mr_queueDepth :: "32 word"

definition NewMetricsRegistry :: metrics_registry where
  "NewMetricsRegistry =
     \<lparr>mr_collections = [], mr_uploadsTotal = 0, mr_uploadsSuccess = 0, mr_uploadsFailed = 0,
      mr_uploadsDropped = 0, mr_uploadBytesTotal = 0, mr_queueDepth = 0\<rparr>"

definition fresh_collection_metrics :: "string \<Rightarrow> string \<Rightarrow> string \<Rightarrow> collection_metrics" where
  "fresh_collection_metrics tid tt nm =
     \<lparr>cm_TargetID = tid, cm_TargetType = tt, cm_TargetName = nm, cm_LastDuration = 0,
      cm_LastPayloadBytes = 0, cm_LastStatus = '''', cm_LastCollectedAt = zero_time,
      cm_SubCalls = [], cm_TotalCycles = 0, cm_TotalErrors = 0, cm_TotalPartial = 0,
      cm_ConsecutiveErrors = 0, cm_AvgDuration = 0, cm_durationSum = 0\<rparr>"

definition count_status :: "string \<Rightarrow> collection_metrics \<Rightarrow> collection_metrics" where
  "count_status status cm =
     (if status = ''error'' then
        cm\<lparr>cm_TotalErrors := cm_TotalErrors cm + 1,
           cm_ConsecutiveErrors := cm_ConsecutiveErrors cm + 1\<rparr>
      else if status = ''partial'' then
        cm\<lparr>cm_TotalPartial := cm_TotalPartial cm + 1, cm_ConsecutiveErrors := 0\<rparr>
      else cm\<lparr>cm_ConsecutiveErrors := 0\<rparr>)"

definition RecordCollection ::
  "time \<Rightarrow> string \<Rightarrow> string \<Rightarrow> string \<Rightarrow> duration \<Rightarrow> int \<Rightarrow> string \<Rightarrow> sub_call_metric list
   \<Rightarrow> metrics_registry \<Rightarrow> metrics_registry" where
  "RecordCollection now tid tt nm dur bytes status subs m =
     (let cm0 = (case map_of (mr_collections m) tid of
                   None \<Rightarrow> fresh_collection_metrics tid tt nm | Some cm \<Rightarrow> cm);
          cm1 = cm0\<lparr>cm_LastDuration := dur, cm_LastPayloadBytes := bytes,
                    cm_LastStatus := status, cm_LastCollectedAt := now, cm_SubCalls := subs,
                    cm_TotalCycles := cm_TotalCycles cm0 + 1\<rparr>;
          cm2 = count_status status cm1;
          cm3 = cm2\<lparr>cm_durationSum := cm_durationSum cm2 + dur\<rparr>;
          cm4 = cm3\<lparr>cm_AvgDuration := go_div (cm_durationSum cm3) (cm_TotalCycles cm3)\<rparr>
      in m\<lparr>mr_collections := AList.update tid cm4 (mr_collections m)\<rparr>)"

definition RecordUploadSuccess :: "int \<Rightarrow> metrics_registry \<Rightarrow> metrics_registry" where
  "RecordUploadSuccess bytes m =
     m\<lparr>mr_uploadsTotal := mr_uploadsTotal m + 1, mr_uploadsSuccess := mr_uploadsSuccess m + 1,
       mr_uploadBytesTotal := mr_uploadBytesTotal m + word_of_int bytes\<rparr>"

definition RecordUploadFailure :: "metrics_registry \<Rightarrow> metrics_registry" where
  "RecordUploadFailure m =
     m\<lparr>mr_uploadsTotal := mr_uploadsTotal m + 1, mr_uploadsFailed := mr_uploadsFailed m + 1\<rparr>"

definition RecordUploadDropped :: "metrics_registry \<Rightarrow> metrics_registry" where
  "RecordUploadDropped m = m\<lparr>mr_uploadsDropped := mr_uploadsDropped m + 1\<rparr>"

definition SetQueueDepth :: "nat \<Rightarrow> metrics_registry \<Rightarrow> metrics_registry" where
  "SetQueueDepth depth m = m\<lparr>mr_queueDepth := of_nat depth\<rparr>"

lemmas metrics_upload_defs =
  RecordUploadSuccess_def RecordUploadFailure_def RecordUploadDropped_def SetQueueDepth_def

text \<open>What every target's entry satisfies: the error and partial cycles are among the cycles,
  and the average is the truncated quotient of the accumulated duration.\<close>

definition cm_ok :: "collection_metrics \<Rightarrow> bool" where
  "cm_ok cm \<longleftrightarrow> 0 \<le> cm_TotalErrors cm \<and> 0 \<le> cm_TotalPartial cm \<and>
     cm_TotalErrors cm + cm_TotalPartial cm \<le> cm_TotalCycles cm \<and>
     0 \<le> cm_ConsecutiveErrors cm \<and> cm_ConsecutiveErrors cm \<le> cm_TotalErrors cm \<and>
     cm_AvgDuration cm = go_div (cm_durationSum cm) (cm_TotalCycles cm)"

definition metrics_ok :: "metrics_registry \<Rightarrow> bool" where
  "metrics_ok m \<longleftrightarrow> list_all (\<lambda>p. cm_ok (snd p)) (mr_collections m)
     \<and> mr_uploadsTotal m = mr_uploadsSuccess m + mr_uploadsFailed m"

lemma cm_ok_fresh: "cm_ok (fresh_collection_metrics tid tt nm)"
  by (simp add: cm_ok_def fresh_collection_metrics_def go_div_def)

lemma metrics_ok_RecordCollection:
  assumes "metrics_ok m"
  shows "metrics_ok (RecordCollection now tid tt nm dur bytes status subs m)"
proof -
  define cm0 where "cm0 = (case map_of (mr_collections m) tid of
                   None \<Rightarrow> fresh_collection_metrics tid tt nm | Some cm \<Rightarrow> cm)"
  have "cm_ok cm0"
    using assms unfolding cm0_def metrics_ok_def list_all_iff
    by (auto simp: cm_ok_fresh split: option.split dest!: map_of_SomeD)
  then show ?thesis
    using assms subsetD [OF set_AList_update]
    unfolding RecordCollection_def cm0_def [symmetric] Let_def metrics_ok_def list_all_iff
    by (fastforce simp: cm_ok_def count_status_def)
qed

lemma metrics_ok_upload:
  "metrics_ok m \<Longrightarrow> metrics_ok (RecordUploadSuccess b m)"
  "metrics_ok m \<Longrightarrow> metrics_ok (RecordUploadFailure m)"
  "metrics_ok m \<Longrightarrow> metrics_ok (RecordUploadDropped m)"
  "metrics_ok m \<Longrightarrow> metrics_ok (SetQueueDepth d m)"
  by (simp_all add: metrics_ok_def metrics_upload_defs)

lemma metrics_ok_new: "metrics_ok NewMetricsRegistry"
  by (simp add: metrics_ok_def NewMetricsRegistry_def)

section \<open>Partial collection results\<close>

record partial_result =
  pr_Sections :: "(string \<times> goval) list"
  pr_SubCalls :: "sub_call_metric list"
  pr_FailedSections :: "string list"
  pr_TotalSections :: int
  pr_OKSections :: int

definition NewPartialCollectionResult :: partial_result where
  "NewPartialCollectionResult =
     \<lparr>pr_Sections = [], pr_SubCalls = [], pr_FailedSections = [], pr_TotalSections = 0,
      pr_OKSections = 0\<rparr>"

definition AddSection :: "string \<Rightarrow> goval \<Rightarrow> sub_call_metric \<Rightarrow> partial_result \<Rightarrow> partial_result" where
  "AddSection name data metric p =
     (let p1 = p\<lparr>pr_TotalSections := pr_TotalSections p + 1,
                 pr_SubCalls := pr_SubCalls p @ [metric]\<rparr>
      in if sc_Status metric = ''ok'' \<and> data \<noteq> VNil
         then p1\<lparr>pr_Sections := AList.update name data (pr_Sections p1),
                 pr_OKSections := pr_OKSections p1 + 1\<rparr>
         else p1\<lparr>pr_FailedSections := pr_FailedSections p1 @ [name]\<rparr>)"

definition Status :: "partial_result \<Rightarrow> string" where
  "Status p = (if pr_OKSections p = 0 then ''error''
               else if pr_FailedSections p \<noteq> [] then ''partial'' else ''ok'')"

text \<open>\<open>msg\<close> stands for the formatted message of the marker.\<close>

definition DegradedMarker :: "string \<Rightarrow> partial_result \<Rightarrow> gomap option" where
  "DegradedMarker msg p =
     (if pr_FailedSections p = [] then None
      else Some [(''degraded'', VBool True),
                 (''failed_sections'', VStrSlice (pr_FailedSections p)),
                 (''ok_sections'', VInt (pr_OKSections p)),
                 (''total_sections'', VInt (pr_TotalSections p)),
                 (''message'', VString msg)])"

section \<open>Sub-collection tasks\<close>

record sub_task =
  st_Name :: string
  st_result :: "gomap option"
  st_err :: "string option"
  st_duration :: duration

definition TimeSubCall :: "(gomap \<Rightarrow> int option) \<Rightarrow> sub_task \<Rightarrow> gomap option \<times> sub_call_metric" where
  "TimeSubCall jlen t =
     (st_result t,
      \<lparr>sc_Name = st_Name t, sc_Duration = st_duration t,
       sc_Status = (case st_err t of None \<Rightarrow> ''ok'' | Some e \<Rightarrow> ''error''),
       sc_Error = (case st_err t of None \<Rightarrow> '''' | Some e \<Rightarrow> e),
       sc_Bytes = (case st_result t of None \<Rightarrow> 0
                   | Some r \<Rightarrow> (case jlen r of None \<Rightarrow> 0 | Some n \<Rightarrow> n))\<rparr>)"

text \<open>The runners hand \<open>AddSection\<close> a \<open>map[string]interface{}\<close>: as an interface value it is
  never nil, even when the map is, so a nil map arrives as an empty map.\<close>

definition section_value :: "gomap option \<Rightarrow> goval" where
  "section_value r = (case r of None \<Rightarrow> VMap [] | Some m \<Rightarrow> VMap m)"

fun RunSequentialCollection ::
  "(gomap \<Rightarrow> int option) \<Rightarrow> sub_task list \<Rightarrow> partial_result \<Rightarrow> partial_result" where
  "RunSequentialCollection jlen [] p = p"
| "RunSequentialCollection jlen (t # ts) p =
     RunSequentialCollection jlen ts
       (AddSection (st_Name t) (section_value (fst (TimeSubCall jlen t)))
          (snd (TimeSubCall jlen t)) p)"

text \<open>
  The concurrent runner: each goroutine fills its own slot of \<open>results\<close>, in the order
  \<open>sched\<close> in which the goroutines finish; after \<open>wg.Wait()\<close> the slots are read in task order.
  A slot nobody filled would be read as the zero value.
\<close>

type_synonym indexed_result = "string \<times> gomap option \<times> sub_call_metric"

definition zero_slot :: indexed_result where
  "zero_slot = ('''', None, \<lparr>sc_Name = '''', sc_Duration = 0, sc_Status = '''',
                               sc_Error = '''', sc_Bytes = 0\<rparr>)"

fun fill_slots ::
  "(gomap \<Rightarrow> int option) \<Rightarrow> sub_task list \<Rightarrow> nat list \<Rightarrow> indexed_result list \<Rightarrow> indexed_result list"
where
  "fill_slots jlen ts [] rs = rs"
| "fill_slots jlen ts (i # is) rs =
     fill_slots jlen ts is
       (rs[i := (st_Name (ts ! i), fst (TimeSubCall jlen (ts ! i)), snd (TimeSubCall jlen (ts ! i)))])"

fun collect_slots :: "indexed_result list \<Rightarrow> partial_result \<Rightarrow> partial_result" where
  "collect_slots [] p = p"
| "collect_slots ((nm, d, mt) # rs) p = collect_slots rs (AddSection nm (section_value d) mt p)"

definition RunConcurrentCollection ::
  "(gomap \<Rightarrow> int option) \<Rightarrow> sub_task list \<Rightarrow> nat list \<Rightarrow> partial_result" where
  "RunConcurrentCollection jlen ts sched =
     collect_slots (fill_slots jlen ts sched (replicate (length ts) zero_slot))
       NewPartialCollectionResult"

definition task_slot :: "(gomap \<Rightarrow> int option) \<Rightarrow> sub_task \<Rightarrow> indexed_result" where
  "task_slot jlen t = (st_Name t, fst (TimeSubCall jlen t), snd (TimeSubCall jlen t))"

lemma fill_slots_length [simp]: "length (fill_slots jlen ts is rs) = length rs"
  by (induction jlen ts "is" rs rule: fill_slots.induct) auto

lemma fill_slots_nth:
  "j < length rs \<Longrightarrow>
   fill_slots jlen ts is rs ! j = (if j \<in> set is then task_slot jlen (ts ! j) else rs ! j)"
  by (induction jlen ts "is" rs rule: fill_slots.induct)
    (auto simp: task_slot_def nth_list_update)

lemma fill_slots_complete:
  assumes "set sched = {..<length ts}"
  shows "fill_slots jlen ts sched (replicate (length ts) zero_slot) = map (task_slot jlen) ts"
  by (rule nth_equalityI) (auto simp: fill_slots_nth assms)

lemma collect_slots_pair:
  "collect_slots ((nm, x) # rs) p =
     collect_slots rs (AddSection nm (section_value (fst x)) (snd x) p)"
  by (cases x) simp

lemma collect_slots_tasks:
  "collect_slots (map (task_slot jlen) ts) p = RunSequentialCollection jlen ts p"
  by (induction ts arbitrary: p) (simp_all add: task_slot_def collect_slots_pair)

definition pr_ok :: "partial_result \<Rightarrow> bool" where
  "pr_ok p \<longleftrightarrow> pr_TotalSections p = pr_OKSections p + int (length (pr_FailedSections p))
     \<and> pr_TotalSections p = int (length (pr_SubCalls p))
     \<and> int (length (pr_Sections p)) \<le> pr_OKSections p"

lemma AddSection_ok: "pr_ok p \<Longrightarrow> pr_ok (AddSection nm d mt p)"
  using length_AList_update [of nm d "pr_Sections p"]
  by (auto simp: pr_ok_def AddSection_def Let_def)

lemma RunSequentialCollection_ok: "pr_ok p \<Longrightarrow> pr_ok (RunSequentialCollection jlen ts p)"
  by (induction ts arbitrary: p) (auto intro: AddSection_ok)

lemma AddSection_counts:
  "pr_OKSections (AddSection nm d mt p) =
     pr_OKSections p + (if sc_Status mt = ''ok'' \<and> d \<noteq> VNil then 1 else 0)"
  "pr_FailedSections (AddSection nm d mt p) =
     pr_FailedSections p @ (if sc_Status mt = ''ok'' \<and> d \<noteq> VNil then [] else [nm])"
  by (simp_all add: AddSection_def Let_def)

lemma section_value_not_nil: "section_value r \<noteq> VNil"
  by (cases r) (simp_all add: section_value_def)

lemma TimeSubCall_status:
  "sc_Status (snd (TimeSubCall jlen t)) = ''ok'' \<longleftrightarrow> st_err t = None"
  by (cases "st_err t") (simp_all add: TimeSubCall_def)

lemma RunSequentialCollection_counts:
  "pr_OKSections (RunSequentialCollection jlen ts p) =
     pr_OKSections p + int (length (filter (\<lambda>t. st_err t = None) ts))"
  "pr_FailedSections (RunSequentialCollection jlen ts p) =
     pr_FailedSections p @ map st_Name (filter (\<lambda>t. st_err t \<noteq> None) ts)"
  by (induction ts arbitrary: p)
    (simp_all add: AddSection_counts TimeSubCall_status section_value_not_nil)

section \<open>Properties\<close>

text \<open>The concurrent runner gives the same result as the sequential one whatever the order in
  which its goroutines finish, as long as each of them does.\<close>

theorem concurrent_equals_sequential:
  assumes "set sched = {..<length ts}"
  shows "RunConcurrentCollection jlen ts sched =
    RunSequentialCollection jlen ts NewPartialCollectionResult"
  by (simp add: RunConcurrentCollection_def fill_slots_complete [OF assms] collect_slots_tasks)

theorem concurrent_equals_sequential_witness:
  "RunConcurrentCollection (\<lambda>_. Some 2)
     [\<lparr>st_Name = ''chassis'', st_result = Some [], st_err = None, st_duration = 5\<rparr>,
      \<lparr>st_Name = ''ports'', st_result = None, st_err = Some ''x'', st_duration = 1\<rparr>] [1, 0]
   = RunSequentialCollection (\<lambda>_. Some 2)
     [\<lparr>st_Name = ''chassis'', st_result = Some [], st_err = None, st_duration = 5\<rparr>,
      \<lparr>st_Name = ''ports'', st_result = None, st_err = Some ''x'', st_duration = 1\<rparr>]
     NewPartialCollectionResult"
  by (rule concurrent_equals_sequential) (auto simp: lessThan_Suc numeral_2_eq_2)

text \<open>A multi-call collection is an error when every sub-call failed (or there was none), partial
  when some failed, and ok otherwise; the failed sections are listed in task order and the
  section counters add up.\<close>

theorem collection_status:
  "Status (RunSequentialCollection jlen ts NewPartialCollectionResult) =
     (if list_all (\<lambda>t. st_err t \<noteq> None) ts then ''error''
      else if list_ex (\<lambda>t. st_err t \<noteq> None) ts then ''partial'' else ''ok'')
   \<and> pr_FailedSections (RunSequentialCollection jlen ts NewPartialCollectionResult) =
       map st_Name (filter (\<lambda>t. st_err t \<noteq> None) ts)
   \<and> pr_ok (RunSequentialCollection jlen ts NewPartialCollectionResult)"
proof -
  have "pr_ok NewPartialCollectionResult"
    by (simp add: pr_ok_def NewPartialCollectionResult_def)
  then have ok: "pr_ok (RunSequentialCollection jlen ts NewPartialCollectionResult)"
    by (rule RunSequentialCollection_ok)
  have "pr_OKSections NewPartialCollectionResult = 0"
    and "pr_FailedSections NewPartialCollectionResult = []"
    by (simp_all add: NewPartialCollectionResult_def)
  with ok show ?thesis
    by (simp add: Status_def RunSequentialCollection_counts filter_empty_conv list_all_iff
        list_ex_iff)
qed

datatype metrics_event =
    Collected time string string string duration int string "sub_call_metric list"
  | Uploaded int
  | UploadFailed
  | UploadDropped
  | DepthSet nat

fun metrics_apply :: "metrics_registry \<Rightarrow> metrics_event \<Rightarrow> metrics_registry" where
  "metrics_apply m (Collected now tid tt nm dur b st subs) = RecordCollection now tid tt nm dur b st subs m"
| "metrics_apply m (Uploaded b) = RecordUploadSuccess b m"
| "metrics_apply m UploadFailed = RecordUploadFailure m"
| "metrics_apply m UploadDropped = RecordUploadDropped m"
| "metrics_apply m (DepthSet d) = SetQueueDepth d m"

lemma metrics_apply_ok: "metrics_ok m \<Longrightarrow> metrics_ok (metrics_apply m e)"
  by (cases e) (simp_all add: metrics_ok_RecordCollection metrics_ok_upload)

lemma metrics_fold_ok: "metrics_ok m \<Longrightarrow> metrics_ok (foldl metrics_apply m es)"
  by (induction es arbitrary: m) (simp_all add: metrics_apply_ok)

text \<open>Recording collection cycles and uploads keeps every target's counters consistent (error and
  partial cycles among the cycles, the error streak among the errors, the average the truncated
  mean) and the upload total equal to successes plus failures, modulo \<open>2^64\<close>.\<close>

theorem metrics_consistent:
  "metrics_ok (foldl metrics_apply NewMetricsRegistry es)"
  by (rule metrics_fold_ok [OF metrics_ok_new])

end
