(* ===== verification/LocalDB.thy ===== *)
theory LocalDB
  imports Prelude "HOL-Library.Char_ord" "HOL-Library.List_Lexorder"
begin

text \<open>
  The local SQLite database of hybrid mode (local_db.go). The two tables are lists of rows in
  insertion order; the primary key of \<open>snapshots\<close> is enforced by the insert. Timestamps are the
  text columns the code writes (\<open>time.RFC3339Nano\<close> in UTC, \<open>rfc3339nano\<close> below) and are compared
  as SQLite compares text, byte by byte. A \<open>nil\<close> database is \<open>None\<close>.
  \<open>payload_codec\<close> carries JSON encoding and the store's encryption, both of which may fail.
  \<open>ld_foreign_keys\<close> tells whether the connection enforces the foreign key of \<open>signals\<close>.
\<close>

section \<open>Timestamps\<close>

fun digits_rev :: "nat \<Rightarrow> nat \<Rightarrow> string" where
  "digits_rev 0 n = []"
| "digits_rev (Suc w) n = (''0123456789'' ! (n mod 10)) # digits_rev w (n div 10)"

lemma digits_rev_numeral [simp]:
  "digits_rev (numeral k) n = (''0123456789'' ! (n mod 10)) # digits_rev (pred_numeral k) (n div 10)"
  by (subst numeral_eq_Suc) (rule digits_rev.simps(2))

text \<open>\<open>n\<close> in decimal, padded with zeros to \<open>w\<close> digits.\<close>

definition pad_digits :: "nat \<Rightarrow> nat \<Rightarrow> string" where
  "pad_digits w n = rev (digits_rev w n)"

definition is_leap :: "nat \<Rightarrow> bool" where
  "is_leap y \<longleftrightarrow> y mod 4 = 0 \<and> (y mod 100 \<noteq> 0 \<or> y mod 400 = 0)"

definition month_lengths :: "nat \<Rightarrow> nat list" where
  "month_lengths y = [31, if is_leap y then 29 else 28, 31, 30, 31, 30, 31, 31, 30, 31, 30, 31]"

fun month_day :: "nat \<Rightarrow> nat list \<Rightarrow> nat \<Rightarrow> nat \<times> nat" where
  "month_day m [] d = (m, Suc d)"
| "month_day m (l # ls) d = (if d < l then (m, Suc d) else month_day (Suc m) ls (d - l))"

text \<open>The proleptic Gregorian date of a day counted from 1 January of year 1.\<close>

definition civil :: "nat \<Rightarrow> nat \<times> nat \<times> nat" where
  "civil z =
     (let n400 = z div 146097; r400 = z mod 146097;
          n100 = min 3 (r400 div 36524); r100 = r400 - n100 * 36524;
          n4 = r100 div 1461; r4 = r100 mod 1461;
          n1 = min 3 (r4 div 365); doy = r4 - n1 * 365;
          y = 400 * n400 + 100 * n100 + 4 * n4 + n1 + 1
      in (y, month_day 1 (month_lengths y) doy))"

definition fmt_seconds :: "nat \<Rightarrow> string" where
  "fmt_seconds s =
     (case civil (s div 86400) of (y, m, d) \<Rightarrow>
        pad_digits 4 y @ ''-'' @ pad_digits 2 m @ ''-'' @ pad_digits 2 d @ ''T'' @
        pad_digits 2 (s mod 86400 div 3600) @ '':'' @ pad_digits 2 (s mod 3600 div 60) @ '':'' @
        pad_digits 2 (s mod 60))"

text \<open>RFC3339Nano drops the trailing zeros of the fraction, and the point with them.\<close>

definition fmt_fraction :: "nat \<Rightarrow> string" where
  "fmt_fraction ns = (if ns = 0 then [] else ''.'' @ trim_right (CHR ''0'') (pad_digits 9 ns))"

definition rfc3339nano :: "time \<Rightarrow> string" where
  "rfc3339nano t =
     fmt_seconds (nat (t div second)) @ fmt_fraction (nat (t mod second)) @ ''Z''"

lemmas rfc3339nano_eval = rfc3339nano_def second_def fmt_seconds_def civil_def Let_def
  month_lengths_def is_leap_def fmt_fraction_def pad_digits_def trim_right_def

section \<open>Tables\<close>

record snapshot_signal =
  sg_Key :: string
  sg_Severity :: string
  sg_Label :: string
  sg_Entity :: string
  sg_Value :: string

record snapshot_summary =
  sm_Verdict :: string
  sm_SignalCount :: int
  sm_BlockerCount :: int
  sm_CautionCount :: int
  sm_TopSignals :: "snapshot_signal list"

record snapshot_row =
  sr_id :: string
  sr_target_id :: string
  sr_target_type :: string
  sr_collected_at :: string
  sr_payload_enc :: string
  sr_summary :: snapshot_summary
  sr_synced_at :: "string option"

record signal_row =
  sl_id :: string
  sl_snapshot_id :: string
  sl_target_id :: string
  sl_signal_key :: string
  sl_severity :: string
  sl_entity :: string
  sl_value :: string
  sl_detected_at :: string

record local_db =
  ld_snapshots :: "snapshot_row list"
  ld_signals :: "signal_row list"
  ld_enabled :: bool
  ld_foreign_keys :: bool

record payload_codec =
  pc_marshal :: "gomap \<Rightarrow> string option"
  pc_unmarshal :: "string \<Rightarrow> gomap option"
  pc_encrypt :: "string \<Rightarrow> string option"
  pc_decrypt :: "string \<Rightarrow> string option"

datatype db_error = MarshalPayload | EncryptPayload | InsertSnapshot | InsertSignal
  | DecryptRow | UnmarshalRow

definition db_off :: "local_db option \<Rightarrow> bool" where
  "db_off d = (case d of None \<Rightarrow> True | Some db \<Rightarrow> \<not> ld_enabled db)"

section \<open>Summary\<close>

definition is_blocker :: "snapshot_signal \<Rightarrow> bool" where
  "is_blocker s = (sg_Severity s = ''critical'' \<or> sg_Severity s = ''error'')"

definition is_caution :: "snapshot_signal \<Rightarrow> bool" where
  "is_caution s = (sg_Severity s = ''warning'')"

fun count_severities :: "snapshot_signal list \<Rightarrow> int \<Rightarrow> int \<Rightarrow> int \<times> int" where
  "count_severities [] b c = (b, c)"
| "count_severities (s # ss) b c =
     (if is_blocker s then count_severities ss (b + 1) c
      else if is_caution s then count_severities ss b (c + 1)
      else count_severities ss b c)"

text \<open>The first loop appends and then breaks when ten are held; the second breaks first.\<close>

fun top_blockers :: "snapshot_signal list \<Rightarrow> snapshot_signal list \<Rightarrow> snapshot_signal list" where
  "top_blockers [] acc = acc"
| "top_blockers (s # ss) acc =
     (if is_blocker s
      then (if 10 \<le> length (acc @ [s]) then acc @ [s] else top_blockers ss (acc @ [s]))
      else top_blockers ss acc)"

fun top_cautions :: "snapshot_signal list \<Rightarrow> snapshot_signal list \<Rightarrow> snapshot_signal list" where
  "top_cautions [] acc = acc"
| "top_cautions (s # ss) acc =
     (if 10 \<le> length acc then acc
      else if is_caution s then top_cautions ss (acc @ [s]) else top_cautions ss acc)"

definition buildSummary :: "snapshot_signal list \<Rightarrow> snapshot_summary" where
  "buildSummary signals =
     (let (b, c) = count_severities signals 0 0
      in \<lparr>sm_Verdict = (if b > 0 then ''critical'' else if c > 0 then ''warning'' else ''healthy''),
          sm_SignalCount = int (length signals), sm_BlockerCount = b, sm_CautionCount = c,
          sm_TopSignals = top_cautions signals (top_blockers signals [])\<rparr>)"

lemma count_severities_eq:
  "count_severities ss b c =
     (b + int (length (filter is_blocker ss)),
      c + int (length (filter (\<lambda>s. is_caution s \<and> \<not> is_blocker s) ss)))"
  by (induction ss b c rule: count_severities.induct) auto

lemma caution_not_blocker: "is_caution s \<Longrightarrow> \<not> is_blocker s"
  by (simp add: is_caution_def is_blocker_def)

lemma filter_caution: "filter (\<lambda>s. is_caution s \<and> \<not> is_blocker s) ss = filter is_caution ss"
  by (rule filter_cong) (auto dest: caution_not_blocker)

lemma top_blockers_eq:
  "length acc < 10 \<Longrightarrow> top_blockers ss acc = take 10 (acc @ filter is_blocker ss)"
proof (induction ss acc rule: top_blockers.induct)
  case (1 acc)
  then show ?case by simp
next
  case (2 s ss acc)
  show ?case
  proof (cases "length acc = 9")
    case True
    with 2 show ?thesis by simp
  next
    case False
    with 2 show ?thesis by simp
  qed
qed

lemma top_cautions_eq:
  "length acc \<le> 10 \<Longrightarrow> top_cautions ss acc = take 10 (acc @ filter is_caution ss)"
  by (induction ss acc rule: top_cautions.induct) auto

section \<open>Operations\<close>

definition signal_row_of ::
  "string \<Rightarrow> string \<Rightarrow> time \<Rightarrow> string \<times> snapshot_signal \<Rightarrow> signal_row" where
  "signal_row_of sid tid tm p =
     (case p of (gid, s) \<Rightarrow>
       \<lparr>sl_id = gid, sl_snapshot_id = sid, sl_target_id = tid, sl_signal_key = sg_Key s,
        sl_severity = sg_Severity s, sl_entity = sg_Entity s, sl_value = sg_Value s,
        sl_detected_at = rfc3339nano tm\<rparr>)"

text \<open>\<open>ids\<close> are the identifiers \<open>generateID\<close> returns for the signals, one each. A duplicate key
  fails the insert, and the deferred rollback leaves the tables as they were.\<close>

fun insert_signals ::
  "string \<Rightarrow> string \<Rightarrow> time \<Rightarrow> (string \<times> snapshot_signal) list \<Rightarrow> signal_row list
   \<Rightarrow> signal_row list option" where
  "insert_signals sid tid tm [] rows = Some rows"
| "insert_signals sid tid tm (p # ps) rows =
     (if fst p \<in> sl_id ` set rows then None
      else insert_signals sid tid tm ps (rows @ [signal_row_of sid tid tm p]))"

definition WriteSnapshot ::
  "payload_codec \<Rightarrow> string list \<Rightarrow> string \<Rightarrow> string \<Rightarrow> string \<Rightarrow> time \<Rightarrow> gomap
   \<Rightarrow> snapshot_signal list \<Rightarrow> local_db option \<Rightarrow> db_error option \<times> local_db option" where
  "WriteSnapshot cd ids sid tid tt tm payload signals d =
     (case d of None \<Rightarrow> (None, d) | Some db \<Rightarrow>
      if \<not> ld_enabled db then (None, d) else
      (case pc_marshal cd payload of None \<Rightarrow> (Some MarshalPayload, d) | Some raw \<Rightarrow>
       (case pc_encrypt cd raw of None \<Rightarrow> (Some EncryptPayload, d) | Some enc \<Rightarrow>
         if sid \<in> sr_id ` set (ld_snapshots db) then (Some InsertSnapshot, d) else
         (case insert_signals sid tid tm (zip ids signals) (ld_signals db) of
            None \<Rightarrow> (Some InsertSignal, d)
          | Some sigs \<Rightarrow>
              (None, Some (db\<lparr>ld_snapshots := ld_snapshots db @
                  [\<lparr>sr_id = sid, sr_target_id = tid, sr_target_type = tt,
                    sr_collected_at = rfc3339nano tm, sr_payload_enc = enc,
                    sr_summary = buildSummary signals, sr_synced_at = None\<rparr>],
                  ld_signals := sigs\<rparr>))))))"

definition decode_row :: "payload_codec \<Rightarrow> snapshot_row \<Rightarrow> db_error + gomap" where
  "decode_row cd r =
     (case pc_decrypt cd (sr_payload_enc r) of None \<Rightarrow> Inl DecryptRow
      | Some raw \<Rightarrow> (case pc_unmarshal cd raw of None \<Rightarrow> Inl UnmarshalRow | Some p \<Rightarrow> Inr p))"

text \<open>\<open>ORDER BY collected_at DESC LIMIT 1\<close>: the first row with the greatest text.\<close>

fun latest_row :: "snapshot_row list \<Rightarrow> snapshot_row option" where
  "latest_row [] = None"
| "latest_row (r # rs) =
     (case latest_row rs of None \<Rightarrow> Some r
      | Some s \<Rightarrow> if sr_collected_at r < sr_collected_at s then Some s else Some r)"

definition LatestSnapshot ::
  "payload_codec \<Rightarrow> string \<Rightarrow> local_db option \<Rightarrow> db_error + (gomap \<times> string) option" where
  "LatestSnapshot cd tid d =
     (case d of None \<Rightarrow> Inr None | Some db \<Rightarrow>
      if \<not> ld_enabled db then Inr None else
      (case latest_row (filter (\<lambda>r. sr_target_id r = tid) (ld_snapshots db)) of
         None \<Rightarrow> Inr None
       | Some r \<Rightarrow> (case decode_row cd r of Inl e \<Rightarrow> Inl e
                    | Inr p \<Rightarrow> Inr (Some (p, sr_collected_at r)))))"

definition sync_row :: "string \<Rightarrow> string \<Rightarrow> snapshot_row \<Rightarrow> snapshot_row" where
  "sync_row nowtxt sid r = (if sr_id r = sid then r\<lparr>sr_synced_at := Some nowtxt\<rparr> else r)"

definition MarkSynced :: "string \<Rightarrow> string \<Rightarrow> local_db option \<Rightarrow> local_db option" where
  "MarkSynced nowtxt sid d =
     (case d of None \<Rightarrow> None | Some db \<Rightarrow>
      if \<not> ld_enabled db then d else
      Some (db\<lparr>ld_snapshots := map (sync_row nowtxt sid) (ld_snapshots db)\<rparr>))"

record unsynced_snapshot =
  un_ID :: string
  un_TargetID :: string
  un_TargetType :: string
  un_CollectedAt :: string
  un_Payload :: gomap

definition unsynced_rows :: "local_db \<Rightarrow> snapshot_row list" where
  "unsynced_rows db = filter (\<lambda>r. sr_synced_at r = None) (ld_snapshots db)"

definition unsynced_of :: "payload_codec \<Rightarrow> snapshot_row \<Rightarrow> unsynced_snapshot option" where
  "unsynced_of cd r =
     (case decode_row cd r of Inl e \<Rightarrow> None
      | Inr p \<Rightarrow> Some \<lparr>un_ID = sr_id r, un_TargetID = sr_target_id r,
                       un_TargetType = sr_target_type r, un_CollectedAt = sr_collected_at r,
                       un_Payload = p\<rparr>)"

text \<open>The query orders and limits the rows; undecodable rows are skipped afterwards.\<close>

definition UnsyncedSnapshots ::
  "payload_codec \<Rightarrow> int \<Rightarrow> local_db option \<Rightarrow> unsynced_snapshot list" where
  "UnsyncedSnapshots cd limit d =
     (case d of None \<Rightarrow> [] | Some db \<Rightarrow>
      if \<not> ld_enabled db then [] else
      List.map_filter (unsynced_of cd)
        (take (nat (if limit \<le> 0 then 50 else limit)) (sort_key sr_collected_at (unsynced_rows db))))"

definition UnsyncedCount :: "local_db option \<Rightarrow> int" where
  "UnsyncedCount d =
     (case d of None \<Rightarrow> 0 | Some db \<Rightarrow>
      if \<not> ld_enabled db then 0 else int (length (unsynced_rows db)))"

definition GetSnapshotSummary :: "string \<Rightarrow> local_db option \<Rightarrow> snapshot_summary option" where
  "GetSnapshotSummary sid d =
     (case d of None \<Rightarrow> None | Some db \<Rightarrow>
      if \<not> ld_enabled db then None else
      map_option sr_summary (find (\<lambda>r. sr_id r = sid) (ld_snapshots db)))"

definition RunRetention :: "time \<Rightarrow> int \<Rightarrow> local_db option \<Rightarrow> int \<times> local_db option" where
  "RunRetention now maxAgeDays d =
     (case d of None \<Rightarrow> (0, d) | Some db \<Rightarrow>
      if \<not> ld_enabled db then (0, d) else
      (let days = (if maxAgeDays \<le> 0 then 7 else maxAgeDays);
           cutoff = rfc3339nano (now - days * 86400 * second);
           keep = filter (\<lambda>r. \<not> sr_collected_at r < cutoff) (ld_snapshots db);
           sigs = (if ld_foreign_keys db
                   then filter (\<lambda>s. sl_snapshot_id s \<in> sr_id ` set keep) (ld_signals db)
                   else ld_signals db)
       in (int (length (ld_snapshots db)) - int (length keep),
           Some (db\<lparr>ld_snapshots := keep, ld_signals := sigs\<rparr>))))"

definition Stats :: "local_db option \<Rightarrow> (int \<times> int) option" where
  "Stats d =
     (case d of None \<Rightarrow> None | Some db \<Rightarrow>
      if \<not> ld_enabled db then None
      else Some (int (length (ld_snapshots db)), int (length (unsynced_rows db))))"

lemmas db_op_defs = WriteSnapshot_def MarkSynced_def RunRetention_def UnsyncedSnapshots_def
  UnsyncedCount_def LatestSnapshot_def GetSnapshotSummary_def Stats_def

section \<open>Invariant\<close>

text \<open>The key columns are keys, and with the foreign key enforced no signal is an orphan.\<close>

definition db_ok :: "local_db option \<Rightarrow> bool" where
  "db_ok d = (case d of None \<Rightarrow> True | Some db \<Rightarrow>
     distinct (map sr_id (ld_snapshots db)) \<and> distinct (map sl_id (ld_signals db)) \<and>
     (if ld_foreign_keys db
      then sl_snapshot_id ` set (ld_signals db) \<subseteq> sr_id ` set (ld_snapshots db) else True))"

lemma insert_signals_ok:
  "insert_signals sid tid tm ps rows = Some sigs \<Longrightarrow> distinct (map sl_id rows) \<Longrightarrow>
   distinct (map sl_id sigs) \<and> sl_snapshot_id ` set sigs \<subseteq> insert sid (sl_snapshot_id ` set rows)"
proof (induction ps arbitrary: rows)
  case Nil
  then show ?case by auto
next
  case (Cons p ps)
  from Cons.prems have ok: "fst p \<notin> sl_id ` set rows"
    and rest: "insert_signals sid tid tm ps (rows @ [signal_row_of sid tid tm p]) = Some sigs"
    by (auto split: if_splits)
  have "distinct (map sl_id (rows @ [signal_row_of sid tid tm p]))"
    using ok Cons.prems(2) by (cases p) (auto simp: signal_row_of_def)
  from Cons.IH [OF rest this] show ?case
    by (cases p) (auto simp: signal_row_of_def)
qed

lemma WriteSnapshot_cases:
  assumes "WriteSnapshot cd ids sid tid tt tm payload signals d = (e, d')"
  obtains (off) "e = None" "d' = d" "db_off d"
  | (err) x where "e = Some x" "d' = d"
  | (ok) db raw enc sigs where "d = Some db" "ld_enabled db" "e = None"
      "pc_marshal cd payload = Some raw" "pc_encrypt cd raw = Some enc"
      "sid \<notin> sr_id ` set (ld_snapshots db)"
      "insert_signals sid tid tm (zip ids signals) (ld_signals db) = Some sigs"
      "d' = Some (db\<lparr>ld_snapshots := ld_snapshots db @
                  [\<lparr>sr_id = sid, sr_target_id = tid, sr_target_type = tt,
                    sr_collected_at = rfc3339nano tm, sr_payload_enc = enc,
                    sr_summary = buildSummary signals, sr_synced_at = None\<rparr>],
                  ld_signals := sigs\<rparr>)"
  using assms
  by (auto simp: WriteSnapshot_def db_off_def split: option.splits if_splits)

lemma WriteSnapshot_db_ok:
  assumes "WriteSnapshot cd ids sid tid tt tm payload signals d = (e, d')" and "db_ok d"
  shows "db_ok d'"
  using assms(1)
proof (cases rule: WriteSnapshot_cases)
  case (ok db raw enc sigs)
  from assms(2) ok(1) have "distinct (map sl_id (ld_signals db))" by (simp add: db_ok_def)
  from insert_signals_ok [OF ok(7) this]
  have d: "distinct (map sl_id sigs)"
    and sub: "sl_snapshot_id ` set sigs \<subseteq> insert sid (sl_snapshot_id ` set (ld_signals db))"
    by auto
  have "ld_foreign_keys db \<Longrightarrow>
      sl_snapshot_id ` set sigs \<subseteq> insert sid (sr_id ` set (ld_snapshots db))"
    using sub assms(2) ok(1) unfolding db_ok_def by (auto split: if_splits)
  with d assms(2) ok(1,6,8) show ?thesis by (simp add: db_ok_def)
qed (use assms(2) in simp_all)

lemma distinct_map_filter_rows: "distinct (map f xs) \<Longrightarrow> distinct (map f (filter P xs))"
  by (induction xs) auto

lemma sync_row_id [simp]: "sr_id (sync_row t sid r) = sr_id r"
  by (simp add: sync_row_def)

lemma sync_row_ids [simp]: "sr_id \<circ> sync_row t sid = sr_id"
  by (simp add: fun_eq_iff)

lemma MarkSynced_db_ok: "db_ok d \<Longrightarrow> db_ok (MarkSynced t sid d)"
  by (cases d) (auto simp: MarkSynced_def db_ok_def image_image)

lemma RunRetention_db_ok: "RunRetention now k d = (n, d') \<Longrightarrow> db_ok d \<Longrightarrow> db_ok d'"
  by (cases d) (auto simp: RunRetention_def Let_def db_ok_def distinct_map_filter_rows
      split: if_splits)

section \<open>Queries\<close>

lemma latest_row_max:
  "latest_row rs = Some r \<Longrightarrow> r \<in> set rs \<and> (\<forall>s \<in> set rs. sr_collected_at s \<le> sr_collected_at r)"
proof (induction rs arbitrary: r)
  case Nil
  then show ?case by simp
next
  case (Cons a rs)
  show ?case
  proof (cases "latest_row rs")
    case None
    then have "rs = []" by (cases rs) (auto split: option.splits if_splits)
    with Cons.prems show ?thesis by simp
  next
    case (Some s)
    from Cons.IH [OF Some] Cons.prems Some show ?thesis
      by (auto split: if_splits)
  qed
qed

lemma latest_row_None: "latest_row rs = None \<longleftrightarrow> rs = []"
  by (cases rs) (auto split: option.splits)

lemma unsynced_rows_MarkSynced:
  "MarkSynced t sid (Some db) = Some db' \<Longrightarrow> ld_enabled db \<Longrightarrow>
   unsynced_rows db' = filter (\<lambda>r. sr_id r \<noteq> sid) (unsynced_rows db)"
proof -
  assume a: "MarkSynced t sid (Some db) = Some db'" "ld_enabled db"
  have "filter (\<lambda>r. sr_synced_at r = None) (map (sync_row t sid) rs)
    = filter (\<lambda>r. sr_id r \<noteq> sid) (filter (\<lambda>r. sr_synced_at r = None) rs)" for rs
    by (induction rs) (auto simp: sync_row_def)
  with a show ?thesis by (auto simp: MarkSynced_def unsynced_rows_def)
qed

section \<open>Properties\<close>

text \<open>The summary of a snapshot counts its signals by severity, gives the worst severity as the
  verdict, and lists at most ten signals: the blockers first, then the warnings, each in the
  order they were detected.\<close>

theorem buildSummary_spec:
  "sm_SignalCount (buildSummary signals) = int (length signals)
   \<and> sm_BlockerCount (buildSummary signals) = int (length (filter is_blocker signals))
   \<and> sm_CautionCount (buildSummary signals) = int (length (filter is_caution signals))
   \<and> sm_Verdict (buildSummary signals) =
       (if \<exists>s \<in> set signals. is_blocker s then ''critical''
        else if \<exists>s \<in> set signals. is_caution s then ''warning'' else ''healthy'')
   \<and> sm_TopSignals (buildSummary signals) =
       take 10 (filter is_blocker signals @ filter is_caution signals)"
proof -
  have "top_cautions signals (take 10 (filter is_blocker signals)) =
      take 10 (filter is_blocker signals @ filter is_caution signals)"
    by (subst top_cautions_eq) (auto simp: min_def)
  then show ?thesis
    by (auto simp: buildSummary_def count_severities_eq filter_caution top_blockers_eq
        filter_empty_conv)
qed


definition hex_codec :: payload_codec where
  "hex_codec = \<lparr>pc_marshal = (\<lambda>m. if m = [] then Some ''{}'' else None),
     pc_unmarshal = (\<lambda>s. if s = ''{}'' then Some [] else None),
     pc_encrypt = (\<lambda>s. Some (rev s)), pc_decrypt = (\<lambda>s. Some (rev s))\<rparr>"

definition empty_db :: local_db where
  "empty_db = \<lparr>ld_snapshots = [], ld_signals = [], ld_enabled = True, ld_foreign_keys = True\<rparr>"


text \<open>The text order the queries sort by is not the order of time: because RFC3339Nano drops
  trailing zeros, a snapshot collected half a second after a full second sorts before the one
  collected at the full second, so the query for the latest snapshot prefers the older row.\<close>

theorem timestamp_text_order_wrong:
  "\<exists>t1 t2. t1 < t2 \<and> rfc3339nano t2 < rfc3339nano t1 \<and>
     latest_row [r\<lparr>sr_collected_at := rfc3339nano t1\<rparr>, r\<lparr>sr_collected_at := rfc3339nano t2\<rparr>]
       = Some (r\<lparr>sr_collected_at := rfc3339nano t1\<rparr>)"
proof -
  let ?t1 = "63839664000 * second" and ?t2 = "63839664000 * second + 500000000"
  have "rfc3339nano ?t1 = ''2024-01-01T00:00:00Z''" by (simp add: rfc3339nano_eval)
  moreover have "rfc3339nano ?t2 = ''2024-01-01T00:00:00.5Z''" by (simp add: rfc3339nano_eval)
  moreover have "''2024-01-01T00:00:00.5Z'' < ''2024-01-01T00:00:00Z''"
    by (simp add: less_char_def)
  ultimately have "?t1 < ?t2 \<and> rfc3339nano ?t2 < rfc3339nano ?t1 \<and>
     latest_row [r\<lparr>sr_collected_at := rfc3339nano ?t1\<rparr>, r\<lparr>sr_collected_at := rfc3339nano ?t2\<rparr>]
       = Some (r\<lparr>sr_collected_at := rfc3339nano ?t1\<rparr>)"
    by (simp add: not_less [symmetric])
  then show ?thesis by blast
qed

text \<open>Retention keeps exactly the rows whose timestamp text is not before the cut-off (seven days
  when the setting is not positive), reports how many it deleted, and with foreign keys
  enforced leaves no signal of a deleted snapshot.\<close>

theorem RunRetention_spec:
  assumes "ld_enabled db" and "db_ok (Some db)"
  shows "\<exists>db'. RunRetention now days (Some db) =
      (int (length (ld_snapshots db)) - int (length (ld_snapshots db')), Some db')
    \<and> set (ld_snapshots db') = {r \<in> set (ld_snapshots db).
         \<not> sr_collected_at r < rfc3339nano (now - (if days \<le> 0 then 7 else days) * 86400 * second)}
    \<and> db_ok (Some db')"
proof -
  obtain n d' where e: "RunRetention now days (Some db) = (n, d')" by (metis prod.exhaust)
  from RunRetention_db_ok [OF e assms(2)] have "db_ok d'" .
  with e assms(1) show ?thesis by (auto simp: RunRetention_def Let_def)
qed

theorem RunRetention_spec_witness:
  "\<exists>db'. snd (RunRetention 0 1 (Some empty_db)) = Some db' \<and> db_ok (Some db')"
proof -
  have "ld_enabled empty_db" and "db_ok (Some empty_db)"
    by (simp_all add: empty_db_def db_ok_def)
  from RunRetention_spec [OF this] show ?thesis by (metis snd_conv)
qed

lemma map_filter_none: "(\<And>x. x \<in> set xs \<Longrightarrow> f x = None) \<Longrightarrow> List.map_filter f xs = []"
  by (induction xs) (auto simp: List.map_filter_simps)

text \<open>The replay query limits the rows before it skips those it cannot decode: while the fifty
  oldest unsynced rows are undecodable, nothing is replayed, whatever else is waiting.\<close>

theorem undecodable_rows_block_replay:
  assumes "\<And>r. r \<in> set (take 50 (sort_key sr_collected_at (unsynced_rows db))) \<Longrightarrow>
      \<exists>e. decode_row cd r = Inl e"
  shows "UnsyncedSnapshots cd 50 (Some db) = []"
proof -
  have "unsynced_of cd r = None"
    if "r \<in> set (take 50 (sort_key sr_collected_at (unsynced_rows db)))" for r
    using assms [OF that] by (auto simp: unsynced_of_def)
  then show ?thesis by (simp add: UnsyncedSnapshots_def map_filter_none)
qed

definition bad_row :: "nat \<Rightarrow> snapshot_row" where
  "bad_row n = \<lparr>sr_id = pad_digits 2 n, sr_target_id = ''sw1'', sr_target_type = ''brocade'',
     sr_collected_at = (if n < 50 then ''2024-01-01T00:00:00Z'' else ''2024-01-02T00:00:00Z''),
     sr_payload_enc = (if n < 50 then ''x'' else ''}{''), sr_summary = buildSummary [],
     sr_synced_at = None\<rparr>"

definition blocked_db :: local_db where
  "blocked_db = empty_db\<lparr>ld_snapshots := map bad_row [0..<51]\<rparr>"

lemma blocked_rows_sorted:
  "sort_key sr_collected_at (map bad_row [0..<51]) = map bad_row [0..<51]"
proof (rule sort_key_id_if_sorted)
  have "sorted_wrt (\<lambda>m n. sr_collected_at (bad_row m) \<le> sr_collected_at (bad_row n)) [0..<51]"
  proof (rule sorted_wrt_mono_rel [where P = "(<)"])
    fix m n :: nat
    have "''2024-01-01T00:00:00Z'' \<le> ''2024-01-02T00:00:00Z''"
      by (simp add: less_char_def less_eq_char_def)
    then show "m < n \<Longrightarrow> sr_collected_at (bad_row m) \<le> sr_collected_at (bad_row n)"
      by (simp add: bad_row_def)
  qed simp
  then show "sorted (map sr_collected_at (map bad_row [0..<51]))"
    by (simp add: sorted_map sorted_wrt_map)
qed

theorem undecodable_rows_block_replay_witness:
  "UnsyncedSnapshots hex_codec 50 (Some blocked_db) = []
   \<and> decode_row hex_codec (bad_row 50) = Inr [] \<and> bad_row 50 \<in> set (unsynced_rows blocked_db)"
proof -
  have rows: "unsynced_rows blocked_db = map bad_row [0..<51]"
    by (simp add: unsynced_rows_def blocked_db_def bad_row_def filter_map comp_def)
  have "take 50 (sort_key sr_collected_at (unsynced_rows blocked_db)) = map bad_row [0..<50]"
    unfolding rows blocked_rows_sorted by (simp add: take_map)
  then have "\<exists>e. decode_row hex_codec r = Inl e"
    if "r \<in> set (take 50 (sort_key sr_collected_at (unsynced_rows blocked_db)))" for r
    using that by (auto simp: decode_row_def hex_codec_def bad_row_def)
  then have "UnsyncedSnapshots hex_codec 50 (Some blocked_db) = []"
    by (rule undecodable_rows_block_replay)
  moreover have "decode_row hex_codec (bad_row 50) = Inr []"
    by (simp add: decode_row_def hex_codec_def bad_row_def)
  moreover have "bad_row 50 \<in> set (unsynced_rows blocked_db)"
    unfolding rows by simp
  ultimately show ?thesis by blast
qed

end
