(* ===== verification/UploadQueue.thy ===== *)
theory UploadQueue
  imports Metrics LocalDB "HOL-Library.Product_Lexorder"
begin

text \<open>
  The snapshot upload queue (upload_queue.go). \<open>upload_queue\<close> is the struct without its
  channels and locks; \<open>time.Now()\<close> is the argument \<open>now\<close>, and every method runs under the
  queue's mutex, so a method is one function. Operations that touch the global metrics
  registry take and return it. The goroutines (workers, probe loop) and the callers are the
  steps of \<open>upload_step\<close>, which interleave freely; a worker that has dequeued an item holds it in
  \<open>us_flights\<close>, first while it posts it and then, after a failure, while it sleeps before
  putting the item back. \<open>jlen\<close> is the length of \<open>json.Marshal\<close>'s output.
\<close>

section \<open>Data\<close>

type_synonym upload_priority = int

definition PriorityHigh :: upload_priority where "PriorityHigh = 0"
definition PriorityMedium :: upload_priority where "PriorityMedium = 1"
definition PriorityLow :: upload_priority where "PriorityLow = 2"

lemmas priority_defs = PriorityHigh_def PriorityMedium_def PriorityLow_def

record queued_snapshot =
  qs_Token :: string
  qs_Payload :: gomap
  qs_Priority :: upload_priority
  qs_TargetID :: string
  qs_TargetType :: string
  qs_EnqueuedAt :: time
  qs_Retries :: int
  qs_SizeBytes :: int

record upload_queue =
  uq_items :: "queued_snapshot list"
  uq_maxSize :: int
  uq_maxRetries :: int
  uq_workerCount :: int
  uq_retryBackoff :: duration
  uq_maxBackoff :: duration
  uq_backendOnline :: bool
  uq_offlineSince :: time
  uq_hasOnReconnect :: bool
  uq_connectorToken :: string

record upload_queue_config =
  uc_MaxSize :: int
  uc_MaxRetries :: int
  uc_WorkerCount :: int
  uc_RetryBackoff :: duration
  uc_MaxBackoff :: duration

definition DefaultUploadQueueConfig :: upload_queue_config where
  "DefaultUploadQueueConfig =
     \<lparr>uc_MaxSize = 100, uc_MaxRetries = 3, uc_WorkerCount = 2, uc_RetryBackoff = 5 * second,
      uc_MaxBackoff = 60 * second\<rparr>"

definition NewUploadQueue :: "upload_queue_config \<Rightarrow> upload_queue" where
  "NewUploadQueue cfg =
     \<lparr>uq_items = [],
      uq_maxSize = (if uc_MaxSize cfg \<le> 0 then 100 else uc_MaxSize cfg),
      uq_maxRetries = (if uc_MaxRetries cfg \<le> 0 then 3 else uc_MaxRetries cfg),
      uq_workerCount = (if uc_WorkerCount cfg \<le> 0 then 2 else uc_WorkerCount cfg),
      uq_retryBackoff = (if uc_RetryBackoff cfg \<le> 0 then 5 * second else uc_RetryBackoff cfg),
      uq_maxBackoff = (if uc_MaxBackoff cfg \<le> 0 then 60 * second else uc_MaxBackoff cfg),
      uq_backendOnline = False, uq_offlineSince = zero_time, uq_hasOnReconnect = False,
      uq_connectorToken = ''''\<rparr>"

definition SetOnReconnect :: "bool \<Rightarrow> upload_queue \<Rightarrow> upload_queue" where
  "SetOnReconnect hasfn q = q\<lparr>uq_hasOnReconnect := hasfn\<rparr>"

definition Depth :: "upload_queue \<Rightarrow> nat" where
  "Depth q = length (uq_items q)"

section \<open>Eviction, enqueue and dequeue\<close>

fun evict_scan ::
  "queued_snapshot list \<Rightarrow> queued_snapshot list \<Rightarrow> nat \<Rightarrow> nat option \<Rightarrow> upload_priority \<Rightarrow> nat option"
where
  "evict_scan items [] i lowestIdx lowestPri = lowestIdx"
| "evict_scan items (x # xs) i lowestIdx lowestPri =
     (if qs_Priority x > lowestPri then evict_scan items xs (Suc i) (Some i) (qs_Priority x)
      else (case lowestIdx of
              None \<Rightarrow> evict_scan items xs (Suc i) None lowestPri
            | Some j \<Rightarrow>
                if qs_Priority x = lowestPri \<and> qs_EnqueuedAt x < qs_EnqueuedAt (items ! j)
                then evict_scan items xs (Suc i) (Some i) lowestPri
                else evict_scan items xs (Suc i) (Some j) lowestPri))"

definition evictLowestPriority ::
  "upload_priority \<Rightarrow> upload_queue \<Rightarrow> metrics_registry \<Rightarrow> bool \<times> upload_queue \<times> metrics_registry"
where
  "evictLowestPriority incoming q m =
     (case evict_scan (uq_items q) (uq_items q) 0 None incoming of
        None \<Rightarrow> (False, q, m)
      | Some i \<Rightarrow> (True, q\<lparr>uq_items := remove_nth i (uq_items q)\<rparr>, RecordUploadDropped m))"

definition mk_item ::
  "(gomap \<Rightarrow> int option) \<Rightarrow> time \<Rightarrow> string \<Rightarrow> gomap \<Rightarrow> upload_priority \<Rightarrow> queued_snapshot" where
  "mk_item jlen now token payload priority =
     \<lparr>qs_Token = token, qs_Payload = payload, qs_Priority = priority,
      qs_TargetID = lookup_str payload ''targetId'', qs_TargetType = lookup_str payload ''targetType'',
      qs_EnqueuedAt = now, qs_Retries = 0,
      qs_SizeBytes = (case jlen payload of None \<Rightarrow> 0 | Some n \<Rightarrow> n)\<rparr>"

definition append_item :: "queued_snapshot \<Rightarrow> upload_queue \<Rightarrow> upload_queue" where
  "append_item x q = q\<lparr>uq_items := uq_items q @ [x]\<rparr>"

definition Enqueue ::
  "(gomap \<Rightarrow> int option) \<Rightarrow> time \<Rightarrow> string \<Rightarrow> gomap \<Rightarrow> upload_priority \<Rightarrow> upload_queue
   \<Rightarrow> metrics_registry \<Rightarrow> bool \<times> upload_queue \<times> metrics_registry" where
  "Enqueue jlen now token payload priority q m =
     (let item = mk_item jlen now token payload priority;
          (room, q1, m1) = (if int (length (uq_items q)) \<ge> uq_maxSize q
                            then evictLowestPriority priority q m else (True, q, m))
      in if \<not> room then (False, q1, RecordUploadDropped m1)
         else (True, append_item item q1,
               SetQueueDepth (length (uq_items (append_item item q1))) m1))"

fun best_scan :: "queued_snapshot list \<Rightarrow> queued_snapshot list \<Rightarrow> nat \<Rightarrow> nat \<Rightarrow> nat" where
  "best_scan items [] i best = best"
| "best_scan items (x # xs) i best =
     (if qs_Priority x < qs_Priority (items ! best) then best_scan items xs (Suc i) i
      else if qs_Priority x = qs_Priority (items ! best)
              \<and> qs_EnqueuedAt x < qs_EnqueuedAt (items ! best)
           then best_scan items xs (Suc i) i
      else best_scan items xs (Suc i) best)"

definition dequeue_items :: "queued_snapshot list \<Rightarrow> (queued_snapshot \<times> queued_snapshot list) option" where
  "dequeue_items items =
     (if items = [] then None
      else let i = best_scan items (tl items) 1 0 in Some (items ! i, remove_nth i items))"

definition dequeue ::
  "upload_queue \<Rightarrow> metrics_registry \<Rightarrow> queued_snapshot option \<times> upload_queue \<times> metrics_registry"
where
  "dequeue q m =
     (case dequeue_items (uq_items q) of
        None \<Rightarrow> (None, q, m)
      | Some (x, rest) \<Rightarrow> (Some x, q\<lparr>uq_items := rest\<rparr>, SetQueueDepth (length rest) m))"

fun double_loop :: "nat \<Rightarrow> duration \<Rightarrow> duration" where
  "double_loop 0 b = b"
| "double_loop (Suc n) b = double_loop n (wrap64 (b * 2))"

definition calculateRetryBackoff :: "int \<Rightarrow> upload_queue \<Rightarrow> duration" where
  "calculateRetryBackoff retries q =
     (let b = double_loop (nat (retries - 1)) (uq_retryBackoff q)
      in if b > uq_maxBackoff q then uq_maxBackoff q else b)"

section \<open>Connectivity state\<close>

text \<open>\<open>markOnline\<close> also tells whether the reconnect callback is started.\<close>

definition markOnline :: "upload_queue \<Rightarrow> bool \<times> upload_queue" where
  "markOnline q =
     (\<not> uq_backendOnline q \<and> uq_hasOnReconnect q,
      q\<lparr>uq_backendOnline := True, uq_offlineSince := zero_time\<rparr>)"

definition markOffline :: "time \<Rightarrow> upload_queue \<Rightarrow> upload_queue" where
  "markOffline now q =
     q\<lparr>uq_offlineSince := (if uq_backendOnline q then now else uq_offlineSince q),
       uq_backendOnline := False\<rparr>"

definition IsBackendOnline :: "upload_queue \<Rightarrow> bool" where
  "IsBackendOnline q = uq_backendOnline q"

text \<open>One round of \<open>probeLoop\<close>: the queue and back-off afterwards, how long the loop sleeps,
  whether the transport was replaced, and whether the reconnect callback is started.
  \<open>probe_ok\<close> is the outcome of the probe, if one is sent.\<close>

record probe_round =
  pb_q :: upload_queue
  pb_backoff :: duration
  pb_sleep :: duration
  pb_reset :: bool
  pb_fired :: bool

definition initial_probe_backoff :: duration where
  "initial_probe_backoff = 30 * second"

definition maxProbeBackoff :: duration where
  "maxProbeBackoff = 5 * minute"

definition next_probe_backoff :: "duration \<Rightarrow> duration" where
  "next_probe_backoff b =
     (if b < maxProbeBackoff then (if b * 2 > maxProbeBackoff then maxProbeBackoff else b * 2) else b)"

definition probe_iter :: "time \<Rightarrow> bool \<Rightarrow> upload_queue \<Rightarrow> duration \<Rightarrow> probe_round" where
  "probe_iter now probe_ok q b =
     (if uq_backendOnline q then
        \<lparr>pb_q = q, pb_backoff = initial_probe_backoff, pb_sleep = 15 * second, pb_reset = False,
         pb_fired = False\<rparr>
      else
        (let reset = (uq_offlineSince q \<noteq> zero_time
                      \<and> time_sub now (uq_offlineSince q) > 2 * minute)
         in if probe_ok then
              \<lparr>pb_q = snd (markOnline q), pb_backoff = initial_probe_backoff,
               pb_sleep = initial_probe_backoff, pb_reset = reset, pb_fired = fst (markOnline q)\<rparr>
            else
              \<lparr>pb_q = q, pb_backoff = next_probe_backoff b, pb_sleep = next_probe_backoff b,
               pb_reset = reset, pb_fired = False\<rparr>))"

section \<open>Replay and classification\<close>

definition replay_payload :: "unsynced_snapshot \<Rightarrow> gomap" where
  "replay_payload s =
     AList.update ''targetType'' (VString (un_TargetType s))
      (AList.update ''targetId'' (VString (un_TargetID s))
       (AList.update ''type'' (VString ''snapshot'')
        (AList.update ''_localSnapshotId'' (VString (un_ID s)) (un_Payload s))))"

fun replay_all ::
  "(gomap \<Rightarrow> int option) \<Rightarrow> time \<Rightarrow> unsynced_snapshot list \<Rightarrow> upload_queue \<Rightarrow> metrics_registry
   \<Rightarrow> upload_queue \<times> metrics_registry" where
  "replay_all jlen now [] q m = (q, m)"
| "replay_all jlen now (s # ss) q m =
     (case Enqueue jlen now (uq_connectorToken q) (replay_payload s) PriorityLow q m of
        (_, q1, m1) \<Rightarrow> replay_all jlen now ss q1 m1)"

definition ReplayUnsynced ::
  "(gomap \<Rightarrow> int option) \<Rightarrow> payload_codec \<Rightarrow> time \<Rightarrow> local_db option \<Rightarrow> upload_queue
   \<Rightarrow> metrics_registry \<Rightarrow> upload_queue \<times> metrics_registry" where
  "ReplayUnsynced jlen cd now db q m = replay_all jlen now (UnsyncedSnapshots cd 50 db) q m"

definition has_alerts :: "gomap \<Rightarrow> bool" where
  "has_alerts payload =
     (case map_of payload ''alerts'' of
        Some (VMapSlice l) \<Rightarrow> l \<noteq> [] | Some (VSlice l) \<Rightarrow> l \<noteq> [] | _ \<Rightarrow> False)"

definition has_degraded :: "gomap \<Rightarrow> bool" where
  "has_degraded payload =
     (case lookup_map payload ''snapshotData'' of
        None \<Rightarrow> False | Some sd \<Rightarrow> map_of sd ''_collection_status'' \<noteq> None)"

definition ClassifySnapshotPriority :: "(gomap \<Rightarrow> int option) \<Rightarrow> gomap \<Rightarrow> upload_priority" where
  "ClassifySnapshotPriority jlen payload =
     (if lookup_str payload ''type'' = ''heartbeat'' then PriorityHigh
      else if has_alerts payload then PriorityHigh
      else if has_degraded payload then PriorityHigh
      else (case jlen payload of
              Some n \<Rightarrow> if n > 500 * 1024 then PriorityLow else PriorityMedium
            | None \<Rightarrow> PriorityMedium))"

section \<open>The upload system\<close>

datatype post_result = PostOK | PostAuthError | PostError

datatype flight = Posting queued_snapshot | Backing queued_snapshot

text \<open>The last four fields only count: calls of \<open>Enqueue\<close>, snapshots deferred after the last
  retry, snapshots a worker held in its back-off when the queue was stopped, and starts of the
  reconnect callback.\<close>

record upload_sys =
  us_q :: upload_queue
  us_m :: metrics_registry
  us_db :: "local_db option"
  us_flights :: "flight list"
  us_attempts :: nat
  us_deferred :: nat
  us_abandoned :: nat
  us_reconnects :: nat

definition us_enqueue ::
  "(gomap \<Rightarrow> int option) \<Rightarrow> time \<Rightarrow> string \<Rightarrow> gomap \<Rightarrow> upload_priority \<Rightarrow> upload_sys \<Rightarrow> upload_sys"
where
  "us_enqueue jlen now token payload pri s =
     (case Enqueue jlen now token payload pri (us_q s) (us_m s) of
        (_, q, m) \<Rightarrow> s\<lparr>us_q := q, us_m := m, us_attempts := Suc (us_attempts s)\<rparr>)"

definition us_replay ::
  "(gomap \<Rightarrow> int option) \<Rightarrow> payload_codec \<Rightarrow> time \<Rightarrow> upload_sys \<Rightarrow> upload_sys" where
  "us_replay jlen cd now s =
     (case ReplayUnsynced jlen cd now (us_db s) (us_q s) (us_m s) of
        (q, m) \<Rightarrow> s\<lparr>us_q := q, us_m := m,
          us_attempts := us_attempts s + length (UnsyncedSnapshots cd 50 (us_db s))\<rparr>)"

text \<open>A worker takes the next item, if there is one.\<close>

definition us_take :: "upload_sys \<Rightarrow> upload_sys" where
  "us_take s =
     (case dequeue (us_q s) (us_m s) of
        (None, q, m) \<Rightarrow> s
      | (Some x, q, m) \<Rightarrow> s\<lparr>us_q := q, us_m := m, us_flights := us_flights s @ [Posting x]\<rparr>)"

definition mark_synced_item :: "string \<Rightarrow> queued_snapshot \<Rightarrow> local_db option \<Rightarrow> local_db option" where
  "mark_synced_item nowtxt x db =
     (case map_of (qs_Payload x) ''_localSnapshotId'' of
        Some (VString sid) \<Rightarrow> if sid \<noteq> '''' then MarkSynced nowtxt sid db else db
      | _ \<Rightarrow> db)"

text \<open>What a worker does with the result of \<open>backend.Post\<close> for the item of flight \<open>i\<close>.\<close>

definition us_posted :: "time \<Rightarrow> string \<Rightarrow> nat \<Rightarrow> post_result \<Rightarrow> upload_sys \<Rightarrow> upload_sys" where
  "us_posted now nowtxt i r s =
     (case us_flights s ! i of
        Backing x \<Rightarrow> s
      | Posting x \<Rightarrow>
          if r = PostOK then
            s\<lparr>us_m := RecordUploadSuccess (qs_SizeBytes x) (us_m s),
              us_q := snd (markOnline (us_q s)),
              us_reconnects := us_reconnects s + (if fst (markOnline (us_q s)) then 1 else 0),
              us_db := mark_synced_item nowtxt x (us_db s),
              us_flights := remove_nth i (us_flights s)\<rparr>
          else
            (let m = RecordUploadFailure (us_m s);
                 q = (if r = PostAuthError then us_q s else markOffline now (us_q s));
                 x' = x\<lparr>qs_Retries := qs_Retries x + 1\<rparr>
             in if qs_Retries x' \<ge> uq_maxRetries q
                then s\<lparr>us_m := m, us_q := q, us_deferred := Suc (us_deferred s),
                       us_flights := remove_nth i (us_flights s)\<rparr>
                else s\<lparr>us_m := m, us_q := q, us_flights := (us_flights s)[i := Backing x']\<rparr>))"

text \<open>After its back-off the worker puts the item back, or drops it when the queue is full.\<close>

definition us_requeue :: "nat \<Rightarrow> upload_sys \<Rightarrow> upload_sys" where
  "us_requeue i s =
     (case us_flights s ! i of
        Posting x \<Rightarrow> s
      | Backing x \<Rightarrow>
          if int (length (uq_items (us_q s))) < uq_maxSize (us_q s)
          then s\<lparr>us_q := append_item x (us_q s),
                 us_m := SetQueueDepth (length (uq_items (append_item x (us_q s)))) (us_m s),
                 us_flights := remove_nth i (us_flights s)\<rparr>
          else s\<lparr>us_m := RecordUploadDropped (us_m s),
                 us_flights := remove_nth i (us_flights s)\<rparr>)"

definition us_abandon :: "nat \<Rightarrow> upload_sys \<Rightarrow> upload_sys" where
  "us_abandon i s =
     (case us_flights s ! i of
        Posting x \<Rightarrow> s
      | Backing x \<Rightarrow> s\<lparr>us_abandoned := Suc (us_abandoned s),
                        us_flights := remove_nth i (us_flights s)\<rparr>)"

definition us_probe :: "time \<Rightarrow> bool \<Rightarrow> duration \<Rightarrow> upload_sys \<Rightarrow> upload_sys" where
  "us_probe now ok b s =
     (let r = probe_iter now ok (us_q s) b
      in s\<lparr>us_q := pb_q r, us_reconnects := us_reconnects s + (if pb_fired r then 1 else 0)\<rparr>)"

inductive upload_step ::
  "(gomap \<Rightarrow> int option) \<Rightarrow> payload_codec \<Rightarrow> upload_sys \<Rightarrow> upload_sys \<Rightarrow> bool"
  for jlen :: "gomap \<Rightarrow> int option" and cd :: payload_codec where
  enqueue: "upload_step jlen cd s (us_enqueue jlen now token payload pri s)"
| replay: "upload_step jlen cd s (us_replay jlen cd now s)"
| take: "upload_step jlen cd s (us_take s)"
| posted: "i < length (us_flights s) \<Longrightarrow> upload_step jlen cd s (us_posted now nowtxt i r s)"
| requeue: "i < length (us_flights s) \<Longrightarrow> upload_step jlen cd s (us_requeue i s)"
| abandon: "i < length (us_flights s) \<Longrightarrow> upload_step jlen cd s (us_abandon i s)"
| probe: "upload_step jlen cd s (us_probe now ok b s)"

text \<open>The queue as main.go sets it up: its connector token and its reconnect callback.\<close>

definition upload_init ::
  "upload_queue_config \<Rightarrow> string \<Rightarrow> bool \<Rightarrow> local_db option \<Rightarrow> upload_sys" where
  "upload_init cfg token hasfn db =
     \<lparr>us_q = (SetOnReconnect hasfn (NewUploadQueue cfg))\<lparr>uq_connectorToken := token\<rparr>, us_m = NewMetricsRegistry, us_db = db, us_flights = [],
      us_attempts = 0, us_deferred = 0, us_abandoned = 0, us_reconnects = 0\<rparr>"

inductive upload_reach ::
  "(gomap \<Rightarrow> int option) \<Rightarrow> payload_codec \<Rightarrow> upload_sys \<Rightarrow> upload_sys \<Rightarrow> bool"
  for jlen :: "gomap \<Rightarrow> int option" and cd :: payload_codec and s0 :: upload_sys where
  start: "upload_reach jlen cd s0 s0"
| step: "upload_reach jlen cd s0 s \<Longrightarrow> upload_step jlen cd s t \<Longrightarrow> upload_reach jlen cd s0 t"

section \<open>Eviction takes the oldest of the least important items\<close>

definition evict_inv ::
  "queued_snapshot list \<Rightarrow> queued_snapshot list \<Rightarrow> upload_priority \<Rightarrow> nat option \<Rightarrow> upload_priority \<Rightarrow> bool"
where
  "evict_inv items seen incoming lo pri =
     (case lo of
        None \<Rightarrow> pri = incoming \<and> (\<forall>y \<in> set seen. qs_Priority y \<le> incoming)
      | Some j \<Rightarrow> j < length seen \<and> qs_Priority (items ! j) = pri \<and> incoming < pri \<and>
          (\<forall>y \<in> set seen. qs_Priority y < pri \<or>
             (qs_Priority y = pri \<and> qs_EnqueuedAt (items ! j) \<le> qs_EnqueuedAt y)))"

lemma evict_scan_inv:
  assumes "items = seen @ xs" and "evict_inv items seen incoming lo pri"
  shows "\<exists>pri'. evict_inv items items incoming (evict_scan items xs (length seen) lo pri) pri'"
  using assms
proof (induction xs arbitrary: seen lo pri)
  case Nil
  then show ?case by auto
next
  case (Cons x xs)
  have items: "items = (seen @ [x]) @ xs" using Cons.prems(1) by simp
  have x: "items ! length seen = x" using Cons.prems(1) by simp
  have step: "evict_inv items (seen @ [x]) incoming lo' pri' \<Longrightarrow>
      \<exists>p. evict_inv items items incoming (evict_scan items xs (Suc (length seen)) lo' pri') p"
    for lo' pri' using Cons.IH [OF items] by simp
  show ?case
  proof (cases "qs_Priority x > pri")
    case True
    have "evict_inv items (seen @ [x]) incoming (Some (length seen)) (qs_Priority x)"
      using Cons.prems(2) True x by (auto simp: evict_inv_def split: option.splits)
    from step [OF this] True show ?thesis by simp
  next
    case False
    note gt = False
    show ?thesis
    proof (cases lo)
      case None
      have "evict_inv items (seen @ [x]) incoming None pri"
        using Cons.prems(2) gt None by (auto simp: evict_inv_def)
      from step [OF this] gt None show ?thesis by simp
    next
      case (Some j)
      let ?older = "qs_Priority x = pri \<and> qs_EnqueuedAt x < qs_EnqueuedAt (items ! j)"
      have "evict_inv items (seen @ [x]) incoming (if ?older then Some (length seen) else Some j) pri"
        using Cons.prems(2) gt Some x by (auto simp: evict_inv_def)
      from step [OF this] gt Some show ?thesis by (auto split: if_splits)
    qed
  qed
qed

lemma evict_scan_spec:
  "\<exists>pri. evict_inv items items incoming (evict_scan items items 0 None incoming) pri"
  using evict_scan_inv [of items "[]" items incoming None incoming] by (simp add: evict_inv_def)

lemma evict_scan_None:
  "evict_scan items items 0 None incoming = None \<longleftrightarrow> (\<forall>y \<in> set items. qs_Priority y \<le> incoming)"
proof -
  obtain pri where e: "evict_inv items items incoming (evict_scan items items 0 None incoming) pri"
    using evict_scan_spec by blast
  show ?thesis
  proof (cases "evict_scan items items 0 None incoming")
    case None
    with e show ?thesis by (simp add: evict_inv_def)
  next
    case (Some j)
    with e have "j < length items" and "incoming < qs_Priority (items ! j)"
      by (auto simp: evict_inv_def)
    then have "\<exists>y \<in> set items. incoming < qs_Priority y" by (meson nth_mem)
    with Some show ?thesis by fastforce
  qed
qed

lemma evict_scan_Some:
  assumes "evict_scan items items 0 None incoming = Some j"
  shows "j < length items" and "incoming < qs_Priority (items ! j)"
    and "\<And>y. y \<in> set items \<Longrightarrow> qs_Priority y < qs_Priority (items ! j) \<or>
       (qs_Priority y = qs_Priority (items ! j) \<and> qs_EnqueuedAt (items ! j) \<le> qs_EnqueuedAt y)"
  using evict_scan_spec [of items incoming] assms by (auto simp: evict_inv_def)

section \<open>Dequeue serves the most important, then the oldest\<close>

definition upload_key :: "queued_snapshot \<Rightarrow> int \<times> int" where
  "upload_key x = (qs_Priority x, qs_EnqueuedAt x)"

lemma best_scan_spec:
  assumes "items = seen @ xs" and "best < length seen"
    and "\<forall>y \<in> set seen. upload_key (items ! best) \<le> upload_key y"
  shows "best_scan items xs (length seen) best < length items \<and>
    (\<forall>y \<in> set items. upload_key (items ! best_scan items xs (length seen) best) \<le> upload_key y)"
  using assms
proof (induction xs arbitrary: seen best)
  case Nil
  then show ?case by simp
next
  case (Cons x xs)
  have items: "items = (seen @ [x]) @ xs" using Cons.prems(1) by simp
  have x: "items ! length seen = x" using Cons.prems(1) by simp
  let ?b = "if upload_key x < upload_key (items ! best) then length seen else best"
  have "?b < length (seen @ [x])" using Cons.prems(2) by simp
  moreover have "\<forall>y \<in> set (seen @ [x]). upload_key (items ! ?b) \<le> upload_key y"
    using Cons.prems(3) x by (auto simp: less_imp_le intro: order_trans)
  ultimately have "best_scan items xs (length (seen @ [x])) ?b < length items \<and>
    (\<forall>y \<in> set items. upload_key (items ! best_scan items xs (length (seen @ [x])) ?b) \<le> upload_key y)"
    by (rule Cons.IH [OF items])
  moreover have "best_scan items (x # xs) (length seen) best =
      best_scan items xs (length (seen @ [x])) ?b"
    by (auto simp: upload_key_def less_prod_def)
  ultimately show ?case by simp
qed

lemma dequeue_items_spec:
  assumes "dequeue_items items = Some (x, rest)"
  shows "mset items = add_mset x (mset rest) \<and> (\<forall>y \<in> set items. upload_key x \<le> upload_key y)"
proof -
  from assms have ne: "items \<noteq> []" by (auto simp: dequeue_items_def)
  define i where "i = best_scan items (tl items) 1 0"
  have x: "x = items ! i" and rest: "rest = remove_nth i items"
    using assms ne by (auto simp: dequeue_items_def Let_def i_def)
  from ne have "items = [hd items] @ tl items" by simp
  moreover have "\<forall>y \<in> set [hd items]. upload_key (items ! 0) \<le> upload_key y"
    using ne by (simp add: hd_conv_nth)
  ultimately have i: "i < length items"
    and least: "\<forall>y \<in> set items. upload_key (items ! i) \<le> upload_key y"
    using best_scan_spec [of items "[hd items]" "tl items" 0] by (auto simp: i_def)
  from mset_remove_nth [OF i] x rest least show ?thesis by simp
qed

interpretation uq_buffer: served_buffer dequeue_items mset upload_key
proof
  fix q :: "queued_snapshot list"
  show "dequeue_items q = None \<longleftrightarrow> mset q = {#}"
    by (simp add: dequeue_items_def Let_def)
next
  fix q x q'
  assume "dequeue_items q = Some (x, q')"
  then show "mset q = add_mset x (mset q')" by (simp add: dequeue_items_spec)
next
  fix q x q' y
  assume d: "dequeue_items q = Some (x, q')" and y: "y \<in># mset q'"
  have "y \<in># mset q" using dequeue_items_spec [OF d] y by simp
  then have "y \<in> set q" by (simp only: set_mset_mset)
  then show "upload_key x \<le> upload_key y" using dequeue_items_spec [OF d] by blast
qed

section \<open>Invariant of the upload system\<close>

definition same_config :: "upload_queue \<Rightarrow> upload_queue \<Rightarrow> bool" where
  "same_config q q' \<longleftrightarrow> uq_maxSize q' = uq_maxSize q \<and> uq_maxRetries q' = uq_maxRetries q \<and>
     uq_workerCount q' = uq_workerCount q \<and> uq_retryBackoff q' = uq_retryBackoff q \<and>
     uq_maxBackoff q' = uq_maxBackoff q \<and> uq_connectorToken q' = uq_connectorToken q \<and>
     uq_hasOnReconnect q' = uq_hasOnReconnect q"

definition retries_ok :: "upload_queue \<Rightarrow> queued_snapshot \<Rightarrow> bool" where
  "retries_ok q x \<longleftrightarrow> 0 \<le> qs_Retries x \<and> qs_Retries x < uq_maxRetries q"

definition queue_ok :: "upload_queue \<Rightarrow> bool" where
  "queue_ok q \<longleftrightarrow> 0 < uq_maxSize q \<and> 0 < uq_maxRetries q \<and>
     int (length (uq_items q)) \<le> uq_maxSize q \<and> list_all (retries_ok q) (uq_items q)"

fun flight_item :: "flight \<Rightarrow> queued_snapshot" where
  "flight_item (Posting x) = x"
| "flight_item (Backing x) = x"

text \<open>Every snapshot handed to \<open>Enqueue\<close> is accounted for: it is queued, in a worker's hands,
  delivered, deferred, dropped, or was in a worker's hands at shutdown.\<close>

definition accounted :: "upload_sys \<Rightarrow> bool" where
  "accounted s \<longleftrightarrow>
     (of_nat (us_attempts s) :: 64 word) =
       of_nat (length (uq_items (us_q s))) + of_nat (length (us_flights s))
       + mr_uploadsSuccess (us_m s) + mr_uploadsDropped (us_m s)
       + of_nat (us_deferred s) + of_nat (us_abandoned s)"

definition upload_inv :: "upload_sys \<Rightarrow> bool" where
  "upload_inv s \<longleftrightarrow> queue_ok (us_q s) \<and>
     list_all (\<lambda>f. retries_ok (us_q s) (flight_item f)) (us_flights s) \<and>
     accounted s \<and> metrics_ok (us_m s)"

lemma evict_facts:
  assumes "evictLowestPriority incoming q m = (ok, q', m')"
  shows "same_config q q'" and "set (uq_items q') \<subseteq> set (uq_items q)"
    and "mr_uploadsSuccess m' = mr_uploadsSuccess m"
    and "length (uq_items q') = (if ok then length (uq_items q) - 1 else length (uq_items q))"
    and "ok \<Longrightarrow> uq_items q \<noteq> []"
    and "mr_uploadsDropped m' = mr_uploadsDropped m + (if ok then 1 else 0)"
    and "metrics_ok m \<Longrightarrow> metrics_ok m'"
  using assms subsetD [OF set_remove_nth]
  by (auto simp: evictLowestPriority_def same_config_def length_remove_nth metrics_upload_defs
      metrics_ok_def evict_scan_Some(1) split: option.splits)

lemma Enqueue_cases:
  assumes "Enqueue jlen now token payload pri q m = (ok, q', m')"
  obtains (rejected) "\<not> ok" "uq_maxSize q \<le> int (length (uq_items q))" "q' = q"
      "evict_scan (uq_items q) (uq_items q) 0 None pri = None" "m' = RecordUploadDropped m"
  | (room) "ok" "int (length (uq_items q)) < uq_maxSize q"
      "q' = append_item (mk_item jlen now token payload pri) q"
      "m' = SetQueueDepth (length (uq_items q')) m"
  | (evicted) i where "ok" "uq_maxSize q \<le> int (length (uq_items q))"
      "evict_scan (uq_items q) (uq_items q) 0 None pri = Some i"
      "q' = q\<lparr>uq_items := remove_nth i (uq_items q) @ [mk_item jlen now token payload pri]\<rparr>"
      "m' = SetQueueDepth (length (uq_items q')) (RecordUploadDropped m)"
  using assms
  by (cases "int (length (uq_items q)) \<ge> uq_maxSize q";
      cases "evict_scan (uq_items q) (uq_items q) 0 None pri")
    (auto simp: Enqueue_def Let_def evictLowestPriority_def append_item_def)

lemma Enqueue_facts:
  assumes "Enqueue jlen now token payload pri q m = (ok, q', m')" and "queue_ok q"
  shows "same_config q q'" and "queue_ok q'"
    and "of_nat (length (uq_items q')) + mr_uploadsDropped m' =
         of_nat (length (uq_items q)) + mr_uploadsDropped m + (1 :: 64 word)"
    and "mr_uploadsSuccess m' = mr_uploadsSuccess m"
    and "metrics_ok m \<Longrightarrow> metrics_ok m'"
proof -
  have new: "retries_ok q (mk_item jlen now token payload pri)"
    using assms(2) by (simp add: retries_ok_def queue_ok_def mk_item_def)
  have facts: "same_config q q' \<and> queue_ok q' \<and>
      of_nat (length (uq_items q')) + mr_uploadsDropped m' =
         of_nat (length (uq_items q)) + mr_uploadsDropped m + (1 :: 64 word)
      \<and> mr_uploadsSuccess m' = mr_uploadsSuccess m \<and> (metrics_ok m \<longrightarrow> metrics_ok m')"
    using assms(1)
  proof (cases rule: Enqueue_cases)
    case rejected
    with assms(2) show ?thesis
      by (auto simp: same_config_def metrics_upload_defs metrics_ok_def)
  next
    case room
    with assms(2) new show ?thesis
      by (auto simp: same_config_def queue_ok_def append_item_def metrics_upload_defs
          metrics_ok_def list_all_iff retries_ok_def)
  next
    case (evicted i)
    have i: "i < length (uq_items q)" using evict_scan_Some(1) [OF evicted(3)] .
    then have "length (uq_items q') = length (uq_items q)"
      using evicted by (simp add: length_remove_nth)
    with evicted assms(2) new i show ?thesis
      by (auto simp: same_config_def queue_ok_def metrics_upload_defs metrics_ok_def
          list_all_iff retries_ok_def length_remove_nth dest: remove_nth_subset)
  qed
  then show "same_config q q'" and "queue_ok q'"
    and "of_nat (length (uq_items q')) + mr_uploadsDropped m' =
         of_nat (length (uq_items q)) + mr_uploadsDropped m + (1 :: 64 word)"
    and "mr_uploadsSuccess m' = mr_uploadsSuccess m"
    and "metrics_ok m \<Longrightarrow> metrics_ok m'" by auto
qed

lemma same_config_trans: "same_config q q' \<Longrightarrow> same_config q' q'' \<Longrightarrow> same_config q q''"
  by (simp add: same_config_def)

lemma retries_ok_cong: "same_config q q' \<Longrightarrow> retries_ok q' x = retries_ok q x"
  by (simp add: same_config_def retries_ok_def)

lemma replay_all_facts:
  assumes "replay_all jlen now ss q m = (q', m')" and "queue_ok q"
  shows "same_config q q' \<and> queue_ok q' \<and>
    of_nat (length (uq_items q')) + mr_uploadsDropped m' =
         of_nat (length (uq_items q)) + mr_uploadsDropped m + (of_nat (length ss) :: 64 word)
    \<and> mr_uploadsSuccess m' = mr_uploadsSuccess m \<and> (metrics_ok m \<longrightarrow> metrics_ok m')"
  using assms
proof (induction ss arbitrary: q m)
  case Nil
  then show ?case by (auto simp: same_config_def)
next
  case (Cons x ss)
  obtain ok q1 m1 where e:
    "Enqueue jlen now (uq_connectorToken q) (replay_payload x) PriorityLow q m = (ok, q1, m1)"
    by (metis prod_cases3)
  note f = Enqueue_facts [OF e Cons.prems(2)]
  from Cons.prems(1) e have "replay_all jlen now ss q1 m1 = (q', m')" by simp
  from Cons.IH [OF this f(2)] f show ?case
    by (auto simp: algebra_simps intro: same_config_trans)
qed

lemma us_enqueue_inv [uq_inv]:
  assumes "upload_inv s" shows "upload_inv (us_enqueue jlen now token payload pri s)"
proof -
  obtain ok q m where e: "Enqueue jlen now token payload pri (us_q s) (us_m s) = (ok, q, m)"
    by (metis prod_cases3)
  have "queue_ok (us_q s)" using assms by (simp add: upload_inv_def)
  note f = Enqueue_facts [OF e this]
  from assms f e show ?thesis
    by (auto simp: upload_inv_def us_enqueue_def accounted_def list_all_iff algebra_simps
        retries_ok_cong [OF f(1)])
qed

lemma us_replay_inv [uq_inv]:
  assumes "upload_inv s" shows "upload_inv (us_replay jlen cd now s)"
proof -
  obtain q m where e: "replay_all jlen now (UnsyncedSnapshots cd 50 (us_db s)) (us_q s) (us_m s) = (q, m)"
    by (metis prod.exhaust)
  have "queue_ok (us_q s)" using assms by (simp add: upload_inv_def)
  note f = replay_all_facts [OF e this]
  then have sc: "same_config (us_q s) q" by simp
  from assms f e show ?thesis
    by (auto simp: upload_inv_def us_replay_def ReplayUnsynced_def accounted_def list_all_iff
        algebra_simps retries_ok_cong [OF sc])
qed

lemma dequeue_items_length:
  "dequeue_items items = Some (x, rest) \<Longrightarrow> length items = Suc (length rest) \<and>
   x \<in> set items \<and> set rest \<subseteq> set items"
proof -
  assume "dequeue_items items = Some (x, rest)"
  then have e: "mset items = add_mset x (mset rest)" by (simp add: dequeue_items_spec)
  then have "size (mset items) = Suc (size (mset rest))" by simp
  moreover have "set_mset (mset items) = insert x (set_mset (mset rest))" using e by simp
  ultimately show ?thesis by auto
qed

lemma us_take_inv [uq_inv]:
  assumes "upload_inv s" shows "upload_inv (us_take s)"
proof (cases "dequeue_items (uq_items (us_q s))")
  case None
  with assms show ?thesis by (simp add: us_take_def dequeue_def)
next
  case (Some p)
  then obtain x rest where d: "dequeue_items (uq_items (us_q s)) = Some (x, rest)"
    by (cases p) auto
  have "of_nat (length (uq_items (us_q s))) = (of_nat (length rest) + 1 :: 64 word)"
    using dequeue_items_length [OF d] by simp
  with assms d dequeue_items_length [OF d] show ?thesis
    by (auto simp: us_take_def dequeue_def upload_inv_def queue_ok_def accounted_def
        metrics_upload_defs metrics_ok_def list_all_iff retries_ok_def)
qed

lemma flight_remove_length:
  "i < length fs \<Longrightarrow> (of_nat (length fs) :: 64 word) = of_nat (length (remove_nth i fs)) + 1"
proof -
  assume "i < length fs"
  then have "length fs = Suc (length (remove_nth i fs))" by (simp add: length_remove_nth)
  then have "(of_nat (length fs) :: 64 word) = of_nat (Suc (length (remove_nth i fs)))" by (rule arg_cong)
  then show ?thesis by simp
qed

lemma list_all_remove_nth: "list_all P xs \<Longrightarrow> list_all P (remove_nth i xs)"
  by (auto simp: list_all_iff dest: remove_nth_subset)

lemma list_all_update: "list_all P xs \<Longrightarrow> P x \<Longrightarrow> list_all P (xs[i := x])"
  by (auto simp: list_all_iff dest: set_update_subset_insert [THEN subsetD])

lemma mark_items [simp]:
  "uq_items (snd (markOnline q)) = uq_items q" "uq_items (markOffline t q) = uq_items q"
  by (simp_all add: markOnline_def markOffline_def)

lemma mark_config [simp]:
  "same_config q (snd (markOnline q))" "same_config q (markOffline t q)"
  by (simp_all add: markOnline_def markOffline_def same_config_def)

lemma mark_retries [simp]:
  "retries_ok (snd (markOnline q)) x = retries_ok q x"
  "retries_ok (markOffline t q) x = retries_ok q x"
  by (simp_all add: retries_ok_cong)

lemma mark_queue_ok [simp]:
  "queue_ok (snd (markOnline q)) = queue_ok q" "queue_ok (markOffline t q) = queue_ok q"
  by (simp_all add: queue_ok_def markOnline_def markOffline_def list_all_iff retries_ok_def)

lemma us_posted_inv [uq_inv]:
  assumes "upload_inv s" and i: "i < length (us_flights s)"
  shows "upload_inv (us_posted now nowtxt i r s)"
proof (cases "us_flights s ! i")
  case (Backing x)
  with assms show ?thesis by (simp add: us_posted_def)
next
  case (Posting x)
  have x: "retries_ok (us_q s) x"
    using assms Posting unfolding upload_inv_def list_all_length by (metis flight_item.simps(1))
  define q where "q = (if r = PostAuthError then us_q s else markOffline now (us_q s))"
  have q: "queue_ok q = queue_ok (us_q s)" "uq_items q = uq_items (us_q s)"
    "\<And>y. retries_ok q y = retries_ok (us_q s) y" "uq_maxRetries q = uq_maxRetries (us_q s)"
    by (simp_all add: q_def markOffline_def queue_ok_def list_all_iff retries_ok_def)
  show ?thesis
  proof (cases "r = PostOK")
    case True
    with assms Posting show ?thesis
      by (simp add: us_posted_def upload_inv_def accounted_def flight_remove_length [OF i]
          metrics_ok_upload list_all_remove_nth) (simp add: RecordUploadSuccess_def)
  next
    case False
    have m: "mr_uploadsSuccess (RecordUploadFailure (us_m s)) = mr_uploadsSuccess (us_m s)"
      "mr_uploadsDropped (RecordUploadFailure (us_m s)) = mr_uploadsDropped (us_m s)"
      by (simp_all add: RecordUploadFailure_def)
    show ?thesis
    proof (cases "qs_Retries x + 1 \<ge> uq_maxRetries (us_q s)")
      case True
      with assms Posting False m q show ?thesis
        by (simp add: us_posted_def q_def [symmetric] Let_def upload_inv_def accounted_def
            flight_remove_length [OF i] metrics_ok_upload list_all_remove_nth)
    next
      case nomax: False
      with x have "retries_ok (us_q s) (x\<lparr>qs_Retries := qs_Retries x + 1\<rparr>)"
        by (simp add: retries_ok_def)
      with assms Posting False m q nomax show ?thesis
        by (simp add: us_posted_def q_def [symmetric] Let_def upload_inv_def accounted_def
            metrics_ok_upload list_all_update)
    qed
  qed
qed

lemma us_requeue_inv [uq_inv]:
  assumes "upload_inv s" and i: "i < length (us_flights s)"
  shows "upload_inv (us_requeue i s)"
proof (cases "us_flights s ! i")
  case (Posting x)
  with assms show ?thesis by (simp add: us_requeue_def)
next
  case (Backing x)
  have x: "retries_ok (us_q s) x"
    using assms Backing unfolding upload_inv_def list_all_length by (metis flight_item.simps(2))
  show ?thesis
  proof (cases "int (length (uq_items (us_q s))) < uq_maxSize (us_q s)")
    case True
    with assms(1) Backing x show ?thesis
      by (auto simp: us_requeue_def upload_inv_def accounted_def flight_remove_length [OF i]
          list_all_iff queue_ok_def append_item_def retries_ok_def metrics_upload_defs metrics_ok_def
          dest: remove_nth_subset)
  next
    case False
    with assms(1) Backing show ?thesis
      by (auto simp: us_requeue_def upload_inv_def accounted_def flight_remove_length [OF i]
          metrics_ok_def RecordUploadDropped_def list_all_iff dest: remove_nth_subset)
  qed
qed

lemma us_abandon_inv [uq_inv]:
  assumes "upload_inv s" and i: "i < length (us_flights s)"
  shows "upload_inv (us_abandon i s)"
  using assms(1)
  by (auto simp: us_abandon_def upload_inv_def accounted_def flight_remove_length [OF i]
      list_all_remove_nth split: flight.split)

lemma us_probe_inv [uq_inv]:
  assumes "upload_inv s" shows "upload_inv (us_probe now ok b s)"
  using assms by (auto simp: us_probe_def probe_iter_def Let_def upload_inv_def accounted_def)

lemma upload_step_inv: "upload_step jlen cd s t \<Longrightarrow> upload_inv s \<Longrightarrow> upload_inv t"
  by (induction rule: upload_step.induct) (simp_all add: uq_inv)

lemma upload_init_inv: "upload_inv (upload_init cfg token hasfn db)"
  by (simp add: upload_inv_def upload_init_def queue_ok_def accounted_def NewUploadQueue_def
      SetOnReconnect_def metrics_ok_new) (simp add: NewMetricsRegistry_def)

lemma upload_reach_inv: "upload_reach jlen cd s0 s \<Longrightarrow> upload_inv s0 \<Longrightarrow> upload_inv s"
  by (induction rule: upload_reach.induct) (auto intro: upload_step_inv)

section \<open>Properties\<close>

lemma upload_reach_config:
  "upload_reach jlen cd s0 s \<Longrightarrow> queue_ok (us_q s0) \<Longrightarrow> upload_inv s0 \<Longrightarrow> same_config (us_q s0) (us_q s)"
proof (induction rule: upload_reach.induct)
  case start
  then show ?case by (simp add: same_config_def)
next
  case (step s t)
  have inv: "queue_ok (us_q s)"
    using upload_reach_inv [OF step.hyps(1) step.prems(2)] by (simp add: upload_inv_def)
  have "same_config (us_q s) (us_q t)"
    using step.hyps(2)
  proof cases
    case (enqueue now token payload pri)
    obtain ok q m where e: "Enqueue jlen now token payload pri (us_q s) (us_m s) = (ok, q, m)"
      by (metis prod_cases3)
    with Enqueue_facts(1) [OF e inv] enqueue show ?thesis by (simp add: us_enqueue_def)
  next
    case (replay now)
    obtain q m where
      e: "replay_all jlen now (UnsyncedSnapshots cd 50 (us_db s)) (us_q s) (us_m s) = (q, m)"
      by (metis prod.exhaust)
    with replay_all_facts [OF e inv] replay show ?thesis
      by (simp add: us_replay_def ReplayUnsynced_def)
  qed (auto simp: us_take_def dequeue_def us_posted_def us_requeue_def us_abandon_def us_probe_def
      probe_iter_def Let_def same_config_def append_item_def markOnline_def markOffline_def
      split: option.splits flight.splits)
  with step.IH [OF step.prems] show ?case by (rule same_config_trans)
qed

text \<open>C2: In every state the upload system can reach from its set-up, under any interleaving of
  callers, upload workers, the probe loop and shutdown, the queue never holds more than its
  configured size, no item has used up its retries, and every snapshot ever handed to
  \<open>Enqueue\<close> is accounted for: queued, in a worker's hands, delivered, dropped (counted),
  deferred, or abandoned at shutdown (counters modulo \<open>2^64\<close>, as the code keeps them).\<close>

theorem upload_accounting:
  assumes "upload_reach jlen cd (upload_init cfg token hasfn db) s"
  shows "int (Depth (us_q s)) \<le> uq_maxSize (NewUploadQueue cfg)
    \<and> list_all (\<lambda>x. qs_Retries x < uq_maxRetries (NewUploadQueue cfg)) (uq_items (us_q s))
    \<and> (of_nat (us_attempts s) :: 64 word) =
       of_nat (Depth (us_q s)) + of_nat (length (us_flights s))
       + mr_uploadsSuccess (us_m s) + mr_uploadsDropped (us_m s)
       + of_nat (us_deferred s) + of_nat (us_abandoned s)"
proof -
  have inv: "upload_inv s" using upload_reach_inv [OF assms upload_init_inv] .
  have "same_config (us_q (upload_init cfg token hasfn db)) (us_q s)"
    using upload_reach_config [OF assms _ upload_init_inv] upload_init_inv
    by (simp add: upload_inv_def)
  then have "uq_maxSize (us_q s) = uq_maxSize (NewUploadQueue cfg)"
    and "uq_maxRetries (us_q s) = uq_maxRetries (NewUploadQueue cfg)"
    by (simp_all add: same_config_def upload_init_def SetOnReconnect_def)
  with inv show ?thesis
    by (auto simp: upload_inv_def queue_ok_def accounted_def Depth_def list_all_iff retries_ok_def)
qed

theorem upload_accounting_witness:
  "int (Depth (us_q (us_take (us_enqueue (\<lambda>_. Some 9) 5 ''t'' [] PriorityLow
      (upload_init DefaultUploadQueueConfig ''t'' True None))))) \<le> 100"
proof -
  let ?s0 = "upload_init DefaultUploadQueueConfig ''t'' True None"
  let ?s1 = "us_enqueue (\<lambda>_. Some 9) 5 ''t'' [] PriorityLow ?s0"
  let ?cd = "\<lparr>pc_marshal = (\<lambda>_. None), pc_unmarshal = (\<lambda>_. None), pc_encrypt = Some,
              pc_decrypt = Some\<rparr>"
  have "upload_reach (\<lambda>_. Some 9) ?cd ?s0 ?s1"
    by (rule upload_reach.step [OF upload_reach.start upload_step.enqueue])
  then have "upload_reach (\<lambda>_. Some 9) ?cd ?s0 (us_take ?s1)"
    by (rule upload_reach.step [OF _ upload_step.take])
  from upload_accounting [OF this] show ?thesis
    by (simp add: NewUploadQueue_def DefaultUploadQueueConfig_def)
qed

text \<open>A full queue accepts a snapshot exactly when it holds a less important one, and then
  it gives up the oldest of the least important items and nothing else; otherwise the queue is
  unchanged and the drop is counted.\<close>

theorem Enqueue_full:
  assumes "Enqueue jlen now token payload pri q m = (ok, q', m')"
    and "uq_maxSize q \<le> int (length (uq_items q))"
  shows "(ok \<longleftrightarrow> (\<exists>y \<in> set (uq_items q). pri < qs_Priority y))
    \<and> (if ok
       then \<exists>v \<in> set (uq_items q).
              (\<forall>y \<in> set (uq_items q). qs_Priority y < qs_Priority v \<or>
                 (qs_Priority y = qs_Priority v \<and> qs_EnqueuedAt v \<le> qs_EnqueuedAt y))
              \<and> add_mset v (mset (uq_items q')) =
                 add_mset (mk_item jlen now token payload pri) (mset (uq_items q))
       else q' = q \<and> mr_uploadsDropped m' = mr_uploadsDropped m + 1)"
  using assms(1)
proof (cases rule: Enqueue_cases)
  case rejected
  then show ?thesis by (auto simp: evict_scan_None RecordUploadDropped_def not_less)
next
  case room
  with assms(2) show ?thesis by simp
next
  case (evicted i)
  note i = evict_scan_Some [OF evicted(3)]
  have "mset (uq_items q) = add_mset (uq_items q ! i) (mset (remove_nth i (uq_items q)))"
    by (rule mset_remove_nth [OF i(1)])
  with evicted i show ?thesis
    by (auto intro!: bexI [of _ "uq_items q ! i"] simp: add_mset_commute)
qed

definition demo_item :: "upload_priority \<Rightarrow> time \<Rightarrow> queued_snapshot" where
  "demo_item pri t = mk_item (\<lambda>_. Some 9) t ''tok'' [] pri"

definition demo_queue :: "queued_snapshot list \<Rightarrow> upload_queue" where
  "demo_queue xs = (NewUploadQueue DefaultUploadQueueConfig)\<lparr>uq_items := xs, uq_maxSize := 2\<rparr>"

theorem Enqueue_full_witness:
  "fst (Enqueue (\<lambda>_. Some 9) 8 ''tok'' [] PriorityHigh
     (demo_queue [demo_item PriorityMedium 1, demo_item PriorityLow 3]) NewMetricsRegistry)"
proof -
  let ?q = "demo_queue [demo_item PriorityMedium 1, demo_item PriorityLow 3]"
  obtain ok q' m' where
    e: "Enqueue (\<lambda>_. Some 9) 8 ''tok'' [] PriorityHigh ?q NewMetricsRegistry = (ok, q', m')"
    by (metis prod_cases3)
  have "uq_maxSize ?q \<le> int (length (uq_items ?q))" by (simp add: demo_queue_def)
  from Enqueue_full [OF e this] have "ok"
    by (auto simp: demo_queue_def demo_item_def mk_item_def priority_defs)
  with e show ?thesis by simp
qed

text \<open>C14: Dequeuing until the queue is empty serves exactly the queued snapshots, by increasing
  priority number and, within one priority, by the time they were enqueued.\<close>

theorem dequeue_order:
  "mset (fst (drain dequeue_items (length items) items)) = mset items
   \<and> sorted (map upload_key (fst (drain dequeue_items (length items) items)))"
proof -
  obtain xs r where e: "drain dequeue_items (length items) items = (xs, r)"
    by (metis prod.exhaust)
  have "mset xs = mset items \<and> sorted (map upload_key xs)"
    by (rule uq_buffer.drain_all [OF e]) simp
  with e show ?thesis by simp
qed

lemma double_loop_exact:
  "0 < b \<Longrightarrow> b * 2 ^ n \<le> max_duration \<Longrightarrow> double_loop n b = b * 2 ^ n"
proof (induction n arbitrary: b)
  case 0
  then show ?case by simp
next
  case (Suc n)
  have "b * 2 * 1 \<le> b * 2 * 2 ^ n" using Suc.prems(1) by (intro mult_left_mono) auto
  moreover have "b * 2 * 2 ^ n \<le> max_duration" using Suc.prems(2) by (simp add: mult.assoc)
  ultimately have "b * 2 \<le> max_duration" by linarith
  with Suc.prems(1) have "wrap64 (b * 2) = b * 2"
    by (intro wrap64_id) (auto simp: min_duration_def)
  with Suc.IH [of "b * 2"] Suc.prems show ?case by simp
qed

text \<open>While doubling does not leave the int64 range, the wait before the n-th retry is the
  initial back-off doubled n-1 times, capped at the maximum.\<close>

theorem retry_backoff_exact:
  assumes "1 \<le> retries" and "0 < uq_retryBackoff q"
    and "uq_retryBackoff q * 2 ^ nat (retries - 1) \<le> max_duration"
  shows "calculateRetryBackoff retries q =
    min (uq_maxBackoff q) (uq_retryBackoff q * 2 ^ nat (retries - 1))"
  using double_loop_exact [OF assms(2,3)] by (simp add: calculateRetryBackoff_def Let_def min_def)

theorem retry_backoff_exact_witness:
  "calculateRetryBackoff 3 (NewUploadQueue DefaultUploadQueueConfig) = 20 * second"
  using retry_backoff_exact [of 3 "NewUploadQueue DefaultUploadQueueConfig"]
  by (simp add: NewUploadQueue_def DefaultUploadQueueConfig_def duration_defs)

text \<open>The marks the workers and the probe loop set, in the order they take the lock.\<close>

datatype mark = MarkOn | MarkOff time

fun run_marks :: "mark list \<Rightarrow> upload_queue \<Rightarrow> nat \<times> upload_queue" where
  "run_marks [] q = (0, q)"
| "run_marks (MarkOn # ms) q =
     (case run_marks ms (snd (markOnline q)) of
        (n, q') \<Rightarrow> (n + (if fst (markOnline q) then 1 else 0), q'))"
| "run_marks (MarkOff t # ms) q = run_marks ms (markOffline t q)"

text \<open>An outage is a maximal run of \<open>MarkOff\<close> that begins while the backend is believed online.\<close>

fun outages :: "bool \<Rightarrow> mark list \<Rightarrow> nat" where
  "outages online [] = 0"
| "outages online (MarkOn # ms) = outages True ms"
| "outages online (MarkOff t # ms) = (if online then 1 else 0) + outages False ms"

lemma run_marks_bound:
  "fst (run_marks ms q) \<le> outages (uq_backendOnline q) ms + (if uq_backendOnline q then 0 else 1)"
  by (induction ms q rule: run_marks.induct)
    (auto simp: markOnline_def markOffline_def split: prod.splits if_splits)

text \<open>Whatever successes and failures the workers and the probe report, a queue that was
  online starts the reconnect callback at most once per outage, and a queue that is offline
  with a callback installed starts it exactly once when the next success arrives.\<close>

theorem reconnect_once_per_outage:
  "(if uq_backendOnline q then fst (run_marks ms q) \<le> outages True ms
    else fst (run_marks ms q) \<le> Suc (outages False ms))
   \<and> fst (run_marks (map MarkOff ts @ [MarkOn, MarkOn]) (markOffline t q)) =
       (if uq_hasOnReconnect q then 1 else 0)"
proof -
  have "fst (run_marks (map MarkOff ts @ [MarkOn, MarkOn]) r) =
      (if uq_hasOnReconnect r then 1 else 0)" if "\<not> uq_backendOnline r" for r
    using that by (induction ts arbitrary: r) (simp_all add: markOnline_def markOffline_def)
  then show ?thesis
    using run_marks_bound [of ms q] by (auto simp: markOffline_def)
qed

fun failed_rounds :: "nat \<Rightarrow> time \<Rightarrow> upload_queue \<Rightarrow> duration \<Rightarrow> duration" where
  "failed_rounds 0 now q b = b"
| "failed_rounds (Suc n) now q b = failed_rounds n now q (pb_backoff (probe_iter now False q b))"

lemma next_probe_backoff_min:
  "0 < b \<Longrightarrow> next_probe_backoff (min maxProbeBackoff b) = min maxProbeBackoff (2 * b)"
  by (auto simp: next_probe_backoff_def min_def maxProbeBackoff_def duration_defs)

lemma failed_rounds_min:
  "\<not> uq_backendOnline q \<Longrightarrow> 0 < b \<Longrightarrow>
   failed_rounds n now q (min maxProbeBackoff b) = min maxProbeBackoff (b * 2 ^ n)"
proof (induction n arbitrary: b)
  case 0
  then show ?case by simp
next
  case (Suc n)
  have "pb_backoff (probe_iter now False q (min maxProbeBackoff b)) = min maxProbeBackoff (2 * b)"
    using Suc.prems by (simp add: probe_iter_def Let_def next_probe_backoff_min)
  with Suc.IH [of "2 * b"] Suc.prems show ?case by (simp add: algebra_simps)
qed

text \<open>The probe loop's wait doubles from 30 seconds after every failed probe and stays at
  five minutes: after n failed rounds of an outage it is the smaller of 30s times \<open>2^n\<close> and
  five minutes, and a successful round resets it.\<close>

theorem probe_backoff_doubles:
  "failed_rounds n now (markOffline t q) initial_probe_backoff =
     min maxProbeBackoff (initial_probe_backoff * 2 ^ n)
   \<and> pb_backoff (probe_iter now True q b) = initial_probe_backoff"
proof -
  have "min maxProbeBackoff initial_probe_backoff = initial_probe_backoff"
    and "0 < initial_probe_backoff" and "\<not> uq_backendOnline (markOffline t q)"
    by (simp_all add: maxProbeBackoff_def initial_probe_backoff_def duration_defs markOffline_def)
  then show ?thesis
    using failed_rounds_min [of "markOffline t q" initial_probe_backoff n now]
    by (auto simp: probe_iter_def Let_def)
qed

text \<open>A queue that has never seen a success since it was created never records when the outage
  began, so the probe loop never replaces the HTTP transport, however long the backend has been
  unreachable and however many uploads have failed.\<close>

theorem start_offline_never_resets:
  "\<not> pb_reset (probe_iter now ok (fold markOffline ts (NewUploadQueue cfg)) b)"
proof -
  have "\<not> uq_backendOnline (fold markOffline ts q) \<and> uq_offlineSince (fold markOffline ts q) = 0"
    if "\<not> uq_backendOnline q \<and> uq_offlineSince q = 0" for q
    using that by (induction ts arbitrary: q) (simp_all add: markOffline_def)
  from this [of "NewUploadQueue cfg"] show ?thesis
    by (simp add: NewUploadQueue_def probe_iter_def Let_def)
qed

text \<open>When the upload of a replayed snapshot succeeds, its row is marked synced, so it is not
  replayed again, and every other unsynced row stays unsynced.\<close>

theorem replayed_upload_marks_synced:
  assumes "us_db s = Some db" and "ld_enabled db" and "un_ID u \<noteq> ''''"
    and "i < length (us_flights s)" and "us_flights s ! i = Posting x"
    and "qs_Payload x = replay_payload u"
  shows "\<exists>db'. us_db (us_posted now nowtxt i PostOK s) = Some db'
    \<and> unsynced_rows db' = filter (\<lambda>r. sr_id r \<noteq> un_ID u) (unsynced_rows db)"
proof -
  have "map_of (qs_Payload x) ''_localSnapshotId'' = Some (VString (un_ID u))"
    by (simp add: assms(6) replay_payload_def)
  then have "us_db (us_posted now nowtxt i PostOK s) = MarkSynced nowtxt (un_ID u) (Some db)"
    using assms by (simp add: us_posted_def mark_synced_item_def)
  moreover obtain db' where m: "MarkSynced nowtxt (un_ID u) (Some db) = Some db'"
    using assms(2) by (simp add: MarkSynced_def)
  ultimately show ?thesis using unsynced_rows_MarkSynced [OF m assms(2)] by auto
qed

definition demo_row :: "string \<Rightarrow> snapshot_row" where
  "demo_row sid = \<lparr>sr_id = sid, sr_target_id = ''sw1'', sr_target_type = ''brocade'',
     sr_collected_at = ''2024-01-01T00:00:00Z'', sr_payload_enc = ''p'',
     sr_summary = buildSummary [], sr_synced_at = None\<rparr>"

definition demo_db :: local_db where
  "demo_db = \<lparr>ld_snapshots = [demo_row ''a'', demo_row ''b''], ld_signals = [], ld_enabled = True,
     ld_foreign_keys = True\<rparr>"

definition demo_unsynced :: unsynced_snapshot where
  "demo_unsynced = \<lparr>un_ID = ''a'', un_TargetID = ''sw1'', un_TargetType = ''brocade'',
     un_CollectedAt = ''2024-01-01T00:00:00Z'', un_Payload = []\<rparr>"

theorem replayed_upload_marks_synced_witness:
  "map sr_id (unsynced_rows (the (us_db (us_posted 7 ''now'' 0 PostOK
     ((upload_init DefaultUploadQueueConfig ''t'' True (Some demo_db))
      \<lparr>us_flights := [Posting (mk_item (\<lambda>_. Some 1) 3 ''t'' (replay_payload demo_unsynced) PriorityLow)]\<rparr>)))))
   = [''b'']"
proof -
  let ?x = "mk_item (\<lambda>_. Some 1) 3 ''t'' (replay_payload demo_unsynced) PriorityLow"
  let ?s = "(upload_init DefaultUploadQueueConfig ''t'' True (Some demo_db))\<lparr>us_flights := [Posting ?x]\<rparr>"
  have "\<exists>db'. us_db (us_posted 7 ''now'' 0 PostOK ?s) = Some db'
    \<and> unsynced_rows db' = filter (\<lambda>r. sr_id r \<noteq> un_ID demo_unsynced) (unsynced_rows demo_db)"
    by (rule replayed_upload_marks_synced [where x = ?x])
      (simp_all add: upload_init_def demo_db_def demo_unsynced_def mk_item_def)
  then show ?thesis
    by (auto simp: unsynced_rows_def demo_db_def demo_row_def demo_unsynced_def)
qed

end
