(* ===== verification/Worker.thy ===== *)
theory Worker
  imports HostTypes UploadQueue
begin

text \<open>
  The per-target worker (worker.go). \<open>worker\<close> is the struct without its locks and channels: the
  context is the flag \<open>wk_cancelled\<close> and the \<open>done\<close> channel is \<open>wk_live\<close>, true while \<open>run()\<close> has
  been started and has not returned. What the worker shares with the rest of the host is
  \<open>worker_env\<close>: the upload queue and local database (\<open>None\<close> when the code has \<open>nil\<close>), the metrics
  registry, the list of \<open>backend.Post\<close> calls made so far and the list of state-change
  callbacks. \<open>post_ok n\<close> is the outcome of the n-th \<open>backend.Post\<close>; \<open>worker_io\<close> holds what
  one cycle observes of the adapter, of \<open>generateID\<close>, of the JSON encoder and of the two
  dynamic type assertions. Each clock reading of a cycle is one value of \<open>clk\<close>.
\<close>

section \<open>Data\<close>

record worker =
  wk_profile :: target_profile
  wk_creds :: "(string \<times> string) list"
  wk_state :: worker_state
  wk_policy :: retry_policy
  wk_cancelled :: bool
  wk_live :: bool
  wk_stopped :: bool
  wk_adapterOpen :: bool
  wk_hostToken :: string
  wk_localAPIURL :: string
  wk_localAPIToken :: string
  wk_lanOnly :: bool
  wk_lastHeartbeatWarn :: time
  wk_hasOnStateChange :: bool

record worker_env =
  we_queue :: "upload_queue option"
  we_db :: "local_db option"
  we_metrics :: metrics_registry
  we_posts :: "(string \<times> gomap) list"
  we_notes :: "(string \<times> worker_status) list"

record worker_io =
  io_health :: "string option"
  io_collect :: "string + gomap"
  io_jlen :: "gomap \<Rightarrow> int option"
  io_codec :: payload_codec
  io_newID :: string
  io_signalIDs :: "string list"
  io_asSubCalls :: "goval \<Rightarrow> sub_call_metric list option"
  io_asSignals :: "goval \<Rightarrow> snapshot_signal list option"

definition zero_worker_state :: "string \<Rightarrow> worker_state" where
  "zero_worker_state tid =
     \<lparr>ws_TargetID = tid, ws_Status = WorkerStatusIdle, ws_LastCollectionAt = zero_time,
      ws_LastErrorAt = zero_time, ws_LastError = '''', ws_ConsecutiveErrors = 0,
      ws_TotalCollections = 0, ws_StartedAt = zero_time, ws_CurrentStage = '''',
      ws_LastProgressAt = zero_time, ws_NextScheduledAt = zero_time, ws_RestartCount = 0,
      ws_LastRestartAt = zero_time, ws_CycleStartedAt = zero_time\<rparr>"

record worker_config =
  wf_Profile :: target_profile
  wf_Creds :: "(string \<times> string) list"
  wf_Policy :: retry_policy
  wf_HostToken :: string
  wf_LocalAPIURL :: string
  wf_LocalAPIToken :: string
  wf_LanOnly :: bool
  wf_hasOnStateChange :: bool

definition NewWorker :: "worker_config \<Rightarrow> worker" where
  "NewWorker cfg =
     \<lparr>wk_profile = wf_Profile cfg, wk_creds = wf_Creds cfg,
      wk_state = zero_worker_state (tp_TargetID (wf_Profile cfg)), wk_policy = wf_Policy cfg,
      wk_cancelled = False, wk_live = False, wk_stopped = False, wk_adapterOpen = True,
      wk_hostToken = wf_HostToken cfg, wk_localAPIURL = wf_LocalAPIURL cfg,
      wk_localAPIToken = wf_LocalAPIToken cfg, wk_lanOnly = wf_LanOnly cfg,
      wk_lastHeartbeatWarn = zero_time, wk_hasOnStateChange = wf_hasOnStateChange cfg\<rparr>"

abbreviation wk_status :: "worker \<Rightarrow> worker_status" where
  "wk_status w \<equiv> ws_Status (wk_state w)"

abbreviation upd_state :: "(worker_state \<Rightarrow> worker_state) \<Rightarrow> worker \<Rightarrow> worker" where
  "upd_state f w \<equiv> w\<lparr>wk_state := f (wk_state w)\<rparr>"

section \<open>Heartbeats and state changes\<close>

text \<open>\<open>healthy_status\<close> is the condition of the "hard rule" of \<open>sendHeartbeat\<close>.\<close>

definition healthy_status :: "worker_status \<Rightarrow> bool" where
  "healthy_status s = (s = WorkerStatusRunning \<or> s = WorkerStatusIdle)"

definition heartbeat_payload :: "time \<Rightarrow> worker \<Rightarrow> gomap" where
  "heartbeat_payload now w =
     (let st = wk_state w;
          lastErr = (if healthy_status (ws_Status st) then '''' else ws_LastError st);
          errs = (if healthy_status (ws_Status st) then 0 else ws_ConsecutiveErrors st);
          p0 = [(''type'', VString ''heartbeat''), (''agentVersion'', VString HostVersion),
                (''targetId'', VString (tp_TargetID (wk_profile w))),
                (''targetType'', VString (tp_TargetType (wk_profile w))),
                (''workerStatus'', VString (worker_status_string (ws_Status st))),
                (''consecutiveErrors'', VInt errs)];
          p1 = (if lastErr \<noteq> '''' then AList.update ''lastError'' (VString lastErr) p0 else p0);
          p2 = AList.update ''currentStage'' (VString (ws_CurrentStage st)) p1;
          p3 = AList.update ''restartCount'' (VInt (ws_RestartCount st)) p2;
          p4 = AList.update ''progressAgeSecs''
                 (VInt (go_div (time_sub now (ws_LastProgressAt st)) second)) p3;
          p5 = (if ws_LastCollectionAt st \<noteq> zero_time
                then AList.update ''lastCollectedAt''
                       (VString (fmt_seconds (nat (ws_LastCollectionAt st div second)) @ ''Z'')) p4
                else p4)
      in if wk_localAPIURL w \<noteq> ''''
         then AList.update ''localApiToken'' (VString (wk_localAPIToken w))
                (AList.update ''localApiUrl'' (VString (wk_localAPIURL w)) p5)
         else p5)"

definition post :: "string \<Rightarrow> gomap \<Rightarrow> worker_env \<Rightarrow> worker_env" where
  "post token payload e = e\<lparr>we_posts := we_posts e @ [(token, payload)]\<rparr>"

definition sendHeartbeat ::
  "(nat \<Rightarrow> bool) \<Rightarrow> time \<Rightarrow> worker \<times> worker_env \<Rightarrow> worker \<times> worker_env" where
  "sendHeartbeat post_ok now we =
     (case we of (w, e) \<Rightarrow>
       let e' = post (wk_hostToken w) (heartbeat_payload now w) e
       in if post_ok (length (we_posts e)) then (w, e')
          else let knownOutage = (case we_queue e of None \<Rightarrow> False | Some q \<Rightarrow> \<not> IsBackendOnline q);
                   shouldLog = (\<not> knownOutage
                                \<or> time_sub now (wk_lastHeartbeatWarn w) > 5 * minute)
               in (if shouldLog then w\<lparr>wk_lastHeartbeatWarn := now\<rparr> else w, e'))"

definition setStage :: "string \<Rightarrow> time \<Rightarrow> worker \<Rightarrow> worker" where
  "setStage stage now w =
     upd_state (\<lambda>s. s\<lparr>ws_CurrentStage := stage, ws_LastProgressAt := now\<rparr>) w"

definition notifyStateChange :: "worker_status \<Rightarrow> worker \<Rightarrow> worker_env \<Rightarrow> worker_env" where
  "notifyStateChange status w e =
     (if wk_hasOnStateChange w
      then e\<lparr>we_notes := we_notes e @ [(tp_TargetID (wk_profile w), status)]\<rparr> else e)"

definition heartbeat_transition :: "worker_status \<Rightarrow> bool" where
  "heartbeat_transition status =
     (status = WorkerStatusDegraded \<or> status = WorkerStatusFailed \<or> status = WorkerStatusRunning)"

definition setStatus ::
  "(nat \<Rightarrow> bool) \<Rightarrow> time \<Rightarrow> worker_status \<Rightarrow> worker \<times> worker_env \<Rightarrow> worker \<times> worker_env" where
  "setStatus post_ok now status we =
     (case we of (w, e) \<Rightarrow>
       let prev = wk_status w; w' = upd_state (\<lambda>s. s\<lparr>ws_Status := status\<rparr>) w;
           e' = notifyStateChange status w' e
       in if prev \<noteq> status \<and> heartbeat_transition status
          then sendHeartbeat post_ok now (w', e') else (w', e'))"

definition SetLanOnly :: "bool \<Rightarrow> worker \<Rightarrow> worker" where
  "SetLanOnly v w = w\<lparr>wk_lanOnly := v\<rparr>"

section \<open>Errors and back-off\<close>

text \<open>The float64 arithmetic of \<open>calculateBackoff\<close> is exact rational arithmetic; the conversion
  to a duration truncates towards zero.\<close>

definition trunc_rat :: "rat \<Rightarrow> int" where
  "trunc_rat x = (if x \<ge> 0 then \<lfloor>x\<rfloor> else \<lceil>x\<rceil>)"

definition calculateBackoff :: "retry_policy \<Rightarrow> int \<Rightarrow> duration" where
  "calculateBackoff pol consecutive =
     (let b = of_int (rp_InitialBackoff pol)
              * power_int (rp_BackoffMultiplier pol) (consecutive - rp_MaxConsecutiveErrors pol)
      in trunc_rat (if b > of_int (rp_MaxBackoff pol) then of_int (rp_MaxBackoff pol) else b))"

text \<open>The first component is the back-off the worker sleeps (or until it is cancelled).\<close>

definition handleError ::
  "(nat \<Rightarrow> bool) \<Rightarrow> time \<Rightarrow> string \<Rightarrow> worker \<times> worker_env \<Rightarrow> duration option \<times> worker \<times> worker_env"
where
  "handleError post_ok now err we =
     (case we of (w, e) \<Rightarrow>
       let w1 = upd_state (\<lambda>s. s\<lparr>ws_ConsecutiveErrors := ws_ConsecutiveErrors s + 1,
                                 ws_LastErrorAt := now, ws_LastError := err\<rparr>) w;
           consecutive = ws_ConsecutiveErrors (wk_state w1);
           pol = wk_policy w
       in if rp_FailedAfterErrors pol > 0 \<and> consecutive \<ge> rp_FailedAfterErrors pol
          then (case setStatus post_ok now WorkerStatusFailed (w1, e) of
                  (w2, e2) \<Rightarrow> (None, w2\<lparr>wk_cancelled := True\<rparr>, e2))
          else if consecutive \<ge> rp_MaxConsecutiveErrors pol
          then (Some (calculateBackoff pol consecutive),
                setStatus post_ok now WorkerStatusDegraded (w1, e))
          else (None, w1, e))"

section \<open>One collection cycle\<close>

definition collection_status_of :: "gomap \<Rightarrow> string" where
  "collection_status_of payload =
     (case lookup_map payload ''snapshotData'' of None \<Rightarrow> ''ok''
      | Some sd \<Rightarrow> (case lookup_map sd ''_collection_status'' of None \<Rightarrow> ''ok''
                    | Some cs \<Rightarrow> if map_of cs ''degraded'' \<noteq> None then ''partial'' else ''ok''))"

definition enrich :: "target_profile \<Rightarrow> gomap \<Rightarrow> gomap" where
  "enrich p payload =
     AList.update ''targetType'' (VString (tp_TargetType p))
      (AList.update ''targetId'' (VString (tp_TargetID p))
       (AList.update ''agentVersion'' (VString HostVersion)
        (AList.update ''schemaVersion'' (VInt 1)
         (AList.update ''type'' (VString ''snapshot'') payload))))"

text \<open>The success path up to the enrichment: the failure envelope is cleared, and a recovery
  from degraded or failed is announced.\<close>

definition mark_success ::
  "(nat \<Rightarrow> bool) \<Rightarrow> time \<Rightarrow> worker \<times> worker_env \<Rightarrow> worker \<times> worker_env" where
  "mark_success post_ok now we =
     (case we of (w, e) \<Rightarrow>
       let prev = wk_status w;
           w1 = upd_state (\<lambda>s. s\<lparr>ws_ConsecutiveErrors := 0, ws_LastError := '''',
                                 ws_LastErrorAt := zero_time, ws_LastCollectionAt := now,
                                 ws_TotalCollections := ws_TotalCollections s + 1\<rparr>) w
       in if prev = WorkerStatusDegraded \<or> prev = WorkerStatusFailed
          then let w2 = upd_state (\<lambda>s. s\<lparr>ws_Status := WorkerStatusRunning\<rparr>) w1
               in sendHeartbeat post_ok now (w2, notifyStateChange WorkerStatusRunning w2 e)
          else (w1, e))"

text \<open>Hybrid mode: the payload goes to the local database and is tagged with the row's id.\<close>

definition payload_signals :: "worker_io \<Rightarrow> gomap \<Rightarrow> snapshot_signal list" where
  "payload_signals io payload =
     (case map_of payload ''_signals'' of None \<Rightarrow> []
      | Some raw \<Rightarrow> (case io_asSignals io raw of None \<Rightarrow> [] | Some sl \<Rightarrow> sl))"

definition write_local ::
  "worker_io \<Rightarrow> time \<Rightarrow> target_profile \<Rightarrow> gomap \<Rightarrow> worker_env \<Rightarrow> gomap \<times> worker_env" where
  "write_local io now p payload e =
     (case we_db e of None \<Rightarrow> (payload, e)
      | Some db \<Rightarrow>
         (case WriteSnapshot (io_codec io) (io_signalIDs io) (io_newID io) (tp_TargetID p)
                 (tp_TargetType p) now payload (payload_signals io payload) (Some db) of
            (Some err, d) \<Rightarrow> (payload, e\<lparr>we_db := d\<rparr>)
          | (None, d) \<Rightarrow> (AList.update ''_localSnapshotId'' (VString (io_newID io)) payload,
                         e\<lparr>we_db := d\<rparr>)))"

definition advertise_local :: "worker \<Rightarrow> gomap \<Rightarrow> gomap" where
  "advertise_local w payload =
     (if wk_localAPIURL w \<noteq> ''''
      then AList.update ''localApiToken'' (VString (wk_localAPIToken w))
             (AList.update ''localApiUrl'' (VString (wk_localAPIURL w)) payload)
      else payload)"

definition cloud_upload ::
  "worker_io \<Rightarrow> time \<Rightarrow> gomap \<Rightarrow> worker \<times> worker_env \<Rightarrow> worker \<times> worker_env" where
  "cloud_upload io now payload we =
     (case we of (w, e) \<Rightarrow>
       if wk_lanOnly w then (w, e)
       else let w1 = setStage ''upload'' now w
            in case we_queue e of
                 Some q \<Rightarrow>
                   (case Enqueue (io_jlen io) now (wk_hostToken w) payload
                           (ClassifySnapshotPriority (io_jlen io) payload) q (we_metrics e) of
                      (ok, q', m') \<Rightarrow> (w1, e\<lparr>we_queue := Some q', we_metrics := m'\<rparr>))
               | None \<Rightarrow> (w1, post (wk_hostToken w) payload e))"

definition collect_ok ::
  "worker_io \<Rightarrow> (nat \<Rightarrow> bool) \<Rightarrow> (nat \<Rightarrow> time) \<Rightarrow> gomap \<Rightarrow> worker \<times> worker_env
   \<Rightarrow> worker \<times> worker_env" where
  "collect_ok io post_ok clk raw we =
     (case we of (w, e) \<Rightarrow>
       let subs = (case map_of raw ''_subCalls'' of None \<Rightarrow> []
                   | Some v \<Rightarrow> (case io_asSubCalls io v of None \<Rightarrow> [] | Some l \<Rightarrow> l));
           payload = AList.delete ''_subCalls'' raw;
           bytes = (case io_jlen io payload of None \<Rightarrow> 0 | Some n \<Rightarrow> n);
           prof = wk_profile w;
           e1 = e\<lparr>we_metrics := RecordCollection (clk 4) (tp_TargetID prof) (tp_TargetType prof)
                    (tp_Name prof) (time_sub (clk 3) (clk 2)) bytes
                    (collection_status_of payload) subs (we_metrics e)\<rparr>;
           (w2, e2) = mark_success post_ok (clk 5) (w, e1);
           w3 = setStage ''parse'' (clk 6) w2;
           (tagged, e3) = write_local io (clk 7) prof (enrich prof payload) e2;
           (w4, e4) = cloud_upload io (clk 8) (advertise_local w3 tagged) (w3, e3)
       in (setStage ''complete'' (clk 9) w4, e4))"

definition collect ::
  "worker_io \<Rightarrow> (nat \<Rightarrow> bool) \<Rightarrow> (nat \<Rightarrow> time) \<Rightarrow> worker \<times> worker_env \<Rightarrow> worker \<times> worker_env" where
  "collect io post_ok clk we =
     (case we of (w, e) \<Rightarrow>
       let w1 = setStage ''connect'' (clk 0) w
       in case io_health io of
            Some err \<Rightarrow>
              sendHeartbeat post_ok (clk 2)
                (snd (handleError post_ok (clk 1) (''health check failed: '' @ err) (w1, e)))
          | None \<Rightarrow>
              (let w2 = setStage ''fetch'' (clk 1) w1; prof = wk_profile w
               in case io_collect io of
                    Inl err \<Rightarrow>
                      (let e1 = e\<lparr>we_metrics := RecordCollection (clk 4) (tp_TargetID prof)
                             (tp_TargetType prof) (tp_Name prof) (time_sub (clk 3) (clk 2)) 0
                             ''error'' [] (we_metrics e)\<rparr>
                       in sendHeartbeat post_ok (clk 6)
                            (snd (handleError post_ok (clk 5) err (w2, e1))))
                  | Inr raw \<Rightarrow> collect_ok io post_ok clk raw (w2, e)))"

section \<open>Lifecycle\<close>

definition Start :: "time \<Rightarrow> worker \<Rightarrow> worker option" where
  "Start now w =
     (if wk_status w = WorkerStatusRunning then None
      else Some (upd_state (\<lambda>s. s\<lparr>ws_Status := WorkerStatusStarting, ws_StartedAt := now,
                                  ws_ConsecutiveErrors := 0\<rparr>) (w\<lparr>wk_live := True\<rparr>)))"

text \<open>\<open>run()\<close> returns: the deferred function marks the worker stopped and closes \<open>done\<close>.\<close>

definition run_exit :: "worker \<Rightarrow> worker" where
  "run_exit w = w\<lparr>wk_stopped := True, wk_live := False\<rparr>"

definition poll_interval :: "worker \<Rightarrow> duration" where
  "poll_interval w =
     (let i = wrap64 (tp_PollIntervalSecs (wk_profile w) * second)
      in if i < 10 * second then 30 * second else i)"

definition watchdog_timeout :: "worker \<Rightarrow> duration" where
  "watchdog_timeout w =
     (let d = wrap64 (rp_WatchdogTimeoutSecs (wk_policy w) * second)
      in if d \<le> 0 then 300 * second else d)"

text \<open>The start of \<open>run()\<close> up to the first collection: \<open>init\<close> is the error of \<open>adapter.Init\<close>.\<close>

definition run_init ::
  "(nat \<Rightarrow> bool) \<Rightarrow> time \<Rightarrow> string option \<Rightarrow> worker \<times> worker_env \<Rightarrow> worker \<times> worker_env" where
  "run_init post_ok now init we =
     (case we of (w, e) \<Rightarrow>
       (case init of
          Some err \<Rightarrow>
            (case setStatus post_ok now WorkerStatusFailed
                (upd_state (\<lambda>s. s\<lparr>ws_ConsecutiveErrors := 1, ws_LastErrorAt := now,
                                  ws_LastError := err\<rparr>) w, e) of
               (w', e') \<Rightarrow> (run_exit w', e'))
        | None \<Rightarrow>
            sendHeartbeat post_ok now
              (setStatus post_ok now WorkerStatusRunning (setStage ''idle'' now w, e))))"

text \<open>How a collection started by the loop ends: it completes, the watchdog fires while it hangs
  in the health check or in the fetch, or the context is cancelled meanwhile.\<close>

datatype cycle_end = CycleDone | CycleHungConnect | CycleHungFetch | CycleCancelled

definition collect_started :: "(nat \<Rightarrow> time) \<Rightarrow> cycle_end \<Rightarrow> worker \<Rightarrow> worker" where
  "collect_started clk how w =
     (if how = CycleHungFetch then setStage ''fetch'' (clk 1) (setStage ''connect'' (clk 0) w)
      else setStage ''connect'' (clk 0) w)"

text \<open>The first collection of \<open>run()\<close>: a time-out is only logged, and the loop starts.\<close>

definition run_first ::
  "worker_io \<Rightarrow> (nat \<Rightarrow> bool) \<Rightarrow> (nat \<Rightarrow> time) \<Rightarrow> cycle_end \<Rightarrow> worker \<times> worker_env
   \<Rightarrow> worker \<times> worker_env" where
  "run_first io post_ok clk how we =
     (case how of
        CycleDone \<Rightarrow> collect io post_ok clk we
      | CycleCancelled \<Rightarrow> (case we of (w, e) \<Rightarrow> (run_exit (collect_started clk how w), e))
      | _ \<Rightarrow> (case we of (w, e) \<Rightarrow> (collect_started clk how w, e)))"

text \<open>One tick of the poll ticker in the loop of \<open>run()\<close>. \<open>msg\<close> is the watchdog's error text.\<close>

definition run_tick ::
  "worker_io \<Rightarrow> (nat \<Rightarrow> bool) \<Rightarrow> (nat \<Rightarrow> time) \<Rightarrow> cycle_end \<Rightarrow> string \<Rightarrow> worker \<times> worker_env
   \<Rightarrow> worker \<times> worker_env" where
  "run_tick io post_ok clk how msg we =
     (case we of (w, e) \<Rightarrow>
       if tp_Paused (wk_profile w) then (w, e)
       else
         let w1 = setStage ''scheduled'' (clk 11)
                    (upd_state (\<lambda>s. s\<lparr>ws_CycleStartedAt := clk 10\<rparr>) w)
         in case how of
              CycleDone \<Rightarrow>
                (case collect io post_ok clk (w1, e) of
                   (w2, e2) \<Rightarrow>
                     (setStage ''sleep'' (clk 13)
                        (upd_state (\<lambda>s. s\<lparr>ws_NextScheduledAt := clk 12 + poll_interval w\<rparr>) w2), e2))
            | CycleCancelled \<Rightarrow> (run_exit (collect_started clk how w1), e)
            | _ \<Rightarrow>
                (case setStatus post_ok (clk 14) WorkerStatusStuck
                    (sendHeartbeat post_ok (clk 13)
                      (snd (handleError post_ok (clk 12) msg (collect_started clk how w1, e)))) of
                   (w2, e2) \<Rightarrow> (run_exit w2, e2)))"

text \<open>\<open>Stop\<close> and \<open>Pause\<close> cancel the context and wait until \<open>run()\<close> has returned, which its
  deferred function records.\<close>

definition Stop ::
  "(nat \<Rightarrow> bool) \<Rightarrow> time \<Rightarrow> worker \<times> worker_env \<Rightarrow> worker \<times> worker_env" where
  "Stop post_ok now we =
     (case we of (w, e) \<Rightarrow>
       setStatus post_ok now WorkerStatusStopped
         ((run_exit (w\<lparr>wk_cancelled := True\<rparr>))\<lparr>wk_adapterOpen := False\<rparr>, e))"

definition Pause ::
  "(nat \<Rightarrow> bool) \<Rightarrow> time \<Rightarrow> worker \<times> worker_env \<Rightarrow> worker \<times> worker_env" where
  "Pause post_ok now we =
     (case we of (w, e) \<Rightarrow>
       setStatus post_ok now WorkerStatusPaused (run_exit (w\<lparr>wk_cancelled := True\<rparr>), e))"

definition Restart ::
  "(nat \<Rightarrow> bool) \<Rightarrow> time \<Rightarrow> worker \<times> worker_env \<Rightarrow> worker option \<times> worker_env" where
  "Restart post_ok now we =
     (case we of (w, e) \<Rightarrow>
       let w1 = upd_state (\<lambda>s. s\<lparr>ws_RestartCount := ws_RestartCount s + 1,
                                 ws_LastRestartAt := now\<rparr>) w
       in case Stop post_ok now (w1, e) of
            (w2, e2) \<Rightarrow> (Start now (w2\<lparr>wk_cancelled := False, wk_stopped := False\<rparr>), e2))"

section \<open>Frame lemmas\<close>

text \<open>A heartbeat changes nothing of the worker but the time of the last warning, and nothing of
  the environment but the list of posts.\<close>

lemma sendHeartbeat_fst:
  "\<exists>t. fst (sendHeartbeat post_ok now we) = (fst we)\<lparr>wk_lastHeartbeatWarn := t\<rparr>"
proof -
  obtain w e where "we = (w, e)" by (cases we)
  then have "fst (sendHeartbeat post_ok now we) =
      w\<lparr>wk_lastHeartbeatWarn := wk_lastHeartbeatWarn (fst (sendHeartbeat post_ok now we))\<rparr>"
    by (simp add: sendHeartbeat_def Let_def)
  then show ?thesis using \<open>we = (w, e)\<close> by (metis fst_conv)
qed

lemma sendHeartbeat_snd:
  "snd (sendHeartbeat post_ok now we) =
     (snd we)\<lparr>we_posts := we_posts (snd we) @
        [(wk_hostToken (fst we), heartbeat_payload now (fst we))]\<rparr>"
  by (cases we) (simp add: sendHeartbeat_def post_def Let_def)

lemma sendHeartbeat_frame [simp]:
  "wk_state (fst (sendHeartbeat post_ok now we)) = wk_state (fst we)"
  "wk_profile (fst (sendHeartbeat post_ok now we)) = wk_profile (fst we)"
  "wk_policy (fst (sendHeartbeat post_ok now we)) = wk_policy (fst we)"
  "wk_cancelled (fst (sendHeartbeat post_ok now we)) = wk_cancelled (fst we)"
  "wk_live (fst (sendHeartbeat post_ok now we)) = wk_live (fst we)"
  "wk_stopped (fst (sendHeartbeat post_ok now we)) = wk_stopped (fst we)"
  "wk_lanOnly (fst (sendHeartbeat post_ok now we)) = wk_lanOnly (fst we)"
  "wk_hostToken (fst (sendHeartbeat post_ok now we)) = wk_hostToken (fst we)"
  "wk_localAPIURL (fst (sendHeartbeat post_ok now we)) = wk_localAPIURL (fst we)"
  "wk_localAPIToken (fst (sendHeartbeat post_ok now we)) = wk_localAPIToken (fst we)"
  "wk_hasOnStateChange (fst (sendHeartbeat post_ok now we)) = wk_hasOnStateChange (fst we)"
  "we_queue (snd (sendHeartbeat post_ok now we)) = we_queue (snd we)"
  "we_db (snd (sendHeartbeat post_ok now we)) = we_db (snd we)"
  "we_metrics (snd (sendHeartbeat post_ok now we)) = we_metrics (snd we)"
  "we_notes (snd (sendHeartbeat post_ok now we)) = we_notes (snd we)"
  using sendHeartbeat_fst [of post_ok now we] by (auto simp: sendHeartbeat_snd)

lemma setStage_frame [simp]:
  "wk_state (setStage st now w) = (wk_state w)\<lparr>ws_CurrentStage := st, ws_LastProgressAt := now\<rparr>"
  "wk_profile (setStage st now w) = wk_profile w"
  "wk_policy (setStage st now w) = wk_policy w"
  "wk_cancelled (setStage st now w) = wk_cancelled w"
  "wk_live (setStage st now w) = wk_live w"
  "wk_stopped (setStage st now w) = wk_stopped w"
  "wk_lanOnly (setStage st now w) = wk_lanOnly w"
  "wk_hostToken (setStage st now w) = wk_hostToken w"
  "wk_localAPIURL (setStage st now w) = wk_localAPIURL w"
  "wk_localAPIToken (setStage st now w) = wk_localAPIToken w"
  "wk_hasOnStateChange (setStage st now w) = wk_hasOnStateChange w"
  by (simp_all add: setStage_def)

lemma notifyStateChange_frame [simp]:
  "we_queue (notifyStateChange st w e) = we_queue e"
  "we_db (notifyStateChange st w e) = we_db e"
  "we_metrics (notifyStateChange st w e) = we_metrics e"
  "we_posts (notifyStateChange st w e) = we_posts e"
  "we_notes (notifyStateChange st w e) =
     we_notes e @ (if wk_hasOnStateChange w then [(tp_TargetID (wk_profile w), st)] else [])"
  by (simp_all add: notifyStateChange_def)

lemma setStatus_frame [simp]:
  "wk_state (fst (setStatus post_ok now st we)) = (wk_state (fst we))\<lparr>ws_Status := st\<rparr>"
  "wk_profile (fst (setStatus post_ok now st we)) = wk_profile (fst we)"
  "wk_policy (fst (setStatus post_ok now st we)) = wk_policy (fst we)"
  "wk_cancelled (fst (setStatus post_ok now st we)) = wk_cancelled (fst we)"
  "wk_live (fst (setStatus post_ok now st we)) = wk_live (fst we)"
  "wk_stopped (fst (setStatus post_ok now st we)) = wk_stopped (fst we)"
  "wk_lanOnly (fst (setStatus post_ok now st we)) = wk_lanOnly (fst we)"
  "wk_hostToken (fst (setStatus post_ok now st we)) = wk_hostToken (fst we)"
  "wk_localAPIURL (fst (setStatus post_ok now st we)) = wk_localAPIURL (fst we)"
  "wk_localAPIToken (fst (setStatus post_ok now st we)) = wk_localAPIToken (fst we)"
  "wk_hasOnStateChange (fst (setStatus post_ok now st we)) = wk_hasOnStateChange (fst we)"
  "we_queue (snd (setStatus post_ok now st we)) = we_queue (snd we)"
  "we_db (snd (setStatus post_ok now st we)) = we_db (snd we)"
  "we_metrics (snd (setStatus post_ok now st we)) = we_metrics (snd we)"
  "we_notes (snd (setStatus post_ok now st we)) = we_notes (snd we) @
     (if wk_hasOnStateChange (fst we) then [(tp_TargetID (wk_profile (fst we)), st)] else [])"
  by (cases we; simp add: setStatus_def Let_def)+

text \<open>The posts a step adds are all heartbeats.\<close>

definition only_heartbeats :: "worker_env \<Rightarrow> worker_env \<Rightarrow> bool" where
  "only_heartbeats e e' =
     (list_all (\<lambda>p. lookup_str (snd p) ''type'' = ''heartbeat'') (drop (length (we_posts e)) (we_posts e'))
      \<and> take (length (we_posts e)) (we_posts e') = we_posts e)"

lemma only_heartbeats_iff:
  "only_heartbeats e e' \<longleftrightarrow>
     (\<exists>ps. we_posts e' = we_posts e @ ps \<and>
           list_all (\<lambda>p. lookup_str (snd p) ''type'' = ''heartbeat'') ps)"
  unfolding only_heartbeats_def by (metis append_eq_conv_conj append_take_drop_id)

lemma only_heartbeats_same: "we_posts e' = we_posts e \<Longrightarrow> only_heartbeats e e'"
  by (simp add: only_heartbeats_def)

lemma only_heartbeats_trans:
  "only_heartbeats a b \<Longrightarrow> only_heartbeats b c \<Longrightarrow> only_heartbeats a c"
  unfolding only_heartbeats_iff by auto

lemma heartbeat_type: "lookup_str (heartbeat_payload now w) ''type'' = ''heartbeat''"
  by (simp add: heartbeat_payload_def lookup_str_def Let_def)

lemma only_heartbeats_send: "only_heartbeats (snd we) (snd (sendHeartbeat post_ok now we))"
  by (simp add: only_heartbeats_iff sendHeartbeat_snd heartbeat_type)

lemma only_heartbeats_status: "only_heartbeats (snd we) (snd (setStatus post_ok now st we))"
proof (cases we)
  case (Pair w e)
  define w' where "w' = upd_state (\<lambda>s. s\<lparr>ws_Status := st\<rparr>) w"
  define e' where "e' = notifyStateChange st w' e"
  have "only_heartbeats e e'" by (simp add: only_heartbeats_same e'_def)
  moreover have "only_heartbeats e' (snd (sendHeartbeat post_ok now (w', e')))"
    using only_heartbeats_send [of "(w', e')"] by simp
  ultimately show ?thesis
    by (auto simp: Pair setStatus_def Let_def w'_def [symmetric] e'_def [symmetric]
        intro: only_heartbeats_trans)
qed

lemma only_heartbeats_error: "only_heartbeats (snd we) (snd (snd (handleError post_ok now err we)))"
proof -
  have st: "only_heartbeats e (snd (setStatus post_ok now st (w, e)))" for st w e
    using only_heartbeats_status [of "(w, e)"] by simp
  obtain w e where "we = (w, e)" by (cases we)
  then show ?thesis
    by (simp add: handleError_def Let_def split_beta st only_heartbeats_same)
qed

lemma handleError_frame [simp]:
  "wk_profile (fst (snd (handleError post_ok now err we))) = wk_profile (fst we)"
  "wk_policy (fst (snd (handleError post_ok now err we))) = wk_policy (fst we)"
  "wk_lanOnly (fst (snd (handleError post_ok now err we))) = wk_lanOnly (fst we)"
  "wk_hasOnStateChange (fst (snd (handleError post_ok now err we))) = wk_hasOnStateChange (fst we)"
  "we_queue (snd (snd (handleError post_ok now err we))) = we_queue (snd we)"
  "we_db (snd (snd (handleError post_ok now err we))) = we_db (snd we)"
  "we_metrics (snd (snd (handleError post_ok now err we))) = we_metrics (snd we)"
  by (cases we; simp add: handleError_def Let_def split_beta)+

text \<open>The status an error count leads to.\<close>

definition ladder :: "retry_policy \<Rightarrow> int \<Rightarrow> worker_status \<Rightarrow> worker_status" where
  "ladder pol n prev =
     (if rp_FailedAfterErrors pol > 0 \<and> n \<ge> rp_FailedAfterErrors pol then WorkerStatusFailed
      else if n \<ge> rp_MaxConsecutiveErrors pol then WorkerStatusDegraded else prev)"

lemma handleError_state:
  fixes we post_ok now err
  defines "w' \<equiv> fst (snd (handleError post_ok now err we))"
    and "n \<equiv> ws_ConsecutiveErrors (wk_state (fst we)) + 1"
  shows "ws_ConsecutiveErrors (wk_state w') = n"
    and "ws_LastError (wk_state w') = err"
    and "wk_status w' = ladder (wk_policy (fst we)) n (wk_status (fst we))"
    and "wk_cancelled w' \<longleftrightarrow> wk_cancelled (fst we) \<or>
           (rp_FailedAfterErrors (wk_policy (fst we)) > 0 \<and> n \<ge> rp_FailedAfterErrors (wk_policy (fst we)))"
    and "ws_TotalCollections (wk_state w') = ws_TotalCollections (wk_state (fst we))"
proof -
  obtain w e where we: "we = (w, e)" by (cases we)
  show "ws_ConsecutiveErrors (wk_state w') = n" "ws_LastError (wk_state w') = err"
    "ws_TotalCollections (wk_state w') = ws_TotalCollections (wk_state (fst we))"
    "wk_status w' = ladder (wk_policy (fst we)) n (wk_status (fst we))"
    unfolding w'_def n_def we ladder_def
    by (simp_all add: handleError_def Let_def split_beta)
  show "wk_cancelled w' \<longleftrightarrow> wk_cancelled (fst we) \<or>
      (rp_FailedAfterErrors (wk_policy (fst we)) > 0 \<and> n \<ge> rp_FailedAfterErrors (wk_policy (fst we)))"
    unfolding w'_def n_def we by (simp add: handleError_def Let_def split_beta) blast
qed

section \<open>Concrete instances\<close>

definition demo_tls :: tls_config where
  "demo_tls = \<lparr>tl_InsecureSkipVerify = False, tl_CACertPath = '''', tl_ClientCertPath = '''',
     tl_ClientKeyPath = '''', tl_Policy = ''''\<rparr>"

definition demo_profile :: "string \<Rightarrow> target_profile" where
  "demo_profile tid = \<lparr>tp_TargetID = tid, tp_Name = ''sw'', tp_TargetType = ''brocade'',
     tp_Mode = ''readonly'', tp_Enabled = True, tp_Status = ''pending'', tp_Endpoint = ''https://sw'',
     tp_TLS = demo_tls, tp_Proxy = \<lparr>px_HTTPProxy = '''', px_HTTPSProxy = '''', px_NoProxy = ''''\<rparr>,
     tp_AuthType = '''', tp_Labels = [], tp_Capabilities = [], tp_PollIntervalSecs = 600,
     tp_ResourceLimits = \<lparr>rl_MaxMemoryMB = 0, rl_MaxResponseMB = 0, rl_TimeoutSecs = 0\<rparr>,
     tp_Paused = False, tp_MaintenanceReason = '''', tp_CredentialRef = tid,
     tp_CredentialRotationDays = 0, tp_ConfigVersion = 1, tp_UpdatedAt = 0, tp_TargetConfig = None\<rparr>"

definition demo_worker :: worker where
  "demo_worker = upd_state (\<lambda>s. s\<lparr>ws_Status := WorkerStatusRunning\<rparr>)
     (NewWorker \<lparr>wf_Profile = demo_profile ''t1'', wf_Creds = [], wf_Policy = DefaultRetryPolicy,
        wf_HostToken = ''tok'', wf_LocalAPIURL = '''', wf_LocalAPIToken = '''', wf_LanOnly = False,
        wf_hasOnStateChange = True\<rparr>)"

definition demo_io :: "string + gomap \<Rightarrow> worker_io" where
  "demo_io r = \<lparr>io_health = None, io_collect = r, io_jlen = (\<lambda>_. Some 2), io_codec = hex_codec,
     io_newID = ''snap1'', io_signalIDs = [], io_asSubCalls = (\<lambda>_. None), io_asSignals = (\<lambda>_. None)\<rparr>"

definition demo_env :: "upload_queue option \<Rightarrow> local_db option \<Rightarrow> worker_env" where
  "demo_env q db = \<lparr>we_queue = q, we_db = db, we_metrics = NewMetricsRegistry, we_posts = [],
     we_notes = []\<rparr>"

lemma demo_worker_facts [simp]:
  "ws_ConsecutiveErrors (wk_state demo_worker) = 0" "wk_status demo_worker = WorkerStatusRunning"
  "\<not> wk_cancelled demo_worker" "wk_policy demo_worker = DefaultRetryPolicy"
  "\<not> wk_lanOnly demo_worker" "wk_profile demo_worker = demo_profile ''t1''"
  "wk_localAPIURL demo_worker = ''''" "wk_hostToken demo_worker = ''tok''"
  by (simp_all add: demo_worker_def NewWorker_def zero_worker_state_def)

section \<open>Properties\<close>

text \<open>A heartbeat reports the worker's status; for a running or idle worker it carries no error
  text and a zero error count, whatever error is still recorded, and for any other status it carries
  exactly the recorded error and count. It never has a \<open>capabilities\<close> key, and it has the local
  API coordinates exactly when they are set.\<close>
theorem heartbeat_hygiene:
  "map_of (heartbeat_payload now w) ''workerStatus'' = Some (VString (worker_status_string (wk_status w))) \<and>
   map_of (heartbeat_payload now w) ''lastError'' =
     (if wk_status w = WorkerStatusRunning \<or> wk_status w = WorkerStatusIdle
         \<or> ws_LastError (wk_state w) = '''' then None else Some (VString (ws_LastError (wk_state w)))) \<and>
   map_of (heartbeat_payload now w) ''consecutiveErrors'' =
     Some (VInt (if wk_status w = WorkerStatusRunning \<or> wk_status w = WorkerStatusIdle then 0
                 else ws_ConsecutiveErrors (wk_state w))) \<and>
   map_of (heartbeat_payload now w) ''capabilities'' = None \<and>
   map_of (heartbeat_payload now w) ''localApiToken'' =
     (if wk_localAPIURL w = '''' then None else Some (VString (wk_localAPIToken w)))"
  unfolding heartbeat_payload_def Let_def healthy_status_def
  by (intro conjI) (simp_all add: map_of_if del: AList.update.simps)

text \<open>Under the default retry policy the back-off after the fifth, sixth, ... consecutive error
  is 10 s, 20 s, 40 s and then 60 s for ever.\<close>
theorem worker_backoff_exact:
  "calculateBackoff DefaultRetryPolicy (5 + int k) = min (60 * second) (10 * second * 2 ^ k)"
proof -
  have "(of_int (10 * second) * 2 ^ k :: rat) = of_int (10 * second * 2 ^ k)" by simp
  moreover have "trunc_rat (of_int z) = z" for z by (simp add: trunc_rat_def)
  ultimately show ?thesis
    unfolding calculateBackoff_def DefaultRetryPolicy_def Let_def
    by (auto simp: power_int_def min_def simp del: of_int_mult)
qed

text \<open>A cycle whose health check or fetch fails.\<close>

definition cycle_fails :: "worker_io \<Rightarrow> bool" where
  "cycle_fails io = (io_health io \<noteq> None \<or> (\<exists>err. io_collect io = Inl err))"

lemma collect_fails:
  assumes "cycle_fails io"
  shows "ws_ConsecutiveErrors (wk_state (fst (collect io post_ok clk we))) =
           ws_ConsecutiveErrors (wk_state (fst we)) + 1"
    and "wk_status (fst (collect io post_ok clk we)) = ladder (wk_policy (fst we))
           (ws_ConsecutiveErrors (wk_state (fst we)) + 1) (wk_status (fst we))"
    and "wk_cancelled (fst (collect io post_ok clk we)) \<longleftrightarrow> wk_cancelled (fst we) \<or>
           (rp_FailedAfterErrors (wk_policy (fst we)) > 0 \<and>
            ws_ConsecutiveErrors (wk_state (fst we)) + 1 \<ge> rp_FailedAfterErrors (wk_policy (fst we)))"
    and "wk_policy (fst (collect io post_ok clk we)) = wk_policy (fst we)"
    and "ws_TotalCollections (wk_state (fst (collect io post_ok clk we))) =
           ws_TotalCollections (wk_state (fst we))"
  using assms unfolding cycle_fails_def
  by (cases we; auto simp: collect_def Let_def handleError_state split: option.splits)+

fun run_cycles ::
  "(nat \<Rightarrow> bool) \<Rightarrow> (nat \<Rightarrow> time) list \<Rightarrow> worker_io list \<Rightarrow> worker \<times> worker_env \<Rightarrow> worker \<times> worker_env"
where
  "run_cycles post_ok (clk # clks) (io # ios) we = run_cycles post_ok clks ios (collect io post_ok clk we)"
| "run_cycles post_ok _ _ we = we"

lemma run_cycles_errors:
  "length clks = length ios \<Longrightarrow> list_all cycle_fails ios \<Longrightarrow>
   ws_ConsecutiveErrors (wk_state (fst (run_cycles post_ok clks ios we))) =
     ws_ConsecutiveErrors (wk_state (fst we)) + int (length ios)
   \<and> wk_policy (fst (run_cycles post_ok clks ios we)) = wk_policy (fst we)"
proof (induction clks ios arbitrary: we rule: list_induct2)
  case Nil
  then show ?case by simp
next
  case (Cons clk clks io ios)
  then show ?case by (simp add: collect_fails)
qed

lemma run_cycles_snoc:
  "length clks = length ios \<Longrightarrow>
   run_cycles post_ok (clks @ [clk]) (ios @ [io]) we = collect io post_ok clk (run_cycles post_ok clks ios we)"
  by (induction clks ios arbitrary: we rule: list_induct2) auto

lemma run_cycles_ladder:
  assumes "length clks = length ios" and "list_all cycle_fails ios" and "ios \<noteq> []"
    and "ws_ConsecutiveErrors (wk_state (fst we)) = 0" and "wk_policy (fst we) = pol"
    and "0 < rp_MaxConsecutiveErrors pol" and "rp_MaxConsecutiveErrors pol \<le> rp_FailedAfterErrors pol"
  shows "wk_status (fst (run_cycles post_ok clks ios we)) = ladder pol (int (length ios)) (wk_status (fst we))
    \<and> (wk_cancelled (fst (run_cycles post_ok clks ios we)) \<longleftrightarrow>
         wk_cancelled (fst we) \<or> rp_FailedAfterErrors pol \<le> int (length ios))"
  using assms(3,1,2)
proof (induction ios arbitrary: clks rule: rev_nonempty_induct)
  case (single io)
  then obtain clk where "clks = [clk]" by (cases clks) auto
  with single assms show ?case by (auto simp: collect_fails)
next
  case (snoc io ios)
  then obtain clk clks' where c: "clks = clks' @ [clk]" "length clks' = length ios"
    by (cases clks rule: rev_cases) auto
  let ?m = "run_cycles post_ok clks' ios we"
  have e: "ws_ConsecutiveErrors (wk_state (fst ?m)) = int (length ios)" "wk_policy (fst ?m) = pol"
    using run_cycles_errors [OF c(2), of post_ok we] snoc.prems assms by auto
  have IH: "wk_status (fst ?m) = ladder pol (int (length ios)) (wk_status (fst we))"
    "wk_cancelled (fst ?m) \<longleftrightarrow> wk_cancelled (fst we) \<or> rp_FailedAfterErrors pol \<le> int (length ios)"
    using snoc.IH [OF c(2)] snoc.prems by simp_all
  have l: "length (ios @ [io]) = Suc (length ios)" by simp
  have "ladder pol (int (length ios) + 1) (ladder pol (int (length ios)) s)
      = ladder pol (int (length ios) + 1) s" for s
    by (simp add: ladder_def)
  then show ?case
    using snoc.prems(2) assms(6,7) e IH
    unfolding c(1) run_cycles_snoc [OF c(2)]
    by (auto simp: collect_fails add.commute)
qed

text \<open>C13: Error escalation. Starting from a clean running worker, n failing cycles in a row leave it
  running while n is below \<open>MaxConsecutiveErrors\<close>, degraded from there on, and failed and cancelled
  exactly when n has reached \<open>FailedAfterErrors\<close>; its error count is n.\<close>
theorem error_escalation:
  assumes "length clks = length ios" and "list_all cycle_fails ios" and "ios \<noteq> []"
    and "ws_ConsecutiveErrors (wk_state w) = 0" and "wk_status w = WorkerStatusRunning"
    and "\<not> wk_cancelled w"
    and "0 < rp_MaxConsecutiveErrors (wk_policy w)"
    and "rp_MaxConsecutiveErrors (wk_policy w) \<le> rp_FailedAfterErrors (wk_policy w)"
  shows "let w' = fst (run_cycles post_ok clks ios (w, e)); n = int (length ios) in
     ws_ConsecutiveErrors (wk_state w') = n \<and>
     wk_status w' = (if n < rp_MaxConsecutiveErrors (wk_policy w) then WorkerStatusRunning
                     else if n < rp_FailedAfterErrors (wk_policy w) then WorkerStatusDegraded
                     else WorkerStatusFailed) \<and>
     (wk_cancelled w' \<longleftrightarrow> rp_FailedAfterErrors (wk_policy w) \<le> n)"
  using run_cycles_ladder [of clks ios "(w, e)" "wk_policy w" post_ok]
    run_cycles_errors [of clks ios post_ok "(w, e)"] assms
  by (auto simp: Let_def ladder_def)

theorem error_escalation_witness:
  "let ios = replicate 5 (demo_io (Inl ''timeout''));
       w' = fst (run_cycles (\<lambda>_. True) (replicate 5 (\<lambda>_. 7)) ios (demo_worker, demo_env None None)) in
     list_all cycle_fails ios \<and> wk_status w' = WorkerStatusDegraded \<and> \<not> wk_cancelled w'"
proof -
  have f: "list_all cycle_fails (replicate 5 (demo_io (Inl ''timeout'')))"
    by (simp add: list_all_iff cycle_fails_def demo_io_def)
  show ?thesis
    using error_escalation [of "replicate 5 (\<lambda>_. 7)" "replicate 5 (demo_io (Inl ''timeout''))"
        demo_worker "\<lambda>_. True" "demo_env None None"] f
    by (simp add: DefaultRetryPolicy_def Let_def)
qed

lemma mark_success_frame [simp]:
  "wk_profile (fst (mark_success post_ok now we)) = wk_profile (fst we)"
  "wk_policy (fst (mark_success post_ok now we)) = wk_policy (fst we)"
  "wk_cancelled (fst (mark_success post_ok now we)) = wk_cancelled (fst we)"
  "wk_lanOnly (fst (mark_success post_ok now we)) = wk_lanOnly (fst we)"
  "wk_hostToken (fst (mark_success post_ok now we)) = wk_hostToken (fst we)"
  "wk_localAPIURL (fst (mark_success post_ok now we)) = wk_localAPIURL (fst we)"
  "wk_localAPIToken (fst (mark_success post_ok now we)) = wk_localAPIToken (fst we)"
  "we_queue (snd (mark_success post_ok now we)) = we_queue (snd we)"
  "we_db (snd (mark_success post_ok now we)) = we_db (snd we)"
  "we_metrics (snd (mark_success post_ok now we)) = we_metrics (snd we)"
  by (cases we; simp add: mark_success_def Let_def)+

lemma mark_success_state:
  "wk_state (fst (mark_success post_ok now we)) =
     (wk_state (fst we))\<lparr>ws_ConsecutiveErrors := 0, ws_LastError := '''', ws_LastErrorAt := zero_time,
        ws_LastCollectionAt := now,
        ws_TotalCollections := ws_TotalCollections (wk_state (fst we)) + 1,
        ws_Status := (if wk_status (fst we) = WorkerStatusDegraded \<or> wk_status (fst we) = WorkerStatusFailed
                      then WorkerStatusRunning else wk_status (fst we))\<rparr>"
  by (cases we) (simp add: mark_success_def Let_def)

lemma only_heartbeats_success: "only_heartbeats (snd we) (snd (mark_success post_ok now we))"
proof (cases we)
  case (Pair w e)
  have "only_heartbeats e (snd (sendHeartbeat post_ok now (w', notifyStateChange st w' e)))" for w' st
    using only_heartbeats_send [of "(w', notifyStateChange st w' e)"]
    by (simp add: only_heartbeats_def)
  then show ?thesis by (simp add: Pair mark_success_def Let_def only_heartbeats_same)
qed

lemma write_local_frame [simp]:
  "we_queue (snd (write_local io now p payload e)) = we_queue e"
  "we_posts (snd (write_local io now p payload e)) = we_posts e"
  "we_metrics (snd (write_local io now p payload e)) = we_metrics e"
  by (auto simp: write_local_def Let_def split: option.split prod.split)

lemma cloud_upload_frame [simp]:
  "wk_state (fst (cloud_upload io now payload we)) =
     (if wk_lanOnly (fst we) then wk_state (fst we)
      else (wk_state (fst we))\<lparr>ws_CurrentStage := ''upload'', ws_LastProgressAt := now\<rparr>)"
  "wk_cancelled (fst (cloud_upload io now payload we)) = wk_cancelled (fst we)"
  "we_db (snd (cloud_upload io now payload we)) = we_db (snd we)"
  by (cases we; simp add: cloud_upload_def Let_def post_def split: option.split prod.split)+

lemma cloud_upload_lan: "wk_lanOnly (fst we) \<Longrightarrow> cloud_upload io now payload we = we"
  by (cases we) (simp add: cloud_upload_def)

text \<open>LAN-only mode. A collection cycle of a LAN-only worker, whatever the adapter and the
  backend do, leaves the upload queue as it was and posts nothing to the backend but
  heartbeats.\<close>
theorem lan_only_no_upload:
  assumes "wk_lanOnly w"
  shows "let e' = snd (collect io post_ok clk (w, e))
         in we_queue e' = we_queue e \<and> only_heartbeats e e'"
proof -
  have hb: "only_heartbeats e (snd (sendHeartbeat post_ok t (snd (handleError post_ok t' err (w', e1)))))"
    if "we_posts e1 = we_posts e" for t t' err w' e1
    using only_heartbeats_trans [OF only_heartbeats_error [of "(w', e1)" post_ok t' err] only_heartbeats_send]
      that by (simp add: only_heartbeats_def)
  have ok: "only_heartbeats e (snd (mark_success post_ok t (w', e1)))"
    if "we_posts e1 = we_posts e" for t w' e1
    using only_heartbeats_success [of "(w', e1)" post_ok t] that by (simp add: only_heartbeats_def)
  have "we_queue (snd (collect_ok io post_ok clk raw (w', e))) = we_queue e \<and>
        only_heartbeats e (snd (collect_ok io post_ok clk raw (w', e)))" if "wk_lanOnly w'" for raw w'
    using that ok
    by (simp add: collect_ok_def Let_def split_beta cloud_upload_lan only_heartbeats_def)
  with assms show ?thesis
    by (simp add: collect_def Let_def hb split: option.split sum.split)
qed

theorem lan_only_no_upload_witness:
  "let w = SetLanOnly True demo_worker;
       e = demo_env (Some (demo_queue [])) None;
       e' = snd (collect (demo_io (Inr [])) (\<lambda>_. True) (\<lambda>_. 7) (w, e))
   in wk_lanOnly w \<and> we_queue e' = Some (demo_queue []) \<and> only_heartbeats e e'"
  using lan_only_no_upload [of "SetLanOnly True demo_worker" "demo_io (Inr [])" "\<lambda>_. True" "\<lambda>_. 7"
      "demo_env (Some (demo_queue [])) None"]
  by (simp add: SetLanOnly_def demo_env_def Let_def)

text \<open>A successful cycle clears the whole failure envelope: no recorded error, error count
  zero, one more collection, a degraded or failed worker back to running (any other status
  untouched), stage \<open>complete\<close>, and the worker is not cancelled by it.\<close>
theorem collect_success:
  assumes "io_health io = None" and "io_collect io = Inr raw"
  shows "let w' = fst (collect io post_ok clk (w, e)); st = wk_state w' in
     ws_ConsecutiveErrors st = 0 \<and> ws_LastError st = '''' \<and> ws_LastErrorAt st = zero_time \<and>
     ws_LastCollectionAt st = clk 5 \<and>
     ws_TotalCollections st = ws_TotalCollections (wk_state w) + 1 \<and>
     ws_Status st = (if wk_status w \<in> {WorkerStatusDegraded, WorkerStatusFailed}
                     then WorkerStatusRunning else wk_status w) \<and>
     ws_CurrentStage st = ''complete'' \<and> ws_NextScheduledAt st = ws_NextScheduledAt (wk_state w) \<and>
     (wk_cancelled w' \<longleftrightarrow> wk_cancelled w)"
  using assms by (simp add: collect_def collect_ok_def Let_def split_beta mark_success_state)

theorem collect_success_witness:
  "let w = upd_state (\<lambda>s. s\<lparr>ws_Status := WorkerStatusDegraded, ws_LastError := ''timeout'',
                           ws_ConsecutiveErrors := 6\<rparr>) demo_worker;
       io = demo_io (Inr []);
       st = wk_state (fst (collect io (\<lambda>_. False) (\<lambda>_. 7) (w, demo_env None None)))
   in io_health io = None \<and> ws_LastError st = '''' \<and> ws_ConsecutiveErrors st = 0 \<and>
      ws_Status st = WorkerStatusRunning"
  using collect_success [of "demo_io (Inr [])" "[]" "\<lambda>_. False" "\<lambda>_. 7"
      "upd_state (\<lambda>s. s\<lparr>ws_Status := WorkerStatusDegraded, ws_LastError := ''timeout'',
         ws_ConsecutiveErrors := 6\<rparr>) demo_worker" "demo_env None None"]
  by (simp add: demo_io_def Let_def)

lemma write_local_ok:
  assumes "we_db e = Some db" and "ld_enabled db"
    and "pc_marshal (io_codec io) payload = Some raw" and "pc_encrypt (io_codec io) raw = Some enc"
    and "io_newID io \<notin> sr_id ` set (ld_snapshots db)"
    and "insert_signals (io_newID io) (tp_TargetID p) now
           (zip (io_signalIDs io) (payload_signals io payload)) (ld_signals db) = Some sigs"
  shows "\<exists>db' row. write_local io now p payload e =
      (AList.update ''_localSnapshotId'' (VString (io_newID io)) payload, e\<lparr>we_db := Some db'\<rparr>) \<and>
    ld_enabled db' \<and> ld_snapshots db' = ld_snapshots db @ [row] \<and> sr_id row = io_newID io \<and>
    sr_target_id row = tp_TargetID p \<and> sr_synced_at row = None"
  using assms
  by (simp add: write_local_def WriteSnapshot_def) (rule exI, rule conjI, rule refl, simp)

lemma cloud_upload_room:
  assumes "\<not> wk_lanOnly w" and "we_queue e = Some q" and "int (length (uq_items q)) < uq_maxSize q"
  shows "\<exists>m. snd (cloud_upload io now payload (w, e)) =
     e\<lparr>we_queue := Some (append_item (mk_item (io_jlen io) now (wk_hostToken w) payload
          (ClassifySnapshotPriority (io_jlen io) payload)) q), we_metrics := m\<rparr>"
  using assms by (simp add: cloud_upload_def Enqueue_def Let_def) (rule exI, rule refl)

text \<open>What a successful cycle of a hybrid-mode worker leaves in the queue and the database.\<close>

lemma collect_hybrid:
  fixes io post_ok clk w e raw
  defines "p \<equiv> enrich (wk_profile w) (AList.delete ''_subCalls'' raw)"
  assumes io: "io_health io = None" "io_collect io = Inr raw" "\<not> wk_lanOnly w"
    and q: "we_queue e = Some q" "int (length (uq_items q)) < uq_maxSize q"
    and db: "we_db e = Some db" "ld_enabled db"
    and cd: "pc_marshal (io_codec io) p = Some s" "pc_encrypt (io_codec io) s = Some enc"
    and id: "io_newID io \<notin> sr_id ` set (ld_snapshots db)"
    and sg: "insert_signals (io_newID io) (tp_TargetID (wk_profile w)) (clk 7)
           (zip (io_signalIDs io) (payload_signals io p)) (ld_signals db) = Some sigs"
  shows "\<exists>x db' row. we_queue (snd (collect io post_ok clk (w, e))) = Some (append_item x q) \<and>
     map_of (qs_Payload x) ''_localSnapshotId'' = Some (VString (io_newID io)) \<and>
     lookup_str (qs_Payload x) ''type'' = ''snapshot'' \<and>
     we_db (snd (collect io post_ok clk (w, e))) = Some db' \<and> ld_enabled db' \<and>
     ld_snapshots db' = ld_snapshots db @ [row] \<and> sr_id row = io_newID io \<and> sr_synced_at row = None"
proof -
  define w2 where "w2 = setStage ''fetch'' (clk 1) (setStage ''connect'' (clk 0) w)"
  define e1 where "e1 = e\<lparr>we_metrics := RecordCollection (clk 4) (tp_TargetID (wk_profile w))
      (tp_TargetType (wk_profile w)) (tp_Name (wk_profile w)) (time_sub (clk 3) (clk 2))
      (case io_jlen io (AList.delete ''_subCalls'' raw) of None \<Rightarrow> 0 | Some n \<Rightarrow> n)
      (collection_status_of (AList.delete ''_subCalls'' raw))
      (case map_of raw ''_subCalls'' of None \<Rightarrow> []
         | Some v \<Rightarrow> (case io_asSubCalls io v of None \<Rightarrow> [] | Some l \<Rightarrow> l)) (we_metrics e)\<rparr>"
  define we3 where "we3 = mark_success post_ok (clk 5) (w2, e1)"
  have e2: "we_db (snd we3) = Some db" "we_queue (snd we3) = Some q"
    using db q by (simp_all add: we3_def e1_def)
  obtain db' row where wl: "write_local io (clk 7) (wk_profile w) p (snd we3) =
      (AList.update ''_localSnapshotId'' (VString (io_newID io)) p, (snd we3)\<lparr>we_db := Some db'\<rparr>)"
    and row: "ld_enabled db'" "ld_snapshots db' = ld_snapshots db @ [row]" "sr_id row = io_newID io"
      "sr_synced_at row = None"
    using write_local_ok [OF e2(1) db(2) cd id sg] by blast
  define w3 where "w3 = setStage ''parse'' (clk 6) (fst we3)"
  define up where "up = advertise_local w3 (AList.update ''_localSnapshotId'' (VString (io_newID io)) p)"
  have coll: "snd (collect io post_ok clk (w, e)) =
      snd (cloud_upload io (clk 8) up (w3, (snd we3)\<lparr>we_db := Some db'\<rparr>))"
    using io wl
    by (simp add: collect_def collect_ok_def Let_def split_beta up_def w3_def we3_def w2_def e1_def p_def)
  have "\<not> wk_lanOnly w3" using io(3) by (simp add: w3_def we3_def w2_def)
  then obtain m where cu: "snd (cloud_upload io (clk 8) up (w3, (snd we3)\<lparr>we_db := Some db'\<rparr>)) =
     (snd we3)\<lparr>we_db := Some db', we_queue := Some (append_item (mk_item (io_jlen io) (clk 8)
        (wk_hostToken w3) up (ClassifySnapshotPriority (io_jlen io) up)) q), we_metrics := m\<rparr>"
    using cloud_upload_room [of w3 "(snd we3)\<lparr>we_db := Some db'\<rparr>" q io "clk 8" up] e2 q
    by (simp del: ex_simps) blast
  have "map_of up ''_localSnapshotId'' = Some (VString (io_newID io))" "lookup_str up ''type'' = ''snapshot''"
    unfolding up_def advertise_local_def p_def enrich_def lookup_str_def
    by (simp_all del: AList.update.simps)
  with row show ?thesis unfolding coll cu by (auto simp: mk_item_def)
qed

text \<open>End to end. When a hybrid-mode worker with room in the upload queue collects a snapshot,
  the local database gains exactly one unsynced row, and when the upload worker that took the queued
  snapshot succeeds in posting it, exactly that row is marked synced: the rows still to be replayed
  are those there were before.\<close>
theorem collected_upload_syncs_row:
  assumes "io_health io = None" and "io_collect io = Inr raw" and "\<not> wk_lanOnly w"
    and "we_queue e = Some q" and "int (length (uq_items q)) < uq_maxSize q"
    and "we_db e = Some db" and "ld_enabled db"
    and "pc_marshal (io_codec io) (enrich (wk_profile w) (AList.delete ''_subCalls'' raw)) = Some s"
    and "pc_encrypt (io_codec io) s = Some enc"
    and "io_newID io \<notin> sr_id ` set (ld_snapshots db)" and "io_newID io \<noteq> ''''"
    and "insert_signals (io_newID io) (tp_TargetID (wk_profile w)) (clk 7)
           (zip (io_signalIDs io)
             (payload_signals io (enrich (wk_profile w) (AList.delete ''_subCalls'' raw))))
           (ld_signals db) = Some sigs"
    and "us_db sys = we_db (snd (collect io post_ok clk (w, e)))"
    and "us_flights sys ! i =
           Posting (last (uq_items (the (we_queue (snd (collect io post_ok clk (w, e)))))))"
  shows "UnsyncedCount (us_db sys) = UnsyncedCount (Some db) + 1 \<and>
     unsynced_rows (the (us_db (us_posted now nowtxt i PostOK sys))) = unsynced_rows db"
proof -
  obtain x db' row where
    q': "we_queue (snd (collect io post_ok clk (w, e))) = Some (append_item x q)"
    and x: "map_of (qs_Payload x) ''_localSnapshotId'' = Some (VString (io_newID io))"
    and d: "us_db sys = Some db'" "ld_enabled db'" "ld_snapshots db' = ld_snapshots db @ [row]"
      "sr_id row = io_newID io" "sr_synced_at row = None"
    using collect_hybrid [where clk = clk and post_ok = post_ok and w = w and io = io and e = e,
        OF assms(1-7) assms(8-10,12)] assms(13) by auto
  have f: "us_flights sys ! i = Posting x" using assms(14) q' by (simp add: append_item_def)
  obtain db'' where m: "MarkSynced nowtxt (io_newID io) (Some db') = Some db''"
    using d by (simp add: MarkSynced_def)
  have rows: "unsynced_rows db' = unsynced_rows db @ [row]"
    using d by (simp add: unsynced_rows_def)
  have "us_db (us_posted now nowtxt i PostOK sys) = Some db''"
    using f x m d(1) assms(11) by (simp add: us_posted_def mark_synced_item_def)
  moreover have "filter (\<lambda>r. sr_id r \<noteq> io_newID io) (unsynced_rows db) = unsynced_rows db"
    using assms(10) unfolding filter_id_conv unsynced_rows_def by (auto intro: rev_image_eqI)
  ultimately show ?thesis
    using unsynced_rows_MarkSynced [OF m d(2)] rows d assms(7) by (simp add: UnsyncedCount_def)
qed

definition total_codec :: payload_codec where
  "total_codec = \<lparr>pc_marshal = (\<lambda>m. Some ''{}''), pc_unmarshal = (\<lambda>s. Some []),
     pc_encrypt = (\<lambda>s. Some (rev s)), pc_decrypt = (\<lambda>s. Some (rev s))\<rparr>"

theorem collected_upload_syncs_row_witness:
  "let io = (demo_io (Inr [(''snapshotData'', VMap [])]))\<lparr>io_codec := total_codec\<rparr>;
       e' = snd (collect io (\<lambda>_. True) (\<lambda>_. 7) (demo_worker, demo_env (Some (demo_queue [])) (Some demo_db)));
       sys = (upload_init DefaultUploadQueueConfig ''t'' True (we_db e'))
               \<lparr>us_flights := [Posting (last (uq_items (the (we_queue e'))))]\<rparr>
   in UnsyncedCount (us_db sys) = 3 \<and>
      map sr_id (unsynced_rows (the (us_db (us_posted 9 ''now'' 0 PostOK sys)))) = [''a'', ''b'']"
proof -
  let ?io = "(demo_io (Inr [(''snapshotData'', VMap [])]))\<lparr>io_codec := total_codec\<rparr>"
  let ?e = "demo_env (Some (demo_queue [])) (Some demo_db)"
  let ?e' = "snd (collect ?io (\<lambda>_. True) (\<lambda>_. 7) (demo_worker, ?e))"
  let ?sys = "(upload_init DefaultUploadQueueConfig ''t'' True (we_db ?e'))
               \<lparr>us_flights := [Posting (last (uq_items (the (we_queue ?e'))))]\<rparr>"
  have sig: "payload_signals ?io (enrich (wk_profile demo_worker)
      (AList.delete ''_subCalls'' [(''snapshotData'', VMap [])])) = []"
    by (simp add: payload_signals_def enrich_def del: AList.update.simps)
  have ids: "map sr_id (unsynced_rows demo_db) = [''a'', ''b'']"
    by (simp add: unsynced_rows_def demo_db_def demo_row_def)
  have "UnsyncedCount (us_db ?sys) = UnsyncedCount (Some demo_db) + 1 \<and>
     unsynced_rows (the (us_db (us_posted 9 ''now'' 0 PostOK ?sys))) = unsynced_rows demo_db"
    by (rule collected_upload_syncs_row [where clk = "\<lambda>_. 7" and w = demo_worker and e = ?e and io = ?io
          and post_ok = "\<lambda>_. True" and q = "demo_queue []" and sigs = "[]"
          and raw = "[(''snapshotData'', VMap [])]" and s = "''{}''" and enc = "rev ''{}''"])
      (use sig in \<open>simp_all add: demo_io_def demo_env_def total_codec_def demo_db_def demo_row_def
        demo_queue_def upload_init_def\<close>)
  moreover have "UnsyncedCount (Some demo_db) = 2"
    by (simp add: UnsyncedCount_def unsynced_rows_def demo_db_def demo_row_def)
  ultimately show ?thesis using ids by (simp add: Let_def)
qed

text \<open>Restart never fails and never blocks on a worker whose loop has returned: whatever the
  state, the worker is stopped first, so \<open>Start\<close> accepts it, and afterwards it is live, not
  cancelled, in status starting with a clean error count and one more recorded restart. \<open>Start\<close>
  itself refuses exactly a running worker.\<close>
theorem restart_always_starts:
  "\<exists>w' e'. Restart post_ok now (w, e) = (Some w', e') \<and>
     wk_live w' \<and> \<not> wk_cancelled w' \<and> \<not> wk_stopped w' \<and> wk_status w' = WorkerStatusStarting \<and>
     ws_ConsecutiveErrors (wk_state w') = 0 \<and>
     ws_RestartCount (wk_state w') = ws_RestartCount (wk_state w) + 1 \<and>
     ws_LastRestartAt (wk_state w') = now \<and> we_posts e' = we_posts e \<and>
     (Start now w = None \<longleftrightarrow> wk_status w = WorkerStatusRunning)"
  by (simp add: Restart_def Stop_def Start_def run_exit_def Let_def split_beta setStatus_def
      heartbeat_transition_def)

section \<open>The profile never changes\<close>

lemma cloud_upload_profile [simp]: "wk_profile (fst (cloud_upload io now payload we)) = wk_profile (fst we)"
  by (cases we; simp add: cloud_upload_def Let_def split: option.split prod.split)

lemma collect_profile [simp]: "wk_profile (fst (collect io post_ok clk we)) = wk_profile (fst we)"
proof (cases we)
  case (Pair w e)
  have "wk_profile (fst (collect_ok io post_ok clk raw (w', e'))) = wk_profile w'" for raw w' e'
    by (simp add: collect_ok_def Let_def split_beta)
  then show ?thesis by (simp add: Pair collect_def Let_def split: option.split sum.split)
qed

lemma collect_started_profile [simp]: "wk_profile (collect_started clk how w) = wk_profile w"
  by (simp add: collect_started_def)

lemma run_profile [simp]:
  "wk_profile (fst (run_init post_ok now init we)) = wk_profile (fst we)"
  "wk_profile (fst (run_first io post_ok clk how we)) = wk_profile (fst we)"
  "wk_profile (fst (run_tick io post_ok clk how msg we)) = wk_profile (fst we)"
  by (cases we; auto simp: run_init_def run_first_def run_tick_def Let_def split_beta run_exit_def
      split: option.split cycle_end.split)+

lemma Stop_profile [simp]: "wk_profile (fst (Stop post_ok now we)) = wk_profile (fst we)"
  by (cases we) (simp add: Stop_def run_exit_def)

lemma Restart_profile: "fst (Restart post_ok now we) = Some w' \<Longrightarrow> wk_profile w' = wk_profile (fst we)"
  by (cases we) (auto simp: Restart_def Start_def Let_def split_beta split: if_splits)

end
