(* ===== verification/Readiness.thy ===== *)
theory Readiness
  imports HostTypes LocalDB
begin

text \<open>
  Per-target readiness of Brocade targets: the REST readiness registry
  (brocade_rest_readiness.go), the readiness records of types.go and
  targetconfigure/readiness_snapshot.go, and the merge of REST and SSH readiness for the
  capability manifest (brocade_ssh_readiness_merge.go). The registry's clock is the argument \<open>now\<close>;
  the parser \<open>time.Parse(time.RFC3339, _)\<close> is the argument \<open>parse\<close>, and the results hold for
  every parser.
\<close>

section \<open>Data\<close>

record per_target_readiness =
  pt_RESTReady :: bool
  pt_RESTReason :: string
  pt_RESTSecurityState :: string
  pt_TLSPolicy :: string
  pt_LastRESTErrorCode :: string
  pt_LastRESTErrorAt :: string
  pt_SSHReady :: bool
  pt_SSHReason :: string
  pt_SSHProbeStage :: string
  pt_SSHKeyAlgorithm :: string
  pt_SSHKeyBits :: int
  pt_SSHKeyOrigin :: string
  pt_SSHKeyFingerprintSHA256 :: string
  pt_SSHUsername :: string
  pt_SwitchHostKeyFingerprintSHA256 :: string
  pt_LastProbeAt :: string
  pt_LastSuccessfulProbeAt :: string

definition zero_readiness :: per_target_readiness where
  "zero_readiness =
     \<lparr>pt_RESTReady = False, pt_RESTReason = '''', pt_RESTSecurityState = '''', pt_TLSPolicy = '''',
      pt_LastRESTErrorCode = '''', pt_LastRESTErrorAt = '''', pt_SSHReady = False,
      pt_SSHReason = '''', pt_SSHProbeStage = '''', pt_SSHKeyAlgorithm = '''', pt_SSHKeyBits = 0,
      pt_SSHKeyOrigin = '''', pt_SSHKeyFingerprintSHA256 = '''', pt_SSHUsername = '''',
      pt_SwitchHostKeyFingerprintSHA256 = '''', pt_LastProbeAt = '''', pt_LastSuccessfulProbeAt = ''''\<rparr>"

record rest_observation =
  ro_Readiness :: per_target_readiness
  ro_LastOKAt :: time

type_synonym rest_registry = "(string \<times> rest_observation) list"

record ssh_snapshot =
  ss_SSHReady :: bool
  ss_SSHReason :: string
  ss_SSHProbeStage :: string
  ss_SSHKeyAlgorithm :: string
  ss_SSHKeyBits :: int
  ss_SSHKeyOrigin :: string
  ss_SSHKeyFingerprintSHA256 :: string
  ss_SSHUsername :: string
  ss_SwitchHostKeyFingerprint :: string
  ss_LastProbeAt :: string
  ss_LastSuccessfulProbeAt :: string

section \<open>REST readiness registry\<close>

definition brocadeRESTReadinessTTL :: duration where
  "brocadeRESTReadinessTTL = 5 * minute"

definition RecordSuccess ::
  "time \<Rightarrow> string \<Rightarrow> string \<Rightarrow> string \<Rightarrow> rest_registry \<Rightarrow> rest_registry" where
  "RecordSuccess now tid security tls r =
     (if tid = '''' then r
      else AList.update tid
             \<lparr>ro_Readiness = zero_readiness\<lparr>pt_RESTReady := True, pt_RESTSecurityState := security,
                               pt_TLSPolicy := tls\<rparr>,
              ro_LastOKAt = now\<rparr> r)"

definition RecordFailure ::
  "time \<Rightarrow> string \<Rightarrow> string \<Rightarrow> string \<Rightarrow> rest_registry \<Rightarrow> rest_registry" where
  "RecordFailure now tid code reason r =
     (if tid = '''' then r
      else let prev = (case map_of r tid of
                         None \<Rightarrow> \<lparr>ro_Readiness = zero_readiness, ro_LastOKAt = zero_time\<rparr> | Some x \<Rightarrow> x)
           in AList.update tid
                \<lparr>ro_Readiness = zero_readiness\<lparr>pt_RESTReady := False, pt_RESTReason := reason,
                     pt_RESTSecurityState := pt_RESTSecurityState (ro_Readiness prev),
                     pt_TLSPolicy := pt_TLSPolicy (ro_Readiness prev),
                     pt_LastRESTErrorCode := code,
                     pt_LastRESTErrorAt := fmt_seconds (nat (now div second)) @ ''Z''\<rparr>,
                 ro_LastOKAt = ro_LastOKAt prev\<rparr> r)"

definition DeleteReadiness :: "string \<Rightarrow> rest_registry \<Rightarrow> rest_registry" where
  "DeleteReadiness tid r = (if tid = '''' then r else AList.delete tid r)"

definition expire_rest :: "time \<Rightarrow> rest_observation \<Rightarrow> per_target_readiness" where
  "expire_rest now obs =
     (let p = ro_Readiness obs
      in if pt_RESTReady p \<and>
            (ro_LastOKAt obs = zero_time \<or> time_sub now (ro_LastOKAt obs) > brocadeRESTReadinessTTL)
         then p\<lparr>pt_RESTReady := False,
                pt_RESTReason := (if pt_RESTReason p = '''' then ''rest_readiness_stale'' else pt_RESTReason p),
                pt_LastRESTErrorCode := (if pt_LastRESTErrorCode p = '''' then ''rest_readiness_stale''
                                         else pt_LastRESTErrorCode p)\<rparr>
         else p)"

definition Snapshot :: "time \<Rightarrow> rest_registry \<Rightarrow> (string \<times> per_target_readiness) list option" where
  "Snapshot now r =
     (if r = [] then None else Some (map (\<lambda>(tid, obs). (tid, expire_rest now obs)) r))"

definition brocadeRESTSecurityState :: "string \<Rightarrow> bool \<Rightarrow> string" where
  "brocadeRESTSecurityState baseURL insecure =
     (if length baseURL \<ge> 7 \<and> take 7 baseURL = ''http://'' then ''lab_http_cleartext''
      else if insecure then ''lab_tls_unverified'' else ''production_verified'')"

section \<open>Merging REST and SSH readiness\<close>

definition sshFreshnessTTL :: duration where
  "sshFreshnessTTL = 10 * minute"

definition parseRFC3339 :: "(string \<Rightarrow> time option) \<Rightarrow> string \<Rightarrow> time option" where
  "parseRFC3339 parse s = (if s = '''' then None else parse s)"

definition overlay_ssh :: "ssh_snapshot \<Rightarrow> per_target_readiness \<Rightarrow> per_target_readiness" where
  "overlay_ssh s p =
     p\<lparr>pt_SSHReady := ss_SSHReady s, pt_SSHReason := ss_SSHReason s,
       pt_SSHProbeStage := ss_SSHProbeStage s, pt_SSHKeyAlgorithm := ss_SSHKeyAlgorithm s,
       pt_SSHKeyBits := ss_SSHKeyBits s, pt_SSHKeyOrigin := ss_SSHKeyOrigin s,
       pt_SSHKeyFingerprintSHA256 := ss_SSHKeyFingerprintSHA256 s, pt_SSHUsername := ss_SSHUsername s,
       pt_SwitchHostKeyFingerprintSHA256 := ss_SwitchHostKeyFingerprint s,
       pt_LastProbeAt := ss_LastProbeAt s, pt_LastSuccessfulProbeAt := ss_LastSuccessfulProbeAt s\<rparr>"

definition expire_ssh ::
  "(string \<Rightarrow> time option) \<Rightarrow> time \<Rightarrow> per_target_readiness \<Rightarrow> per_target_readiness" where
  "expire_ssh parse now p =
     (if pt_SSHReady p \<and> pt_SSHProbeStage p = ''command_succeeded'' then
        (let stale = (case parseRFC3339 parse (pt_LastSuccessfulProbeAt p) of
                        None \<Rightarrow> True | Some lastOK \<Rightarrow> time_sub now lastOK > sshFreshnessTTL)
         in if stale
            then p\<lparr>pt_SSHReady := False,
                   pt_SSHReason := (if pt_SSHReason p = '''' then ''probe_stale'' else pt_SSHReason p)\<rparr>
            else p)
      else p)"

fun merge_ssh ::
  "(string \<Rightarrow> time option) \<Rightarrow> time \<Rightarrow> (string \<times> ssh_snapshot) list
   \<Rightarrow> (string \<times> per_target_readiness) list \<Rightarrow> (string \<times> per_target_readiness) list" where
  "merge_ssh parse now [] out = out"
| "merge_ssh parse now ((tid, s) # ss) out =
     (let p = (case map_of out tid of None \<Rightarrow> zero_readiness | Some q \<Rightarrow> q)
      in merge_ssh parse now ss (AList.update tid (expire_ssh parse now (overlay_ssh s p)) out))"

definition mergeBrocadePerTargetReadiness ::
  "(string \<Rightarrow> time option) \<Rightarrow> (string \<times> per_target_readiness) list \<Rightarrow> (string \<times> ssh_snapshot) list
   \<Rightarrow> time \<Rightarrow> (string \<times> per_target_readiness) list option" where
  "mergeBrocadePerTargetReadiness parse rest ssh now =
     (if rest = [] \<and> ssh = [] then None else Some (merge_ssh parse now ssh rest))"

section \<open>Properties\<close>

text \<open>The history of a registry: what was recorded, oldest first.\<close>

datatype rest_event = EvSuccess time string string string | EvFailure time string string string
  | EvDelete string

fun rest_apply :: "rest_registry \<Rightarrow> rest_event \<Rightarrow> rest_registry" where
  "rest_apply r (EvSuccess t tid sec tls) = RecordSuccess t tid sec tls r"
| "rest_apply r (EvFailure t tid code reason) = RecordFailure t tid code reason r"
| "rest_apply r (EvDelete tid) = DeleteReadiness tid r"

fun ev_target :: "rest_event \<Rightarrow> string" where
  "ev_target (EvSuccess t tid sec tls) = tid"
| "ev_target (EvFailure t tid code reason) = tid"
| "ev_target (EvDelete tid) = tid"

fun ev_success_at :: "rest_event \<Rightarrow> time option" where
  "ev_success_at (EvSuccess t tid sec tls) = Some t"
| "ev_success_at ev = None"

definition last_success :: "string \<Rightarrow> rest_event list \<Rightarrow> time option" where
  "last_success tid evs =
     (let own = filter (\<lambda>ev. ev_target ev = tid) evs
      in if own = [] then None else ev_success_at (last own))"

lemma rest_apply_other:
  "ev_target ev \<noteq> tid \<Longrightarrow> map_of (rest_apply r ev) tid = map_of r tid"
  by (cases ev) (auto simp: RecordSuccess_def RecordFailure_def DeleteReadiness_def Let_def)

lemma rest_apply_own:
  assumes "ev_target ev = tid" and "tid \<noteq> ''''"
  shows "(case map_of (rest_apply r ev) tid of None \<Rightarrow> None
          | Some obs \<Rightarrow> if pt_RESTReady (ro_Readiness obs) then Some (ro_LastOKAt obs) else None)
         = ev_success_at ev"
  using assms
  by (cases ev) (auto simp: RecordSuccess_def RecordFailure_def DeleteReadiness_def Let_def
      zero_readiness_def)

lemma registry_history:
  assumes "tid \<noteq> ''''"
  shows "(case map_of (foldl rest_apply [] evs) tid of None \<Rightarrow> None
          | Some obs \<Rightarrow> if pt_RESTReady (ro_Readiness obs) then Some (ro_LastOKAt obs) else None)
         = last_success tid evs"
proof (induction evs rule: rev_induct)
  case Nil
  then show ?case by (simp add: last_success_def)
next
  case (snoc ev evs)
  show ?case
  proof (cases "ev_target ev = tid")
    case True
    then show ?thesis using rest_apply_own [OF True assms] by (simp add: last_success_def)
  next
    case False
    then show ?thesis using snoc by (simp add: rest_apply_other last_success_def)
  qed
qed

lemma map_of_Snapshot:
  "map_of (case Snapshot now r of None \<Rightarrow> [] | Some m \<Rightarrow> m) tid = map_option (expire_rest now) (map_of r tid)"
  by (simp add: Snapshot_def map_of_map)

text \<open>REST readiness is never stale. Whatever was recorded before, a target is published as
  ready exactly when the last thing recorded about it is a success at a non-zero time that is at
  most five minutes old; a later failure, a deletion or the passing of time makes it not ready, and
  publishing it does not renew it.\<close>
theorem rest_ready_iff_fresh:
  assumes "tid \<noteq> ''''"
  shows "(\<exists>p. map_of (case Snapshot now (foldl rest_apply [] evs) of None \<Rightarrow> [] | Some m \<Rightarrow> m) tid = Some p
              \<and> pt_RESTReady p)
     \<longleftrightarrow> (\<exists>t. last_success tid evs = Some t \<and> t \<noteq> zero_time \<and> now - t \<le> 5 * minute)"
proof -
  have sub: "time_sub now t > 5 * minute \<longleftrightarrow> now - t > 5 * minute" for t
    by (rule time_sub_greater) (simp_all add: duration_defs)
  show ?thesis
  proof (cases "map_of (foldl rest_apply [] evs) tid")
    case None
    then show ?thesis using registry_history [OF assms, of evs] by (simp add: map_of_Snapshot)
  next
    case (Some obs)
    then have "last_success tid evs =
        (if pt_RESTReady (ro_Readiness obs) then Some (ro_LastOKAt obs) else None)"
      using registry_history [OF assms, of evs] by simp
    with Some show ?thesis
      by (simp add: map_of_Snapshot expire_rest_def Let_def brocadeRESTReadinessTTL_def sub not_less)
  qed
qed

theorem rest_ready_iff_fresh_witness:
  "let evs = [EvFailure 5 ''t1'' ''c'' ''r'', EvSuccess (10 * second) ''t1'' ''s'' ''modern'', EvDelete ''t2'']
   in (\<exists>p. map_of (case Snapshot (20 * second) (foldl rest_apply [] evs) of None \<Rightarrow> [] | Some m \<Rightarrow> m) ''t1'' = Some p
        \<and> pt_RESTReady p) \<and>
      \<not> (\<exists>p. map_of (case Snapshot (11 * minute) (foldl rest_apply [] evs) of None \<Rightarrow> [] | Some m \<Rightarrow> m) ''t1'' = Some p
        \<and> pt_RESTReady p)"
proof -
  define evs where "evs = [EvFailure 5 ''t1'' ''c'' ''r'', EvSuccess (10 * second) ''t1'' ''s'' ''modern'',
    EvDelete ''t2'']"
  have "last_success ''t1'' evs = Some (10 * second)" by (simp add: evs_def last_success_def)
  then show ?thesis
    unfolding Let_def evs_def [symmetric]
    using rest_ready_iff_fresh [of "''t1''" "20 * second" evs] rest_ready_iff_fresh [of "''t1''" "11 * minute" evs]
    by (simp add: duration_defs)
qed

lemma merge_ssh_lookup:
  "distinct (map fst ss) \<Longrightarrow>
   map_of (merge_ssh parse now ss out) tid =
     (case map_of ss tid of None \<Rightarrow> map_of out tid
      | Some s \<Rightarrow> Some (expire_ssh parse now (overlay_ssh s
                   (case map_of out tid of None \<Rightarrow> zero_readiness | Some q \<Rightarrow> q))))"
proof (induction ss arbitrary: out)
  case Nil
  then show ?case by simp
next
  case (Cons x ss)
  obtain k s where x: "x = (k, s)" by (cases x)
  have d: "distinct (map fst ss)" and k: "map_of ss k = None"
    using Cons.prems x by (simp_all add: map_of_eq_None_iff)
  show ?case
    unfolding x merge_ssh.simps Let_def Cons.IH [OF d] using k by (auto split: option.split)
qed

text \<open>The merged manifest keeps the ownership rules: the REST fields of a target come from the
  REST snapshot alone (and are empty without one), its SSH fields from the SSH snapshot alone, and
  SSH readiness is published exactly when the snapshot says so and, for a target whose probe has
  reached \<open>command_succeeded\<close>, the recorded success parses and is at most ten minutes old. For any
  other stage a ready snapshot is published as ready however old it is.\<close>
theorem merge_readiness_spec:
  assumes "distinct (map fst ssh)"
    and "mergeBrocadePerTargetReadiness parse rest ssh now = Some out" and "map_of out tid = Some p"
  shows "(let r = (case map_of rest tid of None \<Rightarrow> zero_readiness | Some q \<Rightarrow> q) in
     pt_RESTReady p = pt_RESTReady r \<and> pt_RESTReason p = pt_RESTReason r \<and>
     pt_RESTSecurityState p = pt_RESTSecurityState r \<and> pt_TLSPolicy p = pt_TLSPolicy r \<and>
     pt_LastRESTErrorCode p = pt_LastRESTErrorCode r \<and> pt_LastRESTErrorAt p = pt_LastRESTErrorAt r \<and>
     (case map_of ssh tid of
        None \<Rightarrow> p = r
      | Some s \<Rightarrow>
          (pt_SSHReady p \<longleftrightarrow> ss_SSHReady s \<and>
             (ss_SSHProbeStage s \<noteq> ''command_succeeded'' \<or>
              (ss_LastSuccessfulProbeAt s \<noteq> '''' \<and>
               (\<exists>t. parse (ss_LastSuccessfulProbeAt s) = Some t \<and> now - t \<le> 10 * minute)))) \<and>
          pt_LastSuccessfulProbeAt p = ss_LastSuccessfulProbeAt s \<and> pt_LastProbeAt p = ss_LastProbeAt s))"
proof -
  have sub: "time_sub now t > 10 * minute \<longleftrightarrow> now - t > 10 * minute" for t
    by (rule time_sub_greater) (simp_all add: duration_defs)
  define r where "r = (case map_of rest tid of None \<Rightarrow> zero_readiness | Some q \<Rightarrow> q)"
  have m: "(case map_of ssh tid of None \<Rightarrow> map_of rest tid
      | Some s \<Rightarrow> Some (expire_ssh parse now (overlay_ssh s r))) = Some p"
    using assms(2,3) merge_ssh_lookup [OF assms(1), of parse now rest tid]
    unfolding r_def [symmetric]
    by (simp add: mergeBrocadePerTargetReadiness_def split: if_splits)
  show ?thesis
  proof (cases "map_of ssh tid")
    case None
    with m show ?thesis by (simp add: Let_def)
  next
    case (Some s)
    with m have p: "p = expire_ssh parse now (overlay_ssh s r)" by simp
    show ?thesis unfolding Let_def r_def [symmetric] Some p
      by (auto simp: expire_ssh_def overlay_ssh_def parseRFC3339_def sshFreshnessTTL_def sub not_less
          Let_def split: option.split)
  qed
qed

definition demo_ssh :: "string \<Rightarrow> ssh_snapshot" where
  "demo_ssh stage = \<lparr>ss_SSHReady = True, ss_SSHReason = '''', ss_SSHProbeStage = stage,
     ss_SSHKeyAlgorithm = ''rsa'', ss_SSHKeyBits = 3072, ss_SSHKeyOrigin = ''generated'',
     ss_SSHKeyFingerprintSHA256 = '''', ss_SSHUsername = ''u'', ss_SwitchHostKeyFingerprint = '''',
     ss_LastProbeAt = ''p'', ss_LastSuccessfulProbeAt = ''s''\<rparr>"

theorem merge_readiness_spec_witness:
  "let ssh = [(''t1'', demo_ssh ''command_succeeded''), (''t2'', demo_ssh ''auth_succeeded'')];
       out = merge_ssh (\<lambda>_. Some 0) (11 * minute) ssh []
   in \<not> pt_SSHReady (the (map_of out ''t1'')) \<and> pt_SSHReady (the (map_of out ''t2''))"
proof -
  let ?ssh = "[(''t1'', demo_ssh ''command_succeeded''), (''t2'', demo_ssh ''auth_succeeded'')]"
  let ?out = "merge_ssh (\<lambda>_. Some 0) (11 * minute) ?ssh []"
  have m: "mergeBrocadePerTargetReadiness (\<lambda>_. Some 0) [] ?ssh (11 * minute) = Some ?out"
    by (simp add: mergeBrocadePerTargetReadiness_def)
  have d: "distinct (map fst ?ssh)" by simp
  obtain p where p: "map_of ?out ''t1'' = Some p"
    using merge_ssh_lookup [OF d, of "\<lambda>_. Some 0" "11 * minute" "[]" "''t1''"] by simp
  obtain q where q: "map_of ?out ''t2'' = Some q"
    using merge_ssh_lookup [OF d, of "\<lambda>_. Some 0" "11 * minute" "[]" "''t2''"] by simp
  have "\<not> pt_SSHReady p" using merge_readiness_spec [OF d m p] by (simp add: demo_ssh_def duration_defs Let_def)
  moreover have "pt_SSHReady q" using merge_readiness_spec [OF d m q] by (simp add: demo_ssh_def Let_def)
  ultimately show ?thesis unfolding Let_def p q by simp
qed

end
