(* ===== verification/Validation.thy ===== *)
theory Validation
  imports HostTypes
begin

text \<open>
  Profile validation (validation.go, validation_registry.go), the change-operation policy
  (change_policy.go) and the TLS policy model (httputil.go). Every early return of
  \<open>Validate\<close> is a constructor of \<open>validation_error\<close>. The lookups of \<open>url.Parse\<close> and
  \<open>net.ParseIP\<close> that \<open>tlsServerNameFromEndpoint\<close> makes are the parameter \<open>server_name\<close>.
\<close>

section \<open>Validation\<close>

definition ProfileModeReadOnly :: string where "ProfileModeReadOnly = ''readonly''"
definition ProfileModeOpsEnabled :: string where "ProfileModeOpsEnabled = ''ops-enabled''"

definition IsValidProfileMode :: "string \<Rightarrow> bool" where
  "IsValidProfileMode mode = (mode = ProfileModeReadOnly \<or> mode = ProfileModeOpsEnabled)"

record target_auth_spec =
  ta_TargetType :: string
  ta_AllowedAuthTypes :: "string list"
  ta_RequiredCredKeys :: "string list"
  ta_DefaultMode :: string
  ta_Description :: string

definition targetAuthRegistry :: "(string \<times> target_auth_spec) list" where
  "targetAuthRegistry =
     [(''brocade'', \<lparr>ta_TargetType = ''brocade'',
        ta_AllowedAuthTypes = [''username_password'', ''api_token''], ta_RequiredCredKeys = [],
        ta_DefaultMode = ProfileModeReadOnly, ta_Description = ''Brocade FC switch (FOS REST)''\<rparr>)]"

definition GetTargetAuthSpec :: "string \<Rightarrow> target_auth_spec option" where
  "GetTargetAuthSpec tt = map_of targetAuthRegistry tt"

definition isAuthTypeAllowed :: "target_auth_spec \<Rightarrow> string \<Rightarrow> bool" where
  "isAuthTypeAllowed spec auth = list_ex (\<lambda>allowed. allowed = auth) (ta_AllowedAuthTypes spec)"

fun all_strings :: "goval list \<Rightarrow> string list option" where
  "all_strings [] = Some []"
| "all_strings (VString s # vs) = map_option ((#) s) (all_strings vs)"
| "all_strings (v # vs) = None"

fun toStringSlice :: "goval \<Rightarrow> string list option" where
  "toStringSlice (VSlice arr) = all_strings arr"
| "toStringSlice (VStrSlice arr) = Some arr"
| "toStringSlice v = None"

fun toFloat64 :: "goval \<Rightarrow> rat option" where
  "toFloat64 (VFloat n) = Some n"
| "toFloat64 (VInt n) = Some (of_int n)"
| "toFloat64 (VInt64 n) = Some (of_int n)"
| "toFloat64 (VNumber r) = r"
| "toFloat64 v = None"

datatype guardrail_error =
    ConfigRequired | GuardrailsRequired | GuardrailsNotObject
  | MethodsNotStrings | MethodNotAllowed string | MethodsRequired
  | PathsNotStrings | PathsEmpty | WildcardPath string | PathsRequired
  | TimeoutNotNumber | TimeoutTooLarge | ResponseNotNumber | ResponseTooLarge

fun check_methods :: "string list \<Rightarrow> guardrail_error option" where
  "check_methods [] = None"
| "check_methods (m # ms) =
     (let u = to_upper m
      in if u \<noteq> ''GET'' \<and> u \<noteq> ''HEAD'' \<and> u \<noteq> ''OPTIONS'' then Some (MethodNotAllowed u)
         else check_methods ms)"

fun check_paths :: "string list \<Rightarrow> guardrail_error option" where
  "check_paths [] = None"
| "check_paths (p # ps) =
     (if p = ''*'' \<or> p = ''/**'' \<or> p = ''/*'' then Some (WildcardPath p) else check_paths ps)"

definition validate_methods :: "gomap \<Rightarrow> guardrail_error option" where
  "validate_methods g =
     (case map_of g ''allowed_methods'' of None \<Rightarrow> Some MethodsRequired
      | Some v \<Rightarrow> (case toStringSlice v of None \<Rightarrow> Some MethodsNotStrings
                   | Some ms \<Rightarrow> check_methods ms))"

definition validate_paths :: "gomap \<Rightarrow> guardrail_error option" where
  "validate_paths g =
     (case map_of g ''allowed_paths'' of None \<Rightarrow> Some PathsRequired
      | Some v \<Rightarrow> (case toStringSlice v of None \<Rightarrow> Some PathsNotStrings
                   | Some ps \<Rightarrow> if ps = [] then Some PathsEmpty else check_paths ps))"

definition validate_number ::
  "string \<Rightarrow> guardrail_error \<Rightarrow> guardrail_error \<Rightarrow> rat \<Rightarrow> gomap \<Rightarrow> guardrail_error option" where
  "validate_number key notnum toolarge bound g =
     (case map_of g key of None \<Rightarrow> None
      | Some v \<Rightarrow> (case toFloat64 v of None \<Rightarrow> Some notnum
                   | Some t \<Rightarrow> if t > bound then Some toolarge else None))"

fun first_error :: "'e option list \<Rightarrow> 'e option" where
  "first_error [] = None"
| "first_error (None # es) = first_error es"
| "first_error (Some e # es) = Some e"

definition validateGenericHTTP :: "desired_profile \<Rightarrow> guardrail_error option" where
  "validateGenericHTTP p =
     (case dp_TargetConfig p of None \<Rightarrow> Some ConfigRequired
      | Some tc \<Rightarrow>
        (case map_of tc ''guardrails'' of None \<Rightarrow> Some GuardrailsRequired
         | Some (VMap g) \<Rightarrow>
             first_error [validate_methods g, validate_paths g,
               validate_number ''timeout_secs'' TimeoutNotNumber TimeoutTooLarge 10 g,
               validate_number ''max_response_bytes'' ResponseNotNumber ResponseTooLarge 1048576 g]
         | Some v \<Rightarrow> Some GuardrailsNotObject))"

datatype validation_error =
    TargetIDRequired | NameRequired | TargetTypeRequired | UnsupportedTargetType
  | InvalidMode | OpsNotSupported | EndpointRequired | AuthTypeNotAllowed | PollTooShort
  | GuardrailViolation guardrail_error

definition effective_mode :: "desired_profile \<Rightarrow> string" where
  "effective_mode p = (if dp_Mode p = '''' then ProfileModeReadOnly else dp_Mode p)"

definition auth_rejected :: "desired_profile \<Rightarrow> bool" where
  "auth_rejected p =
     (dp_AuthType p \<noteq> '''' \<and>
      (case GetTargetAuthSpec (dp_TargetType p) of None \<Rightarrow> False
       | Some spec \<Rightarrow> \<not> isAuthTypeAllowed spec (dp_AuthType p)))"

definition Validate :: "desired_profile \<Rightarrow> validation_error option" where
  "Validate p =
     (if dp_TargetID p = '''' then Some TargetIDRequired
      else if dp_Name p = '''' then Some NameRequired
      else if dp_TargetType p = '''' then Some TargetTypeRequired
      else if \<not> IsValidTargetType (dp_TargetType p) then Some UnsupportedTargetType
      else if \<not> IsValidProfileMode (effective_mode p) then Some InvalidMode
      else if effective_mode p = ProfileModeOpsEnabled then Some OpsNotSupported
      else if dp_Endpoint p = '''' \<and> dp_TargetType p \<noteq> ''ollama'' then Some EndpointRequired
      else if auth_rejected p then Some AuthTypeNotAllowed
      else if dp_PollIntervalSecs p > 0 \<and> dp_PollIntervalSecs p < 10 then Some PollTooShort
      else if dp_TargetType p = ''generic-http'' then map_option GuardrailViolation (validateGenericHTTP p)
      else None)"

section \<open>Change-operation policy\<close>

datatype change_policy = ChangePolicyDeny | ChangePolicyExplicit | ChangePolicyAll

record change_policy_config =
  cc_Policy :: change_policy
  cc_AllowedOps :: "(string \<times> bool) list"
  cc_AllowedOpsSlice :: "string list"

definition DefaultChangePolicyConfig :: change_policy_config where
  "DefaultChangePolicyConfig =
     \<lparr>cc_Policy = ChangePolicyDeny, cc_AllowedOps = [], cc_AllowedOpsSlice = []\<rparr>"

definition parse_policy :: "string \<Rightarrow> change_policy" where
  "parse_policy raw =
     (let s = to_lower (trim_space raw)
      in if s = ''explicit'' then ChangePolicyExplicit
         else if s = ''all'' then ChangePolicyAll
         else ChangePolicyDeny)"

fun add_ops :: "string list \<Rightarrow> string list \<Rightarrow> change_policy_config \<Rightarrow> change_policy_config" where
  "add_ops seen [] cfg = cfg"
| "add_ops seen (raw # ops) cfg =
     (let op = trim_space raw
      in if op \<noteq> '''' \<and> op \<notin> set seen
         then add_ops (op # seen) ops
                (cfg\<lparr>cc_AllowedOps := AList.update op True (cc_AllowedOps cfg),
                     cc_AllowedOpsSlice := cc_AllowedOpsSlice cfg @ [op]\<rparr>)
         else add_ops seen ops cfg)"

text \<open>The two environment variables are the arguments.\<close>

definition ParseChangePolicyFromEnv :: "string \<Rightarrow> string \<Rightarrow> change_policy_config" where
  "ParseChangePolicyFromEnv policyEnv opsEnv =
     (let cfg = DefaultChangePolicyConfig\<lparr>cc_Policy := parse_policy policyEnv\<rparr>
      in if opsEnv \<noteq> '''' then add_ops [] (split_on (CHR '','') opsEnv) cfg else cfg)"

datatype change_denial = DisabledByPolicy | NoOperationID | NotAllowlisted string

definition IsChangeOpAllowed :: "change_policy_config \<Rightarrow> string \<Rightarrow> change_denial option" where
  "IsChangeOpAllowed c op =
     (case cc_Policy c of
        ChangePolicyDeny \<Rightarrow> Some DisabledByPolicy
      | ChangePolicyAll \<Rightarrow> None
      | ChangePolicyExplicit \<Rightarrow>
          if op = '''' then Some NoOperationID
          else if map_of (cc_AllowedOps c) op = Some True then None
          else Some (NotAllowlisted op))"

section \<open>TLS policy\<close>

definition TLSPolicyModern :: string where "TLSPolicyModern = ''modern''"
definition TLSPolicyFOS82Legacy :: string where "TLSPolicyFOS82Legacy = ''fos82-legacy''"

definition NormalizeTLSPolicy :: "string \<Rightarrow> string" where
  "NormalizeTLSPolicy policy =
     (if policy = TLSPolicyFOS82Legacy then TLSPolicyFOS82Legacy else TLSPolicyModern)"

definition VersionTLS12 :: "16 word" where "VersionTLS12 = 0x0303"

record go_tls_config =
  gt_MinVersion :: "16 word"
  gt_MaxVersion :: "16 word"
  gt_InsecureSkipVerify :: bool
  gt_CipherSuites :: "16 word list"

definition legacy_suites :: "16 word list" where
  "legacy_suites = [0xc013, 0xc014, 0xc027, 0x003c, 0x002f, 0x0035]"

definition tlsConfigForPolicy :: "string \<Rightarrow> bool \<Rightarrow> go_tls_config option" where
  "tlsConfigForPolicy policy insecure =
     (if NormalizeTLSPolicy policy = TLSPolicyModern then
        Some \<lparr>gt_MinVersion = VersionTLS12, gt_MaxVersion = 0, gt_InsecureSkipVerify = insecure,
              gt_CipherSuites = []\<rparr>
      else if NormalizeTLSPolicy policy = TLSPolicyFOS82Legacy then
        Some \<lparr>gt_MinVersion = VersionTLS12, gt_MaxVersion = VersionTLS12,
              gt_InsecureSkipVerify = insecure, gt_CipherSuites = legacy_suites\<rparr>
      else None)"

text \<open>The transport \<open>NewHTTPClient\<close> builds: its TLS configuration and the proxy URL that
  replaces the one from the environment, when \<open>parses\<close> accepts it.\<close>

definition NewHTTPClient ::
  "(string \<Rightarrow> bool) \<Rightarrow> tls_config option \<Rightarrow> proxy_config option \<Rightarrow> go_tls_config \<times> string option"
where
  "NewHTTPClient parses tls proxy =
     (let policy = (case tls of None \<Rightarrow> TLSPolicyModern | Some t \<Rightarrow> NormalizeTLSPolicy (tl_Policy t));
          insecure = (case tls of None \<Rightarrow> False | Some t \<Rightarrow> tl_InsecureSkipVerify t);
          built = (case tlsConfigForPolicy policy insecure of
                     None \<Rightarrow> \<lparr>gt_MinVersion = VersionTLS12, gt_MaxVersion = 0,
                             gt_InsecureSkipVerify = insecure, gt_CipherSuites = []\<rparr>
                   | Some c \<Rightarrow> c);
          proxyURL = (case proxy of None \<Rightarrow> ''''
                      | Some p \<Rightarrow> if px_HTTPSProxy p = '''' then px_HTTPProxy p else px_HTTPSProxy p)
      in (built, if proxyURL \<noteq> '''' \<and> parses proxyURL then Some proxyURL else None))"

record effective_tls =
  ef_Policy :: string
  ef_ServerName :: string
  ef_MinVersion :: "16 word"
  ef_MaxVersion :: "16 word"
  ef_CipherIDs :: "16 word list"
  ef_TrustRef :: string
  ef_InsecureSkipVerify :: bool

definition nul_join3 :: "string \<Rightarrow> string \<Rightarrow> string \<Rightarrow> string" where
  "nul_join3 a b c = a @ [CHR 0x00] @ b @ [CHR 0x00] @ c"

definition effectiveTLSConfigFromProfile :: "(string \<Rightarrow> string) \<Rightarrow> target_profile \<Rightarrow> effective_tls" where
  "effectiveTLSConfigFromProfile server_name p =
     (let tls = tp_TLS p; policy = NormalizeTLSPolicy (tl_Policy tls);
          cfg = (case tlsConfigForPolicy policy (tl_InsecureSkipVerify tls) of
                   None \<Rightarrow> \<lparr>gt_MinVersion = VersionTLS12, gt_MaxVersion = 0,
                           gt_InsecureSkipVerify = tl_InsecureSkipVerify tls, gt_CipherSuites = []\<rparr>
                 | Some c \<Rightarrow> c)
      in \<lparr>ef_Policy = policy, ef_ServerName = server_name (tp_Endpoint p),
          ef_MinVersion = gt_MinVersion cfg, ef_MaxVersion = gt_MaxVersion cfg,
          ef_CipherIDs = sort (gt_CipherSuites cfg),
          ef_TrustRef = nul_join3 (tl_CACertPath tls) (tl_ClientCertPath tls) (tl_ClientKeyPath tls),
          ef_InsecureSkipVerify = gt_InsecureSkipVerify cfg\<rparr>)"

definition effectiveTLSConfigsEqual :: "effective_tls \<Rightarrow> effective_tls \<Rightarrow> bool" where
  "effectiveTLSConfigsEqual a b =
     (if ef_Policy a \<noteq> ef_Policy b \<or> ef_ServerName a \<noteq> ef_ServerName b
         \<or> ef_MinVersion a \<noteq> ef_MinVersion b \<or> ef_MaxVersion a \<noteq> ef_MaxVersion b
         \<or> ef_TrustRef a \<noteq> ef_TrustRef b \<or> ef_InsecureSkipVerify a \<noteq> ef_InsecureSkipVerify b
         \<or> length (ef_CipherIDs a) \<noteq> length (ef_CipherIDs b)
      then False
      else list_all (\<lambda>i. ef_CipherIDs a ! i = ef_CipherIDs b ! i) [0..<length (ef_CipherIDs a)])"

lemmas mode_defs = ProfileModeReadOnly_def ProfileModeOpsEnabled_def
lemmas tls_policy_defs = TLSPolicyModern_def TLSPolicyFOS82Legacy_def NormalizeTLSPolicy_def

section \<open>Properties\<close>

lemma first_error_None: "first_error es = None \<longleftrightarrow> set es \<subseteq> {None}"
  by (induction es rule: first_error.induct) auto

lemma check_methods_None:
  "check_methods ms = None \<longleftrightarrow> set (map to_upper ms) \<subseteq> {''GET'', ''HEAD'', ''OPTIONS''}"
  by (induction ms) (auto simp: Let_def)

lemma check_paths_None:
  "check_paths ps = None \<longleftrightarrow> set ps \<inter> {''*'', ''/*'', ''/**''} = {}"
  by (induction ps) auto

lemma validate_methods_None:
  "validate_methods g = None \<longleftrightarrow>
     (\<exists>v ms. map_of g ''allowed_methods'' = Some v \<and> toStringSlice v = Some ms \<and>
             set (map to_upper ms) \<subseteq> {''GET'', ''HEAD'', ''OPTIONS''})"
  by (simp add: validate_methods_def check_methods_None split: option.splits)

lemma validate_paths_None:
  "validate_paths g = None \<longleftrightarrow>
     (\<exists>v ps. map_of g ''allowed_paths'' = Some v \<and> toStringSlice v = Some ps \<and> ps \<noteq> [] \<and>
             set ps \<inter> {''*'', ''/*'', ''/**''} = {})"
  by (auto simp: validate_paths_def check_paths_None split: option.splits if_splits)

lemma validate_number_None:
  "validate_number key n l bound g = None \<longleftrightarrow>
     map_of g key = None \<or> (\<exists>v t. map_of g key = Some v \<and> toFloat64 v = Some t \<and> t \<le> bound)"
  by (auto simp: validate_number_def split: option.splits if_splits)

text \<open>The generic-http validator accepts a profile exactly when its configuration has a
  guardrails object that lists only GET, HEAD and OPTIONS (in any case), a non-empty list of paths
  without a match-everything pattern, and, where they are given, a time-out of at most ten seconds
  and a response cap of at most 1 MiB.\<close>
theorem validateGenericHTTP_iff:
  "validateGenericHTTP p = None \<longleftrightarrow>
     (\<exists>tc g mv ms pv ps. dp_TargetConfig p = Some tc \<and> map_of tc ''guardrails'' = Some (VMap g) \<and>
        map_of g ''allowed_methods'' = Some mv \<and> toStringSlice mv = Some ms \<and>
        set (map to_upper ms) \<subseteq> {''GET'', ''HEAD'', ''OPTIONS''} \<and>
        map_of g ''allowed_paths'' = Some pv \<and> toStringSlice pv = Some ps \<and> ps \<noteq> [] \<and>
        set ps \<inter> {''*'', ''/*'', ''/**''} = {} \<and>
        (map_of g ''timeout_secs'' = None \<or>
         (\<exists>v t. map_of g ''timeout_secs'' = Some v \<and> toFloat64 v = Some t \<and> t \<le> 10)) \<and>
        (map_of g ''max_response_bytes'' = None \<or>
         (\<exists>v t. map_of g ''max_response_bytes'' = Some v \<and> toFloat64 v = Some t \<and> t \<le> 1048576)))"
proof (cases "dp_TargetConfig p")
  case None
  then show ?thesis by (simp add: validateGenericHTTP_def)
next
  case (Some tc)
  show ?thesis
  proof (cases "\<exists>g. map_of tc ''guardrails'' = Some (VMap g)")
    case True
    then obtain g where g: "map_of tc ''guardrails'' = Some (VMap g)" by blast
    have "validateGenericHTTP p = None \<longleftrightarrow>
        validate_methods g = None \<and> validate_paths g = None \<and>
        validate_number ''timeout_secs'' TimeoutNotNumber TimeoutTooLarge 10 g = None \<and>
        validate_number ''max_response_bytes'' ResponseNotNumber ResponseTooLarge 1048576 g = None"
      using Some g by (simp add: validateGenericHTTP_def first_error_None)
    then show ?thesis
      using Some g unfolding validate_methods_None validate_paths_None validate_number_None
      by auto
  next
    case False
    then have "validateGenericHTTP p \<noteq> None"
      using Some by (auto simp: validateGenericHTTP_def split: option.splits goval.splits)
    with False Some show ?thesis by auto
  qed
qed

text \<open>Validation accepts a profile exactly when it has an id, a name and an endpoint, its type
  is the one supported type \<open>brocade\<close>, its mode is read-only (or absent), its authentication type is
  one the registry allows for Brocade (or absent), and a positive poll interval is at least ten
  seconds. In particular no write-enabled profile is ever accepted, and the generic-http branch
  accepts nothing because that type is rejected before it.\<close>
theorem Validate_iff:
  "Validate p = None \<longleftrightarrow>
     dp_TargetID p \<noteq> '''' \<and> dp_Name p \<noteq> '''' \<and> dp_TargetType p = ''brocade'' \<and>
     dp_Mode p \<in> {'''', ''readonly''} \<and> dp_Endpoint p \<noteq> '''' \<and>
     dp_AuthType p \<in> {'''', ''username_password'', ''api_token''} \<and>
     (dp_PollIntervalSecs p \<le> 0 \<or> dp_PollIntervalSecs p \<ge> 10)"
proof (cases "dp_TargetType p = ''brocade''")
  case True
  have "auth_rejected p \<longleftrightarrow> dp_AuthType p \<notin> {'''', ''username_password'', ''api_token''}"
    using True by (auto simp: auth_rejected_def GetTargetAuthSpec_def targetAuthRegistry_def
        isAuthTypeAllowed_def)
  moreover have "IsValidTargetType (dp_TargetType p)"
    using True by (simp add: IsValidTargetType_def SupportedTargetTypes_def)
  moreover have "IsValidProfileMode (effective_mode p) \<and> effective_mode p \<noteq> ProfileModeOpsEnabled
      \<longleftrightarrow> dp_Mode p \<in> {'''', ''readonly''}"
    by (auto simp: IsValidProfileMode_def effective_mode_def mode_defs)
  ultimately show ?thesis using True unfolding Validate_def by auto
next
  case False
  then have "\<not> IsValidTargetType (dp_TargetType p)"
    by (simp add: IsValidTargetType_def SupportedTargetTypes_def)
  with False show ?thesis by (simp add: Validate_def)
qed

lemma cc_Policy_add_ops [simp]: "cc_Policy (add_ops seen ops c) = cc_Policy c"
  by (induction seen ops c rule: add_ops.induct) (simp_all add: Let_def)

lemma add_ops_allowed:
  "map_of (cc_AllowedOps (add_ops seen ops c)) op = Some True \<longleftrightarrow>
     map_of (cc_AllowedOps c) op = Some True \<or>
     (op \<noteq> '''' \<and> op \<notin> set seen \<and> op \<in> set (map trim_space ops))"
proof (induction seen ops c rule: add_ops.induct)
  case (1 seen cfg)
  then show ?case by simp
next
  case (2 seen raw ops cfg)
  show ?case
  proof (cases "trim_space raw \<noteq> '''' \<and> trim_space raw \<notin> set seen")
    case True
    then show ?thesis using 2(1) [OF refl True] by (auto simp: Let_def)
  next
    case False
    then show ?thesis using 2(2) [OF refl False] by (auto simp: Let_def)
  qed
qed

text \<open>A change operation is allowed exactly when the policy variable reads \<open>all\<close>, or reads
  \<open>explicit\<close> and the operation is one of the non-empty, space-trimmed entries of the comma-separated
  allow list; every other value of the variable denies every operation.\<close>
theorem change_policy_exact:
  "IsChangeOpAllowed (ParseChangePolicyFromEnv policyEnv opsEnv) op = None \<longleftrightarrow>
     to_lower (trim_space policyEnv) = ''all'' \<or>
     (to_lower (trim_space policyEnv) = ''explicit'' \<and> op \<noteq> '''' \<and>
      op \<in> set (map trim_space (split_on (CHR '','') opsEnv)))"
proof -
  let ?c = "ParseChangePolicyFromEnv policyEnv opsEnv"
  have pol: "cc_Policy ?c = parse_policy policyEnv"
    by (simp add: ParseChangePolicyFromEnv_def Let_def)
  have ops: "map_of (cc_AllowedOps ?c) op = Some True \<longleftrightarrow>
      op \<in> set (map trim_space (split_on (CHR '','') opsEnv))" if "op \<noteq> ''''"
  proof (cases "opsEnv = ''''")
    case True
    with that show ?thesis
      by (simp add: ParseChangePolicyFromEnv_def DefaultChangePolicyConfig_def trim_space_def)
  next
    case False
    with that show ?thesis
      unfolding ParseChangePolicyFromEnv_def Let_def
      by (simp add: add_ops_allowed DefaultChangePolicyConfig_def)
  qed
  show ?thesis using ops
    by (auto simp: IsChangeOpAllowed_def pol parse_policy_def Let_def)
qed

lemma NormalizeTLSPolicy_idem: "NormalizeTLSPolicy (NormalizeTLSPolicy x) = NormalizeTLSPolicy x"
  by (simp add: tls_policy_defs)

lemma tlsConfigForPolicy_total:
  "\<exists>c. tlsConfigForPolicy pol ins = Some c \<and> gt_MinVersion c = VersionTLS12 \<and>
       gt_InsecureSkipVerify c = ins"
  by (simp add: tlsConfigForPolicy_def tls_policy_defs)

text \<open>The comparison decides equality, so \<open>profileChanged\<close> may rewrite with it.\<close>

lemma effectiveTLSConfigsEqual_iff [simp]: "effectiveTLSConfigsEqual a b \<longleftrightarrow> a = b"
proof
  assume e: "effectiveTLSConfigsEqual a b"
  then have "ef_CipherIDs a = ef_CipherIDs b"
    by (auto simp: effectiveTLSConfigsEqual_def list_all_iff intro: nth_equalityI split: if_splits)
  with e show "a = b"
    by (auto simp: effectiveTLSConfigsEqual_def split: if_splits)
qed (simp add: effectiveTLSConfigsEqual_def list_all_iff)

text \<open>The effective TLS description that change detection compares is what the HTTP client of
  the profile really uses: same minimum and maximum version, same cipher suites, same certificate
  verification. Whatever the policy string, the minimum is TLS 1.2, verification is off only when
  the profile says so, and two descriptions compare equal exactly when they are the same.\<close>
theorem effective_tls_matches_client:
  "\<exists>c. fst (NewHTTPClient parses (Some (tp_TLS p)) proxy) = c \<and>
     gt_MinVersion c = VersionTLS12 \<and> gt_InsecureSkipVerify c = tl_InsecureSkipVerify (tp_TLS p) \<and>
     (let e = effectiveTLSConfigFromProfile sn p
      in ef_MinVersion e = gt_MinVersion c \<and> ef_MaxVersion e = gt_MaxVersion c \<and>
         mset (ef_CipherIDs e) = mset (gt_CipherSuites c) \<and>
         ef_InsecureSkipVerify e = gt_InsecureSkipVerify c \<and>
         (\<forall>e'. effectiveTLSConfigsEqual e e' \<longleftrightarrow> e = e'))"
proof -
  obtain c where c: "tlsConfigForPolicy (NormalizeTLSPolicy (tl_Policy (tp_TLS p)))
      (tl_InsecureSkipVerify (tp_TLS p)) = Some c"
    and "gt_MinVersion c = VersionTLS12"
    and "gt_InsecureSkipVerify c = tl_InsecureSkipVerify (tp_TLS p)"
    using tlsConfigForPolicy_total by blast
  then show ?thesis
    by (simp add: NewHTTPClient_def effectiveTLSConfigFromProfile_def Let_def)
qed

end
