(* ===== verification/BrocadeAdapter.thy ===== *)
theory BrocadeAdapter
  imports Worker Readiness Validation
begin

text \<open>
  The Brocade switch adapter (adapter_brocade.go): the REST calls of Init, Collect and HealthCheck, the
  normalization of the switch's answers into a snapshot, and the alerts and signals derived from it. JSON
  decoding, the HTTP client and floating-point text (\<open>%v\<close>, \<open>%.1f\<close>, \<open>Sscanf\<close>, the decimal logarithm)
  are parameters; floating-point values are rationals, so NaN and infinities do not occur. A nil map and an
  empty map behave alike in every use here and are both the empty list.
\<close>

section \<open>Values of a JSON document\<close>

record float_text =
  fl_show :: "rat \<Rightarrow> string"
  fl_fixed1 :: "rat \<Rightarrow> string"
  fl_format :: "rat \<Rightarrow> string"
  fl_scan :: "string \<Rightarrow> rat option"
  fl_log10 :: "rat \<Rightarrow> rat"

definition as_map :: "goval option \<Rightarrow> gomap option" where
  "as_map v = (case v of Some (VMap m) \<Rightarrow> Some m | _ \<Rightarrow> None)"

definition as_slice :: "goval option \<Rightarrow> goval list option" where
  "as_slice v = (case v of Some (VSlice l) \<Rightarrow> Some l | _ \<Rightarrow> None)"

definition get_or_nil :: "gomap \<Rightarrow> string \<Rightarrow> goval" where
  "get_or_nil m k = (case map_of m k of None \<Rightarrow> VNil | Some v \<Rightarrow> v)"

definition equal_fold :: "string \<Rightarrow> string \<Rightarrow> bool" where
  "equal_fold a b = (to_lower a = to_lower b)"

fun brocadeStr :: "float_text \<Rightarrow> gomap \<Rightarrow> string list \<Rightarrow> string" where
  "brocadeStr fl m [] = ''''"
| "brocadeStr fl m (k # ks) =
     (case map_of m k of Some (VString s) \<Rightarrow> s | Some (VFloat q) \<Rightarrow> fl_show fl q | _ \<Rightarrow> brocadeStr fl m ks)"

fun brocadeNum :: "float_text \<Rightarrow> gomap \<Rightarrow> string list \<Rightarrow> rat" where
  "brocadeNum fl m [] = 0"
| "brocadeNum fl m (k # ks) =
     (case map_of m k of
        Some (VFloat q) \<Rightarrow> q
      | Some (VBool b) \<Rightarrow> (if b then 1 else 0)
      | Some (VString s) \<Rightarrow> (case fl_scan fl s of Some f \<Rightarrow> f | None \<Rightarrow> brocadeNum fl m ks)
      | _ \<Rightarrow> brocadeNum fl m ks)"

declare brocadeStr.simps [simp del] brocadeNum.simps [simp del]

definition toInt :: "goval option \<Rightarrow> int" where
  "toInt v = (case v of Some (VInt n) \<Rightarrow> n | Some (VFloat q) \<Rightarrow> float_to_int64 q | Some (VInt64 n) \<Rightarrow> n | _ \<Rightarrow> 0)"

definition normalizeToSlice :: "goval option \<Rightarrow> goval list" where
  "normalizeToSlice v = (case v of None \<Rightarrow> [] | Some VNil \<Rightarrow> [] | Some (VSlice l) \<Rightarrow> l | Some x \<Rightarrow> [x])"

definition brocadeExtractArray :: "gomap \<Rightarrow> string \<Rightarrow> goval list" where
  "brocadeExtractArray resp key =
     (case map_of resp key of Some (VSlice arr) \<Rightarrow> arr
      | Some (VMap obj) \<Rightarrow> [VMap obj]
      | _ \<Rightarrow> (case map_of resp ''Response'' of
           Some (VMap r) \<Rightarrow> (case map_of r key of Some (VSlice arr) \<Rightarrow> arr | Some (VMap obj) \<Rightarrow> [VMap obj] | _ \<Rightarrow> [])
         | _ \<Rightarrow> []))"

definition first_object :: "goval option \<Rightarrow> gomap option" where
  "first_object v =
     (case v of Some (VMap obj) \<Rightarrow> Some obj | Some (VSlice (VMap obj # _)) \<Rightarrow> Some obj | _ \<Rightarrow> None)"

definition brocadeExtractFirst :: "gomap \<Rightarrow> string \<Rightarrow> gomap option" where
  "brocadeExtractFirst resp key =
     (case first_object (map_of resp key) of Some obj \<Rightarrow> Some obj
      | None \<Rightarrow> (case map_of resp ''Response'' of Some (VMap r) \<Rightarrow> first_object (map_of r key) | _ \<Rightarrow> None))"

text \<open>The items of a list that are objects.\<close>

definition objects :: "goval list \<Rightarrow> gomap list" where
  "objects l = List.map_filter (\<lambda>v. case v of VMap m \<Rightarrow> Some m | _ \<Rightarrow> None) l"

definition first_items :: "gomap \<Rightarrow> string list \<Rightarrow> goval list" where
  "first_items m keys = (case filter (\<lambda>l. l \<noteq> []) (map (brocadeExtractArray m) keys) of [] \<Rightarrow> [] | l # _ \<Rightarrow> l)"

definition mergeBrocadeFru :: "gomap \<Rightarrow> gomap \<Rightarrow> gomap option" where
  "mergeBrocadeFru blade ps =
     (let all = first_items blade [''blade'', ''fru''] @ first_items ps [''power-supply'', ''fru'']
      in if all = [] then None else Some [(''Response'', VMap [(''fru'', VSlice all)])])"

definition brocadeExtractFruItems :: "gomap \<Rightarrow> goval list" where
  "brocadeExtractFruItems fruRaw = first_items fruRaw [''fru'', ''blade'', ''power-supply'']"

section \<open>Switch state\<close>

definition integerValue :: "goval \<Rightarrow> int option" where
  "integerValue raw =
     (case raw of
        VFloat q \<Rightarrow> if q \<noteq> rat_of_int (if 0 \<le> q then \<lfloor>q\<rfloor> else \<lceil>q\<rceil>) then None else Some (float_to_int64 q)
      | VInt n \<Rightarrow> Some n
      | VInt64 n \<Rightarrow> Some n
      | VString tv \<Rightarrow> (let s = trim_space tv in if s = '''' then None else atoi s)
      | _ \<Rightarrow> None)"

definition stringValue :: "float_text \<Rightarrow> goval \<Rightarrow> string option" where
  "stringValue fl raw =
     (case raw of VString s \<Rightarrow> Some s | VFloat q \<Rightarrow> Some (fl_format fl q)
      | VBool b \<Rightarrow> Some (if b then ''true'' else ''false'') | _ \<Rightarrow> None)"

definition canonicalizeSwitchStateString :: "string \<Rightarrow> string option" where
  "canonicalizeSwitchStateString s =
     (let trimmed = trim_space s; l = to_lower trimmed
      in if trimmed = '''' then None
         else if l \<in> {''online'', ''enabled'', ''up'', ''operational''} then Some ''Online''
         else if l \<in> {''offline'', ''disabled'', ''down''} then Some ''Offline''
         else if l \<in> {''testing'', ''test''} then Some ''Testing''
         else if l \<in> {''faulty'', ''fault'', ''failed''} then Some ''Faulty''
         else if l \<in> {''unknown'', ''undefined''} then Some ''Unknown''
         else Some trimmed)"

definition normalizeLegacySwitchState :: "float_text \<Rightarrow> goval \<Rightarrow> string option" where
  "normalizeLegacySwitchState fl raw =
     (case integerValue raw of
        Some v \<Rightarrow> Some (if v = 0 then ''Unknown'' else if v = 1 then ''Offline'' else if v = 2 then ''Online''
           else if v = 3 then ''Testing'' else if v = 4 then ''Faulty'' else ''state-'' @ show_int v)
      | None \<Rightarrow> (case stringValue fl raw of None \<Rightarrow> None | Some s \<Rightarrow> canonicalizeSwitchStateString s))"

definition normalizeSwitchOperationalStatus :: "float_text \<Rightarrow> goval \<Rightarrow> string option" where
  "normalizeSwitchOperationalStatus fl raw =
     (case integerValue raw of
        Some v \<Rightarrow> Some (if v = 0 then ''Unknown'' else if v = 2 then ''Online'' else if v = 3 then ''Offline''
           else if v = 5 then ''Faulty'' else if v = 7 then ''Testing'' else ''state-'' @ show_int v)
      | None \<Rightarrow> (case stringValue fl raw of None \<Rightarrow> None | Some s \<Rightarrow> canonicalizeSwitchStateString s))"

definition normalizeSwitchEnabledState :: "goval \<Rightarrow> string option" where
  "normalizeSwitchEnabledState raw =
     (case raw of
        VBool b \<Rightarrow> Some (if b then ''Online'' else ''Disabled'')
      | VFloat q \<Rightarrow> Some (if q = 0 then ''Disabled'' else ''Online'')
      | VString tv \<Rightarrow>
         (let s = to_lower (trim_space tv)
          in if s \<in> {''true'', ''1'', ''enabled'', ''yes''} then Some ''Online''
             else if s \<in> {''false'', ''0'', ''disabled'', ''no''} then Some ''Disabled'' else None)
      | _ \<Rightarrow> None)"

record derived_switch_state =
  ds_State :: string
  ds_Source :: string
  ds_Raw :: goval
  ds_Found :: bool

definition deriveBrocadeSwitchState :: "float_text \<Rightarrow> gomap \<Rightarrow> derived_switch_state" where
  "deriveBrocadeSwitchState fl sw =
     (let try = (\<lambda>key norm. case map_of sw key of None \<Rightarrow> None
                 | Some raw \<Rightarrow> map_option (\<lambda>st. \<lparr>ds_State = st, ds_Source = key, ds_Raw = raw, ds_Found = True\<rparr>) (norm raw))
      in case try ''switch-state'' (normalizeLegacySwitchState fl) of Some d \<Rightarrow> d
         | None \<Rightarrow> (case try ''operational-status'' (normalizeSwitchOperationalStatus fl) of Some d \<Rightarrow> d
         | None \<Rightarrow> (case try ''is-enabled-state'' normalizeSwitchEnabledState of Some d \<Rightarrow> d
         | None \<Rightarrow> \<lparr>ds_State = ''Unknown'', ds_Source = '''', ds_Raw = VNil, ds_Found = False\<rparr>)))"

section \<open>Media\<close>

definition brocadeStringValue :: "float_text \<Rightarrow> goval option \<Rightarrow> string" where
  "brocadeStringValue fl v =
     (case v of Some (VString s) \<Rightarrow> s | Some (VFloat q) \<Rightarrow> fl_show fl q | Some (VInt n) \<Rightarrow> show_int n
      | Some (VInt64 n) \<Rightarrow> show_int n | _ \<Rightarrow> '''')"

definition micro_w :: string where "micro_w = [CHR 0xC2, CHR 0xB5] @ ''w''"

definition absent_reading :: "string \<Rightarrow> bool" where
  "absent_reading s = (s = '''' \<or> s = em_dash \<or> equal_fold s ''n/a'')"

fun replace_text :: "string \<Rightarrow> string \<Rightarrow> nat \<Rightarrow> string \<Rightarrow> string" where
  "replace_text old new skip [] = []"
| "replace_text old new skip (c # s) =
     (if skip > 0 then replace_text old new (skip - 1) s
      else if has_prefix (c # s) old then new @ replace_text old new (length old - 1) s
      else c # replace_text old new 0 s)"

definition positive_dbm :: "float_text \<Rightarrow> string \<Rightarrow> rat \<Rightarrow> rat option" where
  "positive_dbm fl s scale =
     (case fl_scan fl s of Some n \<Rightarrow> if n > 0 then Some (10 * fl_log10 fl (n / scale)) else None | None \<Rightarrow> None)"

definition parseBrocadePowerDbm :: "float_text \<Rightarrow> goval option \<Rightarrow> rat option" where
  "parseBrocadePowerDbm fl v =
     (let s = trim_space (brocadeStringValue fl v); lower = to_lower s
      in if absent_reading s then None
         else if has_suffix lower ''dbm'' then fl_scan fl s
         else if has_suffix lower ''mw'' then positive_dbm fl s 1
         else if has_suffix lower ''uw'' \<or> has_suffix lower micro_w
         then positive_dbm fl (replace_text micro_w ''uw'' 0 lower) 1000
         else positive_dbm fl s 1000)"

definition parseBrocadeTemperatureC :: "float_text \<Rightarrow> goval option \<Rightarrow> rat option" where
  "parseBrocadeTemperatureC fl v =
     (let s = trim_space (brocadeStringValue fl v) in if absent_reading s then None else fl_scan fl s)"

datatype media_level = MediaOK | MediaWarning | MediaAlarm

definition brocadeClassifyMetric ::
  "float_text \<Rightarrow> rat option \<Rightarrow> rat \<Rightarrow> rat \<Rightarrow> rat \<Rightarrow> rat \<Rightarrow> string \<Rightarrow> media_level \<times> string" where
  "brocadeClassifyMetric fl v warnLow warnHigh alarmLow alarmHigh label =
     (case v of None \<Rightarrow> (MediaOK, '''')
      | Some x \<Rightarrow>
         if x < alarmLow then (MediaAlarm, label @ '' critically low ('' @ fl_fixed1 fl x @ '')'')
         else if x > alarmHigh then (MediaAlarm, label @ '' critically high ('' @ fl_fixed1 fl x @ '')'')
         else if x < warnLow then (MediaWarning, label @ '' low ('' @ fl_fixed1 fl x @ '')'')
         else if x > warnHigh then (MediaWarning, label @ '' high ('' @ fl_fixed1 fl x @ '')'')
         else (MediaOK, ''''))"

definition classifyBrocadeMedia :: "float_text \<Rightarrow> gomap \<Rightarrow> string \<Rightarrow> media_level \<times> string list" where
  "classifyBrocadeMedia fl m linkState =
     (let rxPower = parseBrocadePowerDbm fl (map_of m ''rx-power'');
          rx0 = brocadeClassifyMetric fl rxPower (-14) 3 (-17) 5 ''RX power'';
          rx = (case rxPower of None \<Rightarrow> rx0
                | Some p \<Rightarrow> if linkState \<noteq> ''up'' \<and> fst rx0 \<noteq> MediaOK \<and> p < 3 then (MediaOK, '''') else rx0);
          tx = brocadeClassifyMetric fl (parseBrocadePowerDbm fl (map_of m ''tx-power'')) (-8) 1 (-10) 3 ''TX power'';
          temp = brocadeClassifyMetric fl (parseBrocadeTemperatureC fl (map_of m ''temperature'')) 0 70 (-5) 80 ''Temperature'';
          levels = [fst rx, fst tx, fst temp]
      in (if MediaAlarm \<in> set levels then MediaAlarm else if MediaWarning \<in> set levels then MediaWarning else MediaOK,
          filter (\<lambda>r. r \<noteq> '''') [snd rx, snd tx, snd temp]))"

definition hasBrocadeMediaWarning :: "gomap \<Rightarrow> bool" where
  "hasBrocadeMediaWarning m =
     list_ex (\<lambda>k. case map_of m k of Some (VFloat v) \<Rightarrow> v \<noteq> 0 | _ \<Rightarrow> False)
       [''remote-media-tx-power-alert-type'', ''remote-media-rx-power-alert-type'', ''remote-media-temperature-alert-type'']"

definition brocadeFruStateFailed :: "string \<Rightarrow> bool" where
  "brocadeFruStateFailed st0 =
     (let st = to_lower (trim_space st0) in st \<noteq> '''' \<and> st \<noteq> ''enabled'' \<and> st \<noteq> ''ok'' \<and> st \<noteq> ''online'')"

section \<open>Normalization\<close>

text \<open>The eight answers a collection asks for.\<close>

record brocade_answers =
  bz_chassis :: gomap
  bz_switchInfo :: gomap
  bz_ports :: gomap
  bz_media :: gomap
  bz_zoneConfig :: gomap
  bz_definedConfig :: gomap
  bz_fabricInfo :: gomap
  bz_fru :: gomap

abbreviation put :: "string \<Rightarrow> goval \<Rightarrow> gomap \<Rightarrow> gomap" where
  "put k v m \<equiv> AList.update k v m"

definition put_str :: "string \<Rightarrow> string \<Rightarrow> gomap \<Rightarrow> gomap" where
  "put_str k s m = (if s \<noteq> '''' then put k (VString s) m else m)"

definition switch_role :: "float_text \<Rightarrow> gomap \<Rightarrow> string" where
  "switch_role fl sw =
     (let roleNum = brocadeNum fl sw [''switch-role'']; sv = brocadeStr fl sw [''switch-role'']; n = float_to_int64 roleNum
      in if roleNum > 0 \<or> sv \<noteq> '''' then
           (if n = 0 then ''Subordinate'' else if n = 1 then ''Disabled'' else if n = 2 then ''Principal''
            else if sv \<noteq> '''' then sv else ''role-'' @ show_int n)
         else '''')"

definition put_switch :: "float_text \<Rightarrow> gomap \<Rightarrow> gomap \<Rightarrow> gomap" where
  "put_switch fl switchInfo out =
     (case brocadeExtractFirst switchInfo ''fibrechannel-switch'' of None \<Rightarrow> out
      | Some sw \<Rightarrow>
         (let d = deriveBrocadeSwitchState fl sw
          in put ''_switchStateRaw'' (ds_Raw d) (put ''_switchStateSource'' (VString (ds_Source d))
             (put ''switchState'' (VString (ds_State d))
             (put_str ''_switchModelRaw'' (brocadeStr fl sw [''model''])
             (put_str ''firmwareVersion'' (brocadeStr fl sw [''firmware-version'', ''firmware-Version'', ''fw-version''])
             (put ''domainId'' (VFloat (brocadeNum fl sw [''domain-id'']))
             (put_str ''switchRole'' (switch_role fl sw)
             (put_str ''switchWwn'' (brocadeStr fl sw [''switch-wwn'', ''wwn''])
             (put_str ''switchName'' (brocadeStr fl sw [''name'', ''switch-name'', ''user-friendly-name'']) out))))))))))"

definition put_chassis :: "float_text \<Rightarrow> gomap \<Rightarrow> gomap \<Rightarrow> gomap" where
  "put_chassis fl chassis out =
     (case brocadeExtractFirst chassis ''chassis'' of None \<Rightarrow> out
      | Some ch \<Rightarrow>
         (let o1 = put_str ''model'' (brocadeStr fl ch [''product-name'']) out;
              o2 = (if map_of o1 ''model'' \<in> {None, Some VNil, Some (VString '''')} then
                      (case map_of o1 ''_switchModelRaw'' of None \<Rightarrow> o1 | Some raw \<Rightarrow> put ''model'' raw o1)
                    else o1)
          in put ''productName'' (get_or_nil ch ''product-name'') (put ''chassisName'' (get_or_nil ch ''chassis-user-friendly-name'')
               (put_str ''serialNumber'' (brocadeStr fl ch [''serial-number'']) o2))))"

record port_counts =
  qc_online :: nat
  qc_offline :: nat
  qc_faulty :: nat
  qc_disabled :: nat
  qc_fPort :: nat
  qc_ePort :: nat
  qc_licensed :: nat

definition zero_counts :: port_counts where
  "zero_counts = \<lparr>qc_online = 0, qc_offline = 0, qc_faulty = 0, qc_disabled = 0, qc_fPort = 0, qc_ePort = 0, qc_licensed = 0\<rparr>"

definition port_status :: "float_text \<Rightarrow> gomap \<Rightarrow> int" where
  "port_status fl pm = float_to_int64 (brocadeNum fl pm [''operational-status''])"

definition count_port :: "float_text \<Rightarrow> gomap \<Rightarrow> port_counts \<Rightarrow> port_counts" where
  "count_port fl pm c =
     (let st = port_status fl pm;
          c1 = (if st = 2 then c\<lparr>qc_online := Suc (qc_online c)\<rparr>
                else if st = 3 then c\<lparr>qc_offline := Suc (qc_offline c)\<rparr>
                else if st = 5 then c\<lparr>qc_faulty := Suc (qc_faulty c)\<rparr>
                else c\<lparr>qc_offline := Suc (qc_offline c)\<rparr>);
          en = brocadeNum fl pm [''is-enabled-state''];
          c2 = (if float_to_int64 en = 6 then c1\<lparr>qc_disabled := Suc (qc_disabled c1)\<rparr>
                else if float_to_int64 en = 2 \<or> en = 1 then c1\<lparr>qc_licensed := Suc (qc_licensed c1)\<rparr> else c1);
          pt = float_to_int64 (brocadeNum fl pm [''port-type''])
      in if pt = 7 then c2\<lparr>qc_ePort := Suc (qc_ePort c2)\<rparr>
         else if pt = 10 \<or> pt = 17 then c2\<lparr>qc_fPort := Suc (qc_fPort c2)\<rparr> else c2)"

definition port_counts_of :: "float_text \<Rightarrow> goval list \<Rightarrow> port_counts" where
  "port_counts_of fl items = fold (count_port fl) (objects items) zero_counts"

abbreviation vnat :: "nat \<Rightarrow> goval" where
  "vnat n \<equiv> VInt (int n)"

definition put_ports :: "float_text \<Rightarrow> gomap \<Rightarrow> gomap \<Rightarrow> gomap \<Rightarrow> gomap" where
  "put_ports fl ports media out =
     (let portItems = brocadeExtractArray ports ''fibrechannel''; c = port_counts_of fl portItems;
          mediaItems = brocadeExtractArray media ''media-rdp'';
          summary = [(''total'', vnat (length portItems)), (''online'', vnat (qc_online c)), (''offline'', vnat (qc_offline c)),
            (''faulty'', vnat (qc_faulty c)), (''disabled'', vnat (qc_disabled c)), (''withErrors'', vnat (qc_faulty c)),
            (''fPort'', vnat (qc_fPort c)), (''ePort'', vnat (qc_ePort c)), (''licensed'', vnat (qc_licensed c)),
            (''sfpInserted'', vnat (length mediaItems))]
      in put ''sfpWarnings'' (vnat (length (filter hasBrocadeMediaWarning (objects mediaItems))))
         (put ''portsFaulty'' (vnat (qc_faulty c)) (put ''portsOffline'' (vnat (qc_offline c)) (put ''portsOnline'' (vnat (qc_online c))
         (put ''portTotal'' (vnat (length portItems)) (put ''ports'' (VMap summary) out))))))"

text \<open>The effective zones: listed by the switch, or those of the defined configuration of that name.\<close>

definition defined_part :: "gomap \<Rightarrow> string \<Rightarrow> goval list" where
  "defined_part definedConfig key =
     (case brocadeExtractFirst definedConfig ''defined-configuration'' of None \<Rightarrow> []
      | Some dc \<Rightarrow> normalizeToSlice (map_of dc key))"

definition active_cfg :: "gomap \<Rightarrow> string" where
  "active_cfg zoneConfig =
     (case brocadeExtractFirst zoneConfig ''effective-configuration'' of None \<Rightarrow> '''' | Some ec \<Rightarrow> lookup_str ec ''cfg-name'')"

definition effective_zones :: "gomap \<Rightarrow> goval list \<Rightarrow> nat \<times> goval list \<times> bool" where
  "effective_zones zoneConfig definedCfgs =
     (case brocadeExtractFirst zoneConfig ''effective-configuration'' of None \<Rightarrow> (0, [], False)
      | Some ec \<Rightarrow>
         (let name = lookup_str ec ''cfg-name''; explicitZones = normalizeToSlice (map_of ec ''zone'')
          in if explicitZones \<noteq> [] then (length explicitZones, [], True)
             else if name \<noteq> '''' then
               (case find (\<lambda>m. map_of m ''cfg-name'' = Some (VString name)) (objects definedCfgs) of None \<Rightarrow> (0, [], False)
                | Some cfg \<Rightarrow>
                   (case map_of cfg ''member-zone'' of
                      Some (VMap mz) \<Rightarrow> (let ns = normalizeToSlice (map_of mz ''zone-name'') in (length ns, ns, True))
                    | _ \<Rightarrow> (0, [], True)))
             else (0, [], False)))"

definition put_zoning :: "gomap \<Rightarrow> gomap \<Rightarrow> gomap \<Rightarrow> gomap \<Rightarrow> gomap" where
  "put_zoning fabricInfo definedConfig zoneConfig out =
     (let cfgs = defined_part definedConfig ''cfg'' in case effective_zones zoneConfig cfgs of (n, names, resolved) \<Rightarrow>
        put ''zoningActiveCfg'' (VString (active_cfg zoneConfig)) (put ''effectiveZoneCountResolved'' (VBool resolved)
        (put ''effectiveZoneNames'' (VSlice names) (put ''effectiveZoneCount'' (vnat n)
        (put ''activeCfgName'' (VString (active_cfg zoneConfig)) (put ''definedCfgCount'' (vnat (length cfgs))
        (put ''definedAliasCount'' (vnat (length (defined_part definedConfig ''alias'')))
        (put ''definedZoneCount'' (vnat (length (defined_part definedConfig ''zone'')))
        (put ''fabricSwitchCount'' (vnat (length (brocadeExtractArray fabricInfo ''fabric-switch''))) out)))))))))"

definition raw_answers :: "brocade_answers \<Rightarrow> gomap" where
  "raw_answers z = [(''chassis'', VMap (bz_chassis z)), (''switchInfo'', VMap (bz_switchInfo z)), (''ports'', VMap (bz_ports z)),
     (''media'', VMap (bz_media z)), (''zoneConfig'', VMap (bz_zoneConfig z)), (''definedConfig'', VMap (bz_definedConfig z)),
     (''fabric'', VMap (bz_fabricInfo z)), (''fru'', VMap (bz_fru z))]"

definition normalizeBrocadeSnapshot :: "float_text \<Rightarrow> brocade_answers \<Rightarrow> gomap" where
  "normalizeBrocadeSnapshot fl z =
     put ''_raw'' (VMap (raw_answers z))
       (put_zoning (bz_fabricInfo z) (bz_definedConfig z) (bz_zoneConfig z)
         (put_ports fl (bz_ports z) (bz_media z) (put_chassis fl (bz_chassis z) (put_switch fl (bz_switchInfo z) []))))"

section \<open>Alerts and signals\<close>

definition fru_name :: "float_text \<Rightarrow> gomap \<Rightarrow> string" where
  "fru_name fl fm = to_upper (brocadeStr fl fm [''name''])"

definition is_psu :: "float_text \<Rightarrow> gomap \<Rightarrow> bool" where
  "is_psu fl fm = (str_contains (fru_name fl fm) ''PS'' \<or> str_contains (fru_name fl fm) ''POWER'')"

definition is_fan :: "float_text \<Rightarrow> gomap \<Rightarrow> bool" where
  "is_fan fl fm = (\<not> is_psu fl fm \<and> str_contains (fru_name fl fm) ''FAN'')"

definition fru_failed :: "float_text \<Rightarrow> gomap \<Rightarrow> bool" where
  "fru_failed fl fm = brocadeFruStateFailed (to_lower (trim_space (brocadeStr fl fm [''operational-state''])))"

definition count_fru :: "(gomap \<Rightarrow> bool) \<Rightarrow> gomap \<Rightarrow> nat" where
  "count_fru P fruRaw = length (filter P (objects (brocadeExtractFruItems fruRaw)))"

definition raw_map :: "gomap \<Rightarrow> string \<Rightarrow> gomap option" where
  "raw_map data key = (case as_map (map_of data ''_raw'') of None \<Rightarrow> None | Some raw \<Rightarrow> as_map (map_of raw key))"

definition alert :: "string \<Rightarrow> string \<Rightarrow> gomap" where
  "alert severity message = [(''severity'', VString severity), (''source'', VString ''brocade''), (''message'', VString message)]"

definition brocade_alerts :: "float_text \<Rightarrow> gomap \<Rightarrow> gomap list" where
  "brocade_alerts fl data =
     (case map_of data ''portsFaulty'' of
        Some (VInt pf) \<Rightarrow> if pf > 0 then [alert ''critical'' (show_int pf @ '' port(s) in faulty state'')] else []
      | _ \<Rightarrow> []) @
     (case raw_map data ''fru'' of None \<Rightarrow> []
      | Some fruRaw \<Rightarrow>
         (let psuCount = count_fru (is_psu fl) fruRaw; failedPsus = count_fru (\<lambda>f. is_psu fl f \<and> fru_failed fl f) fruRaw
          in if failedPsus > 0 then [alert ''critical'' (show_nat failedPsus @ '' PSU(s) not operational'')]
             else if psuCount = 1 then [alert ''warning'' (''Single PSU detected '' @ em_dash @ '' no power redundancy'')]
             else []))"

definition signal :: "string \<Rightarrow> string \<Rightarrow> string \<Rightarrow> string \<Rightarrow> string \<Rightarrow> snapshot_signal" where
  "signal key severity label entity val =
     \<lparr>sg_Key = key, sg_Severity = severity, sg_Label = label, sg_Entity = entity, sg_Value = val\<rparr>"

definition switch_signals :: "gomap \<Rightarrow> snapshot_signal list" where
  "switch_signals data =
     (let st = lookup_str data ''switchState''
      in if st = '''' \<or> equal_fold st ''unknown''
         then [signal ''switch.unknown'' ''warning'' ''Switch state not reported'' '''' ''unknown'']
         else if \<not> equal_fold st ''online'' then [signal ''switch.unhealthy'' ''error'' (''Switch state: '' @ st) '''' st]
         else [])"

definition error_ports :: "gomap \<Rightarrow> gomap \<Rightarrow> int" where
  "error_ports data ports =
     (let e1 = toInt (map_of ports ''withErrors''); e2 = (if e1 = 0 then toInt (map_of ports ''faulty'') else e1)
      in if e2 = 0 then toInt (map_of data ''portsFaulty'') else e2)"

definition port_signals :: "gomap \<Rightarrow> snapshot_signal list" where
  "port_signals data =
     (case as_map (map_of data ''ports'') of None \<Rightarrow> []
      | Some ports \<Rightarrow>
         (let disabled = toInt (map_of ports ''disabled''); errPorts = error_ports data ports
          in (if disabled > 0
              then [signal ''port.disabled'' ''warning'' (show_int disabled @ '' port(s) disabled'') '''' (show_int disabled)] else []) @
             (if errPorts > 0
              then [signal ''port.errors'' (if errPorts > 3 then ''error'' else ''warning'') (show_int errPorts @ '' port(s) with errors'') ''''
                      (show_int errPorts)] else [])))"

definition ePortCount :: "gomap \<Rightarrow> int" where
  "ePortCount data = (case as_map (map_of data ''ports'') of None \<Rightarrow> 0 | Some ports \<Rightarrow> toInt (map_of ports ''ePort''))"

text \<open>The state of each named port; a later entry of the same name wins.\<close>

definition port_states :: "float_text \<Rightarrow> gomap \<Rightarrow> (string \<times> int) list" where
  "port_states fl portsRaw =
     rev (map (\<lambda>pm. (brocadeStr fl pm [''name''], port_status fl pm))
       (filter (\<lambda>pm. brocadeStr fl pm [''name''] \<noteq> '''') (objects (brocadeExtractArray portsRaw ''fibrechannel''))))"

definition link_state :: "(string \<times> int) list \<Rightarrow> string \<Rightarrow> string" where
  "link_state sts port = (case map_of sts port of None \<Rightarrow> ''unknown'' | Some st \<Rightarrow> if st = 2 then ''up'' else ''down'')"

definition media_signal :: "float_text \<Rightarrow> (string \<times> int) list \<Rightarrow> gomap \<Rightarrow> snapshot_signal option" where
  "media_signal fl sts mm =
     (let port = brocadeStr fl mm [''name'']
      in case classifyBrocadeMedia fl mm (link_state sts port) of (status, reasons) \<Rightarrow>
           (let label = ''SFP '' @ port @ '': '' @ join_with '', '' reasons
            in if status = MediaAlarm then Some (signal ''sfp.alarm'' ''critical'' label port '''')
               else if status = MediaWarning then Some (signal ''sfp.out_of_range'' ''warning'' label port '''')
               else None))"

definition media_signals :: "float_text \<Rightarrow> gomap \<Rightarrow> snapshot_signal list" where
  "media_signals fl data =
     (case raw_map data ''media'' of None \<Rightarrow> []
      | Some mediaRaw \<Rightarrow>
         (let sts = (case raw_map data ''ports'' of None \<Rightarrow> [] | Some p \<Rightarrow> port_states fl p)
          in List.map_filter (media_signal fl sts) (objects (brocadeExtractArray mediaRaw ''media-rdp''))))"

definition fru_signals :: "float_text \<Rightarrow> gomap \<Rightarrow> snapshot_signal list" where
  "fru_signals fl data =
     (case raw_map data ''fru'' of None \<Rightarrow> []
      | Some fruRaw \<Rightarrow>
         (let psuCount = count_fru (is_psu fl) fruRaw; failedPsus = count_fru (\<lambda>f. is_psu fl f \<and> fru_failed fl f) fruRaw;
              failedFans = count_fru (\<lambda>f. is_fan fl f \<and> fru_failed fl f) fruRaw
          in (if failedPsus > 0
              then [signal ''hardware.psu.failed'' ''critical'' (show_nat failedPsus @ '' PSU(s) not operational'') '''' (show_nat failedPsus)]
              else if psuCount = 1
              then [signal ''hardware.psu.missing'' ''warning'' (''Single PSU '' @ em_dash @ '' no power redundancy'') '''' ''1'']
              else []) @
             (if failedFans > 0
              then [signal ''hardware.fan.failed'' ''critical'' (show_nat failedFans @ '' fan(s) not operational'') '''' (show_nat failedFans)]
              else [])))"

definition sfp_fallback :: "float_text \<Rightarrow> gomap \<Rightarrow> snapshot_signal list" where
  "sfp_fallback fl data =
     (let n = toInt (map_of data ''sfpWarnings'')
      in if media_signals fl data = [] \<and> n > 0
         then [signal ''sfp.warning'' ''warning'' (show_int n @ '' SFP warning(s)'') '''' (show_int n)] else [])"

definition fabric_signals :: "gomap \<Rightarrow> snapshot_signal list" where
  "fabric_signals data =
     (if trim_space (lookup_str data ''zoningActiveCfg'') = ''''
      then [signal ''zoning.no_active_cfg'' ''warning'' ''No active zone configuration'' '''' ''true''] else []) @
     (if ePortCount data > 0 \<and> toInt (map_of data ''fabricSwitchCount'') = 0 \<and> equal_fold (lookup_str data ''switchState'') ''online''
      then [signal ''fabric.segmented'' ''error'' ''Fabric segmentation detected'' '''' ''true''] else [])"

definition extractBrocadeSignals :: "float_text \<Rightarrow> gomap \<Rightarrow> snapshot_signal list" where
  "extractBrocadeSignals fl data =
     switch_signals data @ port_signals data @ media_signals fl data @ fru_signals fl data @ sfp_fallback fl data @ fabric_signals data"

section \<open>Requests\<close>

text \<open>One GET: \<open>bi_do\<close> answers the n-th request with an error or the final reply (redirects are the HTTP
  client's), \<open>bi_parses\<close> is the URL check of \<open>http.NewRequest\<close> and \<open>bi_decode\<close> is \<open>json.Unmarshal\<close> into a map.
  An error keeps the operation and cause of the \<open>net.OpError\<close> it wraps. The TLS state kept for the log is left out.\<close>

datatype brocade_auth = NoAuth | Bearer string | Basic string string

record brocade_client =
  bc_timeout :: duration
  bc_tls :: go_tls_config
  bc_proxy :: "string option"

record brocade_request =
  bq_Method :: string
  bq_URL :: string
  bq_Accept :: string
  bq_auth :: brocade_auth
  bq_client :: brocade_client

record brocade_error =
  be_Text :: string
  be_OpError :: "(string \<times> string) option"

record brocade_reply =
  bp_StatusCode :: int
  bp_Body :: string
  bp_Broken :: bool

record brocade_io =
  bi_parses :: "string \<Rightarrow> bool"
  bi_parsesProxy :: "string \<Rightarrow> bool"
  bi_parseError :: brocade_error
  bi_readError :: brocade_error
  bi_do :: "nat \<Rightarrow> brocade_request \<Rightarrow> brocade_error + brocade_reply"
  bi_decode :: "string \<Rightarrow> brocade_error + gomap"

record brocade_adapter =
  ba_profile :: target_profile
  ba_client :: "brocade_client option"
  ba_baseURL :: string
  ba_user :: string
  ba_pass :: string
  ba_token :: string

definition NewBrocadeAdapter :: "target_profile \<Rightarrow> brocade_adapter" where
  "NewBrocadeAdapter p =
     \<lparr>ba_profile = p, ba_client = None, ba_baseURL = '''', ba_user = '''', ba_pass = '''', ba_token = ''''\<rparr>"

definition request_auth :: "brocade_adapter \<Rightarrow> brocade_auth" where
  "request_auth a =
     (if ba_token a \<noteq> '''' then Bearer (ba_token a)
      else if ba_user a \<noteq> '''' \<and> ba_pass a \<noteq> '''' then Basic (ba_user a) (ba_pass a) else NoAuth)"

definition brocade_request_of :: "brocade_client \<Rightarrow> brocade_adapter \<Rightarrow> string \<Rightarrow> brocade_request" where
  "brocade_request_of cl a path = \<lparr>bq_Method = ''GET'', bq_URL = ba_baseURL a @ path, bq_Accept = ''application/yang-data+json'',
     bq_auth = request_auth a, bq_client = cl\<rparr>"

definition brocade_reply_result :: "brocade_io \<Rightarrow> brocade_reply \<Rightarrow> brocade_error + gomap" where
  "brocade_reply_result io r =
     (case read_limited (5 * 1024 * 1024) (bp_Body r) (bp_Broken r) of
        None \<Rightarrow> Inl (bi_readError io)
      | Some body \<Rightarrow>
         if bp_StatusCode r \<ge> 400
         then Inl \<lparr>be_Text = ''HTTP '' @ show_int (bp_StatusCode r) @ '': '' @ take 200 body, be_OpError = None\<rparr>
         else bi_decode io body)"

definition brocadeGet ::
  "brocade_io \<Rightarrow> brocade_client \<Rightarrow> brocade_adapter \<Rightarrow> string \<Rightarrow> brocade_request list
   \<Rightarrow> (brocade_error + gomap) \<times> brocade_request list" where
  "brocadeGet io cl a path sent =
     (if \<not> bi_parses io (ba_baseURL a @ path) then (Inl (bi_parseError io), sent)
      else let req = brocade_request_of cl a path
           in (case bi_do io (length sent) req of Inl e \<Rightarrow> Inl e | Inr r \<Rightarrow> brocade_reply_result io r, sent @ [req]))"

definition isConnRefused :: "brocade_error \<Rightarrow> bool" where
  "isConnRefused e =
     (case be_OpError e of
        Some (opn, cause) \<Rightarrow> opn = ''dial'' \<and> str_contains cause ''connection refused''
      | None \<Rightarrow> str_contains (be_Text e) ''connection refused'')"

definition classifyBrocadeRESTError :: "brocade_error \<Rightarrow> string" where
  "classifyBrocadeRESTError e =
     (let msg = to_lower (be_Text e)
      in if str_contains msg ''connection refused'' then ''rest_connection_failed''
         else if str_contains msg ''no such host'' \<or> str_contains msg ''dns'' then ''rest_connection_failed''
         else if str_contains msg ''timeout'' \<or> str_contains msg ''deadline exceeded'' then ''rest_timeout''
         else if str_contains msg ''x509'' \<or> str_contains msg ''certificate'' then ''rest_certificate_untrusted''
         else if str_contains msg ''tls: handshake failure'' \<or> str_contains msg ''tls:'' then ''rest_tls_handshake_failed''
         else if str_contains msg ''401'' \<or> str_contains msg ''unauthorized'' then ''rest_auth_failed''
         else if str_contains msg ''403'' \<or> str_contains msg ''forbidden'' then ''rest_permission_denied''
         else if str_contains msg ''400'' \<or> str_contains msg ''invalid rest uri'' then ''rest_invalid_uri''
         else ''rest_response_invalid'')"

section \<open>Operations of the adapter\<close>

abbreviation chassis_path :: string where
  "chassis_path \<equiv> ''/rest/running/brocade-chassis/chassis''"

definition init_timeout :: "target_profile \<Rightarrow> duration" where
  "init_timeout p =
     (let n = rl_TimeoutSecs (tp_ResourceLimits p); t = (if n > 0 then wrap64 (n * second) else 15 * second)
      in if t > 30 * second then 30 * second else t)"

definition adapter_cred :: "(string \<times> string) list \<Rightarrow> string \<Rightarrow> string" where
  "adapter_cred creds k = (case map_of creds k of None \<Rightarrow> '''' | Some v \<Rightarrow> v)"

definition init_client :: "brocade_io \<Rightarrow> target_profile \<Rightarrow> brocade_client" where
  "init_client io p =
     (case NewHTTPClient (bi_parsesProxy io) (Some (tp_TLS p)) (Some (tp_Proxy p)) of (tls, proxy) \<Rightarrow>
        \<lparr>bc_timeout = init_timeout p, bc_tls = tls, bc_proxy = proxy\<rparr>)"

definition init_adapter :: "brocade_io \<Rightarrow> target_profile \<Rightarrow> (string \<times> string) list \<Rightarrow> brocade_adapter \<Rightarrow> brocade_adapter" where
  "init_adapter io p creds a =
     \<lparr>ba_profile = p, ba_client = Some (init_client io p), ba_baseURL = tp_Endpoint p, ba_user = adapter_cred creds ''username'',
      ba_pass = adapter_cred creds ''password'',
      ba_token = (if adapter_cred creds ''token'' \<noteq> '''' then adapter_cred creds ''token''
                  else if adapter_cred creds ''api_token'' \<noteq> '''' then adapter_cred creds ''api_token'' else ba_token a)\<rparr>"

definition http_url :: "string \<Rightarrow> string" where
  "http_url base = ''http://'' @ drop (length ''https://'') base"

definition record_ready :: "time \<Rightarrow> brocade_adapter \<Rightarrow> rest_registry \<Rightarrow> rest_registry" where
  "record_ready now a r =
     (let p = ba_profile a
      in RecordSuccess now (tp_TargetID p) (brocadeRESTSecurityState (ba_baseURL a) (tl_InsecureSkipVerify (tp_TLS p)))
           (NormalizeTLSPolicy (tl_Policy (tp_TLS p))) r)"

definition record_failed :: "time \<Rightarrow> brocade_adapter \<Rightarrow> brocade_error \<Rightarrow> string \<Rightarrow> rest_registry \<Rightarrow> rest_registry" where
  "record_failed now a e reason r = RecordFailure now (tp_TargetID (ba_profile a)) (classifyBrocadeRESTError e) reason r"

record adapter_run =
  au_adapter :: brocade_adapter
  au_registry :: rest_registry
  au_sent :: "brocade_request list"

definition Init ::
  "brocade_io \<Rightarrow> time \<Rightarrow> target_profile \<Rightarrow> (string \<times> string) list \<Rightarrow> adapter_run \<Rightarrow> string option \<times> adapter_run" where
  "Init io now p creds u =
     (let a = init_adapter io p creds (au_adapter u); cl = init_client io p
      in case brocadeGet io cl a chassis_path (au_sent u) of
           (Inr _, sent) \<Rightarrow> (None, \<lparr>au_adapter = a, au_registry = record_ready now a (au_registry u), au_sent = sent\<rparr>)
         | (Inl err, sent) \<Rightarrow>
             if has_prefix (ba_baseURL a) ''https://'' \<and> isConnRefused err
             then (let a' = a\<lparr>ba_baseURL := http_url (ba_baseURL a)\<rparr>
                   in case brocadeGet io cl a' chassis_path sent of
                        (Inl err2, sent2) \<Rightarrow>
                          (Some (''Brocade FOS REST verification failed (tried HTTPS and HTTP): '' @ be_Text err2),
                           \<lparr>au_adapter = a',
                            au_registry = record_failed now a' err2 ''rest verification failed on https and http'' (au_registry u),
                            au_sent = sent2\<rparr>)
                      | (Inr _, sent2) \<Rightarrow>
                          (None, \<lparr>au_adapter = a', au_registry = record_ready now a' (au_registry u), au_sent = sent2\<rparr>))
             else (Some (''Brocade FOS REST verification failed: '' @ be_Text err),
                   \<lparr>au_adapter = a, au_registry = record_failed now a err ''rest verification failed'' (au_registry u), au_sent = sent\<rparr>))"

text \<open>The answers of a collection: a failed GET leaves a nil map.\<close>

definition ok_map :: "brocade_error + gomap \<Rightarrow> gomap" where
  "ok_map x = (case x of Inl e \<Rightarrow> [] | Inr m \<Rightarrow> m)"

definition answer_paths :: "string list" where
  "answer_paths = [''/rest/running/brocade-fibrechannel-switch/fibrechannel-switch'', ''/rest/running/brocade-interface/fibrechannel'',
     ''/rest/running/brocade-media/media-rdp'', ''/rest/running/brocade-zone/effective-configuration'',
     ''/rest/running/brocade-zone/defined-configuration'', ''/rest/running/brocade-fabric/fabric-switch'',
     ''/rest/running/brocade-fru/blade'', ''/rest/running/brocade-fru/power-supply'']"

abbreviation fru_path :: string where
  "fru_path \<equiv> ''/rest/running/brocade-fru/fru''"

fun get_all :: "brocade_io \<Rightarrow> brocade_client \<Rightarrow> brocade_adapter \<Rightarrow> string list \<Rightarrow> brocade_request list
   \<Rightarrow> gomap list \<times> brocade_request list" where
  "get_all io cl a [] sent = ([], sent)"
| "get_all io cl a (path # ps) sent =
     (case brocadeGet io cl a path sent of (x, s1) \<Rightarrow> case get_all io cl a ps s1 of (ms, s2) \<Rightarrow> (ok_map x # ms, s2))"

definition collect_answers :: "brocade_io \<Rightarrow> brocade_client \<Rightarrow> brocade_adapter \<Rightarrow> gomap \<Rightarrow> brocade_request list
   \<Rightarrow> brocade_answers \<times> brocade_request list" where
  "collect_answers io cl a chassis sent =
     (case get_all io cl a answer_paths sent of (ms, s1) \<Rightarrow>
      case (case mergeBrocadeFru (ms ! 6) (ms ! 7) of Some m \<Rightarrow> (m, s1)
            | None \<Rightarrow> (case brocadeGet io cl a fru_path s1 of (x, s2) \<Rightarrow> (ok_map x, s2))) of
        (fru, s3) \<Rightarrow>
          (\<lparr>bz_chassis = chassis, bz_switchInfo = ms ! 0, bz_ports = ms ! 1, bz_media = ms ! 2, bz_zoneConfig = ms ! 3,
            bz_definedConfig = ms ! 4, bz_fabricInfo = ms ! 5, bz_fru = fru\<rparr>, s3))"

definition Capabilities :: "string list" where
  "Capabilities = [''brocade.read.health'', ''brocade.read.chassis'', ''brocade.read.ports'', ''brocade.read.media'',
     ''brocade.read.zoning'', ''brocade.read.fabric'', ''brocade.read.fru'']"

text \<open>The snapshot a collection publishes, and the map it returns; \<open>box\<close> makes the interface value of a
  signal slice. \<open>None\<close> is the panic on the nil client of a closed adapter.\<close>

definition published_snapshot :: "float_text \<Rightarrow> brocade_answers \<Rightarrow> gomap" where
  "published_snapshot fl z = AList.delete ''_switchStateRaw'' (AList.delete ''_switchStateSource'' (normalizeBrocadeSnapshot fl z))"

definition collect_result :: "float_text \<Rightarrow> (snapshot_signal list \<Rightarrow> goval) \<Rightarrow> time \<Rightarrow> brocade_answers \<Rightarrow> gomap" where
  "collect_result fl box now z =
     [(''capabilities'', VStrSlice Capabilities), (''snapshotData'', VMap (published_snapshot fl z)),
      (''alerts'', VMapSlice (brocade_alerts fl (published_snapshot fl z))), (''collectedAt'', VString (fmt_seconds (nat (now div second)) @ ''Z'')),
      (''_signals'', box (extractBrocadeSignals fl (published_snapshot fl z)))]"

definition CollectBrocade ::
  "brocade_io \<Rightarrow> float_text \<Rightarrow> (snapshot_signal list \<Rightarrow> goval) \<Rightarrow> time \<Rightarrow> time \<Rightarrow> adapter_run \<Rightarrow> (gomap \<times> adapter_run) option" where
  "CollectBrocade io fl box now later u =
     (let a = au_adapter u in case ba_client a of None \<Rightarrow> None
      | Some cl \<Rightarrow>
         (case brocadeGet io cl a chassis_path (au_sent u) of (x, s1) \<Rightarrow>
            let r1 = (case x of Inl e \<Rightarrow> record_failed later a e ''chassis fetch failed'' (au_registry u)
                      | Inr _ \<Rightarrow> record_ready later a (au_registry u))
            in case collect_answers io cl a (ok_map x) s1 of (z, s2) \<Rightarrow>
                 Some (collect_result fl box now z, u\<lparr>au_registry := r1, au_sent := s2\<rparr>)))"

definition HealthCheck :: "brocade_io \<Rightarrow> adapter_run \<Rightarrow> (string option \<times> adapter_run) option" where
  "HealthCheck io u =
     (case ba_client (au_adapter u) of None \<Rightarrow> None
      | Some cl \<Rightarrow>
         (case brocadeGet io cl (au_adapter u) chassis_path (au_sent u) of (x, sent) \<Rightarrow>
            Some (case x of Inl e \<Rightarrow> Some (be_Text e) | Inr _ \<Rightarrow> None, u\<lparr>au_sent := sent\<rparr>)))"

definition CloseBrocade :: "brocade_adapter \<Rightarrow> brocade_adapter" where
  "CloseBrocade a = a\<lparr>ba_client := None\<rparr>"

section \<open>What a snapshot holds\<close>

text \<open>The items of the answers the counts and signals are about, and the state the switch reports.\<close>

definition port_objects :: "brocade_answers \<Rightarrow> gomap list" where
  "port_objects z = objects (brocadeExtractArray (bz_ports z) ''fibrechannel'')"

definition media_objects :: "brocade_answers \<Rightarrow> gomap list" where
  "media_objects z = objects (brocadeExtractArray (bz_media z) ''media-rdp'')"

definition fru_objects :: "brocade_answers \<Rightarrow> gomap list" where
  "fru_objects z = objects (brocadeExtractFruItems (bz_fru z))"

definition reported_state :: "float_text \<Rightarrow> brocade_answers \<Rightarrow> string" where
  "reported_state fl z =
     (case brocadeExtractFirst (bz_switchInfo z) ''fibrechannel-switch'' of None \<Rightarrow> ''''
      | Some sw \<Rightarrow> ds_State (deriveBrocadeSwitchState fl sw))"

definition media_level_of :: "float_text \<Rightarrow> brocade_answers \<Rightarrow> gomap \<Rightarrow> media_level" where
  "media_level_of fl z mm =
     fst (classifyBrocadeMedia fl mm (link_state (port_states fl (bz_ports z)) (brocadeStr fl mm [''name''])))"

lemma map_of_put [simp]: "map_of (AList.update k v m) k' = (if k' = k then Some v else map_of m k')"
  by (simp add: update_conv')

lemma map_of_put_str [simp]:
  "map_of (put_str k s m) k' = (if k' = k \<and> s \<noteq> '''' then Some (VString s) else map_of m k')"
  by (simp add: put_str_def)

lemma map_of_put_chassis:
  "k \<notin> {''model'', ''serialNumber'', ''chassisName'', ''productName''} \<Longrightarrow> map_of (put_chassis fl c out) k = map_of out k"
  unfolding put_chassis_def Let_def by (cases "brocadeExtractFirst c ''chassis''") (auto split: option.split)

lemma map_of_put_switch_state:
  "map_of (put_switch fl si []) ''switchState'' =
     map_option (\<lambda>sw. VString (ds_State (deriveBrocadeSwitchState fl sw))) (brocadeExtractFirst si ''fibrechannel-switch'')"
  by (cases "brocadeExtractFirst si ''fibrechannel-switch''") (simp_all add: put_switch_def Let_def)

lemma map_of_published:
  "k \<notin> {''_switchStateSource'', ''_switchStateRaw''} \<Longrightarrow>
   map_of (published_snapshot fl z) k = map_of (normalizeBrocadeSnapshot fl z) k"
  by (simp add: published_snapshot_def delete_conv')

lemmas snapshot_simps = map_of_published normalizeBrocadeSnapshot_def put_zoning_def put_ports_def Let_def

lemma published_state [simp]: "lookup_str (published_snapshot fl z) ''switchState'' = reported_state fl z"
  by (auto simp: lookup_str_def snapshot_simps map_of_put_chassis map_of_put_switch_state reported_state_def
      split: option.split prod.split)

lemma published_zoning [simp]:
  "lookup_str (published_snapshot fl z) ''zoningActiveCfg'' = active_cfg (bz_zoneConfig z)"
  "toInt (map_of (published_snapshot fl z) ''fabricSwitchCount'') = int (length (brocadeExtractArray (bz_fabricInfo z) ''fabric-switch''))"
  by (simp_all add: lookup_str_def snapshot_simps toInt_def split: prod.split)

lemma published_sfp [simp]:
  "toInt (map_of (published_snapshot fl z) ''sfpWarnings'') = int (length (filter hasBrocadeMediaWarning (media_objects z)))"
  by (simp add: snapshot_simps toInt_def media_objects_def split: prod.split)

lemma published_raw [simp]:
  "raw_map (published_snapshot fl z) ''fru'' = Some (bz_fru z)"
  "raw_map (published_snapshot fl z) ''media'' = Some (bz_media z)"
  "raw_map (published_snapshot fl z) ''ports'' = Some (bz_ports z)"
  by (simp_all add: raw_map_def snapshot_simps raw_answers_def as_map_def)

text \<open>Each port counter counts the ports with its property.\<close>

lemma fold_count_port:
  "qc_online (fold (count_port fl) xs c) = qc_online c + length (filter (\<lambda>p. port_status fl p = 2) xs)"
  "qc_faulty (fold (count_port fl) xs c) = qc_faulty c + length (filter (\<lambda>p. port_status fl p = 5) xs)"
  "qc_offline (fold (count_port fl) xs c) = qc_offline c + length (filter (\<lambda>p. port_status fl p \<notin> {2, 5}) xs)"
  "qc_disabled (fold (count_port fl) xs c) =
     qc_disabled c + length (filter (\<lambda>p. float_to_int64 (brocadeNum fl p [''is-enabled-state'']) = 6) xs)"
  "qc_ePort (fold (count_port fl) xs c) =
     qc_ePort c + length (filter (\<lambda>p. float_to_int64 (brocadeNum fl p [''port-type'']) = 7) xs)"
  by (induction xs arbitrary: c; simp add: count_port_def Let_def)+

lemma fold_count_port_le:
  "qc_disabled (fold (count_port fl) xs c) + qc_licensed (fold (count_port fl) xs c) \<le> qc_disabled c + qc_licensed c + length xs"
  "qc_ePort (fold (count_port fl) xs c) + qc_fPort (fold (count_port fl) xs c) \<le> qc_ePort c + qc_fPort c + length xs"
proof (induction xs arbitrary: c)
  case (Cons x xs)
  have "qc_disabled (count_port fl x c) + qc_licensed (count_port fl x c) \<le> Suc (qc_disabled c + qc_licensed c)"
    "qc_ePort (count_port fl x c) + qc_fPort (count_port fl x c) \<le> Suc (qc_ePort c + qc_fPort c)" for c
    by (simp_all add: count_port_def Let_def)
  note step = this
  { case 1 show ?case using Cons(1) [of "count_port fl x c"] step(1) [of c] by simp }
  { case 2 show ?case using Cons(2) [of "count_port fl x c"] step(2) [of c] by simp }
qed simp_all

definition summary_count :: "gomap \<Rightarrow> string \<Rightarrow> int" where
  "summary_count data k = (case as_map (map_of data ''ports'') of None \<Rightarrow> 0 | Some m \<Rightarrow> toInt (map_of m k))"

lemma published_ports:
  "as_map (map_of (published_snapshot fl z) ''ports'') \<noteq> None"
  "summary_count (published_snapshot fl z) ''total'' = int (length (brocadeExtractArray (bz_ports z) ''fibrechannel''))"
  "summary_count (published_snapshot fl z) ''online'' = int (length (filter (\<lambda>p. port_status fl p = 2) (port_objects z)))"
  "summary_count (published_snapshot fl z) ''offline'' = int (length (filter (\<lambda>p. port_status fl p \<notin> {2, 5}) (port_objects z)))"
  "summary_count (published_snapshot fl z) ''faulty'' = int (length (filter (\<lambda>p. port_status fl p = 5) (port_objects z)))"
  "summary_count (published_snapshot fl z) ''withErrors'' = int (length (filter (\<lambda>p. port_status fl p = 5) (port_objects z)))"
  "summary_count (published_snapshot fl z) ''disabled'' =
     int (length (filter (\<lambda>p. float_to_int64 (brocadeNum fl p [''is-enabled-state'']) = 6) (port_objects z)))"
  "summary_count (published_snapshot fl z) ''ePort'' =
     int (length (filter (\<lambda>p. float_to_int64 (brocadeNum fl p [''port-type'']) = 7) (port_objects z)))"
  "map_of (published_snapshot fl z) ''portsFaulty'' =
     Some (VInt (int (length (filter (\<lambda>p. port_status fl p = 5) (port_objects z)))))"
  by (simp_all add: snapshot_simps summary_count_def as_map_def toInt_def port_counts_of_def fold_count_port zero_counts_def
      port_objects_def split: prod.split)

lemma published_ports_le:
  "summary_count (published_snapshot fl z) ''disabled'' + summary_count (published_snapshot fl z) ''licensed'' \<le> int (length (port_objects z))"
  "summary_count (published_snapshot fl z) ''ePort'' + summary_count (published_snapshot fl z) ''fPort'' \<le> int (length (port_objects z))"
  using fold_count_port_le [of fl "port_objects z" zero_counts]
  by (simp_all add: snapshot_simps summary_count_def as_map_def toInt_def port_counts_of_def zero_counts_def port_objects_def
      flip: of_nat_add split: prod.split)

lemma objects_length: "length (objects l) \<le> length l"
  by (simp add: objects_def List.map_filter_def)

section \<open>Signals of a snapshot\<close>

lemma sg_Key_signal [simp]: "sg_Key (signal k sv l e v) = k"
  by (simp add: signal_def)

lemma length_filter_pos: "(0 < length (filter P xs)) = (\<exists>x\<in>set xs. P x)"
  by (simp add: filter_empty_conv)

lemma sg_Key_if:
  "sg_Key ` set (if b then x else y) = (if b then sg_Key ` set x else sg_Key ` set y)"
  "sg_Key ` set [s] = {sg_Key s}" "sg_Key ` set [] = {}"
  by simp_all

lemma sg_Key_map_filter: "sg_Key ` set (List.map_filter f xs) = {k. \<exists>x\<in>set xs. map_option sg_Key (f x) = Some k}"
  by (force simp: List.map_filter_def)

lemmas signal_key_simps = set_append image_Un sg_Key_if sg_Key_signal

lemma switch_keys:
  "sg_Key ` set (switch_signals (published_snapshot fl z)) =
     (let st = reported_state fl z
      in if st = '''' \<or> equal_fold st ''unknown'' then {''switch.unknown''}
         else if \<not> equal_fold st ''online'' then {''switch.unhealthy''} else {})"
  by (simp add: switch_signals_def Let_def)

lemma port_keys:
  "sg_Key ` set (port_signals (published_snapshot fl z)) =
     (if \<exists>p\<in>set (port_objects z). float_to_int64 (brocadeNum fl p [''is-enabled-state'']) = 6 then {''port.disabled''} else {}) \<union>
     (if \<exists>p\<in>set (port_objects z). port_status fl p = 5 then {''port.errors''} else {})"
proof -
  obtain m where m: "as_map (map_of (published_snapshot fl z) ''ports'') = Some m" using published_ports(1) by blast
  have "toInt (map_of m k) = summary_count (published_snapshot fl z) k" for k by (simp add: summary_count_def m)
  then have "port_signals (published_snapshot fl z) =
     (let n = int (length (filter (\<lambda>p. float_to_int64 (brocadeNum fl p [''is-enabled-state'']) = 6) (port_objects z)));
          e = int (length (filter (\<lambda>p. port_status fl p = 5) (port_objects z)))
      in (if n > 0 then [signal ''port.disabled'' ''warning'' (show_int n @ '' port(s) disabled'') '''' (show_int n)] else []) @
         (if e > 0 then [signal ''port.errors'' (if e > 3 then ''error'' else ''warning'') (show_int e @ '' port(s) with errors'') ''''
            (show_int e)] else []))"
    by (simp add: port_signals_def m error_ports_def published_ports toInt_def Let_def)
  then show ?thesis by (simp only: Let_def) (auto simp: filter_empty_conv)
qed

lemma media_keys:
  "sg_Key ` set (media_signals fl (published_snapshot fl z)) =
     (if \<exists>m\<in>set (media_objects z). media_level_of fl z m = MediaAlarm then {''sfp.alarm''} else {}) \<union>
     (if \<exists>m\<in>set (media_objects z). media_level_of fl z m = MediaWarning then {''sfp.out_of_range''} else {})"
proof -
  have "map_option sg_Key (media_signal fl (port_states fl (bz_ports z)) m) =
      (case media_level_of fl z m of MediaOK \<Rightarrow> None | MediaAlarm \<Rightarrow> Some ''sfp.alarm'' | MediaWarning \<Rightarrow> Some ''sfp.out_of_range'')" for m
    by (simp add: media_signal_def media_level_of_def Let_def split: prod.split media_level.split)
  then have "sg_Key ` set (media_signals fl (published_snapshot fl z)) = {k. \<exists>m\<in>set (media_objects z).
      (case media_level_of fl z m of MediaOK \<Rightarrow> None | MediaAlarm \<Rightarrow> Some ''sfp.alarm'' | MediaWarning \<Rightarrow> Some ''sfp.out_of_range'') = Some k}"
    by (simp only: media_signals_def published_raw option.case Let_def sg_Key_map_filter media_objects_def)
  moreover have "((case l of MediaOK \<Rightarrow> None | MediaAlarm \<Rightarrow> Some ''sfp.alarm'' | MediaWarning \<Rightarrow> Some ''sfp.out_of_range'') = Some k) \<longleftrightarrow>
      l = MediaAlarm \<and> k = ''sfp.alarm'' \<or> l = MediaWarning \<and> k = ''sfp.out_of_range''" for l k
    by (cases l) auto
  ultimately show ?thesis by auto
qed

lemma fru_keys:
  "sg_Key ` set (fru_signals fl (published_snapshot fl z)) =
     (if \<exists>f\<in>set (fru_objects z). is_psu fl f \<and> fru_failed fl f then {''hardware.psu.failed''}
      else if length (filter (is_psu fl) (fru_objects z)) = 1 then {''hardware.psu.missing''} else {}) \<union>
     (if \<exists>f\<in>set (fru_objects z). is_fan fl f \<and> fru_failed fl f then {''hardware.fan.failed''} else {})"
  unfolding fru_signals_def published_raw option.case Let_def count_fru_def fru_objects_def [symmetric] length_filter_pos
  by (simp only: signal_key_simps)

lemma fallback_keys:
  "sg_Key ` set (sfp_fallback fl (published_snapshot fl z)) =
     (if (\<forall>m\<in>set (media_objects z). media_level_of fl z m = MediaOK) \<and> (\<exists>m\<in>set (media_objects z). hasBrocadeMediaWarning m)
      then {''sfp.warning''} else {})"
proof -
  have "media_signals fl (published_snapshot fl z) = [] \<longleftrightarrow> sg_Key ` set (media_signals fl (published_snapshot fl z)) = {}" by simp
  also have "\<dots> \<longleftrightarrow> (\<forall>m\<in>set (media_objects z). media_level_of fl z m = MediaOK)"
    unfolding media_keys using media_level.exhaust by (smt (verit) Un_empty insert_not_empty media_level.distinct(1,3))
  finally show ?thesis by (simp add: sfp_fallback_def Let_def filter_empty_conv)
qed

lemma fabric_keys:
  "sg_Key ` set (fabric_signals (published_snapshot fl z)) =
     (if trim_space (active_cfg (bz_zoneConfig z)) = '''' then {''zoning.no_active_cfg''} else {}) \<union>
     (if (\<exists>p\<in>set (port_objects z). float_to_int64 (brocadeNum fl p [''port-type'']) = 7) \<and>
         brocadeExtractArray (bz_fabricInfo z) ''fabric-switch'' = [] \<and> equal_fold (reported_state fl z) ''online''
      then {''fabric.segmented''} else {})"
proof -
  have "ePortCount d = summary_count d ''ePort''" for d by (simp add: ePortCount_def summary_count_def)
  then show ?thesis by (auto simp: fabric_signals_def published_ports filter_empty_conv)
qed

lemma if_subset: "((if b then A else B) \<subseteq> S) = ((b \<longrightarrow> A \<subseteq> S) \<and> (\<not> b \<longrightarrow> B \<subseteq> S))"
  by simp

lemma mem_if: "(k \<in> (if b then A else B)) = (b \<and> k \<in> A \<or> \<not> b \<and> k \<in> B)"
  by simp

definition signal_keys :: "float_text \<Rightarrow> brocade_answers \<Rightarrow> string set" where
  "signal_keys fl z = sg_Key ` set (extractBrocadeSignals fl (published_snapshot fl z))"

lemmas signal_keys_simps = signal_keys_def extractBrocadeSignals_def set_append image_Un switch_keys port_keys media_keys fru_keys
  fallback_keys fabric_keys Let_def Un_iff mem_if

text \<open>C22: the signals of a published snapshot are exactly those its answers justify: each of the twelve signal keys
  appears if and only if the reported switch state, some port, some optical module, some power supply or fan, the zoning or
  the fabric answer has the condition the key stands for, and no other key appears.\<close>

theorem brocade_signals_exact:
  "signal_keys fl z \<subseteq> {''switch.unknown'', ''switch.unhealthy'', ''port.disabled'', ''port.errors'', ''sfp.alarm'', ''sfp.out_of_range'',
      ''hardware.psu.failed'', ''hardware.psu.missing'', ''hardware.fan.failed'', ''sfp.warning'', ''zoning.no_active_cfg'', ''fabric.segmented''} \<and>
   (''switch.unknown'' \<in> signal_keys fl z \<longleftrightarrow> reported_state fl z = '''' \<or> equal_fold (reported_state fl z) ''unknown'') \<and>
   (''switch.unhealthy'' \<in> signal_keys fl z \<longleftrightarrow> reported_state fl z \<noteq> '''' \<and> \<not> equal_fold (reported_state fl z) ''unknown'' \<and>
      \<not> equal_fold (reported_state fl z) ''online'') \<and>
   (''port.disabled'' \<in> signal_keys fl z \<longleftrightarrow> (\<exists>p\<in>set (port_objects z). float_to_int64 (brocadeNum fl p [''is-enabled-state'']) = 6)) \<and>
   (''port.errors'' \<in> signal_keys fl z \<longleftrightarrow> (\<exists>p\<in>set (port_objects z). port_status fl p = 5)) \<and>
   (''sfp.alarm'' \<in> signal_keys fl z \<longleftrightarrow> (\<exists>m\<in>set (media_objects z). media_level_of fl z m = MediaAlarm)) \<and>
   (''sfp.out_of_range'' \<in> signal_keys fl z \<longleftrightarrow> (\<exists>m\<in>set (media_objects z). media_level_of fl z m = MediaWarning)) \<and>
   (''hardware.psu.failed'' \<in> signal_keys fl z \<longleftrightarrow> (\<exists>f\<in>set (fru_objects z). is_psu fl f \<and> fru_failed fl f)) \<and>
   (''hardware.psu.missing'' \<in> signal_keys fl z \<longleftrightarrow>
      \<not> (\<exists>f\<in>set (fru_objects z). is_psu fl f \<and> fru_failed fl f) \<and> length (filter (is_psu fl) (fru_objects z)) = 1) \<and>
   (''hardware.fan.failed'' \<in> signal_keys fl z \<longleftrightarrow> (\<exists>f\<in>set (fru_objects z). is_fan fl f \<and> fru_failed fl f)) \<and>
   (''sfp.warning'' \<in> signal_keys fl z \<longleftrightarrow>
      \<not> (\<exists>m\<in>set (media_objects z). media_level_of fl z m \<noteq> MediaOK) \<and> (\<exists>m\<in>set (media_objects z). hasBrocadeMediaWarning m)) \<and>
   (''zoning.no_active_cfg'' \<in> signal_keys fl z \<longleftrightarrow> trim_space (active_cfg (bz_zoneConfig z)) = '''') \<and>
   (''fabric.segmented'' \<in> signal_keys fl z \<longleftrightarrow> (\<exists>p\<in>set (port_objects z). float_to_int64 (brocadeNum fl p [''port-type'']) = 7) \<and>
      brocadeExtractArray (bz_fabricInfo z) ''fabric-switch'' = [] \<and> equal_fold (reported_state fl z) ''online'')"
proof (intro conjI)
  show "signal_keys fl z \<subseteq> {''switch.unknown'', ''switch.unhealthy'', ''port.disabled'', ''port.errors'', ''sfp.alarm'', ''sfp.out_of_range'',
      ''hardware.psu.failed'', ''hardware.psu.missing'', ''hardware.fan.failed'', ''sfp.warning'', ''zoning.no_active_cfg'', ''fabric.segmented''}"
    by (simp only: signal_keys_simps Un_subset_iff if_subset insert_subset empty_subsetI) (simp only: insert_iff simp_thms)
qed (simp_all only: signal_keys_simps, simp_all)

text \<open>C38: the port counters of a published snapshot are consistent: every port object is counted exactly once as online,
  offline or faulty, their sum is at most the published total, and disabled plus licensed ports and E plus F ports are
  each at most the number of port objects; no counter is negative.\<close>

theorem port_counters_bounded:
  "let d = published_snapshot fl z; n = int (length (port_objects z)) in
     summary_count d ''online'' + summary_count d ''offline'' + summary_count d ''faulty'' = n \<and>
     n \<le> summary_count d ''total'' \<and>
     summary_count d ''disabled'' + summary_count d ''licensed'' \<le> n \<and>
     summary_count d ''ePort'' + summary_count d ''fPort'' \<le> n \<and>
     (\<nexists>k. k \<in> {''online'', ''offline'', ''faulty'', ''disabled'', ''licensed'', ''ePort'', ''fPort''} \<and> summary_count d k < 0)"
proof -
  have "length (filter (\<lambda>p. port_status fl p = 2) l) + length (filter (\<lambda>p. port_status fl p \<notin> {2, 5}) l) +
      length (filter (\<lambda>p. port_status fl p = 5) l) = length l" for l
    by (induction l) auto
  from this [of "port_objects z"] have "summary_count (published_snapshot fl z) ''online'' + summary_count (published_snapshot fl z) ''offline'' +
      summary_count (published_snapshot fl z) ''faulty'' = int (length (port_objects z))"
    by (simp add: published_ports flip: of_nat_add)
  moreover have "0 \<le> summary_count (published_snapshot fl z) ''licensed''" "0 \<le> summary_count (published_snapshot fl z) ''fPort''"
    by (simp_all add: snapshot_simps summary_count_def as_map_def toInt_def split: prod.split)
  moreover have "int (length (port_objects z)) \<le> summary_count (published_snapshot fl z) ''total''"
    by (simp add: published_ports port_objects_def objects_length)
  ultimately show ?thesis
    using published_ports_le [of fl z]
    by (simp only: Let_def, intro conjI notI) (auto simp: published_ports not_less)
qed

text \<open>The alerts of a collection follow its signals.\<close>

lemma alerts_follow_signals:
  "brocade_alerts fl (published_snapshot fl z) =
     (if ''port.errors'' \<in> signal_keys fl z
      then [alert ''critical'' (show_nat (length (filter (\<lambda>p. port_status fl p = 5) (port_objects z))) @ '' port(s) in faulty state'')] else []) @
     (if ''hardware.psu.failed'' \<in> signal_keys fl z
      then [alert ''critical'' (show_nat (length (filter (\<lambda>f. is_psu fl f \<and> fru_failed fl f) (fru_objects z))) @ '' PSU(s) not operational'')]
      else if ''hardware.psu.missing'' \<in> signal_keys fl z
      then [alert ''warning'' (''Single PSU detected '' @ em_dash @ '' no power redundancy'')] else [])"
proof -
  have "''port.errors'' \<in> signal_keys fl z \<longleftrightarrow> 0 < length (filter (\<lambda>p. port_status fl p = 5) (port_objects z))"
    "''hardware.psu.failed'' \<in> signal_keys fl z \<longleftrightarrow> 0 < length (filter (\<lambda>f. is_psu fl f \<and> fru_failed fl f) (fru_objects z))"
    "''hardware.psu.missing'' \<in> signal_keys fl z \<longleftrightarrow> \<not> 0 < length (filter (\<lambda>f. is_psu fl f \<and> fru_failed fl f) (fru_objects z)) \<and>
       length (filter (is_psu fl) (fru_objects z)) = 1"
    unfolding length_filter_pos by (simp_all only: signal_keys_simps, simp_all)
  note keys = this
  show ?thesis
    unfolding keys brocade_alerts_def published_ports(9) option.case goval.case published_raw Let_def count_fru_def fru_objects_def [symmetric]
    by (simp add: show_int_def del: length_greater_0_conv)
qed

text \<open>The text form of the switch role is never reported as such: a role that is no number counts as 0.\<close>

lemma string_role_is_subordinate:
  assumes "map_of sw ''switch-role'' = Some (VString r)" and "r \<noteq> ''''" and "fl_scan fl r = None"
  shows "switch_role fl sw = ''Subordinate''"
  using assms by (simp add: switch_role_def brocadeNum.simps brocadeStr.simps float_to_int64_def min_duration_def max_duration_def Let_def)

section \<open>What the adapter sends\<close>

definition adapter_paths :: "string list" where
  "adapter_paths = chassis_path # fru_path # answer_paths"

text \<open>The requests added by an operation are GETs of the adapter on the given paths.\<close>

definition sends :: "brocade_client \<Rightarrow> brocade_adapter \<Rightarrow> brocade_request list \<Rightarrow> brocade_request list \<Rightarrow> bool" where
  "sends cl a s s' = (\<exists>l. s' = s @ l \<and> set l \<subseteq> brocade_request_of cl a ` set adapter_paths)"

lemma sends_refl: "sends cl a s s"
  by (simp add: sends_def)

lemma sends_trans: "sends cl a s t \<Longrightarrow> sends cl a t v \<Longrightarrow> sends cl a s v"
  by (auto simp: sends_def)

lemma brocadeGet_sends: "path \<in> set adapter_paths \<Longrightarrow> sends cl a s (snd (brocadeGet io cl a path s))"
  by (auto simp: sends_def brocadeGet_def Let_def)

lemma get_all_sends: "set ps \<subseteq> set adapter_paths \<Longrightarrow> sends cl a s (snd (get_all io cl a ps s))"
proof (induction ps arbitrary: s)
  case (Cons path ps)
  then have "sends cl a s (snd (brocadeGet io cl a path s))" by (simp add: brocadeGet_sends)
  moreover have "sends cl a t (snd (get_all io cl a ps t))" for t using Cons by simp
  ultimately show ?case by (auto split: prod.split intro: sends_trans) (metis sends_trans snd_conv)
qed (simp add: sends_refl)

lemma chassis_in_paths: "chassis_path \<in> set adapter_paths" "fru_path \<in> set adapter_paths" "set answer_paths \<subseteq> set adapter_paths"
  by (auto simp: adapter_paths_def)

lemma collect_answers_sends: "sends cl a s (snd (collect_answers io cl a c s))"
proof -
  obtain ms s1 where g: "get_all io cl a answer_paths s = (ms, s1)" by fastforce
  have 1: "sends cl a s s1" using get_all_sends [of answer_paths cl a s io] g chassis_in_paths by simp
  have 2: "sends cl a s1 (snd (brocadeGet io cl a fru_path s1))" by (rule brocadeGet_sends) (rule chassis_in_paths)
  show ?thesis using 1 sends_trans [OF 1 2] by (auto simp: collect_answers_def g split: option.split prod.split)
qed

datatype adapter_op = DoHealth | DoCollect time time

definition adapter_step :: "brocade_io \<Rightarrow> float_text \<Rightarrow> (snapshot_signal list \<Rightarrow> goval) \<Rightarrow> adapter_op \<Rightarrow> adapter_run \<Rightarrow> adapter_run option" where
  "adapter_step io fl box opn u =
     (case opn of DoHealth \<Rightarrow> map_option snd (HealthCheck io u) | DoCollect now later \<Rightarrow> map_option snd (CollectBrocade io fl box now later u))"

fun adapter_steps :: "brocade_io \<Rightarrow> float_text \<Rightarrow> (snapshot_signal list \<Rightarrow> goval) \<Rightarrow> adapter_op list \<Rightarrow> adapter_run \<Rightarrow> adapter_run option" where
  "adapter_steps io fl box [] u = Some u"
| "adapter_steps io fl box (x # xs) u = (case adapter_step io fl box x u of None \<Rightarrow> None | Some v \<Rightarrow> adapter_steps io fl box xs v)"

lemma adapter_step_sends:
  assumes "ba_client (au_adapter u) = Some cl"
  shows "\<exists>v. adapter_step io fl box x u = Some v \<and> au_adapter v = au_adapter u \<and> sends cl (au_adapter u) (au_sent u) (au_sent v)"
proof -
  obtain y s1 where g: "brocadeGet io cl (au_adapter u) chassis_path (au_sent u) = (y, s1)" by fastforce
  have 1: "sends cl (au_adapter u) (au_sent u) s1" using brocadeGet_sends [OF chassis_in_paths(1), of cl "au_adapter u" "au_sent u" io] g by simp
  obtain z s2 where c: "collect_answers io cl (au_adapter u) (ok_map y) s1 = (z, s2)" by fastforce
  have 2: "sends cl (au_adapter u) s1 s2" using collect_answers_sends [of cl "au_adapter u" s1 io "ok_map y"] c by simp
  show ?thesis using 1 sends_trans [OF 1 2]
    by (cases x) (simp_all add: adapter_step_def HealthCheck_def CollectBrocade_def assms g c Let_def)
qed

lemma adapter_steps_sends:
  assumes "ba_client (au_adapter u) = Some cl"
  shows "\<exists>v. adapter_steps io fl box xs u = Some v \<and> au_adapter v = au_adapter u \<and> sends cl (au_adapter u) (au_sent u) (au_sent v)"
  using assms
proof (induction xs arbitrary: u)
  case (Cons x xs)
  obtain v where v: "adapter_step io fl box x u = Some v" "au_adapter v = au_adapter u" "sends cl (au_adapter u) (au_sent u) (au_sent v)"
    using adapter_step_sends [OF Cons.prems] by blast
  with Cons.IH [of v] Cons.prems show ?case by (auto intro: sends_trans)
qed (simp add: sends_refl)

definition refused :: "brocade_io \<Rightarrow> target_profile \<Rightarrow> (string \<times> string) list \<Rightarrow> adapter_run \<Rightarrow> bool" where
  "refused io p creds u =
     (has_prefix (tp_Endpoint p) ''https://'' \<and>
      (case fst (brocadeGet io (init_client io p) (init_adapter io p creds (au_adapter u)) chassis_path (au_sent u)) of
         Inl e \<Rightarrow> isConnRefused e | Inr _ \<Rightarrow> False))"

lemma Init_sends:
  fixes io p creds u
  defines "a \<equiv> init_adapter io p creds (au_adapter u)" and "cl \<equiv> init_client io p"
  assumes "Init io now p creds u = (err, v)"
  obtains s where "sends cl a (au_sent u) s" and "ba_client (au_adapter v) = Some cl"
    and "au_adapter v = (if refused io p creds u then a\<lparr>ba_baseURL := http_url (tp_Endpoint p)\<rparr> else a)"
    and "sends cl (au_adapter v) s (au_sent v)"
proof -
  obtain y s1 where g: "brocadeGet io cl a chassis_path (au_sent u) = (y, s1)" by fastforce
  have 1: "sends cl a (au_sent u) s1" using brocadeGet_sends [OF chassis_in_paths(1), of cl a "au_sent u" io] g by simp
  let ?a = "a\<lparr>ba_baseURL := http_url (tp_Endpoint p)\<rparr>"
  obtain y2 s2 where g2: "brocadeGet io cl ?a chassis_path s1 = (y2, s2)" by fastforce
  have 2: "sends cl ?a s1 s2" using brocadeGet_sends [OF chassis_in_paths(1), of cl ?a s1 io] g2 by simp
  have a: "ba_baseURL a = tp_Endpoint p" "ba_client a = Some cl" by (simp_all add: a_def cl_def init_adapter_def)
  have r: "refused io p creds u \<longleftrightarrow> has_prefix (tp_Endpoint p) ''https://'' \<and> (case y of Inl e \<Rightarrow> isConnRefused e | Inr _ \<Rightarrow> False)"
    using g by (simp add: refused_def a_def cl_def)
  have "au_adapter v = (if refused io p creds u then ?a else a)" "au_sent v = (if refused io p creds u then s2 else s1)"
    using assms(3) unfolding Init_def Let_def a_def [symmetric] cl_def [symmetric] g r a(1)
    by (auto simp: g2 split: sum.splits if_splits)
  with that [OF 1] 2 a(2) show thesis by (cases "refused io p creds u") (simp_all add: sends_refl)
qed

lemma init_client_timeout: "bc_timeout (init_client io p) \<le> 30 * second"
  by (simp add: init_client_def init_timeout_def Let_def split: prod.split)


text \<open>A switch of the examples: it refuses https and answers every http request with an empty document.\<close>

definition demo_brocade_io :: "(nat \<Rightarrow> brocade_error + brocade_reply) \<Rightarrow> brocade_io" where
  "demo_brocade_io f =
     \<lparr>bi_parses = (\<lambda>_. True), bi_parsesProxy = (\<lambda>_. True), bi_parseError = \<lparr>be_Text = ''parse'', be_OpError = None\<rparr>,
      bi_readError = \<lparr>be_Text = ''unexpected EOF'', be_OpError = None\<rparr>,
      bi_do = (\<lambda>n q. f n), bi_decode = (\<lambda>s. Inr [])\<rparr>"

definition demo_float :: float_text where
  "demo_float = \<lparr>fl_show = (\<lambda>_. ''0''), fl_fixed1 = (\<lambda>_. ''0.0''), fl_format = (\<lambda>_. ''0''), fl_scan = (\<lambda>_. None), fl_log10 = (\<lambda>_. 0)\<rparr>"

definition demo_switch :: target_profile where
  "demo_switch = (demo_profile ''t1'')\<lparr>tp_Endpoint := ''https://sw1''\<rparr>"

definition demo_adapter_run :: adapter_run where
  "demo_adapter_run = \<lparr>au_adapter = NewBrocadeAdapter demo_switch, au_registry = [], au_sent = []\<rparr>"

definition dial_refused :: brocade_error where
  "dial_refused = \<lparr>be_Text = ''dial tcp sw1:443: connect: connection refused'',
     be_OpError = Some (''dial'', ''connect: connection refused'')\<rparr>"

abbreviation empty_reply :: brocade_reply where
  "empty_reply \<equiv> \<lparr>bp_StatusCode = 200, bp_Body = ''{}'', bp_Broken = False\<rparr>"


text \<open>The http fallback does not need a refused connection: an error answer of a proxy or of the switch whose text
  has those words is enough, and the credentials are then sent in the clear.\<close>

lemma proxied_refusal_downgrades:
  "let io = demo_brocade_io (\<lambda>n. Inr \<lparr>bp_StatusCode = 502, bp_Body = ''upstream: connection refused'', bp_Broken = False\<rparr>);
       v = snd (Init io 0 demo_switch [(''username'', ''admin''), (''password'', ''pw'')] demo_adapter_run)
   in map (\<lambda>q. (bq_URL q, bq_auth q)) (au_sent v) =
        [(''https://sw1/rest/running/brocade-chassis/chassis'', Basic ''admin'' ''pw''),
         (''http://sw1/rest/running/brocade-chassis/chassis'', Basic ''admin'' ''pw'')]"
  by (simp add: Init_def brocadeGet_def demo_brocade_io_def demo_switch_def demo_adapter_run_def init_adapter_def NewBrocadeAdapter_def
      brocade_reply_result_def read_limited_def isConnRefused_def show_int_def http_url_def brocade_request_of_def request_auth_def
      adapter_cred_def show_nat.simps Let_def)

section \<open>The adapter under a worker\<close>

text \<open>What a cycle of the worker sees of the adapter: its health check, then its collection.\<close>

definition brocade_worker_io ::
  "brocade_io \<Rightarrow> float_text \<Rightarrow> (snapshot_signal list \<Rightarrow> goval) \<Rightarrow> time \<Rightarrow> time \<Rightarrow> worker_io \<Rightarrow> adapter_run \<Rightarrow> (worker_io \<times> adapter_run) option"
where
  "brocade_worker_io io fl box now later wio u =
     (case HealthCheck io u of None \<Rightarrow> None
      | Some (h, u1) \<Rightarrow>
         (case CollectBrocade io fl box now later u1 of None \<Rightarrow> None
          | Some (m, u2) \<Rightarrow> Some (wio\<lparr>io_health := h, io_collect := Inr m\<rparr>, if h = None then u2 else u1)))"

lemma collect_result_lookup [simp]:
  "map_of (collect_result fl box now z) ''_signals'' = Some (box (extractBrocadeSignals fl (published_snapshot fl z)))"
  "map_of (collect_result fl box now z) ''alerts'' = Some (VMapSlice (brocade_alerts fl (published_snapshot fl z)))"
  by (simp_all add: collect_result_def)

text \<open>with an initialised adapter a worker cycle fails exactly when the health check's chassis request fails; otherwise
  the collection succeeds, whatever its own requests answered, and the signals the worker stores with the enriched
  payload are those extracted from the published snapshot.\<close>

theorem brocade_cycle_outcome:
  assumes "ba_client (au_adapter u) = Some cl" and "\<And>l. io_asSignals wio (box l) = Some l"
  shows "\<exists>wio' v z. brocade_worker_io io fl box now later wio u = Some (wio', v) \<and>
    cycle_fails wio' = isl (fst (brocadeGet io cl (au_adapter u) chassis_path (au_sent u))) \<and>
    io_collect wio' = Inr (collect_result fl box now z) \<and>
    payload_signals wio' (enrich p (AList.delete ''_subCalls'' (collect_result fl box now z))) =
      extractBrocadeSignals fl (published_snapshot fl z)"
proof -
  obtain y s1 where g: "brocadeGet io cl (au_adapter u) chassis_path (au_sent u) = (y, s1)" by fastforce
  define h where "h = (case y of Inl e \<Rightarrow> Some (be_Text e) | Inr _ \<Rightarrow> None)"
  have h: "HealthCheck io u = Some (h, u\<lparr>au_sent := s1\<rparr>)" "(h = None) = (\<not> isl y)"
    by (auto simp: HealthCheck_def assms(1) g h_def split: sum.split)
  obtain y2 s2 where g2: "brocadeGet io cl (au_adapter u) chassis_path s1 = (y2, s2)" by fastforce
  obtain z s3 where c: "collect_answers io cl (au_adapter u) (ok_map y2) s2 = (z, s3)" by fastforce
  obtain v where v: "CollectBrocade io fl box now later (u\<lparr>au_sent := s1\<rparr>) = Some (collect_result fl box now z, v)"
    by (simp add: CollectBrocade_def assms(1) g2 c Let_def)
  let ?w = "wio\<lparr>io_health := h, io_collect := Inr (collect_result fl box now z)\<rparr>"
  have "payload_signals ?w (enrich p (AList.delete ''_subCalls'' (collect_result fl box now z))) =
      extractBrocadeSignals fl (published_snapshot fl z)"
    by (simp add: payload_signals_def enrich_def delete_conv' assms(2))
  moreover have "brocade_worker_io io fl box now later wio u = Some (?w, if h = None then v else u\<lparr>au_sent := s1\<rparr>)"
    by (simp add: brocade_worker_io_def h(1) v)
  moreover have "cycle_fails ?w = isl y" using h(2) by (auto simp: cycle_fails_def)
  ultimately show ?thesis unfolding g fst_conv by fastforce
qed

text \<open>A boxed signal slice of the examples and its type assertion.\<close>

definition box_signals :: "snapshot_signal list \<Rightarrow> goval" where
  "box_signals l = VSlice (map (\<lambda>s. VStrSlice [sg_Key s, sg_Severity s, sg_Label s, sg_Entity s, sg_Value s]) l)"

fun unbox_signal :: "goval \<Rightarrow> snapshot_signal option" where
  "unbox_signal (VStrSlice [k, s, l, e, v]) = Some \<lparr>sg_Key = k, sg_Severity = s, sg_Label = l, sg_Entity = e, sg_Value = v\<rparr>"
| "unbox_signal _ = None"

fun unbox_signals :: "goval \<Rightarrow> snapshot_signal list option" where
  "unbox_signals (VSlice l) = Some (List.map_filter unbox_signal l)"
| "unbox_signals _ = None"

lemma unbox_box: "unbox_signals (box_signals l) = Some l"
  by (induction l) (simp_all add: box_signals_def List.map_filter_def)

theorem brocade_cycle_outcome_witness:
  "let io = demo_brocade_io (\<lambda>n. Inr empty_reply); wio = (demo_io (Inl ''unused''))\<lparr>io_asSignals := unbox_signals\<rparr>;
       u = snd (Init io 0 demo_switch [] demo_adapter_run)
   in ba_client (au_adapter u) = Some (init_client io demo_switch) \<and>
      (\<exists>wio' v z. brocade_worker_io io demo_float box_signals 0 0 wio u = Some (wio', v) \<and>
        cycle_fails wio' = isl (fst (brocadeGet io (init_client io demo_switch) (au_adapter u) chassis_path (au_sent u))) \<and>
        io_collect wio' = Inr (collect_result demo_float box_signals 0 z) \<and>
        payload_signals wio' (enrich demo_switch (AList.delete ''_subCalls'' (collect_result demo_float box_signals 0 z))) =
          extractBrocadeSignals demo_float (published_snapshot demo_float z))"
proof -
  let ?io = "demo_brocade_io (\<lambda>n. Inr empty_reply)" and ?wio = "(demo_io (Inl ''unused''))\<lparr>io_asSignals := unbox_signals\<rparr>"
  let ?u = "snd (Init ?io 0 demo_switch [] demo_adapter_run)"
  have c: "ba_client (au_adapter ?u) = Some (init_client ?io demo_switch)"
    by (metis Init_sends prod.collapse)
  have b: "io_asSignals ?wio (box_signals l) = Some l" for l by (simp add: unbox_box)
  show ?thesis using c brocade_cycle_outcome [OF c, of ?wio box_signals ?io demo_float 0 0 demo_switch, OF b] unfolding Let_def by blast
qed

text \<open>An outage after the health check: every request fails from some point on.\<close>

definition down_from :: "brocade_io \<Rightarrow> nat \<Rightarrow> bool" where
  "down_from io n = (\<forall>i q. n \<le> i \<longrightarrow> isl (bi_do io i q))"

lemma brocadeGet_down:
  assumes "down_from io n" and "n \<le> length s"
  shows "ok_map (fst (brocadeGet io cl a path s)) = []" "isl (fst (brocadeGet io cl a path s))" "n \<le> length (snd (brocadeGet io cl a path s))"
proof -
  obtain e where "bi_do io (length s) (brocade_request_of cl a path) = Inl e" using assms unfolding down_from_def isl_def by blast
  then show "ok_map (fst (brocadeGet io cl a path s)) = []" "isl (fst (brocadeGet io cl a path s))" "n \<le> length (snd (brocadeGet io cl a path s))"
    using assms(2) by (simp_all add: brocadeGet_def ok_map_def Let_def)
qed

lemma get_all_down:
  "down_from io n \<Longrightarrow> n \<le> length s \<Longrightarrow>
   fst (get_all io cl a ps s) = replicate (length ps) [] \<and> n \<le> length (snd (get_all io cl a ps s))"
proof (induction ps arbitrary: s)
  case (Cons path ps)
  obtain x s1 where g: "brocadeGet io cl a path s = (x, s1)" by fastforce
  with brocadeGet_down [OF Cons.prems, of cl a path] Cons.IH [OF Cons.prems(1), of s1] show ?case
    by (auto simp: g split: prod.split)
qed simp

definition no_answers :: brocade_answers where
  "no_answers = \<lparr>bz_chassis = [], bz_switchInfo = [], bz_ports = [], bz_media = [], bz_zoneConfig = [], bz_definedConfig = [],
     bz_fabricInfo = [], bz_fru = []\<rparr>"

lemma collect_answers_down:
  assumes "down_from io n" and "n \<le> length s"
  shows "fst (collect_answers io cl a [] s) = no_answers"
proof -
  obtain ms s1 where g: "get_all io cl a answer_paths s = (ms, s1)" by fastforce
  have "length answer_paths = 8" by (simp add: answer_paths_def)
  with g have ms: "ms = replicate 8 []" "n \<le> length s1" using get_all_down [OF assms, of cl a answer_paths] by simp_all
  have "mergeBrocadeFru [] [] = None" by (simp add: mergeBrocadeFru_def first_items_def brocadeExtractArray_def)
  with brocadeGet_down(1) [OF assms(1) ms(2), of cl a fru_path] show ?thesis
    by (auto simp: collect_answers_def g ms(1) no_answers_def eval_nat_numeral split: prod.split)
qed

lemma no_answers_signals:
  "extractBrocadeSignals fl (published_snapshot fl no_answers) =
     [signal ''switch.unknown'' ''warning'' ''Switch state not reported'' '''' ''unknown'',
      signal ''zoning.no_active_cfg'' ''warning'' ''No active zone configuration'' '''' ''true'']"
  "brocade_alerts fl (published_snapshot fl no_answers) = []"
proof -
  have z: "port_objects no_answers = []" "media_objects no_answers = []" "fru_objects no_answers = []" "reported_state fl no_answers = ''''"
    "active_cfg (bz_zoneConfig no_answers) = ''''" for fl
    by (simp_all add: no_answers_def port_objects_def media_objects_def fru_objects_def brocadeExtractArray_def brocadeExtractFruItems_def
        first_items_def objects_def List.map_filter_def reported_state_def active_cfg_def brocadeExtractFirst_def first_object_def)
  have "sg_Key ` set l = {} \<Longrightarrow> l = []" for l by simp
  note e = this
  have "port_signals (published_snapshot fl no_answers) = []" "media_signals fl (published_snapshot fl no_answers) = []"
    "fru_signals fl (published_snapshot fl no_answers) = []" "sfp_fallback fl (published_snapshot fl no_answers) = []"
    by (rule e; simp only: port_keys media_keys fru_keys fallback_keys z; simp)+
  moreover have "ePortCount d = summary_count d ''ePort''" for d by (simp add: ePortCount_def summary_count_def)
  ultimately show "extractBrocadeSignals fl (published_snapshot fl no_answers) =
     [signal ''switch.unknown'' ''warning'' ''Switch state not reported'' '''' ''unknown'',
      signal ''zoning.no_active_cfg'' ''warning'' ''No active zone configuration'' '''' ''true'']"
    by (simp add: extractBrocadeSignals_def switch_signals_def fabric_signals_def z published_ports trim_space_def)
  show "brocade_alerts fl (published_snapshot fl no_answers) = []"
    unfolding alerts_follow_signals by (simp only: signal_keys_simps z) simp
qed

text \<open>when every request of a collection fails, the collection still returns a result: an empty snapshot whose only
  signals are the two warnings that the switch state is not reported and no zone configuration is active, without
  alerts; the readiness registry says at any later time that the target's REST side is not ready.\<close>

theorem brocade_outage_reported:
  assumes "ba_client (au_adapter u) = Some cl" and "down_from io (length (au_sent u))" and "tp_TargetID (ba_profile (au_adapter u)) \<noteq> ''''"
  shows "\<exists>m v obs. CollectBrocade io fl box now later u = Some (m, v) \<and>
    map_of m ''_signals'' = Some (box [signal ''switch.unknown'' ''warning'' ''Switch state not reported'' '''' ''unknown'',
      signal ''zoning.no_active_cfg'' ''warning'' ''No active zone configuration'' '''' ''true'']) \<and>
    map_of m ''alerts'' = Some (VMapSlice []) \<and>
    map_of (au_registry v) (tp_TargetID (ba_profile (au_adapter u))) = Some obs \<and> \<not> pt_RESTReady (expire_rest t obs)"
proof -
  obtain x s1 where g: "brocadeGet io cl (au_adapter u) chassis_path (au_sent u) = (x, s1)" by fastforce
  then have x: "ok_map x = []" "isl x" "length (au_sent u) \<le> length s1"
    using brocadeGet_down [OF assms(2) order_refl, of cl "au_adapter u" chassis_path] by simp_all
  obtain z s2 where c: "collect_answers io cl (au_adapter u) [] s1 = (z, s2)" by fastforce
  have z: "z = no_answers" using collect_answers_down [OF assms(2) x(3), of cl "au_adapter u"] c by simp
  obtain e where e: "x = Inl e" using x(2) by (auto simp: isl_def)
  have "CollectBrocade io fl box now later u = Some (collect_result fl box now no_answers,
      u\<lparr>au_registry := record_failed later (au_adapter u) e ''chassis fetch failed'' (au_registry u), au_sent := s2\<rparr>)"
    using c by (simp add: CollectBrocade_def assms(1) g e z ok_map_def Let_def)
  then show ?thesis
    using assms(3) by (simp add: no_answers_signals record_failed_def RecordFailure_def expire_rest_def Let_def)
qed

theorem brocade_outage_reported_witness:
  "let io = demo_brocade_io (\<lambda>n. if n = 0 then Inr empty_reply else Inl dial_refused);
       u = snd (Init io 0 demo_switch [] demo_adapter_run)
   in ba_client (au_adapter u) = Some (init_client io demo_switch) \<and> down_from io (length (au_sent u)) \<and>
      (\<exists>m v obs. CollectBrocade io demo_float box_signals 0 0 u = Some (m, v) \<and>
        map_of m ''_signals'' = Some (box_signals [signal ''switch.unknown'' ''warning'' ''Switch state not reported'' '''' ''unknown'',
          signal ''zoning.no_active_cfg'' ''warning'' ''No active zone configuration'' '''' ''true'']) \<and>
        map_of m ''alerts'' = Some (VMapSlice []) \<and>
        map_of (au_registry v) (tp_TargetID (ba_profile (au_adapter u))) = Some obs \<and> \<not> pt_RESTReady (expire_rest 0 obs))"
proof -
  let ?io = "demo_brocade_io (\<lambda>n. if n = 0 then Inr empty_reply else Inl dial_refused)"
  let ?u = "snd (Init ?io 0 demo_switch [] demo_adapter_run)"
  have u: "au_adapter ?u = init_adapter ?io demo_switch [] (NewBrocadeAdapter demo_switch)" "length (au_sent ?u) = 1"
    by (simp_all add: Init_def brocadeGet_def demo_brocade_io_def demo_adapter_run_def brocade_reply_result_def read_limited_def Let_def)
  have c: "ba_client (au_adapter ?u) = Some (init_client ?io demo_switch)" "tp_TargetID (ba_profile (au_adapter ?u)) \<noteq> ''''"
    unfolding u by (simp_all add: init_adapter_def demo_switch_def demo_profile_def)
  have d: "down_from ?io (length (au_sent ?u))" unfolding u by (simp add: down_from_def demo_brocade_io_def)
  show ?thesis using c(1) d brocade_outage_reported [OF c(1) d c(2), of demo_float box_signals 0 0 0] unfolding Let_def by blast
qed

end
