(* ===== verification/Store.thy ===== *)
theory Store
  imports HostTypes
begin

text \<open>
  The encrypted store (store.go). Files are an association list from absolute paths (their
  components) to contents; \<open>clean_path\<close> is the lexical cleaning \<open>filepath.Join\<close> performs. AES-GCM,
  SHA-256 and the JSON codec are the parameters of \<open>crypto_codec\<close>; the failures an operating
  system call may report are \<open>fs_fault\<close>, where a failed write may leave any content behind. A fresh
  nonce is an argument. Also here: the mount-type diagnostics and the legacy import.
\<close>

section \<open>Paths and files\<close>

type_synonym path = "string list"
type_synonym files = "(path \<times> string) list"

fun clean_comps :: "path \<Rightarrow> path \<Rightarrow> path" where
  "clean_comps acc [] = rev acc"
| "clean_comps acc (c # cs) =
     (if c = '''' \<or> c = ''.'' then clean_comps acc cs
      else if c = ''..'' then clean_comps (tl acc) cs
      else clean_comps (c # acc) cs)"

definition join_path :: "path \<Rightarrow> string list \<Rightarrow> path" where
  "join_path dir elems = clean_comps [] (dir @ concat (map (split_on (CHR ''/'')) elems))"

definition tmp_path :: "path \<Rightarrow> path" where
  "tmp_path p = butlast p @ [last p @ ''.tmp'']"

record fs_fault =
  ff_read_fails :: bool
  ff_write_fails :: bool
  ff_left_behind :: "string option"
  ff_rename_fails :: bool
  ff_remove_fails :: bool

definition no_fault :: fs_fault where
  "no_fault = \<lparr>ff_read_fails = False, ff_write_fails = False, ff_left_behind = None,
     ff_rename_fails = False, ff_remove_fails = False\<rparr>"

text \<open>The contract of a key-value store, for the client lemmas on sequences of deletions.\<close>

locale kv_store =
  fixes get :: "'s \<Rightarrow> 'k \<Rightarrow> 'v option"
    and put :: "'k \<Rightarrow> 'v \<Rightarrow> 's \<Rightarrow> 's"
    and del :: "'k \<Rightarrow> 's \<Rightarrow> 's"
  assumes get_put: "get (put k v s) k' = (if k' = k then Some v else get s k')"
    and get_del: "get (del k s) k' = (if k' = k then None else get s k')"
begin

lemma get_del_all: "get (fold del ks s) k = (if k \<in> set ks then None else get s k)"
  by (induction ks arbitrary: s) (auto simp: get_del)

lemma get_put_all:
  "get (fold (\<lambda>(k, v). put k v) kvs s) k = (case map_of (rev kvs) k of None \<Rightarrow> get s k | Some v \<Rightarrow> Some v)"
  by (induction kvs arbitrary: s) (auto simp: get_put map_add_def split: option.split)

lemma put_then_rename: "k \<noteq> t \<Longrightarrow> get (del t (put k v (put t v s))) k = Some v"
  by (simp add: get_put get_del)

end

interpretation file_kv: kv_store "map_of :: files \<Rightarrow> path \<Rightarrow> string option" AList.update AList.delete
  by unfold_locales simp_all

text \<open>Write to a temporary file, then rename it over the target.\<close>

datatype store_error = ReadFails | DecryptFails | UnmarshalFails | MarshalFails | EncryptFails
  | WriteFails | RenameFails | DeleteFails

definition write_file :: "fs_fault \<Rightarrow> path \<Rightarrow> string \<Rightarrow> files \<Rightarrow> store_error option \<times> files" where
  "write_file f p content fs =
     (if ff_write_fails f
      then (Some WriteFails, case ff_left_behind f of None \<Rightarrow> fs | Some j \<Rightarrow> AList.update p j fs)
      else (None, AList.update p content fs))"

definition write_atomic :: "fs_fault \<Rightarrow> path \<Rightarrow> string \<Rightarrow> files \<Rightarrow> store_error option \<times> files" where
  "write_atomic f p content fs =
     (case write_file f (tmp_path p) content fs of
        (Some e, fs1) \<Rightarrow> (Some e, fs1)
      | (None, fs1) \<Rightarrow>
          if ff_rename_fails f then (Some RenameFails, AList.delete (tmp_path p) fs1)
          else (None, AList.delete (tmp_path p) (AList.update p content fs1)))"

section \<open>Encryption\<close>

type_synonym creds = "(string \<times> string) list"

record crypto_codec =
  cx_seal :: "string \<Rightarrow> string \<Rightarrow> string \<Rightarrow> string"
  cx_open :: "string \<Rightarrow> string \<Rightarrow> string \<Rightarrow> string option"
  cx_sha256 :: "string \<Rightarrow> string"
  cx_marshalState :: "host_state \<Rightarrow> string option"
  cx_unmarshalState :: "string \<Rightarrow> host_state option"
  cx_marshalCreds :: "creds \<Rightarrow> string option"
  cx_unmarshalCreds :: "string \<Rightarrow> creds option"

record store =
  st_configDir :: path
  st_key :: string
  st_files :: files

definition keySize :: nat where "keySize = 32"
definition nonceSize :: nat where "nonceSize = 12"

text \<open>\<open>aes.NewCipher\<close> accepts keys of 16, 24 or 32 bytes.\<close>

definition aes_key_ok :: "string \<Rightarrow> bool" where
  "aes_key_ok k = (length k = 16 \<or> length k = 24 \<or> length k = 32)"

definition encrypt :: "crypto_codec \<Rightarrow> string \<Rightarrow> store \<Rightarrow> string \<Rightarrow> string option" where
  "encrypt cx nonce s plaintext =
     (if \<not> aes_key_ok (st_key s) then None
      else Some (nonce @ cx_seal cx (st_key s) nonce plaintext))"

definition decrypt :: "crypto_codec \<Rightarrow> store \<Rightarrow> string \<Rightarrow> string option" where
  "decrypt cx s ciphertext =
     (if \<not> aes_key_ok (st_key s) then None
      else if length ciphertext < nonceSize then None
      else cx_open cx (st_key s) (take nonceSize ciphertext) (drop nonceSize ciphertext))"

text \<open>\<open>material\<close> is the random key material drawn when no usable key file is found.\<close>

definition loadOrCreateKey ::
  "crypto_codec \<Rightarrow> fs_fault \<Rightarrow> string \<Rightarrow> store \<Rightarrow> store_error option \<times> store" where
  "loadOrCreateKey cx f material s =
     (let keyPath = join_path (st_configDir s) [''host.key''];
          found = (if ff_read_fails f then None else map_of (st_files s) keyPath)
      in if found \<noteq> None \<and> length (the found) \<ge> keySize
         then (None, s\<lparr>st_key := cx_sha256 cx (the found)\<rparr>)
         else (case write_file f keyPath material (st_files s) of
                 (Some e, fs) \<Rightarrow> (Some e, s\<lparr>st_files := fs\<rparr>)
               | (None, fs) \<Rightarrow> (None, s\<lparr>st_files := fs, st_key := cx_sha256 cx material\<rparr>)))"

section \<open>Host state and secrets\<close>

definition state_path :: "store \<Rightarrow> path" where
  "state_path s = join_path (st_configDir s) [''host.json.enc'']"

definition secret_path :: "store \<Rightarrow> string \<Rightarrow> path" where
  "secret_path s targetID = join_path (st_configDir s) [''secrets'', targetID @ ''.enc'']"

definition LoadState :: "crypto_codec \<Rightarrow> fs_fault \<Rightarrow> store \<Rightarrow> store_error + host_state option" where
  "LoadState cx f s =
     (case map_of (st_files s) (state_path s) of
        None \<Rightarrow> Inr None
      | Some ciphertext \<Rightarrow>
          if ff_read_fails f then Inl ReadFails
          else (case decrypt cx s ciphertext of None \<Rightarrow> Inl DecryptFails
                | Some plaintext \<Rightarrow>
                    (case cx_unmarshalState cx plaintext of None \<Rightarrow> Inl UnmarshalFails
                     | Some st \<Rightarrow> Inr (Some st))))"

definition SaveState ::
  "crypto_codec \<Rightarrow> fs_fault \<Rightarrow> string \<Rightarrow> host_state \<Rightarrow> store \<Rightarrow> store_error option \<times> store" where
  "SaveState cx f nonce st s =
     (case cx_marshalState cx st of None \<Rightarrow> (Some MarshalFails, s)
      | Some d \<Rightarrow>
         (case encrypt cx nonce s d of None \<Rightarrow> (Some EncryptFails, s)
          | Some c \<Rightarrow> (case write_atomic f (state_path s) c (st_files s) of
                        (e, fs) \<Rightarrow> (e, s\<lparr>st_files := fs\<rparr>))))"

definition LoadSecret ::
  "crypto_codec \<Rightarrow> fs_fault \<Rightarrow> string \<Rightarrow> store \<Rightarrow> store_error + creds option" where
  "LoadSecret cx f targetID s =
     (case map_of (st_files s) (secret_path s targetID) of
        None \<Rightarrow> Inr None
      | Some ciphertext \<Rightarrow>
          if ff_read_fails f then Inl ReadFails
          else (case decrypt cx s ciphertext of None \<Rightarrow> Inl DecryptFails
                | Some plaintext \<Rightarrow>
                    (case cx_unmarshalCreds cx plaintext of None \<Rightarrow> Inl UnmarshalFails
                     | Some c \<Rightarrow> Inr (Some c))))"

definition SaveSecret ::
  "crypto_codec \<Rightarrow> fs_fault \<Rightarrow> string \<Rightarrow> string \<Rightarrow> creds \<Rightarrow> store \<Rightarrow> store_error option \<times> store" where
  "SaveSecret cx f nonce targetID c s =
     (case cx_marshalCreds cx c of None \<Rightarrow> (Some MarshalFails, s)
      | Some d \<Rightarrow>
         (case encrypt cx nonce s d of None \<Rightarrow> (Some EncryptFails, s)
          | Some ct \<Rightarrow> (case write_atomic f (secret_path s targetID) ct (st_files s) of
                         (e, fs) \<Rightarrow> (e, s\<lparr>st_files := fs\<rparr>))))"

definition DeleteSecret :: "fs_fault \<Rightarrow> string \<Rightarrow> store \<Rightarrow> store_error option \<times> store" where
  "DeleteSecret f targetID s =
     (let p = secret_path s targetID
      in if map_of (st_files s) p = None then (None, s)
         else if ff_remove_fails f then (Some DeleteFails, s)
         else (None, s\<lparr>st_files := AList.delete p (st_files s)\<rparr>))"

section \<open>Mount diagnostics\<close>

fun fields_acc :: "string \<Rightarrow> string \<Rightarrow> string list" where
  "fields_acc w [] = (if w = [] then [] else [rev w])"
| "fields_acc w (c # s) =
     (if is_space c then (if w = [] then fields_acc [] s else rev w # fields_acc [] s)
      else fields_acc (c # w) s)"

definition str_fields :: "string \<Rightarrow> string list" where
  "str_fields s = fields_acc [] s"

fun best_mount :: "string \<Rightarrow> string list \<Rightarrow> string \<Rightarrow> string \<Rightarrow> string \<times> string" where
  "best_mount p [] bm bf = (bm, bf)"
| "best_mount p (line # ls) bm bf =
     (let fs = str_fields line
      in if length fs < 3 then best_mount p ls bm bf
         else if has_prefix p (fs ! 1) \<and> length (fs ! 1) > length bm
         then best_mount p ls (fs ! 1) (fs ! 2)
         else best_mount p ls bm bf)"

text \<open>\<open>mounts\<close> is the content of /proc/mounts, if it can be read.\<close>

definition detectMountType :: "string option \<Rightarrow> string \<Rightarrow> string" where
  "detectMountType mounts p =
     (case mounts of None \<Rightarrow> ''unknown (cannot read /proc/mounts)''
      | Some d \<Rightarrow>
         (case best_mount p (split_on (CHR 0x0A) d) '''' '''' of (bm, bf) \<Rightarrow>
            if bm = '''' then ''unknown''
            else if bf = ''overlay'' then ''named volume (overlay)''
            else if bm = p \<or> has_prefix p (bm @ ''/'')
            then ''bind mount ('' @ bf @ '')''
            else bf))"

section \<open>Legacy import\<close>

record legacy_config =
  lc_ConnectorToken :: string
  lc_BackendURL :: string
  lc_TargetType :: string
  lc_ProxmoxBaseURL :: string
  lc_ProxmoxUsername :: string
  lc_ProxmoxPassword :: string
  lc_ProxmoxTokenID :: string
  lc_ProxmoxTokenSecret :: string
  lc_ProxmoxNode :: string
  lc_TrueNASURL :: string
  lc_TrueNASAPIKey :: string
  lc_PollIntervalSecs :: int
  lc_InsecureSkipVerify :: bool
  lc_LogLevel :: string
  lc_TimeoutSecs :: int

definition empty_tls :: tls_config where
  "empty_tls = \<lparr>tl_InsecureSkipVerify = False, tl_CACertPath = '''', tl_ClientCertPath = '''',
     tl_ClientKeyPath = '''', tl_Policy = ''''\<rparr>"

definition empty_proxy :: proxy_config where
  "empty_proxy = \<lparr>px_HTTPProxy = '''', px_HTTPSProxy = '''', px_NoProxy = ''''\<rparr>"

definition empty_limits :: resource_limits where
  "empty_limits = \<lparr>rl_MaxMemoryMB = 0, rl_MaxResponseMB = 0, rl_TimeoutSecs = 0\<rparr>"

definition legacy_base_profile :: "string \<Rightarrow> legacy_config \<Rightarrow> target_profile" where
  "legacy_base_profile tid cfg =
     \<lparr>tp_TargetID = tid, tp_Name = ''Legacy '' @ lc_TargetType cfg @ '' target'',
      tp_TargetType = lc_TargetType cfg, tp_Mode = ''read-only'', tp_Enabled = True,
      tp_Status = TargetStatusPending, tp_Endpoint = '''', tp_TLS = empty_tls, tp_Proxy = empty_proxy,
      tp_AuthType = '''', tp_Labels = [], tp_Capabilities = [],
      tp_PollIntervalSecs = lc_PollIntervalSecs cfg, tp_ResourceLimits = empty_limits,
      tp_Paused = False, tp_MaintenanceReason = '''', tp_CredentialRef = '''',
      tp_CredentialRotationDays = 0, tp_ConfigVersion = 1, tp_UpdatedAt = zero_time,
      tp_TargetConfig = Some []\<rparr>"

definition legacy_details :: "legacy_config \<Rightarrow> target_profile \<Rightarrow> target_profile \<times> creds" where
  "legacy_details cfg p =
     (let secure = p\<lparr>tp_TLS := (tp_TLS p)\<lparr>tl_InsecureSkipVerify := lc_InsecureSkipVerify cfg\<rparr>\<rparr>
      in if lc_TargetType cfg = ''proxmox'' then
           (let (tc, cr) = (if lc_ProxmoxTokenID cfg \<noteq> ''''
                   then ([(''token_id'', VString (lc_ProxmoxTokenID cfg))],
                         [(''token_secret'', lc_ProxmoxTokenSecret cfg)])
                   else ([(''username'', VString (lc_ProxmoxUsername cfg))],
                         [(''password'', lc_ProxmoxPassword cfg)]));
                tc' = (if lc_ProxmoxNode cfg \<noteq> ''''
                       then AList.update ''node'' (VString (lc_ProxmoxNode cfg)) tc else tc)
            in (secure\<lparr>tp_Endpoint := lc_ProxmoxBaseURL cfg, tp_TargetConfig := Some tc'\<rparr>, cr))
         else if lc_TargetType cfg = ''truenas'' then
           (secure\<lparr>tp_Endpoint := lc_TrueNASURL cfg\<rparr>, [(''api_key'', lc_TrueNASAPIKey cfg)])
         else (p, []))"

text \<open>\<open>hid\<close> and \<open>tid\<close> are the two generated identifiers.\<close>

definition ImportLegacyEnvConfig :: "string \<Rightarrow> string \<Rightarrow> legacy_config \<Rightarrow> host_state \<times> creds" where
  "ImportLegacyEnvConfig hid tid cfg =
     (case legacy_details cfg (legacy_base_profile tid cfg) of (p, cr) \<Rightarrow>
       (\<lparr>hs_Identity = \<lparr>hi_HostID = hid, hi_Label = ''legacy-'' @ lc_TargetType cfg @ ''-host'',
            hi_EnrolledAt = zero_time, hi_ConnectorToken = lc_ConnectorToken cfg,
            hi_BackendURL = lc_BackendURL cfg, hi_PublicKey = ''''\<rparr>,
         hs_Config = DefaultHostConfig\<lparr>hc_InsecureSkipVerify := lc_InsecureSkipVerify cfg\<rparr>,
         hs_Targets = [p\<lparr>tp_CredentialRef := tp_TargetID p\<rparr>],
         hs_Update = \<lparr>up_CurrentVersion = '''', up_AvailableVersion = '''', up_LastCheckedAt = '''',
            up_LastUpdateAt = '''', up_RollbackVersion = '''', up_UpdatePolicy = ''''\<rparr>,
         hs_Version = 1, hs_LastSyncRevision = 0, hs_LastSyncAt = zero_time, hs_LastAckStatus = ''''\<rparr>,
        cr))"

section \<open>Paths of the store\<close>

text \<open>A clean absolute directory and a plain file name.\<close>

definition clean_dir :: "path \<Rightarrow> bool" where
  "clean_dir d = list_all (\<lambda>c. c \<noteq> '''' \<and> c \<noteq> ''.'' \<and> c \<noteq> ''..'') d"

definition plain_name :: "string \<Rightarrow> bool" where
  "plain_name n = (CHR ''/'' \<notin> set n)"

lemma clean_comps_append: "clean_dir d \<Longrightarrow> clean_comps acc (d @ cs) = clean_comps (rev d @ acc) cs"
  by (induction d arbitrary: acc) (auto simp: clean_dir_def)

lemma state_path_eq: "clean_dir (st_configDir s) \<Longrightarrow> state_path s = st_configDir s @ [''host.json.enc'']"
  by (simp add: state_path_def join_path_def clean_comps_append)

lemma enc_name_clean: "n @ ''.enc'' \<noteq> ''''" "n @ ''.enc'' \<noteq> ''.''" "n @ ''.enc'' \<noteq> ''..''"
  by (auto dest: arg_cong [where f = length])

lemma secret_path_eq:
  assumes "clean_dir (st_configDir s)" and "plain_name n"
  shows "secret_path s n = st_configDir s @ [''secrets'', n @ ''.enc'']"
proof -
  have "split_on (CHR ''/'') (n @ ''.enc'') = [n @ ''.enc'']"
    using assms(2) by (intro split_on_plain) (simp add: plain_name_def)
  moreover have "split_on (CHR ''/'') ''secrets'' = [''secrets'']" by simp
  ultimately show ?thesis
    using enc_name_clean assms(1)
    by (simp add: secret_path_def join_path_def clean_comps_append del: split_on.simps)
qed

lemma suffix_clash: "n @ ''.enc'' \<noteq> m @ ''.enc.tmp''"
proof
  assume "n @ ''.enc'' = m @ ''.enc.tmp''"
  then have "last (n @ ''.enc'') = last (m @ ''.enc.tmp'')" by simp
  then show False by simp
qed

lemma store_paths_distinct:
  assumes "clean_dir (st_configDir s)" and "plain_name n" and "plain_name m"
  shows "secret_path s n = secret_path s m \<longleftrightarrow> n = m"
    and "secret_path s n \<noteq> state_path s"
    and "tmp_path (secret_path s n) \<noteq> secret_path s m"
    and "tmp_path (secret_path s n) \<noteq> state_path s"
    and "tmp_path (state_path s) \<noteq> secret_path s m"
    and "tmp_path (state_path s) \<noteq> state_path s"
  using assms suffix_clash [of m n]
  by (simp_all add: secret_path_eq state_path_eq tmp_path_def butlast_append)

lemma write_atomic_other:
  "q \<noteq> p \<Longrightarrow> q \<noteq> tmp_path p \<Longrightarrow> map_of (snd (write_atomic f p c fs)) q = map_of fs q"
  by (auto simp: write_atomic_def write_file_def split: option.split)

lemma write_atomic_target:
  assumes "tmp_path p \<noteq> p"
  shows "map_of (snd (write_atomic f p c fs)) p =
    (if fst (write_atomic f p c fs) = None then Some c else map_of fs p)"
  using assms by (auto simp: write_atomic_def write_file_def split: option.split)

lemma write_atomic_no_fault: "fst (write_atomic no_fault p c fs) = None"
  by (simp add: write_atomic_def write_file_def no_fault_def)

lemma configDir_Save [simp]:
  "st_configDir (snd (SaveSecret cx f n t c s)) = st_configDir s"
  "st_configDir (snd (SaveState cx f n st s)) = st_configDir s"
  "st_configDir (snd (DeleteSecret f t s)) = st_configDir s"
  "st_key (snd (SaveSecret cx f n t c s)) = st_key s"
  "st_key (snd (SaveState cx f n st s)) = st_key s"
  "st_key (snd (DeleteSecret f t s)) = st_key s"
  by (simp_all add: SaveSecret_def SaveState_def DeleteSecret_def Let_def split_beta split: option.split)

lemma path_cong:
  "st_configDir s' = st_configDir s \<Longrightarrow> secret_path s' t = secret_path s t"
  "st_configDir s' = st_configDir s \<Longrightarrow> state_path s' = state_path s"
  "st_key s' = st_key s \<Longrightarrow> decrypt cx s' c = decrypt cx s c"
  by (simp_all add: secret_path_def state_path_def decrypt_def)

lemma path_files [simp]:
  "secret_path (s\<lparr>st_files := fs\<rparr>) t = secret_path s t"
  "state_path (s\<lparr>st_files := fs\<rparr>) = state_path s"
  "decrypt cx (s\<lparr>st_files := fs\<rparr>) c = decrypt cx s c"
  by (simp_all add: secret_path_def state_path_def decrypt_def)

text \<open>A load only looks at its own file.\<close>

lemma Load_cong:
  assumes "st_configDir s' = st_configDir s" and "st_key s' = st_key s"
  shows "map_of (st_files s') (secret_path s t) = map_of (st_files s) (secret_path s t) \<Longrightarrow>
         LoadSecret cx f t s' = LoadSecret cx f t s"
    and "map_of (st_files s') (state_path s) = map_of (st_files s) (state_path s) \<Longrightarrow>
         LoadState cx f s' = LoadState cx f s"
  by (simp_all add: LoadSecret_def LoadState_def path_cong(1,2) [OF assms(1)] path_cong(3) [OF assms(2)]
      split: option.split)

lemma SaveSecret_files:
  "st_files (snd (SaveSecret cx f n t c s)) = st_files s \<or>
   (\<exists>ct. st_files (snd (SaveSecret cx f n t c s)) = snd (write_atomic f (secret_path s t) ct (st_files s))
       \<and> fst (SaveSecret cx f n t c s) = fst (write_atomic f (secret_path s t) ct (st_files s)))"
  by (auto simp: SaveSecret_def split_beta split: option.split)

lemma SaveSecret_others:
  assumes "clean_dir (st_configDir s)" and "plain_name t"
  shows "plain_name u \<Longrightarrow> u \<noteq> t \<Longrightarrow> LoadSecret cx' g u (snd (SaveSecret cx f n t c s)) = LoadSecret cx' g u s"
    and "LoadState cx' g (snd (SaveSecret cx f n t c s)) = LoadState cx' g s"
proof -
  note d = store_paths_distinct [OF assms(1)]
  { assume "plain_name u" "u \<noteq> t"
    then have "secret_path s u \<noteq> secret_path s t" "secret_path s u \<noteq> tmp_path (secret_path s t)"
      using d(1) [OF \<open>plain_name u\<close> assms(2)] d(3) [OF assms(2) \<open>plain_name u\<close>] by auto
    then have "map_of (st_files (snd (SaveSecret cx f n t c s))) (secret_path s u) =
        map_of (st_files s) (secret_path s u)"
      using SaveSecret_files [of cx f n t c s] by (auto simp: write_atomic_other)
    then show "LoadSecret cx' g u (snd (SaveSecret cx f n t c s)) = LoadSecret cx' g u s"
      by (intro Load_cong) simp_all }
  have "map_of (st_files (snd (SaveSecret cx f n t c s))) (state_path s) = map_of (st_files s) (state_path s)"
    using SaveSecret_files [of cx f n t c s] d(2,4) [OF assms(2) assms(2)] by (auto simp: write_atomic_other)
  then show "LoadState cx' g (snd (SaveSecret cx f n t c s)) = LoadState cx' g s"
    by (intro Load_cong) simp_all
qed

lemma SaveSecret_failed:
  assumes "clean_dir (st_configDir s)" and "plain_name t" and "fst (SaveSecret cx f n t c s) \<noteq> None"
  shows "LoadSecret cx' g t (snd (SaveSecret cx f n t c s)) = LoadSecret cx' g t s"
proof -
  have "tmp_path (secret_path s t) \<noteq> secret_path s t" using store_paths_distinct [OF assms(1,2,2)] by blast
  then have "map_of (st_files (snd (SaveSecret cx f n t c s))) (secret_path s t) =
      map_of (st_files s) (secret_path s t)"
    using SaveSecret_files [of cx f n t c s] assms(3) by (auto simp: write_atomic_target)
  then show ?thesis by (intro Load_cong) simp_all
qed

lemma SaveSecret_saved:
  assumes "clean_dir (st_configDir s)" and "plain_name t" and "fst (SaveSecret cx f n t c s) = None"
    and "length n = nonceSize" and "\<And>k p. cx_open cx k n (cx_seal cx k n p) = Some p"
    and "cx_marshalCreds cx c = Some d" and "cx_unmarshalCreds cx d = Some c'"
  shows "LoadSecret cx no_fault t (snd (SaveSecret cx f n t c s)) = Inr (Some c')"
proof -
  have t: "tmp_path (secret_path s t) \<noteq> secret_path s t" using store_paths_distinct [OF assms(1,2,2)] by blast
  obtain ct where e: "encrypt cx n s d = Some ct"
    using assms(3,6) by (auto simp: SaveSecret_def split: option.splits)
  have w: "fst (write_atomic f (secret_path s t) ct (st_files s)) = None"
    and s': "snd (SaveSecret cx f n t c s) =
      s\<lparr>st_files := snd (write_atomic f (secret_path s t) ct (st_files s))\<rparr>"
    using assms(3,6) e by (auto simp: SaveSecret_def split_beta)
  have "decrypt cx s ct = Some d"
    using e assms(4,5) by (auto simp: encrypt_def decrypt_def split: if_splits)
  then show ?thesis
    using w t assms(7) unfolding s'
    by (simp add: LoadSecret_def write_atomic_target no_fault_def)
qed

section \<open>Properties\<close>


definition demo_codec :: crypto_codec where
  "demo_codec = \<lparr>cx_seal = (\<lambda>k n p. rev p), cx_open = (\<lambda>k n c. Some (rev c)), cx_sha256 = (\<lambda>s. replicate 32 (CHR ''k'')),
     cx_marshalState = (\<lambda>st. Some (hi_ConnectorToken (hs_Identity st))), cx_unmarshalState = (\<lambda>s. None),
     cx_marshalCreds = (\<lambda>c. Some (concat (map fst c))), cx_unmarshalCreds = (\<lambda>s. Some [(s, ''x'')])\<rparr>"

definition demo_store :: store where
  "demo_store = \<lparr>st_configDir = [''etc'', ''filterrex''], st_key = replicate 32 (CHR ''k''), st_files = []\<rparr>"


lemma clean_comps_dotdot: "clean_comps acc (d @ ''secrets'' # ''..'' # cs) = clean_comps acc (d @ cs)"
  by (induction d arbitrary: acc) auto

text \<open>The file name of a target's credentials is not checked: for the target id
  \<open>../host.json\<close> it is the file of the encrypted host state, so saving credentials for such a target
  replaces the host state, and deleting them deletes it.\<close>
theorem secret_path_escape:
  assumes "fst (SaveSecret cx no_fault n ''../host.json'' c s) = None"
  shows "secret_path s ''../host.json'' = state_path s \<and>
     (\<exists>d. cx_marshalCreds cx c = Some d \<and>
         map_of (st_files (snd (SaveSecret cx no_fault n ''../host.json'' c s))) (state_path s) =
           Some (n @ cx_seal cx (st_key s) n d)) \<and>
     LoadState cx' f (snd (DeleteSecret no_fault ''../host.json'' s)) = Inr None"
proof -
  have p: "secret_path s ''../host.json'' = state_path s"
    by (simp add: secret_path_def state_path_def join_path_def clean_comps_dotdot)
  have t: "tmp_path q \<noteq> q" for q
  proof
    assume "tmp_path q = q"
    then have "last (tmp_path q) = last q" by simp
    then show False by (simp add: tmp_path_def)
  qed
  have "\<exists>d. cx_marshalCreds cx c = Some d \<and>
         map_of (st_files (snd (SaveSecret cx no_fault n ''../host.json'' c s))) (state_path s) =
           Some (n @ cx_seal cx (st_key s) n d)"
    using assms t p
    by (auto simp: SaveSecret_def encrypt_def split_beta write_atomic_target write_atomic_no_fault
        split: option.splits if_splits)
  moreover have "LoadState cx' f (snd (DeleteSecret no_fault ''../host.json'' s)) = Inr None"
    by (simp add: LoadState_def DeleteSecret_def Let_def p no_fault_def)
  ultimately show ?thesis using p by blast
qed

theorem secret_path_escape_witness:
  "map_of (st_files (snd (SaveSecret demo_codec no_fault ''123456789012'' ''../host.json'' [(''pw'', ''x'')]
      demo_store))) [''etc'', ''filterrex'', ''host.json.enc''] = Some ''123456789012wp''"
proof -
  have "fst (SaveSecret demo_codec no_fault ''123456789012'' ''../host.json'' [(''pw'', ''x'')] demo_store) = None"
    by (simp add: SaveSecret_def demo_codec_def encrypt_def aes_key_ok_def demo_store_def split_beta
        write_atomic_no_fault)
  from secret_path_escape [OF this, of demo_codec no_fault] show ?thesis
    by (simp add: demo_codec_def demo_store_def state_path_def join_path_def)
qed

lemma fields_acc_nospace:
  "\<not> list_ex is_space w \<Longrightarrow> list_all (\<lambda>x. \<not> list_ex is_space x) (fields_acc w s)"
proof (induction s arbitrary: w)
  case Nil
  then show ?case by (simp add: list_ex_iff)
next
  case (Cons c s)
  have "\<not> list_ex is_space (rev w)" using Cons.prems by (simp add: list_ex_iff)
  then show ?case using Cons.IH [of "[]"] Cons.IH [of "c # w"] Cons.prems by simp
qed

lemma fields_nospace: "x \<in> set (str_fields s) \<Longrightarrow> \<not> list_ex is_space x"
  using fields_acc_nospace [of "[]" s] unfolding str_fields_def by (auto simp: list_all_iff)

lemma best_mount_nospace:
  "\<not> list_ex is_space bf \<Longrightarrow> \<not> list_ex is_space (snd (best_mount p ls bm bf))"
proof (induction ls arbitrary: bm bf)
  case Nil
  then show ?case by simp
next
  case (Cons l ls)
  have "\<not> length (str_fields l) < 3 \<Longrightarrow> \<not> list_ex is_space (str_fields l ! 2)"
    by (rule fields_nospace [of _ l]) simp
  with Cons show ?case by (auto simp: Let_def)
qed

text \<open>\<open>detectMountType\<close> never returns the text \<open>bind mount\<close> alone: a bind mount is always
  reported with its file system type. The check \<open>mountType == "bind mount"\<close> of the permission
  diagnostics therefore never holds and the advice for bind mounts is never printed.\<close>
theorem bind_mount_hint_unreachable: "detectMountType mounts p \<noteq> ''bind mount''"
proof (cases mounts)
  case None
  then show ?thesis by (simp add: detectMountType_def)
next
  case (Some d)
  obtain bm bf where b: "best_mount p (split_on (CHR 0x0A) d) '''' '''' = (bm, bf)" by fastforce
  have "\<not> list_ex is_space bf"
    using best_mount_nospace [of "''''" p "split_on (CHR 0x0A) d" "''''"] b by simp
  moreover have "list_ex is_space ''bind mount''" by (simp add: is_space_def char_code_def)
  ultimately have "bf \<noteq> ''bind mount''" by auto
  then show ?thesis using Some b by (auto simp: detectMountType_def)
qed

end
