(* ===== verification/Supervisor.thy ===== *)
theory Supervisor
  imports Worker Store Readiness Validation
begin

text \<open>
  The supervisor (supervisor.go). Every method holds the supervisor's mutex, so it is one function
  on \<open>supervisor\<close>; what runs in its own goroutine is a function of its own: a worker's loop
  (theory Worker), the delivery of a state-change callback (\<open>onWorkerStateChange\<close>, whose pending
  calls are the list \<open>we_notes\<close> of the shared environment) and the restart that \<open>watchdogScan\<close>
  starts. \<open>host_io\<close> is what a handler observes of the outside: clock, file system, random nonces
  and jitter, adapter factories and the backend. The package-level REST readiness registry is
  the field \<open>sv_readiness\<close>.
\<close>

section \<open>Data\<close>

record host_io =
  hx_now :: time
  hx_cx :: crypto_codec
  hx_fault :: fs_fault
  hx_nonce :: "nat \<Rightarrow> string"
  hx_post_ok :: "nat \<Rightarrow> bool"
  hx_factory_ok :: "target_profile \<Rightarrow> bool"
  hx_random :: rat

record supervisor =
  sv_store :: store
  sv_state :: "host_state option"
  sv_workers :: "(string \<times> worker) list"
  sv_adapters :: "string list"
  sv_policy :: retry_policy
  sv_env :: worker_env
  sv_localAPIURL :: string
  sv_localAPIToken :: string
  sv_targetConfigDir :: string
  sv_targetConfigSource :: string
  sv_runtimeStateDir :: string
  sv_failedRetryAt :: "(string \<times> time) list"
  sv_failedRetries :: "(string \<times> int) list"
  sv_probeReady :: "bool option"
  sv_lastDegradedLog :: time
  sv_readiness :: rest_registry

datatype sup_error = NotInitialized | SaveStateError store_error | MaxWorkersReached
  | NoAdapter | AdapterError | CredentialError store_error | AlreadyRunning
  | DuplicateTarget | SaveCredentialError store_error | TargetNotFound

abbreviation sv_targets :: "supervisor \<Rightarrow> target_profile list" where
  "sv_targets s \<equiv> (case sv_state s of None \<Rightarrow> [] | Some st \<Rightarrow> hs_Targets st)"

definition SetProbeCapabilityReadyFunc :: "bool option \<Rightarrow> supervisor \<Rightarrow> supervisor" where
  "SetProbeCapabilityReadyFunc r s = s\<lparr>sv_probeReady := r\<rparr>"

definition NewSupervisor :: "store \<Rightarrow> local_db option \<Rightarrow> supervisor" where
  "NewSupervisor st db =
     \<lparr>sv_store = st, sv_state = None, sv_workers = [], sv_adapters = [], sv_policy = DefaultRetryPolicy,
      sv_env = \<lparr>we_queue = None, we_db = db, we_metrics = NewMetricsRegistry, we_posts = [],
                we_notes = []\<rparr>,
      sv_localAPIURL = '''', sv_localAPIToken = '''', sv_targetConfigDir = '''',
      sv_targetConfigSource = '''', sv_runtimeStateDir = '''', sv_failedRetryAt = [],
      sv_failedRetries = [], sv_probeReady = None, sv_lastDegradedLog = zero_time,
      sv_readiness = []\<rparr>"

definition RegisterAdapter :: "string \<Rightarrow> supervisor \<Rightarrow> supervisor" where
  "RegisterAdapter tt s =
     s\<lparr>sv_adapters := (if tt \<in> set (sv_adapters s) then sv_adapters s else sv_adapters s @ [tt])\<rparr>"

definition SetUploadQueue :: "upload_queue option \<Rightarrow> supervisor \<Rightarrow> supervisor" where
  "SetUploadQueue q s = s\<lparr>sv_env := (sv_env s)\<lparr>we_queue := q\<rparr>\<rparr>"

definition SetLocalAPIURL :: "string \<Rightarrow> supervisor \<Rightarrow> supervisor" where
  "SetLocalAPIURL url s = s\<lparr>sv_localAPIURL := url\<rparr>"

definition SetLocalAPIToken :: "string \<Rightarrow> supervisor \<Rightarrow> supervisor" where
  "SetLocalAPIToken token s = s\<lparr>sv_localAPIToken := token\<rparr>"

definition SetTargetConfigDir :: "string \<Rightarrow> supervisor \<Rightarrow> supervisor" where
  "SetTargetConfigDir dir s = s\<lparr>sv_targetConfigDir := dir\<rparr>"

definition SetTargetConfigSource :: "string \<Rightarrow> supervisor \<Rightarrow> supervisor" where
  "SetTargetConfigSource src s = s\<lparr>sv_targetConfigSource := src\<rparr>"

definition SetRuntimeStateDir :: "string \<Rightarrow> supervisor \<Rightarrow> supervisor" where
  "SetRuntimeStateDir dir s = s\<lparr>sv_runtimeStateDir := dir\<rparr>"

section \<open>Initialization\<close>

definition empty_update_state :: update_state where
  "empty_update_state = \<lparr>up_CurrentVersion = '''', up_AvailableVersion = '''', up_LastCheckedAt = '''',
     up_LastUpdateAt = '''', up_RollbackVersion = '''', up_UpdatePolicy = ''''\<rparr>"

definition fresh_state :: "string \<Rightarrow> host_state" where
  "fresh_state hid =
     \<lparr>hs_Identity = \<lparr>hi_HostID = hid, hi_Label = ''filterrex-connector'', hi_EnrolledAt = zero_time,
          hi_ConnectorToken = '''', hi_BackendURL = '''', hi_PublicKey = ''''\<rparr>,
      hs_Config = DefaultHostConfig, hs_Targets = [], hs_Update = empty_update_state, hs_Version = 1,
      hs_LastSyncRevision = 0, hs_LastSyncAt = zero_time, hs_LastAckStatus = ''''\<rparr>"

definition save_state :: "host_io \<Rightarrow> supervisor \<Rightarrow> sup_error option \<times> supervisor" where
  "save_state io s =
     (case sv_state s of None \<Rightarrow> (None, s)
      | Some st \<Rightarrow> (case SaveState (hx_cx io) (hx_fault io) (hx_nonce io 0) st (sv_store s) of
                     (e, store') \<Rightarrow> (map_option SaveStateError e, s\<lparr>sv_store := store'\<rparr>)))"

text \<open>\<open>hid\<close> and \<open>tid\<close> are generated identifiers.\<close>

definition Initialize ::
  "host_io \<Rightarrow> string \<Rightarrow> string \<Rightarrow> legacy_config option \<Rightarrow> supervisor \<Rightarrow> sup_error option \<times> supervisor"
where
  "Initialize io hid tid legacy s =
     (let loaded = (case LoadState (hx_cx io) (hx_fault io) (sv_store s) of Inl e \<Rightarrow> None | Inr r \<Rightarrow> r)
      in case loaded of
           Some st \<Rightarrow> (None, s\<lparr>sv_state := Some st\<rparr>)
         | None \<Rightarrow>
            (case legacy of
               Some cfg \<Rightarrow>
                 if lc_ConnectorToken cfg \<noteq> '''' then
                   (case ImportLegacyEnvConfig hid tid cfg of (st, cr) \<Rightarrow>
                     (let s1 = s\<lparr>sv_state := Some st\<rparr>
                      in case hs_Targets st of
                           [] \<Rightarrow> save_state io s1
                         | t # _ \<Rightarrow>
                            (case SaveSecret (hx_cx io) (hx_fault io) (hx_nonce io 1) (tp_TargetID t) cr
                                    (sv_store s1) of
                               (Some e, store') \<Rightarrow> (Some (SaveCredentialError e), s1\<lparr>sv_store := store'\<rparr>)
                             | (None, store') \<Rightarrow> save_state io (s1\<lparr>sv_store := store'\<rparr>))))
                 else save_state io (s\<lparr>sv_state := Some (fresh_state hid)\<rparr>)
             | None \<Rightarrow> save_state io (s\<lparr>sv_state := Some (fresh_state hid)\<rparr>)))"

definition InitializeWithState :: "host_state \<Rightarrow> supervisor \<Rightarrow> supervisor" where
  "InitializeWithState st s = s\<lparr>sv_state := Some st\<rparr>"

section \<open>Starting and stopping workers\<close>

text \<open>Stop a worker and drop it from the map: only what it did to the shared environment stays.\<close>

definition stop_worker :: "host_io \<Rightarrow> string \<Rightarrow> supervisor \<Rightarrow> supervisor" where
  "stop_worker io tid s =
     (case map_of (sv_workers s) tid of None \<Rightarrow> s
      | Some w \<Rightarrow> s\<lparr>sv_env := snd (Stop (hx_post_ok io) (hx_now io) (w, sv_env s)),
                    sv_workers := AList.delete tid (sv_workers s)\<rparr>)"

definition startWorkerLocked ::
  "host_io \<Rightarrow> host_state \<Rightarrow> target_profile \<Rightarrow> supervisor \<Rightarrow> sup_error option \<times> target_profile \<times> supervisor"
where
  "startWorkerLocked io st t s =
     (if hc_MaxConcurrentWorkers (hs_Config st) > 0
         \<and> int (length (sv_workers s)) \<ge> hc_MaxConcurrentWorkers (hs_Config st)
      then (Some MaxWorkersReached, t, s)
      else if tp_TargetType t \<notin> set (sv_adapters s) then (Some NoAdapter, t, s)
      else if \<not> hx_factory_ok io t then (Some AdapterError, t, s)
      else (case LoadSecret (hx_cx io) (hx_fault io) (tp_CredentialRef t) (sv_store s) of
              Inl e \<Rightarrow> (Some (CredentialError e), t, s)
            | Inr found \<Rightarrow>
               (let w = NewWorker \<lparr>wf_Profile = t,
                          wf_Creds = (case found of None \<Rightarrow> [] | Some c \<Rightarrow> c),
                          wf_Policy = sv_policy s,
                          wf_HostToken = hi_ConnectorToken (hs_Identity st),
                          wf_LocalAPIURL = sv_localAPIURL s, wf_LocalAPIToken = sv_localAPIToken s,
                          wf_LanOnly = hc_LanOnly (hs_Config st), wf_hasOnStateChange = True\<rparr>
                in case Start (hx_now io) w of
                     None \<Rightarrow> (Some AlreadyRunning, t, s)
                   | Some w' \<Rightarrow>
                       (None, t\<lparr>tp_Status := TargetStatusActive\<rparr>,
                        s\<lparr>sv_workers := AList.update (tp_TargetID t) w' (sv_workers s)\<rparr>))))"

section \<open>Reconciliation\<close>

fun retry_doubling :: "nat \<Rightarrow> duration \<Rightarrow> duration" where
  "retry_doubling 0 b = b"
| "retry_doubling (Suc n) b = (if b < 5 * minute then retry_doubling n (b * 2) else b)"

definition failed_backoff :: "int \<Rightarrow> duration" where
  "failed_backoff retryCount =
     (let b = retry_doubling (nat (retryCount - 1)) (30 * second)
      in if b > 5 * minute then 5 * minute else b)"

definition jittered :: "rat \<Rightarrow> duration \<Rightarrow> duration" where
  "jittered r b = trunc_rat (of_int b * (8 / 10 + 4 / 10 * r))"

definition start_or_mark ::
  "host_io \<Rightarrow> host_state \<Rightarrow> target_profile \<Rightarrow> supervisor \<Rightarrow> target_profile \<times> supervisor" where
  "start_or_mark io st t s =
     (case startWorkerLocked io st t s of
        (None, t', s') \<Rightarrow> (t', s')
      | (Some e, t', s') \<Rightarrow> (t'\<lparr>tp_Status := TargetStatusError\<rparr>, s'))"

text \<open>The bookkeeping of a retry of a failed worker.\<close>

definition schedule_retry :: "host_io \<Rightarrow> string \<Rightarrow> supervisor \<Rightarrow> supervisor" where
  "schedule_retry io tid s =
     (let n = (case map_of (sv_failedRetries s) tid of None \<Rightarrow> 0 | Some k \<Rightarrow> k) + 1
      in s\<lparr>sv_failedRetries := AList.update tid n (sv_failedRetries s),
           sv_failedRetryAt := AList.update tid
             (hx_now io + jittered (hx_random io) (failed_backoff n)) (sv_failedRetryAt s)\<rparr>)"

definition too_soon :: "host_io \<Rightarrow> string \<Rightarrow> supervisor \<Rightarrow> bool" where
  "too_soon io tid s =
     (case map_of (sv_failedRetryAt s) tid of None \<Rightarrow> False | Some retryAt \<Rightarrow> hx_now io < retryAt)"

text \<open>The body of the loop over the desired targets, cases 1 to 4.\<close>

definition reconcile_target ::
  "host_io \<Rightarrow> host_state \<Rightarrow> target_profile \<Rightarrow> supervisor \<Rightarrow> target_profile \<times> supervisor" where
  "reconcile_target io st t s =
     (let tid = tp_TargetID t
      in if \<not> tp_Enabled t \<or> tp_Status t = TargetStatusRevoked then
           (t, let s1 = stop_worker io tid s in s1\<lparr>sv_readiness := DeleteReadiness tid (sv_readiness s1)\<rparr>)
         else if tp_Paused t then
           (t, case map_of (sv_workers s) tid of
                 None \<Rightarrow> s
               | Some w \<Rightarrow>
                   if wk_status w = WorkerStatusRunning
                   then (case Pause (hx_post_ok io) (hx_now io) (w, sv_env s) of
                           (w', e') \<Rightarrow> s\<lparr>sv_env := e', sv_workers := AList.update tid w' (sv_workers s)\<rparr>)
                   else s)
         else (case map_of (sv_workers s) tid of
                 None \<Rightarrow> start_or_mark io st t s
               | Some w \<Rightarrow>
                   if wk_status w = WorkerStatusFailed then
                     (if too_soon io tid s then (t, s)
                      else start_or_mark io st t (schedule_retry io tid (stop_worker io tid s)))
                   else (t, s\<lparr>sv_failedRetryAt := AList.delete tid (sv_failedRetryAt s),
                              sv_failedRetries := AList.delete tid (sv_failedRetries s)\<rparr>)))"

fun reconcile_targets ::
  "host_io \<Rightarrow> host_state \<Rightarrow> target_profile list \<Rightarrow> supervisor \<Rightarrow> target_profile list \<times> supervisor" where
  "reconcile_targets io st [] s = ([], s)"
| "reconcile_targets io st (t # ts) s =
     (case reconcile_target io st t s of (t', s1) \<Rightarrow>
       (case reconcile_targets io st ts s1 of (ts', s2) \<Rightarrow> (t' # ts', s2)))"

text \<open>Case 5: workers of targets that are no longer desired.\<close>

fun stop_orphans :: "host_io \<Rightarrow> string list \<Rightarrow> string list \<Rightarrow> supervisor \<Rightarrow> supervisor" where
  "stop_orphans io desired [] s = s"
| "stop_orphans io desired (k # ks) s =
     stop_orphans io desired ks
       (if k \<in> set desired then s
        else let s1 = stop_worker io k s in s1\<lparr>sv_readiness := DeleteReadiness k (sv_readiness s1)\<rparr>)"

definition Reconcile :: "host_io \<Rightarrow> supervisor \<Rightarrow> sup_error option \<times> supervisor" where
  "Reconcile io s =
     (case sv_state s of None \<Rightarrow> (Some NotInitialized, s)
      | Some st \<Rightarrow>
         (case reconcile_targets io st (hs_Targets st) s of (ts', s1) \<Rightarrow>
           (let s2 = s1\<lparr>sv_state := Some (st\<lparr>hs_Targets := ts'\<rparr>)\<rparr>;
                s3 = stop_orphans io (map tp_TargetID (hs_Targets st)) (map fst (sv_workers s2)) s2
            in save_state io s3)))"

text \<open>A state-change callback, delivered: the first target with the id is updated.\<close>

fun update_first :: "string \<Rightarrow> (target_profile \<Rightarrow> target_profile) \<Rightarrow> target_profile list \<Rightarrow> target_profile list" where
  "update_first tid f [] = []"
| "update_first tid f (t # ts) = (if tp_TargetID t = tid then f t # ts else t # update_first tid f ts)"

definition status_after :: "worker_status \<Rightarrow> target_profile \<Rightarrow> target_profile" where
  "status_after status t =
     (if status = WorkerStatusDegraded then t\<lparr>tp_Status := TargetStatusDegraded\<rparr>
      else if status = WorkerStatusRunning then t\<lparr>tp_Status := TargetStatusActive\<rparr>
      else if status = WorkerStatusStopped
      then (if tp_Status t \<noteq> TargetStatusPaused then t\<lparr>tp_Status := TargetStatusActive\<rparr> else t)
      else if status = WorkerStatusFailed then t\<lparr>tp_Status := TargetStatusError\<rparr>
      else t)"

definition onWorkerStateChange :: "string \<Rightarrow> worker_status \<Rightarrow> supervisor \<Rightarrow> supervisor" where
  "onWorkerStateChange tid status s =
     (case sv_state s of None \<Rightarrow> s
      | Some st \<Rightarrow>
         if tid \<notin> tp_TargetID ` set (hs_Targets st) then s
         else let s1 = s\<lparr>sv_state := Some (st\<lparr>hs_Targets := update_first tid (status_after status) (hs_Targets st)\<rparr>)\<rparr>
              in if status = WorkerStatusRunning
                 then s1\<lparr>sv_failedRetryAt := AList.delete tid (sv_failedRetryAt s1),
                         sv_failedRetries := AList.delete tid (sv_failedRetries s1)\<rparr>
                 else s1)"

section \<open>Targets\<close>

definition AddTarget ::
  "host_io \<Rightarrow> target_profile \<Rightarrow> creds \<Rightarrow> supervisor \<Rightarrow> sup_error option \<times> supervisor" where
  "AddTarget io profile cr s =
     (case sv_state s of None \<Rightarrow> (Some NotInitialized, s)
      | Some st \<Rightarrow>
         if list_ex (\<lambda>t. tp_TargetID t = tp_TargetID profile) (hs_Targets st) then (Some DuplicateTarget, s)
         else
           (let (err, store') = (if cr \<noteq> []
                  then SaveSecret (hx_cx io) (hx_fault io) (hx_nonce io 1) (tp_CredentialRef profile) cr (sv_store s)
                  else (None, sv_store s));
                s1 = s\<lparr>sv_store := store'\<rparr>
            in case err of
                 Some e \<Rightarrow> (Some (SaveCredentialError e), s1)
               | None \<Rightarrow>
                   (let p = profile\<lparr>tp_UpdatedAt := hx_now io,
                              tp_Status := (if tp_Status profile = '''' then TargetStatusPending
                                            else tp_Status profile)\<rparr>
                    in Reconcile io (s1\<lparr>sv_state := Some (st\<lparr>hs_Targets := hs_Targets st @ [p]\<rparr>)\<rparr>))))"

text \<open>The profile \<open>UpdateTarget\<close> stores in place of the current one.\<close>

definition updated_profile :: "time \<Rightarrow> target_profile \<Rightarrow> target_profile \<Rightarrow> target_profile" where
  "updated_profile now profile current =
     profile\<lparr>tp_CredentialRef := (if tp_CredentialRef profile = '''' then tp_CredentialRef current
                                  else tp_CredentialRef profile),
             tp_Status := (if tp_Status profile = TargetStatusError \<or> tp_Status profile = TargetStatusPaused
                              \<or> tp_Status profile = TargetStatusDegraded
                           then TargetStatusPending else tp_Status profile),
             tp_Paused := False, tp_UpdatedAt := now\<rparr>"

definition UpdateTarget ::
  "host_io \<Rightarrow> target_profile \<Rightarrow> supervisor \<Rightarrow> sup_error option \<times> supervisor" where
  "UpdateTarget io profile s =
     (case sv_state s of None \<Rightarrow> (Some NotInitialized, s)
      | Some st \<Rightarrow>
         (let tid = tp_TargetID profile
          in if tid \<notin> tp_TargetID ` set (hs_Targets st) then (Some TargetNotFound, s)
             else let s1 = stop_worker io tid s
                  in Reconcile io
                       (s1\<lparr>sv_failedRetryAt := AList.delete tid (sv_failedRetryAt s1),
                           sv_failedRetries := AList.delete tid (sv_failedRetries s1),
                           sv_state := Some (st\<lparr>hs_Targets :=
                             update_first tid (updated_profile (hx_now io) profile) (hs_Targets st)\<rparr>)\<rparr>)))"

fun remove_first :: "string \<Rightarrow> target_profile list \<Rightarrow> target_profile list" where
  "remove_first tid [] = []"
| "remove_first tid (t # ts) = (if tp_TargetID t = tid then ts else t # remove_first tid ts)"

definition RemoveTarget :: "host_io \<Rightarrow> string \<Rightarrow> supervisor \<Rightarrow> sup_error option \<times> supervisor" where
  "RemoveTarget io tid s =
     (case sv_state s of None \<Rightarrow> (Some NotInitialized, s)
      | Some st \<Rightarrow>
         (let s1 = stop_worker io tid s
          in case find (\<lambda>t. tp_TargetID t = tid) (hs_Targets st) of
               None \<Rightarrow> (Some TargetNotFound, s1)
             | Some t \<Rightarrow>
                 (let s2 = s1\<lparr>sv_state := Some (st\<lparr>hs_Targets := remove_first tid (hs_Targets st)\<rparr>)\<rparr>;
                      s3 = (if tp_CredentialRef t \<noteq> ''''
                            then s2\<lparr>sv_store := snd (DeleteSecret (hx_fault io) (tp_CredentialRef t) (sv_store s2))\<rparr>
                            else s2)
                  in save_state io s3)))"

definition GetConnectorToken :: "supervisor \<Rightarrow> string" where
  "GetConnectorToken s =
     (case sv_state s of None \<Rightarrow> '''' | Some st \<Rightarrow> hi_ConnectorToken (hs_Identity st))"

definition GetTargets :: "supervisor \<Rightarrow> target_profile list" where
  "GetTargets s = (case sv_state s of None \<Rightarrow> [] | Some st \<Rightarrow> hs_Targets st)"

definition FindTarget :: "string \<Rightarrow> supervisor \<Rightarrow> target_profile option" where
  "FindTarget tid s =
     (case sv_state s of None \<Rightarrow> None | Some st \<Rightarrow> find (\<lambda>t. tp_TargetID t = tid) (hs_Targets st))"

definition SupervisorStatus :: "supervisor \<Rightarrow> worker_state list" where
  "SupervisorStatus s = map (\<lambda>p. wk_state (snd p)) (sv_workers s)"

fun heartbeat_all ::
  "host_io \<Rightarrow> (string \<times> worker) list \<Rightarrow> worker_env \<Rightarrow> (string \<times> worker) list \<times> worker_env" where
  "heartbeat_all io [] e = ([], e)"
| "heartbeat_all io ((k, w) # ws) e =
     (case sendHeartbeat (hx_post_ok io) (hx_now io) (w, e) of (w', e1) \<Rightarrow>
       (case heartbeat_all io ws e1 of (ws', e2) \<Rightarrow> ((k, w') # ws', e2)))"

definition BroadcastHeartbeat :: "host_io \<Rightarrow> supervisor \<Rightarrow> supervisor" where
  "BroadcastHeartbeat io s =
     (case heartbeat_all io (sv_workers s) (sv_env s) of
        (ws, e) \<Rightarrow> s\<lparr>sv_workers := ws, sv_env := e\<rparr>)"

definition SupervisorSetLanOnly :: "bool \<Rightarrow> supervisor \<Rightarrow> supervisor" where
  "SupervisorSetLanOnly v s = s\<lparr>sv_workers := map (\<lambda>(k, w). (k, SetLanOnly v w)) (sv_workers s)\<rparr>"

record health_summary =
  hl_total_workers :: nat
  hl_by_status :: "(string \<times> nat) list"
  hl_total_restarts :: int
  hl_scanned_at :: time

fun count_statuses :: "worker_state list \<Rightarrow> (string \<times> nat) list \<Rightarrow> (string \<times> nat) list" where
  "count_statuses [] m = m"
| "count_statuses (ws # wss) m =
     (let k = worker_status_string (ws_Status ws);
          n = (case map_of m k of None \<Rightarrow> 0 | Some n \<Rightarrow> n)
      in count_statuses wss (AList.update k (Suc n) m))"

definition AgentHealthSummary :: "time \<Rightarrow> supervisor \<Rightarrow> health_summary" where
  "AgentHealthSummary now s =
     \<lparr>hl_total_workers = length (sv_workers s), hl_by_status = count_statuses (SupervisorStatus s) [],
      hl_total_restarts = sum_list (map ws_RestartCount (SupervisorStatus s)), hl_scanned_at = now\<rparr>"

fun stop_all :: "host_io \<Rightarrow> (string \<times> worker) list \<Rightarrow> worker_env \<Rightarrow> worker_env" where
  "stop_all io [] e = e"
| "stop_all io ((k, w) # ws) e = stop_all io ws (snd (Stop (hx_post_ok io) (hx_now io) (w, e)))"

definition Shutdown :: "host_io \<Rightarrow> supervisor \<Rightarrow> supervisor" where
  "Shutdown io s =
     snd (save_state io (s\<lparr>sv_env := stop_all io (sv_workers s) (sv_env s), sv_workers := []\<rparr>))"

text \<open>One tick of \<open>RunLocalReconcile\<close>.\<close>

definition local_reconcile_tick :: "host_io \<Rightarrow> supervisor \<Rightarrow> supervisor" where
  "local_reconcile_tick io s =
     (if list_ex (\<lambda>p. wk_status (snd p) = WorkerStatusFailed) (sv_workers s)
      then (case Reconcile io s of
              (Some e, s') \<Rightarrow> s' | (None, s') \<Rightarrow> BroadcastHeartbeat io s')
      else s)"

section \<open>Watchdog\<close>

definition stageThresholds :: "string \<Rightarrow> duration \<times> duration" where
  "stageThresholds stage =
     (if stage = ''connect'' \<or> stage = ''upload'' then (90 * second, 3 * minute)
      else if stage = ''fetch'' \<or> stage = ''parse'' then (3 * minute, 8 * minute)
      else (2 * minute, 5 * minute))"

datatype watchdog_verdict = WdSkip | WdHealthy | WdSuspect | WdEscalate | WdRestart

definition maxRestartsInWindow :: int where "maxRestartsInWindow = 3"
definition restartWindow :: duration where "restartWindow = 30 * minute"

definition watchdog_decide :: "time \<Rightarrow> worker_state \<Rightarrow> watchdog_verdict" where
  "watchdog_decide now ws =
     (if ws_Status ws = WorkerStatusStopped \<or> ws_Status ws = WorkerStatusPaused
         \<or> ws_Status ws = WorkerStatusFailed then WdSkip
      else if (ws_Status ws = WorkerStatusIdle \<or> ws_CurrentStage ws = ''sleep'')
              \<and> ws_NextScheduledAt ws \<noteq> zero_time \<and> now < ws_NextScheduledAt ws + 120 * second then WdSkip
      else if ws_LastProgressAt ws = zero_time \<and> time_sub now (ws_StartedAt ws) < 60 * second then WdSkip
      else (case stageThresholds (ws_CurrentStage ws) of (soft, hard) \<Rightarrow>
             (let age = time_sub now (ws_LastProgressAt ws)
              in if age < soft then WdHealthy
                 else if age < hard then WdSuspect
                 else if ws_RestartCount ws \<ge> maxRestartsInWindow \<and> ws_LastRestartAt ws \<noteq> zero_time
                         \<and> time_sub now (ws_LastRestartAt ws) < restartWindow
                 then WdEscalate else WdRestart)))"

definition watchdog_apply ::
  "host_io \<Rightarrow> worker \<times> worker_env \<Rightarrow> worker \<times> worker_env" where
  "watchdog_apply io we =
     (case watchdog_decide (hx_now io) (wk_state (fst we)) of
        WdSuspect \<Rightarrow> if wk_status (fst we) = WorkerStatusRunning
                     then setStatus (hx_post_ok io) (hx_now io) WorkerStatusDegraded we else we
      | WdEscalate \<Rightarrow> sendHeartbeat (hx_post_ok io) (hx_now io)
                       (setStatus (hx_post_ok io) (hx_now io) WorkerStatusFailed we)
      | WdRestart \<Rightarrow> sendHeartbeat (hx_post_ok io) (hx_now io)
                      (setStatus (hx_post_ok io) (hx_now io) WorkerStatusStuck we)
      | _ \<Rightarrow> we)"

text \<open>The scan also returns the ids whose restart it starts in a goroutine.\<close>

fun watchdog_workers ::
  "host_io \<Rightarrow> (string \<times> worker) list \<Rightarrow> worker_env
   \<Rightarrow> string list \<times> (string \<times> worker) list \<times> worker_env" where
  "watchdog_workers io [] e = ([], [], e)"
| "watchdog_workers io ((k, w) # ws) e =
     (case watchdog_apply io (w, e) of (w', e1) \<Rightarrow>
       (case watchdog_workers io ws e1 of (rs, ws', e2) \<Rightarrow>
         (if watchdog_decide (hx_now io) (wk_state w) = WdRestart then k # rs else rs, (k, w') # ws', e2)))"

definition unhealthy_status :: "worker_status \<Rightarrow> bool" where
  "unhealthy_status st =
     (st = WorkerStatusDegraded \<or> st = WorkerStatusStuck \<or> st = WorkerStatusFailed)"

definition watchdogScan :: "host_io \<Rightarrow> supervisor \<Rightarrow> string list \<times> supervisor" where
  "watchdogScan io s =
     (case watchdog_workers io (sv_workers s) (sv_env s) of (rs, ws, e) \<Rightarrow>
       (let s1 = s\<lparr>sv_workers := ws, sv_env := e\<rparr>;
            total = length ws;
            unhealthy = length (filter (\<lambda>p. unhealthy_status (wk_status (snd p))) ws)
        in if total = 0 then (rs, s1)
           else if (of_nat unhealthy / of_nat total :: rat) \<ge> 40 / 100
                   \<and> time_sub (hx_now io) (sv_lastDegradedLog s1) > 5 * minute
           then (rs, s1\<lparr>sv_lastDegradedLog := hx_now io\<rparr>)
           else (rs, s1)))"

text \<open>The restart goroutine works on the worker it was given.\<close>

definition watchdog_restart :: "host_io \<Rightarrow> string \<Rightarrow> supervisor \<Rightarrow> supervisor" where
  "watchdog_restart io tid s =
     (case map_of (sv_workers s) tid of None \<Rightarrow> s
      | Some w \<Rightarrow>
         (case Restart (hx_post_ok io) (hx_now io) (w, sv_env s) of
            (None, e) \<Rightarrow> s\<lparr>sv_env := e\<rparr>
          | (Some w', e) \<Rightarrow> s\<lparr>sv_env := e, sv_workers := AList.update tid w' (sv_workers s)\<rparr>))"

section \<open>Capability manifest\<close>

record adapter_capability_info =
  ac_TargetType :: string
  ac_Capabilities :: "string list"
  ac_OpsSupported :: bool

record capability_status_info =
  ci_Enabled :: bool
  ci_ConfigurationState :: string
  ci_ReadyTargetProfileIDs :: "string list"
  ci_PerTarget :: "(string \<times> per_target_readiness) list"
  ci_Reason :: string

record capability_manifest =
  mf_AgentVersion :: string
  mf_SupportedAdapters :: "adapter_capability_info list"
  mf_UpdatePolicy :: string
  mf_OpsEnabledRuntime :: bool
  mf_Capabilities :: "string list"
  mf_CapabilityStatus :: "(string \<times> capability_status_info) list"

definition CapabilityCollectBrocadeEvidenceBundleV1 :: string where
  "CapabilityCollectBrocadeEvidenceBundleV1 = ''collect_brocade_evidence_bundle_v1''"

definition CapabilityProbeBrocadeSshReadinessV1 :: string where
  "CapabilityProbeBrocadeSshReadinessV1 = ''probe_brocade_ssh_readiness_v1''"

definition blocked_readiness :: per_target_readiness where
  "blocked_readiness = zero_readiness\<lparr>pt_RESTReady := False, pt_RESTReason := ''lan_only_mode''\<rparr>"

fun blocked_targets ::
  "target_profile list \<Rightarrow> (string \<times> per_target_readiness) list \<Rightarrow> (string \<times> per_target_readiness) list"
where
  "blocked_targets [] m = m"
| "blocked_targets (t # ts) m =
     (let tt = to_lower (tp_TargetType t)
      in if tt \<noteq> ''brocade'' \<and> tt \<noteq> ''brocade-fos'' then blocked_targets ts m
         else blocked_targets ts (AList.update (tp_TargetID t) blocked_readiness m))"

text \<open>\<open>caps\<close> gives the capabilities of a registered adapter (\<open>None\<close> when its factory fails),
  \<open>status\<close> is the result of \<open>evaluateBrocadeCapabilityStatus\<close> and \<open>ssh\<close> the persisted SSH
  readiness that \<open>LoadSSHReadinessSnapshotWithRuntime\<close> returns.\<close>

definition BuildCapabilityManifest ::
  "(string \<Rightarrow> string list option) \<Rightarrow> (bool \<Rightarrow> capability_status_info) \<Rightarrow> (string \<times> ssh_snapshot) list
   \<Rightarrow> (string \<Rightarrow> time option) \<Rightarrow> time \<Rightarrow> supervisor \<Rightarrow> capability_manifest" where
  "BuildCapabilityManifest caps status ssh parse now s =
     (let adapters = map (\<lambda>tt. \<lparr>ac_TargetType = tt,
              ac_Capabilities = (case caps tt of None \<Rightarrow> [] | Some c \<Rightarrow> c), ac_OpsSupported = False\<rparr>)
            (sv_adapters s);
          updatePolicy = (case sv_state s of None \<Rightarrow> ''none''
             | Some st \<Rightarrow> if up_UpdatePolicy (hs_Update st) \<noteq> '''' then up_UpdatePolicy (hs_Update st)
                         else ''none'');
          lanOnly = (case sv_state s of None \<Rightarrow> False | Some st \<Rightarrow> hc_LanOnly (hs_Config st));
          binaryCaps = [CapabilityCollectBrocadeEvidenceBundleV1] @
            (if sv_probeReady s = Some True \<and> \<not> lanOnly then [CapabilityProbeBrocadeSshReadinessV1] else []);
          perTarget = (if lanOnly then blocked_targets (sv_targets s) []
            else let rest = (case Snapshot now (sv_readiness s) of None \<Rightarrow> [] | Some m \<Rightarrow> m);
                     sshSnap = (if sv_targetConfigDir s \<noteq> '''' then ssh else [])
                 in case mergeBrocadePerTargetReadiness parse rest sshSnap now of None \<Rightarrow> [] | Some m \<Rightarrow> m);
          brocade = (status lanOnly)\<lparr>ci_PerTarget := perTarget\<rparr>
      in \<lparr>mf_AgentVersion = HostVersion, mf_SupportedAdapters = adapters, mf_UpdatePolicy = updatePolicy,
          mf_OpsEnabledRuntime = False, mf_Capabilities = binaryCaps,
          mf_CapabilityStatus = [(CapabilityCollectBrocadeEvidenceBundleV1, brocade)]\<rparr>)"

section \<open>Frame lemmas\<close>

lemma save_state_frame [simp]:
  "sv_state (snd (save_state io s)) = sv_state s"
  "sv_workers (snd (save_state io s)) = sv_workers s"
  "sv_readiness (snd (save_state io s)) = sv_readiness s"
  "sv_env (snd (save_state io s)) = sv_env s"
  "sv_adapters (snd (save_state io s)) = sv_adapters s"
  "sv_failedRetryAt (snd (save_state io s)) = sv_failedRetryAt s"
  by (simp_all add: save_state_def split_beta split: option.split)

lemma stop_worker_frame [simp]:
  "sv_state (stop_worker io tid s) = sv_state s"
  "sv_workers (stop_worker io tid s) = AList.delete tid (sv_workers s)"
  "sv_store (stop_worker io tid s) = sv_store s"
  "sv_adapters (stop_worker io tid s) = sv_adapters s"
  "sv_readiness (stop_worker io tid s) = sv_readiness s"
  "sv_failedRetryAt (stop_worker io tid s) = sv_failedRetryAt s"
  "sv_failedRetries (stop_worker io tid s) = sv_failedRetries s"
  "sv_policy (stop_worker io tid s) = sv_policy s"
  by (auto simp: stop_worker_def delete_idem map_of_eq_None_iff split: option.split)

lemma schedule_retry_frame [simp]:
  "sv_state (schedule_retry io tid s) = sv_state s"
  "sv_workers (schedule_retry io tid s) = sv_workers s"
  "sv_store (schedule_retry io tid s) = sv_store s"
  "sv_adapters (schedule_retry io tid s) = sv_adapters s"
  "sv_readiness (schedule_retry io tid s) = sv_readiness s"
  by (simp_all add: schedule_retry_def Let_def)

lemma startWorkerLocked_cases:
  assumes "startWorkerLocked io st t s = (e, t', s')"
  obtains (failed) x where "e = Some x" "t' = t" "s' = s"
  | (started) w where "e = None" "t' = t\<lparr>tp_Status := TargetStatusActive\<rparr>"
      "s' = s\<lparr>sv_workers := AList.update (tp_TargetID t) w (sv_workers s)\<rparr>"
      "wk_profile w = t" "wk_live w" "wk_status w = WorkerStatusStarting"
      "wk_lanOnly w = hc_LanOnly (hs_Config st)" "wk_hasOnStateChange w"
      "hc_MaxConcurrentWorkers (hs_Config st) \<le> 0 \<or>
       int (length (sv_workers s)) < hc_MaxConcurrentWorkers (hs_Config st)"
  using assms
  by (auto simp: startWorkerLocked_def Let_def NewWorker_def Start_def zero_worker_state_def
      split: if_splits sum.splits)

text \<open>When nothing stands in the way, a start succeeds.\<close>

definition can_start :: "host_io \<Rightarrow> host_state \<Rightarrow> store \<Rightarrow> string list \<Rightarrow> target_profile \<Rightarrow> bool" where
  "can_start io st store adapters t =
     (hc_MaxConcurrentWorkers (hs_Config st) \<le> 0 \<and> tp_TargetType t \<in> set adapters \<and> hx_factory_ok io t
      \<and> (case LoadSecret (hx_cx io) (hx_fault io) (tp_CredentialRef t) store of Inl e \<Rightarrow> False | Inr r \<Rightarrow> True))"

lemma startWorkerLocked_ok:
  "can_start io st (sv_store s) (sv_adapters s) t \<Longrightarrow> fst (startWorkerLocked io st t s) = None"
  by (auto simp: can_start_def startWorkerLocked_def Let_def NewWorker_def Start_def zero_worker_state_def
      split: sum.splits)

definition wanted :: "target_profile \<Rightarrow> bool" where
  "wanted t = (tp_Enabled t \<and> tp_Status t \<noteq> TargetStatusRevoked)"

abbreviation worker_of :: "supervisor \<Rightarrow> string \<Rightarrow> worker option" where
  "worker_of s k \<equiv> map_of (sv_workers s) k"

definition workers_ok :: "supervisor \<Rightarrow> bool" where
  "workers_ok s = (distinct (map fst (sv_workers s)) \<and>
     list_all (\<lambda>p. tp_TargetID (wk_profile (snd p)) = fst p) (sv_workers s))"

lemma keys_AList_delete: "fst ` set (AList.delete k xs) = fst ` set xs - {k}"
  using arg_cong [OF delete_keys [of k xs], of set] by simp

lemma list_all_AList_update: "list_all P xs \<Longrightarrow> P (k, v) \<Longrightarrow> list_all P (AList.update k v xs)"
  by (induction xs) auto

lemma list_all_AList_delete: "list_all P xs \<Longrightarrow> list_all P (AList.delete k xs)"
  by (auto simp: list_all_iff AList.delete_eq)

lemma workers_ok_update:
  "workers_ok s \<Longrightarrow> tp_TargetID (wk_profile w) = k \<Longrightarrow> sv_workers s' = AList.update k w (sv_workers s) \<Longrightarrow>
   workers_ok s'"
  by (simp add: workers_ok_def distinct_update list_all_AList_update)

lemma workers_ok_delete:
  "workers_ok s \<Longrightarrow> sv_workers s' = AList.delete k (sv_workers s) \<Longrightarrow> workers_ok s'"
  by (simp add: workers_ok_def distinct_delete list_all_AList_delete)

lemma workers_ok_same: "workers_ok s \<Longrightarrow> sv_workers s' = sv_workers s \<Longrightarrow> workers_ok s'"
  by (simp add: workers_ok_def)

lemma workers_ok_lookup: "workers_ok s \<Longrightarrow> worker_of s k = Some w \<Longrightarrow> tp_TargetID (wk_profile w) = k"
  by (auto simp: workers_ok_def list_all_iff dest: map_of_SomeD)

text \<open>A step of the reconciler that concerns one target only.\<close>

definition only_touches :: "string \<Rightarrow> supervisor \<Rightarrow> supervisor \<Rightarrow> bool" where
  "only_touches tid s s' =
     (sv_state s' = sv_state s \<and> sv_store s' = sv_store s \<and> sv_adapters s' = sv_adapters s \<and>
      (\<forall>k. k \<noteq> tid \<longrightarrow> worker_of s' k = worker_of s k) \<and> (workers_ok s \<longrightarrow> workers_ok s'))"

lemma only_touches_refl: "only_touches tid s s"
  by (simp add: only_touches_def)

lemma only_touches_trans: "only_touches tid a b \<Longrightarrow> only_touches tid b c \<Longrightarrow> only_touches tid a c"
  by (simp add: only_touches_def)

lemma only_touches_stop: "only_touches tid s (stop_worker io tid s)"
  by (auto simp: only_touches_def intro: workers_ok_delete)

lemma only_touches_book:
  "sv_state s' = sv_state s \<Longrightarrow> sv_store s' = sv_store s \<Longrightarrow> sv_adapters s' = sv_adapters s \<Longrightarrow>
   sv_workers s' = sv_workers s \<Longrightarrow> only_touches tid s s'"
  by (auto simp: only_touches_def intro: workers_ok_same)

lemma only_touches_update:
  assumes "tp_TargetID (wk_profile w) = tid" and "sv_workers s' = AList.update tid w (sv_workers s)"
    and "sv_state s' = sv_state s" "sv_store s' = sv_store s" "sv_adapters s' = sv_adapters s"
  shows "only_touches tid s s'"
  using assms by (auto simp: only_touches_def intro: workers_ok_update)

lemma start_or_mark_touches:
  assumes "start_or_mark io st t s = (t', s')"
  shows "only_touches (tp_TargetID t) s s'"
proof -
  obtain e u r where c: "startWorkerLocked io st t s = (e, u, r)" by (cases "startWorkerLocked io st t s") auto
  then show ?thesis
  proof (cases rule: startWorkerLocked_cases)
    case (failed x)
    with assms c have "s' = s" by (auto simp: start_or_mark_def)
    then show ?thesis by (simp add: only_touches_refl)
  next
    case (started w)
    with assms c have "s' = r" by (simp add: start_or_mark_def)
    with started show ?thesis by (intro only_touches_update [of w]) simp_all
  qed
qed

lemma start_or_mark_target:
  assumes "start_or_mark io st t s = (t', s')"
  shows "\<exists>x. t' = t\<lparr>tp_Status := x\<rparr> \<and> x \<noteq> TargetStatusRevoked"
proof -
  obtain e u r where c: "startWorkerLocked io st t s = (e, u, r)" by (cases "startWorkerLocked io st t s") auto
  then show ?thesis
  proof (cases rule: startWorkerLocked_cases)
    case (failed x)
    with assms c have "t' = t\<lparr>tp_Status := TargetStatusError\<rparr>" by (auto simp: start_or_mark_def)
    then show ?thesis by (intro exI [of _ TargetStatusError]) (simp add: target_status_defs)
  next
    case (started w)
    with assms c have "t' = t\<lparr>tp_Status := TargetStatusActive\<rparr>" by (simp add: start_or_mark_def)
    then show ?thesis by (intro exI [of _ TargetStatusActive]) (simp add: target_status_defs)
  qed
qed

lemma start_or_mark_starts:
  assumes "start_or_mark io st t s = (t', s')" and "can_start io st (sv_store s) (sv_adapters s) t"
  shows "\<exists>w. worker_of s' (tp_TargetID t) = Some w \<and> wk_profile w = t \<and> wk_live w"
proof -
  obtain e u r where c: "startWorkerLocked io st t s = (e, u, r)" by (cases "startWorkerLocked io st t s") auto
  have e: "e = None" using startWorkerLocked_ok [OF assms(2)] c by simp
  from c show ?thesis
  proof (cases rule: startWorkerLocked_cases)
    case (failed x)
    with e show ?thesis by simp
  next
    case (started w)
    have "s' = r" using assms(1) c started(1) by (simp add: start_or_mark_def)
    then show ?thesis using started(3-5) by simp
  qed
qed

lemma start_or_mark_limit:
  assumes "start_or_mark io st t s = (t', s')" and "hc_MaxConcurrentWorkers (hs_Config st) > 0"
  shows "int (length (sv_workers s')) \<le> max (int (length (sv_workers s))) (hc_MaxConcurrentWorkers (hs_Config st))"
proof -
  obtain e u r where c: "startWorkerLocked io st t s = (e, u, r)" by (cases "startWorkerLocked io st t s") auto
  then show ?thesis
  proof (cases rule: startWorkerLocked_cases)
    case (failed x)
    with assms c have "s' = s" by (auto simp: start_or_mark_def)
    then show ?thesis by simp
  next
    case (started w)
    have "s' = r" using assms(1) c started(1) by (simp add: start_or_mark_def)
    then have "sv_workers s' = AList.update (tp_TargetID t) w (sv_workers s)" using started(3) by simp
    then have "length (sv_workers s') \<le> Suc (length (sv_workers s))" using length_AList_update by metis
    with started(9) assms(2) show ?thesis by linarith
  qed
qed

lemma Pause_profile [simp]: "wk_profile (fst (Pause post_ok now we)) = wk_profile (fst we)"
  by (cases we) (simp add: Pause_def run_exit_def)

lemma reconcile_target_touches:
  assumes "reconcile_target io st t s = (t', s')" and "workers_ok s"
  shows "only_touches (tp_TargetID t) s s'"
proof -
  let ?tid = "tp_TargetID t"
  have stop: "only_touches ?tid s (f (stop_worker io ?tid s))"
    if "\<And>x. only_touches ?tid x (f x)" for f
    using only_touches_trans [OF only_touches_stop that] .
  consider (off) "\<not> wanted t" | (paused) "wanted t" "tp_Paused t" | (run) "wanted t" "\<not> tp_Paused t" by blast
  then show ?thesis
  proof cases
    case off
    then have "s' = (\<lambda>x. x\<lparr>sv_readiness := DeleteReadiness ?tid (sv_readiness x)\<rparr>) (stop_worker io ?tid s)"
      using assms(1) by (auto simp: reconcile_target_def wanted_def Let_def)
    then show ?thesis using stop by (simp add: only_touches_book)
  next
    case paused
    have upd: "only_touches ?tid s (s\<lparr>sv_env := snd (Pause (hx_post_ok io) (hx_now io) (w, sv_env s)),
        sv_workers := AList.update ?tid (fst (Pause (hx_post_ok io) (hx_now io) (w, sv_env s))) (sv_workers s)\<rparr>)"
      if "worker_of s ?tid = Some w" for w
      using workers_ok_lookup [OF assms(2) that]
      by (intro only_touches_update [of "fst (Pause (hx_post_ok io) (hx_now io) (w, sv_env s))"]) simp_all
    show ?thesis
      using assms(1) paused upd
      by (auto simp: reconcile_target_def wanted_def Let_def split_beta only_touches_refl
          split: option.splits if_splits)
  next
    case run
    show ?thesis
    proof (cases "worker_of s ?tid")
      case None
      then have "start_or_mark io st t s = (t', s')"
        using run assms(1) by (simp add: reconcile_target_def wanted_def Let_def)
      then show ?thesis by (rule start_or_mark_touches)
    next
      case (Some w)
      have retry: "only_touches ?tid s s'"
        if "start_or_mark io st t (schedule_retry io ?tid (stop_worker io ?tid s)) = (t', s')"
        using only_touches_trans [OF stop [of "schedule_retry io ?tid"] start_or_mark_touches [OF that]]
        by (simp add: only_touches_book)
      show ?thesis
        using run assms(1) Some
        by (auto simp: reconcile_target_def wanted_def Let_def only_touches_refl
            split: if_splits intro: only_touches_book retry)
    qed
  qed
qed

lemma reconcile_target_target:
  assumes "reconcile_target io st t s = (t', s')"
  shows "tp_TargetID t' = tp_TargetID t" and "wanted t' = wanted t" and "tp_Paused t' = tp_Paused t"
proof -
  have m: "tp_TargetID u = tp_TargetID t \<and> wanted u = wanted t \<and> tp_Paused u = tp_Paused t"
    if "start_or_mark io st t r = (u, r')" "wanted t" for r r' u
    using start_or_mark_target [OF that(1)] that(2) by (auto simp: wanted_def)
  show "tp_TargetID t' = tp_TargetID t" "wanted t' = wanted t" "tp_Paused t' = tp_Paused t"
    using assms m by (auto simp: reconcile_target_def Let_def wanted_def split: if_splits option.splits)
qed

text \<open>What one iteration does to the target's own worker.\<close>

lemma reconcile_target_worker:
  assumes "reconcile_target io st t s = (t', s')"
  shows "\<not> wanted t \<Longrightarrow> worker_of s' (tp_TargetID t) = None"
    and "wanted t \<Longrightarrow> tp_Paused t \<Longrightarrow> worker_of s (tp_TargetID t) = None \<Longrightarrow> worker_of s' (tp_TargetID t) = None"
    and "wanted t \<Longrightarrow> \<not> tp_Paused t \<Longrightarrow> worker_of s (tp_TargetID t) = Some w \<Longrightarrow>
         wk_status w \<noteq> WorkerStatusFailed \<Longrightarrow> worker_of s' (tp_TargetID t) = Some w"
    and "wanted t \<Longrightarrow> \<not> tp_Paused t \<Longrightarrow> can_start io st (sv_store s) (sv_adapters s) t \<Longrightarrow>
         worker_of s' (tp_TargetID t) \<noteq> None"
proof -
  let ?tid = "tp_TargetID t"
  show "\<not> wanted t \<Longrightarrow> worker_of s' ?tid = None"
    using assms by (auto simp: reconcile_target_def wanted_def Let_def)
  show "wanted t \<Longrightarrow> tp_Paused t \<Longrightarrow> worker_of s ?tid = None \<Longrightarrow> worker_of s' ?tid = None"
    using assms by (auto simp: reconcile_target_def wanted_def Let_def)
  show "wanted t \<Longrightarrow> \<not> tp_Paused t \<Longrightarrow> worker_of s ?tid = Some w \<Longrightarrow>
      wk_status w \<noteq> WorkerStatusFailed \<Longrightarrow> worker_of s' ?tid = Some w"
    using assms by (auto simp: reconcile_target_def wanted_def Let_def)
  assume w: "wanted t" "\<not> tp_Paused t" and c: "can_start io st (sv_store s) (sv_adapters s) t"
  have go: "worker_of s' ?tid \<noteq> None" if "start_or_mark io st t r = (t', s')"
      "sv_store r = sv_store s" "sv_adapters r = sv_adapters s" for r
    using start_or_mark_starts [OF that(1)] c that(2,3) by auto
  show "worker_of s' ?tid \<noteq> None"
  proof (cases "worker_of s ?tid")
    case None
    then show ?thesis using assms w go [of s] by (simp add: reconcile_target_def wanted_def Let_def)
  next
    case (Some v)
    then show ?thesis using assms w go [of "schedule_retry io ?tid (stop_worker io ?tid s)"]
      by (auto simp: reconcile_target_def wanted_def Let_def split: if_splits)
  qed
qed

lemma length_AList_delete: "length (AList.delete k xs) \<le> length xs"
  by (simp add: AList.delete_eq)

lemma length_AList_update_present: "map_of xs k \<noteq> None \<Longrightarrow> length (AList.update k v xs) = length xs"
  by (induction xs) auto

lemma reconcile_target_limit:
  assumes "reconcile_target io st t s = (t', s')" and "hc_MaxConcurrentWorkers (hs_Config st) > 0"
  shows "int (length (sv_workers s')) \<le> max (int (length (sv_workers s))) (hc_MaxConcurrentWorkers (hs_Config st))"
proof -
  have go: "int (length (sv_workers s')) \<le> max (int (length (sv_workers s))) (hc_MaxConcurrentWorkers (hs_Config st))"
    if "start_or_mark io st t r = (t', s')" "length (sv_workers r) \<le> length (sv_workers s)" for r
    using start_or_mark_limit [OF that(1) assms(2)] that(2) by linarith
  have del: "int (length (AList.delete k xs)) \<le> max (int (length xs)) m" for k and xs :: "(string \<times> worker) list" and m
    using length_AList_delete [of k xs] by linarith
  show ?thesis
    using assms(1)
    by (auto simp: reconcile_target_def Let_def split_beta del length_AList_update_present
        length_AList_delete split: if_splits option.splits intro: go)
qed

lemma reconcile_targets_frame:
  assumes "reconcile_targets io st ts s = (ts', s')" and "workers_ok s"
  shows "sv_state s' = sv_state s \<and> sv_store s' = sv_store s \<and> sv_adapters s' = sv_adapters s \<and>
     workers_ok s' \<and> map tp_TargetID ts' = map tp_TargetID ts \<and> map wanted ts' = map wanted ts \<and>
     (\<forall>k. k \<notin> tp_TargetID ` set ts \<longrightarrow> worker_of s' k = worker_of s k)"
  using assms
proof (induction ts arbitrary: s ts' s')
  case Nil
  then show ?case by simp
next
  case (Cons t ts)
  obtain t1 s1 where r: "reconcile_target io st t s = (t1, s1)" by fastforce
  obtain ts1 s2 where rs: "reconcile_targets io st ts s1 = (ts1, s2)" by fastforce
  have e: "ts' = t1 # ts1" "s' = s2" using Cons.prems(1) r rs by simp_all
  have t: "only_touches (tp_TargetID t) s s1" using reconcile_target_touches [OF r Cons.prems(2)] .
  then have "workers_ok s1" using Cons.prems(2) by (simp add: only_touches_def)
  note IH = Cons.IH [OF rs this]
  show ?case using t IH reconcile_target_target [OF r] unfolding e by (auto simp: only_touches_def)
qed

lemma reconcile_targets_each:
  assumes "reconcile_targets io st ts s = (ts', s')" and "workers_ok s" and "distinct (map tp_TargetID ts)"
    and "t \<in> set ts"
  shows "\<exists>s1 t1 s2. only_touches (tp_TargetID t) s1 s2 \<and> reconcile_target io st t s1 = (t1, s2) \<and>
     sv_store s1 = sv_store s \<and> sv_adapters s1 = sv_adapters s \<and>
     worker_of s1 (tp_TargetID t) = worker_of s (tp_TargetID t) \<and>
     worker_of s' (tp_TargetID t) = worker_of s2 (tp_TargetID t)"
  using assms
proof (induction ts arbitrary: s ts' s')
  case Nil
  then show ?case by simp
next
  case (Cons u ts)
  obtain u1 s1 where r: "reconcile_target io st u s = (u1, s1)" by fastforce
  obtain ts1 s2 where rs: "reconcile_targets io st ts s1 = (ts1, s2)" by fastforce
  have e: "s' = s2" using Cons.prems(1) r rs by simp
  have t: "only_touches (tp_TargetID u) s s1" using reconcile_target_touches [OF r Cons.prems(2)] .
  then have ok: "workers_ok s1" using Cons.prems(2) by (simp add: only_touches_def)
  show ?case
  proof (cases "t = u")
    case True
    have "tp_TargetID u \<notin> tp_TargetID ` set ts" using Cons.prems(3) by simp
    then have "worker_of s' (tp_TargetID u) = worker_of s1 (tp_TargetID u)"
      using reconcile_targets_frame [OF rs ok] e by simp
    with True r t show ?thesis by blast
  next
    case False
    with Cons.prems(4) have t_in: "t \<in> set ts" by simp
    with Cons.prems(3) have ne: "tp_TargetID t \<noteq> tp_TargetID u" by (auto intro: rev_image_eqI)
    obtain x1 t1 x2 where "only_touches (tp_TargetID t) x1 x2" "reconcile_target io st t x1 = (t1, x2)"
      "sv_store x1 = sv_store s1" "sv_adapters x1 = sv_adapters s1"
      "worker_of x1 (tp_TargetID t) = worker_of s1 (tp_TargetID t)"
      "worker_of s' (tp_TargetID t) = worker_of x2 (tp_TargetID t)"
      using Cons.IH [OF rs ok _ t_in] Cons.prems(3) e by auto
    moreover have "sv_store s1 = sv_store s" "sv_adapters s1 = sv_adapters s"
      "worker_of s1 (tp_TargetID t) = worker_of s (tp_TargetID t)"
      using t ne by (simp_all add: only_touches_def)
    ultimately show ?thesis by metis
  qed
qed

lemma reconcile_targets_limit:
  assumes "reconcile_targets io st ts s = (ts', s')" and "hc_MaxConcurrentWorkers (hs_Config st) > 0"
  shows "int (length (sv_workers s')) \<le> max (int (length (sv_workers s))) (hc_MaxConcurrentWorkers (hs_Config st))"
  using assms(1)
proof (induction ts arbitrary: s ts' s')
  case Nil
  then show ?case by simp
next
  case (Cons t ts)
  obtain t1 s1 where r: "reconcile_target io st t s = (t1, s1)" by fastforce
  obtain ts1 s2 where rs: "reconcile_targets io st ts s1 = (ts1, s2)" by fastforce
  have "s' = s2" using Cons.prems r rs by simp
  then show ?case using Cons.IH [OF rs] reconcile_target_limit [OF r assms(2)] by simp
qed

lemma stop_orphans_facts:
  "sv_state (stop_orphans io ds ks s) = sv_state s \<and> sv_store (stop_orphans io ds ks s) = sv_store s \<and>
   (workers_ok s \<longrightarrow> workers_ok (stop_orphans io ds ks s)) \<and>
   length (sv_workers (stop_orphans io ds ks s)) \<le> length (sv_workers s) \<and>
   worker_of (stop_orphans io ds ks s) k = (if k \<in> set ks \<and> k \<notin> set ds then None else worker_of s k)"
proof (induction ks arbitrary: s)
  case Nil
  then show ?case by simp
next
  case (Cons a ks)
  define s1 where "s1 = (if a \<in> set ds then s
      else (stop_worker io a s)\<lparr>sv_readiness := DeleteReadiness a (sv_readiness (stop_worker io a s))\<rparr>)"
  have s1: "sv_state s1 = sv_state s" "sv_store s1 = sv_store s" "workers_ok s \<Longrightarrow> workers_ok s1"
    "length (sv_workers s1) \<le> length (sv_workers s)"
    "worker_of s1 k = (if k = a \<and> a \<notin> set ds then None else worker_of s k)"
    by (auto simp: s1_def length_AList_delete intro: workers_ok_delete)
  have "stop_orphans io ds (a # ks) s = stop_orphans io ds ks s1" by (simp add: s1_def Let_def)
  then show ?case using Cons.IH [of s1] s1 by auto
qed

text \<open>The supervisor's invariant: target ids and worker keys are unique, every worker belongs to a
  configured target, and runs a profile with the id it is filed under.\<close>

definition sup_inv :: "supervisor \<Rightarrow> bool" where
  "sup_inv s = (workers_ok s \<and> distinct (map tp_TargetID (sv_targets s)) \<and>
     fst ` set (sv_workers s) \<subseteq> tp_TargetID ` set (sv_targets s))"

lemma Reconcile_unfold:
  assumes "sv_state s = Some st" and "reconcile_targets io st (hs_Targets st) s = (ts', s1)"
  shows "snd (Reconcile io s) = snd (save_state io
     (stop_orphans io (map tp_TargetID (hs_Targets st)) (map fst (sv_workers s1))
        (s1\<lparr>sv_state := Some (st\<lparr>hs_Targets := ts'\<rparr>)\<rparr>)))"
  using assms by (simp add: Reconcile_def Let_def)

lemma Reconcile_worker:
  assumes "sv_state s = Some st" and "workers_ok s"
    and "reconcile_targets io st (hs_Targets st) s = (ts', s1)"
  shows "worker_of (snd (Reconcile io s)) k =
     (if k \<in> tp_TargetID ` set (hs_Targets st) then worker_of s1 k else None)"
proof -
  have "map_of (sv_workers s1) k = None" if "k \<notin> fst ` set (sv_workers s1)"
    using that by (simp add: map_of_eq_None_iff)
  then show ?thesis
    unfolding Reconcile_unfold [OF assms(1,3)] by (simp add: stop_orphans_facts)
qed

lemma Reconcile_state:
  assumes "sv_state s = Some st" and "workers_ok s"
  shows "\<exists>ts'. sv_state (snd (Reconcile io s)) = Some (st\<lparr>hs_Targets := ts'\<rparr>) \<and>
     map tp_TargetID ts' = map tp_TargetID (hs_Targets st) \<and> map wanted ts' = map wanted (hs_Targets st) \<and>
     workers_ok (snd (Reconcile io s))"
proof -
  obtain ts' s1 where r: "reconcile_targets io st (hs_Targets st) s = (ts', s1)" by fastforce
  let ?s2 = "s1\<lparr>sv_state := Some (st\<lparr>hs_Targets := ts'\<rparr>)\<rparr>"
  have "workers_ok ?s2" using reconcile_targets_frame [OF r assms(2)] by (simp add: workers_ok_def)
  then have "workers_ok (stop_orphans io (map tp_TargetID (hs_Targets st)) (map fst (sv_workers s1)) ?s2)"
    using stop_orphans_facts by blast
  then have "workers_ok (snd (Reconcile io s))"
    unfolding Reconcile_unfold [OF assms(1) r] by (simp add: workers_ok_def)
  then show ?thesis
    using reconcile_targets_frame [OF r assms(2)] unfolding Reconcile_unfold [OF assms(1) r]
    by (auto simp: stop_orphans_facts)
qed

lemma only_touches_ok: "only_touches tid s s' \<Longrightarrow> workers_ok s \<Longrightarrow> workers_ok s'"
  by (simp add: only_touches_def)

lemma Reconcile_keys:
  assumes "sv_state s = Some st" and "workers_ok s" and "distinct (map tp_TargetID (hs_Targets st))"
    and "worker_of (snd (Reconcile io s)) k = Some w"
  shows "\<exists>t \<in> set (hs_Targets st). tp_TargetID t = k \<and> wanted t"
proof -
  obtain ts' s1 where r: "reconcile_targets io st (hs_Targets st) s = (ts', s1)" by fastforce
  from Reconcile_worker [OF assms(1,2) r, of k] assms(4)
  have k: "k \<in> tp_TargetID ` set (hs_Targets st)" and w: "worker_of s1 k = Some w" by (auto split: if_splits)
  then obtain t where t: "t \<in> set (hs_Targets st)" "tp_TargetID t = k" by auto
  have "wanted t"
  proof (rule ccontr)
    assume "\<not> wanted t"
    then have "worker_of s1 (tp_TargetID t) = None"
      using reconcile_targets_each [OF r assms(2,3) t(1)] reconcile_target_worker(1) by metis
    with w t(2) show False by simp
  qed
  with t show ?thesis by blast
qed

lemma Reconcile_inv:
  assumes "sv_state s = Some st" and "workers_ok s" and "distinct (map tp_TargetID (hs_Targets st))"
  shows "sup_inv (snd (Reconcile io s))"
proof -
  obtain ts' where st': "sv_state (snd (Reconcile io s)) = Some (st\<lparr>hs_Targets := ts'\<rparr>)"
    and ids: "map tp_TargetID ts' = map tp_TargetID (hs_Targets st)"
    and ok: "workers_ok (snd (Reconcile io s))"
    using Reconcile_state [OF assms(1,2)] by blast
  have "k \<in> tp_TargetID ` set ts'" if "k \<in> fst ` set (sv_workers (snd (Reconcile io s)))" for k
  proof -
    from that obtain w where "worker_of (snd (Reconcile io s)) k = Some w"
      by (metis map_of_eq_None_iff not_None_eq)
    then have "k \<in> tp_TargetID ` set (hs_Targets st)" using Reconcile_keys [OF assms] by blast
    then show ?thesis using ids by (metis list.set_map)
  qed
  then show ?thesis using st' ids ok assms(3) by (auto simp: sup_inv_def)
qed

section \<open>Properties\<close>


section \<open>The running supervisor\<close>

text \<open>Every interleaving of the operations the control plane and the local loops call, of the delayed
  state-change callbacks, of watchdog restarts and of the workers' own loops.\<close>

inductive sup_step :: "supervisor \<Rightarrow> supervisor \<Rightarrow> bool" where
  step_add: "sup_step s (snd (AddTarget io p c s))"
| step_update: "sup_step s (snd (UpdateTarget io p s))"
| step_remove: "sup_step s (snd (RemoveTarget io tid s))"
| step_reconcile: "sup_step s (snd (Reconcile io s))"
| step_local: "sup_step s (local_reconcile_tick io s)"
| step_note: "sup_step s (onWorkerStateChange tid status s)"
| step_heartbeat: "sup_step s (BroadcastHeartbeat io s)"
| step_lan: "sup_step s (SupervisorSetLanOnly v s)"
| step_scan: "sup_step s (snd (watchdogScan io s))"
| step_restart: "sup_step s (watchdog_restart io tid s)"
| step_shutdown: "sup_step s (Shutdown io s)"
| step_worker: "worker_of s tid = Some w \<Longrightarrow>
    we' = run_init post_ok now init (w, sv_env s) \<or> we' = run_first wio post_ok clk how (w, sv_env s) \<or>
    we' = run_tick wio post_ok clk how msg (w, sv_env s) \<or> we' = sendHeartbeat post_ok now (w, sv_env s) \<Longrightarrow>
    sup_step s (s\<lparr>sv_workers := AList.update tid (fst we') (sv_workers s), sv_env := snd we'\<rparr>)"

inductive sup_reach :: "supervisor \<Rightarrow> supervisor \<Rightarrow> bool" where
  reach_start: "sup_reach s s"
| reach_step: "sup_reach s t \<Longrightarrow> sup_step t u \<Longrightarrow> sup_reach s u"

lemma update_first_ids [simp]:
  "(\<And>t. tp_TargetID t = tid \<Longrightarrow> tp_TargetID (f t) = tid) \<Longrightarrow>
   map tp_TargetID (update_first tid f ts) = map tp_TargetID ts"
  by (induction ts) auto

lemma remove_first_ids:
  "distinct (map tp_TargetID ts) \<Longrightarrow>
   map tp_TargetID (remove_first tid ts) = filter (\<lambda>x. x \<noteq> tid) (map tp_TargetID ts)"
proof (induction ts)
  case (Cons t ts)
  then have "tp_TargetID t \<notin> set (map tp_TargetID ts)" by simp
  then have "filter (\<lambda>x. x \<noteq> tp_TargetID t) (map tp_TargetID ts) = map tp_TargetID ts"
    unfolding filter_id_conv by metis
  with Cons show ?case by auto
qed simp

lemma status_after_id [simp]: "tp_TargetID (status_after st t) = tp_TargetID t"
  by (simp add: status_after_def)

lemma updated_profile_id [simp]: "tp_TargetID (updated_profile now p c) = tp_TargetID p"
  by (simp add: updated_profile_def)

lemma sup_inv_same:
  "sup_inv s \<Longrightarrow> sv_workers s' = sv_workers s \<Longrightarrow> map tp_TargetID (sv_targets s') = map tp_TargetID (sv_targets s) \<Longrightarrow>
   sup_inv s'"
  unfolding sup_inv_def using workers_ok_same by (metis list.set_map)

lemma sup_inv_workers:
  assumes "sup_inv s" and "map fst (sv_workers s') = map fst (sv_workers s)" and "sv_state s' = sv_state s"
    and "list_all2 (\<lambda>p q. wk_profile (snd q) = wk_profile (snd p)) (sv_workers s) (sv_workers s')"
  shows "sup_inv s'"
proof -
  have len: "length (sv_workers s') = length (sv_workers s)"
    using assms(4) by (simp add: list_all2_lengthD)
  have "tp_TargetID (wk_profile (snd (sv_workers s' ! i))) = fst (sv_workers s' ! i)"
    if i: "i < length (sv_workers s')" for i
  proof -
    have "fst (sv_workers s' ! i) = fst (sv_workers s ! i)"
      using arg_cong [OF assms(2), of "\<lambda>xs. xs ! i"] i len by simp
    moreover have "wk_profile (snd (sv_workers s' ! i)) = wk_profile (snd (sv_workers s ! i))"
      using assms(4) i len by (simp add: list_all2_conv_all_nth)
    moreover have "tp_TargetID (wk_profile (snd (sv_workers s ! i))) = fst (sv_workers s ! i)"
      using assms(1) i len by (simp add: sup_inv_def workers_ok_def list_all_length)
    ultimately show ?thesis by simp
  qed
  then have "workers_ok s'"
    using assms(1,2) by (simp add: sup_inv_def workers_ok_def list_all_length)
  moreover have "fst ` set (sv_workers s') = fst ` set (sv_workers s)"
    using arg_cong [OF assms(2), of set] by simp
  ultimately show ?thesis using assms(1,3) by (simp add: sup_inv_def)
qed

lemma Reconcile_sup_inv:
  assumes "workers_ok s" and "distinct (map tp_TargetID (sv_targets s))"
    and "sv_state s = None \<Longrightarrow> sup_inv s"
  shows "sup_inv (snd (Reconcile io s))"
proof (cases "sv_state s")
  case None
  then show ?thesis using assms by (simp add: Reconcile_def)
next
  case (Some st)
  then show ?thesis using Reconcile_inv [OF Some assms(1)] assms(2) by simp
qed

lemma sup_inv_update_worker:
  assumes "sup_inv s" and "worker_of s k = Some w" and "wk_profile w' = wk_profile w"
    and "sv_workers s' = AList.update k w' (sv_workers s)" and "sv_state s' = sv_state s"
  shows "sup_inv s'"
proof -
  have id: "tp_TargetID (wk_profile w) = k"
    using assms(1,2) workers_ok_lookup by (auto simp: sup_inv_def)
  have "fst ` set (sv_workers s') = insert k (fst ` set (sv_workers s))"
    using assms(4) by (simp add: dom_update)
  moreover have "k \<in> fst ` set (sv_workers s)"
    using assms(2) by (metis map_of_eq_None_iff not_None_eq)
  ultimately show ?thesis
    using assms id workers_ok_update [of s w' k s'] unfolding sup_inv_def by (simp add: insert_absorb)
qed

lemma heartbeat_all_facts:
  "map fst (fst (heartbeat_all io ws e)) = map fst ws \<and>
   list_all2 (\<lambda>p q. wk_profile (snd q) = wk_profile (snd p)) ws (fst (heartbeat_all io ws e))"
proof (induction ws arbitrary: e)
  case (Cons p ws)
  then show ?case by (cases p) (simp add: split_beta)
qed simp

lemma watchdog_apply_profile [simp]: "wk_profile (fst (watchdog_apply io we)) = wk_profile (fst we)"
  by (simp add: watchdog_apply_def split: watchdog_verdict.split)

lemma watchdog_workers_facts:
  "map fst (fst (snd (watchdog_workers io ws e))) = map fst ws \<and>
   list_all2 (\<lambda>p q. wk_profile (snd q) = wk_profile (snd p)) ws (fst (snd (watchdog_workers io ws e)))"
proof (induction ws arbitrary: e)
  case (Cons p ws)
  then show ?case by (cases p) (simp add: split_beta)
qed simp

lemma BroadcastHeartbeat_inv: "sup_inv s \<Longrightarrow> sup_inv (BroadcastHeartbeat io s)"
  using heartbeat_all_facts [of io "sv_workers s" "sv_env s"]
  by (elim sup_inv_workers) (simp_all add: BroadcastHeartbeat_def split_beta)

lemma watchdogScan_frame:
  "sv_workers (snd (watchdogScan io s)) = fst (snd (watchdog_workers io (sv_workers s) (sv_env s)))"
  "sv_state (snd (watchdogScan io s)) = sv_state s"
  by (simp_all add: watchdogScan_def split_beta Let_def)

lemma watchdogScan_inv: "sup_inv s \<Longrightarrow> sup_inv (snd (watchdogScan io s))"
  using watchdog_workers_facts [of io "sv_workers s" "sv_env s"]
  by (elim sup_inv_workers) (simp_all only: watchdogScan_frame)

lemma SetLanOnly_inv: "sup_inv s \<Longrightarrow> sup_inv (SupervisorSetLanOnly v s)"
  by (elim sup_inv_workers)
    (auto simp: SupervisorSetLanOnly_def SetLanOnly_def list_all2_map2 list_all2_same comp_def split_beta)

lemma AddTarget_inv:
  assumes "sup_inv s"
  shows "sup_inv (snd (AddTarget io p c s))"
proof (cases "sv_state s")
  case None
  then show ?thesis using assms by (simp add: AddTarget_def)
next
  case (Some st)
  show ?thesis
  proof (cases "list_ex (\<lambda>t. tp_TargetID t = tp_TargetID p) (hs_Targets st)")
    case True
    then show ?thesis using assms Some by (simp add: AddTarget_def)
  next
    case False
    obtain err store' where e: "(if c \<noteq> []
        then SaveSecret (hx_cx io) (hx_fault io) (hx_nonce io 1) (tp_CredentialRef p) c (sv_store s)
        else (None, sv_store s)) = (err, store')" by fastforce
    let ?p = "p\<lparr>tp_UpdatedAt := hx_now io, tp_Status := (if tp_Status p = '''' then TargetStatusPending else tp_Status p)\<rparr>"
    let ?s = "s\<lparr>sv_store := store', sv_state := Some (st\<lparr>hs_Targets := hs_Targets st @ [?p]\<rparr>)\<rparr>"
    have "workers_ok ?s" "distinct (map tp_TargetID (sv_targets ?s))"
      using assms Some False by (auto simp: sup_inv_def workers_ok_def list_ex_iff)
    then have "sup_inv (snd (Reconcile io ?s))" by (intro Reconcile_sup_inv) simp_all
    moreover have "sup_inv (s\<lparr>sv_store := store'\<rparr>)" using assms by (rule sup_inv_same) simp_all
    ultimately show ?thesis
      using Some False e by (auto simp: AddTarget_def Let_def split: option.split)
  qed
qed

lemma UpdateTarget_inv:
  assumes "sup_inv s"
  shows "sup_inv (snd (UpdateTarget io p s))"
proof (cases "sv_state s")
  case None
  then show ?thesis using assms by (simp add: UpdateTarget_def)
next
  case (Some st)
  let ?tid = "tp_TargetID p"
  let ?s = "(stop_worker io ?tid s)\<lparr>sv_failedRetryAt := AList.delete ?tid (sv_failedRetryAt s),
      sv_failedRetries := AList.delete ?tid (sv_failedRetries s),
      sv_state := Some (st\<lparr>hs_Targets := update_first ?tid (updated_profile (hx_now io) p) (hs_Targets st)\<rparr>)\<rparr>"
  have "workers_ok ?s" by (rule workers_ok_delete [of s _ ?tid]) (use assms in \<open>simp_all add: sup_inv_def\<close>)
  moreover have "distinct (map tp_TargetID (sv_targets ?s))" using assms Some by (simp add: sup_inv_def)
  ultimately have "sup_inv (snd (Reconcile io ?s))" by (intro Reconcile_sup_inv) simp_all
  then show ?thesis using Some assms by (simp add: UpdateTarget_def Let_def)
qed

lemma RemoveTarget_inv:
  assumes "sup_inv s"
  shows "sup_inv (snd (RemoveTarget io tid s))"
proof (cases "sv_state s")
  case None
  then show ?thesis using assms by (simp add: RemoveTarget_def)
next
  case (Some st)
  have stop: "sup_inv s'" if "sv_workers s' = AList.delete tid (sv_workers s)"
      "set (map tp_TargetID (sv_targets s')) = tp_TargetID ` set (hs_Targets st) - {tid}
       \<or> sv_state s' = sv_state s" "distinct (map tp_TargetID (sv_targets s'))" for s'
  proof -
    have "workers_ok s'" by (rule workers_ok_delete [of s _ tid]) (use assms that in \<open>simp_all add: sup_inv_def\<close>)
    moreover have "fst ` set (sv_workers s') = fst ` set (sv_workers s) - {tid}"
      using that(1) by (simp add: keys_AList_delete)
    moreover have "fst ` set (sv_workers s) \<subseteq> tp_TargetID ` set (hs_Targets st)"
      using assms Some by (simp add: sup_inv_def)
    moreover have "tp_TargetID ` set (hs_Targets st) - {tid} \<subseteq> tp_TargetID ` set (sv_targets s')"
      using that(2)
    proof
      assume "sv_state s' = sv_state s"
      then have "sv_targets s' = hs_Targets st" using Some by simp
      then show ?thesis by (simp add: Diff_subset)
    qed simp
    ultimately show ?thesis using that(3) unfolding sup_inv_def by auto
  qed
  have rem: "set (map tp_TargetID (remove_first tid (hs_Targets st))) = tp_TargetID ` set (hs_Targets st) - {tid}"
    "distinct (map tp_TargetID (remove_first tid (hs_Targets st)))"
    using assms Some by (auto simp: sup_inv_def remove_first_ids)
  show ?thesis
  proof (cases "find (\<lambda>t. tp_TargetID t = tid) (hs_Targets st)")
    case None
    then show ?thesis using Some assms by (simp add: RemoveTarget_def Let_def) (rule stop, simp_all add: sup_inv_def)
  next
    case (Some t)
    then have w: "sv_workers (snd (RemoveTarget io tid s)) = AList.delete tid (sv_workers s)"
      and t: "sv_targets (snd (RemoveTarget io tid s)) = remove_first tid (hs_Targets st)"
      using \<open>sv_state s = Some st\<close> by (simp_all add: RemoveTarget_def Let_def)
    show ?thesis by (rule stop, simp only: w, simp only: t rem simp_thms, simp only: t rem)
  qed
qed

lemma note_inv: "sup_inv s \<Longrightarrow> sup_inv (onWorkerStateChange tid status s)"
proof (cases "sv_state s")
  case None
  then show "sup_inv s \<Longrightarrow> ?thesis" by (simp add: onWorkerStateChange_def)
next
  case (Some st)
  assume "sup_inv s"
  then show ?thesis
    by (rule sup_inv_same) (use Some in \<open>auto simp: onWorkerStateChange_def Let_def\<close>)
qed

lemma watchdog_restart_inv:
  assumes "sup_inv s"
  shows "sup_inv (watchdog_restart io tid s)"
proof (cases "worker_of s tid")
  case None
  then show ?thesis using assms by (simp add: watchdog_restart_def)
next
  case (Some w)
  obtain w' e' where r: "Restart (hx_post_ok io) (hx_now io) (w, sv_env s) = (Some w', e')"
    by (auto simp: Restart_def Stop_def Start_def run_exit_def Let_def split_beta setStatus_def
        heartbeat_transition_def)
  then have "wk_profile w' = wk_profile w"
    using Restart_profile [of "hx_post_ok io" "hx_now io" "(w, sv_env s)" w'] by simp
  from sup_inv_update_worker [OF assms Some this] show ?thesis
    using Some r by (simp add: watchdog_restart_def)
qed

lemma local_reconcile_inv: "sup_inv s \<Longrightarrow> sup_inv (local_reconcile_tick io s)"
proof -
  assume i: "sup_inv s"
  then have "sup_inv (snd (Reconcile io s))" by (intro Reconcile_sup_inv) (simp_all add: sup_inv_def)
  then show ?thesis
    using i BroadcastHeartbeat_inv [of "snd (Reconcile io s)" io]
    by (auto simp: local_reconcile_tick_def split_beta split: option.split)
qed

lemma Shutdown_inv: "sup_inv s \<Longrightarrow> sup_inv (Shutdown io s)"
  by (simp add: sup_inv_def Shutdown_def workers_ok_def)

lemma sup_step_inv: "sup_step s t \<Longrightarrow> sup_inv s \<Longrightarrow> sup_inv t"
proof (induction rule: sup_step.induct)
  case (step_reconcile s io)
  then show ?case by (intro Reconcile_sup_inv) (simp_all add: sup_inv_def)
next
  case (step_worker s tid w we' post_ok now init wio clk how msg)
  have "wk_profile (fst we') = wk_profile w" using step_worker(2) by auto
  from sup_inv_update_worker [OF step_worker(3,1) this] show ?case by simp
qed (simp_all add: AddTarget_inv UpdateTarget_inv RemoveTarget_inv local_reconcile_inv note_inv
    BroadcastHeartbeat_inv SetLanOnly_inv watchdogScan_inv watchdog_restart_inv Shutdown_inv)

lemma sup_reach_inv: "sup_reach s t \<Longrightarrow> sup_inv s \<Longrightarrow> sup_inv t"
  by (induction rule: sup_reach.induct) (simp_all add: sup_step_inv)


section \<open>Concrete supervisor\<close>

definition demo_hio :: host_io where
  "demo_hio = \<lparr>hx_now = 1000 * second, hx_cx = demo_codec, hx_fault = no_fault,
     hx_nonce = (\<lambda>_. ''123456789012''), hx_post_ok = (\<lambda>_. True), hx_factory_ok = (\<lambda>_. True),
     hx_random = 0\<rparr>"

definition demo_state :: "target_profile list \<Rightarrow> host_state" where
  "demo_state ts = (fresh_state ''h'')\<lparr>hs_Targets := ts\<rparr>"

definition demo_sup :: "target_profile list \<Rightarrow> supervisor" where
  "demo_sup ts = RegisterAdapter ''brocade'' (InitializeWithState (demo_state ts) (NewSupervisor demo_store None))"

lemma demo_sup_facts [simp]:
  "sv_state (demo_sup ts) = Some (demo_state ts)" "sv_workers (demo_sup ts) = []"
  "sv_adapters (demo_sup ts) = [''brocade'']" "sv_store (demo_sup ts) = demo_store"
  "hs_Targets (demo_state ts) = ts" "hc_MaxConcurrentWorkers (hs_Config (demo_state ts)) = 0"
  by (simp_all add: demo_sup_def RegisterAdapter_def InitializeWithState_def NewSupervisor_def
      demo_state_def fresh_state_def DefaultHostConfig_def)

lemma demo_can_start [simp]: "can_start demo_hio (demo_state ts) demo_store [''brocade''] (demo_profile tid)"
  by (simp add: can_start_def demo_hio_def demo_profile_def LoadSecret_def demo_store_def)

lemma demo_profile_facts [simp]:
  "tp_TargetID (demo_profile tid) = tid" "\<not> tp_Paused (demo_profile tid)" "wanted (demo_profile tid)"
  by (simp_all add: demo_profile_def wanted_def target_status_defs)



section \<open>Updates, removals and the watchdog\<close>

lemma reconcile_targets_paused:
  "reconcile_targets io st ts s = (ts', s') \<Longrightarrow> map tp_Paused ts' = map tp_Paused ts"
proof (induction ts arbitrary: s ts' s')
  case (Cons t ts)
  obtain t1 s1 where r: "reconcile_target io st t s = (t1, s1)" by fastforce
  obtain ts1 s2 where rs: "reconcile_targets io st ts s1 = (ts1, s2)" by fastforce
  show ?case using Cons.prems Cons.IH [OF rs] reconcile_target_target(3) [OF r] r rs by auto
qed simp

lemma find_first_paused:
  "map tp_TargetID ts' = map tp_TargetID ts \<Longrightarrow> map tp_Paused ts' = map tp_Paused ts \<Longrightarrow>
   map_option tp_Paused (find (\<lambda>t. tp_TargetID t = tid) ts') =
   map_option tp_Paused (find (\<lambda>t. tp_TargetID t = tid) ts)"
proof (induction ts arbitrary: ts')
  case (Cons t ts)
  then obtain t' us where "ts' = t' # us" by (cases ts') auto
  with Cons show ?case by auto
qed simp

lemma find_update_first:
  "tid \<in> tp_TargetID ` set ts \<Longrightarrow> (\<And>t. tp_TargetID (f t) = tid) \<Longrightarrow>
   \<exists>t \<in> set ts. find (\<lambda>t. tp_TargetID t = tid) (update_first tid f ts) = Some (f t)"
  by (induction ts) auto

text \<open>Updating a configured target never leaves it paused, even when the new profile says it is:
  after the update the stored target is not paused, so a pause that arrives as an update of an
  existing target has no effect and reconciliation may start its worker again.\<close>
theorem UpdateTarget_ignores_pause:
  assumes "sv_state s = Some st" and "sup_inv s" and "tp_TargetID p \<in> tp_TargetID ` set (hs_Targets st)"
  shows "\<exists>t. FindTarget (tp_TargetID p) (snd (UpdateTarget io p s)) = Some t \<and> \<not> tp_Paused t"
proof -
  let ?tid = "tp_TargetID p"
  let ?ts = "update_first ?tid (updated_profile (hx_now io) p) (hs_Targets st)"
  let ?s = "(stop_worker io ?tid s)\<lparr>sv_failedRetryAt := AList.delete ?tid (sv_failedRetryAt s),
      sv_failedRetries := AList.delete ?tid (sv_failedRetries s), sv_state := Some (st\<lparr>hs_Targets := ?ts\<rparr>)\<rparr>"
  have u: "snd (UpdateTarget io p s) = snd (Reconcile io ?s)"
    using assms by (simp add: UpdateTarget_def Let_def)
  have ok: "workers_ok ?s"
    by (rule workers_ok_delete [of s _ ?tid]) (use assms in \<open>simp_all add: sup_inv_def\<close>)
  obtain ts' s1 where r: "reconcile_targets io (st\<lparr>hs_Targets := ?ts\<rparr>) ?ts ?s = (ts', s1)" by fastforce
  have "sv_state (snd (Reconcile io ?s)) = Some (st\<lparr>hs_Targets := ts'\<rparr>)"
    using Reconcile_unfold [of ?s "st\<lparr>hs_Targets := ?ts\<rparr>" io ts' s1] r by (simp add: stop_orphans_facts)
  moreover have "map_option tp_Paused (find (\<lambda>t. tp_TargetID t = ?tid) ts') = Some False"
  proof -
    obtain t where "find (\<lambda>t. tp_TargetID t = ?tid) ?ts = Some (updated_profile (hx_now io) p t)"
      using find_update_first [OF assms(3), of "updated_profile (hx_now io) p"] by auto
    then show ?thesis
      using find_first_paused [OF _ reconcile_targets_paused [OF r], of ?tid] reconcile_targets_frame [OF r ok]
      by (simp add: updated_profile_def)
  qed
  ultimately show ?thesis unfolding u by (auto simp: FindTarget_def)
qed

theorem UpdateTarget_ignores_pause_witness:
  "\<exists>t. FindTarget ''a'' (snd (UpdateTarget demo_hio ((demo_profile ''a'')\<lparr>tp_Paused := True\<rparr>)
          (demo_sup [demo_profile ''a'']))) = Some t \<and> \<not> tp_Paused t"
  using UpdateTarget_ignores_pause [of "demo_sup [demo_profile ''a'']" "demo_state [demo_profile ''a'']"
      "(demo_profile ''a'')\<lparr>tp_Paused := True\<rparr>" demo_hio]
  by (simp add: sup_inv_def workers_ok_def)

lemma RemoveTarget_frame:
  "sv_readiness (snd (RemoveTarget io tid s)) = sv_readiness s"
  "sv_state s = Some st \<Longrightarrow> \<exists>ts. sv_state (snd (RemoveTarget io tid s)) = Some (st\<lparr>hs_Targets := ts\<rparr>)"
  "sv_state s = Some st \<Longrightarrow> worker_of (snd (RemoveTarget io tid s)) tid = None"
proof -
  show "sv_readiness (snd (RemoveTarget io tid s)) = sv_readiness s"
    by (simp add: RemoveTarget_def Let_def split: option.split)
  show "worker_of (snd (RemoveTarget io tid s)) tid = None" if "sv_state s = Some st"
    using that by (simp add: RemoveTarget_def Let_def split: option.split)
  show "\<exists>ts. sv_state (snd (RemoveTarget io tid s)) = Some (st\<lparr>hs_Targets := ts\<rparr>)"
    if "sv_state s = Some st"
  proof (cases "find (\<lambda>t. tp_TargetID t = tid) (hs_Targets st)")
    case None
    then have "sv_state (snd (RemoveTarget io tid s)) = Some (st\<lparr>hs_Targets := hs_Targets st\<rparr>)"
      using that by (simp add: RemoveTarget_def Let_def)
    then show ?thesis by blast
  next
    case (Some t)
    then show ?thesis using that by (auto simp: RemoveTarget_def Let_def)
  qed
qed

abbreviation published :: "capability_manifest \<Rightarrow> string \<Rightarrow> per_target_readiness option" where
  "published m tid \<equiv>
     (case map_of (mf_CapabilityStatus m) CapabilityCollectBrocadeEvidenceBundleV1 of
        None \<Rightarrow> None | Some i \<Rightarrow> map_of (ci_PerTarget i) tid)"

text \<open>Removing a target does not clear its REST readiness: while its last successful probe is
  younger than five minutes, the manifest of a host that is not LAN-only keeps publishing the
  removed target as ready, although it has neither a profile nor a worker any more.\<close>
theorem removed_target_still_published:
  assumes "sv_state s = Some st" and "\<not> hc_LanOnly (hs_Config st)"
    and "map_of (sv_readiness s) tid = Some obs" and "pt_RESTReady (ro_Readiness obs)"
    and "ro_LastOKAt obs \<noteq> zero_time" and "now - ro_LastOKAt obs \<le> 5 * minute"
  shows "let s' = snd (RemoveTarget io tid s) in
     worker_of s' tid = None \<and>
     published (BuildCapabilityManifest caps status [] parse now s') tid = Some (ro_Readiness obs)"
proof -
  let ?s' = "snd (RemoveTarget io tid s)"
  obtain ts where st': "sv_state ?s' = Some (st\<lparr>hs_Targets := ts\<rparr>)"
    using RemoveTarget_frame(2) [OF assms(1)] by blast
  have sub: "\<not> time_sub now (ro_LastOKAt obs) > 5 * minute"
    using assms(6) time_sub_greater [of "5 * minute" now "ro_LastOKAt obs"] by (simp add: duration_defs)
  have e: "expire_rest now obs = ro_Readiness obs"
    using assms(4,5) sub by (simp add: expire_rest_def Let_def brocadeRESTReadinessTTL_def)
  have snap: "map_of (case Snapshot now (sv_readiness s) of None \<Rightarrow> [] | Some m \<Rightarrow> m) tid = Some (ro_Readiness obs)"
    unfolding map_of_Snapshot by (simp add: assms(3) e)
  show ?thesis
    using assms(2) st' snap RemoveTarget_frame(3) [OF assms(1)]
    by (auto simp: BuildCapabilityManifest_def Let_def RemoveTarget_frame(1) mergeBrocadePerTargetReadiness_def)
qed

theorem removed_target_still_published_witness:
  "let s = (demo_sup [demo_profile ''a''])\<lparr>sv_readiness := RecordSuccess second ''a'' ''production_verified'' ''modern'' []\<rparr>;
       s' = snd (RemoveTarget demo_hio ''a'' s)
   in \<exists>p. published (BuildCapabilityManifest (\<lambda>_. None) (\<lambda>_. \<lparr>ci_Enabled = True, ci_ConfigurationState = ''ready'',
            ci_ReadyTargetProfileIDs = [], ci_PerTarget = [], ci_Reason = ''''\<rparr>) [] (\<lambda>_. None) minute s') ''a'' = Some p
          \<and> pt_RESTReady p"
proof -
  let ?s = "(demo_sup [demo_profile ''a''])\<lparr>sv_readiness := RecordSuccess second ''a'' ''production_verified'' ''modern'' []\<rparr>"
  have "sv_state ?s = Some (demo_state [demo_profile ''a''])" by simp
  moreover have "\<not> hc_LanOnly (hs_Config (demo_state [demo_profile ''a'']))"
    by (simp add: demo_state_def fresh_state_def DefaultHostConfig_def)
  ultimately show ?thesis
    using removed_target_still_published [of ?s "demo_state [demo_profile ''a'']" "''a''" _ minute demo_hio]
    by (simp add: RecordSuccess_def Let_def duration_defs zero_readiness_def)
qed

lemma blocked_targets_not_ready:
  "list_all (\<lambda>q. snd q = blocked_readiness) m \<Longrightarrow>
   list_all (\<lambda>q. snd q = blocked_readiness) (blocked_targets ts m)"
  by (induction ts arbitrary: m) (simp_all add: Let_def list_all_AList_update)

text \<open>In LAN-only mode the manifest publishes no target as ready over REST or SSH and does not
  advertise the SSH probe capability, whatever the registry and the persisted readiness say; and no
  manifest ever claims that write operations are enabled.\<close>
theorem lan_only_manifest:
  assumes "sv_state s = Some st" and "hc_LanOnly (hs_Config st)"
  shows "let m = BuildCapabilityManifest caps status ssh parse now s in
     (\<forall>tid p. published m tid = Some p \<longrightarrow> \<not> pt_RESTReady p \<and> \<not> pt_SSHReady p \<and> pt_RESTReason p = ''lan_only_mode'') \<and>
     mf_Capabilities m = [CapabilityCollectBrocadeEvidenceBundleV1] \<and>
     \<not> mf_OpsEnabledRuntime m \<and> list_all (\<lambda>a. \<not> ac_OpsSupported a) (mf_SupportedAdapters m)"
proof -
  let ?m = "BuildCapabilityManifest caps status ssh parse now s"
  have b: "p = blocked_readiness" if "map_of (blocked_targets (hs_Targets st) []) tid = Some p" for tid p
    using map_of_SomeD [OF that] blocked_targets_not_ready [of "[]" "hs_Targets st"]
    by (auto simp: list_all_iff)
  have "\<not> pt_RESTReady blocked_readiness \<and> \<not> pt_SSHReady blocked_readiness
      \<and> pt_RESTReason blocked_readiness = ''lan_only_mode''"
    by (simp add: blocked_readiness_def zero_readiness_def)
  moreover have "published ?m tid = map_of (blocked_targets (hs_Targets st) []) tid" for tid
    using assms by (simp add: BuildCapabilityManifest_def Let_def)
  moreover have "mf_Capabilities ?m = [CapabilityCollectBrocadeEvidenceBundleV1]"
    using assms by (simp add: BuildCapabilityManifest_def Let_def)
  moreover have "\<not> mf_OpsEnabledRuntime ?m" "list_all (\<lambda>a. \<not> ac_OpsSupported a) (mf_SupportedAdapters ?m)"
    by (simp_all add: BuildCapabilityManifest_def Let_def list_all_iff)
  ultimately show ?thesis using b unfolding Let_def by metis
qed

theorem lan_only_manifest_witness:
  "let st = demo_state [demo_profile ''a''];
       s = (demo_sup [demo_profile ''a''])\<lparr>sv_state := Some (st\<lparr>hs_Config := (hs_Config st)\<lparr>hc_LanOnly := True\<rparr>\<rparr>),
             sv_probeReady := Some True\<rparr>
   in mf_Capabilities (BuildCapabilityManifest (\<lambda>_. None) (\<lambda>_. \<lparr>ci_Enabled = True, ci_ConfigurationState = ''ready'',
        ci_ReadyTargetProfileIDs = [], ci_PerTarget = [], ci_Reason = ''''\<rparr>) [] (\<lambda>_. None) minute s)
      = [CapabilityCollectBrocadeEvidenceBundleV1]"
  using lan_only_manifest [of "(demo_sup [demo_profile ''a''])\<lparr>sv_state := Some ((demo_state [demo_profile ''a''])
      \<lparr>hs_Config := (hs_Config (demo_state [demo_profile ''a'']))\<lparr>hc_LanOnly := True\<rparr>\<rparr>), sv_probeReady := Some True\<rparr>"]
  by (simp add: Let_def)

text \<open>A healthy worker is restarted by the supervisor's watchdog between its first two
  collections: the first collection of \<open>run()\<close> sets neither the stage \<open>sleep\<close> nor the next
  scheduled time, so a scan two minutes after it finished calls the worker stalled and a scan five
  minutes after it orders a restart, whatever the poll interval.\<close>
theorem watchdog_restarts_idle_worker:
  assumes "Start t0 (NewWorker cfg) = Some w" and "io_health io = None" and "io_collect io = Inr raw"
    and "0 < clk 9"
  shows "let w' = fst (run_first io post_ok clk CycleDone (run_init post_ok t1 None (w, e))) in
     wk_status w' = WorkerStatusRunning \<and> ws_LastError (wk_state w') = '''' \<and>
     (2 * minute \<le> t - clk 9 \<and> t - clk 9 < 5 * minute \<longrightarrow> watchdog_decide t (wk_state w') = WdSuspect) \<and>
     (5 * minute \<le> t - clk 9 \<longrightarrow> watchdog_decide t (wk_state w') = WdRestart)"
proof -
  define we where "we = run_init post_ok t1 None (w, e)"
  define w' where "w' = fst (run_first io post_ok clk CycleDone we)"
  have w: "w = upd_state (\<lambda>s. s\<lparr>ws_Status := WorkerStatusStarting, ws_StartedAt := t0,
      ws_ConsecutiveErrors := 0\<rparr>) ((NewWorker cfg)\<lparr>wk_live := True\<rparr>)"
    using assms(1) by (auto simp: Start_def split: if_splits)
  have i: "wk_status (fst we) = WorkerStatusRunning" "ws_NextScheduledAt (wk_state (fst we)) = zero_time"
    "ws_RestartCount (wk_state (fst we)) = 0"
    by (simp_all add: we_def run_init_def w NewWorker_def zero_worker_state_def)
  have st: "wk_status w' = WorkerStatusRunning" "ws_LastError (wk_state w') = ''''"
    "ws_CurrentStage (wk_state w') = ''complete''" "ws_NextScheduledAt (wk_state w') = zero_time"
    "ws_LastProgressAt (wk_state w') = clk 9" "ws_RestartCount (wk_state w') = 0"
    using assms(2,3) i
    by (cases we; simp add: w'_def run_first_def collect_def collect_ok_def Let_def split_beta mark_success_state)+
  have a: "time_sub t (clk 9) < 2 * minute \<longleftrightarrow> t - clk 9 < 2 * minute"
    "time_sub t (clk 9) < 5 * minute \<longleftrightarrow> t - clk 9 < 5 * minute"
    by (rule time_sub_less; simp add: duration_defs)+
  have "watchdog_decide t (wk_state w') = (if t - clk 9 < 2 * minute then WdHealthy
      else if t - clk 9 < 5 * minute then WdSuspect else WdRestart)"
    using st assms(4) unfolding watchdog_decide_def
    by (simp add: stageThresholds_def a maxRestartsInWindow_def Let_def)
  then show ?thesis
    using st unfolding we_def [symmetric] w'_def [symmetric] Let_def by (simp add: duration_defs)
qed

theorem watchdog_restarts_idle_worker_witness:
  "let cfg = \<lparr>wf_Profile = demo_profile ''a'', wf_Creds = [], wf_Policy = DefaultRetryPolicy, wf_HostToken = ''t'',
              wf_LocalAPIURL = '''', wf_LocalAPIToken = '''', wf_LanOnly = True, wf_hasOnStateChange = True\<rparr>;
       w = the (Start second (NewWorker cfg));
       w' = fst (run_first (demo_io (Inr [])) (\<lambda>_. True) (\<lambda>_. second) CycleDone
              (run_init (\<lambda>_. True) second None (w, demo_env None None)))
   in poll_interval w = 10 * minute \<and> watchdog_decide (second + 5 * minute) (wk_state w') = WdRestart"
proof -
  let ?cfg = "\<lparr>wf_Profile = demo_profile ''a'', wf_Creds = [], wf_Policy = DefaultRetryPolicy, wf_HostToken = ''t'',
              wf_LocalAPIURL = '''', wf_LocalAPIToken = '''', wf_LanOnly = True, wf_hasOnStateChange = True\<rparr>"
  obtain w where w: "Start second (NewWorker ?cfg) = Some w"
    by (simp add: Start_def NewWorker_def zero_worker_state_def)
  then have p: "wk_profile w = demo_profile ''a''" by (auto simp: Start_def NewWorker_def split: if_splits)
  have "poll_interval w = 10 * minute"
    unfolding poll_interval_def p by (simp add: demo_profile_def duration_defs wrap64_def Let_def)
  then show ?thesis
    using watchdog_restarts_idle_worker [OF w, of "demo_io (Inr [])" "[]" "\<lambda>_. second" "\<lambda>_. True" second
        "demo_env None None" "second + 5 * minute"] w
    by (simp add: demo_io_def Let_def duration_defs)
qed

end
