(* ===== verification/Crypto.thy ===== *)
theory Crypto
  imports Store
begin

text \<open>
  The host key pair and the credential envelope (crypto.go). NaCl box and base64 are parameters
  (\<open>nacl\<close>); random keys and nonces are arguments. Keys and nonces are byte strings, whose
  lengths the code's fixed-size arrays enforce.
\<close>

record host_key_pair =
  kp_PublicKey :: string
  kp_PrivateKey :: string

record nacl =
  nb_seal :: "string \<Rightarrow> string \<Rightarrow> string \<Rightarrow> string \<Rightarrow> string"
  nb_open :: "string \<Rightarrow> string \<Rightarrow> string \<Rightarrow> string \<Rightarrow> string option"
  nb_encode :: "string \<Rightarrow> string"
  nb_decode :: "string \<Rightarrow> string option"

definition naclKeySize :: nat where "naclKeySize = 32"
definition naclNonceSize :: nat where "naclNonceSize = 24"
definition boxOverhead :: nat where "boxOverhead = 16"

lemmas nacl_sizes = naclKeySize_def naclNonceSize_def boxOverhead_def

definition PublicKeyBase64 :: "nacl \<Rightarrow> host_key_pair \<Rightarrow> string" where
  "PublicKeyBase64 nb kp = nb_encode nb (kp_PublicKey kp)"

definition keypair_path :: "store \<Rightarrow> path" where
  "keypair_path s = join_path (st_configDir s) [''host_keypair.enc'']"

definition SaveKeyPair ::
  "crypto_codec \<Rightarrow> fs_fault \<Rightarrow> string \<Rightarrow> host_key_pair \<Rightarrow> store \<Rightarrow> store_error option \<times> store" where
  "SaveKeyPair cx f nonce kp s =
     (case encrypt cx nonce s (kp_PublicKey kp @ kp_PrivateKey kp) of
        None \<Rightarrow> (Some EncryptFails, s)
      | Some c \<Rightarrow> (case write_atomic f (keypair_path s) c (st_files s) of
                    (e, fs) \<Rightarrow> (e, s\<lparr>st_files := fs\<rparr>)))"

definition LoadKeyPair ::
  "crypto_codec \<Rightarrow> fs_fault \<Rightarrow> store \<Rightarrow> store_error + host_key_pair option" where
  "LoadKeyPair cx f s =
     (case map_of (st_files s) (keypair_path s) of
        None \<Rightarrow> Inr None
      | Some ciphertext \<Rightarrow>
          if ff_read_fails f then Inl ReadFails
          else (case decrypt cx s ciphertext of
                  None \<Rightarrow> Inl DecryptFails
                | Some raw \<Rightarrow>
                    if length raw \<noteq> naclKeySize * 2 then Inl UnmarshalFails
                    else Inr (Some \<lparr>kp_PublicKey = take naclKeySize raw,
                                    kp_PrivateKey = drop naclKeySize raw\<rparr>)))"

datatype envelope_error = BadBase64 | BlobTooShort | OpenFailed

definition DecryptCredentialPayload ::
  "nacl \<Rightarrow> string \<Rightarrow> host_key_pair \<Rightarrow> envelope_error + string" where
  "DecryptCredentialPayload nb blob kp =
     (case nb_decode nb blob of
        None \<Rightarrow> Inl BadBase64
      | Some d \<Rightarrow>
          if length d < naclKeySize + naclNonceSize + boxOverhead then Inl BlobTooShort
          else (let senderPub = take naclKeySize d;
                    nonce = take naclNonceSize (drop naclKeySize d);
                    ciphertext = drop (naclKeySize + naclNonceSize) d
                in case nb_open nb ciphertext nonce senderPub (kp_PrivateKey kp) of
                     None \<Rightarrow> Inl OpenFailed | Some p \<Rightarrow> Inr p))"

definition EncryptForHost :: "nacl \<Rightarrow> host_key_pair \<Rightarrow> string \<Rightarrow> string \<Rightarrow> string \<Rightarrow> string" where
  "EncryptForHost nb sender nonce plaintext hostPub =
     nb_encode nb (kp_PublicKey sender @ nonce @ nb_seal nb plaintext nonce hostPub (kp_PrivateKey sender))"

section \<open>Properties\<close>

text \<open>What the control plane encrypts to the host's public key with a fresh sender key pair is
  what the host decrypts with its private key. The box is assumed to open what it sealed between
  matching key pairs and to add its 16 bytes, and base64 to decode what it encoded.\<close>
theorem envelope_roundtrip:
  assumes "length (kp_PublicKey sender) = naclKeySize" and "length nonce = naclNonceSize"
    and "length (nb_seal nb plaintext nonce (kp_PublicKey host) (kp_PrivateKey sender)) = length plaintext + boxOverhead"
    and "nb_open nb (nb_seal nb plaintext nonce (kp_PublicKey host) (kp_PrivateKey sender)) nonce
           (kp_PublicKey sender) (kp_PrivateKey host) = Some plaintext"
    and "\<And>d. nb_decode nb (nb_encode nb d) = Some d"
  shows "DecryptCredentialPayload nb (EncryptForHost nb sender nonce plaintext (kp_PublicKey host)) host = Inr plaintext"
  using assms by (simp add: DecryptCredentialPayload_def EncryptForHost_def Let_def)

definition demo_nacl :: nacl where
  "demo_nacl = \<lparr>nb_seal = (\<lambda>p n pub priv. replicate 16 (CHR ''m'') @ rev p),
     nb_open = (\<lambda>c n pub priv. if length c < 16 then None else Some (rev (drop 16 c))),
     nb_encode = (\<lambda>d. rev d), nb_decode = (\<lambda>d. Some (rev d))\<rparr>"

definition demo_keys :: "char \<Rightarrow> host_key_pair" where
  "demo_keys c = \<lparr>kp_PublicKey = replicate 32 c, kp_PrivateKey = replicate 32 c\<rparr>"

theorem envelope_roundtrip_witness:
  "DecryptCredentialPayload demo_nacl (EncryptForHost demo_nacl (demo_keys (CHR ''s'')) (replicate 24 (CHR ''n''))
     ''{pw}'' (kp_PublicKey (demo_keys (CHR ''h'')))) (demo_keys (CHR ''h'')) = Inr ''{pw}''"
  by (rule envelope_roundtrip) (simp_all add: demo_nacl_def demo_keys_def nacl_sizes)

lemma keypair_path_eq:
  "clean_dir (st_configDir s) \<Longrightarrow> keypair_path s = st_configDir s @ [''host_keypair.enc'']"
  by (simp add: keypair_path_def join_path_def clean_comps_append)

lemma keypair_tmp: "clean_dir (st_configDir s) \<Longrightarrow> tmp_path (keypair_path s) \<noteq> keypair_path s"
  by (simp add: keypair_path_eq tmp_path_def butlast_append)

lemma keypair_path_files [simp]: "keypair_path (s\<lparr>st_files := fs\<rparr>) = keypair_path s"
  by (simp add: keypair_path_def)

text \<open>The key pair loads back as it was saved.\<close>

lemma SaveKeyPair_roundtrip:
  assumes "clean_dir (st_configDir s)" and "aes_key_ok (st_key s)" and "length n = nonceSize"
    and "\<And>k p. cx_open cx k n (cx_seal cx k n p) = Some p"
    and "length (kp_PublicKey kp) = naclKeySize" and "length (kp_PrivateKey kp) = naclKeySize"
    and "SaveKeyPair cx f n kp s = (None, s')"
  shows "LoadKeyPair cx no_fault s' = Inr (Some kp)"
proof -
  define c where "c = n @ cx_seal cx (st_key s) n (kp_PublicKey kp @ kp_PrivateKey kp)"
  have e: "encrypt cx n s (kp_PublicKey kp @ kp_PrivateKey kp) = Some c"
    using assms(2) by (simp add: encrypt_def c_def)
  have w: "fst (write_atomic f (keypair_path s) c (st_files s)) = None"
    and s': "s' = s\<lparr>st_files := snd (write_atomic f (keypair_path s) c (st_files s))\<rparr>"
    using assms(7) e by (auto simp: SaveKeyPair_def split_beta)
  have "decrypt cx s c = Some (kp_PublicKey kp @ kp_PrivateKey kp)"
    using assms(2-4) by (simp add: decrypt_def c_def)
  then show ?thesis
    using assms(5,6) w keypair_tmp [OF assms(1)] unfolding s'
    by (simp add: LoadKeyPair_def write_atomic_target no_fault_def)
qed

end
