(* ===== verification/DesiredState.thy ===== *)
theory DesiredState
  imports Supervisor Crypto
begin

text \<open>
  Desired-state synchronization (desired_state.go). \<open>sync_manager\<close> holds the supervisor it drives
  (and through it the store), the host key pair and the manager's own bookkeeping;
  acknowledgements handed to \<open>SendAcknowledgement\<close> and commands handed to the relay handler are
  recorded in order. A handler's observations are \<open>sync_io\<close>: those of the supervisor, the box,
  the server-name lookup of the TLS comparison, the text of a validation and of a store error and
  whether the n-th acknowledgement is delivered. \<open>applyDesiredTargets\<close> removes the targets that are
  no longer wanted in the order of the configured targets, where Go ranges over a map; the set of
  targets that remain does not depend on that order.
\<close>

section \<open>Data\<close>

record sync_io =
  si_host :: host_io
  si_nacl :: nacl
  si_server_name :: "string \<Rightarrow> string"
  si_errtext :: "validation_error \<Rightarrow> string"
  si_storetext :: "sup_error \<Rightarrow> string"
  si_ack_ok :: "nat \<Rightarrow> bool"

record rejected_profile =
  rj_TargetID :: string
  rj_Name :: string
  rj_Reason :: string

record target_ack_status =
  ta_Status :: string
  ta_Error :: string

record wipe_ack_payload =
  wa_Status :: string
  wa_Error :: string
  wa_WipedTargets :: int

record ack_payload =
  ak_Revision :: int
  ak_Status :: string
  ak_AgentVersion :: string
  ak_TargetStatuses :: "(string \<times> target_ack_status) list"
  ak_WipeAck :: "wipe_ack_payload option"

record sync_manager =
  sy_sup :: supervisor
  sy_keyPair :: "host_key_pair option"
  sy_interval :: duration
  sy_fastInterval :: duration
  sy_fastPollUntil :: time
  sy_lastRejected :: "rejected_profile list"
  sy_lastStatusPushAt :: time
  sy_statusPushInterval :: duration
  sy_acks :: "(string \<times> ack_payload) list"
  sy_relayed :: "relay_command list"

definition NewSyncManager :: "crypto_codec \<Rightarrow> fs_fault \<Rightarrow> supervisor \<Rightarrow> sync_manager" where
  "NewSyncManager cx f sv =
     \<lparr>sy_sup = sv,
      sy_keyPair = (case LoadKeyPair cx f (sv_store sv) of Inl e \<Rightarrow> None | Inr kp \<Rightarrow> kp),
      sy_interval = 60 * second, sy_fastInterval = 5 * second, sy_fastPollUntil = zero_time,
      sy_lastRejected = [], sy_lastStatusPushAt = zero_time, sy_statusPushInterval = 2 * minute,
      sy_acks = [], sy_relayed = []\<rparr>"

text \<open>The wait before the next fetch in \<open>run\<close>.\<close>

definition sync_poll_interval :: "time \<Rightarrow> sync_manager \<Rightarrow> duration" where
  "sync_poll_interval now m = (if now < sy_fastPollUntil m then sy_fastInterval m else sy_interval m)"

section \<open>Validation and credentials\<close>

fun validateProfiles ::
  "(validation_error \<Rightarrow> string) \<Rightarrow> desired_profile list \<Rightarrow> desired_profile list \<times> rejected_profile list"
where
  "validateProfiles txt [] = ([], [])"
| "validateProfiles txt (p # ps) =
     (case validateProfiles txt ps of (valid, rejected) \<Rightarrow>
       (case Validate p of
          Some err \<Rightarrow> (valid, \<lparr>rj_TargetID = dp_TargetID p, rj_Name = dp_Name p, rj_Reason = txt err\<rparr> # rejected)
        | None \<Rightarrow> (p # valid, rejected)))"

datatype cred_error = NoKeyPair | EmptyBlob | DecryptError envelope_error | UnmarshalError
  | EmptyPayload | Unavailable | BackendEncryptionError | UnknownMethod
  | BadFormat | BadAlgorithm | BadSenderKey | BadNonce | BadCiphertext | BadKeyLength | BadNonceLength
  | SecretError store_error

definition save_creds :: "sync_io \<Rightarrow> string \<Rightarrow> creds \<Rightarrow> store \<Rightarrow> cred_error option \<times> store" where
  "save_creds io tid cr s =
     (case SaveSecret (hx_cx (si_host io)) (hx_fault (si_host io)) (hx_nonce (si_host io) 1) tid cr s of
        (e, s') \<Rightarrow> (map_option SecretError e, s'))"

definition unmarshal_and_save :: "sync_io \<Rightarrow> string \<Rightarrow> envelope_error + string \<Rightarrow> store \<Rightarrow> cred_error option \<times> store" where
  "unmarshal_and_save io tid r s =
     (case r of Inl e \<Rightarrow> (Some (DecryptError e), s)
      | Inr plaintext \<Rightarrow>
         (case cx_unmarshalCreds (hx_cx (si_host io)) plaintext of
            None \<Rightarrow> (Some UnmarshalError, s)
          | Some cr \<Rightarrow> save_creds io tid cr s))"

definition processEnvelope ::
  "sync_io \<Rightarrow> host_key_pair \<Rightarrow> credential_envelope \<Rightarrow> string \<Rightarrow> store \<Rightarrow> cred_error option \<times> store" where
  "processEnvelope io kp env tid s =
     (if ce_Format env \<noteq> ''ecpv1'' then (Some BadFormat, s)
      else if ce_Algorithm env \<noteq> ''x25519-xsalsa20-poly1305'' then (Some BadAlgorithm, s)
      else (case nb_decode (si_nacl io) (ce_SenderPublicKey env) of None \<Rightarrow> (Some BadSenderKey, s)
            | Some senderPub \<Rightarrow>
        (case nb_decode (si_nacl io) (ce_Nonce env) of None \<Rightarrow> (Some BadNonce, s)
         | Some nonce \<Rightarrow>
        (case nb_decode (si_nacl io) (ce_Ciphertext env) of None \<Rightarrow> (Some BadCiphertext, s)
         | Some ciphertext \<Rightarrow>
           if length senderPub \<noteq> 32 then (Some BadKeyLength, s)
           else if length nonce \<noteq> 24 then (Some BadNonceLength, s)
           else unmarshal_and_save io tid
                  (DecryptCredentialPayload (si_nacl io)
                     (nb_encode (si_nacl io) (senderPub @ nonce @ ciphertext)) kp) s))))"

definition processCredentials ::
  "sync_io \<Rightarrow> host_key_pair option \<Rightarrow> desired_profile \<Rightarrow> store \<Rightarrow> cred_error option \<times> store" where
  "processCredentials io kp target s =
     (case dp_CredentialPayload target of None \<Rightarrow> (None, s)
      | Some cp \<Rightarrow>
         if cp_EncryptionMethod cp = ''host-keypair'' then
           (case kp of None \<Rightarrow> (Some NoKeyPair, s)
            | Some k \<Rightarrow>
               (case cp_Envelope cp of
                  Some env \<Rightarrow> processEnvelope io k env (dp_TargetID target) s
                | None \<Rightarrow>
                    if cp_EncryptedBlob cp = '''' then (Some EmptyBlob, s)
                    else unmarshal_and_save io (dp_TargetID target)
                           (DecryptCredentialPayload (si_nacl io) (cp_EncryptedBlob cp) k) s))
         else if cp_EncryptionMethod cp = ''token-scoped'' \<or> cp_EncryptionMethod cp = ''plaintext'' then
           (if cp_Credentials cp = [] then (Some EmptyPayload, s)
            else save_creds io (dp_TargetID target) (cp_Credentials cp) s)
         else if cp_EncryptionMethod cp = ''unavailable'' then (Some Unavailable, s)
         else if cp_EncryptionMethod cp = ''error'' then (Some BackendEncryptionError, s)
         else (Some UnknownMethod, s))"

text \<open>The loop over the valid targets; an error is only logged.\<close>

fun process_all_credentials :: "sync_io \<Rightarrow> host_key_pair option \<Rightarrow> desired_profile list \<Rightarrow> store \<Rightarrow> store" where
  "process_all_credentials io kp [] s = s"
| "process_all_credentials io kp (d # ds) s =
     process_all_credentials io kp ds
       (if dp_CredentialPayload d \<noteq> None then snd (processCredentials io kp d s) else s)"

section \<open>Acknowledgements\<close>

definition ack_entry :: "worker_state list \<Rightarrow> target_profile \<Rightarrow> target_ack_status" where
  "ack_entry wss t =
     \<lparr>ta_Status = tp_Status t,
      ta_Error = (if tp_Status t = TargetStatusError \<or> tp_Status t = TargetStatusDegraded
                  then (case find (\<lambda>ws. ws_TargetID ws = tp_TargetID t \<and> ws_LastError ws \<noteq> '''') wss of
                          None \<Rightarrow> '''' | Some ws \<Rightarrow> ws_LastError ws)
                  else '''')\<rparr>"

definition target_statuses :: "supervisor \<Rightarrow> (string \<times> target_ack_status) list" where
  "target_statuses s =
     fold (\<lambda>t m. AList.update (tp_TargetID t) (ack_entry (SupervisorStatus s) t) m) (GetTargets s) []"

definition reject_statuses ::
  "rejected_profile list \<Rightarrow> (string \<times> target_ack_status) list \<Rightarrow> (string \<times> target_ack_status) list" where
  "reject_statuses rs m =
     fold (\<lambda>r m. AList.update (rj_TargetID r)
            \<lparr>ta_Status = ''error'', ta_Error = ''rejected: '' @ rj_Reason r\<rparr> m) rs m"

definition final_status :: "sync_manager \<Rightarrow> string \<Rightarrow> string" where
  "final_status m status =
     (if sy_lastRejected m \<noteq> [] \<and> status = ''applied''
      then (if GetTargets (sy_sup m) \<noteq> [] then ''partial'' else ''failed'') else status)"

definition build_ack :: "int \<Rightarrow> string \<Rightarrow> sync_manager \<Rightarrow> ack_payload" where
  "build_ack revision st m =
     \<lparr>ak_Revision = revision, ak_Status = st, ak_AgentVersion = HostVersion,
      ak_TargetStatuses = reject_statuses (sy_lastRejected m) (target_statuses (sy_sup m)),
      ak_WipeAck = None\<rparr>"

definition sendAck :: "sync_io \<Rightarrow> int \<Rightarrow> string \<Rightarrow> sync_manager \<Rightarrow> sync_manager" where
  "sendAck io revision status m =
     (let sv = sy_sup m; token = GetConnectorToken sv
      in if token = '''' then m
         else
           let st = final_status m status;
               m1 = m\<lparr>sy_acks := sy_acks m @ [(token, build_ack revision st m)]\<rparr>
           in case sv_state sv of None \<Rightarrow> m1
              | Some hs \<Rightarrow>
                  m1\<lparr>sy_sup := snd (save_state (si_host io)
                      (sv\<lparr>sv_state := Some (hs\<lparr>hs_LastSyncRevision := revision,
                             hs_LastSyncAt := hx_now (si_host io), hs_LastAckStatus := st\<rparr>)\<rparr>))\<rparr>)"

definition maybeStatusPush :: "sync_io \<Rightarrow> sync_manager \<Rightarrow> sync_manager" where
  "maybeStatusPush io m =
     (let sv = sy_sup m; token = GetConnectorToken sv; now = hx_now (si_host io)
      in if time_sub now (sy_lastStatusPushAt m) < sy_statusPushInterval m then m
         else if token = '''' then m
         else if GetTargets sv = [] then m
         else
           let ack = \<lparr>ak_Revision = (case sv_state sv of None \<Rightarrow> 0 | Some hs \<Rightarrow> hs_LastSyncRevision hs),
                      ak_Status = ''applied'', ak_AgentVersion = HostVersion,
                      ak_TargetStatuses = target_statuses sv, ak_WipeAck = None\<rparr>;
               m1 = m\<lparr>sy_acks := sy_acks m @ [(token, ack)]\<rparr>
           in if si_ack_ok io (length (sy_acks m)) then m1\<lparr>sy_lastStatusPushAt := now\<rparr> else m1)"

section \<open>Local wipe\<close>

fun wipe_secrets :: "fs_fault \<Rightarrow> target_profile list \<Rightarrow> store \<Rightarrow> int \<times> store" where
  "wipe_secrets f [] s = (0, s)"
| "wipe_secrets f (t # ts) s =
     (case DeleteSecret f (tp_CredentialRef t) s of (e, s1) \<Rightarrow>
       (case wipe_secrets f ts s1 of (n, s2) \<Rightarrow> ((if e = None then 1 else 0) + n, s2)))"

definition executeLocalWipe :: "sync_io \<Rightarrow> supervisor \<Rightarrow> wipe_ack_payload \<times> supervisor" where
  "executeLocalWipe io s =
     (let targets = GetTargets s;
          s1 = Shutdown (si_host io) s;
          (n, store') = wipe_secrets (hx_fault (si_host io)) targets (sv_store s1);
          s2 = s1\<lparr>sv_store := store'\<rparr>
      in case sv_state s2 of
           None \<Rightarrow> (\<lparr>wa_Status = ''completed'', wa_Error = '''', wa_WipedTargets = n\<rparr>, s2)
         | Some hs \<Rightarrow>
             (case save_state (si_host io) (s2\<lparr>sv_state := Some (hs\<lparr>hs_Targets := []\<rparr>)\<rparr>) of
                (Some e, s3) \<Rightarrow> (\<lparr>wa_Status = ''failed'', wa_Error = ''state save failed: '' @ si_storetext io e, wa_WipedTargets = n\<rparr>, s3)
              | (None, s3) \<Rightarrow> (\<lparr>wa_Status = ''completed'', wa_Error = '''', wa_WipedTargets = n\<rparr>, s3)))"

definition sendWipeAck :: "int \<Rightarrow> wipe_ack_payload \<Rightarrow> sync_manager \<Rightarrow> sync_manager" where
  "sendWipeAck revision w m =
     (let token = GetConnectorToken (sy_sup m)
      in if token = '''' then m
         else m\<lparr>sy_acks := sy_acks m @ [(token, \<lparr>ak_Revision = revision, ak_Status = ''applied'',
                  ak_AgentVersion = HostVersion, ak_TargetStatuses = [], ak_WipeAck = Some w\<rparr>)]\<rparr>)"

section \<open>Host configuration and policy\<close>

definition isValidLogLevel :: "string \<Rightarrow> bool" where
  "isValidLogLevel l = (l = ''debug'' \<or> l = ''info'' \<or> l = ''warn'' \<or> l = ''error'')"

definition override_config :: "host_config_override \<Rightarrow> host_config \<Rightarrow> host_config" where
  "override_config ov c =
     (let c1 = (if ho_LogLevel ov \<noteq> '''' \<and> isValidLogLevel (ho_LogLevel ov)
                then c\<lparr>hc_LogLevel := ho_LogLevel ov\<rparr> else c);
          c2 = (if ho_SyncIntervalSecs ov > 0 \<and> ho_SyncIntervalSecs ov \<ge> 15
                then c1\<lparr>hc_SyncIntervalSecs := ho_SyncIntervalSecs ov\<rparr> else c1);
          c3 = (if ho_MaxConcurrentWorkers ov \<ge> 0
                then c2\<lparr>hc_MaxConcurrentWorkers := ho_MaxConcurrentWorkers ov\<rparr> else c2)
      in if ho_DisplayMode ov = ''lan-only'' \<or> ho_DisplayMode ov = ''hybrid''
         then c3\<lparr>hc_LanOnly := (ho_DisplayMode ov = ''lan-only'')\<rparr> else c3)"

definition applyHostConfig :: "host_config_override \<Rightarrow> supervisor \<Rightarrow> supervisor" where
  "applyHostConfig ov s =
     (case sv_state s of None \<Rightarrow> s
      | Some st \<Rightarrow>
         (let s1 = s\<lparr>sv_state := Some (st\<lparr>hs_Config := override_config ov (hs_Config st)\<rparr>)\<rparr>
          in if ho_DisplayMode ov = ''lan-only'' \<or> ho_DisplayMode ov = ''hybrid''
             then SupervisorSetLanOnly (ho_DisplayMode ov = ''lan-only'') s1 else s1))"

definition applyHostPolicy :: "host_policy \<Rightarrow> supervisor \<Rightarrow> supervisor" where
  "applyHostPolicy pol s =
     (case sv_state s of None \<Rightarrow> s
      | Some st \<Rightarrow>
         if hp_AutoUpdatePolicy pol \<noteq> ''''
         then s\<lparr>sv_state := Some (st\<lparr>hs_Config := (hs_Config st)\<lparr>hc_AutoUpdatePolicy := hp_AutoUpdatePolicy pol\<rparr>\<rparr>)\<rparr>
         else s)"

section \<open>Targets\<close>

definition desiredToInternal :: "time \<Rightarrow> desired_profile \<Rightarrow> target_profile" where
  "desiredToInternal now d =
     \<lparr>tp_TargetID = dp_TargetID d, tp_Name = dp_Name d, tp_TargetType = dp_TargetType d,
      tp_Mode = dp_Mode d, tp_Enabled = dp_Enabled d,
      tp_Status = (if dp_Status d = TargetStatusPaused \<and> \<not> dp_Paused d then TargetStatusPending
                   else dp_Status d),
      tp_Endpoint = dp_Endpoint d, tp_TLS = dp_TLS d, tp_Proxy = empty_proxy, tp_AuthType = dp_AuthType d,
      tp_Labels = dp_Labels d, tp_Capabilities = dp_Capabilities d,
      tp_PollIntervalSecs = dp_PollIntervalSecs d, tp_ResourceLimits = dp_ResourceLimits d,
      tp_Paused = dp_Paused d, tp_MaintenanceReason = dp_MaintenanceReason d,
      tp_CredentialRef = dp_TargetID d, tp_CredentialRotationDays = dp_CredentialRotationDays d,
      tp_ConfigVersion = dp_ConfigVersion d, tp_UpdatedAt = now, tp_TargetConfig = dp_TargetConfig d\<rparr>"

definition extractCredsFromPayload :: "credential_payload option \<Rightarrow> creds" where
  "extractCredsFromPayload cp =
     (case cp of None \<Rightarrow> []
      | Some c \<Rightarrow> if cp_EncryptionMethod c = ''token-scoped'' \<or> cp_EncryptionMethod c = ''plaintext''
                  then cp_Credentials c else [])"

definition profileChanged :: "(string \<Rightarrow> string) \<Rightarrow> target_profile \<Rightarrow> target_profile \<Rightarrow> bool" where
  "profileChanged sn current desired =
     (if tp_Endpoint current \<noteq> tp_Endpoint desired then True
      else if \<not> effectiveTLSConfigsEqual (effectiveTLSConfigFromProfile sn current)
                   (effectiveTLSConfigFromProfile sn desired) then True
      else if tp_PollIntervalSecs current \<noteq> tp_PollIntervalSecs desired then True
      else if tp_Mode current \<noteq> tp_Mode desired then True
      else if tp_AuthType current \<noteq> tp_AuthType desired then True
      else False)"

definition current_map :: "target_profile list \<Rightarrow> (string \<times> target_profile) list" where
  "current_map ts = fold (\<lambda>t m. AList.update (tp_TargetID t) t m) ts []"

text \<open>One desired target: whether it counts as an error, and the supervisor afterwards.\<close>

definition apply_one ::
  "sync_io \<Rightarrow> (string \<times> target_profile) list \<Rightarrow> desired_profile \<Rightarrow> supervisor \<Rightarrow> bool \<times> supervisor" where
  "apply_one io cm d s =
     (let profile = desiredToInternal (hx_now (si_host io)) d
      in case map_of cm (dp_TargetID d) of
           None \<Rightarrow> (case AddTarget (si_host io) profile (extractCredsFromPayload (dp_CredentialPayload d)) s of
                     (e, s') \<Rightarrow> (e \<noteq> None, s'))
         | Some current \<Rightarrow>
             if dp_ConfigVersion d > tp_ConfigVersion current
                \<or> profileChanged (si_server_name io) current profile
             then (False, snd (UpdateTarget (si_host io) profile s))
             else if dp_Enabled d \<noteq> tp_Enabled current \<or> dp_Paused d \<noteq> tp_Paused current
             then (False, snd (UpdateTarget (si_host io) profile s))
             else (False, s))"

fun apply_all ::
  "sync_io \<Rightarrow> (string \<times> target_profile) list \<Rightarrow> desired_profile list \<Rightarrow> nat \<times> nat \<Rightarrow> supervisor
   \<Rightarrow> (nat \<times> nat) \<times> supervisor" where
  "apply_all io cm [] c s = (c, s)"
| "apply_all io cm (d # ds) (errors, applied) s =
     (case apply_one io cm d s of (bad, s') \<Rightarrow>
       apply_all io cm ds (if bad then (Suc errors, applied) else (errors, Suc applied)) s')"

fun remove_missing ::
  "sync_io \<Rightarrow> string list \<Rightarrow> (string \<times> target_profile) list \<Rightarrow> nat \<times> nat \<Rightarrow> supervisor
   \<Rightarrow> (nat \<times> nat) \<times> supervisor" where
  "remove_missing io desired [] c s = (c, s)"
| "remove_missing io desired ((tid, t) # cs) (errors, applied) s =
     (if tid \<in> set desired then remove_missing io desired cs (errors, applied) s
      else (case RemoveTarget (si_host io) tid s of (e, s') \<Rightarrow>
             remove_missing io desired cs
               (if e \<noteq> None then (Suc errors, applied) else (errors, Suc applied)) s'))"

definition apply_status :: "nat \<times> nat \<Rightarrow> string" where
  "apply_status c =
     (if fst c > 0 \<and> snd c > 0 then ''partial'' else if fst c > 0 then ''failed'' else ''applied'')"

definition applyDesiredTargets ::
  "sync_io \<Rightarrow> desired_profile list \<Rightarrow> supervisor \<Rightarrow> string \<times> supervisor" where
  "applyDesiredTargets io desired s =
     (let cm = current_map (GetTargets s);
          (c1, s1) = apply_all io cm desired (0, 0) s;
          (c2, s2) = remove_missing io (map dp_TargetID desired) cm c1 s1
      in (apply_status c2, s2))"

section \<open>Fetch and reconcile\<close>

datatype fetch_result = FetchError string | FetchEmpty | Fetched desired_state_payload

definition apply_config_and_policy :: "desired_state_payload \<Rightarrow> supervisor \<Rightarrow> supervisor" where
  "apply_config_and_policy p s =
     (let s1 = (case ds_HostConfig p of None \<Rightarrow> s | Some ov \<Rightarrow> applyHostConfig ov s)
      in case ds_Policy p of None \<Rightarrow> s1 | Some pol \<Rightarrow> applyHostPolicy pol s1)"

definition wants_wipe :: "desired_state_payload \<Rightarrow> bool" where
  "wants_wipe p = (case ds_WipeInstruction p of None \<Rightarrow> False
                   | Some w \<Rightarrow> wi_Action w = ''wipe_local_credentials'')"

text \<open>Pending relay commands: handed to the relay handler (its own goroutine), and fast polling starts.\<close>

definition relay_pending :: "sync_io \<Rightarrow> desired_state_payload \<Rightarrow> sync_manager \<Rightarrow> sync_manager" where
  "relay_pending io p m =
     (if ds_PendingCommands p \<noteq> []
      then m\<lparr>sy_fastPollUntil := hx_now (si_host io) + 30 * second,
             sy_relayed := sy_relayed m @ ds_PendingCommands p\<rparr>
      else m)"

definition fetchAndReconcile :: "sync_io \<Rightarrow> fetch_result \<Rightarrow> sync_manager \<Rightarrow> sync_manager" where
  "fetchAndReconcile io fetched m =
     (if GetConnectorToken (sy_sup m) = '''' then m
      else (case fetched of
          FetchError e \<Rightarrow> m
        | FetchEmpty \<Rightarrow> maybeStatusPush io m
        | Fetched p \<Rightarrow>
            if wants_wipe p then
              (case executeLocalWipe io (sy_sup m) of (w, s1) \<Rightarrow>
                sendAck io (ds_Revision p) ''applied'' (sendWipeAck (ds_Revision p) w (m\<lparr>sy_sup := s1\<rparr>)))
            else
              let m1 = relay_pending io p m;
                  (valid, rejected) = validateProfiles (si_errtext io) (ds_Targets p);
                  s1 = apply_config_and_policy p (sy_sup m1);
                  s2 = s1\<lparr>sv_store := process_all_credentials io (sy_keyPair m1) valid (sv_store s1)\<rparr>;
                  (status, s3) = applyDesiredTargets io valid s2
              in sendAck io (ds_Revision p) status (m1\<lparr>sy_lastRejected := rejected, sy_sup := s3\<rparr>)))"

section \<open>Target ids under the operations\<close>

definition ids :: "supervisor \<Rightarrow> string list" where
  "ids s = map tp_TargetID (GetTargets s)"

definition live :: "supervisor \<Rightarrow> bool" where
  "live s = (sup_inv s \<and> sv_state s \<noteq> None)"

lemma live_state: "live s \<Longrightarrow> \<exists>st. sv_state s = Some st \<and> ids s = map tp_TargetID (hs_Targets st)
    \<and> workers_ok s \<and> distinct (map tp_TargetID (hs_Targets st))"
  by (auto simp: live_def sup_inv_def ids_def GetTargets_def)

lemma Reconcile_ids:
  assumes "workers_ok s" and "sv_state s = Some st"
  shows "ids (snd (Reconcile io s)) = map tp_TargetID (hs_Targets st)" and "sv_state (snd (Reconcile io s)) \<noteq> None"
  using Reconcile_state [OF assms(2,1), of io] by (auto simp: ids_def GetTargets_def)

lemma AddTarget_ids:
  assumes "live s" and "AddTarget io p c s = (err, s')"
  shows "live s'" and "ids s' = ids s \<or> ids s' = ids s @ [tp_TargetID p]"
    and "err = None \<Longrightarrow> ids s' = ids s @ [tp_TargetID p]"
proof -
  obtain st where st: "sv_state s = Some st" "ids s = map tp_TargetID (hs_Targets st)" "workers_ok s"
    using live_state [OF assms(1)] by auto
  obtain e store' where e: "(if c \<noteq> []
      then SaveSecret (hx_cx io) (hx_fault io) (hx_nonce io 1) (tp_CredentialRef p) c (sv_store s)
      else (None, sv_store s)) = (e, store')" by fastforce
  let ?p = "p\<lparr>tp_UpdatedAt := hx_now io, tp_Status := (if tp_Status p = '''' then TargetStatusPending else tp_Status p)\<rparr>"
  let ?s = "s\<lparr>sv_store := store', sv_state := Some (st\<lparr>hs_Targets := hs_Targets st @ [?p]\<rparr>)\<rparr>"
  have ok: "workers_ok ?s" using st(3) by (simp add: workers_ok_def)
  have r: "ids (snd (Reconcile io ?s)) = ids s @ [tp_TargetID p]" "sv_state (snd (Reconcile io ?s)) \<noteq> None"
    using Reconcile_ids [OF ok, of "st\<lparr>hs_Targets := hs_Targets st @ [?p]\<rparr>" io] st(2) by simp_all
  have c: "s' = s \<and> err \<noteq> None \<or> s' = s\<lparr>sv_store := store'\<rparr> \<and> err \<noteq> None \<or> s' = snd (Reconcile io ?s)"
    using assms(2) st(1) e by (auto simp: AddTarget_def Let_def split: if_splits option.splits)
  have same: "ids (s\<lparr>sv_store := store'\<rparr>) = ids s" by (simp add: ids_def GetTargets_def)
  from c r same show "ids s' = ids s \<or> ids s' = ids s @ [tp_TargetID p]"
    "err = None \<Longrightarrow> ids s' = ids s @ [tp_TargetID p]" by auto
  have "sup_inv s'" using AddTarget_inv [of s io p c] assms by (simp add: live_def)
  moreover have "sv_state s' \<noteq> None" using c r(2) st(1) by auto
  ultimately show "live s'" by (simp add: live_def)
qed

lemma UpdateTarget_ids:
  assumes "live s" and "UpdateTarget io p s = (err, s')"
  shows "live s'" and "ids s' = ids s"
proof -
  obtain st where st: "sv_state s = Some st" "ids s = map tp_TargetID (hs_Targets st)" "workers_ok s"
    using live_state [OF assms(1)] by auto
  let ?tid = "tp_TargetID p"
  let ?st = "st\<lparr>hs_Targets := update_first ?tid (updated_profile (hx_now io) p) (hs_Targets st)\<rparr>"
  let ?s = "(stop_worker io ?tid s)\<lparr>sv_failedRetryAt := AList.delete ?tid (sv_failedRetryAt s),
      sv_failedRetries := AList.delete ?tid (sv_failedRetries s), sv_state := Some ?st\<rparr>"
  have ok: "workers_ok ?s" by (rule workers_ok_delete [of s _ ?tid]) (use st(3) in simp_all)
  have r: "ids (snd (Reconcile io ?s)) = ids s" "sv_state (snd (Reconcile io ?s)) \<noteq> None"
    using Reconcile_ids [OF ok, of ?st io] st(2) by simp_all
  have c: "s' = s \<or> s' = snd (Reconcile io ?s)"
    using assms(2) st(1) by (auto simp: UpdateTarget_def Let_def split: if_splits)
  have "sup_inv s'" using UpdateTarget_inv [of s io p] assms by (simp add: live_def)
  then show "live s'" "ids s' = ids s" using c r st(1) by (auto simp: live_def)
qed

lemma RemoveTarget_ids:
  assumes "live s" and "RemoveTarget io tid s = (err, s')"
  shows "live s'" and "ids s' = filter (\<lambda>x. x \<noteq> tid) (ids s)"
proof -
  obtain st where st: "sv_state s = Some st" "ids s = map tp_TargetID (hs_Targets st)"
    "distinct (map tp_TargetID (hs_Targets st))"
    using live_state [OF assms(1)] by auto
  have inv: "sup_inv s'" using RemoveTarget_inv [of s io tid] assms by (simp add: live_def)
  show "ids s' = filter (\<lambda>x. x \<noteq> tid) (ids s)"
  proof (cases "find (\<lambda>t. tp_TargetID t = tid) (hs_Targets st)")
    case None
    then have "tid \<notin> tp_TargetID ` set (hs_Targets st)" by (auto simp: find_None_iff)
    then have "filter (\<lambda>x. x \<noteq> tid) (map tp_TargetID (hs_Targets st)) = map tp_TargetID (hs_Targets st)"
      unfolding filter_id_conv by auto
    moreover have "ids s' = ids s"
      using assms(2) st(1) None by (auto simp: RemoveTarget_def Let_def ids_def GetTargets_def)
    ultimately show ?thesis using st(2) by simp
  next
    case (Some t)
    have "s' = snd (RemoveTarget io tid s)" using assms(2) by simp
    then have "ids s' = map tp_TargetID (remove_first tid (hs_Targets st))"
      using Some st(1) by (simp add: RemoveTarget_def Let_def ids_def GetTargets_def)
    then show ?thesis using remove_first_ids [OF st(3)] st(2) by simp
  qed
  have "sv_state s' \<noteq> None"
    using RemoveTarget_frame(2) [OF st(1), of io tid] assms(2) by auto
  with inv show "live s'" by (simp add: live_def)
qed

lemma apply_one_ids:
  assumes "live s" and "apply_one io cm d s = (bad, s')"
  shows "live s'" and "set (ids s) \<subseteq> set (ids s')" and "set (ids s') \<subseteq> insert (dp_TargetID d) (set (ids s))"
    and "map_of cm (dp_TargetID d) = None \<Longrightarrow> \<not> bad \<Longrightarrow> dp_TargetID d \<in> set (ids s')"
proof -
  let ?p = "desiredToInternal (hx_now (si_host io)) d"
  have id: "tp_TargetID ?p = dp_TargetID d" by (simp add: desiredToInternal_def)
  have "live s' \<and> set (ids s) \<subseteq> set (ids s') \<and> set (ids s') \<subseteq> insert (dp_TargetID d) (set (ids s)) \<and>
      (map_of cm (dp_TargetID d) = None \<and> \<not> bad \<longrightarrow> dp_TargetID d \<in> set (ids s'))"
  proof (cases "map_of cm (dp_TargetID d)")
    case None
    obtain e where a: "AddTarget (si_host io) ?p (extractCredsFromPayload (dp_CredentialPayload d)) s = (e, s')"
      and b: "bad = (e \<noteq> None)"
      using assms(2) None by (auto simp: apply_one_def Let_def split: prod.splits)
    from AddTarget_ids [OF assms(1) a] b show ?thesis unfolding id by auto
  next
    case (Some current)
    then have "s' = s \<or> s' = snd (UpdateTarget (si_host io) ?p s)"
      using assms(2) by (auto simp: apply_one_def Let_def split: if_splits)
    then show ?thesis
      using assms(1) Some UpdateTarget_ids [OF assms(1), of "si_host io" ?p "fst (UpdateTarget (si_host io) ?p s)"]
      by auto
  qed
  then show "live s'" "set (ids s) \<subseteq> set (ids s')" "set (ids s') \<subseteq> insert (dp_TargetID d) (set (ids s))"
    "map_of cm (dp_TargetID d) = None \<Longrightarrow> \<not> bad \<Longrightarrow> dp_TargetID d \<in> set (ids s')" by auto
qed

lemma apply_all_ids:
  assumes "live s" and "apply_all io cm ds c s = (c', s')"
  shows "live s' \<and> set (ids s) \<subseteq> set (ids s') \<and> set (ids s') \<subseteq> set (ids s) \<union> set (map dp_TargetID ds) \<and>
     fst c \<le> fst c' \<and>
     (fst c' = 0 \<longrightarrow> (\<forall>d \<in> set ds. map_of cm (dp_TargetID d) = None \<longrightarrow> dp_TargetID d \<in> set (ids s')))"
  using assms
proof (induction ds arbitrary: c s)
  case Nil
  then show ?case by simp
next
  case (Cons d ds)
  obtain errors applied where c: "c = (errors, applied)" by (cases c)
  obtain bad s1 where a: "apply_one io cm d s = (bad, s1)" by fastforce
  note one = apply_one_ids [OF Cons.prems(1) a]
  have r: "apply_all io cm ds (if bad then (Suc errors, applied) else (errors, Suc applied)) s1 = (c', s')"
    using Cons.prems(2) a by (simp add: c)
  note IH = Cons.IH [OF one(1) r]
  have "bad \<Longrightarrow> fst c' \<noteq> 0" using IH by auto
  with IH one show ?case by (auto simp: c split: if_splits)
qed

lemma remove_missing_ids:
  assumes "live s" and "remove_missing io desired cs c s = (c', s')"
  shows "live s' \<and> ids s' = filter (\<lambda>x. x \<notin> fst ` set cs \<or> x \<in> set desired) (ids s) \<and> fst c \<le> fst c'"
  using assms
proof (induction cs arbitrary: c s)
  case Nil
  then show ?case by simp
next
  case (Cons p cs)
  obtain tid t where p: "p = (tid, t)" by (cases p)
  obtain errors applied where c: "c = (errors, applied)" by (cases c)
  show ?case
  proof (cases "tid \<in> set desired")
    case True
    then have "remove_missing io desired cs (errors, applied) s = (c', s')" using Cons.prems(2) by (simp add: p c)
    from Cons.IH [OF Cons.prems(1) this] show ?thesis
      using True by (auto simp: p c intro!: filter_cong)
  next
    case False
    obtain e s1 where r: "RemoveTarget (si_host io) tid s = (e, s1)" by fastforce
    note rm = RemoveTarget_ids [OF Cons.prems(1) r]
    have "remove_missing io desired cs (if e \<noteq> None then (Suc errors, applied) else (errors, Suc applied)) s1 = (c', s')"
      using Cons.prems(2) False r by (simp add: p c)
    from Cons.IH [OF rm(1) this] rm(2) show ?thesis
      using False by (auto simp: p c intro!: filter_cong split: if_splits)
  qed
qed

lemma keys_current_map: "fst ` set (current_map ts) = tp_TargetID ` set ts"
proof -
  have "fst ` set (fold (\<lambda>t m. AList.update (tp_TargetID t) t m) ts m) = fst ` set m \<union> tp_TargetID ` set ts" for m
    by (induction ts arbitrary: m) (auto simp: dom_update)
  then show ?thesis by (simp add: current_map_def)
qed

lemma applyDesiredTargets_facts:
  assumes "live s" and "applyDesiredTargets io desired s = (status, s')"
  shows "live s'" and "set (ids s') \<subseteq> set (map dp_TargetID desired)"
    and "status = ''applied'' \<Longrightarrow> set (ids s') = set (map dp_TargetID desired)"
proof -
  let ?cm = "current_map (GetTargets s)"
  obtain c1 s1 where a: "apply_all io ?cm desired (0, 0) s = (c1, s1)" by fastforce
  obtain c2 s2 where r: "remove_missing io (map dp_TargetID desired) ?cm c1 s1 = (c2, s2)" by fastforce
  have s': "s' = s2" "status = apply_status c2" using assms(2) a r by (simp_all add: applyDesiredTargets_def Let_def)
  have keys: "fst ` set ?cm = set (ids s)" by (simp add: keys_current_map ids_def)
  note A = apply_all_ids [OF assms(1) a]
  then have l1: "live s1" by blast
  note R = remove_missing_ids [OF l1 r]
  show "live s'" using R s' by simp
  have i2: "set (ids s2) = {x \<in> set (ids s1). x \<notin> set (ids s) \<or> x \<in> set (map dp_TargetID desired)}"
    using R keys by auto
  show "set (ids s') \<subseteq> set (map dp_TargetID desired)" unfolding s' i2 using A by auto
  show "set (ids s') = set (map dp_TargetID desired)" if "status = ''applied''"
  proof -
    have "fst c2 = 0" using that s'(2) by (simp add: apply_status_def split: if_splits)
    then have z: "fst c1 = 0" using R by simp
    have "x \<in> set (ids s1)" if "x \<in> set (map dp_TargetID desired)" for x
    proof -
      from that obtain d where d: "d \<in> set desired" "dp_TargetID d = x" by auto
      show ?thesis
      proof (cases "map_of ?cm x")
        case None
        then show ?thesis using A z d by auto
      next
        case (Some t)
        then have "x \<in> set (ids s)" using keys by (metis map_of_eq_None_iff not_None_eq)
        then show ?thesis using A by auto
      qed
    qed
    then show ?thesis unfolding s' i2 using A by auto
  qed
qed

section \<open>Properties\<close>

text \<open>C8: Applying a desired state converges. Whatever fails on the way, afterwards no target is
  configured that the desired state does not list; and if the result is \<open>applied\<close>, the configured
  targets are exactly the desired ones. The supervisor's invariant is kept in every case.\<close>
theorem applyDesiredTargets_converges:
  assumes "sup_inv s" and "sv_state s = Some st" and "applyDesiredTargets io desired s = (status, s')"
  shows "sup_inv s' \<and> tp_TargetID ` set (GetTargets s') \<subseteq> dp_TargetID ` set desired \<and>
     (status = ''applied'' \<longrightarrow> tp_TargetID ` set (GetTargets s') = dp_TargetID ` set desired)"
proof -
  have "live s" using assms by (simp add: live_def)
  from applyDesiredTargets_facts [OF this assms(3)] show ?thesis by (auto simp: live_def ids_def)
qed

definition demo_desired :: "string \<Rightarrow> desired_profile" where
  "demo_desired tid = \<lparr>dp_TargetID = tid, dp_Name = ''sw'', dp_TargetType = ''brocade'', dp_Mode = ''readonly'',
     dp_Enabled = True, dp_Status = '''', dp_Endpoint = ''https://sw'', dp_TLS = demo_tls,
     dp_PollIntervalSecs = 60, dp_Labels = [], dp_Capabilities = [], dp_ResourceLimits = empty_limits,
     dp_Paused = False, dp_MaintenanceReason = '''', dp_AuthType = '''', dp_CredentialPayload = None,
     dp_CredentialRotationDays = 0, dp_TargetConfig = None, dp_ConfigVersion = 1\<rparr>"

definition demo_sio :: sync_io where
  "demo_sio = \<lparr>si_host = demo_hio, si_nacl = demo_nacl, si_server_name = id, si_errtext = (\<lambda>_. ''invalid''), si_storetext = (\<lambda>_. ''io''),
     si_ack_ok = (\<lambda>_. True)\<rparr>"

lemma demo_sup_inv: "distinct (map tp_TargetID ts) \<Longrightarrow> sup_inv (demo_sup ts)"
  by (simp add: sup_inv_def workers_ok_def)

theorem applyDesiredTargets_converges_witness:
  "sup_inv (demo_sup [demo_profile ''a'']) \<and>
   tp_TargetID ` set (GetTargets (snd (applyDesiredTargets demo_sio [demo_desired ''b''] (demo_sup [demo_profile ''a'']))))
     \<subseteq> {''b''}"
proof -
  obtain status s' where a: "applyDesiredTargets demo_sio [demo_desired ''b''] (demo_sup [demo_profile ''a'']) = (status, s')"
    by fastforce
  have i: "sup_inv (demo_sup [demo_profile ''a''])" by (simp add: demo_sup_inv)
  from applyDesiredTargets_converges [OF i demo_sup_facts(1) a] i a show ?thesis by (simp add: demo_desired_def)
qed

lemma live_same:
  assumes "live s" and "sv_workers s' = sv_workers s" and "ids s' = ids s" and "sv_state s' \<noteq> None"
  shows "live s'"
proof -
  have "map tp_TargetID (sv_targets s') = map tp_TargetID (sv_targets s)"
    using assms(3) by (simp add: ids_def GetTargets_def)
  then show ?thesis using assms sup_inv_same [of s s'] by (simp add: live_def)
qed

lemma ids_state: "sv_state s' = sv_state s \<Longrightarrow> ids s' = ids s"
  by (simp add: ids_def GetTargets_def)

lemma applyHostConfig_facts:
  assumes "live s"
  shows "live (applyHostConfig ov s)" and "ids (applyHostConfig ov s) = ids s"
proof -
  obtain st where st: "sv_state s = Some st" using live_state [OF assms] by auto
  let ?s1 = "s\<lparr>sv_state := Some (st\<lparr>hs_Config := override_config ov (hs_Config st)\<rparr>)\<rparr>"
  have i: "ids ?s1 = ids s" using st by (simp add: ids_def GetTargets_def)
  have l: "live ?s1" by (rule live_same [OF assms]) (use i in simp_all)
  have "live (SupervisorSetLanOnly v ?s1)" "ids (SupervisorSetLanOnly v ?s1) = ids s" for v
    using SetLanOnly_inv [of ?s1 v] l i by (simp_all add: live_def SupervisorSetLanOnly_def ids_def GetTargets_def)
  then show "live (applyHostConfig ov s)" "ids (applyHostConfig ov s) = ids s"
    using l i st by (simp_all add: applyHostConfig_def Let_def)
qed

lemma applyHostPolicy_facts:
  assumes "live s"
  shows "live (applyHostPolicy pol s)" and "ids (applyHostPolicy pol s) = ids s"
proof -
  obtain st where st: "sv_state s = Some st" using live_state [OF assms] by auto
  show i: "ids (applyHostPolicy pol s) = ids s" using st by (simp add: applyHostPolicy_def ids_def GetTargets_def)
  show "live (applyHostPolicy pol s)"
    by (rule live_same [OF assms _ i]) (use st in \<open>simp_all add: applyHostPolicy_def\<close>)
qed

lemma config_and_policy_facts:
  assumes "live s"
  shows "live (apply_config_and_policy p s)" and "ids (apply_config_and_policy p s) = ids s"
  using assms applyHostConfig_facts applyHostPolicy_facts
  by (simp_all add: apply_config_and_policy_def Let_def split: option.split)

lemma sendAck_facts:
  assumes "live (sy_sup m)"
  shows "live (sy_sup (sendAck io rv status m))" and "ids (sy_sup (sendAck io rv status m)) = ids (sy_sup m)"
proof -
  obtain st where st: "sv_state (sy_sup m) = Some st" using live_state [OF assms] by auto
  show i: "ids (sy_sup (sendAck io rv status m)) = ids (sy_sup m)"
    using st by (simp add: sendAck_def Let_def ids_def GetTargets_def)
  show "live (sy_sup (sendAck io rv status m))"
    by (rule live_same [OF assms _ i]) (use st in \<open>simp_all add: sendAck_def Let_def\<close>)
qed

lemma executeLocalWipe_facts:
  assumes "live s"
  shows "live (snd (executeLocalWipe io s))" and "ids (snd (executeLocalWipe io s)) = []"
    and "sv_workers (snd (executeLocalWipe io s)) = []"
proof -
  obtain st where st: "sv_state s = Some st" using live_state [OF assms] by auto
  have "sv_state (snd (executeLocalWipe io s)) = Some (st\<lparr>hs_Targets := []\<rparr>)"
    and w: "sv_workers (snd (executeLocalWipe io s)) = []"
    using st by (simp_all add: executeLocalWipe_def Let_def Shutdown_def split_beta split: option.split)
  then show "live (snd (executeLocalWipe io s))" "ids (snd (executeLocalWipe io s)) = []"
    "sv_workers (snd (executeLocalWipe io s)) = []"
    by (simp_all add: live_def sup_inv_def workers_ok_def ids_def GetTargets_def)
qed

lemma validateProfiles_valid:
  "set (fst (validateProfiles txt ps)) = {p \<in> set ps. Validate p = None}"
proof (induction ps)
  case (Cons p ps)
  then show ?case by (cases "Validate p") (auto simp: split_beta)
qed simp

lemma maybeStatusPush_sup: "sy_sup (maybeStatusPush io m) = sy_sup m"
  by (simp add: maybeStatusPush_def Let_def)

lemma relay_pending_frame [simp]:
  "sy_sup (relay_pending io p m) = sy_sup m" "sy_keyPair (relay_pending io p m) = sy_keyPair m"
  by (simp_all add: relay_pending_def)

lemma fetch_valid_facts:
  assumes "live (sy_sup m)" and "\<not> wants_wipe p" and "GetConnectorToken (sy_sup m) \<noteq> ''''"
  shows "live (sy_sup (fetchAndReconcile io (Fetched p) m)) \<and>
     set (ids (sy_sup (fetchAndReconcile io (Fetched p) m))) \<subseteq> dp_TargetID ` {d \<in> set (ds_Targets p). Validate d = None}"
proof -
  define valid where "valid = fst (validateProfiles (si_errtext io) (ds_Targets p))"
  define s1 where "s1 = apply_config_and_policy p (sy_sup m)"
  define s2 where "s2 = s1\<lparr>sv_store := process_all_credentials io (sy_keyPair m) valid (sv_store s1)\<rparr>"
  obtain status s3 where a: "applyDesiredTargets io valid s2 = (status, s3)" by fastforce
  have l1: "live s1" using config_and_policy_facts [OF assms(1)] by (simp add: s1_def)
  have "live s2" by (rule live_same [OF l1]) (use l1 in \<open>simp_all add: s2_def ids_def GetTargets_def live_def\<close>)
  note A = applyDesiredTargets_facts [OF this a]
  define m1 where
    "m1 = (relay_pending io p m)\<lparr>sy_lastRejected := snd (validateProfiles (si_errtext io) (ds_Targets p)), sy_sup := s3\<rparr>"
  have m1: "sy_sup m1 = s3" "fetchAndReconcile io (Fetched p) m = sendAck io (ds_Revision p) status m1"
    using assms(2,3) a unfolding s2_def s1_def valid_def m1_def
    by (simp_all add: fetchAndReconcile_def Let_def split_beta)
  have "set (map dp_TargetID valid) = dp_TargetID ` {d \<in> set (ds_Targets p). Validate d = None}"
    by (simp add: valid_def validateProfiles_valid)
  then show ?thesis using sendAck_facts [of m1 io "ds_Revision p" status] A m1 by auto
qed

text \<open>C1: One synchronization is safe. A failed or empty fetch changes nothing of the supervisor (only
  a status push may be sent); whatever the control plane sends, the supervisor's invariant is kept; and
  after a wipe no target is configured, and after an ordinary payload every configured target has the
  id of a received profile that validation accepted.\<close>
theorem sync_is_safe:
  assumes "sup_inv (sy_sup m)" and "sv_state (sy_sup m) \<noteq> None"
    and "GetConnectorToken (sy_sup m) \<noteq> ''''"
  shows "(case fetched of
       FetchError e \<Rightarrow> fetchAndReconcile io fetched m = m
     | FetchEmpty \<Rightarrow> sy_sup (fetchAndReconcile io fetched m) = sy_sup m
     | Fetched p \<Rightarrow>
         sup_inv (sy_sup (fetchAndReconcile io fetched m)) \<and>
         (if wants_wipe p then GetTargets (sy_sup (fetchAndReconcile io fetched m)) = []
          else tp_TargetID ` set (GetTargets (sy_sup (fetchAndReconcile io fetched m)))
                 \<subseteq> dp_TargetID ` {d \<in> set (ds_Targets p). Validate d = None}))"
proof -
  have l: "live (sy_sup m)" using assms by (simp add: live_def)
  show ?thesis
  proof (cases fetched)
    case (FetchError e)
    then show ?thesis by (simp add: fetchAndReconcile_def)
  next
    case FetchEmpty
    then show ?thesis by (simp add: fetchAndReconcile_def maybeStatusPush_sup)
  next
    case (Fetched p)
    show ?thesis
    proof (cases "wants_wipe p")
      case True
      obtain w s1 where e: "executeLocalWipe io (sy_sup m) = (w, s1)" by fastforce
      define m2 where "m2 = sendWipeAck (ds_Revision p) w (m\<lparr>sy_sup := s1\<rparr>)"
      have "sy_sup m2 = s1" by (simp add: m2_def sendWipeAck_def Let_def)
      then have "live (sy_sup m2)" "ids (sy_sup m2) = []" using executeLocalWipe_facts [OF l, of io] e by simp_all
      moreover have "fetchAndReconcile io fetched m = sendAck io (ds_Revision p) ''applied'' m2"
        using True Fetched assms(3) e by (simp add: fetchAndReconcile_def m2_def)
      ultimately show ?thesis
        using True Fetched sendAck_facts [of m2 io "ds_Revision p" "''applied''"]
        by (simp add: live_def ids_def)
    next
      case False
      then show ?thesis using Fetched fetch_valid_facts [OF l False assms(3), of io] by (simp add: live_def ids_def)
    qed
  qed
qed


definition demo_sync :: "target_profile list \<Rightarrow> sync_manager" where
  "demo_sync ts = NewSyncManager demo_codec no_fault
     ((demo_sup ts)\<lparr>sv_state := Some ((demo_state ts)\<lparr>hs_Identity := (hs_Identity (demo_state ts))\<lparr>hi_ConnectorToken := ''tok''\<rparr>\<rparr>)\<rparr>)"

definition demo_payload :: "desired_profile list \<Rightarrow> wipe_instruction option \<Rightarrow> desired_state_payload" where
  "demo_payload ds w = \<lparr>ds_Revision = 7, ds_RevisionHash = '''', ds_HostConfig = None, ds_Targets = ds, ds_Policy = None,
     ds_WipeInstruction = w, ds_PendingCommands = []\<rparr>"

definition demo_wipe :: wipe_instruction where
  "demo_wipe = \<lparr>wi_Action = ''wipe_local_credentials'', wi_RequestedAt = '''', wi_RequestedBy = ''''\<rparr>"

lemma demo_sync_facts [simp]:
  "sv_state (sy_sup (demo_sync ts)) = Some ((demo_state ts)\<lparr>hs_Identity := (hs_Identity (demo_state ts))\<lparr>hi_ConnectorToken := ''tok''\<rparr>\<rparr>)"
  "GetConnectorToken (sy_sup (demo_sync ts)) = ''tok''" "sv_store (sy_sup (demo_sync ts)) = demo_store"
  "GetTargets (sy_sup (demo_sync ts)) = ts"
  "distinct (map tp_TargetID ts) \<Longrightarrow> sup_inv (sy_sup (demo_sync ts))"
  by (simp_all add: demo_sync_def NewSyncManager_def GetConnectorToken_def GetTargets_def sup_inv_def workers_ok_def)

theorem sync_is_safe_witness:
  "let m = demo_sync [demo_profile ''a''];
       m' = fetchAndReconcile demo_sio (Fetched (demo_payload [demo_desired ''b'', (demo_desired ''c'')\<lparr>dp_Mode := ''readwrite''\<rparr>] None)) m
   in sup_inv (sy_sup m') \<and> tp_TargetID ` set (GetTargets (sy_sup m')) \<subseteq> {''b''}"
proof -
  let ?m = "demo_sync [demo_profile ''a'']"
  let ?ds = "[demo_desired ''b'', (demo_desired ''c'')\<lparr>dp_Mode := ''readwrite''\<rparr>]"
  let ?f = "Fetched (demo_payload ?ds None)"
  have "\<not> wants_wipe (demo_payload ?ds None)" by (simp add: wants_wipe_def demo_payload_def)
  moreover have "Validate ((demo_desired ''c'')\<lparr>dp_Mode := ''readwrite''\<rparr>) \<noteq> None"
    by (simp add: Validate_def demo_desired_def IsValidProfileMode_def effective_mode_def
        ProfileModeReadOnly_def ProfileModeOpsEnabled_def)
  then have b: "dp_TargetID ` {d \<in> set (ds_Targets (demo_payload ?ds None)). Validate d = None} \<subseteq> {''b''}"
    by (auto simp: demo_payload_def demo_desired_def)
  moreover have "sup_inv (sy_sup ?m)" by simp
  ultimately have "sup_inv (sy_sup (fetchAndReconcile demo_sio ?f ?m)) \<and>
      tp_TargetID ` set (GetTargets (sy_sup (fetchAndReconcile demo_sio ?f ?m)))
        \<subseteq> dp_TargetID ` {d \<in> set (ds_Targets (demo_payload ?ds None)). Validate d = None}"
    using sync_is_safe [of ?m demo_sio ?f] by simp
  then show ?thesis unfolding Let_def using b by (meson order_trans)
qed


section \<open>Wiping and delivering credentials\<close>

lemma SaveState_secret:
  assumes "clean_dir (st_configDir s)" and "plain_name t"
  shows "LoadSecret cx' g t (snd (SaveState cx f n st s)) = LoadSecret cx' g t s"
proof -
  note d = store_paths_distinct [OF assms assms(2)]
  have "map_of (st_files (snd (SaveState cx f n st s))) (secret_path s t) = map_of (st_files s) (secret_path s t)"
    using d(2,5) by (auto simp: SaveState_def write_atomic_other split_beta split: option.split)
  then show ?thesis by (intro Load_cong) simp_all
qed

lemma save_state_secret:
  assumes "clean_dir (st_configDir (sv_store s))" and "plain_name t"
  shows "LoadSecret cx' g t (sv_store (snd (save_state io s))) = LoadSecret cx' g t (sv_store s)"
    and "st_configDir (sv_store (snd (save_state io s))) = st_configDir (sv_store s)"
  using SaveState_secret [OF assms] by (simp_all add: save_state_def split_beta split: option.split)

lemma DeleteSecret_load:
  assumes "\<not> ff_remove_fails f"
  shows "DeleteSecret f t s = (None, s\<lparr>st_files := AList.delete (secret_path s t) (st_files s)\<rparr>)"
proof (cases "map_of (st_files s) (secret_path s t)")
  case None
  then have "AList.delete (secret_path s t) (st_files s) = st_files s"
    by (simp add: delete_id map_of_eq_None_iff)
  then show ?thesis using None by (simp add: DeleteSecret_def Let_def)
next
  case (Some c)
  then show ?thesis using assms by (simp add: DeleteSecret_def Let_def)
qed

lemma wipe_secrets_files:
  assumes "\<not> ff_remove_fails f"
  shows "wipe_secrets f ts s =
     (int (length ts), s\<lparr>st_files := fold AList.delete (map (\<lambda>t. secret_path s (tp_CredentialRef t)) ts) (st_files s)\<rparr>)"
  by (induction ts arbitrary: s) (simp_all add: DeleteSecret_load [OF assms])

lemma wiped_secret:
  assumes "\<not> ff_remove_fails f" and "t \<in> set ts"
  shows "LoadSecret cx g (tp_CredentialRef t) (snd (wipe_secrets f ts s)) = Inr None"
proof -
  have "secret_path s (tp_CredentialRef t) \<in> set (map (\<lambda>t. secret_path s (tp_CredentialRef t)) ts)"
    using assms(2) by auto
  then have "map_of (st_files (snd (wipe_secrets f ts s))) (secret_path s (tp_CredentialRef t)) = None"
    unfolding wipe_secrets_files [OF assms(1)] by (simp add: file_kv.get_del_all del: set_map)
  then show ?thesis by (simp add: LoadSecret_def wipe_secrets_files [OF assms(1)])
qed

lemma sendAck_secret:
  assumes "clean_dir (st_configDir (sv_store (sy_sup m)))" and "plain_name t"
  shows "LoadSecret cx g t (sv_store (sy_sup (sendAck io rv status m))) = LoadSecret cx g t (sv_store (sy_sup m))"
  using assms by (simp add: sendAck_def Let_def save_state_secret split: option.split)

lemma sendAck_acks:
  shows "GetConnectorToken (sy_sup m) \<noteq> '''' \<Longrightarrow> sy_acks (sendAck io rv status m) =
      sy_acks m @ [(GetConnectorToken (sy_sup m), build_ack rv (final_status m status) m)]"
    and "sv_workers (sy_sup (sendAck io rv status m)) = sv_workers (sy_sup m)"
  by (simp_all add: sendAck_def Let_def split: option.split)

lemma executeLocalWipe_secrets:
  assumes "clean_dir (st_configDir (sv_store s))" and "\<not> ff_remove_fails (hx_fault (si_host io))"
    and "t \<in> set (GetTargets s)" and "plain_name (tp_CredentialRef t)"
  shows "LoadSecret cx g (tp_CredentialRef t) (sv_store (snd (executeLocalWipe io s))) = Inr None"
    and "wa_WipedTargets (fst (executeLocalWipe io s)) = int (length (GetTargets s))"
    and "st_configDir (sv_store (snd (executeLocalWipe io s))) = st_configDir (sv_store s)"
proof -
  let ?s1 = "Shutdown (si_host io) s"
  let ?st = "snd (wipe_secrets (hx_fault (si_host io)) (GetTargets s) (sv_store ?s1))"
  let ?s2 = "?s1\<lparr>sv_store := ?st\<rparr>"
  have c1: "st_configDir (sv_store ?s1) = st_configDir (sv_store s)"
    by (simp add: Shutdown_def save_state_def split_beta split: option.split)
  have c2: "st_configDir ?st = st_configDir (sv_store s)" by (simp add: wipe_secrets_files [OF assms(2)] c1)
  have w: "LoadSecret cx g (tp_CredentialRef t) ?st = Inr None" using wiped_secret [OF assms(2,3)] .
  have n: "fst (wipe_secrets (hx_fault (si_host io)) (GetTargets s) (sv_store ?s1)) = int (length (GetTargets s))"
    by (simp add: wipe_secrets_files [OF assms(2)])
  let ?s3 = "\<lambda>hs. snd (save_state (si_host io) (?s2\<lparr>sv_state := Some (hs\<lparr>hs_Targets := []\<rparr>)\<rparr>))"
  have e: "snd (executeLocalWipe io s) = (case sv_state ?s1 of None \<Rightarrow> ?s2 | Some hs \<Rightarrow> ?s3 hs)"
    "wa_WipedTargets (fst (executeLocalWipe io s)) = int (length (GetTargets s))"
    using n by (simp_all add: executeLocalWipe_def Let_def split_beta split: option.split)
  have s3: "LoadSecret cx g (tp_CredentialRef t) (sv_store (?s3 hs)) = Inr None"
    "st_configDir (sv_store (?s3 hs)) = st_configDir (sv_store s)" for hs
    using save_state_secret [OF _ assms(4), of "?s2\<lparr>sv_state := Some (hs\<lparr>hs_Targets := []\<rparr>)\<rparr>"] c2 assms(1) w by simp_all
  show "LoadSecret cx g (tp_CredentialRef t) (sv_store (snd (executeLocalWipe io s))) = Inr None"
    "st_configDir (sv_store (snd (executeLocalWipe io s))) = st_configDir (sv_store s)"
    unfolding e using w c2 s3 by (simp_all split: option.split)
  show "wa_WipedTargets (fst (executeLocalWipe io s)) = int (length (GetTargets s))" by (rule e(2))
qed




end
