(* ===== verification/TargetIdentity.thy ===== *)
theory TargetIdentity
  imports HostTypes
begin

text \<open>
  Identity and file paths of locally configured targets: the record types and command-line checks of
  targetconfigure/run.go, the resolution of application target ids (targetconfigure/target_id.go)
  and the resolution of managed artifact paths (targetconfigure/managed_artifact.go). Strings are
  paths with \<open>/\<close> as separator, as on the platforms the connector supports, and
  \<open>filepath.Clean\<close> is defined as Go documents it. What \<open>filepath.EvalSymlinks\<close> returns is the
  argument \<open>ev\<close>. Regular expressions are written out as predicates on characters.
\<close>

section \<open>Records\<close>

record rest_entry =
  re_TransportMode :: string
  re_Username :: string
  re_PasswordFile :: string
  re_CAFile :: string

record ssh_entry =
  se_Username :: string
  se_KeyPath :: string
  se_PublicKeyPath :: string
  se_KnownHostsPath :: string
  se_KeyAlgorithm :: string
  se_KeyBits :: int
  se_KeyOrigin :: string
  se_KeyFingerprintSHA256 :: string

record readiness_rec =
  rr_RESTReady :: bool
  rr_RESTReason :: string
  rr_RESTSecurityState :: string
  rr_SSHReady :: bool
  rr_SSHReason :: string
  rr_SSHProbeStage :: string
  rr_LastSSHProbeAt :: string
  rr_LastSuccessfulSSHProbeAt :: string

record target_record =
  tr_TargetID :: string
  tr_Address :: string
  tr_RESTPort :: int
  tr_SSHPort :: int
  tr_REST :: "rest_entry option"
  tr_SSH :: "ssh_entry option"
  tr_LastWizard :: string
  tr_Readiness :: readiness_rec

record targets_doc =
  td_Version :: int
  td_Targets :: "(string \<times> target_record option) list"

definition targetsFile :: string where "targetsFile = ''targets.json''"
definition restSecretDir :: string where "restSecretDir = ''secrets/rest''"
definition sshKeyDir :: string where "sshKeyDir = ''keys''"
definition tlsDir :: string where "tlsDir = ''tls''"
definition knownHostsFn :: string where "knownHostsFn = ''known_hosts''"

section \<open>Target ids\<close>

definition in_range :: "char \<Rightarrow> char \<Rightarrow> char \<Rightarrow> bool" where
  "in_range a b c = (char_code a \<le> char_code c \<and> char_code c \<le> char_code b)"

definition is_hex :: "char \<Rightarrow> bool" where
  "is_hex c = (in_range (CHR ''0'') (CHR ''9'') c \<or> in_range (CHR ''a'') (CHR ''f'') c
     \<or> in_range (CHR ''A'') (CHR ''F'') c)"

definition safe_char :: "char \<Rightarrow> bool" where
  "safe_char c = (in_range (CHR ''A'') (CHR ''Z'') c \<or> in_range (CHR ''a'') (CHR ''z'') c
     \<or> in_range (CHR ''0'') (CHR ''9'') c \<or> c = CHR ''.'' \<or> c = CHR ''_'' \<or> c = CHR ''-'')"

definition is_variant :: "char \<Rightarrow> bool" where
  "is_variant c = (c \<in> set ''89abAB'')"

text \<open>\<open>profileUUIDRe\<close>, one predicate per character.\<close>

definition profileUUIDRe :: "(char \<Rightarrow> bool) list" where
  "profileUUIDRe = replicate 8 is_hex @ [\<lambda>c. c = CHR ''-''] @ replicate 4 is_hex @ [\<lambda>c. c = CHR ''-'']
     @ [in_range (CHR ''1'') (CHR ''5'')] @ replicate 3 is_hex @ [\<lambda>c. c = CHR ''-'']
     @ [is_variant] @ replicate 3 is_hex @ [\<lambda>c. c = CHR ''-''] @ replicate 12 is_hex"

definition match_chars :: "(char \<Rightarrow> bool) list \<Rightarrow> string \<Rightarrow> bool" where
  "match_chars ps s = list_all2 (\<lambda>p c. p c) ps s"

definition isProfileUUID :: "string \<Rightarrow> bool" where
  "isProfileUUID s = match_chars profileUUIDRe (trim_space s)"

definition canonicalUUID :: "string \<Rightarrow> string" where
  "canonicalUUID s0 =
     (let s = trim_space s0
      in if \<not> match_chars profileUUIDRe s then '''' else to_lower s)"

datatype target_id_error = ErrTargetIDMissing | ErrInvalidTargetID

definition EffectiveTargetID :: "string \<Rightarrow> target_record option \<Rightarrow> target_id_error + string" where
  "EffectiveTargetID profileName rec =
     (case rec of None \<Rightarrow> Inl ErrTargetIDMissing
      | Some r \<Rightarrow>
         if trim_space (tr_TargetID r) \<noteq> '''' then
           (let i = canonicalUUID (tr_TargetID r)
            in if i = '''' then Inl ErrInvalidTargetID else Inr i)
         else (let i = canonicalUUID profileName
               in if i \<noteq> '''' then Inr i else Inl ErrTargetIDMissing))"

datatype arg_error = TargetIDNotUUID | TargetIDRequired' | UnsupportedKeyAlgo string

definition resolveTargetIDArgs :: "string \<Rightarrow> string \<Rightarrow> arg_error + string" where
  "resolveTargetIDArgs profile targetIDFlag =
     (let tid = trim_space targetIDFlag
      in if tid \<noteq> '''' then
           (let i = canonicalUUID tid in if i = '''' then Inl TargetIDNotUUID else Inr i)
         else (let i = canonicalUUID profile
               in if i \<noteq> '''' then Inr i else Inl TargetIDRequired'))"

definition isSafeProfileName :: "string \<Rightarrow> bool" where
  "isSafeProfileName s =
     (let t = trim_space s in list_all safe_char t \<and> 1 \<le> length t \<and> length t \<le> 128)"

text \<open>Runs of unsafe characters become one dash each.\<close>

fun slug_from :: "bool \<Rightarrow> string \<Rightarrow> string" where
  "slug_from pending [] = []"
| "slug_from pending (c # s) =
     (if safe_char c then c # slug_from False s
      else if pending then slug_from True s
      else CHR ''-'' # slug_from True s)"

definition profileSlug :: "string \<Rightarrow> string" where
  "profileSlug i = (let safe = slug_from False i in if safe = '''' then ''target'' else safe)"

record key_choice =
  kc_GenerateAlgorithm :: string
  kc_ImportPath :: string
  kc_FromFlag :: bool

definition parseKeyChoice :: "string \<Rightarrow> string \<Rightarrow> arg_error + key_choice" where
  "parseKeyChoice keyAlgo0 importPath0 =
     (let keyAlgo = trim_space (to_lower keyAlgo0); importPath = trim_space importPath0
      in if importPath \<noteq> '''' then Inr \<lparr>kc_GenerateAlgorithm = '''', kc_ImportPath = importPath, kc_FromFlag = True\<rparr>
         else if keyAlgo = '''' then Inr \<lparr>kc_GenerateAlgorithm = ''rsa-3072'', kc_ImportPath = '''', kc_FromFlag = False\<rparr>
         else if keyAlgo = ''rsa-3072'' \<or> keyAlgo = ''rsa'' then
           Inr \<lparr>kc_GenerateAlgorithm = ''rsa-3072'', kc_ImportPath = '''', kc_FromFlag = True\<rparr>
         else if keyAlgo = ''ed25519'' then
           Inr \<lparr>kc_GenerateAlgorithm = ''ed25519'', kc_ImportPath = '''', kc_FromFlag = True\<rparr>
         else Inl (UnsupportedKeyAlgo keyAlgo))"

text \<open>The checks of \<open>Run\<close> before the wizard starts: the exit code 2, or the profile's target id
  and key choice.\<close>

definition Run_args :: "bool \<Rightarrow> string \<Rightarrow> string \<Rightarrow> string \<Rightarrow> string \<Rightarrow> string \<Rightarrow> nat + (string \<times> key_choice)" where
  "Run_args nonInteractive configDir profile targetID keyAlgo importExisting =
     (if nonInteractive then Inl 2
      else if trim_space profile = '''' then Inl 2
      else if trim_space configDir = '''' then Inl 2
      else if \<not> isSafeProfileName profile then Inl 2
      else (case resolveTargetIDArgs profile targetID of Inl e \<Rightarrow> Inl 2
            | Inr tid \<Rightarrow>
               if trim_space keyAlgo \<noteq> '''' \<and> trim_space importExisting \<noteq> '''' then Inl 2
               else (case parseKeyChoice keyAlgo importExisting of Inl e \<Rightarrow> Inl 2
                     | Inr kc \<Rightarrow> Inr (tid, kc))))"

section \<open>Paths\<close>

fun intercalate :: "char \<Rightarrow> string list \<Rightarrow> string" where
  "intercalate c [] = []"
| "intercalate c [w] = w"
| "intercalate c (w # v # ws) = w @ c # intercalate c (v # ws)"

definition is_abs :: "string \<Rightarrow> bool" where
  "is_abs s = (case s of [] \<Rightarrow> False | c # _ \<Rightarrow> c = CHR ''/'')"

fun clean_c :: "bool \<Rightarrow> string list \<Rightarrow> string list \<Rightarrow> string list" where
  "clean_c r st [] = rev st"
| "clean_c r st (c # cs) =
     (if c = '''' \<or> c = ''.'' then clean_c r st cs
      else if c = ''..'' then
        (case st of
           [] \<Rightarrow> clean_c r (if r then [] else [''..'']) cs
         | x # xs \<Rightarrow> if x = ''..'' then clean_c r (''..'' # st) cs else clean_c r xs cs)
      else clean_c r (c # st) cs)"

definition render :: "bool \<Rightarrow> string list \<Rightarrow> string" where
  "render r cs = (if r then CHR ''/'' # intercalate (CHR ''/'') cs
                  else if cs = [] then ''.'' else intercalate (CHR ''/'') cs)"

definition filepath_clean :: "string \<Rightarrow> string" where
  "filepath_clean s = render (is_abs s) (clean_c (is_abs s) [] (split_on (CHR ''/'') s))"

definition filepath_join :: "string list \<Rightarrow> string" where
  "filepath_join es =
     (case filter (\<lambda>e. e \<noteq> '''') es of [] \<Rightarrow> '''' | xs \<Rightarrow> filepath_clean (intercalate (CHR ''/'') xs))"

definition trim_prefix :: "string \<Rightarrow> string \<Rightarrow> string" where
  "trim_prefix s p = (if has_prefix s p then drop (length p) s else s)"

section \<open>Managed artifacts\<close>

datatype artifact_kind = ArtifactSSHPrivateKey | ArtifactSSHPublicKey | ArtifactKnownHosts
  | ArtifactRESTSecret | ArtifactTLSMaterial

datatype artifact_error = ErrManagedArtifactEmpty | ErrManagedArtifactControl | ErrManagedArtifactUnmanaged
  | ErrManagedArtifactTraversal | ErrManagedArtifactOutsideDir | EvalError

datatype eval_symlinks = EvMissing | EvError | EvTo string

definition artifactKindAllowsRelativePath :: "artifact_kind \<Rightarrow> string \<Rightarrow> bool" where
  "artifactKindAllowsRelativePath kind rel =
     (case kind of
        ArtifactSSHPrivateKey \<Rightarrow> has_prefix rel (sshKeyDir @ ''/'') \<and> rel \<noteq> sshKeyDir @ ''/''
      | ArtifactSSHPublicKey \<Rightarrow> has_prefix rel (sshKeyDir @ ''/'') \<and> rel \<noteq> sshKeyDir @ ''/''
      | ArtifactKnownHosts \<Rightarrow> rel = knownHostsFn
      | ArtifactRESTSecret \<Rightarrow> has_prefix rel (restSecretDir @ ''/'') \<and> rel \<noteq> restSecretDir @ ''/''
      | ArtifactTLSMaterial \<Rightarrow> has_prefix rel (tlsDir @ ''/'') \<and> rel \<noteq> tlsDir @ ''/'')"

text \<open>Control characters: the C0 range and DEL; a Unicode C1 control is a multi-byte sequence and is
  not represented in a byte string.\<close>

definition is_control :: "char \<Rightarrow> bool" where
  "is_control c = (char_code c < 32 \<or> char_code c = 127)"

definition managed_base :: "string \<Rightarrow> string" where
  "managed_base targetsDir = filepath_clean (trim_space targetsDir)"

definition managed_rel0 :: "string \<Rightarrow> string \<Rightarrow> artifact_error + string" where
  "managed_rel0 targetsDir path =
     (let slashPath = filepath_clean path; base = managed_base targetsDir
      in if is_abs path then
           (if has_prefix slashPath ''/config/'' then Inr (trim_prefix slashPath ''/config/'')
            else if base \<noteq> '''' \<and> base \<noteq> ''.'' \<and> (slashPath = base \<or> has_prefix slashPath (base @ ''/''))
            then Inr (trim_prefix (trim_prefix slashPath base) ''/'')
            else Inl ErrManagedArtifactUnmanaged)
         else Inr slashPath)"

definition managedArtifactRelativePath ::
  "string \<Rightarrow> string \<Rightarrow> artifact_kind \<Rightarrow> artifact_error + string" where
  "managedArtifactRelativePath targetsDir storedPath kind =
     (let path = trim_space storedPath
      in if path = '''' then Inl ErrManagedArtifactEmpty
         else if list_ex is_control path then Inl ErrManagedArtifactControl
         else (case managed_rel0 targetsDir path of Inl e \<Rightarrow> Inl e
               | Inr rel0 \<Rightarrow>
                  (let rel = trim_prefix (filepath_clean rel0) ''./''
                   in if rel = ''.'' \<or> rel = '''' then Inl ErrManagedArtifactTraversal
                      else if has_prefix rel ''../'' \<or> rel = ''..'' \<or> str_contains rel ''/../''
                      then Inl ErrManagedArtifactTraversal
                      else if \<not> artifactKindAllowsRelativePath kind rel then Inl ErrManagedArtifactUnmanaged
                      else Inr rel)))"

definition pathWithinDir :: "string \<Rightarrow> string \<Rightarrow> bool" where
  "pathWithinDir base0 candidate0 =
     (let base = filepath_clean base0; candidate = filepath_clean candidate0
      in candidate = base \<or> has_prefix candidate (base @ ''/''))"

definition ResolveManagedTargetArtifact ::
  "(string \<Rightarrow> eval_symlinks) \<Rightarrow> string \<Rightarrow> string \<Rightarrow> artifact_kind \<Rightarrow> artifact_error + string" where
  "ResolveManagedTargetArtifact ev targetsDir storedPath kind =
     (case managedArtifactRelativePath targetsDir storedPath kind of Inl e \<Rightarrow> Inl e
      | Inr rel \<Rightarrow>
         (let base = managed_base targetsDir
          in if base = ''.'' \<or> base = '''' then Inl ErrManagedArtifactOutsideDir
             else (let candidate = filepath_clean (filepath_join [base, rel])
                   in if \<not> pathWithinDir base candidate then Inl ErrManagedArtifactOutsideDir
                      else (case ev candidate of
                              EvTo resolved \<Rightarrow>
                                (let resolvedBase = (case ev base of EvTo b \<Rightarrow> b | _ \<Rightarrow> base)
                                 in if \<not> pathWithinDir resolvedBase resolved then Inl ErrManagedArtifactOutsideDir
                                    else Inr resolved)
                            | EvError \<Rightarrow> Inl EvalError
                            | EvMissing \<Rightarrow> Inr candidate))))"

definition isUnmanagedArtifactError :: "artifact_error \<Rightarrow> bool" where
  "isUnmanagedArtifactError e =
     (e = ErrManagedArtifactUnmanaged \<or> e = ErrManagedArtifactTraversal
      \<or> e = ErrManagedArtifactOutsideDir \<or> e = ErrManagedArtifactControl)"


section \<open>Cleaned paths\<close>

lemma split_on_free: "w \<in> set (split_on c s) \<Longrightarrow> c \<notin> set w"
proof (induction c s arbitrary: w rule: split_on.induct)
  case (2 c x s)
  then show ?case by (cases "x = c"; cases "split_on c s") auto
qed simp

lemma split_on_intercalate:
  assumes "ws \<noteq> []" and "\<forall>w \<in> set ws. c \<notin> set w"
  shows "split_on c (intercalate c ws) = ws"
  using assms by (induction c ws rule: intercalate.induct) (auto simp: split_on_plain split_on_append)

lemma intercalate_append:
  "xs \<noteq> [] \<Longrightarrow> ys \<noteq> [] \<Longrightarrow> intercalate c (xs @ ys) = intercalate c xs @ c # intercalate c ys"
proof (induction c xs rule: intercalate.induct)
  case (2 c w)
  then show ?case by (cases ys) auto
qed auto

lemma clean_c_append: "clean_c r st (xs @ ys) = clean_c r (rev (clean_c r st xs)) ys"
  by (induction r st xs rule: clean_c.induct) (auto split: list.splits)

definition plain_comp :: "string \<Rightarrow> bool" where
  "plain_comp c = (c \<noteq> '''' \<and> c \<noteq> ''.'' \<and> c \<noteq> ''..'')"

text \<open>The components of a cleaned path: plain, after some leading \<open>..\<close> if it is relative.\<close>

definition normal :: "bool \<Rightarrow> string list \<Rightarrow> bool" where
  "normal r cs = (\<exists>n ps. cs = replicate n ''..'' @ ps \<and> list_all plain_comp ps \<and> (r \<longrightarrow> n = 0))"

lemma clean_c_plain: "list_all plain_comp ps \<Longrightarrow> clean_c r st ps = rev st @ ps"
  by (induction ps arbitrary: st) (auto simp: plain_comp_def)

lemma clean_c_ups: "clean_c False (replicate m ''..'') (replicate n ''..'' @ cs) = clean_c False (replicate (m + n) ''..'') cs"
proof (induction n arbitrary: m)
  case (Suc n)
  show ?case
  proof (cases m)
    case 0
    then show ?thesis using Suc [of 1] by simp
  next
    case (Suc k)
    then show ?thesis using Suc.IH [of "Suc m"] by simp
  qed
qed simp

lemma clean_c_normal_id: "normal r cs \<Longrightarrow> clean_c r [] cs = cs"
proof -
  assume "normal r cs"
  then obtain n ps where cs: "cs = replicate n ''..'' @ ps" "list_all plain_comp ps" "r \<longrightarrow> n = 0"
    unfolding normal_def by blast
  show ?thesis
  proof (cases r)
    case True
    then show ?thesis using cs by (simp add: clean_c_plain)
  next
    case False
    then show ?thesis using cs clean_c_ups [of 0 n ps] by (simp add: clean_c_plain)
  qed
qed

lemma normal_snoc: "normal r cs \<Longrightarrow> plain_comp c \<Longrightarrow> normal r (cs @ [c])"
  unfolding normal_def by (force simp: list_all_iff)

lemma normal_butlast: "normal r (cs @ [c]) \<Longrightarrow> c \<noteq> ''..'' \<Longrightarrow> normal r cs"
proof -
  assume n: "normal r (cs @ [c])" and c: "c \<noteq> ''..''"
  then obtain n ps where e: "cs @ [c] = replicate n ''..'' @ ps" "list_all plain_comp ps" "r \<longrightarrow> n = 0"
    unfolding normal_def by blast
  have "ps \<noteq> []"
  proof
    assume "ps = []"
    then have "cs @ [c] = replicate n ''..''" using e(1) by simp
    then have "c \<in> set (replicate n ''..'')" by (metis in_set_conv_decomp)
    with c show False by simp
  qed
  then obtain qs q where "ps = qs @ [q]" by (metis rev_exhaust)
  then have "cs = replicate n ''..'' @ qs" "list_all plain_comp qs" using e by auto
  then show ?thesis using e(3) unfolding normal_def by blast
qed

lemma normal_ups: "normal False (cs @ [''..'']) \<Longrightarrow> normal False (cs @ [''..'', ''..''])"
proof -
  assume "normal False (cs @ [''..''])"
  then obtain n ps where e: "cs @ [''..''] = replicate n ''..'' @ ps" "list_all plain_comp ps"
    unfolding normal_def by blast
  have "ps = []"
  proof (rule ccontr)
    assume "ps \<noteq> []"
    then obtain qs q where "ps = qs @ [q]" by (metis rev_exhaust)
    with e show False by (simp add: plain_comp_def)
  qed
  then have "cs @ [''..'', ''..''] = replicate (Suc n) ''..'' @ []" using e
    by (metis append.assoc append_Cons append_Nil append_Nil2 replicate_Suc replicate_append_same)
  then show ?thesis unfolding normal_def by (intro exI [of _ "Suc n"] exI [of _ "[]"]) simp
qed

lemma normal_root: "normal True cs \<longleftrightarrow> list_all plain_comp cs"
  by (auto simp: normal_def)

lemma clean_c_normal: "normal r (rev st) \<Longrightarrow> normal r (clean_c r st cs)"
proof (induction r st cs rule: clean_c.induct)
  case (2 r st c cs)
  show ?case
  proof (cases "c = '''' \<or> c = ''.''")
    case True
    then show ?thesis using 2 by auto
  next
    case False
    show ?thesis
    proof (cases "c = ''..''")
      case up: True
      show ?thesis
      proof (cases st)
        case Nil
        have "normal r (rev (if r then [] else [''..'']))"
          unfolding normal_def by (rule exI [of _ "if r then 0 else 1"], rule exI [of _ "[]"]) simp
        then show ?thesis using 2 False up Nil by auto
      next
        case (Cons x xs)
        show ?thesis
        proof (cases "x = ''..''")
          case True
          have "\<not> r" using 2(6) Cons True by (auto simp: normal_root plain_comp_def)
          then have "normal r (rev (''..'' # st))" using normal_ups [of "rev xs"] 2(6) Cons True by simp
          then show ?thesis using 2(3) [OF False up Cons True] up Cons True by simp
        next
          case f: False
          then have "normal r (rev xs)" using normal_butlast [of r "rev xs" x] 2(6) Cons by simp
          then show ?thesis using 2(4) [OF False up Cons f] up Cons f by simp
        qed
      qed
    next
      case f: False
      then have "plain_comp c" using False by (simp add: plain_comp_def)
      then have "normal r (rev (c # st))" using normal_snoc [OF 2(6)] by simp
      then show ?thesis using 2(5) [OF False f] False f by simp
    qed
  qed
qed simp


definition sep_free :: "string list \<Rightarrow> bool" where
  "sep_free cs = list_all (\<lambda>w. CHR ''/'' \<notin> set w) cs"

lemma sep_free_simps [simp]: "sep_free []" "sep_free (c # cs) \<longleftrightarrow> CHR ''/'' \<notin> set c \<and> sep_free cs"
  "sep_free (xs @ ys) \<longleftrightarrow> sep_free xs \<and> sep_free ys" "sep_free (rev xs) \<longleftrightarrow> sep_free xs"
  by (auto simp: sep_free_def list_all_iff)

lemma clean_c_sep_free: "sep_free st \<Longrightarrow> sep_free cs \<Longrightarrow> sep_free (clean_c r st cs)"
proof (induction cs arbitrary: st)
  case (Cons c cs)
  then show ?case by (cases st) simp_all
qed simp

lemma normal_nonempty:
  assumes "normal r cs" and "c \<in> set cs"
  shows "c \<noteq> '''' \<and> c \<noteq> ''.''"
proof -
  obtain n ps where e: "cs = replicate n ''..'' @ ps" "list_all plain_comp ps" using assms(1) unfolding normal_def by blast
  then have "c = ''..'' \<or> plain_comp c" using assms(2) by (auto simp: list_all_iff split: if_splits)
  then show ?thesis by (auto simp: plain_comp_def)
qed

lemma normal_append: "normal r bs \<Longrightarrow> list_all plain_comp cs \<Longrightarrow> normal r (bs @ cs)"
proof -
  assume "normal r bs" and c: "list_all plain_comp cs"
  then obtain n ps where e: "bs = replicate n ''..'' @ ps" "list_all plain_comp ps" "r \<longrightarrow> n = 0"
    unfolding normal_def by blast
  then have "bs @ cs = replicate n ''..'' @ (ps @ cs)" "list_all plain_comp (ps @ cs)" using c by simp_all
  then show ?thesis using e(3) unfolding normal_def by blast
qed

lemma clean_comps_of: "normal (is_abs s) (clean_c (is_abs s) [] (split_on (CHR ''/'') s))"
  "sep_free (clean_c (is_abs s) [] (split_on (CHR ''/'') s))"
proof -
  show "normal (is_abs s) (clean_c (is_abs s) [] (split_on (CHR ''/'') s))"
    by (rule clean_c_normal) (auto simp: normal_def)
  have "sep_free (split_on (CHR ''/'') s)" by (auto simp: sep_free_def list_all_iff dest: split_on_free)
  then show "sep_free (clean_c (is_abs s) [] (split_on (CHR ''/'') s))"
    by (intro clean_c_sep_free) (simp add: sep_free_def)
qed

lemma is_abs_render:
  assumes "normal r cs" and "sep_free cs"
  shows "is_abs (render r cs) = r"
proof (cases cs)
  case Nil
  then show ?thesis by (simp add: render_def is_abs_def)
next
  case (Cons c ds)
  then have "c \<noteq> ''''" "CHR ''/'' \<notin> set c" using assms normal_nonempty [of r cs c] by (auto simp: sep_free_def)
  then show ?thesis using Cons by (cases c; cases ds) (auto simp: render_def is_abs_def)
qed

lemma split_render:
  assumes "sep_free cs" and "cs \<noteq> []"
  shows "split_on (CHR ''/'') (render r cs) = (if r then [''''] else []) @ cs"
  using assms split_on_intercalate [of cs "CHR ''/''"] by (simp add: render_def sep_free_def list_all_iff)

lemma clean_render:
  assumes "normal r cs" and "sep_free cs"
  shows "filepath_clean (render r cs) = render r cs"
proof (cases "cs = []")
  case True
  then show ?thesis by (cases r) (simp_all add: render_def filepath_clean_def is_abs_def)
next
  case False
  have "clean_c r [] ((if r then [''''] else []) @ cs) = cs"
    using clean_c_normal_id [OF assms(1)] by (cases r) simp_all
  then show ?thesis using split_render [OF assms(2) False, of r] is_abs_render [OF assms]
    by (simp add: filepath_clean_def)
qed

lemma filepath_clean_form:
  obtains cs where "filepath_clean s = render (is_abs s) cs" "normal (is_abs s) cs" "sep_free cs"
  using clean_comps_of [of s] by (simp add: filepath_clean_def)

lemma filepath_clean_idem: "filepath_clean (filepath_clean s) = filepath_clean s"
  using filepath_clean_form [of s] clean_render by metis

lemma clean_no_dot_slash: "\<not> has_prefix (filepath_clean s) ''./''"
proof
  assume p: "has_prefix (filepath_clean s) ''./''"
  obtain cs where cs: "filepath_clean s = render (is_abs s) cs" "normal (is_abs s) cs" "sep_free cs"
    by (rule filepath_clean_form)
  from p obtain t where t: "filepath_clean s = ''.'' @ CHR ''/'' # t" by (auto simp: has_prefix_append)
  then have n: "\<not> is_abs s" using cs(1) by (auto simp: render_def)
  have ne: "cs \<noteq> []" using t cs(1) n by (auto simp: render_def)
  have "split_on (CHR ''/'') (filepath_clean s) = ''.'' # split_on (CHR ''/'') t"
    unfolding t by (simp add: split_on_append [of _ "''.''", simplified])
  then have "cs = ''.'' # split_on (CHR ''/'') t" using split_render [OF cs(3) ne, of "is_abs s"] cs(1) n by simp
  then have "''.'' \<in> set cs" by simp
  then show False using normal_nonempty [OF cs(2)] by blast
qed

text \<open>What the checks of \<open>managedArtifactRelativePath\<close> leave: a relative path of plain components.\<close>

lemma managed_rel_plain:
  assumes "managedArtifactRelativePath dir stored kind = Inr rel"
  obtains cs where "rel = intercalate (CHR ''/'') cs" "list_all plain_comp cs" "sep_free cs" "cs \<noteq> []"
    "artifactKindAllowsRelativePath kind rel"
proof -
  obtain rel0 where r: "rel = filepath_clean rel0" "rel \<noteq> ''.''" "\<not> has_prefix rel ''../''" "rel \<noteq> ''..''"
    and k: "artifactKindAllowsRelativePath kind rel"
    using assms clean_no_dot_slash
    by (auto simp: managedArtifactRelativePath_def Let_def trim_prefix_def split: if_splits sum.splits)
  obtain cs where cs: "rel = render (is_abs rel0) cs" "normal (is_abs rel0) cs" "sep_free cs"
    using filepath_clean_form [of rel0] r(1) by metis
  have "rel \<noteq> '''' \<and> hd rel \<noteq> CHR ''/''"
    using k by (cases kind) (auto simp: artifactKindAllowsRelativePath_def sshKeyDir_def restSecretDir_def
        tlsDir_def knownHostsFn_def has_prefix_append)
  then have n: "\<not> is_abs rel0" using cs(1) by (auto simp: render_def)
  then have ne: "cs \<noteq> []" using cs(1) r(2) by (auto simp: render_def)
  then have rel: "rel = intercalate (CHR ''/'') cs" using cs(1) n by (simp add: render_def)
  obtain m ps where m: "cs = replicate m ''..'' @ ps" "list_all plain_comp ps"
    using cs(2) unfolding normal_def by blast
  have "m = 0"
  proof (rule ccontr)
    assume "m \<noteq> 0"
    then obtain k where "m = Suc k" by (cases m) auto
    then obtain ds where d: "cs = ''..'' # ds" using m by simp
    show False
    proof (cases ds)
      case Nil
      then show False using d rel r(4) by simp
    next
      case (Cons e es)
      then have "rel = ''../'' @ intercalate (CHR ''/'') ds" using d rel by simp
      then show False using r(3) by (auto simp: has_prefix_append)
    qed
  qed
  then show ?thesis using that rel m cs(3) ne k by simp
qed

lemma join_managed:
  assumes "base = render r bs" and "normal r bs" and "sep_free bs" and "base \<noteq> ''.''"
    and "list_all plain_comp cs" and "sep_free cs" and "cs \<noteq> []"
  shows "filepath_clean (filepath_join [base, intercalate (CHR ''/'') cs]) = render r (bs @ cs)"
proof -
  let ?rel = "intercalate (CHR ''/'') cs"
  have "base \<noteq> ''''"
    using assms(1-4) normal_nonempty [OF assms(2)] by (cases bs rule: list.exhaust; cases "tl bs") (auto simp: render_def)
  moreover have "?rel \<noteq> ''''"
    using assms(5,7) by (cases cs; cases "tl cs") (auto simp: plain_comp_def)
  ultimately have j: "filepath_join [base, ?rel] = filepath_clean (base @ CHR ''/'' # ?rel)"
    by (simp add: filepath_join_def)
  have a: "is_abs (base @ CHR ''/'' # ?rel) = r"
    using is_abs_render [OF assms(2,3)] assms(1) \<open>base \<noteq> ''''\<close> by (auto simp: is_abs_def split: list.splits)
  have "split_on (CHR ''/'') ?rel = cs"
    using split_on_intercalate assms(6,7) by (simp add: sep_free_def list_all_iff)
  then have "split_on (CHR ''/'') (base @ CHR ''/'' # ?rel) = split_on (CHR ''/'') base @ cs"
    by (simp add: split_on_append)
  moreover have "clean_c r [] (split_on (CHR ''/'') base) = bs"
  proof (cases "bs = []")
    case True
    then show ?thesis using assms(1,4) by (cases r) (auto simp: render_def)
  next
    case False
    then show ?thesis using split_render [OF assms(3) False, of r] assms(1) clean_c_normal_id [OF assms(2)]
      by (cases r) simp_all
  qed
  ultimately have "clean_c r [] (split_on (CHR ''/'') (base @ CHR ''/'' # ?rel)) = bs @ cs"
    by (simp add: clean_c_append clean_c_plain [OF assms(5)])
  then have "filepath_clean (base @ CHR ''/'' # ?rel) = render r (bs @ cs)" using a by (simp add: filepath_clean_def)
  moreover have "filepath_clean (render r (bs @ cs)) = render r (bs @ cs)"
  proof (rule clean_render)
    show "normal r (bs @ cs)" by (rule normal_append [OF assms(2,5)])
    show "sep_free (bs @ cs)" using assms(3,6) by simp
  qed
  ultimately show ?thesis using j by simp
qed


section \<open>Properties\<close>

lemma pathWithinDir_root:
  assumes "list_all plain_comp cs" and "sep_free cs" and "cs \<noteq> []"
  shows "\<not> pathWithinDir (render True []) (render True cs)"
proof
  assume w: "pathWithinDir (render True []) (render True cs)"
  have c: "filepath_clean (render True cs) = render True cs" "filepath_clean (render True []) = ''/''"
    using clean_render [of True cs] clean_render [of True "[]"] assms by (simp_all add: normal_root) (simp add: render_def)
  obtain d ds where d: "cs = d # ds" "d \<noteq> ''''" "CHR ''/'' \<notin> set d" using assms by (cases cs) (auto simp: plain_comp_def)
  then obtain x xs where x: "d = x # xs" "x \<noteq> CHR ''/''" by (cases d) auto
  have "render True cs \<noteq> ''/''" "\<not> has_prefix (render True cs) (''/'' @ ''/'')"
    using d x by (cases ds; simp add: render_def)+
  then show False using w c by (simp add: pathWithinDir_def Let_def)
qed

lemma managed_confined:
  assumes "ResolveManagedTargetArtifact ev targetsDir stored kind = Inr p"
  shows "\<exists>rel. artifactKindAllowsRelativePath kind rel \<and> ''..'' \<notin> set (split_on (CHR ''/'') rel) \<and>
     (let base = managed_base targetsDir; candidate = base @ ''/'' @ rel in
        (ev candidate = EvMissing \<and> p = candidate) \<or>
        (ev candidate = EvTo p \<and> pathWithinDir (case ev base of EvTo b \<Rightarrow> b | _ \<Rightarrow> base) p))"
proof -
  let ?base = "managed_base targetsDir"
  obtain rel where rel: "managedArtifactRelativePath targetsDir stored kind = Inr rel"
    using assms by (auto simp: ResolveManagedTargetArtifact_def split: sum.splits)
  let ?cand = "filepath_clean (filepath_join [?base, rel])"
  have b: "?base \<noteq> ''.''" and within: "pathWithinDir ?base ?cand"
    and res: "(ev ?cand = EvMissing \<and> p = ?cand) \<or>
        (ev ?cand = EvTo p \<and> pathWithinDir (case ev ?base of EvTo b \<Rightarrow> b | _ \<Rightarrow> ?base) p)"
    using assms rel by (auto simp: ResolveManagedTargetArtifact_def Let_def split: if_splits eval_symlinks.splits)
  obtain cs where cs: "rel = intercalate (CHR ''/'') cs" "list_all plain_comp cs" "sep_free cs" "cs \<noteq> []"
    "artifactKindAllowsRelativePath kind rel" using managed_rel_plain [OF rel] .
  obtain r bs where bs: "?base = render r bs" "normal r bs" "sep_free bs"
    unfolding managed_base_def by (metis filepath_clean_form)
  have cand: "?cand = render r (bs @ cs)"
    unfolding cs(1) by (rule join_managed [OF bs b cs(2-4)])
  have "bs \<noteq> []"
  proof
    assume e: "bs = []"
    then have "r" using bs(1) b by (cases r) (simp_all add: render_def)
    then show False using within pathWithinDir_root [OF cs(2-4)] cand bs(1) e by simp
  qed
  then have "render r (bs @ cs) = render r bs @ ''/'' @ rel"
    using cs(1,4) by (simp add: render_def intercalate_append)
  then have "?cand = ?base @ ''/'' @ rel" using cand bs(1) by simp
  moreover have "split_on (CHR ''/'') rel = cs"
    using cs split_on_intercalate by (simp add: sep_free_def list_all_iff)
  moreover have "''..'' \<notin> set cs" using cs(2) by (auto simp: list_all_iff plain_comp_def)
  ultimately show ?thesis using res cs(5) by (intro exI [of _ rel]) (simp add: Let_def)
qed



lemma to_lower_hex: "is_hex c \<Longrightarrow> is_hex (to_lower_char c)"
  by (auto simp: is_hex_def in_range_def to_lower_char_def char_code_def of_char_of)

lemma match_cong: "match_chars ps s \<Longrightarrow> (\<And>p c. p \<in> set ps \<Longrightarrow> p c \<Longrightarrow> p (f c)) \<Longrightarrow> match_chars ps (map f s)"
  unfolding match_chars_def list_all2_conv_all_nth by (metis length_map nth_map nth_mem)

lemma char_of_ab: "(char_of (97 :: nat) :: char) = CHR ''a''" "(char_of (98 :: nat) :: char) = CHR ''b''"
  by code_simp+

lemma uuid_lower: "match_chars profileUUIDRe s \<Longrightarrow> match_chars profileUUIDRe (to_lower s)"
  unfolding to_lower_def
proof (rule match_cong)
  fix p c assume "p \<in> set profileUUIDRe" "p c"
  then show "p (to_lower_char c)"
    using to_lower_hex [of c]
    by (auto simp: profileUUIDRe_def is_variant_def in_range_def to_lower_char_def char_code_def char_of_ab)
qed

lemma hex_safe: "is_hex c \<Longrightarrow> safe_char c \<and> \<not> is_space c"
  unfolding is_hex_def safe_char_def in_range_def is_space_def char_code_def by simp linarith

lemma dash_safe: "safe_char (CHR ''-'') \<and> \<not> is_space (CHR ''-'')"
  by (simp add: safe_char_def is_space_def char_code_def)

lemma uuid_chars: "match_chars profileUUIDRe s \<Longrightarrow> c \<in> set s \<Longrightarrow> safe_char c \<and> \<not> is_space c"
proof -
  assume m: "match_chars profileUUIDRe s" and c: "c \<in> set s"
  then obtain i where i: "i < length s" "c = s ! i" by (metis in_set_conv_nth)
  then have "(profileUUIDRe ! i) c" "profileUUIDRe ! i \<in> set profileUUIDRe"
    using m by (auto simp: match_chars_def list_all2_conv_all_nth)
  moreover have "p c \<Longrightarrow> is_hex c \<or> c = CHR ''-''" if "p \<in> set profileUUIDRe" for p
    using that by (auto simp: profileUUIDRe_def is_variant_def in_range_def is_hex_def char_code_def)
  ultimately have "is_hex c \<or> c = CHR ''-''" by blast
  then show ?thesis using hex_safe dash_safe by blast
qed

lemma trim_space_free: "(\<And>c. c \<in> set s \<Longrightarrow> \<not> is_space c) \<Longrightarrow> trim_space s = s"
proof -
  assume h: "\<And>c. c \<in> set s \<Longrightarrow> \<not> is_space c"
  have "dropWhile is_space s = s" by (rule dropWhile_eq_self_iff [THEN iffD2]) (use h in \<open>cases s; auto\<close>)
  moreover have "dropWhile is_space (rev s) = rev s"
    by (rule dropWhile_eq_self_iff [THEN iffD2]) (use h in \<open>cases "rev s"; auto dest: arg_cong [where f = set]\<close>)
  ultimately show ?thesis by (simp add: trim_space_def)
qed

lemma to_lower_idem: "to_lower (to_lower s) = to_lower s"
  by (auto simp: to_lower_def to_lower_char_def char_code_def of_char_of)


lemma trim_space_idem: "trim_space (trim_space s) = trim_space s"
proof -
  define t where "t = dropWhile is_space s"
  define u where "u = rev (dropWhile is_space (rev t))"
  have ht: "t = [] \<or> \<not> is_space (hd t)" unfolding t_def by (metis hd_dropWhile)
  have "dropWhile is_space (rev u) = rev u" by (simp add: u_def dropWhile_idem)
  moreover have "dropWhile is_space u = u"
  proof (cases "u = []")
    case False
    obtain v where "t = u @ v" unfolding u_def
      by (metis rev_append rev_rev_ident takeWhile_dropWhile_id)
    then have "hd u = hd t" "t \<noteq> []" using False by auto
    then show ?thesis using ht False by (metis dropWhile_eq_self_iff)
  qed simp
  ultimately show ?thesis by (simp add: trim_space_def t_def [symmetric] u_def [symmetric])
qed

lemma canonicalUUID_fixed:
  assumes "canonicalUUID s = i" and "i \<noteq> ''''"
  shows "match_chars profileUUIDRe i \<and> canonicalUUID i = i \<and> to_lower i = i \<and> list_all safe_char i"
proof -
  have m: "match_chars profileUUIDRe (trim_space s)" "i = to_lower (trim_space s)"
    using assms by (auto simp: canonicalUUID_def Let_def split: if_splits)
  then have u: "match_chars profileUUIDRe i" using uuid_lower by simp
  then have t: "trim_space i = i" using uuid_chars by (intro trim_space_free) blast
  then have "canonicalUUID i = i" using u m(2) by (simp add: canonicalUUID_def to_lower_idem)
  then show ?thesis using u uuid_chars m(2) by (auto simp: list_all_iff to_lower_idem)
qed

text \<open>C16: The target id a record resolves to is always a canonical application UUID: 36 lower-case
  characters of the UUID grammar, a fixed point of canonicalization and safe as a file name. It is
  resolved from the record's own id alone when that is set, so a local profile label is published only
  if it is a UUID itself; resolving is the same whether the id comes from a record or from the command
  line.\<close>
theorem EffectiveTargetID_canonical:
  assumes "EffectiveTargetID profile (Some r) = Inr i"
  shows "length i = 36 \<and> match_chars profileUUIDRe i \<and> to_lower i = i \<and> canonicalUUID i = i \<and>
     isSafeProfileName i \<and> CHR ''/'' \<notin> set i \<and>
     i = canonicalUUID (if trim_space (tr_TargetID r) = '''' then profile else tr_TargetID r) \<and>
     resolveTargetIDArgs profile (tr_TargetID r) = Inr i"
proof -
  let ?s = "if trim_space (tr_TargetID r) = '''' then profile else tr_TargetID r"
  have c: "canonicalUUID ?s = i" and ne: "i \<noteq> ''''"
    using assms by (auto simp: EffectiveTargetID_def Let_def split: if_splits)
  note f = canonicalUUID_fixed [OF c ne]
  have len: "length i = 36"
    using f by (auto simp: match_chars_def profileUUIDRe_def dest!: list_all2_lengthD)
  have t: "trim_space i = i" using f uuid_chars by (intro trim_space_free) blast
  have idem: "trim_space (trim_space x) = trim_space x" for x
    by (rule trim_space_idem)
  have "canonicalUUID (trim_space x) = canonicalUUID x" for x by (simp add: canonicalUUID_def idem)
  then have "resolveTargetIDArgs profile (tr_TargetID r) = Inr i"
    using assms by (auto simp: EffectiveTargetID_def resolveTargetIDArgs_def Let_def split: if_splits)
  moreover have "CHR ''/'' \<notin> set i"
  proof
    assume "CHR ''/'' \<in> set i"
    then have "safe_char (CHR ''/'')" using f by (auto simp: list_all_iff)
    then show False by (simp add: safe_char_def in_range_def char_code_def)
  qed
  ultimately show ?thesis using f len c t by (simp add: isSafeProfileName_def Let_def)
qed

definition demo_record :: "string \<Rightarrow> target_record" where
  "demo_record i = \<lparr>tr_TargetID = i, tr_Address = ''10.0.0.12'', tr_RESTPort = 443, tr_SSHPort = 22, tr_REST = None,
     tr_SSH = Some \<lparr>se_Username = ''ops'', se_KeyPath = ''keys/sw1'', se_PublicKeyPath = '''', se_KnownHostsPath = ''known_hosts'',
       se_KeyAlgorithm = ''rsa'', se_KeyBits = 3072, se_KeyOrigin = ''generated'', se_KeyFingerprintSHA256 = ''fp''\<rparr>,
     tr_LastWizard = '''', tr_Readiness = \<lparr>rr_RESTReady = False, rr_RESTReason = '''', rr_RESTSecurityState = '''',
       rr_SSHReady = False, rr_SSHReason = '''', rr_SSHProbeStage = '''', rr_LastSSHProbeAt = '''', rr_LastSuccessfulSSHProbeAt = ''''\<rparr>\<rparr>"

definition demo_uuid :: string where
  "demo_uuid = ''0a1b2c3d-1111-4222-8333-0123456789ab''"

theorem EffectiveTargetID_canonical_witness:
  "EffectiveTargetID ''faba'' (Some (demo_record ''0A1B2C3D-1111-4222-8333-0123456789AB'')) = Inr demo_uuid \<and>
   canonicalUUID demo_uuid = demo_uuid \<and> length demo_uuid = 36"
proof -
  have "EffectiveTargetID ''faba'' (Some (demo_record ''0A1B2C3D-1111-4222-8333-0123456789AB'')) = Inr demo_uuid"
    by code_simp
  from this EffectiveTargetID_canonical [OF this] show ?thesis by simp
qed

end
