(* ===== verification/TargetStore.thy ===== *)
theory TargetStore
  imports TargetIdentity Readiness Store
begin

text \<open>
  The local target configuration of Brocade switches: targets.json and the runtime-readiness sidecar
  (targetconfigure/run.go, runtime_readiness.go), their inventory (target_config_inventory.go), the
  readiness snapshot published in the heartbeat (readiness_snapshot.go), the SSH readiness probe
  (probe_target.go and \<open>probeSSH\<close> of run.go) and the resolution of a target for evidence
  collection (resolved_target.go). The file system the process sees is \<open>tfs\<close>; JSON, hashing and
  the SSH library are the parameter \<open>target_codec\<close>, and the outcome of dialling is an argument.
\<close>

section \<open>Files\<close>

record tfs =
  tf_dirs :: "(string \<times> bool) list"
  tf_files :: "(string \<times> string option) list"
  tf_eval :: "string \<Rightarrow> eval_symlinks"

datatype read_result = NotExist | ReadError | Content string

definition read_path :: "tfs \<Rightarrow> string \<Rightarrow> read_result" where
  "read_path fs p = (case map_of (tf_files fs) p of None \<Rightarrow> NotExist
                     | Some None \<Rightarrow> ReadError | Some (Some c) \<Rightarrow> Content c)"

datatype write_outcome = WriteOk | WriteFailed | WritePermissive

text \<open>A temporary file and a rename: on failure the old file stays; too permissive a mode after the
  rename is reported although the file is written.\<close>

definition atomicWriteFile :: "write_outcome \<Rightarrow> string \<Rightarrow> string \<Rightarrow> tfs \<Rightarrow> bool \<times> tfs" where
  "atomicWriteFile out p d fs =
     (case out of
        WriteFailed \<Rightarrow> (False, fs)
      | WritePermissive \<Rightarrow> (False, fs\<lparr>tf_files := AList.update p (Some d) (tf_files fs)\<rparr>)
      | WriteOk \<Rightarrow> (True, fs\<lparr>tf_files := AList.update p (Some d) (tf_files fs)\<rparr>))"

definition filePresence :: "tfs \<Rightarrow> string \<Rightarrow> bool \<times> bool" where
  "filePresence fs path0 =
     (let p = trim_space path0
      in if p = '''' then (False, False)
         else (map_of (tf_files fs) p \<noteq> None, (case read_path fs p of Content c \<Rightarrow> True | _ \<Rightarrow> False)))"

record runtime_record =
  ru_TargetID :: string
  ru_ConfigFingerprint :: string
  ru_SSHReady :: bool
  ru_SSHReason :: string
  ru_SSHProbeStage :: string
  ru_LastProbeAt :: string
  ru_LastSuccessfulProbeAt :: string

record runtime_doc =
  rd_Version :: int
  rd_Targets :: "(string \<times> runtime_record) list option"
  rd_UpdatedAt :: string

record target_codec =
  tk_unmarshalTargets :: "string \<Rightarrow> (int \<times> (string \<times> target_record option) list option) option"
  tk_marshalTargets :: "targets_doc \<Rightarrow> string option"
  tk_unmarshalRuntime :: "string \<Rightarrow> runtime_doc option"
  tk_marshalRuntime :: "runtime_doc \<Rightarrow> string option"
  tk_parseAuthorizedKey :: "string \<Rightarrow> string option"
  tk_keyType :: "string \<Rightarrow> string option"
  tk_parsePrivateKey :: "string \<Rightarrow> string option"
  tk_b64encode :: "string \<Rightarrow> string"
  tk_b64decode :: "string \<Rightarrow> string option"
  tk_sha256 :: "string \<Rightarrow> string"
  tk_hex :: "string \<Rightarrow> string"
  tk_format :: "time \<Rightarrow> string"
  tk_parse :: "string \<Rightarrow> time option"

definition with_newline :: "string \<Rightarrow> string" where
  "with_newline buf = (if buf = '''' \<or> last buf \<noteq> CHR 0x0A then buf @ [CHR 0x0A] else buf)"

section \<open>targets.json\<close>

datatype load_error = LoadReadError | LoadParseError

definition loadTargets :: "target_codec \<Rightarrow> tfs \<Rightarrow> string \<Rightarrow> load_error + targets_doc" where
  "loadTargets tk fs configDir =
     (case read_path fs (filepath_join [configDir, targetsFile]) of
        NotExist \<Rightarrow> Inr \<lparr>td_Version = 1, td_Targets = []\<rparr>
      | ReadError \<Rightarrow> Inl LoadReadError
      | Content b \<Rightarrow> (case tk_unmarshalTargets tk b of None \<Rightarrow> Inl LoadParseError
                     | Some (v, ts) \<Rightarrow> Inr \<lparr>td_Version = v, td_Targets = (case ts of None \<Rightarrow> [] | Some m \<Rightarrow> m)\<rparr>))"

definition writeTargets :: "target_codec \<Rightarrow> write_outcome \<Rightarrow> string \<Rightarrow> targets_doc \<Rightarrow> tfs \<Rightarrow> bool \<times> tfs" where
  "writeTargets tk out configDir doc fs =
     (case tk_marshalTargets tk doc of None \<Rightarrow> (False, fs)
      | Some buf \<Rightarrow> atomicWriteFile out (filepath_join [configDir, targetsFile]) (with_newline buf) fs)"

section \<open>known\_hosts\<close>

definition sshFingerprintSHA256 :: "target_codec \<Rightarrow> string \<Rightarrow> string" where
  "sshFingerprintSHA256 tk wire = ''SHA256:'' @ trim_right (CHR ''='') (tk_b64encode tk (tk_sha256 tk wire))"

fun known_host_scan :: "target_codec \<Rightarrow> string \<Rightarrow> string list \<Rightarrow> string option" where
  "known_host_scan tk host [] = None"
| "known_host_scan tk host (line0 # ls) =
     (let line = trim_space line0; parts = str_fields line
      in if line = '''' \<or> has_prefix line ''#'' then known_host_scan tk host ls
         else if \<not> (has_prefix line (host @ '' '') \<or> has_prefix line (''['' @ host @ '']:'')) then known_host_scan tk host ls
         else if length parts < 3 then known_host_scan tk host ls
         else (case tk_parseAuthorizedKey tk (parts ! 1 @ '' '' @ parts ! 2) of
                 None \<Rightarrow> known_host_scan tk host ls
               | Some pub \<Rightarrow> Some (sshFingerprintSHA256 tk pub)))"

definition readKnownHostFingerprint :: "target_codec \<Rightarrow> tfs \<Rightarrow> string \<Rightarrow> string \<Rightarrow> string \<Rightarrow> string option" where
  "readKnownHostFingerprint tk fs targetsDir khPath host =
     (if khPath = '''' \<or> host = '''' then None
      else (let path = (if trim_space targetsDir \<noteq> ''''
                        then (case ResolveManagedTargetArtifact (tf_eval fs) targetsDir khPath ArtifactKnownHosts of
                                Inl e \<Rightarrow> None | Inr r \<Rightarrow> Some r)
                        else Some khPath)
            in case path of None \<Rightarrow> None
               | Some kh \<Rightarrow> (case read_path fs kh of
                              Content b \<Rightarrow> known_host_scan tk host (split_on (CHR 0x0A) b)
                            | _ \<Rightarrow> None)))"

definition knownHostsLine :: "target_codec \<Rightarrow> string \<Rightarrow> int \<Rightarrow> string \<Rightarrow> string" where
  "knownHostsLine tk host port wire =
     (let hostPart = (if port \<noteq> 22 then ''['' @ host @ '']:'' @ show_int port else host)
      in case tk_keyType tk wire of None \<Rightarrow> ''''
         | Some ty \<Rightarrow> hostPart @ '' '' @ ty @ '' '' @ tk_b64encode tk wire @ [CHR 0x0A])"

definition hasKnownHostEntry :: "tfs \<Rightarrow> string \<Rightarrow> string \<Rightarrow> bool" where
  "hasKnownHostEntry fs path host =
     (case read_path fs path of
        Content b \<Rightarrow> list_ex (\<lambda>line. has_prefix line (host @ '' '') \<or> has_prefix line (''['' @ host @ '']:''))
                       (split_on (CHR 0x0A) b)
      | _ \<Rightarrow> False)"

definition appendLineAtomic :: "write_outcome \<Rightarrow> string \<Rightarrow> string \<Rightarrow> tfs \<Rightarrow> bool \<times> tfs" where
  "appendLineAtomic out path line fs =
     (let existing = (case read_path fs path of Content b \<Rightarrow> b | _ \<Rightarrow> '''');
          ex = (if existing \<noteq> '''' \<and> last existing \<noteq> CHR 0x0A then existing @ [CHR 0x0A] else existing)
      in atomicWriteFile out path (ex @ line) fs)"

text \<open>The host-key callback: whether the presented key is accepted for the dialled address.\<close>

fun host_key_scan :: "target_codec \<Rightarrow> string \<Rightarrow> string \<Rightarrow> string list \<Rightarrow> bool" where
  "host_key_scan tk hostname presented [] = False"
| "host_key_scan tk hostname presented (line0 # ls) =
     (let line = trim_space line0; parts = str_fields line
      in if line = '''' \<or> has_prefix line ''#'' then host_key_scan tk hostname presented ls
         else if length parts < 3 then host_key_scan tk hostname presented ls
         else if \<not> has_prefix (parts ! 0) (takeWhile (\<lambda>c. c \<noteq> CHR '':'') hostname)
                 \<and> \<not> str_contains (parts ! 0) hostname then host_key_scan tk hostname presented ls
         else (case tk_b64decode tk (parts ! 2) of None \<Rightarrow> host_key_scan tk hostname presented ls
               | Some raw \<Rightarrow> if raw = presented then True else host_key_scan tk hostname presented ls))"

datatype host_key_verdict = HostKeyAccepted | KnownHostsUnreadable | HostKeyNotEnrolled

definition hostKeyCallbackFromFile ::
  "target_codec \<Rightarrow> tfs \<Rightarrow> string \<Rightarrow> string \<Rightarrow> string \<Rightarrow> host_key_verdict" where
  "hostKeyCallbackFromFile tk fs path hostname presented =
     (case read_path fs path of
        Content b \<Rightarrow> if host_key_scan tk hostname presented (split_on (CHR 0x0A) b)
                     then HostKeyAccepted else HostKeyNotEnrolled
      | _ \<Rightarrow> KnownHostsUnreadable)"

section \<open>Inventory\<close>

definition TargetConfigOK :: string where "TargetConfigOK = ''ok''"
definition TargetConfigMissing :: string where "TargetConfigMissing = ''target_configuration_missing''"
definition TargetConfigUnreadable :: string where "TargetConfigUnreadable = ''target_configuration_unreadable''"
definition TargetConfigNoTarget :: string where "TargetConfigNoTarget = ''target_not_configured''"
definition TargetConfigDuplicate :: string where "TargetConfigDuplicate = ''duplicate_target_id''"
definition TargetConfigKeyMissing :: string where "TargetConfigKeyMissing = ''ssh_key_not_found''"
definition TargetConfigKeyUnreadable :: string where "TargetConfigKeyUnreadable = ''ssh_key_unreadable''"
definition TargetConfigKnownHostsMissing :: string where "TargetConfigKnownHostsMissing = ''known_hosts_not_found''"
definition TargetConfigHostKeyMissing :: string where "TargetConfigHostKeyMissing = ''host_key_not_configured''"
definition TargetConfigUnmanagedArtifact :: string where "TargetConfigUnmanagedArtifact = ''unmanaged_artifact_path''"

lemmas config_status_defs = TargetConfigOK_def TargetConfigMissing_def TargetConfigUnreadable_def
  TargetConfigNoTarget_def TargetConfigDuplicate_def TargetConfigKeyMissing_def TargetConfigKeyUnreadable_def
  TargetConfigKnownHostsMissing_def TargetConfigHostKeyMissing_def TargetConfigUnmanagedArtifact_def

record config_inventory =
  ci_Dir :: string
  ci_File :: string
  ci_DirectoryPresent :: bool
  ci_DirectoryReadable :: bool
  ci_FilePresent :: bool
  ci_FileReadable :: bool
  ci_ParseSuccessful :: bool
  ci_RecordsLoaded :: nat
  ci_Status :: string

definition InspectTargetConfigDir :: "target_codec \<Rightarrow> tfs \<Rightarrow> string \<Rightarrow> config_inventory" where
  "InspectTargetConfigDir tk fs targetsDir =
     (let dir = trim_space targetsDir; file = filepath_join [dir, targetsFile];
          inv0 = \<lparr>ci_Dir = dir, ci_File = file, ci_DirectoryPresent = False, ci_DirectoryReadable = False,
                  ci_FilePresent = False, ci_FileReadable = False, ci_ParseSuccessful = False,
                  ci_RecordsLoaded = 0, ci_Status = TargetConfigMissing\<rparr>
      in if dir = '''' then inv0
         else (let inv = (case map_of (tf_dirs fs) dir of None \<Rightarrow> inv0
                          | Some readable \<Rightarrow> inv0\<lparr>ci_DirectoryPresent := True, ci_DirectoryReadable := readable\<rparr>)
               in case read_path fs file of
                    NotExist \<Rightarrow> inv
                  | ReadError \<Rightarrow> inv\<lparr>ci_FilePresent := True, ci_Status := TargetConfigUnreadable\<rparr>
                  | Content b \<Rightarrow>
                      (let inv1 = inv\<lparr>ci_FilePresent := True, ci_FileReadable := True\<rparr>
                       in case tk_unmarshalTargets tk b of
                            None \<Rightarrow> inv1\<lparr>ci_Status := TargetConfigUnreadable\<rparr>
                          | Some (v, ts) \<Rightarrow>
                              inv1\<lparr>ci_RecordsLoaded := (case ts of None \<Rightarrow> 0 | Some m \<Rightarrow> length m),
                                   ci_ParseSuccessful := True, ci_Status := TargetConfigOK\<rparr>)))"

record config_resolution =
  cr_Inventory :: config_inventory
  cr_Source :: string
  cr_Warning :: string

definition inspectTargetConfigCandidate :: "target_codec \<Rightarrow> tfs \<Rightarrow> string \<Rightarrow> string \<Rightarrow> string \<Rightarrow> config_resolution" where
  "inspectTargetConfigCandidate tk fs dir source warning =
     \<lparr>cr_Inventory = InspectTargetConfigDir tk fs dir, cr_Source = source, cr_Warning = warning\<rparr>"

definition ResolveTargetConfigStoreWithCanonical ::
  "target_codec \<Rightarrow> tfs \<Rightarrow> string \<Rightarrow> string \<Rightarrow> string \<Rightarrow> config_resolution" where
  "ResolveTargetConfigStoreWithCanonical tk fs envOverride configDir canonicalDir =
     (let env = trim_space envOverride
      in if env \<noteq> '''' then inspectTargetConfigCandidate tk fs env ''env'' ''''
         else
           (let canonical = inspectTargetConfigCandidate tk fs canonicalDir ''canonical'' '''';
                legacy = inspectTargetConfigCandidate tk fs (filepath_join [configDir, ''targets'']) ''legacy'' ''legacy_targets_dir''
            in if ci_FileReadable (cr_Inventory canonical) then
                 (if ci_FileReadable (cr_Inventory legacy)
                     \<and> ci_Dir (cr_Inventory legacy) \<noteq> ci_Dir (cr_Inventory canonical)
                  then canonical\<lparr>cr_Warning := ''multiple_target_config_sources''\<rparr> else canonical)
               else if ci_FileReadable (cr_Inventory legacy) then legacy
               else canonical))"

definition ResolveTargetConfigStore :: "target_codec \<Rightarrow> tfs \<Rightarrow> string \<Rightarrow> string \<Rightarrow> config_resolution" where
  "ResolveTargetConfigStore tk fs envOverride configDir =
     ResolveTargetConfigStoreWithCanonical tk fs envOverride configDir ''/etc/filterrex/targets''"

text \<open>The records that resolve to a target id, with their profile names.\<close>

definition resolving :: "string \<Rightarrow> (string \<times> target_record option) list \<Rightarrow> (string \<times> target_record option) list" where
  "resolving tid ts = filter (\<lambda>(n, r). EffectiveTargetID n r = Inr tid) ts"

record target_inventory =
  ti_Base :: config_inventory
  ti_TargetID :: string
  ti_TargetMatchCount :: nat
  ti_TargetProfileFound :: bool
  ti_SSHUsernamePresent :: bool
  ti_PrivateKeyPresent :: bool
  ti_PrivateKeyReadable :: bool
  ti_PublicKeyPresent :: bool
  ti_PublicKeyReadable :: bool
  ti_KnownHostsPresent :: bool
  ti_KnownHostsReadable :: bool
  ti_KnownHostsEntryFound :: bool
  ti_ResolvedStatus :: string

text \<open>The inspection of the single matching record.\<close>

definition inspect_record ::
  "target_codec \<Rightarrow> tfs \<Rightarrow> string \<Rightarrow> target_record option \<Rightarrow> target_inventory \<Rightarrow> target_inventory" where
  "inspect_record tk fs targetsDir match out =
     (case match of None \<Rightarrow> out\<lparr>ti_ResolvedStatus := TargetConfigKeyMissing\<rparr>
      | Some rec \<Rightarrow>
     (case tr_SSH rec of None \<Rightarrow> out\<lparr>ti_ResolvedStatus := TargetConfigKeyMissing\<rparr>
      | Some ssh \<Rightarrow>
         (let out1 = out\<lparr>ti_SSHUsernamePresent := trim_space (se_Username ssh) \<noteq> ''''\<rparr>;
              priv = ResolveManagedTargetArtifact (tf_eval fs) targetsDir (se_KeyPath ssh) ArtifactSSHPrivateKey;
              pub = ResolveManagedTargetArtifact (tf_eval fs) targetsDir (se_PublicKeyPath ssh) ArtifactSSHPublicKey;
              kh = ResolveManagedTargetArtifact (tf_eval fs) targetsDir (se_KnownHostsPath ssh) ArtifactKnownHosts
          in case (priv, kh) of
               (Inr privateKeyPath, Inr knownHostsPath) \<Rightarrow>
                 (if (case pub of Inl e \<Rightarrow> isUnmanagedArtifactError e | Inr p \<Rightarrow> False)
                  then out1\<lparr>ti_ResolvedStatus := TargetConfigUnmanagedArtifact\<rparr>
                  else
                    (let out2 = out1\<lparr>ti_PrivateKeyPresent := fst (filePresence fs privateKeyPath),
                                     ti_PrivateKeyReadable := snd (filePresence fs privateKeyPath)\<rparr>;
                         out3 = (case pub of Inl e \<Rightarrow> out2
                                 | Inr p \<Rightarrow> out2\<lparr>ti_PublicKeyPresent := fst (filePresence fs p),
                                                ti_PublicKeyReadable := snd (filePresence fs p)\<rparr>);
                         out4 = out3\<lparr>ti_KnownHostsPresent := fst (filePresence fs knownHostsPath),
                                     ti_KnownHostsReadable := snd (filePresence fs knownHostsPath)\<rparr>;
                         out5 = (if knownHostsPath \<noteq> '''' \<and> tr_Address rec \<noteq> ''''
                                    \<and> readKnownHostFingerprint tk fs targetsDir (se_KnownHostsPath ssh) (tr_Address rec) \<noteq> None
                                 then out4\<lparr>ti_KnownHostsEntryFound := True\<rparr> else out4)
                     in out5\<lparr>ti_ResolvedStatus :=
                          (if \<not> ti_SSHUsernamePresent out5 \<or> \<not> ti_PrivateKeyPresent out5 then TargetConfigKeyMissing
                           else if \<not> ti_PrivateKeyReadable out5 then TargetConfigKeyUnreadable
                           else if \<not> ti_KnownHostsPresent out5 then TargetConfigKnownHostsMissing
                           else if \<not> ti_KnownHostsReadable out5 then TargetConfigUnreadable
                           else if \<not> ti_KnownHostsEntryFound out5 then TargetConfigHostKeyMissing
                           else TargetConfigOK)\<rparr>))
             | _ \<Rightarrow> out1\<lparr>ti_ResolvedStatus := TargetConfigUnmanagedArtifact\<rparr>)))"

definition InspectTargetConfigForTarget :: "target_codec \<Rightarrow> tfs \<Rightarrow> string \<Rightarrow> string \<Rightarrow> target_inventory" where
  "InspectTargetConfigForTarget tk fs targetsDir targetID =
     (let base = InspectTargetConfigDir tk fs targetsDir;
          out = \<lparr>ti_Base = base, ti_TargetID = canonicalUUID targetID, ti_TargetMatchCount = 0,
                 ti_TargetProfileFound = False, ti_SSHUsernamePresent = False, ti_PrivateKeyPresent = False,
                 ti_PrivateKeyReadable = False, ti_PublicKeyPresent = False, ti_PublicKeyReadable = False,
                 ti_KnownHostsPresent = False, ti_KnownHostsReadable = False, ti_KnownHostsEntryFound = False,
                 ti_ResolvedStatus = ci_Status base\<rparr>
      in if ti_TargetID out = '''' then out\<lparr>ti_ResolvedStatus := ''invalid_target_id''\<rparr>
         else if ci_Status base \<noteq> TargetConfigOK then out
         else (case loadTargets tk fs targetsDir of
                 Inl e \<Rightarrow> out\<lparr>ti_ResolvedStatus := TargetConfigUnreadable\<rparr>
               | Inr doc \<Rightarrow>
                   (let ms = resolving (ti_TargetID out) (td_Targets doc);
                        out1 = out\<lparr>ti_TargetMatchCount := length ms, ti_TargetProfileFound := ms \<noteq> []\<rparr>
                    in case ms of
                         [] \<Rightarrow> out1\<lparr>ti_ResolvedStatus := TargetConfigNoTarget\<rparr>
                       | [m] \<Rightarrow> inspect_record tk fs targetsDir (snd m) out1
                       | _ \<Rightarrow> out1\<lparr>ti_ResolvedStatus := TargetConfigDuplicate\<rparr>)))"


section \<open>Runtime readiness\<close>

definition runtimeReadinessFile :: string where "runtimeReadinessFile = ''brocade-ssh-readiness.json''"

definition ConfigFingerprintFromRecord :: "target_codec \<Rightarrow> tfs \<Rightarrow> string \<Rightarrow> target_record \<Rightarrow> string" where
  "ConfigFingerprintFromRecord tk fs targetsDir rec =
     (let get = (\<lambda>f. case tr_SSH rec of None \<Rightarrow> '''' | Some ssh \<Rightarrow> f ssh);
          keyBits = (case tr_SSH rec of None \<Rightarrow> 0 | Some ssh \<Rightarrow> se_KeyBits ssh);
          hostKey = (case readKnownHostFingerprint tk fs targetsDir (get se_KnownHostsPath) (tr_Address rec) of
                       None \<Rightarrow> '''' | Some fp \<Rightarrow> fp);
          raw = intercalate (CHR ''|'')
                  [trim_space (tr_Address rec), show_int (tr_SSHPort rec), get se_Username, get se_KeyAlgorithm,
                   show_int keyBits, get se_KeyFingerprintSHA256, hostKey]
      in ''sha256:'' @ tk_hex tk (tk_sha256 tk raw))"

definition LoadRuntimeReadiness ::
  "target_codec \<Rightarrow> tfs \<Rightarrow> string \<Rightarrow> load_error + (string \<times> runtime_record) list" where
  "LoadRuntimeReadiness tk fs runtimeStateDir =
     (if trim_space runtimeStateDir = '''' then Inr []
      else (case read_path fs (filepath_join [runtimeStateDir, runtimeReadinessFile]) of
              NotExist \<Rightarrow> Inr []
            | ReadError \<Rightarrow> Inl LoadReadError
            | Content b \<Rightarrow> (case tk_unmarshalRuntime tk b of None \<Rightarrow> Inl LoadParseError
                           | Some doc \<Rightarrow> Inr (case rd_Targets doc of None \<Rightarrow> [] | Some m \<Rightarrow> m))))"

datatype lock_failure = LockDirFails | LockTimesOut

text \<open>The advisory lock: try, and while the deadline has not passed sleep 100 ms and try again.
  \<open>tries i\<close> is whether the i-th attempt succeeds; sleeping is assumed to take exactly its time.\<close>

function flock_loop :: "(nat \<Rightarrow> bool) \<Rightarrow> nat \<Rightarrow> duration \<Rightarrow> duration \<Rightarrow> nat option" where
  "flock_loop tries i elapsed limit =
     (if tries i then Some i
      else if elapsed > limit then None
      else flock_loop tries (Suc i) (elapsed + 100000000) limit)"
  by pat_completeness auto
termination
  by (relation "measure (\<lambda>(tries, i, elapsed, limit). nat (limit + 1 - elapsed))") auto

declare flock_loop.simps [simp del]

record lock_io =
  lk_dir_ok :: bool
  lk_tries :: "nat \<Rightarrow> bool"

definition acquireRuntimeReadinessLock :: "lock_io \<Rightarrow> lock_failure option" where
  "acquireRuntimeReadinessLock lk =
     (if \<not> lk_dir_ok lk then Some LockDirFails
      else if flock_loop (lk_tries lk) 0 0 (15 * second) = None then Some LockTimesOut else None)"

definition acquireTargetsLock :: "lock_io \<Rightarrow> lock_failure option" where
  "acquireTargetsLock lk =
     (if \<not> lk_dir_ok lk then Some LockDirFails
      else if flock_loop (lk_tries lk) 0 0 (30 * second) = None then Some LockTimesOut else None)"

datatype probe_error = ErrConfigDirRequired | ErrInvalidTarget | ErrTargetConfigMissing | ErrTargetConfigUnreadable
  | ErrTargetNotConfigured | ErrDuplicateTargetID | ErrProbeLockFailed | ErrRuntimeStateLockFailed
  | ErrRuntimeStateUnwritable | ProbeLoadError load_error | ProbeLockDirError | ProbeMarshalError | ProbeCancelled
  | ProbeWriteError

record probe_io =
  po_now :: time
  po_lock :: lock_io
  po_write :: write_outcome
  po_cancelled :: bool

definition UpsertRuntimeReadiness ::
  "target_codec \<Rightarrow> probe_io \<Rightarrow> string \<Rightarrow> runtime_record \<Rightarrow> tfs \<Rightarrow> probe_error option \<times> tfs" where
  "UpsertRuntimeReadiness tk io runtimeStateDir rec fs =
     (if trim_space runtimeStateDir = '''' then (Some ErrConfigDirRequired, fs)
      else if trim_space (ru_TargetID rec) = '''' then (Some ErrInvalidTarget, fs)
      else (case acquireRuntimeReadinessLock (po_lock io) of
              Some LockDirFails \<Rightarrow> (Some ErrRuntimeStateUnwritable, fs)
            | Some LockTimesOut \<Rightarrow> (Some ErrRuntimeStateLockFailed, fs)
            | None \<Rightarrow>
               (let existing = (case LoadRuntimeReadiness tk fs runtimeStateDir of Inl e \<Rightarrow> [] | Inr m \<Rightarrow> m);
                    doc = \<lparr>rd_Version = 1, rd_Targets = Some (AList.update (ru_TargetID rec) rec existing),
                           rd_UpdatedAt = tk_format tk (po_now io)\<rparr>
                in case tk_marshalRuntime tk doc of None \<Rightarrow> (Some ProbeMarshalError, fs)
                   | Some buf \<Rightarrow>
                       (case atomicWriteFile (po_write io) (filepath_join [runtimeStateDir, runtimeReadinessFile])
                               (with_newline buf) fs of
                          (ok, fs') \<Rightarrow> (if ok then None else Some ErrRuntimeStateUnwritable, fs')))))"

section \<open>Readiness snapshot\<close>

record load_warning =
  lw_ProfileName :: string
  lw_Reason :: string
  lw_TargetID :: string
  lw_Count :: nat

definition target_id_error_text :: "target_id_error \<Rightarrow> string" where
  "target_id_error_text e =
     (case e of ErrTargetIDMissing \<Rightarrow> ''target_id_missing'' | ErrInvalidTargetID \<Rightarrow> ''invalid_target_id'')"

text \<open>Buckets of the records with SSH configuration by target id, and the warnings of the rest.\<close>

fun bucket_records ::
  "(string \<times> target_record option) list \<Rightarrow> (string \<times> target_record list) list \<times> load_warning list
   \<Rightarrow> (string \<times> target_record list) list \<times> load_warning list" where
  "bucket_records [] acc = acc"
| "bucket_records ((n, r) # ts) (buckets, ws) =
     (case r of None \<Rightarrow> bucket_records ts (buckets, ws)
      | Some rec \<Rightarrow>
         if tr_SSH rec = None then bucket_records ts (buckets, ws)
         else (case EffectiveTargetID n r of
                 Inl e \<Rightarrow> bucket_records ts (buckets, ws @ [\<lparr>lw_ProfileName = n, lw_Reason = target_id_error_text e,
                                                            lw_TargetID = '''', lw_Count = 0\<rparr>])
               | Inr tid \<Rightarrow>
                   bucket_records ts
                     (AList.update tid ((case map_of buckets tid of None \<Rightarrow> [] | Some rs \<Rightarrow> rs) @ [rec]) buckets, ws)))"

text \<open>The readiness a sidecar entry overlays when its fingerprint is the record's.\<close>

definition overlay_runtime ::
  "(string \<times> runtime_record) list \<Rightarrow> string \<Rightarrow> string \<Rightarrow> ssh_snapshot \<Rightarrow> ssh_snapshot" where
  "overlay_runtime sidecar tid fingerprint s =
     (case map_of sidecar tid of None \<Rightarrow> s
      | Some entry \<Rightarrow>
         if ru_ConfigFingerprint entry = fingerprint then
           s\<lparr>ss_SSHReady := ru_SSHReady entry, ss_SSHReason := ru_SSHReason entry,
             ss_SSHProbeStage := ru_SSHProbeStage entry,
             ss_LastProbeAt := (if ru_LastProbeAt entry \<noteq> '''' then ru_LastProbeAt entry else ss_LastProbeAt s),
             ss_LastSuccessfulProbeAt := (if ru_LastSuccessfulProbeAt entry \<noteq> '''' then ru_LastSuccessfulProbeAt entry
                                          else ss_LastSuccessfulProbeAt s)\<rparr>
         else s)"

definition snapshot_of_record ::
  "target_codec \<Rightarrow> tfs \<Rightarrow> string \<Rightarrow> (string \<times> runtime_record) list \<Rightarrow> string \<Rightarrow> target_record \<Rightarrow> ssh_snapshot" where
  "snapshot_of_record tk fs targetsDir sidecar tid rec =
     (let get = (\<lambda>f. case tr_SSH rec of None \<Rightarrow> '''' | Some ssh \<Rightarrow> f ssh);
          rd = tr_Readiness rec;
          s = \<lparr>ss_SSHReady = rr_SSHReady rd, ss_SSHReason = rr_SSHReason rd, ss_SSHProbeStage = rr_SSHProbeStage rd,
               ss_SSHKeyAlgorithm = get se_KeyAlgorithm,
               ss_SSHKeyBits = (case tr_SSH rec of None \<Rightarrow> 0 | Some ssh \<Rightarrow> se_KeyBits ssh),
               ss_SSHKeyOrigin = get se_KeyOrigin, ss_SSHKeyFingerprintSHA256 = get se_KeyFingerprintSHA256,
               ss_SSHUsername = get se_Username,
               ss_SwitchHostKeyFingerprint =
                 (case readKnownHostFingerprint tk fs targetsDir (get se_KnownHostsPath) (tr_Address rec) of
                    None \<Rightarrow> '''' | Some fp \<Rightarrow> fp),
               ss_LastProbeAt = rr_LastSSHProbeAt rd, ss_LastSuccessfulProbeAt = rr_LastSuccessfulSSHProbeAt rd\<rparr>
      in overlay_runtime sidecar tid (ConfigFingerprintFromRecord tk fs targetsDir rec) s)"

fun publish_buckets ::
  "target_codec \<Rightarrow> tfs \<Rightarrow> string \<Rightarrow> (string \<times> runtime_record) list \<Rightarrow> (string \<times> target_record list) list
   \<Rightarrow> (string \<times> ssh_snapshot) list \<times> load_warning list" where
  "publish_buckets tk fs dir sidecar [] = ([], [])"
| "publish_buckets tk fs dir sidecar ((tid, ms) # bs) =
     (case publish_buckets tk fs dir sidecar bs of (out, ws) \<Rightarrow>
       (case ms of
          [rec] \<Rightarrow> ((tid, snapshot_of_record tk fs dir sidecar tid rec) # out, ws)
        | _ \<Rightarrow> (out, \<lparr>lw_ProfileName = '''', lw_Reason = ''duplicate_target_id'', lw_TargetID = tid,
                      lw_Count = length ms\<rparr> # ws)))"

definition LoadSSHReadinessSnapshotWithRuntime ::
  "target_codec \<Rightarrow> tfs \<Rightarrow> string \<Rightarrow> string \<Rightarrow> load_error + ((string \<times> ssh_snapshot) list \<times> load_warning list)" where
  "LoadSSHReadinessSnapshotWithRuntime tk fs targetsDir runtimeStateDir =
     (if targetsDir = '''' then Inr ([], [])
      else if read_path fs (filepath_join [targetsDir, targetsFile]) = NotExist then Inr ([], [])
      else (case loadTargets tk fs targetsDir of Inl e \<Rightarrow> Inl e
            | Inr doc \<Rightarrow>
               if td_Targets doc = [] then Inr ([], [])
               else (let sidecar = (case LoadRuntimeReadiness tk fs runtimeStateDir of Inl e \<Rightarrow> [] | Inr m \<Rightarrow> m);
                         (buckets, ws) = bucket_records (td_Targets doc) ([], []);
                         (out, ws') = publish_buckets tk fs targetsDir sidecar buckets
                     in Inr (out, ws @ ws'))))"

section \<open>SSH probe\<close>

text \<open>The result of \<open>ssh.Dial\<close> with the given user, key, address and host-key callback: an error
  text, or a client whose \<open>NewSession\<close> may fail.\<close>

datatype dial_result = DialError string | Dialled bool

definition JoinHostPort :: "string \<Rightarrow> int \<Rightarrow> string" where
  "JoinHostPort host port =
     (if CHR '':'' \<in> set host then ''['' @ host @ '']:'' @ show_int port else host @ '':'' @ show_int port)"

type_synonym ssh_dialer = "string \<Rightarrow> string \<Rightarrow> string \<Rightarrow> (string \<Rightarrow> string \<Rightarrow> host_key_verdict) \<Rightarrow> dial_result"

definition probeSSH ::
  "target_codec \<Rightarrow> ssh_dialer \<Rightarrow> tfs \<Rightarrow> string \<Rightarrow> target_record \<Rightarrow> ssh_entry \<Rightarrow> bool \<times> string" where
  "probeSSH tk dial fs targetsDir rec ssh =
     (case ResolveManagedTargetArtifact (tf_eval fs) targetsDir (se_KeyPath ssh) ArtifactSSHPrivateKey of
        Inl e \<Rightarrow> (False, TargetConfigUnmanagedArtifact)
      | Inr keyPath \<Rightarrow>
     (case ResolveManagedTargetArtifact (tf_eval fs) targetsDir (se_KnownHostsPath ssh) ArtifactKnownHosts of
        Inl e \<Rightarrow> (False, TargetConfigUnmanagedArtifact)
      | Inr knownHostsPath \<Rightarrow>
     (case read_path fs keyPath of
        NotExist \<Rightarrow> (False, TargetConfigKeyMissing)
      | ReadError \<Rightarrow> (False, TargetConfigKeyUnreadable)
      | Content keyBytes \<Rightarrow>
     (case tk_parsePrivateKey tk keyBytes of
        None \<Rightarrow> (False, TargetConfigKeyUnreadable)
      | Some signer \<Rightarrow>
         (case dial (se_Username ssh) signer (JoinHostPort (tr_Address rec) (tr_SSHPort rec))
                 (hostKeyCallbackFromFile tk fs knownHostsPath) of
            DialError msg \<Rightarrow>
              if str_contains msg ''unable to authenticate'' then (False, ''ssh_auth_failed'')
              else if str_contains msg ''host key'' then (False, ''host_key_verification_failed'')
              else (False, ''ssh_connection_failed'')
          | Dialled session_ok \<Rightarrow> if \<not> session_ok then (False, ''read_only_probe_failed'') else (True, ''''))))))"

definition mapProbeStage :: "string \<Rightarrow> string" where
  "mapProbeStage reason =
     (if reason = ''ssh_connection_failed'' then ''dial_failed''
      else if reason = ''host_key_verification_failed'' \<or> reason = ''known_hosts_missing''
        \<or> reason = ''known_hosts_not_found'' \<or> reason = ''host_key_not_configured'' then ''host_key_verification_failed''
      else if reason = ''ssh_auth_failed'' then ''auth_failed''
      else if reason = ''read_only_probe_failed'' then ''auth_ok''
      else if reason = ''missing_ssh_key'' \<or> reason = ''ssh_key_not_found'' \<or> reason = ''ssh_key_unreadable''
        \<or> reason = ''unmanaged_artifact_path'' then ''not_run''
      else ''auth_failed'')"

record probe_outcome =
  pb_Ready :: bool
  pb_Stage :: string
  pb_Reason :: string
  pb_LastProbeAt :: string
  pb_LastSuccessfulProbeAt :: string
  pb_SSHKeyAlgorithm :: string
  pb_SSHKeyBits :: int
  pb_SSHKeyOrigin :: string
  pb_SSHKeyFingerprintSHA256 :: string
  pb_SwitchHostKeyFingerprint :: string
  pb_SSHUsername :: string

text \<open>The readiness a probe records in targets.json.\<close>

definition probed_readiness :: "bool \<Rightarrow> string \<Rightarrow> string \<Rightarrow> string \<Rightarrow> readiness_rec \<Rightarrow> readiness_rec" where
  "probed_readiness ready reason stage nowStr rd =
     rd\<lparr>rr_SSHReady := ready, rr_LastSSHProbeAt := nowStr, rr_SSHProbeStage := stage,
        rr_SSHReason := (if ready then '''' else reason),
        rr_LastSuccessfulSSHProbeAt := (if ready then nowStr else rr_LastSuccessfulSSHProbeAt rd)\<rparr>"

definition probe_candidates :: "string \<Rightarrow> (string \<times> target_record option) list \<Rightarrow> (string \<times> target_record \<times> ssh_entry) list" where
  "probe_candidates canon ts =
     List.map_filter (\<lambda>(n, r). case r of None \<Rightarrow> None
       | Some rec \<Rightarrow> (case tr_SSH rec of None \<Rightarrow> None
                      | Some ssh \<Rightarrow> if EffectiveTargetID n r = Inr canon then Some (n, rec, ssh) else None)) ts"

definition runtime_entry ::
  "target_codec \<Rightarrow> probe_io \<Rightarrow> tfs \<Rightarrow> string \<Rightarrow> string \<Rightarrow> target_record \<Rightarrow> bool \<Rightarrow> string \<Rightarrow> runtime_record" where
  "runtime_entry tk io fs targetsDir canon rec ready reason =
     (let nowStr = tk_format tk (po_now io)
      in \<lparr>ru_TargetID = canon, ru_ConfigFingerprint = ConfigFingerprintFromRecord tk fs targetsDir rec,
          ru_SSHReady = ready, ru_SSHReason = (if ready then '''' else reason),
          ru_SSHProbeStage = (if ready then ''command_succeeded'' else mapProbeStage reason),
          ru_LastProbeAt = nowStr,
          ru_LastSuccessfulProbeAt = (if ready then nowStr else rr_LastSuccessfulSSHProbeAt (tr_Readiness rec))\<rparr>)"

text \<open>The probe of the one matching record and the recording of its outcome.\<close>

definition probe_and_record ::
  "target_codec \<Rightarrow> ssh_dialer \<Rightarrow> probe_io \<Rightarrow> string \<Rightarrow> string \<Rightarrow> string \<Rightarrow> targets_doc \<Rightarrow> string \<times> target_record \<times> ssh_entry
   \<Rightarrow> tfs \<Rightarrow> (probe_error + probe_outcome) \<times> tfs" where
  "probe_and_record tk dial io targetsDir runtimeStateDir canon doc match fs =
     (case match of (n, rec, ssh) \<Rightarrow>
       (let (ready, reason) = probeSSH tk dial fs targetsDir rec ssh;
            nowStr = tk_format tk (po_now io);
            stage = (if ready then ''command_succeeded'' else mapProbeStage reason);
            lastSuccess = (if ready then nowStr else rr_LastSuccessfulSSHProbeAt (tr_Readiness rec));
            (err, fs') =
              (if trim_space runtimeStateDir \<noteq> '''' then
                 UpsertRuntimeReadiness tk io runtimeStateDir
                   (runtime_entry tk io fs targetsDir canon rec ready reason) fs
               else (case writeTargets tk (po_write io) targetsDir
                       (doc\<lparr>td_Targets := AList.update n
                          (Some (rec\<lparr>tr_Readiness := probed_readiness ready reason stage nowStr (tr_Readiness rec)\<rparr>))
                          (td_Targets doc)\<rparr>) fs of
                      (ok, fs1) \<Rightarrow> (if ok then None else Some ProbeWriteError, fs1)))
        in case err of
             Some e \<Rightarrow> (Inl e, fs')
           | None \<Rightarrow>
              (Inr \<lparr>pb_Ready = ready, pb_Stage = stage, pb_Reason = (if ready then '''' else reason),
                    pb_LastProbeAt = nowStr, pb_LastSuccessfulProbeAt = lastSuccess,
                    pb_SSHKeyAlgorithm = se_KeyAlgorithm ssh, pb_SSHKeyBits = se_KeyBits ssh,
                    pb_SSHKeyOrigin = se_KeyOrigin ssh, pb_SSHKeyFingerprintSHA256 = se_KeyFingerprintSHA256 ssh,
                    pb_SwitchHostKeyFingerprint =
                      (case readKnownHostFingerprint tk fs' targetsDir (se_KnownHostsPath ssh) (tr_Address rec) of
                         None \<Rightarrow> '''' | Some fp \<Rightarrow> fp),
                    pb_SSHUsername = se_Username ssh\<rparr>, fs')))"

definition runProbeForTargetImpl ::
  "target_codec \<Rightarrow> ssh_dialer \<Rightarrow> probe_io \<Rightarrow> string \<Rightarrow> string \<Rightarrow> string \<Rightarrow> tfs \<Rightarrow> (probe_error + probe_outcome) \<times> tfs" where
  "runProbeForTargetImpl tk dial io targetsDir runtimeStateDir targetID fs =
     (let canon = canonicalUUID targetID; useSidecar = (trim_space runtimeStateDir \<noteq> '''');
          inv = InspectTargetConfigDir tk fs targetsDir
      in if targetsDir = '''' then (Inl ErrConfigDirRequired, fs)
         else if canon = '''' then (Inl ErrInvalidTarget, fs)
         else if \<not> ci_FilePresent inv then (Inl ErrTargetConfigMissing, fs)
         else if \<not> ci_FileReadable inv \<or> ci_Status inv = TargetConfigUnreadable then (Inl ErrTargetConfigUnreadable, fs)
         else (case (if useSidecar then None else acquireTargetsLock (po_lock io)) of
                 Some LockDirFails \<Rightarrow> (Inl ProbeLockDirError, fs)
               | Some LockTimesOut \<Rightarrow> (Inl ErrProbeLockFailed, fs)
               | None \<Rightarrow>
                  (case loadTargets tk fs targetsDir of Inl e \<Rightarrow> (Inl (ProbeLoadError e), fs)
                   | Inr doc \<Rightarrow>
                      (case probe_candidates canon (td_Targets doc) of
                         [] \<Rightarrow> (Inl ErrTargetNotConfigured, fs)
                       | [m] \<Rightarrow> if po_cancelled io then (Inl ProbeCancelled, fs)
                                else probe_and_record tk dial io targetsDir runtimeStateDir canon doc m fs
                       | _ \<Rightarrow> (Inl ErrDuplicateTargetID, fs)))))"

definition RunProbeForTarget where
  "RunProbeForTarget tk dial io targetsDir targetID fs = runProbeForTargetImpl tk dial io targetsDir '''' targetID fs"

definition RunProbeForTargetSidecar ::
  "target_codec \<Rightarrow> ssh_dialer \<Rightarrow> probe_io \<Rightarrow> string \<Rightarrow> string \<Rightarrow> string \<Rightarrow> tfs \<Rightarrow> (probe_error + probe_outcome) \<times> tfs" where
  "RunProbeForTargetSidecar tk dial io targetsDir runtimeStateDir targetID fs =
     (if trim_space runtimeStateDir = '''' then (Inl ErrConfigDirRequired, fs)
      else runProbeForTargetImpl tk dial io targetsDir runtimeStateDir targetID fs)"

text \<open>The command \<open>target probe\<close>: its exit code and the files afterwards.\<close>

definition RunProbe ::
  "target_codec \<Rightarrow> ssh_dialer \<Rightarrow> probe_io \<Rightarrow> string \<Rightarrow> string \<Rightarrow> string \<Rightarrow> tfs \<Rightarrow> nat \<times> tfs" where
  "RunProbe tk dial io configDir profile targetID fs =
     (if trim_space profile = '''' then (2, fs)
      else if \<not> isSafeProfileName profile then (2, fs)
      else if trim_space configDir = '''' then (2, fs)
      else if trim_space targetID \<noteq> '''' \<and> canonicalUUID targetID = '''' then (2, fs)
      else (case loadTargets tk fs configDir of Inl e \<Rightarrow> (1, fs)
            | Inr doc \<Rightarrow>
               (case map_of (td_Targets doc) profile of
                  Some (Some rec) \<Rightarrow>
                    (case tr_SSH rec of None \<Rightarrow> (1, fs)
                     | Some ssh \<Rightarrow>
                        (case EffectiveTargetID profile (Some rec) of Inl e \<Rightarrow> (1, fs)
                         | Inr recResolved \<Rightarrow>
                            if canonicalUUID targetID \<noteq> '''' \<and> canonicalUUID targetID \<noteq> recResolved then (1, fs)
                            else
                              (let (ready, reason) = probeSSH tk dial fs configDir rec ssh;
                                   nowStr = tk_format tk (po_now io);
                                   stage = (if ready then ''command_succeeded'' else mapProbeStage reason);
                                   doc' = doc\<lparr>td_Targets := AList.update profile
                                     (Some (rec\<lparr>tr_Readiness := probed_readiness ready reason stage nowStr (tr_Readiness rec)\<rparr>))
                                     (td_Targets doc)\<rparr>
                               in case writeTargets tk (po_write io) configDir doc' fs of
                                    (ok, fs') \<Rightarrow> (if ok then 0 else 1, fs'))))
                | _ \<Rightarrow> (1, fs))))"

section \<open>Resolved target and readiness gate\<close>

record resolved_target =
  rt_TargetID :: string
  rt_ProfileName :: string
  rt_Host :: string
  rt_SSHPort :: int
  rt_SSHUsername :: string
  rt_PrivateKeyPath :: string
  rt_KnownHostsPath :: string
  rt_KeyAlgorithm :: string
  rt_KeyBits :: int
  rt_KeyOrigin :: string
  rt_KeyFingerprintSHA256 :: string

record effective_readiness =
  er_Ready :: bool
  er_Stage :: string
  er_Reason :: string
  er_LastProbeAt :: string
  er_LastSuccessfulProbeAt :: string
  er_Fresh :: bool
  er_ConfigFingerprint :: string

definition ReadinessFreshWindow :: duration where
  "ReadinessFreshWindow = 15 * minute"

definition readinessFresh :: "target_codec \<Rightarrow> string \<Rightarrow> time \<Rightarrow> duration \<Rightarrow> bool" where
  "readinessFresh tk lastSuccessAt now window =
     (if trim_space lastSuccessAt = '''' then False
      else (case tk_parse tk lastSuccessAt of None \<Rightarrow> False | Some t \<Rightarrow> time_sub now t \<le> window))"

definition effectiveReadinessFromRecord ::
  "target_codec \<Rightarrow> time \<Rightarrow> tfs \<Rightarrow> string \<Rightarrow> string \<Rightarrow> string \<Rightarrow> target_record \<Rightarrow> effective_readiness" where
  "effectiveReadinessFromRecord tk now fs targetsDir runtimeStateDir tid rec =
     (let rd = tr_Readiness rec;
          out = \<lparr>er_Ready = rr_SSHReady rd, er_Stage = rr_SSHProbeStage rd, er_Reason = rr_SSHReason rd,
                 er_LastProbeAt = rr_LastSSHProbeAt rd, er_LastSuccessfulProbeAt = rr_LastSuccessfulSSHProbeAt rd,
                 er_Fresh = False, er_ConfigFingerprint = ConfigFingerprintFromRecord tk fs targetsDir rec\<rparr>;
          out1 = (if runtimeStateDir \<noteq> '''' then
                    (case LoadRuntimeReadiness tk fs runtimeStateDir of Inl e \<Rightarrow> out
                     | Inr sidecar \<Rightarrow>
                        (case map_of sidecar tid of None \<Rightarrow> out
                         | Some entry \<Rightarrow>
                            if ru_ConfigFingerprint entry = er_ConfigFingerprint out then
                              out\<lparr>er_Ready := ru_SSHReady entry, er_Reason := ru_SSHReason entry,
                                  er_Stage := ru_SSHProbeStage entry,
                                  er_LastProbeAt := (if ru_LastProbeAt entry \<noteq> '''' then ru_LastProbeAt entry
                                                     else er_LastProbeAt out),
                                  er_LastSuccessfulProbeAt :=
                                    (if ru_LastSuccessfulProbeAt entry \<noteq> '''' then ru_LastSuccessfulProbeAt entry
                                     else er_LastSuccessfulProbeAt out)\<rparr>
                            else out))
                  else out)
      in out1\<lparr>er_Fresh := readinessFresh tk (er_LastSuccessfulProbeAt out1) now ReadinessFreshWindow\<rparr>)"

datatype gate_error = ErrSSHSetupPending | ErrSSHProbeStale | ErrSSHNotReady

definition ReadinessGateError :: "effective_readiness \<Rightarrow> gate_error option" where
  "ReadinessGateError r =
     (if er_Ready r \<and> er_Fresh r then None
      else if trim_space (er_LastSuccessfulProbeAt r) = '''' then Some ErrSSHSetupPending
      else if \<not> er_Fresh r then Some ErrSSHProbeStale
      else if \<not> er_Ready r then Some ErrSSHNotReady
      else None)"

datatype resolve_error = ResolveProbeError probe_error | ResolveCode string

definition status_error :: "string \<Rightarrow> resolve_error option" where
  "status_error st =
     (if st = TargetConfigNoTarget then Some (ResolveProbeError ErrTargetNotConfigured)
      else if st = TargetConfigDuplicate then Some (ResolveProbeError ErrDuplicateTargetID)
      else if st = TargetConfigKeyMissing then Some (ResolveCode ''ssh_key_missing'')
      else if st = TargetConfigKeyUnreadable then Some (ResolveCode ''ssh_key_unreadable'')
      else if st = TargetConfigKnownHostsMissing then Some (ResolveCode ''known_hosts_missing'')
      else if st = TargetConfigHostKeyMissing then Some (ResolveCode ''known_hosts_missing'')
      else if st = TargetConfigUnmanagedArtifact then Some (ResolveCode ''target_configuration_invalid'')
      else if st \<noteq> TargetConfigOK then Some (ResolveCode st)
      else None)"

definition LoadResolvedBrocadeTarget ::
  "target_codec \<Rightarrow> time \<Rightarrow> tfs \<Rightarrow> string \<Rightarrow> string \<Rightarrow> string
   \<Rightarrow> resolve_error + (resolved_target \<times> effective_readiness)" where
  "LoadResolvedBrocadeTarget tk now fs targetsDir runtimeStateDir targetID =
     (let inv = InspectTargetConfigForTarget tk fs targetsDir targetID
      in if ti_TargetID inv = '''' then Inl (ResolveProbeError ErrInvalidTarget)
         else if ci_Status (ti_Base inv) = TargetConfigMissing then Inl (ResolveProbeError ErrTargetConfigMissing)
         else if ci_Status (ti_Base inv) = TargetConfigUnreadable then Inl (ResolveProbeError ErrTargetConfigUnreadable)
         else (case status_error (ti_ResolvedStatus inv) of Some e \<Rightarrow> Inl e
               | None \<Rightarrow>
                  (case loadTargets tk fs targetsDir of Inl e \<Rightarrow> Inl (ResolveProbeError ErrTargetConfigUnreadable)
                   | Inr doc \<Rightarrow>
                      (case resolving (ti_TargetID inv) (td_Targets doc) of
                         [] \<Rightarrow> Inl (ResolveProbeError ErrTargetNotConfigured)
                       | [(n, r)] \<Rightarrow>
                           (case r of None \<Rightarrow> Inl (ResolveCode ''ssh_key_missing'')
                            | Some rec \<Rightarrow>
                               (case tr_SSH rec of None \<Rightarrow> Inl (ResolveCode ''ssh_key_missing'')
                                | Some ssh \<Rightarrow>
                                   (case ResolveManagedTargetArtifact (tf_eval fs) targetsDir (se_KeyPath ssh) ArtifactSSHPrivateKey of
                                      Inl e \<Rightarrow> Inl (ResolveCode ''ssh_key_missing'')
                                    | Inr privateKeyPath \<Rightarrow>
                                       (case ResolveManagedTargetArtifact (tf_eval fs) targetsDir (se_KnownHostsPath ssh) ArtifactKnownHosts of
                                          Inl e \<Rightarrow> Inl (ResolveCode ''known_hosts_missing'')
                                        | Inr knownHostsPath \<Rightarrow>
                                            Inr (\<lparr>rt_TargetID = ti_TargetID inv, rt_ProfileName = n, rt_Host = trim_space (tr_Address rec),
                                                  rt_SSHPort = tr_SSHPort rec, rt_SSHUsername = se_Username ssh,
                                                  rt_PrivateKeyPath = privateKeyPath, rt_KnownHostsPath = knownHostsPath,
                                                  rt_KeyAlgorithm = se_KeyAlgorithm ssh, rt_KeyBits = se_KeyBits ssh,
                                                  rt_KeyOrigin = se_KeyOrigin ssh,
                                                  rt_KeyFingerprintSHA256 = se_KeyFingerprintSHA256 ssh\<rparr>,
                                                 effectiveReadinessFromRecord tk now fs targetsDir runtimeStateDir
                                                   (ti_TargetID inv) rec)))))
                       | _ \<Rightarrow> Inl (ResolveProbeError ErrDuplicateTargetID)))))"


section \<open>Lock, snapshot and sidecar lemmas\<close>

lemma flock_loop_find:
  assumes "i \<le> Suc n"
  shows "flock_loop tries i (int i * 100000000) (int n * 100000000) = find tries [i..<n + 2]"
  using assms
proof (induction "Suc n - i" arbitrary: i)
  case 0
  then have i: "i = Suc n" by simp
  show ?case unfolding i by (subst flock_loop.simps) simp
next
  case (Suc k)
  then have i: "i \<le> n" by simp
  have "flock_loop tries (Suc i) (int (Suc i) * 100000000) (int n * 100000000) = find tries [Suc i..<n + 2]"
    by (rule Suc(1)) (use Suc(2) i in simp_all)
  moreover have "[i..<n + 2] = i # [Suc i..<n + 2]" using i by (simp add: upt_conv_Cons)
  ultimately show ?case using i by (subst flock_loop.simps) (simp add: algebra_simps)
qed

lemma find_upt: "find P [0..<n] = None \<longleftrightarrow> (\<forall>i<n. \<not> P i)"
  by (simp add: find_None_iff)

definition ssh_records :: "string \<Rightarrow> (string \<times> target_record option) list \<Rightarrow> target_record list" where
  "ssh_records tid ts =
     List.map_filter (\<lambda>(n, r). case r of None \<Rightarrow> None
       | Some rec \<Rightarrow> if tr_SSH rec \<noteq> None \<and> EffectiveTargetID n r = Inr tid then Some rec else None) ts"

abbreviation bucket_of :: "(string \<times> target_record list) list \<Rightarrow> string \<Rightarrow> target_record list" where
  "bucket_of b tid \<equiv> (case map_of b tid of None \<Rightarrow> [] | Some rs \<Rightarrow> rs)"

lemma bucket_records_spec:
  "bucket_of (fst (bucket_records ts (b, ws))) tid = bucket_of b tid @ ssh_records tid ts \<and>
   (distinct (map fst b) \<longrightarrow> distinct (map fst (fst (bucket_records ts (b, ws)))))"
proof (induction ts arbitrary: b ws)
  case Nil
  then show ?case by (simp add: ssh_records_def List.map_filter_def)
next
  case (Cons p ts)
  obtain n r where p: "p = (n, r)" by (cases p)
  show ?case
  proof (cases r)
    case None
    then show ?thesis using Cons [of b ws] p by (simp add: ssh_records_def List.map_filter_simps)
  next
    case (Some rec)
    show ?thesis
    proof (cases "tr_SSH rec")
      case None
      then show ?thesis using Cons [of b ws] p Some by (simp add: ssh_records_def List.map_filter_simps)
    next
      case ssh: (Some e)
      show ?thesis
      proof (cases "EffectiveTargetID n r")
        case (Inl err)
        then show ?thesis using Cons p Some ssh by (simp add: ssh_records_def List.map_filter_simps)
      next
        case (Inr i)
        then show ?thesis using Cons [of "AList.update i (bucket_of b i @ [rec]) b" ws] p Some ssh
          by (auto simp: ssh_records_def List.map_filter_simps distinct_update)
      qed
    qed
  qed
qed

lemma publish_buckets_spec:
  assumes "distinct (map fst bs)"
  shows "map_of (fst (publish_buckets tk fs dir sidecar bs)) tid =
     (case bucket_of bs tid of [rec] \<Rightarrow> Some (snapshot_of_record tk fs dir sidecar tid rec) | _ \<Rightarrow> None) \<and>
     fst ` set (fst (publish_buckets tk fs dir sidecar bs)) \<subseteq> fst ` set bs"
  using assms
proof (induction bs)
  case Nil
  then show ?case by simp
next
  case (Cons p bs)
  obtain i ms where p: "p = (i, ms)" by (cases p)
  obtain out ws where r: "publish_buckets tk fs dir sidecar bs = (out, ws)" by fastforce
  have IH: "map_of out tid = (case bucket_of bs tid of [rec] \<Rightarrow> Some (snapshot_of_record tk fs dir sidecar tid rec) | _ \<Rightarrow> None)"
    "fst ` set out \<subseteq> fst ` set bs" using Cons r p by simp_all
  have i: "i \<notin> fst ` set bs" using Cons.prems p by simp
  then have n: "map_of out i = None" "map_of bs i = None" using IH(2) by (auto simp: map_of_eq_None_iff)
  show ?case
  proof (cases "\<exists>rec. ms = [rec]")
    case True
    then obtain rec where ms: "ms = [rec]" by blast
    have "fst ` set out \<subseteq> insert i (fst ` set bs)" using IH(2) by blast
    then show ?thesis using p r IH(1) ms n(2) by simp
  next
    case False
    then have "publish_buckets tk fs dir sidecar (p # bs) =
        (out, \<lparr>lw_ProfileName = '''', lw_Reason = ''duplicate_target_id'', lw_TargetID = i, lw_Count = length ms\<rparr> # ws)"
      using p r by (cases ms; cases "tl ms") auto
    moreover have "(case ms of [rec] \<Rightarrow> Some (snapshot_of_record tk fs dir sidecar tid rec) | _ \<Rightarrow> None) = None"
      using False by (auto split: list.splits)
    ultimately show ?thesis using p IH n by (auto split: list.splits)
  qed
qed

abbreviation sidecar_entries where
  "sidecar_entries tk fs dir \<equiv> (case LoadRuntimeReadiness tk fs dir of Inl e \<Rightarrow> [] | Inr m \<Rightarrow> m)"

lemma snapshot_lookup:
  assumes "targetsDir \<noteq> ''''" and "loadTargets tk fs targetsDir = Inr doc"
    and "LoadSSHReadinessSnapshotWithRuntime tk fs targetsDir runtimeDir = Inr (out, ws)"
  shows "map_of out tid = (case ssh_records tid (td_Targets doc) of
      [rec] \<Rightarrow> Some (snapshot_of_record tk fs targetsDir (sidecar_entries tk fs runtimeDir) tid rec) | _ \<Rightarrow> None)"
proof (cases "td_Targets doc = []")
  case True
  then have "out = []" using assms by (auto simp: LoadSSHReadinessSnapshotWithRuntime_def split: if_splits)
  then show ?thesis using True by (simp add: ssh_records_def List.map_filter_def)
next
  case False
  have "read_path fs (filepath_join [targetsDir, targetsFile]) \<noteq> NotExist"
    using assms(2) False by (auto simp: loadTargets_def)
  moreover obtain b w where b: "bucket_records (td_Targets doc) ([], []) = (b, w)" by fastforce
  ultimately have o: "out = fst (publish_buckets tk fs targetsDir (sidecar_entries tk fs runtimeDir) b)"
    using assms False by (auto simp: LoadSSHReadinessSnapshotWithRuntime_def Let_def split_beta)
  have "bucket_of b tid = ssh_records tid (td_Targets doc)" "distinct (map fst b)"
    using bucket_records_spec [of "td_Targets doc" "[]" "[]" tid] b by simp_all
  then show ?thesis using o publish_buckets_spec by simp
qed

lemma snapshot_distinct:
  assumes "LoadSSHReadinessSnapshotWithRuntime tk fs targetsDir runtimeDir = Inr (out, ws)"
  shows "distinct (map fst out)"
proof -
  have pub: "distinct (map fst bs) \<Longrightarrow> distinct (map fst (fst (publish_buckets tk fs dir sc bs)))" for dir sc bs
  proof (induction bs)
    case (Cons p bs)
    have "fst ` set (fst (publish_buckets tk fs dir sc bs)) \<subseteq> fst ` set bs"
      using publish_buckets_spec [of bs tk fs dir sc] Cons.prems by simp
    then have "fst p \<notin> fst ` set (fst (publish_buckets tk fs dir sc bs))" using Cons.prems by auto
    moreover obtain o1 w1 where "publish_buckets tk fs dir sc bs = (o1, w1)" by fastforce
    ultimately show ?case using Cons by (cases p) (auto split: list.split)
  qed simp
  show ?thesis
  proof (cases "out = []")
    case False
    then obtain doc where doc: "loadTargets tk fs targetsDir = Inr doc" "td_Targets doc \<noteq> []" "targetsDir \<noteq> ''''"
      "read_path fs (filepath_join [targetsDir, targetsFile]) \<noteq> NotExist"
      using assms by (auto simp: LoadSSHReadinessSnapshotWithRuntime_def split: if_splits sum.splits)
    obtain b w where b: "bucket_records (td_Targets doc) ([], []) = (b, w)" by fastforce
    then have "out = fst (publish_buckets tk fs targetsDir (sidecar_entries tk fs runtimeDir) b)"
      using assms doc by (auto simp: LoadSSHReadinessSnapshotWithRuntime_def Let_def split_beta)
    then show ?thesis using pub b bucket_records_spec [of "td_Targets doc" "[]" "[]"] by simp
  qed simp
qed

text \<open>The entry of the snapshot and the effective readiness of the same record carry the same values.\<close>

lemma snapshot_effective:
  "let s = snapshot_of_record tk fs targetsDir (sidecar_entries tk fs runtimeDir) tid rec;
       e = effectiveReadinessFromRecord tk now fs targetsDir runtimeDir tid rec in
    er_Ready e = ss_SSHReady s \<and> er_Stage e = ss_SSHProbeStage s \<and> er_Reason e = ss_SSHReason s \<and>
    er_LastProbeAt e = ss_LastProbeAt s \<and> er_LastSuccessfulProbeAt e = ss_LastSuccessfulProbeAt s"
proof -
  have "LoadRuntimeReadiness tk fs '''' = Inr []" by (simp add: LoadRuntimeReadiness_def trim_space_def)
  then show ?thesis
    by (simp add: snapshot_of_record_def effectiveReadinessFromRecord_def overlay_runtime_def Let_def
        split: option.split sum.split)
qed

text \<open>What a written sidecar contains, for a codec that reads back what it wrote.\<close>

lemma Upsert_loads:
  assumes "\<And>d b. tk_marshalRuntime tk d = Some b \<Longrightarrow> tk_unmarshalRuntime tk (with_newline b) = Some d"
    and "UpsertRuntimeReadiness tk io dir rec fs = (None, fs')"
  shows "LoadRuntimeReadiness tk fs' dir = Inr (AList.update (ru_TargetID rec) rec (sidecar_entries tk fs dir))"
    and "q \<noteq> filepath_join [dir, runtimeReadinessFile] \<Longrightarrow> read_path fs' q = read_path fs q"
    and "tf_eval fs' = tf_eval fs"
  using assms
  by (auto simp: UpsertRuntimeReadiness_def Let_def atomicWriteFile_def LoadRuntimeReadiness_def [of _ fs'] read_path_def
      split: if_splits option.splits lock_failure.splits write_outcome.splits)


section \<open>Properties\<close>

text \<open>Waiting for an advisory lock always ends, after at most 152 attempts for the readiness
  sidecar (15 s) and 302 for targets.json (30 s): the lock is taken exactly when the directory is
  usable and one of these attempts succeeds.\<close>
theorem lock_wait_bounded:
  "(acquireRuntimeReadinessLock lk = None \<longleftrightarrow> lk_dir_ok lk \<and> (\<exists>i<152. lk_tries lk i)) \<and>
   (acquireTargetsLock lk = None \<longleftrightarrow> lk_dir_ok lk \<and> (\<exists>i<302. lk_tries lk i)) \<and>
   flock_loop (lk_tries lk) 0 0 (15 * second) = find (lk_tries lk) [0..<152] \<and>
   flock_loop (lk_tries lk) 0 0 (30 * second) = find (lk_tries lk) [0..<302]"
proof -
  have "flock_loop (lk_tries lk) 0 0 (15 * second) = find (lk_tries lk) [0..<152]"
    using flock_loop_find [of 0 150 "lk_tries lk"] by (simp add: second_def)
  moreover have "flock_loop (lk_tries lk) 0 0 (30 * second) = find (lk_tries lk) [0..<302]"
    using flock_loop_find [of 0 300 "lk_tries lk"] by (simp add: second_def)
  ultimately show ?thesis
    by (auto simp: acquireRuntimeReadinessLock_def acquireTargetsLock_def find_upt)
qed

text \<open>C10: The heartbeat and the collection path agree on readiness. For every target id the published
  snapshot has an entry exactly when one record with SSH configuration resolves to the id (none for
  ambiguous ids), and that entry carries the same readiness, stage, reason and probe times as the
  effective readiness that authorizes a collection from the same record.\<close>
theorem readiness_views_agree:
  assumes "targetsDir \<noteq> ''''" and "loadTargets tk fs targetsDir = Inr doc"
    and "LoadSSHReadinessSnapshotWithRuntime tk fs targetsDir runtimeDir = Inr (out, ws)"
  shows "(map_of out tid \<noteq> None \<longleftrightarrow> length (ssh_records tid (td_Targets doc)) = 1) \<and>
     (\<forall>s rec. map_of out tid = Some s \<and> ssh_records tid (td_Targets doc) = [rec] \<longrightarrow>
        (let e = effectiveReadinessFromRecord tk now fs targetsDir runtimeDir tid rec in
          er_Ready e = ss_SSHReady s \<and> er_Stage e = ss_SSHProbeStage s \<and> er_Reason e = ss_SSHReason s \<and>
          er_LastProbeAt e = ss_LastProbeAt s \<and> er_LastSuccessfulProbeAt e = ss_LastSuccessfulProbeAt s))"
proof -
  note l = snapshot_lookup [OF assms, of tid]
  note a = snapshot_effective [of tk fs targetsDir runtimeDir tid _ now]
  show ?thesis using l a by (auto simp: Let_def length_Suc_conv split: list.splits)
qed

lemma probe_upsert:
  assumes "probe_and_record tk dial io targetsDir runtimeDir canon doc (n, rec, ssh) fs = (Inr out, fs')"
    and "trim_space runtimeDir \<noteq> ''''"
  obtains ready reason where "probeSSH tk dial fs targetsDir rec ssh = (ready, reason)" "pb_Ready out = ready"
    "UpsertRuntimeReadiness tk io runtimeDir (runtime_entry tk io fs targetsDir canon rec ready reason) fs = (None, fs')"
proof -
  obtain ready reason where p: "probeSSH tk dial fs targetsDir rec ssh = (ready, reason)" by fastforce
  obtain err fs1 where u: "UpsertRuntimeReadiness tk io runtimeDir
      (runtime_entry tk io fs targetsDir canon rec ready reason) fs = (err, fs1)" by fastforce
  have "err = None" "fs1 = fs'" "pb_Ready out = ready"
    using assms p u by (auto simp: probe_and_record_def Let_def split: option.splits)
  then show ?thesis using that p u by blast
qed

text \<open>The readiness that the collection path sees after a probe has been recorded in the sidecar.\<close>

lemma recorded_readiness:
  assumes "\<And>d b. tk_marshalRuntime tk d = Some b \<Longrightarrow> tk_unmarshalRuntime tk (with_newline b) = Some d"
    and "probe_and_record tk dial io targetsDir runtimeDir canon doc (n, rec, ssh) fs = (Inr out, fs')"
    and "trim_space runtimeDir \<noteq> ''''"
    and "ConfigFingerprintFromRecord tk fs' targetsDir rec = ConfigFingerprintFromRecord tk fs targetsDir rec"
    and "tk_format tk (po_now io) \<noteq> ''''"
  shows "let e = effectiveReadinessFromRecord tk now fs' targetsDir runtimeDir canon rec in
     er_Ready e = pb_Ready out \<and>
     er_LastSuccessfulProbeAt e =
       (if pb_Ready out then tk_format tk (po_now io) else rr_LastSuccessfulSSHProbeAt (tr_Readiness rec)) \<and>
     er_Fresh e = readinessFresh tk (er_LastSuccessfulProbeAt e) now ReadinessFreshWindow"
proof -
  obtain ready reason where ok: "pb_Ready out = ready"
    and u: "UpsertRuntimeReadiness tk io runtimeDir (runtime_entry tk io fs targetsDir canon rec ready reason) fs = (None, fs')"
    using probe_upsert [OF assms(2,3)] .
  have l: "LoadRuntimeReadiness tk fs' runtimeDir =
      Inr (AList.update canon (runtime_entry tk io fs targetsDir canon rec ready reason) (sidecar_entries tk fs runtimeDir))"
    using Upsert_loads(1) [OF assms(1) u] by (simp add: runtime_entry_def Let_def)
  have "runtimeDir \<noteq> ''''" using assms(3) by (auto simp: trim_space_def)
  then show ?thesis using l ok assms(4,5)
    by (simp add: effectiveReadinessFromRecord_def runtime_entry_def Let_def)
qed

text \<open>The known-hosts file a record's fingerprint depends on.\<close>

lemma fingerprint_frame:
  assumes "tf_eval fs' = tf_eval fs"
    and "\<And>kh ssh. tr_SSH rec = Some ssh \<Longrightarrow>
      ResolveManagedTargetArtifact (tf_eval fs) targetsDir (se_KnownHostsPath ssh) ArtifactKnownHosts = Inr kh \<Longrightarrow>
      read_path fs' kh = read_path fs kh"
    and "trim_space targetsDir \<noteq> ''''"
  shows "ConfigFingerprintFromRecord tk fs' targetsDir rec = ConfigFingerprintFromRecord tk fs targetsDir rec"
proof -
  have "readKnownHostFingerprint tk fs' targetsDir (se_KnownHostsPath ssh) h =
      readKnownHostFingerprint tk fs targetsDir (se_KnownHostsPath ssh) h" if "tr_SSH rec = Some ssh" for ssh h
    using assms that by (simp add: readKnownHostFingerprint_def split: sum.split)
  then show ?thesis
    by (simp add: ConfigFingerprintFromRecord_def Let_def readKnownHostFingerprint_def [of _ _ _ "''''"] split: option.split)
qed


lemma probe_recorded:
  assumes "RunProbeForTargetSidecar tk dial io targetsDir runtimeDir tid fs = (Inr out, fs')"
  obtains doc n rec ssh where "loadTargets tk fs targetsDir = Inr doc"
    "probe_candidates (canonicalUUID tid) (td_Targets doc) = [(n, rec, ssh)]" "tr_SSH rec = Some ssh"
    "probe_and_record tk dial io targetsDir runtimeDir (canonicalUUID tid) doc (n, rec, ssh) fs = (Inr out, fs')"
    "trim_space runtimeDir \<noteq> ''''"
proof -
  from assms have r: "trim_space runtimeDir \<noteq> ''''"
    "runProbeForTargetImpl tk dial io targetsDir runtimeDir tid fs = (Inr out, fs')"
    by (auto simp: RunProbeForTargetSidecar_def split: if_splits)
  from r obtain doc m where d: "loadTargets tk fs targetsDir = Inr doc"
    "probe_candidates (canonicalUUID tid) (td_Targets doc) = [m]"
    "probe_and_record tk dial io targetsDir runtimeDir (canonicalUUID tid) doc m fs = (Inr out, fs')"
    by (auto simp: runProbeForTargetImpl_def Let_def split: if_splits sum.splits list.splits)
  obtain n rec ssh where m: "m = (n, rec, ssh)" by (cases m)
  have "m \<in> set (probe_candidates (canonicalUUID tid) (td_Targets doc))" using d(2) by simp
  then have "tr_SSH rec = Some ssh"
    by (auto simp: probe_candidates_def List.map_filter_def m split: option.splits if_splits)
  then show ?thesis using that d m r(1) by blast
qed

lemma probe_and_record_frame:
  assumes "probe_and_record tk dial io targetsDir runtimeDir canon doc m fs = (Inr out, fs')"
    and "trim_space runtimeDir \<noteq> ''''"
    and "\<And>d b. tk_marshalRuntime tk d = Some b \<Longrightarrow> tk_unmarshalRuntime tk (with_newline b) = Some d"
  shows "q \<noteq> filepath_join [runtimeDir, runtimeReadinessFile] \<Longrightarrow> read_path fs' q = read_path fs q"
    and "tf_eval fs' = tf_eval fs"
proof -
  obtain ru where "UpsertRuntimeReadiness tk io runtimeDir ru fs = (None, fs')"
    using probe_upsert [OF _ assms(2)] assms(1) by (metis prod_cases3)
  from Upsert_loads(2,3) [OF assms(3) this]
  show "q \<noteq> filepath_join [runtimeDir, runtimeReadinessFile] \<Longrightarrow> read_path fs' q = read_path fs q"
    "tf_eval fs' = tf_eval fs" by blast+
qed

text \<open>C11: A remote probe decides the collection gate. After a probe through the sidecar no other file
  has changed. If it succeeded, the gate lets a collection of that target start for the next fifteen
  minutes. If it failed, the gate is closed; and it then reports that the setup is pending whenever
  targets.json itself records no success, although an earlier success may have been recorded in the
  sidecar. The JSON codec is assumed to read back what it wrote, the time format to name the second of
  the probe, and the sidecar not to be a known-hosts file.\<close>
theorem probe_decides_gate:
  assumes "\<And>d b. tk_marshalRuntime tk d = Some b \<Longrightarrow> tk_unmarshalRuntime tk (with_newline b) = Some d"
    and "trim_space (tk_format tk (po_now io)) \<noteq> ''''" and "tk_parse tk (tk_format tk (po_now io)) = Some t"
    and "RunProbeForTargetSidecar tk dial io targetsDir runtimeDir tid fs = (Inr out, fs')"
    and "trim_space targetsDir \<noteq> ''''"
    and "\<And>kh p. ResolveManagedTargetArtifact (tf_eval fs) targetsDir p ArtifactKnownHosts = Inr kh \<Longrightarrow>
           kh \<noteq> filepath_join [runtimeDir, runtimeReadinessFile]"
  shows "\<exists>doc n rec ssh. loadTargets tk fs targetsDir = Inr doc \<and>
     probe_candidates (canonicalUUID tid) (td_Targets doc) = [(n, rec, ssh)] \<and>
     (\<forall>q. q \<noteq> filepath_join [runtimeDir, runtimeReadinessFile] \<longrightarrow> read_path fs' q = read_path fs q) \<and>
     (let gate = ReadinessGateError (effectiveReadinessFromRecord tk now fs' targetsDir runtimeDir (canonicalUUID tid) rec) in
       (pb_Ready out \<longrightarrow> (gate = None \<longleftrightarrow> time_sub now t \<le> ReadinessFreshWindow)) \<and>
       (\<not> pb_Ready out \<longrightarrow> gate \<noteq> None) \<and>
       (\<not> pb_Ready out \<and> rr_LastSuccessfulSSHProbeAt (tr_Readiness rec) = '''' \<longrightarrow> gate = Some ErrSSHSetupPending))"
proof -
  obtain doc n rec ssh where d: "loadTargets tk fs targetsDir = Inr doc"
    "probe_candidates (canonicalUUID tid) (td_Targets doc) = [(n, rec, ssh)]" "tr_SSH rec = Some ssh"
    "probe_and_record tk dial io targetsDir runtimeDir (canonicalUUID tid) doc (n, rec, ssh) fs = (Inr out, fs')"
    "trim_space runtimeDir \<noteq> ''''" using probe_recorded [OF assms(4)] .
  have frame: "\<And>q. q \<noteq> filepath_join [runtimeDir, runtimeReadinessFile] \<Longrightarrow> read_path fs' q = read_path fs q"
    "tf_eval fs' = tf_eval fs"
    using probe_and_record_frame [OF d(4,5)] assms(1) by blast+
  have fp: "ConfigFingerprintFromRecord tk fs' targetsDir rec = ConfigFingerprintFromRecord tk fs targetsDir rec"
  proof (rule fingerprint_frame [OF frame(2) _ assms(5)])
    fix kh ssh'
    assume "ResolveManagedTargetArtifact (tf_eval fs) targetsDir (se_KnownHostsPath ssh') ArtifactKnownHosts = Inr kh"
    then have "kh \<noteq> filepath_join [runtimeDir, runtimeReadinessFile]" by (rule assms(6))
    then show "read_path fs' kh = read_path fs kh" by (rule frame(1))
  qed
  have ne: "tk_format tk (po_now io) \<noteq> ''''" using assms(2) by (auto simp: trim_space_def)
  note r = recorded_readiness [OF assms(1) d(4,5) fp ne, of now]
  have t: "trim_space '''' = ''''" by (simp add: trim_space_def)
  have "let gate = ReadinessGateError (effectiveReadinessFromRecord tk now fs' targetsDir runtimeDir (canonicalUUID tid) rec) in
       (pb_Ready out \<longrightarrow> (gate = None \<longleftrightarrow> time_sub now t \<le> ReadinessFreshWindow)) \<and>
       (\<not> pb_Ready out \<longrightarrow> gate \<noteq> None) \<and>
       (\<not> pb_Ready out \<and> rr_LastSuccessfulSSHProbeAt (tr_Readiness rec) = '''' \<longrightarrow> gate = Some ErrSSHSetupPending)"
    using r assms(2,3) t by (auto simp: Let_def ReadinessGateError_def readinessFresh_def)
  then show ?thesis using d frame(1) by blast
qed


definition demo_runtime :: runtime_doc where
  "demo_runtime = \<lparr>rd_Version = 1, rd_Targets = Some [(demo_uuid, \<lparr>ru_TargetID = demo_uuid,
     ru_ConfigFingerprint = ''sha256:10.0.0.12|22|ops|rsa|3072|fp|'', ru_SSHReady = True, ru_SSHReason = '''',
     ru_SSHProbeStage = ''command_succeeded'', ru_LastProbeAt = ''now'', ru_LastSuccessfulProbeAt = ''now''\<rparr>)],
     rd_UpdatedAt = ''now''\<rparr>"

definition demo_tk :: target_codec where
  "demo_tk = \<lparr>tk_unmarshalTargets = (\<lambda>s. if s = ''T'' then Some (1, Some [(demo_uuid, Some (demo_record ''''))]) else None),
     tk_marshalTargets = (\<lambda>_. None), tk_unmarshalRuntime = (\<lambda>s. if s = ''R'' @ [CHR 0x0A] then Some demo_runtime else None),
     tk_marshalRuntime = (\<lambda>d. if d = demo_runtime then Some ''R'' else None), tk_parseAuthorizedKey = Some,
     tk_keyType = (\<lambda>_. Some ''ssh-rsa''), tk_parsePrivateKey = Some, tk_b64encode = id, tk_b64decode = Some,
     tk_sha256 = id, tk_hex = id, tk_format = (\<lambda>_. ''now''), tk_parse = (\<lambda>_. Some 0)\<rparr>"

definition demo_tfs :: tfs where
  "demo_tfs = \<lparr>tf_dirs = [(''/t'', True)], tf_files = [(''/t/targets.json'', Some ''T''), (''/t/keys/sw1'', Some ''K'')],
     tf_eval = (\<lambda>_. EvMissing)\<rparr>"

definition demo_pio :: probe_io where
  "demo_pio = \<lparr>po_now = 0, po_lock = \<lparr>lk_dir_ok = True, lk_tries = (\<lambda>i. i = 3)\<rparr>, po_write = WriteOk, po_cancelled = False\<rparr>"

definition demo_probe :: "(probe_error + probe_outcome) \<times> tfs" where
  "demo_probe = RunProbeForTargetSidecar demo_tk (\<lambda>user key addr cb. Dialled True) demo_pio ''/t'' ''/s'' demo_uuid demo_tfs"

lemma demo_known_hosts:
  assumes "ResolveManagedTargetArtifact (tf_eval demo_tfs) ''/t'' p ArtifactKnownHosts = Inr kh"
  shows "kh = ''/t/known_hosts''"
proof -
  have "managed_base ''/t'' = ''/t''" by code_simp
  then show ?thesis using managed_confined [OF assms]
    by (auto simp: Let_def demo_tfs_def artifactKindAllowsRelativePath_def knownHostsFn_def)
qed

lemma demo_sidecar_path: "filepath_join [''/s'', runtimeReadinessFile] = ''/s/brocade-ssh-readiness.json''"
  by code_simp

lemma demo_targets: "loadTargets demo_tk demo_tfs ''/t'' = Inr \<lparr>td_Version = 1, td_Targets = [(demo_uuid, Some (demo_record ''''))]\<rparr>"
  by code_simp

theorem probe_decides_gate_witness:
  "ReadinessGateError (effectiveReadinessFromRecord demo_tk (60 * second) (snd demo_probe) ''/t'' ''/s''
     demo_uuid (demo_record '''')) = None"
proof -
  have r: "map_option pb_Ready (case fst demo_probe of Inl e \<Rightarrow> None | Inr ob \<Rightarrow> Some ob) = Some True" by code_simp
  then obtain ob where ob: "fst demo_probe = Inr ob" "pb_Ready ob" by (auto split: sum.splits)
  have c: "canonicalUUID demo_uuid = demo_uuid" "trim_space ''/t'' \<noteq> ''''" by code_simp+
  have run: "RunProbeForTargetSidecar demo_tk (\<lambda>user key addr cb. Dialled True) demo_pio ''/t'' ''/s'' demo_uuid demo_tfs
      = (Inr ob, snd demo_probe)" using ob(1) by (simp add: demo_probe_def prod_eq_iff)
  have codec: "tk_marshalRuntime demo_tk d = Some b \<Longrightarrow> tk_unmarshalRuntime demo_tk (with_newline b) = Some d" for d b
    by (auto simp: demo_tk_def with_newline_def split: if_splits)
  have fmt: "trim_space (tk_format demo_tk (po_now demo_pio)) \<noteq> ''''" "tk_parse demo_tk (tk_format demo_tk (po_now demo_pio)) = Some 0"
    by code_simp+
  have kh: "kh \<noteq> filepath_join [''/s'', runtimeReadinessFile]"
    if "ResolveManagedTargetArtifact (tf_eval demo_tfs) ''/t'' p ArtifactKnownHosts = Inr kh" for kh p
    using demo_known_hosts [OF that] demo_sidecar_path by simp
  have cand: "\<forall>doc n rec ssh. loadTargets demo_tk demo_tfs ''/t'' = Inr doc \<and>
      probe_candidates demo_uuid (td_Targets doc) = [(n, rec, ssh)] \<longrightarrow> rec = demo_record ''''"
  proof -
    have "map (\<lambda>(n, r, e). r) (probe_candidates demo_uuid [(demo_uuid, Some (demo_record ''''))]) = [demo_record '''']"
      by code_simp
    then show ?thesis by (auto simp: demo_targets)
  qed
  have "time_sub (60 * second) 0 \<le> ReadinessFreshWindow"
    by (simp add: time_sub_def ReadinessFreshWindow_def duration_defs)
  moreover have "\<exists>doc n rec ssh. loadTargets demo_tk demo_tfs ''/t'' = Inr doc \<and>
     probe_candidates (canonicalUUID demo_uuid) (td_Targets doc) = [(n, rec, ssh)] \<and>
     (\<forall>q. q \<noteq> filepath_join [''/s'', runtimeReadinessFile] \<longrightarrow> read_path (snd demo_probe) q = read_path demo_tfs q) \<and>
     (let gate = ReadinessGateError (effectiveReadinessFromRecord demo_tk (60 * second) (snd demo_probe) ''/t'' ''/s''
          (canonicalUUID demo_uuid) rec) in
       (pb_Ready ob \<longrightarrow> (gate = None \<longleftrightarrow> time_sub (60 * second) 0 \<le> ReadinessFreshWindow)) \<and>
       (\<not> pb_Ready ob \<longrightarrow> gate \<noteq> None) \<and>
       (\<not> pb_Ready ob \<and> rr_LastSuccessfulSSHProbeAt (tr_Readiness rec) = '''' \<longrightarrow> gate = Some ErrSSHSetupPending))"
    by (rule probe_decides_gate [OF _ fmt run c(2)]) (use codec kh in blast)+
  ultimately show ?thesis using ob(2) cand by (auto simp: Let_def c(1))
qed

theorem readiness_views_agree_witness:
  "\<exists>s. (case LoadSSHReadinessSnapshotWithRuntime demo_tk demo_tfs ''/t'' ''/s'' of
          Inr (ob, ws) \<Rightarrow> map_of ob demo_uuid | Inl e \<Rightarrow> None) = Some s \<and>
     ss_SSHReady s = er_Ready (effectiveReadinessFromRecord demo_tk 0 demo_tfs ''/t'' ''/s'' demo_uuid (demo_record ''''))"
proof -
  have "case LoadSSHReadinessSnapshotWithRuntime demo_tk demo_tfs ''/t'' ''/s'' of Inl e \<Rightarrow> False | Inr r \<Rightarrow> True"
    by code_simp
  then obtain ob ws where l: "LoadSSHReadinessSnapshotWithRuntime demo_tk demo_tfs ''/t'' ''/s'' = Inr (ob, ws)"
    by (auto split: sum.splits)
  have rs: "ssh_records demo_uuid (td_Targets \<lparr>td_Version = 1, td_Targets = [(demo_uuid, Some (demo_record ''''))]\<rparr>) = [demo_record '''']"
    by code_simp
  from readiness_views_agree [OF _ demo_targets l, of demo_uuid 0] rs l show ?thesis
    by (auto simp: Let_def)
qed


section \<open>Host keys\<close>

definition word_like :: "string \<Rightarrow> bool" where
  "word_like w = (w \<noteq> '''' \<and> list_all (\<lambda>c. \<not> is_space c) w)"

lemma fields_acc_word: "list_all (\<lambda>c. \<not> is_space c) a \<Longrightarrow> fields_acc w (a @ s) = fields_acc (rev a @ w) s"
  by (induction a arbitrary: w) auto

lemma space_blank: "is_space (CHR '' '')" "is_space (CHR 0x0A)"
  by (simp_all add: is_space_def char_code_def)

lemma str_fields_three:
  assumes "word_like a" and "word_like b" and "word_like c"
  shows "str_fields (a @ '' '' @ b @ '' '' @ c) = [a, b, c]"
  using assms fields_acc_word [of a "[]"] fields_acc_word [of b "[]"] fields_acc_word [of c "[]" "[]"] space_blank(1)
  by (simp add: str_fields_def word_like_def)

lemma trim_space_ends:
  assumes "s \<noteq> ''''" and "\<not> is_space (hd s)" and "\<not> is_space (last s)"
  shows "trim_space s = s"
proof -
  have "dropWhile is_space s = s" using assms by (cases s) auto
  moreover have "dropWhile is_space (rev s) = rev s" using assms by (cases s rule: rev_cases) auto
  ultimately show ?thesis by (simp add: trim_space_def)
qed

lemma host_key_line:
  assumes "word_like hp" and "word_like ty" and "word_like k" and "\<not> has_prefix hp ''#''"
  shows "host_key_scan tk hostname presented (split_on (CHR 0x0A) (hp @ '' '' @ ty @ '' '' @ k @ [CHR 0x0A])) =
     ((has_prefix hp (takeWhile (\<lambda>c. c \<noteq> CHR '':'') hostname) \<or> str_contains hp hostname) \<and>
      tk_b64decode tk k = Some presented)"
proof -
  let ?l = "hp @ '' '' @ ty @ '' '' @ k"
  have nl: "CHR 0x0A \<notin> set ?l"
    using assms(1-3) space_blank by (auto simp: word_like_def list_all_iff)
  have "split_on (CHR 0x0A) (?l @ CHR 0x0A # []) = [?l, '''']"
    using split_on_append [of "CHR 0x0A" ?l "[]"] split_on_plain [OF nl] by simp
  moreover have "trim_space ?l = ?l"
    by (rule trim_space_ends) (use assms(1,3) in \<open>auto simp: word_like_def list_all_iff\<close>)
  moreover have "\<not> has_prefix ?l ''#''" "?l \<noteq> ''''" using assms(1,4) by (cases hp; simp add: word_like_def)+
  ultimately show ?thesis
    using str_fields_three [OF assms(1-3)]
    by (simp add: Let_def trim_space_def [of "[]"] split: option.split)
qed

lemma show_int_plain: "0 \<le> p \<Longrightarrow> c \<in> set (show_int p) \<Longrightarrow> \<not> is_space c \<and> c \<noteq> CHR '':''"
  using show_nat_digits [of c "nat p"] by (auto simp: show_int_def is_space_def char_code_def)

lemma bracketed_no_match:
  assumes "CHR '':'' \<notin> set host" and "CHR '':'' \<notin> set port" and "host \<noteq> ''''" and "last host \<noteq> CHR '']''"
  shows "\<not> str_contains (''['' @ host @ '']:'' @ port) (host @ '':'' @ port)"
proof
  assume "str_contains (''['' @ host @ '']:'' @ port) (host @ '':'' @ port)"
  then obtain a b where e: "''['' @ host @ '']:'' @ port = a @ (host @ '':'' @ port) @ b"
    unfolding str_contains_iff by blast
  have "length (filter (\<lambda>c. c = CHR '':'') (''['' @ host @ '']:'' @ port)) = 1"
    using assms(1,2) by (auto simp: filter_empty_conv)
  then have "CHR '':'' \<notin> set a" unfolding e by (auto simp: filter_empty_conv)
  then have "takeWhile (\<lambda>c. c \<noteq> CHR '':'') (a @ (host @ '':'' @ port) @ b) = a @ host"
    using assms(1) by (auto simp: takeWhile_append)
  moreover have "takeWhile (\<lambda>c. c \<noteq> CHR '':'') (''['' @ host @ '']:'' @ port) = ''['' @ host @ '']''"
    using assms(1) by (auto simp: takeWhile_append)
  ultimately have "last (a @ host) = last (''['' @ host @ '']'')" unfolding e by simp
  then show False using assms(3,4) by simp
qed

text \<open>What an enrolled host key is good for. A line that enrollment writes for a host at port 22
  verifies the enrolled key when that host is dialled, and also when a host is dialled whose name is a
  prefix of the enrolled one (\<open>10.0.0.1\<close> accepts the key of \<open>10.0.0.12\<close>). A line written for any
  other port never verifies: the comparison does not see through the brackets of the entry, so a
  switch on a non-standard SSH port fails host-key verification for every key.\<close>
theorem enrolled_host_keys:
  assumes "word_like (host @ ext)" and "CHR '':'' \<notin> set host" and "host \<noteq> ''''"
    and "hd host \<notin> set ''#[''" and "last host \<noteq> CHR '']''"
    and "tk_keyType tk wire = Some ty" and "word_like ty" and "word_like (tk_b64encode tk wire)"
    and "tk_b64decode tk (tk_b64encode tk wire) = Some wire" and "0 < port" and "port \<noteq> 22"
  shows "(read_path fs kh = Content (knownHostsLine tk (host @ ext) 22 wire) \<longrightarrow>
       hostKeyCallbackFromFile tk fs kh (JoinHostPort host 22) wire = HostKeyAccepted) \<and>
     (read_path fs kh = Content (knownHostsLine tk host port wire) \<longrightarrow>
       hostKeyCallbackFromFile tk fs kh (JoinHostPort host port) presented = HostKeyNotEnrolled)"
proof -
  obtain h hs where h: "host = h # hs" "h \<noteq> CHR ''#''" "h \<noteq> CHR ''[''" using assms(3,4) by (cases host) auto
  have j: "JoinHostPort host p = host @ '':'' @ show_int p" for p using assms(2) by (simp add: JoinHostPort_def)
  have t: "takeWhile (\<lambda>c. c \<noteq> CHR '':'') (JoinHostPort host p) = host" for p
    using assms(2) unfolding j by (auto simp: takeWhile_append)
  have np: "\<not> has_prefix (host @ ext) ''#''" using h by simp
  have one: "host_key_scan tk (JoinHostPort host 22) wire (split_on (CHR 0x0A) (knownHostsLine tk (host @ ext) 22 wire))"
    using host_key_line [OF assms(1,7,8) np, of tk "JoinHostPort host 22" wire] t assms(6,9)
    by (simp add: knownHostsLine_def has_prefix_append)
  let ?hp = "''['' @ host @ '']:'' @ show_int port"
  have w: "word_like ?hp"
    using assms(1) show_int_plain [of port] assms(10)
    by (auto simp: word_like_def list_all_iff is_space_def char_code_def)
  have np2: "\<not> has_prefix ?hp ''#''" by simp
  have "\<not> str_contains ?hp (JoinHostPort host port)"
    unfolding j by (rule bracketed_no_match) (use assms(2,3,5,10) show_int_plain [of port] in auto)
  moreover have "\<not> has_prefix ?hp host" using h by simp
  ultimately have two: "\<not> host_key_scan tk (JoinHostPort host port) presented
      (split_on (CHR 0x0A) (knownHostsLine tk host port wire))"
    using host_key_line [OF w assms(7,8) np2, of tk "JoinHostPort host port" presented] t assms(6,11)
    by (simp add: knownHostsLine_def)
  show ?thesis using one two by (simp add: hostKeyCallbackFromFile_def)
qed

theorem enrolled_host_keys_witness:
  "let fs22 = demo_tfs\<lparr>tf_files := [(''/t/known_hosts'', Some (knownHostsLine demo_tk ''10.0.0.12'' 22 ''KEY''))]\<rparr>;
       fs2222 = demo_tfs\<lparr>tf_files := [(''/t/known_hosts'', Some (knownHostsLine demo_tk ''10.0.0.1'' 2222 ''KEY''))]\<rparr>
   in hostKeyCallbackFromFile demo_tk fs22 ''/t/known_hosts'' (JoinHostPort ''10.0.0.1'' 22) ''KEY'' = HostKeyAccepted \<and>
      hostKeyCallbackFromFile demo_tk fs2222 ''/t/known_hosts'' (JoinHostPort ''10.0.0.1'' 2222) ''KEY'' = HostKeyNotEnrolled"
proof -
  have "(read_path fs ''/t/known_hosts'' = Content (knownHostsLine demo_tk (''10.0.0.1'' @ ''2'') 22 ''KEY'') \<longrightarrow>
       hostKeyCallbackFromFile demo_tk fs ''/t/known_hosts'' (JoinHostPort ''10.0.0.1'' 22) ''KEY'' = HostKeyAccepted) \<and>
     (read_path fs ''/t/known_hosts'' = Content (knownHostsLine demo_tk ''10.0.0.1'' 2222 ''KEY'') \<longrightarrow>
       hostKeyCallbackFromFile demo_tk fs ''/t/known_hosts'' (JoinHostPort ''10.0.0.1'' 2222) ''KEY'' = HostKeyNotEnrolled)" for fs
    by (rule enrolled_host_keys [where ty = "''ssh-rsa''"])
      (simp_all add: demo_tk_def word_like_def is_space_def char_code_def)
  then show ?thesis by (simp add: Let_def read_path_def)
qed


text \<open>The command-line probe and the library entry point write the same files when the profile is the
  only record of its target id, targets.json is readable and its lock is free.\<close>

lemma cli_probe_same_files:
  assumes "loadTargets tk fs dir = Inr doc" and "map_of (td_Targets doc) profile = Some (Some rec)"
    and "tr_SSH rec = Some ssh" and "EffectiveTargetID profile (Some rec) = Inr i" and "canonicalUUID i = i"
    and "probe_candidates i (td_Targets doc) = [(profile, rec, ssh)]"
    and "isSafeProfileName profile" and "trim_space profile \<noteq> ''''" and "trim_space dir \<noteq> ''''"
    and "ci_FilePresent (InspectTargetConfigDir tk fs dir)" and "ci_FileReadable (InspectTargetConfigDir tk fs dir)"
    and "ci_Status (InspectTargetConfigDir tk fs dir) \<noteq> TargetConfigUnreadable"
    and "acquireTargetsLock (po_lock io) = None" and "\<not> po_cancelled io" and "i \<noteq> ''''"
  shows "snd (RunProbe tk dial io dir profile i fs) = snd (RunProbeForTarget tk dial io dir i fs)"
proof -
  have "dir \<noteq> ''''" using assms(9) by (auto simp: trim_space_def)
  moreover have "trim_space '''' = ''''" by (simp add: trim_space_def)
  ultimately show ?thesis using assms
    by (simp add: RunProbe_def RunProbeForTarget_def runProbeForTargetImpl_def probe_and_record_def Let_def split_beta)
qed

end
