(* ===== verification/Relay.thy ===== *)
theory Relay
  imports DesiredState TargetStore
begin

text \<open>
  The relay handler (relay.go), its system commands (system_commands.go), the remote SSH readiness
  probe (probe_handler.go) and the command poll loop of desired_state.go. \<open>relay_state\<close> is what a
  handler can change: the supervisor, the files of the target configuration, the requests sent to
  targets, the results posted to the control plane, the restarts that were started and the
  synchronizations that were triggered, all in order. Its observations are \<open>relay_io\<close>: the replies of the targets, the base URL a
  Brocade adapter has settled on, JSON, and the texts of errors. The vendor hooks of the full build
  are nil in this one, so their branches do not exist here;
  non-ASCII dashes in messages are written as hyphens.
\<close>

section \<open>Data\<close>

record relay_result =
  rx_ID :: string
  rx_ResponseStatus :: int
  rx_ResponseData :: "gomap option"
  rx_ErrorMessage :: string
  rx_DurationMs :: int

record relay_handler =
  rh_allowedSafetyLevels :: "string list"
  rh_allowedPlatforms :: "string list"
  rh_changePolicy :: change_policy_config
  rh_probeConfigDir :: string
  rh_probeRuntimeStateDir :: string
  rh_probeSyncTrigger :: bool

datatype http_auth = NoAuth | BasicAuth string string | BearerAuth string

record http_request =
  rq_method :: string
  rq_url :: string
  rq_contentType :: string
  rq_auth :: http_auth
  rq_body :: "string option"
  rq_tls :: tls_config

datatype http_outcome = HttpError string | HttpReadError int string | HttpReply int string

record relay_io =
  ri_host :: host_io
  ri_tk :: target_codec
  ri_dial :: ssh_dialer
  ri_probe :: probe_io
  ri_adapterBase :: "string \<Rightarrow> string option"
  ri_http :: "http_request \<Rightarrow> http_outcome"
  ri_url_ok :: "string \<Rightarrow> bool"
  ri_marshalBody :: "gomap \<Rightarrow> string option"
  ri_unmarshal :: "string \<Rightarrow> gomap option option"
  ri_elapsed :: "relay_command \<Rightarrow> int"
  ri_bodyErr :: string
  ri_urlErr :: string
  ri_denialText :: "change_denial \<Rightarrow> string"
  ri_storeText :: "store_error \<Rightarrow> string"

record relay_state =
  rs_sup :: supervisor
  rs_fs :: tfs
  rs_requests :: "http_request list"
  rs_posts :: "(string \<times> relay_result list) list"
  rs_restarts :: nat
  rs_triggers :: nat

definition vendorPlatforms :: "string list" where "vendorPlatforms = []"

definition buildAllowedPlatforms :: "string list" where
  "buildAllowedPlatforms = ''brocade'' # vendorPlatforms"

definition NewRelayHandler :: "change_policy_config \<Rightarrow> relay_handler" where
  "NewRelayHandler pol =
     \<lparr>rh_allowedSafetyLevels = (if cc_Policy pol \<noteq> ChangePolicyDeny then [''read-only'', ''change''] else [''read-only'']),
      rh_allowedPlatforms = buildAllowedPlatforms, rh_changePolicy = pol,
      rh_probeConfigDir = '''', rh_probeRuntimeStateDir = '''', rh_probeSyncTrigger = False\<rparr>"

definition SetProbeContext :: "string \<Rightarrow> string \<Rightarrow> bool \<Rightarrow> relay_handler \<Rightarrow> relay_handler" where
  "SetProbeContext targetsDir runtimeStateDir trigger rh =
     rh\<lparr>rh_probeConfigDir := trim_space targetsDir, rh_probeRuntimeStateDir := trim_space runtimeStateDir,
        rh_probeSyncTrigger := trigger\<rparr>"

definition ProbeReady :: "relay_handler \<Rightarrow> bool" where
  "ProbeReady rh = (rh_probeConfigDir rh \<noteq> '''' \<and> rh_probeRuntimeStateDir rh \<noteq> '''' \<and> rh_probeSyncTrigger rh)"

definition PlatformBrocadeProbe :: string where "PlatformBrocadeProbe = ''brocade-probe''"
definition OperationProbeSSHReadiness :: string where "OperationProbeSSHReadiness = ''probe.ssh.readiness''"

definition relay_error :: "relay_io \<Rightarrow> relay_command \<Rightarrow> string \<Rightarrow> relay_result" where
  "relay_error io cmd msg =
     \<lparr>rx_ID = rc_ID cmd, rx_ResponseStatus = 0, rx_ResponseData = None, rx_ErrorMessage = msg,
      rx_DurationMs = ri_elapsed io cmd\<rparr>"

section \<open>Calling a target\<close>

definition joinURL :: "string \<Rightarrow> string \<Rightarrow> string" where
  "joinURL base0 path =
     (let base = trim_right (CHR ''/'') base0
      in if path = '''' then base
         else if \<not> has_prefix path ''/'' then base @ ''/'' @ path
         else base @ path)"

definition cred :: "creds \<Rightarrow> string \<Rightarrow> string" where
  "cred cs k = (case map_of cs k of None \<Rightarrow> '''' | Some v \<Rightarrow> v)"

fun first_nonempty :: "string list \<Rightarrow> string" where
  "first_nonempty [] = ''''"
| "first_nonempty (x # xs) = (if x \<noteq> '''' then x else first_nonempty xs)"

definition applyAuth :: "target_profile \<Rightarrow> creds \<Rightarrow> http_auth" where
  "applyAuth t cs =
     (if tp_AuthType t = ''basic'' \<or> tp_AuthType t = ''username_password'' then
        (if cred cs ''username'' \<noteq> '''' \<and> cred cs ''password'' \<noteq> ''''
         then BasicAuth (cred cs ''username'') (cred cs ''password'') else NoAuth)
      else if tp_AuthType t = ''bearer'' \<or> tp_AuthType t = ''api_token'' \<or> tp_AuthType t = ''api-key'' then
        (let token = first_nonempty [cred cs ''token'', cred cs ''api_key'', cred cs ''api_token'', cred cs ''service_token'']
         in if token \<noteq> '''' then BearerAuth token else NoAuth)
      else NoAuth)"

text \<open>The result of a reply whose body has been read, cut at 5 MB.\<close>

definition response_result :: "relay_io \<Rightarrow> relay_command \<Rightarrow> int \<Rightarrow> string \<Rightarrow> relay_result" where
  "response_result io cmd status body =
     (let change = (rc_SafetyLevel cmd = ''change'');
          respBytes = take (5 * 1024 * 1024) body;
          respData =
            (if respBytes = '''' then
               (if change \<and> status \<ge> 200 \<and> status < 300
                then Some [(''status'', VString ''success''), (''message'', VString ''Action completed successfully''),
                           (''httpStatus'', VFloat (of_int status))]
                else Some [(''rawText'', VString '''')])
             else (case ri_unmarshal io respBytes of
                     None \<Rightarrow> Some [(''rawText'', VString respBytes)]
                   | Some m \<Rightarrow> m));
          r = \<lparr>rx_ID = rc_ID cmd, rx_ResponseStatus = status, rx_ResponseData = respData, rx_ErrorMessage = '''',
               rx_DurationMs = 0\<rparr>
      in if status \<ge> 400 then
           (if change \<and> status = 409
            then r\<lparr>rx_ResponseData := Some [(''status'', VString ''conflict''),
                     (''message'', VString ''Target is already in the requested state''), (''httpStatus'', VFloat 409)]\<rparr>
            else r\<lparr>rx_ErrorMessage := ''upstream returned HTTP '' @ show_int status\<rparr>)
         else r)"

definition plain_result :: "relay_command \<Rightarrow> int \<Rightarrow> string \<Rightarrow> relay_result" where
  "plain_result cmd status msg =
     \<lparr>rx_ID = rc_ID cmd, rx_ResponseStatus = status, rx_ResponseData = None, rx_ErrorMessage = msg, rx_DurationMs = 0\<rparr>"

definition build_request :: "relay_io \<Rightarrow> relay_command \<Rightarrow> target_profile \<Rightarrow> creds \<Rightarrow> string option \<Rightarrow> http_request" where
  "build_request io cmd target cs body =
     (let isBrocade = (to_lower (trim_space (tp_TargetType target)) = ''brocade''
                       \<or> to_lower (trim_space (rc_Platform cmd)) = ''brocade'');
          base = (if isBrocade then
                    (case ri_adapterBase io (rc_TargetProfileID cmd) of
                       Some b \<Rightarrow> if b \<noteq> '''' then b else tp_Endpoint target
                     | None \<Rightarrow> tp_Endpoint target)
                  else tp_Endpoint target)
      in \<lparr>rq_method = to_upper (rc_Method cmd), rq_url = joinURL base (rc_Path cmd),
          rq_contentType = (if isBrocade then ''application/yang-data+json'' else ''application/json''),
          rq_auth = applyAuth target cs, rq_body = body, rq_tls = tp_TLS target\<rparr>)"

definition executeHTTP ::
  "relay_io \<Rightarrow> relay_command \<Rightarrow> target_profile \<Rightarrow> creds \<Rightarrow> relay_state \<Rightarrow> relay_result \<times> relay_state" where
  "executeHTTP io cmd target cs s =
     (let m = to_upper (rc_Method cmd);
          body = (case rc_Body cmd of None \<Rightarrow> Some None
                  | Some b \<Rightarrow> if m = ''POST'' \<or> m = ''PUT'' \<or> m = ''PATCH''
                              then map_option Some (ri_marshalBody io b) else Some None)
      in case body of
           None \<Rightarrow> (plain_result cmd 0 (''marshal request body: '' @ ri_bodyErr io), s)
         | Some bd \<Rightarrow>
            (let req = build_request io cmd target cs bd
             in if \<not> ri_url_ok io (rq_url req) then (plain_result cmd 0 (''create request: '' @ ri_urlErr io), s)
                else
                  (let s1 = s\<lparr>rs_requests := rs_requests s @ [req]\<rparr>
                   in case ri_http io req of
                        HttpError e \<Rightarrow> (plain_result cmd 0 (''execute request: '' @ e), s1)
                      | HttpReadError status e \<Rightarrow> (plain_result cmd status (''read response: '' @ e), s1)
                      | HttpReply status bytes \<Rightarrow> (response_result io cmd status bytes, s1))))"

section \<open>Results and system commands\<close>

definition postResults :: "relay_result list \<Rightarrow> relay_state \<Rightarrow> relay_state" where
  "postResults results s =
     (let token = GetConnectorToken (rs_sup s)
      in if token = '''' then s else s\<lparr>rs_posts := rs_posts s @ [(token, results)]\<rparr>)"

definition handleAgentRestart :: "relay_io \<Rightarrow> relay_command \<Rightarrow> relay_state \<Rightarrow> relay_result \<times> relay_state" where
  "handleAgentRestart io cmd s =
     (let result = \<lparr>rx_ID = rc_ID cmd, rx_ResponseStatus = 200,
                    rx_ResponseData = Some [(''message'', VString ''Agent restart initiated - graceful shutdown in progress''),
                                            (''version'', VString HostVersion)],
                    rx_ErrorMessage = '''', rx_DurationMs = ri_elapsed io cmd\<rparr>;
          s1 = postResults [result] s
      in (plain_result cmd 200 '''', s1\<lparr>rs_restarts := Suc (rs_restarts s1)\<rparr>))"

text \<open>The goroutine a restart starts: drain the workers, then signal the process.\<close>

definition restart_goroutine :: "relay_io \<Rightarrow> relay_state \<Rightarrow> relay_state" where
  "restart_goroutine io s = s\<lparr>rs_sup := Shutdown (ri_host io) (rs_sup s)\<rparr>"

definition handleAgentVersion :: "relay_io \<Rightarrow> relay_command \<Rightarrow> relay_result" where
  "handleAgentVersion io cmd =
     \<lparr>rx_ID = rc_ID cmd, rx_ResponseStatus = 200, rx_ResponseData = Some [(''version'', VString HostVersion)],
      rx_ErrorMessage = '''', rx_DurationMs = ri_elapsed io cmd\<rparr>"

definition executeSystemCommand :: "relay_io \<Rightarrow> relay_command \<Rightarrow> relay_state \<Rightarrow> relay_result \<times> relay_state" where
  "executeSystemCommand io cmd s =
     (if rc_OperationID cmd = ''agent-restart'' then
        (if (case sv_state (rs_sup s) of None \<Rightarrow> True | Some hs \<Rightarrow> \<not> hc_RemoteRestartEnabled (hs_Config hs))
         then (relay_error io cmd ''Remote restart is disabled on this host. Set FILTERREX_REMOTE_RESTART=true or enable via host config.'', s)
         else handleAgentRestart io cmd s)
      else if rc_OperationID cmd = ''agent-version'' then (handleAgentVersion io cmd, s)
      else (relay_error io cmd (''unknown system operation '' @ go_quote (rc_OperationID cmd)), s))"

section \<open>Remote SSH readiness probe\<close>

definition probe_code :: "probe_error \<Rightarrow> string" where
  "probe_code e =
     (case e of
        ErrTargetNotConfigured \<Rightarrow> ''target_not_configured''
      | ErrTargetConfigMissing \<Rightarrow> TargetConfigMissing
      | ErrTargetConfigUnreadable \<Rightarrow> TargetConfigUnreadable
      | ErrDuplicateTargetID \<Rightarrow> ''duplicate_target_id''
      | ErrInvalidTarget \<Rightarrow> ''invalid_target_id''
      | ErrProbeLockFailed \<Rightarrow> ''probe_lock_timeout''
      | ErrRuntimeStateLockFailed \<Rightarrow> ''runtime_state_lock_timeout''
      | ErrRuntimeStateUnwritable \<Rightarrow> ''runtime_state_unwritable''
      | ErrConfigDirRequired \<Rightarrow> ''probe_handler_not_configured''
      | _ \<Rightarrow> ''probe_execution_failed'')"

definition probe_data :: "probe_outcome \<Rightarrow> gomap" where
  "probe_data p =
     [(''ready'', VBool (pb_Ready p)), (''stage'', VString (pb_Stage p)), (''reason'', VString (pb_Reason p)),
      (''lastProbeAt'', VString (pb_LastProbeAt p)), (''lastSuccessfulProbeAt'', VString (pb_LastSuccessfulProbeAt p)),
      (''sshKeyAlgorithm'', VString (pb_SSHKeyAlgorithm p)), (''sshKeyBits'', VInt (pb_SSHKeyBits p)),
      (''sshKeyOrigin'', VString (pb_SSHKeyOrigin p)),
      (''sshKeyFingerprintSha256'', VString (pb_SSHKeyFingerprintSHA256 p)),
      (''switchHostKeyFingerprintSha256'', VString (pb_SwitchHostKeyFingerprint p)),
      (''sshUsername'', VString (pb_SSHUsername p)),
      (''summary'', VString (''probe '' @ (if pb_Ready p then ''succeeded'' else ''did not authenticate'') @ '' ('' @ pb_Stage p @ '')''))]"

definition executeProbeSSHReadiness ::
  "relay_io \<Rightarrow> relay_handler \<Rightarrow> relay_command \<Rightarrow> relay_state \<Rightarrow> relay_result \<times> relay_state" where
  "executeProbeSSHReadiness io rh cmd s =
     (if to_upper (rc_Method cmd) \<noteq> ''POST'' then (relay_error io cmd ''probe_method_not_allowed'', s)
      else if rc_SafetyLevel cmd \<noteq> '''' \<and> rc_SafetyLevel cmd \<noteq> ''read-only''
      then (relay_error io cmd ''probe_safety_level_not_allowed'', s)
      else if rc_OperationID cmd \<noteq> OperationProbeSSHReadiness then (relay_error io cmd ''probe_operation_not_allowed'', s)
      else if trim_space (rc_TargetProfileID cmd) = '''' then (relay_error io cmd ''target_profile_id_required'', s)
      else if \<not> ProbeReady rh then (relay_error io cmd ''probe_handler_not_configured'', s)
      else if (case sv_state (rs_sup s) of None \<Rightarrow> False | Some hs \<Rightarrow> hc_LanOnly (hs_Config hs))
      then (relay_error io cmd ''lan_only_mode'', s)
      else (case RunProbeForTargetSidecar (ri_tk io) (ri_dial io) (ri_probe io) (rh_probeConfigDir rh)
                   (rh_probeRuntimeStateDir rh) (rc_TargetProfileID cmd) (rs_fs s) of
              (Inl e, fs') \<Rightarrow> ((relay_error io cmd (probe_code e))\<lparr>rx_ResponseStatus := 200\<rparr>, s\<lparr>rs_fs := fs'\<rparr>)
            | (Inr p, fs') \<Rightarrow>
                (\<lparr>rx_ID = rc_ID cmd, rx_ResponseStatus = 200, rx_ResponseData = Some (probe_data p), rx_ErrorMessage = '''',
                  rx_DurationMs = ri_elapsed io cmd\<rparr>,
                 s\<lparr>rs_fs := fs', rs_triggers := Suc (rs_triggers s)\<rparr>)))"

section \<open>Commands\<close>

definition executeCommand ::
  "relay_io \<Rightarrow> relay_handler \<Rightarrow> relay_command \<Rightarrow> relay_state \<Rightarrow> relay_result \<times> relay_state" where
  "executeCommand io rh cmd s =
     (if rc_Platform cmd = ''system'' then executeSystemCommand io cmd s
      else if rc_Platform cmd = PlatformBrocadeProbe then executeProbeSSHReadiness io rh cmd s
      else if rc_Platform cmd = ''ai-fabric'' then (relay_error io cmd ''ai-fabric probing is not supported by this connector'', s)
      else if rc_Platform cmd \<notin> set (rh_allowedPlatforms rh)
      then (relay_error io cmd (''platform '' @ go_quote (rc_Platform cmd) @ '' not in agent allow-list''), s)
      else if rc_SafetyLevel cmd \<notin> set (rh_allowedSafetyLevels rh)
      then (relay_error io cmd (''safety level '' @ go_quote (rc_SafetyLevel cmd) @ '' not allowed on agent''), s)
      else (case (if rc_SafetyLevel cmd = ''change'' then IsChangeOpAllowed (rh_changePolicy rh) (rc_OperationID cmd) else None) of
              Some denial \<Rightarrow> (relay_error io cmd (ri_denialText io denial), s)
            | None \<Rightarrow>
               (let m = to_upper (rc_Method cmd)
                in if m \<noteq> ''GET'' \<and> m \<noteq> ''POST'' then (relay_error io cmd (''method '' @ go_quote m @ '' not allowed''), s)
                   else if rc_Path cmd = '''' \<or> str_contains (rc_Path cmd) ''..''
                   then (relay_error io cmd ''invalid request path'', s)
                   else (case FindTarget (rc_TargetProfileID cmd) (rs_sup s) of
                           None \<Rightarrow> (relay_error io cmd (''target profile '' @ go_quote (rc_TargetProfileID cmd)
                                     @ '' not found on this agent''), s)
                         | Some target \<Rightarrow>
                            (case LoadSecret (hx_cx (ri_host io)) (hx_fault (ri_host io)) (rc_TargetProfileID cmd)
                                    (sv_store (rs_sup s)) of
                               Inl e \<Rightarrow> (relay_error io cmd (''failed to load credentials for target: '' @ ri_storeText io e), s)
                             | Inr cs \<Rightarrow>
                                (case executeHTTP io cmd target (case cs of None \<Rightarrow> [] | Some c \<Rightarrow> c) s of
                                   (r, s1) \<Rightarrow> (r\<lparr>rx_DurationMs := ri_elapsed io cmd\<rparr>, s1)))))))"

definition bypasses_live_query :: "relay_command \<Rightarrow> bool" where
  "bypasses_live_query cmd =
     (rc_Platform cmd = ''system'' \<or> rc_Platform cmd = ''ai-fabric'' \<or> rc_Platform cmd = PlatformBrocadeProbe)"

fun run_commands ::
  "relay_io \<Rightarrow> relay_handler \<Rightarrow> bool \<Rightarrow> relay_command list \<Rightarrow> relay_state \<Rightarrow> relay_result list \<times> relay_state" where
  "run_commands io rh lq [] s = ([], s)"
| "run_commands io rh lq (cmd # cmds) s =
     (case (if \<not> bypasses_live_query cmd \<and> \<not> lq
            then ((relay_error io cmd ''Remote Live Query is disabled on this host. Set FILTERREX_REMOTE_LIVE_QUERY=true or enable via host config.'')\<lparr>rx_DurationMs := 0\<rparr>, s)
            else executeCommand io rh cmd s) of
        (r, s1) \<Rightarrow> (case run_commands io rh lq cmds s1 of (rs, s2) \<Rightarrow> (r # rs, s2)))"

definition live_query_enabled :: "supervisor \<Rightarrow> bool" where
  "live_query_enabled sv = (case sv_state sv of None \<Rightarrow> False | Some hs \<Rightarrow> hc_RemoteLiveQueryEnabled (hs_Config hs))"

definition ProcessCommands :: "relay_io \<Rightarrow> relay_handler \<Rightarrow> relay_command list \<Rightarrow> relay_state \<Rightarrow> relay_state" where
  "ProcessCommands io rh cmds s =
     (if cmds = [] then s
      else (case run_commands io rh (live_query_enabled (rs_sup s)) cmds s of
              (results, s1) \<Rightarrow> postResults results s1))"

text \<open>One turn of the command poll loop: what it fetched, whether it reports an error again, and the
  next wait.\<close>

record poll_state =
  pl_interval :: duration
  pl_fastUntil :: time
  pl_lastErrLog :: time

datatype poll_fetch = PollError | PollCommands "relay_command list"

definition commandPoll_turn ::
  "relay_io \<Rightarrow> relay_handler \<Rightarrow> time \<Rightarrow> poll_fetch \<Rightarrow> poll_state \<times> relay_state \<Rightarrow> poll_state \<times> relay_state" where
  "commandPoll_turn io rh now fetched ps =
     (case ps of (p, s) \<Rightarrow>
       (if GetConnectorToken (rs_sup s) = '''' then (p, s)
        else (case fetched of
                PollError \<Rightarrow> ((if time_sub now (pl_lastErrLog p) > 30 * second then p\<lparr>pl_lastErrLog := now\<rparr> else p), s)
              | PollCommands cmds \<Rightarrow>
                  (let s1 = (if cmds \<noteq> [] then ProcessCommands io rh cmds s else s);
                       p1 = (if cmds \<noteq> [] then p\<lparr>pl_fastUntil := now + 15 * second\<rparr> else p)
                   in (p1\<lparr>pl_interval := (if now < pl_fastUntil p1 then second else 3 * second)\<rparr>, s1)))))"


section \<open>Frames\<close>

lemma postResults_frame [simp]:
  "rs_sup (postResults rs s) = rs_sup s" "rs_requests (postResults rs s) = rs_requests s"
  "rs_fs (postResults rs s) = rs_fs s" "rs_triggers (postResults rs s) = rs_triggers s"
  by (simp_all add: postResults_def Let_def)

lemma executeSystemCommand_frame:
  assumes "executeSystemCommand io cmd s = (r, s')"
  shows "rx_ID r = rc_ID cmd" and "rs_sup s' = rs_sup s" and "rs_requests s' = rs_requests s"
  using assms
  by (auto simp: executeSystemCommand_def handleAgentRestart_def handleAgentVersion_def plain_result_def relay_error_def
      Let_def split: if_splits)

lemma executeProbe_frame:
  assumes "executeProbeSSHReadiness io rh cmd s = (r, s')"
  shows "rx_ID r = rc_ID cmd" and "rs_sup s' = rs_sup s" and "rs_requests s' = rs_requests s" and "rs_posts s' = rs_posts s"
  using assms
  by (auto simp: executeProbeSSHReadiness_def relay_error_def split: if_splits sum.splits prod.splits)

lemma executeHTTP_frame:
  assumes "executeHTTP io cmd t cs s = (r, s')"
  shows "rx_ID r = rc_ID cmd" and "rs_sup s' = rs_sup s" and "rs_posts s' = rs_posts s"
    and "rs_requests s' = rs_requests s \<or> (\<exists>body. rs_requests s' = rs_requests s @ [build_request io cmd t cs body])"
  using assms
  by (auto simp: executeHTTP_def Let_def plain_result_def response_result_def
      split: option.splits if_splits http_outcome.splits)

text \<open>The condition under which a command leads to a request to a target.\<close>

definition relay_allowed :: "relay_handler \<Rightarrow> supervisor \<Rightarrow> relay_command \<Rightarrow> target_profile \<Rightarrow> bool" where
  "relay_allowed rh sv cmd t =
     (rc_Platform cmd \<in> set (rh_allowedPlatforms rh) \<and> rc_SafetyLevel cmd \<in> set (rh_allowedSafetyLevels rh) \<and>
      (rc_SafetyLevel cmd = ''change'' \<longrightarrow> IsChangeOpAllowed (rh_changePolicy rh) (rc_OperationID cmd) = None) \<and>
      to_upper (rc_Method cmd) \<in> {''GET'', ''POST''} \<and> rc_Path cmd \<noteq> '''' \<and> \<not> str_contains (rc_Path cmd) ''..'' \<and>
      FindTarget (rc_TargetProfileID cmd) sv = Some t)"

lemma executeCommand_frame:
  assumes "executeCommand io rh cmd s = (r, s')"
  shows "rx_ID r = rc_ID cmd \<and> rs_sup s' = rs_sup s \<and>
     (rs_requests s' = rs_requests s \<or>
      (\<not> bypasses_live_query cmd \<and> (\<exists>t cs body. relay_allowed rh (rs_sup s) cmd t \<and>
         rs_requests s' = rs_requests s @ [build_request io cmd t cs body])))"
proof (cases "bypasses_live_query cmd")
  case True
  then show ?thesis
    using assms executeSystemCommand_frame [of io cmd s r s'] executeProbe_frame [of io rh cmd s r s']
    by (auto simp: executeCommand_def bypasses_live_query_def relay_error_def split: if_splits)
next
  case False
  then have n: "rc_Platform cmd \<noteq> ''system''" "rc_Platform cmd \<noteq> PlatformBrocadeProbe" "rc_Platform cmd \<noteq> ''ai-fabric''"
    by (auto simp: bypasses_live_query_def)
  show ?thesis
  proof (cases "\<exists>msg. r = relay_error io cmd msg \<and> s' = s")
    case True
    then show ?thesis by (auto simp: relay_error_def)
  next
    case F: False
    obtain t cs r1 where e: "executeHTTP io cmd t cs s = (r1, s')" "r = r1\<lparr>rx_DurationMs := ri_elapsed io cmd\<rparr>"
      "relay_allowed rh (rs_sup s) cmd t"
      using assms F n
      by (auto simp: executeCommand_def relay_allowed_def Let_def split: if_splits option.splits sum.splits prod.splits)
    from executeHTTP_frame [OF e(1)] e(2,3) False show ?thesis by auto
  qed
qed

lemma run_commands_frame:
  assumes "run_commands io rh lq cmds s = (rs, s')"
  shows "map rx_ID rs = map rc_ID cmds \<and> rs_sup s' = rs_sup s \<and>
     (\<exists>new. rs_requests s' = rs_requests s @ new \<and>
        (\<forall>req \<in> set new. lq \<and> (\<exists>cmd \<in> set cmds. \<exists>t cs body. relay_allowed rh (rs_sup s) cmd t \<and>
           req = build_request io cmd t cs body)))"
  using assms
proof (induction cmds arbitrary: s rs)
  case Nil
  then show ?case by simp
next
  case (Cons cmd cmds)
  define first where "first = (if \<not> bypasses_live_query cmd \<and> \<not> lq
      then ((relay_error io cmd ''Remote Live Query is disabled on this host. Set FILTERREX_REMOTE_LIVE_QUERY=true or enable via host config.'')\<lparr>rx_DurationMs := 0\<rparr>, s)
      else executeCommand io rh cmd s)"
  obtain r s1 where f: "first = (r, s1)" by (cases first)
  obtain rs2 where r: "run_commands io rh lq cmds s1 = (rs2, s')" "rs = r # rs2"
    using Cons.prems f unfolding first_def [symmetric] run_commands.simps by (auto split: prod.splits)
  have one: "rx_ID r = rc_ID cmd \<and> rs_sup s1 = rs_sup s \<and>
     (rs_requests s1 = rs_requests s \<or> (lq \<and> (\<exists>t cs body. relay_allowed rh (rs_sup s) cmd t \<and>
         rs_requests s1 = rs_requests s @ [build_request io cmd t cs body])))"
    using f executeCommand_frame [of io rh cmd s r s1]
    by (auto simp: first_def relay_error_def split: if_splits)
  from Cons.IH [OF r(1)] obtain new where new: "rs_requests s' = rs_requests s1 @ new" "map rx_ID rs2 = map rc_ID cmds"
    "rs_sup s' = rs_sup s1" "\<forall>req \<in> set new. lq \<and> (\<exists>cmd \<in> set cmds. \<exists>t cs body. relay_allowed rh (rs_sup s1) cmd t \<and>
       req = build_request io cmd t cs body)" by blast
  show ?case
  proof (cases "rs_requests s1 = rs_requests s")
    case True
    then show ?thesis using one new r(2) by auto
  next
    case False
    then obtain t cs body where q: "lq" "relay_allowed rh (rs_sup s) cmd t"
      "rs_requests s1 = rs_requests s @ [build_request io cmd t cs body]" using one by auto
    then have "rs_requests s' = rs_requests s @ (build_request io cmd t cs body # new)" using new(1) by simp
    then show ?thesis using q one new r(2)
      by (intro conjI exI [of _ "build_request io cmd t cs body # new"]) auto
  qed
qed

lemma run_commands_posts:
  assumes "run_commands io rh lq cmds s = (rs, s')"
  shows "\<exists>acks. rs_posts s' = rs_posts s @ acks \<and> length acks \<le> length (filter (\<lambda>c. rc_OperationID c = ''agent-restart'') cmds)"
  using assms
proof (induction cmds arbitrary: s rs)
  case Nil
  then show ?case by simp
next
  case (Cons cmd cmds)
  obtain r s1 where f: "(if \<not> bypasses_live_query cmd \<and> \<not> lq
      then ((relay_error io cmd ''Remote Live Query is disabled on this host. Set FILTERREX_REMOTE_LIVE_QUERY=true or enable via host config.'')\<lparr>rx_DurationMs := 0\<rparr>, s)
      else executeCommand io rh cmd s) = (r, s1)" by fastforce
  obtain rs2 where r: "run_commands io rh lq cmds s1 = (rs2, s')"
    using Cons.prems unfolding run_commands.simps f by (auto split: prod.splits)
  have sys: "\<exists>a. rs_posts s1 = rs_posts s @ a \<and> length a \<le> (if rc_OperationID cmd = ''agent-restart'' then 1 else 0)"
    if "executeSystemCommand io cmd s = (r, s1)"
    using that by (auto simp: executeSystemCommand_def handleAgentRestart_def postResults_def Let_def split: if_splits)
  have "\<exists>a. rs_posts s1 = rs_posts s @ a \<and> length a \<le> (if rc_OperationID cmd = ''agent-restart'' then 1 else 0)"
    using f sys executeProbe_frame(4) [of io rh cmd s r s1] executeHTTP_frame(3)
    by (auto simp: executeCommand_def Let_def split: if_splits option.splits sum.splits prod.splits)
  then obtain a where a: "rs_posts s1 = rs_posts s @ a" "length a \<le> (if rc_OperationID cmd = ''agent-restart'' then 1 else 0)"
    by blast
  from Cons.IH [OF r] obtain b where "rs_posts s' = rs_posts s1 @ b"
    "length b \<le> length (filter (\<lambda>c. rc_OperationID c = ''agent-restart'') cmds)" by blast
  with a show ?case by (intro exI [of _ "a @ b"]) (auto split: if_splits)
qed


section \<open>Properties\<close>


definition demo_cmd :: "string \<Rightarrow> string \<Rightarrow> relay_command" where
  "demo_cmd safety op = \<lparr>rc_ID = ''c1'', rc_Method = ''get'', rc_Path = ''/rest/x'', rc_Body = None, rc_Platform = ''brocade'',
     rc_OperationID = op, rc_TargetProfileID = ''a'', rc_SafetyLevel = safety\<rparr>"

definition demo_rio :: relay_io where
  "demo_rio = \<lparr>ri_host = demo_hio, ri_tk = demo_tk, ri_dial = (\<lambda>_ _ _ _. Dialled True), ri_probe = demo_pio,
     ri_adapterBase = (\<lambda>_. None), ri_http = (\<lambda>_. HttpReply 200 ''''), ri_url_ok = (\<lambda>_. True), ri_marshalBody = (\<lambda>_. None),
     ri_unmarshal = (\<lambda>_. None), ri_elapsed = (\<lambda>_. 5), ri_bodyErr = '''', ri_urlErr = '''', ri_denialText = (\<lambda>_. ''denied''),
     ri_storeText = (\<lambda>_. ''io'')\<rparr>"

definition demo_rs :: relay_state where
  "demo_rs = \<lparr>rs_sup = sy_sup (demo_sync [demo_profile ''a'']), rs_fs = demo_tfs, rs_requests = [], rs_posts = [],
     rs_restarts = 0, rs_triggers = 0\<rparr>"


text \<open>Every command is answered, once and in order. With a connector token, processing a non-empty
  batch ends by posting one result per command with the command's id, in the order of the commands;
  before it at most one acknowledgement per restart command is posted. So an accepted restart is
  answered twice: the acknowledgement with its message and then a result without data.\<close>
theorem relay_answers_every_command:
  assumes "cmds \<noteq> []" and "GetConnectorToken (rs_sup s) \<noteq> ''''"
  shows "\<exists>acks results. rs_posts (ProcessCommands io rh cmds s) =
       rs_posts s @ acks @ [(GetConnectorToken (rs_sup s), results)] \<and>
     map rx_ID results = map rc_ID cmds \<and>
     length acks \<le> length (filter (\<lambda>c. rc_OperationID c = ''agent-restart'') cmds) \<and>
     (\<forall>cmd hs. cmds = [cmd] \<and> rc_Platform cmd = ''system'' \<and> rc_OperationID cmd = ''agent-restart'' \<and>
        sv_state (rs_sup s) = Some hs \<and> hc_RemoteRestartEnabled (hs_Config hs) \<longrightarrow>
        length acks = 1 \<and> map rx_ResponseData results = [None])"
proof -
  obtain rs s1 where r: "run_commands io rh (live_query_enabled (rs_sup s)) cmds s = (rs, s1)" by fastforce
  note f = run_commands_frame [OF r]
  obtain acks where a: "rs_posts s1 = rs_posts s @ acks"
    "length acks \<le> length (filter (\<lambda>c. rc_OperationID c = ''agent-restart'') cmds)" using run_commands_posts [OF r] by blast
  have p: "rs_posts (ProcessCommands io rh cmds s) = rs_posts s1 @ [(GetConnectorToken (rs_sup s), rs)]"
    using assms r f by (simp add: ProcessCommands_def postResults_def)
  have "length acks = 1 \<and> map rx_ResponseData rs = [None]"
    if "cmds = [cmd]" "rc_Platform cmd = ''system''" "rc_OperationID cmd = ''agent-restart''"
      "sv_state (rs_sup s) = Some hs" "hc_RemoteRestartEnabled (hs_Config hs)" for cmd hs
    using r a(1) that assms(2)
    by (auto simp: bypasses_live_query_def executeCommand_def executeSystemCommand_def handleAgentRestart_def
        plain_result_def postResults_def Let_def)
  then show ?thesis using p a f by (intro exI [of _ acks] exI [of _ rs]) auto
qed

theorem relay_answers_every_command_witness:
  "\<exists>results. map rx_ID results = [''c1''] \<and>
     last (rs_posts (ProcessCommands demo_rio (NewRelayHandler DefaultChangePolicyConfig) [demo_cmd ''change'' ''x''] demo_rs))
       = (''tok'', results)"
proof -
  have t: "GetConnectorToken (rs_sup demo_rs) = ''tok''" by (simp add: demo_rs_def)
  have c: "rc_ID (demo_cmd ''change'' ''x'') = ''c1''" by (simp add: demo_cmd_def)
  have "[demo_cmd ''change'' ''x''] \<noteq> []" "GetConnectorToken (rs_sup demo_rs) \<noteq> ''''" using t by simp_all
  from relay_answers_every_command [OF this, of demo_rio "NewRelayHandler DefaultChangePolicyConfig"] c t show ?thesis
    by auto
qed

end
