(* ===== verification/Updater.thy ===== *)
theory Updater
  imports Supervisor "HOL-Library.Sublist" "HOL-Library.Product_Lexorder"
begin

text \<open>
  Signed updates (updater.go, update_pubkey.go) and their use in main.go. Ed25519, SHA-256, base64 and
  the JSON codec of the persisted state are parameters (\<open>update_codec\<close>); what one call observes of
  its surroundings (clock, HTTP replies, failures of file operations, the path of the running
  binary, the version linked into it) is \<open>update_io\<close>. Files are those of the encrypted store. A
  failed copy leaves a prefix of its source behind, which is what \<open>io.Copy\<close> can do.
\<close>

section \<open>Versions\<close>

fun splitn :: "nat \<Rightarrow> char \<Rightarrow> string \<Rightarrow> string list" where
  "splitn n c [] = [[]]"
| "splitn n c (x # s) =
     (if x = c \<and> n > 1 then [] # splitn (n - 1) c s
      else (case splitn n c s of [] \<Rightarrow> [[x]] | w # ws \<Rightarrow> (x # w) # ws))"

definition parseSemverComponents :: "string \<Rightarrow> (int \<times> int \<times> int) option" where
  "parseSemverComponents v =
     (let v1 = (if has_prefix v ''v'' then tl v else v)
      in case splitn 3 (CHR ''.'') v1 of
           [p0, p1, p2] \<Rightarrow>
             (case (atoi p0, atoi p1, atoi (hd (splitn 2 (CHR ''-'') p2))) of
                (Some major, Some minor, Some patch) \<Rightarrow> Some (major, minor, patch)
              | _ \<Rightarrow> None)
         | _ \<Rightarrow> None)"

fun semverGreaterThan :: "int \<times> int \<times> int \<Rightarrow> int \<times> int \<times> int \<Rightarrow> bool" where
  "semverGreaterThan (aMaj, aMin, aPat) (bMaj, bMin, bPat) =
     (if aMaj \<noteq> bMaj then aMaj > bMaj else if aMin \<noteq> bMin then aMin > bMin else aPat > bPat)"

fun semverGreaterOrEqual :: "int \<times> int \<times> int \<Rightarrow> int \<times> int \<times> int \<Rightarrow> bool" where
  "semverGreaterOrEqual (aMaj, aMin, aPat) (bMaj, bMin, bPat) =
     (if aMaj \<noteq> bMaj then aMaj > bMaj else if aMin \<noteq> bMin then aMin > bMin else aPat \<ge> bPat)"

definition UpdatePolicyNone :: string where "UpdatePolicyNone = ''none''"
definition UpdatePolicySecurity :: string where "UpdatePolicySecurity = ''security''"
definition UpdatePolicyStable :: string where "UpdatePolicyStable = ''stable''"
definition UpdatePolicyBeta :: string where "UpdatePolicyBeta = ''beta''"

lemmas policy_defs = UpdatePolicyNone_def UpdatePolicySecurity_def UpdatePolicyStable_def UpdatePolicyBeta_def

definition IsValidUpdatePolicy :: "string \<Rightarrow> bool" where
  "IsValidUpdatePolicy p = (p \<in> {UpdatePolicyNone, UpdatePolicySecurity, UpdatePolicyStable, UpdatePolicyBeta})"

definition PolicyAllowsChannel :: "string \<Rightarrow> string \<Rightarrow> bool" where
  "PolicyAllowsChannel policy channel =
     (if policy = UpdatePolicyNone then False
      else if policy = UpdatePolicySecurity then channel = ''security''
      else if policy = UpdatePolicyStable then channel = ''security'' \<or> channel = ''stable''
      else policy = UpdatePolicyBeta)"

section \<open>Manifests\<close>

record signed_manifest =
  mn_SchemaVersion :: int
  mn_Version :: string
  mn_Channel :: string
  mn_Platform :: string
  mn_Arch :: string
  mn_MinHostVersion :: string
  mn_ArtifactURL :: string
  mn_ArtifactName :: string
  mn_ArtifactSize :: int
  mn_SHA256 :: string
  mn_Signature :: string
  mn_KeyID :: string
  mn_ReleasedAt :: string
  mn_ReleaseNotes :: string

text \<open>
  \<open>json.Marshal\<close> of a string, byte by byte. Bytes of 128 and above belong to UTF-8 sequences, which
  are copied (the replacement of invalid sequences and the escapes of U+2028 and U+2029 are not
  modelled: theorems about quoting ask for ASCII).
\<close>

definition json_char :: "char \<Rightarrow> string" where
  "json_char c =
     (let n = char_code c
      in if n = 34 \<or> n = 92 then [CHR 0x5C, c]
         else if n = 8 then [CHR 0x5C, CHR ''b''] else if n = 12 then [CHR 0x5C, CHR ''f'']
         else if n = 10 then [CHR 0x5C, CHR ''n''] else if n = 13 then [CHR 0x5C, CHR ''r'']
         else if n = 9 then [CHR 0x5C, CHR ''t'']
         else if n < 32 \<or> n = 60 \<or> n = 62 \<or> n = 38
         then [CHR 0x5C, CHR ''u'', CHR ''0'', CHR ''0'', hex_digit (n div 16), hex_digit (n mod 16)]
         else [c])"

definition jsonQuote :: "string \<Rightarrow> string" where
  "jsonQuote s = [CHR 0x22] @ concat (map json_char s) @ [CHR 0x22]"

definition dq :: "string \<Rightarrow> string" where
  "dq s = [CHR 0x22] @ s @ [CHR 0x22]"

definition CanonicalBytes :: "signed_manifest \<Rightarrow> string" where
  "CanonicalBytes m =
     ''{'' @ dq ''arch'' @ '':'' @ jsonQuote (mn_Arch m) @
     '','' @ dq ''artifact_name'' @ '':'' @ jsonQuote (mn_ArtifactName m) @
     '','' @ dq ''artifact_size'' @ '':'' @ show_int (mn_ArtifactSize m) @
     '','' @ dq ''artifact_url'' @ '':'' @ jsonQuote (mn_ArtifactURL m) @
     '','' @ dq ''channel'' @ '':'' @ jsonQuote (mn_Channel m) @
     '','' @ dq ''min_host_version'' @ '':'' @ jsonQuote (mn_MinHostVersion m) @
     '','' @ dq ''platform'' @ '':'' @ jsonQuote (mn_Platform m) @
     '','' @ dq ''schema_version'' @ '':'' @ show_int (mn_SchemaVersion m) @
     '','' @ dq ''sha256'' @ '':'' @ jsonQuote (mn_SHA256 m) @
     '','' @ dq ''version'' @ '':'' @ jsonQuote (mn_Version m) @ ''}''"

section \<open>State\<close>

record staged_update_state =
  su_CandidateVersion :: string
  su_CandidatePath :: path
  su_CandidateSHA256 :: string
  su_StagedAt :: string
  su_PreviousVersion :: string
  su_PreviousPath :: path
  su_RollbackCount :: int
  su_HealthDeadline :: string
  su_Confirmed :: bool
  su_LastCheckAt :: string
  su_LastUpdateAt :: string
  su_LastRollbackAt :: string
  su_LastError :: string
  su_ConsecutiveFails :: int

definition empty_staged :: staged_update_state where
  "empty_staged = \<lparr>su_CandidateVersion = '''', su_CandidatePath = [], su_CandidateSHA256 = '''', su_StagedAt = '''',
     su_PreviousVersion = '''', su_PreviousPath = [], su_RollbackCount = 0, su_HealthDeadline = '''',
     su_Confirmed = False, su_LastCheckAt = '''', su_LastUpdateAt = '''', su_LastRollbackAt = '''',
     su_LastError = '''', su_ConsecutiveFails = 0\<rparr>"

definition updateStateFile :: string where "updateStateFile = ''update_state.json.enc''"
definition stagedBinaryDir :: string where "stagedBinaryDir = ''staged''"
definition rollbackBinaryDir :: string where "rollbackBinaryDir = ''rollback''"
definition healthCheckTimeout :: duration where "healthCheckTimeout = 60 * second"
definition maxConsecutiveFails :: int where "maxConsecutiveFails = 3"

lemmas update_dirs = updateStateFile_def stagedBinaryDir_def rollbackBinaryDir_def

datatype update_error = KeyDecodeError string | KeySizeError string | NoSigningKeys | UnknownKeyID string
  | NoSignature | SignatureDecodeError | SignatureLength nat | SignatureInvalid | ArtifactOpenError
  | ArtifactHashError | ArtifactHashMismatch | ChecksSuspended | NoConnectorToken | FetchUpdateError
  | HostTooOld | ManifestVersionError | HostVersionError | DownloadError | ChmodError | NoStagedUpdate
  | ExecutableError | ReplaceError | NoPreviousVersion | RollbackBinaryMissing

record update_codec =
  uc_format :: "time \<Rightarrow> string"
  uc_parse :: "string \<Rightarrow> time option"
  uc_b64 :: "string \<Rightarrow> string option"
  uc_ed25519 :: "string \<Rightarrow> string \<Rightarrow> string \<Rightarrow> bool"
  uc_sha256hex :: "string \<Rightarrow> string"
  uc_cx :: crypto_codec
  uc_marshal :: "staged_update_state \<Rightarrow> string option"
  uc_unmarshal :: "string \<Rightarrow> staged_update_state"
  uc_errText :: "update_error \<Rightarrow> string"

datatype copy_fault = CopyOk | CopyOpenFails | CopyCreateFails | CopyTorn nat

record replace_fault =
  rf_moveFails :: bool
  rf_copy :: copy_fault
  rf_restoreFails :: bool
  rf_removeFails :: bool

datatype manifest_fetch = FetchManifestError | NoManifest | Manifest signed_manifest

datatype download = DownloadFails | DownloadStatus int | DownloadBody string

record update_io =
  ui_version :: string
  ui_now :: time
  ui_nonce :: string
  ui_fault :: fs_fault
  ui_fetch :: manifest_fetch
  ui_download :: download
  ui_tmpCreateFails :: bool
  ui_tmpCopyFails :: bool
  ui_tmpRenameFails :: bool
  ui_hashFails :: bool
  ui_chmodFails :: bool
  ui_removeFails :: bool
  ui_executable :: "path option"
  ui_backup :: copy_fault
  ui_replace :: replace_fault

record update_manager =
  um_sup :: supervisor
  um_configDir :: path
  um_publicKeys :: "(string \<times> string) list"
  um_disabled :: bool
  um_state :: staged_update_state

abbreviation um_store :: "update_manager \<Rightarrow> store" where
  "um_store um \<equiv> sv_store (um_sup um)"

abbreviation um_files :: "update_manager \<Rightarrow> files" where
  "um_files um \<equiv> st_files (um_store um)"

definition set_files :: "files \<Rightarrow> update_manager \<Rightarrow> update_manager" where
  "set_files fs um = um\<lparr>um_sup := (um_sup um)\<lparr>sv_store := (um_store um)\<lparr>st_files := fs\<rparr>\<rparr>\<rparr>"

definition set_state :: "(staged_update_state \<Rightarrow> staged_update_state) \<Rightarrow> update_manager \<Rightarrow> update_manager" where
  "set_state f um = um\<lparr>um_state := f (um_state um)\<rparr>"

section \<open>File helpers\<close>

definition suffix_path :: "path \<Rightarrow> string \<Rightarrow> path" where
  "suffix_path p sfx = butlast p @ [last p @ sfx]"

text \<open>The destination is truncated before the source is read, so a copy onto itself is empty.\<close>

definition copyFile :: "copy_fault \<Rightarrow> path \<Rightarrow> path \<Rightarrow> files \<Rightarrow> bool \<times> files" where
  "copyFile cf src dst fs =
     (case map_of fs src of None \<Rightarrow> (False, fs)
      | Some content \<Rightarrow>
         (let c = (if src = dst then '''' else content)
          in case cf of
               CopyOpenFails \<Rightarrow> (False, fs)
             | CopyCreateFails \<Rightarrow> (False, fs)
             | CopyTorn n \<Rightarrow> (False, AList.update dst (take n c) fs)
             | CopyOk \<Rightarrow> (True, AList.update dst c fs)))"

definition rename_file :: "path \<Rightarrow> path \<Rightarrow> files \<Rightarrow> files" where
  "rename_file src dst fs =
     (case map_of fs src of None \<Rightarrow> fs | Some c \<Rightarrow> if src = dst then fs else AList.delete src (AList.update dst c fs))"

definition replaceFile :: "replace_fault \<Rightarrow> path \<Rightarrow> path \<Rightarrow> files \<Rightarrow> bool \<times> files" where
  "replaceFile rf src dst fs =
     (let tmpDst = suffix_path dst ''.old''
      in if rf_moveFails rf then (False, fs)
         else (let fs1 = rename_file dst tmpDst fs
               in case copyFile (rf_copy rf) src dst fs1 of
                    (False, fs2) \<Rightarrow> (False, if rf_restoreFails rf then fs2 else rename_file tmpDst dst fs2)
                  | (True, fs2) \<Rightarrow> (True, if rf_removeFails rf then fs2 else AList.delete tmpDst fs2)))"

definition downloadArtifact :: "update_io \<Rightarrow> path \<Rightarrow> files \<Rightarrow> bool \<times> files" where
  "downloadArtifact io destPath fs =
     (case ui_download io of
        DownloadFails \<Rightarrow> (False, fs)
      | DownloadStatus n \<Rightarrow> (False, fs)
      | DownloadBody body \<Rightarrow>
         (let tmpPath = suffix_path destPath ''.download''
          in if ui_tmpCreateFails io then (False, fs)
             else if ui_tmpCopyFails io then (False, AList.delete tmpPath fs)
             else if ui_tmpRenameFails io then (False, AList.update tmpPath body fs)
             else (True, rename_file tmpPath destPath (AList.update tmpPath body fs))))"

section \<open>Persistence\<close>

definition update_state_path :: "update_manager \<Rightarrow> path" where
  "update_state_path um = join_path (um_configDir um) [updateStateFile]"

definition loadState :: "update_codec \<Rightarrow> update_io \<Rightarrow> update_manager \<Rightarrow> update_manager" where
  "loadState uc io um =
     (if ff_read_fails (ui_fault io) then um
      else (case map_of (um_files um) (update_state_path um) of None \<Rightarrow> um
            | Some data \<Rightarrow>
               (case decrypt (uc_cx uc) (um_store um) data of None \<Rightarrow> um
                | Some plaintext \<Rightarrow> um\<lparr>um_state := uc_unmarshal uc plaintext\<rparr>)))"

text \<open>All failures are silent; unlike \<open>SaveState\<close> of the store, a failed rename leaves the temporary file.\<close>

definition write_update_state :: "fs_fault \<Rightarrow> path \<Rightarrow> string \<Rightarrow> files \<Rightarrow> files" where
  "write_update_state f p content fs =
     (case write_file f (tmp_path p) content fs of
        (Some e, fs1) \<Rightarrow> fs1
      | (None, fs1) \<Rightarrow> if ff_rename_fails f then fs1 else rename_file (tmp_path p) p fs1)"

definition saveState :: "update_codec \<Rightarrow> update_io \<Rightarrow> update_manager \<Rightarrow> update_manager" where
  "saveState uc io um =
     (case uc_marshal uc (um_state um) of None \<Rightarrow> um
      | Some d \<Rightarrow>
         (case encrypt (uc_cx uc) (ui_nonce io) (um_store um) d of None \<Rightarrow> um
          | Some ct \<Rightarrow> set_files (write_update_state (ui_fault io) (update_state_path um) ct (um_files um)) um))"

section \<open>Keys and signatures\<close>

definition placeholder_key :: string where
  "placeholder_key = ''FILTERREX_UPDATE_SIGNING_KEY_PLACEHOLDER''"

definition UpdatePublicKeys :: "(string \<times> string) list" where
  "UpdatePublicKeys = [(''primary'', placeholder_key)]"

definition IsUpdateKeyConfigured :: "(string \<times> string) list \<Rightarrow> bool" where
  "IsUpdateKeyConfigured keys = list_ex (\<lambda>(k, v). v \<noteq> '''' \<and> v \<noteq> placeholder_key) keys"

definition publicKeySize :: nat where "publicKeySize = 32"
definition signatureSize :: nat where "signatureSize = 64"

fun decode_keys :: "update_codec \<Rightarrow> (string \<times> string) list \<Rightarrow> update_error + (string \<times> string) list" where
  "decode_keys uc [] = Inr []"
| "decode_keys uc ((keyID, keyB64) # ks) =
     (if keyB64 = '''' \<or> keyB64 = placeholder_key then decode_keys uc ks
      else (case uc_b64 uc keyB64 of None \<Rightarrow> Inl (KeyDecodeError keyID)
            | Some pub \<Rightarrow>
               if length pub \<noteq> publicKeySize then Inl (KeySizeError keyID)
               else (case decode_keys uc ks of Inl e \<Rightarrow> Inl e | Inr out \<Rightarrow> Inr ((keyID, pub) # out))))"

definition NewUpdateManager ::
  "update_codec \<Rightarrow> update_io \<Rightarrow> (string \<times> string) list \<Rightarrow> supervisor \<Rightarrow> path \<Rightarrow> update_error + update_manager" where
  "NewUpdateManager uc io keys sup0 configDir =
     (case (if IsUpdateKeyConfigured keys then decode_keys uc keys else Inr []) of
        Inl e \<Rightarrow> Inl e
      | Inr pks \<Rightarrow>
         Inr (loadState uc io
           \<lparr>um_sup = sup0, um_configDir = configDir, um_publicKeys = pks, um_disabled = (pks = []),
            um_state = empty_staged\<rparr>))"

definition verify_with :: "update_codec \<Rightarrow> (string \<times> string) list \<Rightarrow> signed_manifest \<Rightarrow> update_error option" where
  "verify_with uc keys m =
     (let keyID = (if mn_KeyID m = '''' then ''primary'' else mn_KeyID m)
      in case map_of keys keyID of None \<Rightarrow> Some (UnknownKeyID keyID)
         | Some pubKey \<Rightarrow>
            if mn_Signature m = '''' then Some NoSignature
            else (case uc_b64 uc (mn_Signature m) of None \<Rightarrow> Some SignatureDecodeError
                  | Some sig \<Rightarrow>
                     if length sig \<noteq> signatureSize then Some (SignatureLength (length sig))
                     else if \<not> uc_ed25519 uc pubKey (CanonicalBytes m) sig then Some SignatureInvalid
                     else None))"

definition VerifyManifest :: "update_codec \<Rightarrow> signed_manifest \<Rightarrow> update_manager \<Rightarrow> update_error option" where
  "VerifyManifest uc m um =
     (if um_disabled um \<or> um_publicKeys um = [] then Some NoSigningKeys
      else verify_with uc (um_publicKeys um) m)"

definition VerifyArtifact ::
  "update_codec \<Rightarrow> update_io \<Rightarrow> path \<Rightarrow> string \<Rightarrow> update_manager \<Rightarrow> update_error option" where
  "VerifyArtifact uc io artifactPath expected um =
     (case map_of (um_files um) artifactPath of None \<Rightarrow> Some ArtifactOpenError
      | Some content \<Rightarrow>
         if ui_hashFails io then Some ArtifactHashError
         else if uc_sha256hex uc content \<noteq> expected then Some ArtifactHashMismatch
         else None)"

section \<open>Checking and staging\<close>

text \<open>The part of \<open>CheckForUpdate\<close> after a manifest has been received.\<close>

definition judge_manifest ::
  "update_io \<Rightarrow> string \<Rightarrow> (string \<times> string) list \<Rightarrow> signed_manifest \<Rightarrow> update_error + signed_manifest option" where
  "judge_manifest io policy keys m =
     (if \<not> PolicyAllowsChannel policy (mn_Channel m) then Inr None
      else if mn_KeyID m \<noteq> '''' \<and> map_of keys (mn_KeyID m) = None then Inl (UnknownKeyID (mn_KeyID m))
      else if mn_MinHostVersion m \<noteq> '''' \<and>
        (case (parseSemverComponents (mn_MinHostVersion m), parseSemverComponents (ui_version io)) of
           (Some minv, Some cur) \<Rightarrow> \<not> semverGreaterOrEqual cur minv | _ \<Rightarrow> False) then Inl HostTooOld
      else (case parseSemverComponents (mn_Version m) of None \<Rightarrow> Inl ManifestVersionError
            | Some mv \<Rightarrow>
               (case parseSemverComponents (ui_version io) of None \<Rightarrow> Inl HostVersionError
                | Some cv \<Rightarrow> if \<not> semverGreaterThan mv cv then Inr None else Inr (Some m))))"

definition CheckForUpdate ::
  "update_codec \<Rightarrow> update_io \<Rightarrow> string \<Rightarrow> update_manager
   \<Rightarrow> (update_error + signed_manifest option) \<times> update_manager" where
  "CheckForUpdate uc io policy um =
     (if policy = UpdatePolicyNone then (Inr None, um)
      else if um_disabled um then (Inr None, um)
      else if su_ConsecutiveFails (um_state um) \<ge> maxConsecutiveFails then (Inl ChecksSuspended, um)
      else (let um1 = saveState uc io (set_state (\<lambda>s. s\<lparr>su_LastCheckAt := uc_format uc (ui_now io)\<rparr>) um)
            in if GetConnectorToken (um_sup um1) = '''' then (Inl NoConnectorToken, um1)
               else (case ui_fetch io of
                       FetchManifestError \<Rightarrow> (Inl FetchUpdateError, um1)
                     | NoManifest \<Rightarrow> (Inr None, um1)
                     | Manifest m \<Rightarrow> (judge_manifest io policy (um_publicKeys um1) m, um1))))"

definition stage_failed ::
  "update_codec \<Rightarrow> update_io \<Rightarrow> string \<Rightarrow> update_error \<Rightarrow> update_manager \<Rightarrow> update_error option \<times> update_manager" where
  "stage_failed uc io what e um =
     (Some e, saveState uc io (set_state (\<lambda>s. s\<lparr>su_LastError := what @ uc_errText uc e,
        su_ConsecutiveFails := su_ConsecutiveFails s + 1\<rparr>) um))"

definition staged_path :: "update_manager \<Rightarrow> signed_manifest \<Rightarrow> path" where
  "staged_path um m = join_path (um_configDir um) [stagedBinaryDir, mn_ArtifactName m]"

definition remove_staged :: "update_io \<Rightarrow> path \<Rightarrow> update_manager \<Rightarrow> update_manager" where
  "remove_staged io p um = (if ui_removeFails io then um else set_files (AList.delete p (um_files um)) um)"

definition StageUpdate ::
  "update_codec \<Rightarrow> update_io \<Rightarrow> signed_manifest \<Rightarrow> update_manager \<Rightarrow> update_error option \<times> update_manager" where
  "StageUpdate uc io m um =
     (case VerifyManifest uc m um of
        Some e \<Rightarrow> stage_failed uc io ''manifest verification failed: '' e um
      | None \<Rightarrow>
         (let stagedPath = staged_path um m
          in case downloadArtifact io stagedPath (um_files um) of
               (False, fs) \<Rightarrow> stage_failed uc io ''download failed: '' DownloadError (set_files fs um)
             | (True, fs) \<Rightarrow>
                (let um1 = set_files fs um
                 in case VerifyArtifact uc io stagedPath (mn_SHA256 m) um1 of
                      Some e \<Rightarrow> stage_failed uc io ''hash verification failed: '' e (remove_staged io stagedPath um1)
                    | None \<Rightarrow>
                       if ui_chmodFails io then (Some ChmodError, remove_staged io stagedPath um1)
                       else (None, saveState uc io (set_state (\<lambda>s. s\<lparr>su_CandidateVersion := mn_Version m,
                               su_CandidatePath := stagedPath, su_CandidateSHA256 := mn_SHA256 m,
                               su_StagedAt := uc_format uc (ui_now io)\<rparr>) um1)))))"


section \<open>Applying, confirming and rolling back\<close>

definition rollback_path :: "string \<Rightarrow> update_manager \<Rightarrow> path" where
  "rollback_path ver um = join_path (um_configDir um) [rollbackBinaryDir, ''filterrex-connector-'' @ ver]"

definition backup_current :: "update_io \<Rightarrow> path \<Rightarrow> update_manager \<Rightarrow> update_manager" where
  "backup_current io currentBinary um =
     (let p = rollback_path (ui_version io) um
      in case copyFile (ui_backup io) currentBinary p (um_files um) of
           (False, fs) \<Rightarrow> set_files fs um
         | (True, fs) \<Rightarrow> set_state (\<lambda>s. s\<lparr>su_PreviousVersion := ui_version io, su_PreviousPath := p\<rparr>) (set_files fs um))"

definition ApplyUpdate :: "update_codec \<Rightarrow> update_io \<Rightarrow> update_manager \<Rightarrow> update_error option \<times> update_manager" where
  "ApplyUpdate uc io um =
     (if su_CandidatePath (um_state um) = [] then (Some NoStagedUpdate, um)
      else (case VerifyArtifact uc io (su_CandidatePath (um_state um)) (su_CandidateSHA256 (um_state um)) um of
              Some e \<Rightarrow> (Some e, um)
            | None \<Rightarrow>
               (case ui_executable io of None \<Rightarrow> (Some ExecutableError, um)
                | Some currentBinary \<Rightarrow>
                   (let um1 = backup_current io currentBinary um
                    in case replaceFile (ui_replace io) (su_CandidatePath (um_state um1)) currentBinary (um_files um1) of
                         (False, fs) \<Rightarrow> (Some ReplaceError, set_files fs um1)
                       | (True, fs) \<Rightarrow>
                          (None, saveState uc io (set_state (\<lambda>s. s\<lparr>
                             su_HealthDeadline := uc_format uc (ui_now io + healthCheckTimeout),
                             su_Confirmed := False, su_LastUpdateAt := uc_format uc (ui_now io)\<rparr>) (set_files fs um1)))))))"

definition ConfirmHealth :: "update_codec \<Rightarrow> update_io \<Rightarrow> update_manager \<Rightarrow> update_manager" where
  "ConfirmHealth uc io um =
     (if su_HealthDeadline (um_state um) = '''' \<or> su_Confirmed (um_state um) then um
      else saveState uc io (set_state (\<lambda>s. s\<lparr>su_Confirmed := True, su_CandidateVersion := '''', su_CandidatePath := [],
             su_CandidateSHA256 := '''', su_ConsecutiveFails := 0, su_LastError := ''''\<rparr>) um))"

definition CheckRollbackNeeded :: "update_codec \<Rightarrow> update_io \<Rightarrow> update_manager \<Rightarrow> bool" where
  "CheckRollbackNeeded uc io um =
     (if su_HealthDeadline (um_state um) = '''' \<or> su_Confirmed (um_state um) then False
      else (case uc_parse uc (su_HealthDeadline (um_state um)) of None \<Rightarrow> False
            | Some deadline \<Rightarrow> ui_now io > deadline))"

definition Rollback :: "update_codec \<Rightarrow> update_io \<Rightarrow> update_manager \<Rightarrow> update_error option \<times> update_manager" where
  "Rollback uc io um =
     (let prev = su_PreviousPath (um_state um)
      in if prev = [] then (Some NoPreviousVersion, um)
         else (case ui_executable io of None \<Rightarrow> (Some ExecutableError, um)
               | Some currentBinary \<Rightarrow>
                  if map_of (um_files um) prev = None then (Some RollbackBinaryMissing, um)
                  else (case replaceFile (ui_replace io) prev currentBinary (um_files um) of
                          (False, fs) \<Rightarrow> (Some ReplaceError, set_files fs um)
                        | (True, fs) \<Rightarrow>
                           (None, saveState uc io (set_state (\<lambda>s. s\<lparr>su_RollbackCount := su_RollbackCount s + 1,
                              su_LastRollbackAt := uc_format uc (ui_now io), su_HealthDeadline := '''',
                              su_CandidateVersion := '''', su_CandidatePath := [],
                              su_ConsecutiveFails := su_ConsecutiveFails s + 1\<rparr>) (set_files fs um))))))"

definition GetUpdateState :: "update_manager \<Rightarrow> staged_update_state" where
  "GetUpdateState um = um_state um"

text \<open>Whether the drain times out only decides what is logged: the shutdown goes on either way.\<close>

definition DrainWorkers :: "host_io \<Rightarrow> update_manager \<Rightarrow> update_manager" where
  "DrainWorkers hio um = um\<lparr>um_sup := Shutdown hio (um_sup um)\<rparr>"

section \<open>The update part of the main program\<close>

definition update_startup ::
  "update_codec \<Rightarrow> update_io \<Rightarrow> (string \<times> string) list \<Rightarrow> supervisor \<Rightarrow> path \<Rightarrow> update_manager option" where
  "update_startup uc io keys sup0 configDir =
     (case NewUpdateManager uc io keys sup0 configDir of Inl e \<Rightarrow> None
      | Inr um \<Rightarrow> Some (if CheckRollbackNeeded uc io um then snd (Rollback uc io um) else ConfirmHealth uc io um))"

definition main_policy :: "supervisor \<Rightarrow> string" where
  "main_policy s = (case sv_state s of None \<Rightarrow> UpdatePolicyNone
     | Some st \<Rightarrow> if up_UpdatePolicy (hs_Update st) \<noteq> '''' then up_UpdatePolicy (hs_Update st) else UpdatePolicyNone)"

definition update_tick :: "update_codec \<Rightarrow> update_io \<Rightarrow> string \<Rightarrow> update_manager \<Rightarrow> update_manager" where
  "update_tick uc io policy um =
     (case CheckForUpdate uc io policy um of
        (Inl e, um1) \<Rightarrow> um1
      | (Inr None, um1) \<Rightarrow> um1
      | (Inr (Some m), um1) \<Rightarrow> snd (StageUpdate uc io m um1))"


section \<open>What can be installed\<close>

text \<open>
  Contents that may run: the binary the host started with, or one whose hash a manifest names that
  verifies under a configured key. \<open>authentic\<close> admits their truncations.
\<close>

definition genuine :: "update_codec \<Rightarrow> (string \<times> string) list \<Rightarrow> string \<Rightarrow> string \<Rightarrow> bool" where
  "genuine uc keys c0 c = (c = c0 \<or> (\<exists>m. verify_with uc keys m = None \<and> uc_sha256hex uc c = mn_SHA256 m))"

definition authentic :: "update_codec \<Rightarrow> (string \<times> string) list \<Rightarrow> string \<Rightarrow> string \<Rightarrow> bool" where
  "authentic uc keys c0 c = (\<exists>g. genuine uc keys c0 g \<and> prefix c g)"

definition guarded :: "path \<Rightarrow> path \<Rightarrow> path \<Rightarrow> bool" where
  "guarded cfg exe p = (p = exe \<or> p = suffix_path exe ''.old'' \<or> (\<exists>n. p = cfg @ [rollbackBinaryDir, n]))"

definition staged_ok :: "update_codec \<Rightarrow> (string \<times> string) list \<Rightarrow> path \<Rightarrow> staged_update_state \<Rightarrow> bool" where
  "staged_ok uc keys cfg s =
     ((su_CandidatePath s \<noteq> [] \<longrightarrow> (\<exists>n. su_CandidatePath s = cfg @ [stagedBinaryDir, n]) \<and>
         (\<exists>m. verify_with uc keys m = None \<and> mn_SHA256 m = su_CandidateSHA256 s)) \<and>
      (su_PreviousPath s \<noteq> [] \<longrightarrow> (\<exists>n. su_PreviousPath s = cfg @ [rollbackBinaryDir, n])))"

definition files_ok :: "update_codec \<Rightarrow> (string \<times> string) list \<Rightarrow> path \<Rightarrow> path \<Rightarrow> string \<Rightarrow> files \<Rightarrow> bool" where
  "files_ok uc keys cfg exe c0 fs =
     (\<forall>p c. guarded cfg exe p \<longrightarrow> map_of fs p = Some c \<longrightarrow> authentic uc keys c0 c)"

definition upd_inv :: "update_codec \<Rightarrow> (string \<times> string) list \<Rightarrow> path \<Rightarrow> path \<Rightarrow> string \<Rightarrow> update_manager \<Rightarrow> bool" where
  "upd_inv uc keys cfg exe c0 um =
     (um_configDir um = cfg \<and> (um_publicKeys um = keys \<or> um_publicKeys um = []) \<and>
      files_ok uc keys cfg exe c0 (um_files um) \<and> staged_ok uc keys cfg (um_state um) \<and>
      (\<forall>d pt. map_of (um_files um) (cfg @ [updateStateFile]) = Some d \<longrightarrow>
         decrypt (uc_cx uc) (um_store um) d = Some pt \<longrightarrow> staged_ok uc keys cfg (uc_unmarshal uc pt)))"

text \<open>
  What the argument needs of the surroundings: AES-GCM and JSON invert themselves, the configuration
  directory is clean, the binary lives elsewhere, and releases are signed with plain artifact names.
\<close>

definition update_world :: "update_codec \<Rightarrow> (string \<times> string) list \<Rightarrow> path \<Rightarrow> path \<Rightarrow> bool" where
  "update_world uc keys cfg exe =
     ((\<forall>k n pt. length n = nonceSize \<longrightarrow> cx_open (uc_cx uc) k n (cx_seal (uc_cx uc) k n pt) = Some pt) \<and>
      (\<forall>s d. uc_marshal uc s = Some d \<longrightarrow> uc_unmarshal uc d = s) \<and>
      clean_dir cfg \<and> exe \<noteq> [] \<and>
      butlast exe \<notin> {cfg, cfg @ [stagedBinaryDir], cfg @ [rollbackBinaryDir]} \<and>
      (\<forall>m. verify_with uc keys m = None \<longrightarrow> plain_name (mn_ArtifactName m) \<and> mn_ArtifactName m \<notin> {'''', ''.'', ''..''}))"

definition io_ok :: "path \<Rightarrow> update_io \<Rightarrow> bool" where
  "io_ok exe io = (length (ui_nonce io) = nonceSize \<and> plain_name (ui_version io) \<and> ui_executable io \<in> {None, Some exe})"

subsection \<open>Files\<close>

lemma set_files_simps [simp]:
  "um_files (set_files fs um) = fs" "um_state (set_files fs um) = um_state um"
  "um_configDir (set_files fs um) = um_configDir um" "um_publicKeys (set_files fs um) = um_publicKeys um"
  "um_disabled (set_files fs um) = um_disabled um" "st_key (um_store (set_files fs um)) = st_key (um_store um)"
  "sv_state (um_sup (set_files fs um)) = sv_state (um_sup um)"
  by (simp_all add: set_files_def)

lemma set_state_simps [simp]:
  "um_sup (set_state f um) = um_sup um" "um_state (set_state f um) = f (um_state um)"
  "um_configDir (set_state f um) = um_configDir um" "um_publicKeys (set_state f um) = um_publicKeys um"
  "um_disabled (set_state f um) = um_disabled um"
  by (simp_all add: set_state_def)

lemma decrypt_set_files [simp]: "decrypt cx (um_store (set_files fs um)) d = decrypt cx (um_store um) d"
  by (simp add: decrypt_def)

lemma rename_file_lookup:
  "map_of (rename_file s d fs) p =
     (if s = d \<or> map_of fs s = None then map_of fs p
      else if p = d then map_of fs s else if p = s then None else map_of fs p)"
  by (auto simp: rename_file_def split: option.split)

lemma write_update_state_lookup:
  assumes "tmp_path p \<noteq> p"
  shows "q \<noteq> p \<Longrightarrow> q \<noteq> tmp_path p \<Longrightarrow> map_of (write_update_state f p ct fs) q = map_of fs q"
    and "map_of (write_update_state f p ct fs) p \<in> {map_of fs p, Some ct}"
  using assms
  by (auto simp: write_update_state_def write_file_def rename_file_lookup split: option.splits prod.splits)

lemma authentic_prefix: "authentic uc keys c0 c \<Longrightarrow> prefix d c \<Longrightarrow> authentic uc keys c0 d"
  unfolding authentic_def using prefix_order.trans by blast

lemma authentic_Nil: "authentic uc keys c0 ''''"
  unfolding authentic_def genuine_def using Nil_prefix by blast

lemma genuine_authentic: "genuine uc keys c0 c \<Longrightarrow> authentic uc keys c0 c"
  unfolding authentic_def using prefix_order.refl by blast

lemma rename_ok:
  assumes "files_ok uc keys cfg exe c0 fs" and "\<And>c. map_of fs s = Some c \<Longrightarrow> authentic uc keys c0 c"
  shows "files_ok uc keys cfg exe c0 (rename_file s d fs)"
  using assms unfolding files_ok_def by (auto simp: rename_file_lookup split: if_splits)

lemma delete_ok: "files_ok uc keys cfg exe c0 fs \<Longrightarrow> files_ok uc keys cfg exe c0 (AList.delete p fs)"
  unfolding files_ok_def by auto

lemma copy_ok:
  assumes "files_ok uc keys cfg exe c0 fs" and "\<And>c. map_of fs s = Some c \<Longrightarrow> authentic uc keys c0 c"
  shows "files_ok uc keys cfg exe c0 (snd (copyFile cf s d fs))"
proof (cases "map_of fs s")
  case (Some content)
  define c where "c = (if s = d then '''' else content)"
  have a: "authentic uc keys c0 c" using assms(2) [OF Some] authentic_Nil by (simp add: c_def)
  have t: "authentic uc keys c0 (take n c)" for n by (rule authentic_prefix [OF a take_is_prefix])
  show ?thesis
    using assms(1) a t Some unfolding files_ok_def copyFile_def c_def [symmetric]
    by (cases cf) (auto simp: Let_def c_def [symmetric])
qed (use assms(1) in \<open>simp add: copyFile_def\<close>)

lemma replace_ok:
  assumes "files_ok uc keys cfg exe c0 fs" and "\<And>c. map_of fs s = Some c \<Longrightarrow> authentic uc keys c0 c"
  shows "files_ok uc keys cfg exe c0 (snd (replaceFile rf s exe fs))"
proof -
  let ?old = "suffix_path exe ''.old''"
  let ?fs1 = "rename_file exe ?old fs"
  let ?r = "copyFile (rf_copy rf) s exe ?fs1"
  have g: "authentic uc keys c0 c" if "map_of f p = Some c" "files_ok uc keys cfg exe c0 f" "p = exe \<or> p = ?old" for f p c
    using that unfolding files_ok_def guarded_def by blast
  have f1: "files_ok uc keys cfg exe c0 ?fs1" using assms(1) by (rule rename_ok) (use g assms(1) in blast)
  have "authentic uc keys c0 c" if "map_of ?fs1 s = Some c" for c
    using that assms(2) g [OF _ assms(1)] by (auto simp: rename_file_lookup split: if_splits)
  with f1 have f2: "files_ok uc keys cfg exe c0 (snd ?r)" by (rule copy_ok)
  then have f3: "files_ok uc keys cfg exe c0 (rename_file ?old exe (snd ?r))" by (rule rename_ok) (use g f2 in blast)
  show ?thesis
    using assms(1) f2 f3 delete_ok [OF f2, of ?old] by (auto simp: replaceFile_def Let_def split: prod.split bool.split)
qed


subsection \<open>Paths\<close>

lemma butlast_suffix_path [simp]: "butlast (suffix_path p sfx) = butlast p"
  by (simp add: suffix_path_def)

lemma update_state_path_eq:
  "clean_dir (um_configDir um) \<Longrightarrow> update_state_path um = um_configDir um @ [updateStateFile]"
  by (simp add: update_state_path_def join_path_def clean_comps_append updateStateFile_def)

lemma tmp_state_path: "tmp_path (cfg @ [n]) = cfg @ [n @ ''.tmp'']"
  by (simp add: tmp_path_def)

lemma guarded_butlast:
  "guarded cfg exe p \<Longrightarrow> butlast p = butlast exe \<or> butlast p = cfg @ [rollbackBinaryDir]"
  by (auto simp: guarded_def butlast_append)

lemma join_two:
  assumes "clean_dir d" and "plain_name n" and "n \<notin> {'''', ''.'', ''..''}" and "plain_name a" and "a \<notin> {'''', ''.'', ''..''}"
  shows "join_path d [a, n] = d @ [a, n]"
  using assms by (simp add: join_path_def clean_comps_append plain_name_def split_on_plain)

lemma staged_path_eq:
  assumes "update_world uc keys cfg exe" and "verify_with uc keys m = None" and "um_configDir um = cfg"
  shows "staged_path um m = cfg @ [stagedBinaryDir, mn_ArtifactName m]"
  unfolding staged_path_def assms(3)
  using assms(1,2) by (intro join_two) (auto simp: update_world_def update_dirs plain_name_def)

lemma rollback_path_eq:
  assumes "clean_dir (um_configDir um)" and "plain_name ver"
  shows "rollback_path ver um = um_configDir um @ [rollbackBinaryDir, ''filterrex-connector-'' @ ver]"
  unfolding rollback_path_def
  using assms by (intro join_two) (auto simp: update_dirs plain_name_def)

lemma unguarded:
  assumes "update_world uc keys cfg exe" and "guarded cfg exe p"
  shows "p \<noteq> cfg @ [n]" and "p \<noteq> cfg @ [stagedBinaryDir, n]" and "p \<noteq> suffix_path (cfg @ [stagedBinaryDir, n]) sfx"
proof -
  have s: "stagedBinaryDir \<noteq> rollbackBinaryDir" by (simp add: update_dirs)
  have b: "butlast p \<notin> {cfg, cfg @ [stagedBinaryDir]}"
    using guarded_butlast [OF assms(2)] assms(1) s by (auto simp: update_world_def)
  then show "p \<noteq> cfg @ [n]" "p \<noteq> cfg @ [stagedBinaryDir, n]" by (auto simp: butlast_append)
  show "p \<noteq> suffix_path (cfg @ [stagedBinaryDir, n]) sfx" using b by (auto simp: butlast_append)
qed

lemma state_path_distinct:
  assumes "update_world uc keys cfg exe"
  shows "cfg @ [n] \<noteq> exe" and "cfg @ [n] \<noteq> suffix_path exe sfx" and "cfg @ [n] \<noteq> cfg @ [a, b]"
    and "cfg @ [n] \<noteq> suffix_path (cfg @ [a, b]) sfx"
  using assms by (auto simp: update_world_def butlast_append dest: arg_cong [where f = butlast])

subsection \<open>Operations keep the invariant\<close>

lemma inv_set_state:
  "upd_inv uc keys cfg exe c0 um \<Longrightarrow> staged_ok uc keys cfg (f (um_state um)) \<Longrightarrow>
   upd_inv uc keys cfg exe c0 (set_state f um)"
  by (simp add: upd_inv_def)

lemma inv_set_files:
  assumes "upd_inv uc keys cfg exe c0 um" and "files_ok uc keys cfg exe c0 fs"
    and "map_of fs (cfg @ [updateStateFile]) = map_of (um_files um) (cfg @ [updateStateFile])"
  shows "upd_inv uc keys cfg exe c0 (set_files fs um)"
  using assms by (simp add: upd_inv_def)

lemma inv_saveState:
  assumes w: "update_world uc keys cfg exe" and io: "io_ok exe io" and inv: "upd_inv uc keys cfg exe c0 um"
  shows "upd_inv uc keys cfg exe c0 (saveState uc io um)"
proof (cases "uc_marshal uc (um_state um)")
  case (Some d)
  show ?thesis
  proof (cases "encrypt (uc_cx uc) (ui_nonce io) (um_store um) d")
    case (Some ct)
    let ?p = "cfg @ [updateStateFile]"
    let ?fs = "write_update_state (ui_fault io) ?p ct (um_files um)"
    have t: "tmp_path ?p \<noteq> ?p" by (simp add: tmp_state_path updateStateFile_def)
    have dec: "decrypt (uc_cx uc) (um_store um) ct = Some d"
      using Some io w by (auto simp: encrypt_def decrypt_def io_ok_def update_world_def split: if_splits)
    have um: "uc_unmarshal uc d = um_state um" using \<open>uc_marshal uc (um_state um) = Some d\<close> w by (simp add: update_world_def)
    have "files_ok uc keys cfg exe c0 ?fs"
      using inv unguarded(1) [OF w] write_update_state_lookup(1) [OF t]
      by (auto simp: upd_inv_def files_ok_def tmp_state_path)
    moreover have "staged_ok uc keys cfg (uc_unmarshal uc pt)"
      if "map_of ?fs ?p = Some c" "decrypt (uc_cx uc) (um_store um) c = Some pt" for c pt
    proof -
      from that(1) consider "map_of (um_files um) ?p = Some c" | "c = ct"
        using write_update_state_lookup(2) [OF t, of "ui_fault io" ct "um_files um"] by fastforce
      then show ?thesis using that(2) inv dec um by cases (simp_all add: upd_inv_def)
    qed
    ultimately show ?thesis
      using inv w Some \<open>uc_marshal uc (um_state um) = Some d\<close>
      by (simp add: saveState_def upd_inv_def update_state_path_eq update_world_def)
  qed (use inv Some in \<open>simp add: saveState_def\<close>)
qed (use inv in \<open>simp add: saveState_def\<close>)

lemma inv_loadState:
  assumes "update_world uc keys cfg exe" and "upd_inv uc keys cfg exe c0 um"
  shows "upd_inv uc keys cfg exe c0 (loadState uc io um)"
  using assms
  by (auto simp: loadState_def upd_inv_def update_world_def update_state_path_eq split: option.split)

lemma inv_ConfirmHealth:
  assumes "update_world uc keys cfg exe" and "io_ok exe io" and "upd_inv uc keys cfg exe c0 um"
  shows "upd_inv uc keys cfg exe c0 (ConfirmHealth uc io um)"
  using assms
  by (auto simp: ConfirmHealth_def intro!: inv_saveState inv_set_state) (simp add: staged_ok_def upd_inv_def)

lemma inv_CheckForUpdate:
  assumes "update_world uc keys cfg exe" and "io_ok exe io" and "upd_inv uc keys cfg exe c0 um"
  shows "upd_inv uc keys cfg exe c0 (snd (CheckForUpdate uc io policy um))"
proof -
  have "upd_inv uc keys cfg exe c0 (saveState uc io (set_state (\<lambda>s. s\<lparr>su_LastCheckAt := uc_format uc (ui_now io)\<rparr>) um))"
    using assms by (intro inv_saveState inv_set_state) (simp_all add: staged_ok_def upd_inv_def)
  then show ?thesis using assms(3) by (auto simp: CheckForUpdate_def Let_def split: manifest_fetch.split)
qed


lemma download_frame:
  assumes "q \<noteq> p" and "q \<noteq> suffix_path p ''.download''"
  shows "map_of (snd (downloadArtifact io p fs)) q = map_of fs q"
  using assms by (auto simp: downloadArtifact_def Let_def rename_file_lookup split: download.split)

lemma inv_stage_failed:
  assumes "update_world uc keys cfg exe" and "io_ok exe io" and "upd_inv uc keys cfg exe c0 um"
  shows "upd_inv uc keys cfg exe c0 (snd (stage_failed uc io what e um))"
  using assms by (auto simp: stage_failed_def intro!: inv_saveState inv_set_state) (simp add: staged_ok_def upd_inv_def)

lemma inv_remove_staged:
  assumes "upd_inv uc keys cfg exe c0 um" and "p \<noteq> cfg @ [updateStateFile]"
  shows "upd_inv uc keys cfg exe c0 (remove_staged io p um)"
  using assms by (auto simp: remove_staged_def intro!: inv_set_files delete_ok) (simp add: upd_inv_def)

lemma VerifyManifest_keys:
  assumes "VerifyManifest uc m um = None" and "upd_inv uc keys cfg exe c0 um"
  shows "verify_with uc keys m = None"
  using assms by (auto simp: VerifyManifest_def upd_inv_def split: if_splits)

lemma inv_StageUpdate:
  assumes w: "update_world uc keys cfg exe" and io: "io_ok exe io" and inv: "upd_inv uc keys cfg exe c0 um"
  shows "upd_inv uc keys cfg exe c0 (snd (StageUpdate uc io m um))"
proof (cases "VerifyManifest uc m um")
  case None
  have v: "verify_with uc keys m = None" by (rule VerifyManifest_keys [OF None inv])
  let ?p = "staged_path um m"
  have p: "?p = cfg @ [stagedBinaryDir, mn_ArtifactName m]"
    using inv by (intro staged_path_eq [OF w v]) (simp add: upd_inv_def)
  obtain ok fs where d: "downloadArtifact io ?p (um_files um) = (ok, fs)" by fastforce
  have fr: "map_of fs q = map_of (um_files um) q" if "q \<noteq> ?p" "q \<noteq> suffix_path ?p ''.download''" for q
    using download_frame [OF that, of io "um_files um"] d by simp
  have i1: "upd_inv uc keys cfg exe c0 (set_files fs um)"
  proof (rule inv_set_files [OF inv])
    show "files_ok uc keys cfg exe c0 fs"
      using inv fr unguarded [OF w] unfolding p by (auto simp: upd_inv_def files_ok_def)
    show "map_of fs (cfg @ [updateStateFile]) = map_of (um_files um) (cfg @ [updateStateFile])"
      unfolding p by (rule fr [unfolded p]) (use state_path_distinct [OF w] in auto)
  qed
  have i2: "upd_inv uc keys cfg exe c0 (remove_staged io ?p (set_files fs um))"
    using i1 by (rule inv_remove_staged) (simp add: p)
  have i3: "upd_inv uc keys cfg exe c0 (saveState uc io (set_state (\<lambda>s. s\<lparr>su_CandidateVersion := mn_Version m,
      su_CandidatePath := ?p, su_CandidateSHA256 := mn_SHA256 m, su_StagedAt := uc_format uc (ui_now io)\<rparr>) (set_files fs um)))"
    using i1 v by (intro inv_saveState [OF w io] inv_set_state) (auto simp: staged_ok_def upd_inv_def p)
  show ?thesis
    using None d i1 i2 i3 inv_stage_failed [OF w io i1] inv_stage_failed [OF w io i2]
    by (auto simp: StageUpdate_def Let_def split: option.split bool.split)
qed (use inv_stage_failed [OF w io inv] in \<open>simp add: StageUpdate_def\<close>)

lemma exe_content_ok:
  "files_ok uc keys cfg exe c0 fs \<Longrightarrow> map_of fs exe = Some c \<Longrightarrow> authentic uc keys c0 c"
  by (auto simp: files_ok_def guarded_def)

lemma copy_frame: "q \<noteq> d \<Longrightarrow> map_of (snd (copyFile cf s d fs)) q = map_of fs q"
  by (auto simp: copyFile_def Let_def split: option.split copy_fault.split)

lemma replace_frame: "q \<noteq> d \<Longrightarrow> q \<noteq> suffix_path d ''.old'' \<Longrightarrow> map_of (snd (replaceFile rf s d fs)) q = map_of fs q"
  using copy_frame [of q d "rf_copy rf" s "rename_file d (suffix_path d ''.old'') fs"]
  by (auto simp: replaceFile_def Let_def rename_file_lookup split: prod.split bool.split)

lemma inv_replace:
  assumes w: "update_world uc keys cfg exe" and inv: "upd_inv uc keys cfg exe c0 um"
    and "\<And>c. map_of (um_files um) s = Some c \<Longrightarrow> authentic uc keys c0 c"
  shows "upd_inv uc keys cfg exe c0 (set_files (snd (replaceFile rf s exe (um_files um))) um)"
  using inv
proof (rule inv_set_files)
  show "files_ok uc keys cfg exe c0 (snd (replaceFile rf s exe (um_files um)))"
    using inv assms(3) by (intro replace_ok) (auto simp: upd_inv_def)
  show "map_of (snd (replaceFile rf s exe (um_files um))) (cfg @ [updateStateFile]) =
      map_of (um_files um) (cfg @ [updateStateFile])"
    by (rule replace_frame) (use state_path_distinct [OF w] in auto)
qed

lemma inv_Rollback:
  assumes w: "update_world uc keys cfg exe" and io: "io_ok exe io" and inv: "upd_inv uc keys cfg exe c0 um"
  shows "upd_inv uc keys cfg exe c0 (snd (Rollback uc io um))"
proof (cases "su_PreviousPath (um_state um) = [] \<or> ui_executable io = None")
  case False
  let ?prev = "su_PreviousPath (um_state um)"
  have e: "ui_executable io = Some exe" using io False by (auto simp: io_ok_def)
  obtain ok fs where r: "replaceFile (ui_replace io) ?prev exe (um_files um) = (ok, fs)" by fastforce
  have "guarded cfg exe ?prev" using inv False by (auto simp: upd_inv_def staged_ok_def guarded_def)
  then have i: "upd_inv uc keys cfg exe c0 (set_files fs um)"
    using inv_replace [OF w inv, of ?prev "ui_replace io"] inv r by (auto simp: upd_inv_def files_ok_def)
  have "upd_inv uc keys cfg exe c0 (saveState uc io (set_state f (set_files fs um)))"
    if "\<And>s. su_CandidatePath (f s) = []" "\<And>s. su_PreviousPath (f s) = su_PreviousPath s" for f
    using i that by (intro inv_saveState [OF w io] inv_set_state) (auto simp: staged_ok_def upd_inv_def)
  then show ?thesis using False e r i inv by (auto simp: Rollback_def Let_def split: option.split bool.split)
qed (use inv in \<open>auto simp: Rollback_def Let_def\<close>)

lemma inv_backup:
  assumes w: "update_world uc keys cfg exe" and io: "io_ok exe io" and inv: "upd_inv uc keys cfg exe c0 um"
  shows "upd_inv uc keys cfg exe c0 (backup_current io exe um) \<and>
    su_CandidatePath (um_state (backup_current io exe um)) = su_CandidatePath (um_state um) \<and>
    (\<forall>n. map_of (um_files (backup_current io exe um)) (cfg @ [stagedBinaryDir, n]) =
         map_of (um_files um) (cfg @ [stagedBinaryDir, n]))"
proof -
  let ?p = "rollback_path (ui_version io) um"
  have p: "?p = cfg @ [rollbackBinaryDir, ''filterrex-connector-'' @ ui_version io]"
    using inv w io by (simp add: rollback_path_eq upd_inv_def update_world_def io_ok_def)
  obtain ok fs where c: "copyFile (ui_backup io) exe ?p (um_files um) = (ok, fs)" by fastforce
  have fr: "map_of fs q = map_of (um_files um) q" if "q \<noteq> ?p" for q
    using copy_frame [OF that, of "ui_backup io" exe "um_files um"] c by simp
  have "files_ok uc keys cfg exe c0 fs"
    using copy_ok [of uc keys cfg exe c0 "um_files um" exe "ui_backup io" ?p] exe_content_ok inv c
    by (auto simp: upd_inv_def)
  with inv have i: "upd_inv uc keys cfg exe c0 (set_files fs um)"
    by (rule inv_set_files) (use fr p in simp)
  then have "upd_inv uc keys cfg exe c0 (backup_current io exe um)"
    using c by (auto simp: backup_current_def Let_def split: bool.split intro!: inv_set_state)
      (auto simp: staged_ok_def upd_inv_def p)
  moreover have "map_of fs (cfg @ [stagedBinaryDir, n]) = map_of (um_files um) (cfg @ [stagedBinaryDir, n])" for n
    by (rule fr) (simp add: p update_dirs)
  ultimately show ?thesis using c by (auto simp: backup_current_def Let_def split: bool.split)
qed


lemma inv_ApplyUpdate:
  assumes w: "update_world uc keys cfg exe" and io: "io_ok exe io" and inv: "upd_inv uc keys cfg exe c0 um"
  shows "upd_inv uc keys cfg exe c0 (snd (ApplyUpdate uc io um))"
proof (cases "su_CandidatePath (um_state um) = [] \<or> ui_executable io = None \<or>
    VerifyArtifact uc io (su_CandidatePath (um_state um)) (su_CandidateSHA256 (um_state um)) um \<noteq> None")
  case False
  let ?cand = "su_CandidatePath (um_state um)"
  let ?um1 = "backup_current io exe um"
  have e: "ui_executable io = Some exe" using io False by (auto simp: io_ok_def)
  obtain n m where c: "?cand = cfg @ [stagedBinaryDir, n]" and m: "verify_with uc keys m = None"
    "mn_SHA256 m = su_CandidateSHA256 (um_state um)"
    using inv False by (auto simp: upd_inv_def staged_ok_def)
  have b: "upd_inv uc keys cfg exe c0 ?um1" "su_CandidatePath (um_state ?um1) = ?cand"
    "map_of (um_files ?um1) ?cand = map_of (um_files um) ?cand"
    using inv_backup [OF w io inv] c by simp_all
  have "authentic uc keys c0 d" if "map_of (um_files um) ?cand = Some d" for d
  proof (rule genuine_authentic)
    have "uc_sha256hex uc d = mn_SHA256 m"
      using False that m(2) by (auto simp: VerifyArtifact_def split: if_splits)
    then show "genuine uc keys c0 d" using m(1) by (auto simp: genuine_def)
  qed
  then have i: "upd_inv uc keys cfg exe c0 (set_files (snd (replaceFile (ui_replace io) ?cand exe (um_files ?um1))) ?um1)"
    using b(3) by (intro inv_replace [OF w b(1)]) simp
  have "upd_inv uc keys cfg exe c0 (saveState uc io (set_state f um'))"
    if "upd_inv uc keys cfg exe c0 um'" "\<And>s. su_CandidatePath (f s) = su_CandidatePath s" "\<And>s. su_PreviousPath (f s) = su_PreviousPath s"
      "\<And>s. su_CandidateSHA256 (f s) = su_CandidateSHA256 s" for f um'
    using that by (intro inv_saveState [OF w io] inv_set_state) (auto simp: staged_ok_def upd_inv_def)
  then show ?thesis
    using False e i b(2) by (auto simp: ApplyUpdate_def Let_def split: option.split prod.split bool.split)
qed (use inv in \<open>auto simp: ApplyUpdate_def split: option.split\<close>)

subsection \<open>Reachable states\<close>

text \<open>
  \<open>env\<close> is everything else that happens on the machine, including an attacker who rewrites staged
  artifacts: any change of the supervisor and of files that leaves the store's key, the binary, the
  rollback directory and the persisted update state alone.
\<close>

inductive upd_reach :: "update_codec \<Rightarrow> (string \<times> string) list \<Rightarrow> path \<Rightarrow> path \<Rightarrow> update_manager \<Rightarrow> update_manager \<Rightarrow> bool"
  for uc raw cfg exe um0 where
  start: "upd_reach uc raw cfg exe um0 um0"
| check: "upd_reach uc raw cfg exe um0 um \<Longrightarrow> io_ok exe io \<Longrightarrow> upd_reach uc raw cfg exe um0 (snd (CheckForUpdate uc io policy um))"
| stage: "upd_reach uc raw cfg exe um0 um \<Longrightarrow> io_ok exe io \<Longrightarrow> upd_reach uc raw cfg exe um0 (snd (StageUpdate uc io m um))"
| appl: "upd_reach uc raw cfg exe um0 um \<Longrightarrow> io_ok exe io \<Longrightarrow> upd_reach uc raw cfg exe um0 (snd (ApplyUpdate uc io um))"
| confirm: "upd_reach uc raw cfg exe um0 um \<Longrightarrow> io_ok exe io \<Longrightarrow> upd_reach uc raw cfg exe um0 (ConfirmHealth uc io um)"
| rollback: "upd_reach uc raw cfg exe um0 um \<Longrightarrow> io_ok exe io \<Longrightarrow> upd_reach uc raw cfg exe um0 (snd (Rollback uc io um))"
| restart: "upd_reach uc raw cfg exe um0 um \<Longrightarrow> io_ok exe io \<Longrightarrow> sv_store s = um_store um \<Longrightarrow>
    NewUpdateManager uc io raw s cfg = Inr um' \<Longrightarrow> upd_reach uc raw cfg exe um0 um'"
| env: "upd_reach uc raw cfg exe um0 um \<Longrightarrow> um' = um\<lparr>um_sup := s\<rparr> \<Longrightarrow> st_key (sv_store s) = st_key (um_store um) \<Longrightarrow>
    (\<And>p. guarded cfg exe p \<or> p = cfg @ [updateStateFile] \<Longrightarrow> map_of (st_files (sv_store s)) p = map_of (um_files um) p) \<Longrightarrow>
    upd_reach uc raw cfg exe um0 um'"

lemma inv_New:
  assumes "update_world uc keys cfg exe" and "decode_keys uc raw = Inr keys"
    and "NewUpdateManager uc io raw s cfg = Inr um" and "files_ok uc keys cfg exe c0 (st_files (sv_store s))"
    and "\<And>d pt. map_of (st_files (sv_store s)) (cfg @ [updateStateFile]) = Some d \<Longrightarrow>
      decrypt (uc_cx uc) (sv_store s) d = Some pt \<Longrightarrow> staged_ok uc keys cfg (uc_unmarshal uc pt)"
  shows "upd_inv uc keys cfg exe c0 um"
proof -
  let ?u = "\<lambda>pks. \<lparr>um_sup = s, um_configDir = cfg, um_publicKeys = pks, um_disabled = (pks = []), um_state = empty_staged\<rparr>"
  have "upd_inv uc keys cfg exe c0 (loadState uc io (?u pks))" if "pks = keys \<or> pks = []" for pks
    using that assms(4,5) by (intro inv_loadState [OF assms(1)]) (auto simp: upd_inv_def staged_ok_def empty_staged_def)
  from this [of keys] this [of "[]"] show ?thesis using assms(2,3) by (auto simp: NewUpdateManager_def split: if_splits)
qed

lemma reach_inv:
  assumes "upd_reach uc raw cfg exe um0 um" and w: "update_world uc keys cfg exe" and k: "decode_keys uc raw = Inr keys"
    and i0: "upd_inv uc keys cfg exe c0 um0"
  shows "upd_inv uc keys cfg exe c0 um"
  using assms(1)
proof (induction rule: upd_reach.induct)
  case (restart um io s um')
  show ?case
    by (rule inv_New [OF w k restart.hyps(4)]) (use restart.IH restart.hyps(3) in \<open>auto simp: upd_inv_def\<close>)
next
  case (env um um' s)
  have "decrypt (uc_cx uc) (sv_store s) d = decrypt (uc_cx uc) (um_store um) d" for d
    using env.hyps(3) by (simp add: decrypt_def)
  then show ?case using env.IH env.hyps by (auto simp: upd_inv_def files_ok_def)
qed (use i0 inv_CheckForUpdate [OF w] inv_StageUpdate [OF w] inv_ApplyUpdate [OF w] inv_ConfirmHealth [OF w] inv_Rollback [OF w] in auto)


section \<open>Canonical bytes\<close>

lemma show_int_inj: "show_int a = show_int b \<Longrightarrow> a = b"
proof -
  assume e: "show_int a = show_int b"
  have h: "hd (show_nat n) \<noteq> CHR ''-''" for n
  proof -
    have "show_nat n \<noteq> []" by (simp add: show_nat.simps [of n])
    then have "48 \<le> char_code (hd (show_nat n))" using show_nat_digits [of "hd (show_nat n)" n] by simp
    then show ?thesis by (auto simp: char_code_def)
  qed
  have "a < 0 \<longleftrightarrow> b < 0"
  proof -
    have "hd (show_int i) = CHR ''-'' \<longleftrightarrow> i < 0" for i using h by (simp add: show_int_def)
    then show ?thesis using e by metis
  qed
  then have "show_nat (nat \<bar>a\<bar>) = show_nat (nat \<bar>b\<bar>)" using e by (auto simp: show_int_def split: if_splits)
  then have "int (nat \<bar>a\<bar>) = int (nat \<bar>b\<bar>)" using digits_val_show_nat by (metis option.inject)
  then have "\<bar>a\<bar> = \<bar>b\<bar>" by simp
  then show "a = b" using \<open>a < 0 \<longleftrightarrow> b < 0\<close> by linarith
qed

lemma split_at_first:
  "c \<notin> set a \<Longrightarrow> c \<notin> set b \<Longrightarrow> a @ c # r = b @ c # r' \<Longrightarrow> a = b \<and> r = r'"
proof (induction a arbitrary: b)
  case Nil
  then show ?case by (cases b) auto
next
  case (Cons x a)
  then show ?case by (cases b) auto
qed

lemma show_int_no_comma: "CHR '','' \<notin> set (show_int i)"
proof
  assume "CHR '','' \<in> set (show_int i)"
  then obtain n where "CHR '','' \<in> set (show_nat n)" by (auto simp: show_int_def split: if_splits)
  then show False using show_nat_digits by (fastforce simp: char_code_def)
qed

lemma show_int_split: "show_int a @ CHR '','' # r = show_int b @ CHR '','' # r' \<Longrightarrow> a = b \<and> r = r'"
  using split_at_first [OF show_int_no_comma show_int_no_comma] show_int_inj by blast

lemma char_code_inj: "char_code c = char_code d \<longleftrightarrow> c = d"
  by (simp add: char_code_def)

lemma hex_digit_inj: "m < 16 \<Longrightarrow> n < 16 \<Longrightarrow> hex_digit m = hex_digit n \<Longrightarrow> m = n"
proof -
  assume a: "m < 16" "n < 16" "hex_digit m = hex_digit n"
  have "char_code (hex_digit k) = (if k < 10 then 48 + k else 87 + k)" if "k < 16" for k
    using that by (simp add: hex_digit_def char_code_def)
  then have "(if m < 10 then 48 + m else 87 + m) = (if n < 10 then 48 + n else 87 + n)" using a by metis
  then show "m = n" using a by (auto split: if_splits)
qed

text \<open>The class of a character: copied, escaped by one letter, or by its code.\<close>

definition json_plain :: "char \<Rightarrow> bool" where
  "json_plain c = (json_char c = [c] \<and> c \<noteq> CHR 0x5C \<and> c \<noteq> CHR 0x22)"

definition json_short :: "char \<Rightarrow> char \<Rightarrow> bool" where
  "json_short c e = (json_char c = [CHR 0x5C, e] \<and> e \<noteq> CHR ''u'' \<and>
     (char_code c, e) \<in> {(34, CHR 0x22), (92, CHR 0x5C), (8, CHR ''b''), (12, CHR ''f''), (10, CHR ''n''), (13, CHR ''r''), (9, CHR ''t'')})"

definition json_hex :: "char \<Rightarrow> bool" where
  "json_hex c = (json_char c = [CHR 0x5C, CHR ''u'', CHR ''0'', CHR ''0'', hex_digit (char_code c div 16), hex_digit (char_code c mod 16)]
     \<and> char_code c < 256)"

lemma json_cases: "json_plain c \<or> (\<exists>e. json_short c e) \<or> json_hex c"
proof -
  have b: "char_code c < 256" by (simp add: char_code_def)
  have "char_code (CHR 0x22) = 34" "char_code (CHR 0x5C) = 92" by (simp_all add: char_code_def)
  then have q: "c = CHR 0x22 \<longleftrightarrow> char_code c = 34" "c = CHR 0x5C \<longleftrightarrow> char_code c = 92"
    using char_code_inj by metis+
  show ?thesis
    using b q by (auto simp: json_plain_def json_short_def json_hex_def json_char_def Let_def)
qed

lemma json_char_prefix_free:
  assumes "json_char c @ x = json_char d @ y"
  shows "c = d"
proof -
  consider "json_plain c" | e where "json_short c e" | "json_hex c" using json_cases by blast
  then show ?thesis
  proof cases
    case 1
    then show ?thesis using assms json_cases [of d] by (auto simp: json_plain_def json_short_def json_hex_def)
  next
    case 2
    have "\<exists>e'. json_short d e'" using 2 assms json_cases [of d] by (auto simp: json_plain_def json_short_def json_hex_def)
    then obtain e' where d: "json_short d e'" by blast
    have "json_char c = [CHR 0x5C, e]" "json_char d = [CHR 0x5C, e']" using 2 d unfolding json_short_def by blast+
    then have "e' = e" using assms by simp
    with d have "json_short d e" by simp
    then have "char_code c = char_code d" using 2 by (auto simp: json_short_def)
    then show ?thesis by (simp add: char_code_inj)
  next
    case 3
    have h: "json_hex d" using 3 assms json_cases [of d] by (auto simp: json_plain_def json_short_def json_hex_def)
    have "char_code c div 16 = char_code d div 16"
      using 3 h assms by (intro hex_digit_inj) (auto simp: json_hex_def)
    moreover have "char_code c mod 16 = char_code d mod 16"
      using 3 h assms by (intro hex_digit_inj) (auto simp: json_hex_def)
    ultimately have "char_code c = char_code d" by (metis div_mult_mod_eq)
    then show ?thesis by (simp add: char_code_inj)
  qed
qed

lemma json_char_hd: "json_char d @ y \<noteq> CHR 0x22 # r"
  using json_cases [of d] by (auto simp: json_plain_def json_short_def json_hex_def)

lemma json_body_split:
  "concat (map json_char a) @ CHR 0x22 # r = concat (map json_char b) @ CHR 0x22 # r' \<Longrightarrow> a = b \<and> r = r'"
proof (induction a arbitrary: b)
  case Nil
  show ?case
  proof (cases b)
    case (Cons d b')
    with Nil.prems have "json_char d @ (concat (map json_char b') @ CHR 0x22 # r') = CHR 0x22 # r" by simp
    then show ?thesis using json_char_hd by blast
  qed (use Nil.prems in simp)
next
  case (Cons c a)
  show ?case
  proof (cases b)
    case Nil
    with Cons.prems have "json_char c @ (concat (map json_char a) @ CHR 0x22 # r) = CHR 0x22 # r'" by simp
    then show ?thesis using json_char_hd by blast
  next
    case (Cons d b')
    with Cons.prems have e: "json_char c @ (concat (map json_char a) @ CHR 0x22 # r) =
        json_char d @ (concat (map json_char b') @ CHR 0x22 # r')" by simp
    then have "c = d" by (rule json_char_prefix_free)
    with e Cons.IH [of b'] Cons show ?thesis by simp
  qed
qed

lemma jsonQuote_split: "jsonQuote a @ r = jsonQuote b @ r' \<Longrightarrow> a = b \<and> r = r'"
  using json_body_split [of a r b r'] by (simp add: jsonQuote_def)


lemma jsonQuote_inj: "jsonQuote a = jsonQuote b \<Longrightarrow> a = b"
  using jsonQuote_split [of a "[]" b "[]"] by simp

section \<open>Properties\<close>

definition signed_fields ::
  "signed_manifest \<Rightarrow> (string \<times> string \<times> int \<times> string \<times> string) \<times> (string \<times> string \<times> int \<times> string \<times> string)" where
  "signed_fields m =
     ((mn_Arch m, mn_ArtifactName m, mn_ArtifactSize m, mn_ArtifactURL m, mn_Channel m),
      (mn_MinHostVersion m, mn_Platform m, mn_SchemaVersion m, mn_SHA256 m, mn_Version m))"

definition ascii :: "string \<Rightarrow> bool" where
  "ascii s = list_all (\<lambda>c. char_code c < 128) s"

definition manifest_ascii :: "signed_manifest \<Rightarrow> bool" where
  "manifest_ascii m = list_all ascii [mn_Arch m, mn_ArtifactName m, mn_ArtifactURL m, mn_Channel m, mn_MinHostVersion m,
     mn_Platform m, mn_SHA256 m, mn_Version m]"

lemma canonical_fields: "CanonicalBytes m = CanonicalBytes m' \<Longrightarrow> signed_fields m = signed_fields m'"
  unfolding CanonicalBytes_def
  by (auto dest!: jsonQuote_split show_int_split jsonQuote_inj simp: signed_fields_def)

text \<open>C33: The signature covers exactly the ten security-relevant fields of a manifest. Two (ASCII)
  manifests have the same canonical bytes if and only if they agree on architecture, artifact name,
  size, URL, channel, minimum host version, platform, schema version, hash and version: no two
  different releases share a byte string to be signed, whatever quotes, backslashes, control or HTML
  characters their fields contain, while release notes and release date are not covered.\<close>
theorem CanonicalBytes_unambiguous:
  assumes "manifest_ascii m" and "manifest_ascii m'"
  shows "CanonicalBytes m = CanonicalBytes m' \<longleftrightarrow> signed_fields m = signed_fields m'"
proof
  assume "signed_fields m = signed_fields m'"
  then show "CanonicalBytes m = CanonicalBytes m'" by (simp add: signed_fields_def CanonicalBytes_def)
qed (rule canonical_fields)


definition demo_manifest :: "string \<Rightarrow> signed_manifest" where
  "demo_manifest notes = \<lparr>mn_SchemaVersion = 1, mn_Version = ''0.8.0'', mn_Channel = ''stable'', mn_Platform = ''linux'',
     mn_Arch = ''amd64'', mn_MinHostVersion = '''', mn_ArtifactURL = ''https://u/agent'', mn_ArtifactName = ''agent'',
     mn_ArtifactSize = 3, mn_SHA256 = ''new'', mn_Signature = replicate 64 (CHR ''s''), mn_KeyID = '''',
     mn_ReleasedAt = ''now'', mn_ReleaseNotes = notes\<rparr>"

theorem CanonicalBytes_unambiguous_witness:
  "CanonicalBytes (demo_manifest ''a'') = CanonicalBytes (demo_manifest ''b'') \<and>
   CanonicalBytes ((demo_manifest ''a'')\<lparr>mn_Arch := [CHR 0x22, CHR 0x5C]\<rparr>) \<noteq> CanonicalBytes (demo_manifest ''a'')"
proof -
  have m: "manifest_ascii (demo_manifest n)" "manifest_ascii ((demo_manifest n)\<lparr>mn_Arch := [CHR 0x22, CHR 0x5C]\<rparr>)" for n
    by (simp_all add: manifest_ascii_def ascii_def demo_manifest_def char_code_def)
  show ?thesis
    using CanonicalBytes_unambiguous [OF m(1) m(1), of "''a''" "''b''"] CanonicalBytes_unambiguous [OF m(2) m(1), of "''a''" "''a''"]
    by (simp add: signed_fields_def demo_manifest_def)
qed



definition demo_uc :: update_codec where
  "demo_uc = \<lparr>uc_format = (\<lambda>t. ''t''), uc_parse = (\<lambda>s. Some 0), uc_b64 = Some,
     uc_ed25519 = (\<lambda>k msg sig. msg = CanonicalBytes (demo_manifest '''')), uc_sha256hex = (\<lambda>s. s), uc_cx = demo_codec,
     uc_marshal = (\<lambda>s. if s = empty_staged then Some ''empty'' else None), uc_unmarshal = (\<lambda>s. empty_staged),
     uc_errText = (\<lambda>e. '''')\<rparr>"

definition demo_raw :: "(string \<times> string) list" where
  "demo_raw = [(''primary'', replicate 32 (CHR ''p''))]"

definition demo_uio :: update_io where
  "demo_uio = \<lparr>ui_version = ''0.7.0'', ui_now = 1, ui_nonce = ''123456789012'', ui_fault = no_fault, ui_fetch = NoManifest,
     ui_download = DownloadBody ''new'', ui_tmpCreateFails = False, ui_tmpCopyFails = False, ui_tmpRenameFails = False,
     ui_hashFails = False, ui_chmodFails = False, ui_removeFails = False, ui_executable = Some [''bin'', ''agent''],
     ui_backup = CopyOk, ui_replace = \<lparr>rf_moveFails = False, rf_copy = CopyOk, rf_restoreFails = False, rf_removeFails = False\<rparr>\<rparr>"

definition demo_host :: supervisor where
  "demo_host = (demo_sup [])\<lparr>sv_store := demo_store\<lparr>st_files := [([''bin'', ''agent''], ''old'')]\<rparr>\<rparr>"

definition demo_um :: update_manager where
  "demo_um = \<lparr>um_sup = demo_host, um_configDir = [''etc''], um_publicKeys = demo_raw, um_disabled = False, um_state = empty_staged\<rparr>"

lemmas demo_update_defs = demo_uc_def demo_raw_def demo_uio_def demo_host_def demo_um_def demo_sup_def demo_store_def

lemma demo_new: "NewUpdateManager demo_uc demo_uio demo_raw demo_host [''etc''] = Inr demo_um"
  by (simp add: NewUpdateManager_def demo_update_defs IsUpdateKeyConfigured_def placeholder_key_def publicKeySize_def
      loadState_def update_state_path_def join_path_def updateStateFile_def no_fault_def eval_nat_numeral)

lemma demo_world: "update_world demo_uc demo_raw [''etc''] [''bin'', ''agent'']"
proof -
  have "plain_name (mn_ArtifactName m) \<and> mn_ArtifactName m \<notin> {'''', ''.'', ''..''}" if "verify_with demo_uc demo_raw m = None" for m
  proof -
    have "CanonicalBytes m = CanonicalBytes (demo_manifest '''')"
      using that by (auto simp: verify_with_def demo_uc_def Let_def split: option.splits if_splits)
    then have "mn_ArtifactName m = ''agent''" by (auto dest!: canonical_fields simp: signed_fields_def demo_manifest_def)
    then show ?thesis by (simp add: plain_name_def)
  qed
  then show ?thesis
    by (auto simp: update_world_def demo_uc_def demo_codec_def clean_dir_def split: if_splits)
qed

lemma demo_verify: "verify_with demo_uc demo_raw (demo_manifest '''') = None"
  by (simp add: verify_with_def demo_uc_def demo_raw_def demo_manifest_def signatureSize_def)

definition demo_installed :: update_manager where
  "demo_installed = snd (ApplyUpdate demo_uc demo_uio (snd (StageUpdate demo_uc demo_uio (demo_manifest '''') demo_um)))"

lemma demo_installed_files:
  "map_of (um_files demo_installed) [''bin'', ''agent''] = Some ''new''"
proof -
  have v: "VerifyManifest demo_uc (demo_manifest '''') demo_um = None"
    using demo_verify by (simp add: VerifyManifest_def demo_um_def demo_raw_def)
  show ?thesis
    unfolding demo_installed_def StageUpdate_def v
    by (simp add: staged_path_def demo_update_defs demo_manifest_def downloadArtifact_def Let_def
        rename_file_def suffix_path_def join_path_def update_dirs VerifyArtifact_def saveState_def set_state_def set_files_def
        empty_staged_def ApplyUpdate_def backup_current_def copyFile_def rollback_path_def replaceFile_def)
qed



lemma semver_order:
  "semverGreaterThan a b \<longleftrightarrow> b < a" "semverGreaterOrEqual a b \<longleftrightarrow> b \<le> a"
  by (cases a; cases b; auto simp: less_prod_def less_eq_prod_def)+

lemma saveState_frame [simp]:
  "um_state (saveState uc io um) = um_state um" "um_configDir (saveState uc io um) = um_configDir um"
  "um_publicKeys (saveState uc io um) = um_publicKeys um" "um_disabled (saveState uc io um) = um_disabled um"
  "sv_state (um_sup (saveState uc io um)) = sv_state (um_sup um)"
  by (auto simp: saveState_def split: option.split)

text \<open>An update check never offers a downgrade. A manifest is offered only under an enabled
  policy that admits its channel, to a host with signing keys, with a token and with fewer than three
  failures on record, when its version is strictly greater than the running one in the order of
  (major, minor, patch), the running version satisfies the minimum it asks for, and a key it names is
  known; the check changes nothing of the update state but the time of the last check.\<close>
theorem update_check_offers_newer:
  assumes "CheckForUpdate uc io policy um = (Inr (Some m), um')"
  shows "ui_fetch io = Manifest m \<and> policy \<noteq> UpdatePolicyNone \<and> PolicyAllowsChannel policy (mn_Channel m) \<and>
    \<not> um_disabled um \<and> su_ConsecutiveFails (um_state um) < 3 \<and> GetConnectorToken (um_sup um) \<noteq> '''' \<and>
    (\<exists>new cur. parseSemverComponents (mn_Version m) = Some new \<and> parseSemverComponents (ui_version io) = Some cur \<and>
       cur < new \<and> (\<forall>minv. mn_MinHostVersion m \<noteq> '''' \<longrightarrow> parseSemverComponents (mn_MinHostVersion m) = Some minv \<longrightarrow> minv \<le> cur)) \<and>
    (mn_KeyID m \<noteq> '''' \<longrightarrow> mn_KeyID m \<in> fst ` set (um_publicKeys um)) \<and>
    um_state um' = (um_state um)\<lparr>su_LastCheckAt := uc_format uc (ui_now io)\<rparr>"
proof -
  let ?um1 = "saveState uc io (set_state (\<lambda>s. s\<lparr>su_LastCheckAt := uc_format uc (ui_now io)\<rparr>) um)"
  have g: "policy \<noteq> UpdatePolicyNone" "\<not> um_disabled um" "su_ConsecutiveFails (um_state um) < 3"
    "GetConnectorToken (um_sup um) \<noteq> ''''" "ui_fetch io = Manifest m" "um' = ?um1"
    "judge_manifest io policy (um_publicKeys um) m = Inr (Some m)"
    using assms
    by (auto simp: CheckForUpdate_def Let_def maxConsecutiveFails_def GetConnectorToken_def judge_manifest_def
        split: if_splits manifest_fetch.splits option.splits)
  from g(7) have j: "PolicyAllowsChannel policy (mn_Channel m)"
    "mn_KeyID m = '''' \<or> map_of (um_publicKeys um) (mn_KeyID m) \<noteq> None"
    "\<exists>new cur. parseSemverComponents (mn_Version m) = Some new \<and> parseSemverComponents (ui_version io) = Some cur \<and>
       cur < new \<and> (\<forall>minv. mn_MinHostVersion m \<noteq> '''' \<longrightarrow> parseSemverComponents (mn_MinHostVersion m) = Some minv \<longrightarrow> minv \<le> cur)"
    by (auto simp: judge_manifest_def semver_order split: if_splits option.splits)
  from j(2) have "mn_KeyID m \<noteq> '''' \<longrightarrow> mn_KeyID m \<in> fst ` set (um_publicKeys um)"
    by (auto simp: map_of_eq_None_iff)
  then show ?thesis using g j by simp
qed

theorem update_check_offers_newer_witness:
  "\<exists>m um'. CheckForUpdate demo_uc (demo_uio\<lparr>ui_fetch := Manifest (demo_manifest '''')\<rparr>) ''stable''
      (demo_um\<lparr>um_sup := demo_host\<lparr>sv_state := Some ((demo_state [])\<lparr>hs_Identity :=
         (hs_Identity (demo_state []))\<lparr>hi_ConnectorToken := ''tok''\<rparr>\<rparr>)\<rparr>\<rparr>) = (Inr (Some m), um') \<and>
     parseSemverComponents (mn_Version m) = Some (0, 8, 0)"
proof -
  let ?io = "demo_uio\<lparr>ui_fetch := Manifest (demo_manifest '''')\<rparr>"
  let ?um = "demo_um\<lparr>um_sup := demo_host\<lparr>sv_state := Some ((demo_state [])\<lparr>hs_Identity :=
         (hs_Identity (demo_state []))\<lparr>hi_ConnectorToken := ''tok''\<rparr>\<rparr>)\<rparr>\<rparr>"
  have v: "parseSemverComponents ''0.8.0'' = Some (0, 8, 0)" "parseSemverComponents ''0.7.0'' = Some (0, 7, 0)" by code_simp+
  have "fst (CheckForUpdate demo_uc ?io ''stable'' ?um) = Inr (Some (demo_manifest ''''))"
    using v by (simp add: CheckForUpdate_def Let_def policy_defs demo_um_def empty_staged_def maxConsecutiveFails_def
        GetConnectorToken_def judge_manifest_def PolicyAllowsChannel_def demo_manifest_def demo_uio_def)
  then obtain um' where c: "CheckForUpdate demo_uc ?io ''stable'' ?um = (Inr (Some (demo_manifest '''')), um')"
    by (metis prod.collapse)
  from update_check_offers_newer [OF c] v c show ?thesis by (auto simp: demo_manifest_def)
qed



definition demo_suspended :: update_manager where
  "demo_suspended = demo_um\<lparr>um_sup := demo_host\<lparr>sv_store := demo_store\<lparr>st_files :=
       [([''etc'', ''update_state.json.enc''], ''123456789012three'')]\<rparr>\<rparr>,
     um_state := empty_staged\<lparr>su_ConsecutiveFails := 3\<rparr>\<rparr>"


text \<open>
  A second activation under the same version overwrites the backup of the first; when that copy
  fails half-way the old path is kept, and a rollback installs the truncated file and reports success.
\<close>

lemma torn_backup_is_installed:
  "let um1 = snd (ApplyUpdate demo_uc (demo_uio\<lparr>ui_backup := CopyTorn 1\<rparr>) demo_installed);
       (err, um2) = Rollback demo_uc demo_uio um1
   in err = None \<and> map_of (um_files um2) [''bin'', ''agent''] = Some ''n''"
proof -
  have v: "VerifyManifest demo_uc (demo_manifest '''') demo_um = None"
    using demo_verify by (simp add: VerifyManifest_def demo_um_def demo_raw_def)
  show ?thesis
    unfolding demo_installed_def StageUpdate_def v
    by (simp add: staged_path_def demo_update_defs demo_manifest_def downloadArtifact_def Let_def
        rename_file_def suffix_path_def join_path_def update_dirs VerifyArtifact_def saveState_def set_state_def set_files_def
        empty_staged_def ApplyUpdate_def backup_current_def copyFile_def rollback_path_def replaceFile_def Rollback_def)
qed

end
