(* ===== verification/Backend.thy ===== *)
theory Backend
  imports Relay Updater
begin

text \<open>
  The backend client (backend.go): the base URL, the five HTTP calls with their status tables, the transport reset and
  the error texts. The HTTP client, \<open>http.NewRequest\<close>'s URL check and the JSON codecs are parameters
  (\<open>backend_io\<close>); a reply is its status and the body read, whose read error the code ignores. A call returns \<open>None\<close>
  when it panics on a nil client. The calls provide the abstract results the upload queue, the synchronization, the
  updater and the command poll are stated over.
\<close>

section \<open>Addresses\<close>

definition defaultBackendBase :: string where "defaultBackendBase = ''https://qugzesfapcdhiyrhegdx.supabase.co''"
definition decommissionedBackendHost :: string where "decommissionedBackendHost = ''yvtszwgcmgmqylmmybrh.supabase.co''"
definition defaultHeartbeatPath :: string where "defaultHeartbeatPath = ''/functions/v1/connector-heartbeat''"
definition defaultDesiredStatePath :: string where "defaultDesiredStatePath = ''/functions/v1/connector-desired-state''"
definition defaultUpdateCheckPath :: string where "defaultUpdateCheckPath = ''/functions/v1/connector-update-check''"
definition defaultCheckCommandsPath :: string where "defaultCheckCommandsPath = ''/functions/v1/connector-check-commands''"

lemmas backend_path_defs = defaultHeartbeatPath_def defaultDesiredStatePath_def defaultUpdateCheckPath_def defaultCheckCommandsPath_def

definition backend_paths :: "string list" where
  "backend_paths = [defaultHeartbeatPath, defaultDesiredStatePath, defaultUpdateCheckPath, defaultCheckCommandsPath]"

definition resolveBackendBase :: "string \<Rightarrow> string + string" where
  "resolveBackendBase envValue =
     (let b0 = trim_space envValue; b1 = trim_right (CHR ''/'') (if b0 = '''' then defaultBackendBase else b0)
      in if b1 = '''' then Inl ''no backend URL configured: set BACKEND_URL to this FilterREX instance''
         else if str_contains b1 decommissionedBackendHost
         then Inl (''refusing to use decommissioned backend '' @ go_quote b1 @ ''; set BACKEND_URL to the current instance'')
         else Inr b1)"

section \<open>The client\<close>

record backend_transport =
  bt_generation :: nat
  bt_tls :: go_tls_config
  bt_proxy :: "string option"
  bt_timeout :: duration

record backend_client =
  bk_BaseURL :: string
  bk_client :: "backend_transport option"

record backend_request =
  rq_Method :: string
  rq_URL :: string
  rq_Headers :: "(string \<times> string) list"
  rq_Body :: "string option"
  rq_via :: backend_transport

datatype backend_error = AuthError string | CallError string

record backend_io =
  bx_marshal :: "gomap \<Rightarrow> string + string"
  bx_marshalAck :: "ack_payload \<Rightarrow> string + string"
  bx_refuses :: "string \<Rightarrow> string option"
  bx_do :: "backend_request \<Rightarrow> string + (int \<times> string)"
  bx_desired :: "string \<Rightarrow> string + desired_state_payload"
  bx_manifest :: "string \<Rightarrow> string + signed_manifest"
  bx_commands :: "string \<Rightarrow> string + relay_command list"
  bx_platform :: string

definition fresh_transport :: "nat \<Rightarrow> backend_transport" where
  "fresh_transport n = (case NewHTTPClient (\<lambda>_. True) None None of (tls, proxy) \<Rightarrow>
     \<lparr>bt_generation = n, bt_tls = tls, bt_proxy = proxy, bt_timeout = 30 * second\<rparr>)"

definition NewBackendClient :: "string \<Rightarrow> backend_client" where
  "NewBackendClient baseURL =
     \<lparr>bk_BaseURL = (if baseURL = '''' then defaultBackendBase else baseURL), bk_client = Some (fresh_transport 0)\<rparr>"

definition ResetTransport :: "backend_client \<Rightarrow> backend_client" where
  "ResetTransport b =
     b\<lparr>bk_client := Some (fresh_transport (case bk_client b of None \<Rightarrow> 0 | Some t \<Rightarrow> Suc (bt_generation t)))\<rparr>"

definition wrapConnectivityError :: "string \<Rightarrow> string \<Rightarrow> backend_error" where
  "wrapConnectivityError opn msg =
     (if str_contains msg ''no such host'' \<or> str_contains msg ''i/o timeout'' \<or> str_contains msg ''lookup''
      then CallError (opn @ '': DNS resolution failed '' @ em_dash @ '' verify the host's DNS configuration '' @
             ''(nameservers in /etc/resolv.conf) and network connectivity: '' @ msg)
      else if str_contains msg ''connection refused''
      then CallError (opn @ '': connection refused '' @ em_dash @ '' backend may be unreachable from this network: '' @ msg)
      else CallError (opn @ '': '' @ msg))"

definition http_error :: "string \<Rightarrow> int \<Rightarrow> string \<Rightarrow> backend_error" where
  "http_error pre status body = CallError (pre @ ''HTTP '' @ show_int status @ '': '' @ body)"

section \<open>The calls\<close>

definition post_request :: "backend_transport \<Rightarrow> string \<Rightarrow> string \<Rightarrow> string \<Rightarrow> backend_request" where
  "post_request t u token body = \<lparr>rq_Method = ''POST'', rq_URL = u,
     rq_Headers = [(''Content-Type'', ''application/json''), (''X-Connector-Token'', token), (''X-Agent-Version'', HostVersion)],
     rq_Body = Some body, rq_via = t\<rparr>"

definition get_request :: "backend_transport \<Rightarrow> string \<Rightarrow> string \<Rightarrow> (string \<times> string) list \<Rightarrow> backend_request" where
  "get_request t u token extra = \<lparr>rq_Method = ''GET'', rq_URL = u,
     rq_Headers = [(''X-Connector-Token'', token), (''X-Agent-Version'', HostVersion), (''Accept'', ''application/json'')] @ extra,
     rq_Body = None, rq_via = t\<rparr>"

definition Post :: "backend_io \<Rightarrow> string \<Rightarrow> gomap \<Rightarrow> backend_client \<Rightarrow> backend_error option \<times> backend_client \<times> backend_request list" where
  "Post io token payload b =
     (case bx_marshal io payload of Inl e \<Rightarrow> (Some (CallError (''marshal: '' @ e)), b, [])
      | Inr body \<Rightarrow>
     (case bx_refuses io (bk_BaseURL b @ defaultHeartbeatPath) of Some e \<Rightarrow> (Some (CallError (''request: '' @ e)), b, [])
      | None \<Rightarrow>
         let t = (case bk_client b of None \<Rightarrow> fresh_transport 0 | Some t \<Rightarrow> t);
                  req = post_request t (bk_BaseURL b @ defaultHeartbeatPath) token body
              in (case bx_do io req of
                    Inl msg \<Rightarrow> Some (wrapConnectivityError ''post'' msg)
                  | Inr (status, reply) \<Rightarrow>
                      if status = 200 \<or> status = 201 \<or> status = 202 then None
                      else if status = 401
                      then Some (AuthError (''authentication failed '' @ em_dash @ '' token may be invalid or revoked''))
                      else if status = 403 then Some (AuthError ''connector has been revoked by administrator'')
                      else Some (http_error '''' status reply),
                  b\<lparr>bk_client := Some t\<rparr>, [req])))"

definition Probe :: "backend_io \<Rightarrow> string \<Rightarrow> backend_client \<Rightarrow> backend_error option \<times> backend_client \<times> backend_request list" where
  "Probe io token b = Post io token [(''type'', VString ''probe''), (''agentVersion'', VString HostVersion)] b"

definition optional_header :: "string \<Rightarrow> string \<Rightarrow> (string \<times> string) list" where
  "optional_header k v = (if v \<noteq> '''' then [(k, v)] else [])"

definition FetchDesiredState ::
  "backend_io \<Rightarrow> string \<Rightarrow> string \<Rightarrow> string \<Rightarrow> backend_client
   \<Rightarrow> ((backend_error + desired_state_payload option) \<times> backend_request list) option" where
  "FetchDesiredState io token capManifestJSON hostPublicKey b =
     (case bx_refuses io (bk_BaseURL b @ defaultDesiredStatePath) of Some e \<Rightarrow> Some (Inl (CallError (''create request: '' @ e)), [])
      | None \<Rightarrow>
     (case bk_client b of None \<Rightarrow> None
      | Some t \<Rightarrow>
         (let req = get_request t (bk_BaseURL b @ defaultDesiredStatePath) token
                (optional_header ''X-Host-Capabilities'' capManifestJSON @ optional_header ''X-Host-Public-Key'' hostPublicKey)
          in Some (case bx_do io req of
                     Inl msg \<Rightarrow> Inl (wrapConnectivityError ''fetch desired state'' msg)
                   | Inr (status, body) \<Rightarrow>
                       if status = 200 then (case bx_desired io body of Inl e \<Rightarrow> Inl (CallError (''parse desired state: '' @ e))
                                             | Inr p \<Rightarrow> Inr (Some p))
                       else if status = 204 then Inr None
                       else if status = 401 then Inl (CallError (''authentication failed '' @ em_dash @ '' token invalid or revoked''))
                       else if status = 403 then Inl (CallError ''host has been revoked'')
                       else if status = 404 then Inr None
                       else if status = 429 then Inl (CallError (''rate limited '' @ em_dash @ '' will retry next cycle''))
                       else Inl (http_error '''' status body), [req]))))"

definition SendAcknowledgement ::
  "backend_io \<Rightarrow> string \<Rightarrow> ack_payload \<Rightarrow> backend_client \<Rightarrow> (backend_error option \<times> backend_request list) option" where
  "SendAcknowledgement io token ack b =
     (case bx_marshalAck io ack of Inl e \<Rightarrow> Some (Some (CallError (''marshal ack: '' @ e)), [])
      | Inr body \<Rightarrow>
     (case bx_refuses io (bk_BaseURL b @ defaultDesiredStatePath) of Some e \<Rightarrow> Some (Some (CallError (''create ack request: '' @ e)), [])
      | None \<Rightarrow> map_option (\<lambda>t. (None, [post_request t (bk_BaseURL b @ defaultDesiredStatePath) token body])) (bk_client b)))"

definition FetchUpdateManifest ::
  "backend_io \<Rightarrow> string \<Rightarrow> backend_client \<Rightarrow> ((backend_error + signed_manifest option) \<times> backend_request list) option" where
  "FetchUpdateManifest io token b =
     (case bx_refuses io (bk_BaseURL b @ defaultUpdateCheckPath) of Some e \<Rightarrow> Some (Inl (CallError (''create update check request: '' @ e)), [])
      | None \<Rightarrow>
     (case bk_client b of None \<Rightarrow> None
      | Some t \<Rightarrow>
         (let req = get_request t (bk_BaseURL b @ defaultUpdateCheckPath) token [(''X-Agent-Platform'', bx_platform io)]
          in Some (case bx_do io req of
                     Inl msg \<Rightarrow> Inl (CallError (''fetch update manifest: '' @ msg))
                   | Inr (status, body) \<Rightarrow>
                       if status = 200 then (case bx_manifest io body of Inl e \<Rightarrow> Inl (CallError (''parse update manifest: '' @ e))
                                             | Inr m \<Rightarrow> Inr (Some m))
                       else if status = 204 \<or> status = 404 then Inr None
                       else Inl (http_error ''update check '' status body), [req]))))"

definition CheckCommands ::
  "backend_io \<Rightarrow> string \<Rightarrow> backend_client \<Rightarrow> ((backend_error + relay_command list) \<times> backend_request list) option" where
  "CheckCommands io token b =
     (case bx_refuses io (bk_BaseURL b @ defaultCheckCommandsPath) of Some e \<Rightarrow> Some (Inl (CallError (''create check-commands request: '' @ e)), [])
      | None \<Rightarrow>
     (case bk_client b of None \<Rightarrow> None
      | Some t \<Rightarrow>
         (let req = get_request t (bk_BaseURL b @ defaultCheckCommandsPath) token []
          in Some (case bx_do io req of
                     Inl msg \<Rightarrow> Inl (wrapConnectivityError ''check-commands'' msg)
                   | Inr (status, body) \<Rightarrow>
                       if status = 200 then (case bx_commands io body of Inl e \<Rightarrow> Inl (CallError (''parse check-commands response: '' @ e))
                                             | Inr cs \<Rightarrow> Inr cs)
                       else if status = 204 \<or> status = 404 then Inr []
                       else if status = 401 then Inl (CallError ''check-commands: token invalid or revoked'')
                       else Inl (http_error ''check-commands '' status body), [req]))))"

section \<open>Results of the callers\<close>

definition post_result_of :: "backend_error option \<Rightarrow> post_result" where
  "post_result_of e = (case e of None \<Rightarrow> PostOK | Some (AuthError _) \<Rightarrow> PostAuthError | Some (CallError _) \<Rightarrow> PostError)"

fun backend_error_text :: "backend_error \<Rightarrow> string" where
  "backend_error_text (AuthError s) = s"
| "backend_error_text (CallError s) = s"

definition fetch_result_of :: "backend_error + desired_state_payload option \<Rightarrow> fetch_result" where
  "fetch_result_of x = (case x of Inl e \<Rightarrow> FetchError (backend_error_text e) | Inr None \<Rightarrow> FetchEmpty | Inr (Some p) \<Rightarrow> Fetched p)"

definition manifest_fetch_of :: "backend_error + signed_manifest option \<Rightarrow> manifest_fetch" where
  "manifest_fetch_of x = (case x of Inl e \<Rightarrow> FetchManifestError | Inr None \<Rightarrow> NoManifest | Inr (Some m) \<Rightarrow> Manifest m)"

definition poll_fetch_of :: "backend_error + relay_command list \<Rightarrow> poll_fetch" where
  "poll_fetch_of x = (case x of Inl e \<Rightarrow> PollError | Inr cs \<Rightarrow> PollCommands cs)"

section \<open>Sequences of calls\<close>

datatype backend_call = CallPost string gomap | CallProbe string | CallDesired string string string | CallAck string ack_payload
  | CallUpdate string | CallCommands string | CallReset

fun call_token :: "backend_call \<Rightarrow> string" where
  "call_token (CallPost t _) = t"
| "call_token (CallProbe t) = t"
| "call_token (CallDesired t _ _) = t"
| "call_token (CallAck t _) = t"
| "call_token (CallUpdate t) = t"
| "call_token (CallCommands t) = t"
| "call_token CallReset = ''''"

fun backend_step :: "backend_io \<Rightarrow> backend_call \<Rightarrow> backend_client \<Rightarrow> (backend_client \<times> backend_request list) option" where
  "backend_step io (CallPost t p) b = Some (snd (Post io t p b))"
| "backend_step io (CallProbe t) b = Some (snd (Probe io t b))"
| "backend_step io (CallDesired t c k) b = map_option (\<lambda>x. (b, snd x)) (FetchDesiredState io t c k b)"
| "backend_step io (CallAck t a) b = map_option (\<lambda>x. (b, snd x)) (SendAcknowledgement io t a b)"
| "backend_step io (CallUpdate t) b = map_option (\<lambda>x. (b, snd x)) (FetchUpdateManifest io t b)"
| "backend_step io (CallCommands t) b = map_option (\<lambda>x. (b, snd x)) (CheckCommands io t b)"
| "backend_step io CallReset b = Some (ResetTransport b, [])"

fun backend_run :: "backend_io \<Rightarrow> backend_call list \<Rightarrow> backend_client \<Rightarrow> (backend_call \<times> backend_request) list option" where
  "backend_run io [] b = Some []"
| "backend_run io (c # cs) b =
     (case backend_step io c b of None \<Rightarrow> None
      | Some (b', reqs) \<Rightarrow> map_option (\<lambda>l. map (Pair c) reqs @ l) (backend_run io cs b'))"

text \<open>What every request looks like: the base of the client, one of the paths, the caller's token, and a transport that
  verifies certificates with TLS 1.2 at least and gives up after 30 seconds.\<close>

definition request_ok :: "string \<Rightarrow> backend_call \<Rightarrow> backend_request \<Rightarrow> bool" where
  "request_ok base c q =
     ((\<exists>path. path \<in> set backend_paths \<and> rq_URL q = base @ path) \<and> map_of (rq_Headers q) ''X-Connector-Token'' = Some (call_token c) \<and>
      map_of (rq_Headers q) ''X-Agent-Version'' = Some HostVersion \<and> \<not> gt_InsecureSkipVerify (bt_tls (rq_via q)) \<and>
      gt_MinVersion (bt_tls (rq_via q)) = VersionTLS12 \<and> bt_timeout (rq_via q) = 30 * second)"

definition usable :: "string \<Rightarrow> backend_client \<Rightarrow> bool" where
  "usable base b = (bk_BaseURL b = base \<and> (\<exists>n. bk_client b = Some (fresh_transport n)))"

lemma fresh_transport_simps [simp]:
  "bt_generation (fresh_transport n) = n" "\<not> gt_InsecureSkipVerify (bt_tls (fresh_transport n))"
  "gt_MinVersion (bt_tls (fresh_transport n)) = VersionTLS12" "bt_timeout (fresh_transport n) = 30 * second"
  by (simp_all add: fresh_transport_def NewHTTPClient_def tlsConfigForPolicy_def tls_policy_defs Let_def)

lemma request_ok_simps [simp]:
  "request_ok base c (post_request (fresh_transport n) u token body) =
     ((\<exists>path. path \<in> set backend_paths \<and> u = base @ path) \<and> token = call_token c)"
  "request_ok base c (get_request (fresh_transport n) u token extra) =
     ((\<exists>path. path \<in> set backend_paths \<and> u = base @ path) \<and> token = call_token c)"
  by (auto simp: request_ok_def post_request_def get_request_def)

lemma backend_paths_mem [simp]:
  "defaultHeartbeatPath \<in> set backend_paths" "defaultDesiredStatePath \<in> set backend_paths"
  "defaultUpdateCheckPath \<in> set backend_paths" "defaultCheckCommandsPath \<in> set backend_paths"
  by (simp_all add: backend_paths_def)

lemma Post_ok:
  assumes "usable base b"
  shows "usable base (fst (snd (Post io t p b)))" "q \<in> set (snd (snd (Post io t p b))) \<Longrightarrow> t = call_token c \<Longrightarrow> request_ok base c q"
  using assms by (auto simp: Post_def usable_def Let_def split: sum.splits option.splits)

lemma backend_step_ok:
  assumes "usable base b"
  obtains b' reqs where "backend_step io c b = Some (b', reqs)" and "usable base b'" and "\<And>q. q \<in> set reqs \<Longrightarrow> request_ok base c q"
proof -
  have "\<exists>b' reqs. backend_step io c b = Some (b', reqs) \<and> usable base b' \<and> (\<forall>q\<in>set reqs. request_ok base c q)"
  proof (cases c)
    case (CallPost t p)
    then show ?thesis using Post_ok [OF assms] by (metis backend_step.simps(1) call_token.simps(1) prod.collapse)
  next
    case (CallProbe t)
    then show ?thesis using Post_ok [OF assms] by (metis Probe_def backend_step.simps(2) call_token.simps(2) prod.collapse)
  next
    case (CallDesired t x y)
    then show ?thesis using assms by (auto simp: FetchDesiredState_def usable_def Let_def split: option.splits)
  next
    case (CallAck t a)
    then show ?thesis using assms by (auto simp: SendAcknowledgement_def usable_def split: option.splits sum.splits)
  next
    case (CallUpdate t)
    then show ?thesis using assms by (auto simp: FetchUpdateManifest_def usable_def Let_def split: option.splits)
  next
    case (CallCommands t)
    then show ?thesis using assms by (auto simp: CheckCommands_def usable_def Let_def split: option.splits)
  next
    case CallReset
    then show ?thesis using assms by (auto simp: ResetTransport_def usable_def)
  qed
  with that show thesis by blast
qed

lemma backend_run_ok:
  assumes "usable base b"
  shows "\<exists>l. backend_run io cs b = Some l \<and> (\<forall>x\<in>set l. request_ok base (fst x) (snd x))"
  using assms
proof (induction cs arbitrary: b)
  case (Cons c cs)
  obtain b' reqs where "backend_step io c b = Some (b', reqs)" "usable base b'" "\<And>q. q \<in> set reqs \<Longrightarrow> request_ok base c q"
    using backend_step_ok [OF Cons.prems] by metis
  with Cons.IH [of b'] show ?case by fastforce
qed simp

text \<open>A name without a slash is in an address only if it is in the base or in the path.\<close>

lemma prefix_before_slash: "CHR ''/'' \<notin> set n \<Longrightarrow> has_prefix (b @ CHR ''/'' # r) n \<Longrightarrow> has_prefix b n"
proof (induction b arbitrary: n)
  case Nil
  then show ?case by (cases n) auto
next
  case (Cons x b)
  then show ?case by (cases n) auto
qed

lemma contains_around_slash:
  "CHR ''/'' \<notin> set n \<Longrightarrow> n \<noteq> [] \<Longrightarrow> str_contains (b @ CHR ''/'' # r) n \<Longrightarrow> str_contains b n \<or> str_contains r n"
proof (induction b)
  case Nil
  then show ?case using prefix_before_slash [of n "[]" r] by (auto simp: neq_Nil_conv)
next
  case (Cons x b)
  then show ?case using prefix_before_slash [of n "x # b" r] by auto
qed

lemma path_not_decommissioned:
  assumes "path \<in> set backend_paths"
  obtains r where "path = CHR ''/'' # r" and "\<not> str_contains r decommissionedBackendHost"
proof -
  have "list_all (\<lambda>p. take 1 p = ''/'' \<and> \<not> str_contains (drop 1 p) decommissionedBackendHost) backend_paths" by code_simp
  with assms have "take 1 path = ''/''" "\<not> str_contains (drop 1 path) decommissionedBackendHost" by (auto simp: list_all_iff)
  with that show thesis by (cases path) auto
qed


definition demo_bio :: "(backend_request \<Rightarrow> string + (int \<times> string)) \<Rightarrow> backend_io" where
  "demo_bio f = \<lparr>bx_marshal = (\<lambda>_. Inr ''{}''), bx_marshalAck = (\<lambda>_. Inr ''{}''), bx_refuses = (\<lambda>_. None), bx_do = f,
     bx_desired = (\<lambda>_. Inl ''bad''), bx_manifest = (\<lambda>_. Inl ''bad''), bx_commands = (\<lambda>_. Inr []), bx_platform = ''linux/amd64''\<rparr>"


text \<open>The guard compares letters, host names do not: the retired backend in capitals is accepted.\<close>

lemma decommissioned_in_capitals:
  "resolveBackendBase ''https://YVTSZWGCMGMQYLMMYBRH.supabase.co'' = Inr ''https://YVTSZWGCMGMQYLMMYBRH.supabase.co''"
  by code_simp



end
