(* ===== verification/Enrollment.thy ===== *)
theory Enrollment
  imports Backend
begin

text \<open>
  Host enrollment (enrollment.go). The HTTP client, the JSON codecs, the key generator, the environment and the faults
  of each store operation are parameters; \<open>EnrollPanic\<close> is the panic of slicing an identifier shorter than twelve bytes.
  Audit lines are not part of the results.
\<close>

section \<open>Data\<close>

record enrollment_request =
  eq_BootstrapToken :: string
  eq_Label :: string
  eq_AgentVersion :: string
  eq_OS :: string
  eq_Arch :: string
  eq_Capabilities :: "string list"
  eq_HostPublicKey :: string

record enrollment_response =
  er_HostID :: string
  er_ConnectorToken :: string
  er_Label :: string
  er_BackendURL :: string
  er_SyncIntervalS :: int

datatype host_enroll_error = AlreadyEnrolled string string | TokenRequired | KeyGenFailed string | RequestNotMarshalled string
  | RequestNotCreated string | RequestFailed string | InvalidToken | TokenAlreadyUsed | RateLimited | EnrollHTTP int string
  | ResponseNotParsed string | ResponseWithoutToken | KeyPairNotSaved store_error | StateNotSaved store_error | NoEnrollmentToken

datatype enroll_outcome = Enrolled host_state | EnrollFailed host_enroll_error | EnrollPanic

record enroll_io =
  ei_cx :: crypto_codec
  ei_nb :: nacl
  ei_loadFault :: fs_fault
  ei_keyFault :: fs_fault
  ei_stateFault :: fs_fault
  ei_keyNonce :: string
  ei_stateNonce :: string
  ei_generate :: "string + host_key_pair"
  ei_marshal :: "enrollment_request \<Rightarrow> string + string"
  ei_refuses :: "string \<Rightarrow> string option"
  ei_do :: "string \<Rightarrow> string \<Rightarrow> string + (int \<times> string)"
  ei_parse :: "string \<Rightarrow> string + enrollment_response"
  ei_now :: time
  ei_OS :: string
  ei_Arch :: string

definition registeredAdapterTypes :: "string list" where
  "registeredAdapterTypes = SupportedTargetTypes"

section \<open>Enrolling\<close>

definition enrolled_state :: "enroll_io \<Rightarrow> host_key_pair \<Rightarrow> enrollment_response \<Rightarrow> host_state" where
  "enrolled_state io kp r =
     \<lparr>hs_Identity = \<lparr>hi_HostID = er_HostID r, hi_Label = er_Label r, hi_EnrolledAt = ei_now io, hi_ConnectorToken = er_ConnectorToken r,
        hi_BackendURL = er_BackendURL r, hi_PublicKey = PublicKeyBase64 (ei_nb io) kp\<rparr>,
      hs_Config = (if er_SyncIntervalS r > 0 then DefaultHostConfig\<lparr>hc_SyncIntervalSecs := er_SyncIntervalS r\<rparr> else DefaultHostConfig),
      hs_Targets = [], hs_Update = empty_update_state, hs_Version = 1, hs_LastSyncRevision = 0, hs_LastSyncAt = zero_time, hs_LastAckStatus = ''''\<rparr>"

definition enrollment_request_of :: "enroll_io \<Rightarrow> string \<Rightarrow> string \<Rightarrow> host_key_pair \<Rightarrow> enrollment_request" where
  "enrollment_request_of io token label kp =
     \<lparr>eq_BootstrapToken = token, eq_Label = label, eq_AgentVersion = HostVersion, eq_OS = ei_OS io, eq_Arch = ei_Arch io,
      eq_Capabilities = registeredAdapterTypes, eq_HostPublicKey = PublicKeyBase64 (ei_nb io) kp\<rparr>"

definition judge_response :: "enroll_io \<Rightarrow> int \<Rightarrow> string \<Rightarrow> host_enroll_error + enrollment_response" where
  "judge_response io status body =
     (if status = 401 then Inl InvalidToken
      else if status = 409 then Inl TokenAlreadyUsed
      else if status = 429 then Inl RateLimited
      else if status \<noteq> 200 \<and> status \<noteq> 201 then Inl (EnrollHTTP status body)
      else case ei_parse io body of Inl e \<Rightarrow> Inl (ResponseNotParsed e)
           | Inr r \<Rightarrow> if er_ConnectorToken r = '''' then Inl ResponseWithoutToken else Inr r)"

text \<open>The part after an accepted response: the key pair, then the state are stored; the message of success slices the
  host identifier.\<close>

definition persist_enrollment :: "enroll_io \<Rightarrow> host_key_pair \<Rightarrow> enrollment_response \<Rightarrow> store \<Rightarrow> enroll_outcome \<times> store" where
  "persist_enrollment io kp r s =
     (case SaveKeyPair (ei_cx io) (ei_keyFault io) (ei_keyNonce io) kp s of
        (Some e, s1) \<Rightarrow> (EnrollFailed (KeyPairNotSaved e), s1)
      | (None, s1) \<Rightarrow>
         (case SaveState (ei_cx io) (ei_stateFault io) (ei_stateNonce io) (enrolled_state io kp r) s1 of
            (Some e, s2) \<Rightarrow> (EnrollFailed (StateNotSaved e), s2)
          | (None, s2) \<Rightarrow> (if length (er_HostID r) < 12 then EnrollPanic else Enrolled (enrolled_state io kp r), s2)))"

definition stored_identity :: "enroll_io \<Rightarrow> store \<Rightarrow> host_state option" where
  "stored_identity io s =
     (case LoadState (ei_cx io) (ei_loadFault io) s of
        Inr (Some st) \<Rightarrow> if hi_ConnectorToken (hs_Identity st) \<noteq> '''' then Some st else None
      | _ \<Rightarrow> None)"

definition EnrollHost :: "enroll_io \<Rightarrow> string \<Rightarrow> string \<Rightarrow> string \<Rightarrow> store \<Rightarrow> (enroll_outcome \<times> store) \<times> (string \<times> string) list" where
  "EnrollHost io backendURL bootstrapToken label s =
     (case stored_identity io s of
        Some st \<Rightarrow> ((if length (hi_HostID (hs_Identity st)) < 12 then EnrollPanic
                     else EnrollFailed (AlreadyEnrolled (hi_Label (hs_Identity st)) (take 12 (hi_HostID (hs_Identity st)))), s), [])
      | None \<Rightarrow>
          if bootstrapToken = '''' then ((EnrollFailed TokenRequired, s), [])
          else case ei_generate io of Inl e \<Rightarrow> ((EnrollFailed (KeyGenFailed e), s), [])
          | Inr kp \<Rightarrow>
              (let enrollURL = (if backendURL = '''' then defaultBackendBase else backendURL) @ ''/functions/v1/connector-enroll''
               in case ei_marshal io (enrollment_request_of io bootstrapToken label kp) of
                    Inl e \<Rightarrow> ((EnrollFailed (RequestNotMarshalled e), s), [])
                  | Inr body \<Rightarrow>
                     (case ei_refuses io enrollURL of Some e \<Rightarrow> ((EnrollFailed (RequestNotCreated e), s), [])
                      | None \<Rightarrow>
                         (case ei_do io enrollURL body of
                            Inl e \<Rightarrow> (EnrollFailed (RequestFailed e), s)
                          | Inr (status, reply) \<Rightarrow>
                             (case judge_response io status reply of Inl e \<Rightarrow> (EnrollFailed e, s)
                              | Inr r \<Rightarrow> persist_enrollment io kp r s), [(enrollURL, body)]))))"

definition IsEnrolled :: "enroll_io \<Rightarrow> store \<Rightarrow> bool" where
  "IsEnrolled io s =
     (case LoadState (ei_cx io) (ei_loadFault io) s of
        Inr (Some st) \<Rightarrow> hi_ConnectorToken (hs_Identity st) \<noteq> '''' \<and> hi_HostID (hs_Identity st) \<noteq> ''''
      | _ \<Rightarrow> False)"

definition host_label :: "(string \<Rightarrow> string) \<Rightarrow> string \<Rightarrow> string" where
  "host_label env hostname =
     (if env ''HOST_LABEL'' \<noteq> '''' then env ''HOST_LABEL''
      else if hostname \<noteq> '''' then ''filterrex-connector-'' @ hostname else ''filterrex-connector'')"

definition enrollment_token :: "(string \<Rightarrow> string) \<Rightarrow> string" where
  "enrollment_token env =
     (if env ''FILTERREX_ENROLLMENT_TOKEN'' = '''' then env ''CONNECTOR_TOKEN'' else env ''FILTERREX_ENROLLMENT_TOKEN'')"

definition MustEnroll :: "enroll_io \<Rightarrow> (string \<Rightarrow> string) \<Rightarrow> string \<Rightarrow> string \<Rightarrow> store \<Rightarrow> (enroll_outcome \<times> store) \<times> (string \<times> string) list" where
  "MustEnroll io env hostname backendURL s =
     (case stored_identity io s of
        Some st \<Rightarrow> ((if length (hi_HostID (hs_Identity st)) < 12 then EnrollPanic else Enrolled st, s), [])
      | None \<Rightarrow>
          if enrollment_token env = '''' then ((EnrollFailed NoEnrollmentToken, s), [])
          else EnrollHost io backendURL (enrollment_token env) (host_label env hostname) s)"

section \<open>Properties\<close>

lemma state_tmp: "clean_dir (st_configDir s) \<Longrightarrow> tmp_path (state_path s) \<noteq> state_path s"
  by (simp add: state_path_eq tmp_path_def butlast_append)

lemma SaveState_roundtrip:
  assumes "clean_dir (st_configDir s)" and "length n = nonceSize" and "\<And>k p. cx_open cx k n (cx_seal cx k n p) = Some p"
    and "\<And>d. cx_marshalState cx st = Some d \<Longrightarrow> cx_unmarshalState cx d = Some st" and "SaveState cx f n st s = (None, s')"
    and "\<not> ff_read_fails g"
  shows "LoadState cx g s' = Inr (Some st)"
proof -
  obtain d where d: "cx_marshalState cx st = Some d" using assms(5) by (auto simp: SaveState_def split: option.splits)
  obtain c where c: "encrypt cx n s d = Some c" using assms(5) d by (auto simp: SaveState_def split: option.splits)
  have w: "fst (write_atomic f (state_path s) c (st_files s)) = None" "s' = s\<lparr>st_files := snd (write_atomic f (state_path s) c (st_files s))\<rparr>"
    using assms(5) by (auto simp: SaveState_def d c split_beta)
  have "decrypt cx s c = Some d" using c assms(2,3) by (auto simp: encrypt_def decrypt_def split: if_splits)
  then show ?thesis
    using w assms(4) [OF d] assms(6) state_tmp [OF assms(1)] by (simp add: LoadState_def write_atomic_target)
qed

lemma keypair_state_paths:
  assumes "clean_dir (st_configDir s)"
  shows "keypair_path s \<noteq> state_path s" "keypair_path s \<noteq> tmp_path (state_path s)"
  using assms by (simp_all add: keypair_path_eq state_path_eq tmp_path_def butlast_append)

lemma SaveState_keeps_keypair:
  assumes "clean_dir (st_configDir s)"
  shows "LoadKeyPair cx' g (snd (SaveState cx f n st s)) = LoadKeyPair cx' g s"
proof -
  have "map_of (st_files (snd (SaveState cx f n st s))) (keypair_path s) = map_of (st_files s) (keypair_path s)"
    using keypair_state_paths [OF assms] by (auto simp: SaveState_def split_beta write_atomic_other split: option.split)
  moreover have "keypair_path (snd (SaveState cx f n st s)) = keypair_path s" by (simp add: keypair_path_def)
  moreover have "decrypt cx' (snd (SaveState cx f n st s)) c = decrypt cx' s c" for c by (rule path_cong) simp
  ultimately show ?thesis by (simp add: LoadKeyPair_def split: option.split)
qed

lemma SaveKeyPair_frame:
  "st_configDir (snd (SaveKeyPair cx f n kp s)) = st_configDir s" "st_key (snd (SaveKeyPair cx f n kp s)) = st_key s"
  by (simp_all add: SaveKeyPair_def split_beta split: option.split)

text \<open>What the theorems ask of the codecs: what was sealed with the nonces of this run opens again, and the new state
  is read back as it was written.\<close>

definition enroll_codec_ok :: "enroll_io \<Rightarrow> bool" where
  "enroll_codec_ok io =
     (length (ei_keyNonce io) = nonceSize \<and> length (ei_stateNonce io) = nonceSize \<and> \<not> ff_read_fails (ei_loadFault io) \<and>
      (\<forall>k p n. n = ei_keyNonce io \<or> n = ei_stateNonce io \<longrightarrow> cx_open (ei_cx io) k n (cx_seal (ei_cx io) k n p) = Some p) \<and>
      (\<forall>kp r d. cx_marshalState (ei_cx io) (enrolled_state io kp r) = Some d \<longrightarrow> cx_unmarshalState (ei_cx io) d = Some (enrolled_state io kp r)) \<and>
      (\<forall>kp. ei_generate io = Inr kp \<longrightarrow> length (kp_PublicKey kp) = naclKeySize \<and> length (kp_PrivateKey kp) = naclKeySize))"

lemma persisted_enrollment:
  assumes ok: "enroll_codec_ok io" and dir: "clean_dir (st_configDir s)" and key: "aes_key_ok (st_key s)" and gen: "ei_generate io = Inr kp"
    and "persist_enrollment io kp r s = (out, s')" and "out = EnrollPanic \<or> (\<exists>st. out = Enrolled st)"
  shows "LoadState (ei_cx io) (ei_loadFault io) s' = Inr (Some (enrolled_state io kp r))"
    "LoadKeyPair (ei_cx io) no_fault s' = Inr (Some kp)"
    "out = (if length (er_HostID r) < 12 then EnrollPanic else Enrolled (enrolled_state io kp r))"
proof -
  obtain s1 where k: "SaveKeyPair (ei_cx io) (ei_keyFault io) (ei_keyNonce io) kp s = (None, s1)"
    and st: "SaveState (ei_cx io) (ei_stateFault io) (ei_stateNonce io) (enrolled_state io kp r) s1 = (None, s')"
    and out: "out = (if length (er_HostID r) < 12 then EnrollPanic else Enrolled (enrolled_state io kp r))"
    using assms(5,6) unfolding persist_enrollment_def by (auto split: prod.splits option.splits if_splits)
  have s1: "st_configDir s1 = st_configDir s" using SaveKeyPair_frame(1) [of "ei_cx io" "ei_keyFault io" "ei_keyNonce io" kp s] k by simp
  have "LoadKeyPair (ei_cx io) no_fault s1 = Inr (Some kp)"
    using ok gen by (intro SaveKeyPair_roundtrip [OF dir key _ _ _ _ k]) (auto simp: enroll_codec_ok_def)
  moreover have "LoadKeyPair (ei_cx io) no_fault s' = LoadKeyPair (ei_cx io) no_fault s1"
    using SaveState_keeps_keypair [of s1 "ei_cx io" no_fault "ei_cx io" "ei_stateFault io" "ei_stateNonce io" "enrolled_state io kp r"] st dir s1
    by simp
  ultimately show "LoadKeyPair (ei_cx io) no_fault s' = Inr (Some kp)" by simp
  show "LoadState (ei_cx io) (ei_loadFault io) s' = Inr (Some (enrolled_state io kp r))"
    using ok dir s1 by (intro SaveState_roundtrip [OF _ _ _ _ st]) (auto simp: enroll_codec_ok_def)
  show "out = (if length (er_HostID r) < 12 then EnrollPanic else Enrolled (enrolled_state io kp r))" by (fact out)
qed

lemma judge_response_token: "judge_response io status body = Inr r \<Longrightarrow> er_ConnectorToken r \<noteq> ''''"
  by (auto simp: judge_response_def split: if_splits sum.splits)

text \<open>An enrollment that gets past the network: its request, key pair and response.\<close>

lemma EnrollHost_persists:
  assumes "stored_identity io s = None" and "EnrollHost io url token label s = ((out, s'), reqs)" and "out = EnrollPanic \<or> (\<exists>st. out = Enrolled st)"
  obtains kp r body status reply where "token \<noteq> ''''" and "ei_generate io = Inr kp"
    and "reqs = [((if url = '''' then defaultBackendBase else url) @ ''/functions/v1/connector-enroll'', body)]"
    and "ei_marshal io (enrollment_request_of io token label kp) = Inr body" and "judge_response io status reply = Inr r"
    and "persist_enrollment io kp r s = (out, s')"
proof -
  have n: "token \<noteq> ''''" using assms by (auto simp: EnrollHost_def)
  obtain kp where kp: "ei_generate io = Inr kp" using assms n by (auto simp: EnrollHost_def split: sum.splits)
  obtain body where b: "ei_marshal io (enrollment_request_of io token label kp) = Inr body"
    using assms n kp by (auto simp: EnrollHost_def Let_def split: sum.splits)
  let ?u = "(if url = '''' then defaultBackendBase else url) @ ''/functions/v1/connector-enroll''"
  have u: "ei_refuses io ?u = None"
    using assms n kp b by (auto simp: EnrollHost_def Let_def split: option.splits)
  obtain status reply where d: "ei_do io ?u body = Inr (status, reply)"
    using assms n kp b u by (auto simp: EnrollHost_def Let_def split: sum.splits)
  obtain r where r: "judge_response io status reply = Inr r"
    using assms n kp b u d by (auto simp: EnrollHost_def Let_def split: sum.splits)
  have "persist_enrollment io kp r s = (out, s')" "reqs = [(?u, body)]"
    using assms(1,2) n kp b u d r by (simp_all add: EnrollHost_def Let_def)
  with that n kp b r show thesis by blast
qed

text \<open>C26: enrollment is done once. A successful enrollment sent exactly one request, carrying the public half of the key
  pair it then stored; the stored state and key pair are read back as returned, with a connector token, and from then
  on a start returns that identity without any request, whatever enrollment token the environment holds, and enrolling
  again is refused without touching the store.\<close>

theorem enrollment_roundtrip:
  assumes "enroll_codec_ok io" and "clean_dir (st_configDir s)" and "aes_key_ok (st_key s)" and "stored_identity io s = None"
    and "EnrollHost io url token label s = ((Enrolled st, s'), reqs)"
  shows "\<exists>kp body. reqs = [((if url = '''' then defaultBackendBase else url) @ ''/functions/v1/connector-enroll'', body)] \<and>
    ei_marshal io (enrollment_request_of io token label kp) = Inr body \<and>
    LoadState (ei_cx io) (ei_loadFault io) s' = Inr (Some st) \<and> LoadKeyPair (ei_cx io) no_fault s' = Inr (Some kp) \<and>
    hi_PublicKey (hs_Identity st) = PublicKeyBase64 (ei_nb io) kp \<and> hi_ConnectorToken (hs_Identity st) \<noteq> '''' \<and>
    MustEnroll io env hostname url' s' = ((Enrolled st, s'), []) \<and>
    EnrollHost io url' token' label' s' = ((EnrollFailed (AlreadyEnrolled (hi_Label (hs_Identity st)) (take 12 (hi_HostID (hs_Identity st)))), s'), [])"
proof -
  obtain kp r body status reply where e: "ei_generate io = Inr kp"
    "reqs = [((if url = '''' then defaultBackendBase else url) @ ''/functions/v1/connector-enroll'', body)]"
    "ei_marshal io (enrollment_request_of io token label kp) = Inr body" "judge_response io status reply = Inr r"
    "persist_enrollment io kp r s = (Enrolled st, s')"
    using EnrollHost_persists [OF assms(4,5)] by metis
  note p = persisted_enrollment [OF assms(1-3) e(1,5)]
  have st: "st = enrolled_state io kp r" "12 \<le> length (er_HostID r)" using p(3) by (auto split: if_splits)
  have i: "hi_ConnectorToken (hs_Identity st) \<noteq> ''''" "hi_HostID (hs_Identity st) = er_HostID r" "hi_PublicKey (hs_Identity st) = PublicKeyBase64 (ei_nb io) kp"
    using judge_response_token [OF e(4)] by (simp_all add: st(1) enrolled_state_def)
  have "stored_identity io s' = Some st" using p(1) i(1) st(1) by (simp add: stored_identity_def)
  then show ?thesis using e(2,3) p(1,2) i st by (auto simp: MustEnroll_def EnrollHost_def)
qed


definition demo_response :: "string \<Rightarrow> enrollment_response" where
  "demo_response hid = \<lparr>er_HostID = hid, er_ConnectorToken = ''frc_1'', er_Label = ''lab'', er_BackendURL = ''https://b'', er_SyncIntervalS = 90\<rparr>"

text \<open>A codec of the examples that keeps the host identifier and the label of the state it stores.\<close>

definition demo_enroll_io :: "string \<Rightarrow> enroll_io" where
  "demo_enroll_io hid =
     (let io = \<lparr>ei_cx = demo_codec, ei_nb = demo_nacl, ei_loadFault = no_fault, ei_keyFault = no_fault, ei_stateFault = no_fault,
        ei_keyNonce = ''123456789012'', ei_stateNonce = ''210987654321'', ei_generate = Inr (demo_keys (CHR ''h'')),
        ei_marshal = (\<lambda>q. Inr ''{}''), ei_refuses = (\<lambda>_. None), ei_do = (\<lambda>u b. Inr (201, ''{}'')), ei_parse = (\<lambda>_. Inr (demo_response hid)),
        ei_now = 7, ei_OS = ''linux'', ei_Arch = ''amd64''\<rparr>;
          st = enrolled_state io (demo_keys (CHR ''h'')) (demo_response hid)
      in io\<lparr>ei_cx := demo_codec\<lparr>cx_marshalState := (\<lambda>x. if x = st then Some ''S'' else None), cx_unmarshalState := (\<lambda>d. Some st)\<rparr>\<rparr>)"

lemma demo_enroll_ok:
  "enroll_codec_ok (demo_enroll_io hid)" "clean_dir (st_configDir demo_store)" "aes_key_ok (st_key demo_store)"
  "stored_identity (demo_enroll_io hid) demo_store = None"
  by (simp_all add: enroll_codec_ok_def demo_enroll_io_def Let_def enrolled_state_def demo_codec_def nonceSize_def no_fault_def demo_keys_def
      naclKeySize_def clean_dir_def demo_store_def aes_key_ok_def stored_identity_def LoadState_def)

lemma demo_enroll:
  "fst (fst (EnrollHost (demo_enroll_io hid) '''' ''tok'' ''lab'' demo_store)) =
     (if length hid < 12 then EnrollPanic
      else Enrolled (enrolled_state (demo_enroll_io hid) (demo_keys (CHR ''h'')) (demo_response hid)))"
  by (simp add: EnrollHost_def demo_enroll_ok(4))
    (simp add: demo_enroll_io_def Let_def judge_response_def demo_response_def persist_enrollment_def SaveKeyPair_def SaveState_def
      encrypt_def aes_key_ok_def demo_store_def write_atomic_no_fault enrolled_state_def PublicKeyBase64_def split_beta)

theorem enrollment_roundtrip_witness:
  "let io = demo_enroll_io ''host-0123456789''; x = EnrollHost io '''' ''tok'' ''lab'' demo_store;
       st = enrolled_state io (demo_keys (CHR ''h'')) (demo_response ''host-0123456789'')
   in fst (fst x) = Enrolled st \<and> MustEnroll io (\<lambda>_. ''other'') ''h'' '''' (snd (fst x)) = ((Enrolled st, snd (fst x)), [])"
proof -
  let ?io = "demo_enroll_io ''host-0123456789''"
  let ?st = "enrolled_state ?io (demo_keys (CHR ''h'')) (demo_response ''host-0123456789'')"
  obtain s' reqs where x: "EnrollHost ?io '''' ''tok'' ''lab'' demo_store = ((Enrolled ?st, s'), reqs)"
    using demo_enroll [of "''host-0123456789''"] by (cases "EnrollHost ?io '''' ''tok'' ''lab'' demo_store") auto
  show ?thesis using enrollment_roundtrip [OF demo_enroll_ok x, of "\<lambda>_. ''other''" "''h''" "''''" "''''" "''''"] x by (auto simp: Let_def)
qed


end
