(* ===== verification/LocalAPI.thy ===== *)
theory LocalAPI
  imports Relay
begin

text \<open>
  The local API server of Hybrid Mode (local_api.go): the routes of its mux with the preflight, address and token
  middleware, the four handlers, the allow-list, the advertised address and the self-signed certificate. Address and URL
  parsing of the net packages and the JSON decoder are parameters; \<open>Contains\<close>, \<open>SplitHostPort\<close> and the mux's path
  cleaning are modelled. A response is its status, whether it has the CORS headers, and its body. CONNECT requests, which
  the mux treats apart, and timeouts are left out.
\<close>

section \<open>Addresses\<close>

type_synonym ip = "8 word list"

record ipnet =
  in_IP :: ip
  in_Mask :: ip

definition To4 :: "ip \<Rightarrow> ip option" where
  "To4 ip =
     (if length ip = 4 then Some ip
      else if length ip = 16 \<and> take 10 ip = replicate 10 0 \<and> ip ! 10 = 255 \<and> ip ! 11 = 255 then Some (drop 12 ip)
      else None)"

definition masked :: "ip \<Rightarrow> ip \<Rightarrow> ip" where
  "masked a m = map2 (\<lambda>x y. and x y) a m"

definition Contains :: "ipnet \<Rightarrow> ip \<Rightarrow> bool" where
  "Contains n ip0 =
     (let ip = (case To4 ip0 of Some x \<Rightarrow> x | None \<Rightarrow> ip0)
      in length ip = length (in_IP n) \<and> masked (in_IP n) (in_Mask n) = masked ip (in_Mask n))"

definition loopback :: ipnet where
  "loopback = \<lparr>in_IP = [127, 0, 0, 1], in_Mask = replicate 4 255\<rparr>"

definition loopback6 :: ipnet where
  "loopback6 = \<lparr>in_IP = replicate 15 0 @ [1], in_Mask = replicate 16 255\<rparr>"

definition IsLoopback :: "ip \<Rightarrow> bool" where
  "IsLoopback ip = (case To4 ip of Some x \<Rightarrow> x ! 0 = 127 | None \<Rightarrow> ip = replicate 15 0 @ [1])"

definition parseAllowedCIDRs :: "(string \<Rightarrow> ipnet option) \<Rightarrow> string \<Rightarrow> ipnet list" where
  "parseAllowedCIDRs parseCIDR raw =
     [loopback, loopback6] @
     (if raw = '''' then []
      else List.map_filter (\<lambda>c. if trim_space c = '''' then None else parseCIDR (trim_space c)) (split_on (CHR '','') raw))"

definition last_index :: "char \<Rightarrow> string \<Rightarrow> nat option" where
  "last_index c s = (if c \<in> set s then Some (length s - 1 - length (takeWhile (\<lambda>x. x \<noteq> c) (rev s))) else None)"

definition SplitHostPort :: "string \<Rightarrow> (string \<times> string) option" where
  "SplitHostPort hp =
     (case last_index (CHR '':'') hp of None \<Rightarrow> None
      | Some i \<Rightarrow>
         if take 1 hp = ''['' then
           (let e = length (takeWhile (\<lambda>c. c \<noteq> CHR '']'') hp)
            in if e = length hp \<or> e + 1 \<noteq> i then None
               else if CHR ''['' \<in> set (drop 1 hp) \<or> CHR '']'' \<in> set (drop (e + 1) hp) then None
               else Some (take (e - 1) (drop 1 hp), drop (i + 1) hp))
         else if CHR '':'' \<in> set (take i hp) then None
         else if CHR ''['' \<in> set hp \<or> CHR '']'' \<in> set hp then None
         else Some (take i hp, drop (i + 1) hp))"

record net_iface =
  nf_up :: bool
  nf_loopback :: bool
  nf_addrs :: "ip option list option"

record api_io =
  ai_parseIP :: "string \<Rightarrow> ip option"
  ai_showIP :: "ip \<Rightarrow> string"
  ai_parseCIDR :: "string \<Rightarrow> ipnet option"
  ai_urlPort :: "string \<Rightarrow> string option"
  ai_interfaces :: "net_iface list option"
  ai_decode :: "string \<Rightarrow> relay_command option"
  ai_newID :: string
  ai_codec :: payload_codec
  ai_rfc3339 :: "string \<Rightarrow> string"
  ai_relay :: relay_io

text \<open>The first usable IPv4 address of an interface that is up and not the loopback.\<close>

definition usable_ip :: "ip option \<Rightarrow> ip option" where
  "usable_ip a = (case a of None \<Rightarrow> None | Some ip \<Rightarrow> if IsLoopback ip \<or> To4 ip = None then None else Some ip)"

definition iface_ips :: "net_iface \<Rightarrow> ip list" where
  "iface_ips f = (if \<not> nf_up f \<or> nf_loopback f then [] else case nf_addrs f of None \<Rightarrow> [] | Some l \<Rightarrow> List.map_filter usable_ip l)"

definition detectLANURL :: "api_io \<Rightarrow> string \<Rightarrow> string" where
  "detectLANURL io bind =
     (let port = (case SplitHostPort bind of None \<Rightarrow> ''7070'' | Some (h, p) \<Rightarrow> p)
      in case ai_interfaces io of None \<Rightarrow> ''http://127.0.0.1:'' @ port
         | Some fs \<Rightarrow> (case concat (map iface_ips fs) of [] \<Rightarrow> ''http://127.0.0.1:'' @ port
                       | ip # _ \<Rightarrow> ''http://'' @ ai_showIP io ip @ '':'' @ port))"

section \<open>The server\<close>

definition defaultLocalAPIBind :: string where "defaultLocalAPIBind = ''0.0.0.0:7070''"

record local_api =
  la_token :: string
  la_bind :: string
  la_relayHandler :: "relay_handler option"
  la_allowedNets :: "ipnet list"
  la_lanURL :: string
  la_certFile :: string
  la_keyFile :: string

fun replace_first :: "string \<Rightarrow> string \<Rightarrow> string \<Rightarrow> string" where
  "replace_first old new [] = (if old = [] then new else [])"
| "replace_first old new (c # s) = (if has_prefix (c # s) old then new @ drop (length old) (c # s) else c # replace_first old new s)"

definition advertised_url :: "api_io \<Rightarrow> string \<Rightarrow> string \<Rightarrow> string" where
  "advertised_url io envURL bind =
     (if envURL \<noteq> '''' then
        (let v = replace_first ''http://'' ''https://'' envURL
         in if ai_urlPort io v = Some '''' then
              (case SplitHostPort bind of Some (h, p) \<Rightarrow> if p \<noteq> '''' then trim_right (CHR ''/'') v @ '':'' @ p else v | None \<Rightarrow> v)
            else v)
      else detectLANURL io bind)"

definition NewLocalAPIServer ::
  "api_io \<Rightarrow> (string \<Rightarrow> string) \<Rightarrow> string \<Rightarrow> string \<Rightarrow> string \<Rightarrow> relay_handler option \<Rightarrow> local_api" where
  "NewLocalAPIServer io env token bind0 certDir rh =
     (let bind = (if bind0 = '''' then defaultLocalAPIBind else bind0)
      in \<lparr>la_token = token, la_bind = bind, la_relayHandler = rh,
          la_allowedNets = parseAllowedCIDRs (ai_parseCIDR io) (env ''FILTERREX_LOCAL_API_ALLOWED_CIDR''),
          la_lanURL = advertised_url io (env ''FILTERREX_LOCAL_API_URL'') bind,
          la_certFile = filepath_join [certDir, ''local-api.crt''], la_keyFile = filepath_join [certDir, ''local-api.key'']\<rparr>)"

text \<open>The certificate: \<open>ce_make\<close> generates the key and the certificate for the given addresses; each file is created
  (truncated) and then written. A failed write leaves the bytes in \<open>ce_partial\<close>.\<close>

record cert_io =
  ce_make :: "ip list \<Rightarrow> string + string"
  ce_marshalKey :: "string + string"
  ce_openFails :: "string \<Rightarrow> string option"
  ce_writeFails :: "string \<Rightarrow> string option"
  ce_partial :: "string \<Rightarrow> string"

definition write_pem :: "cert_io \<Rightarrow> string \<Rightarrow> string \<Rightarrow> (string \<times> string) list \<Rightarrow> string option \<times> (string \<times> string) list" where
  "write_pem ce file content fs =
     (case ce_writeFails ce file of Some e \<Rightarrow> (Some e, AList.update file (ce_partial ce file) fs)
      | None \<Rightarrow> (None, AList.update file content fs))"

definition san_ips :: "api_io \<Rightarrow> string \<Rightarrow> ip list" where
  "san_ips io lanURL =
     (if lanURL = '''' then []
      else let h0 = trim_prefix (trim_prefix lanURL ''https://'') ''http://'';
               h = (case SplitHostPort h0 of None \<Rightarrow> h0 | Some (x, p) \<Rightarrow> x)
           in case ai_parseIP io h of None \<Rightarrow> [] | Some ip \<Rightarrow> [ip]) @ [replicate 10 0 @ [255, 255, 127, 0, 0, 1], replicate 15 0 @ [1]]"

definition ensureCert ::
  "api_io \<Rightarrow> cert_io \<Rightarrow> local_api \<Rightarrow> (string \<times> string) list \<Rightarrow> string option \<times> (string \<times> string) list" where
  "ensureCert io ce s fs =
     (if map_of fs (la_certFile s) \<noteq> None \<and> map_of fs (la_keyFile s) \<noteq> None then (None, fs)
      else case ce_make ce (san_ips io (la_lanURL s)) of Inl e \<Rightarrow> (Some e, fs)
      | Inr cert \<Rightarrow>
         (case ce_openFails ce (la_certFile s) of Some e \<Rightarrow> (Some (''open cert file: '' @ e), fs)
          | None \<Rightarrow>
             (case write_pem ce (la_certFile s) cert (AList.update (la_certFile s) '''' fs) of
                (Some e, f1) \<Rightarrow> (Some (''write cert: '' @ e), f1)
              | (None, f1) \<Rightarrow>
                 (case ce_openFails ce (la_keyFile s) of Some e \<Rightarrow> (Some (''open key file: '' @ e), f1)
                  | None \<Rightarrow>
                     (let f2 = AList.update (la_keyFile s) '''' f1
                      in case ce_marshalKey ce of Inl e \<Rightarrow> (Some (''marshal key: '' @ e), f2)
                         | Inr key \<Rightarrow> (case write_pem ce (la_keyFile s) key f2 of
                                        (Some e, f3) \<Rightarrow> (Some (''write key: '' @ e), f3) | (None, f3) \<Rightarrow> (None, f3)))))))"

datatype listen_mode = ListenHTTP | ListenTLS string string

definition StartAPI :: "api_io \<Rightarrow> cert_io \<Rightarrow> local_api \<Rightarrow> (string \<times> string) list \<Rightarrow> listen_mode \<times> local_api \<times> (string \<times> string) list" where
  "StartAPI io ce s fs =
     (case ensureCert io ce s fs of
        (Some e, fs') \<Rightarrow> (ListenHTTP, s, fs')
      | (None, fs') \<Rightarrow>
          (ListenTLS (la_certFile s) (la_keyFile s),
           if has_prefix (la_lanURL s) ''http://'' then s\<lparr>la_lanURL := ''https'' @ drop 4 (la_lanURL s)\<rparr> else s, fs'))"

section \<open>Requests and responses\<close>

record api_request =
  rp_Method :: string
  rp_Path :: string
  rp_RemoteAddr :: string
  rp_Token :: string
  rp_Body :: string

datatype api_body = NoBody | PlainBody string | JSONBody gomap | RedirectTo string

record api_response =
  ps_Status :: int
  ps_CORS :: bool
  ps_Body :: api_body

record api_state =
  as_relay :: relay_state
  as_db :: "local_db option"

definition writeJSON :: "int \<Rightarrow> gomap \<Rightarrow> api_response" where
  "writeJSON status v = \<lparr>ps_Status = status, ps_CORS = True, ps_Body = JSONBody v\<rparr>"

definition writeError :: "int \<Rightarrow> string \<Rightarrow> api_response" where
  "writeError status msg = writeJSON status [(''ok'', VBool False), (''error'', VString msg)]"

definition realIP :: "api_io \<Rightarrow> api_request \<Rightarrow> ip option" where
  "realIP io r = ai_parseIP io (case SplitHostPort (rp_RemoteAddr r) of None \<Rightarrow> rp_RemoteAddr r | Some (h, p) \<Rightarrow> h)"

type_synonym api_handler = "api_request \<Rightarrow> api_state \<Rightarrow> api_response \<times> api_state"

definition preflightMiddleware :: "api_handler \<Rightarrow> api_handler" where
  "preflightMiddleware nxt r s =
     (if rp_Method r = ''OPTIONS'' then (\<lparr>ps_Status = 204, ps_CORS = True, ps_Body = NoBody\<rparr>, s) else nxt r s)"

definition ipAllowedMiddleware :: "api_io \<Rightarrow> local_api \<Rightarrow> api_handler \<Rightarrow> api_handler" where
  "ipAllowedMiddleware io a nxt r s =
     (case realIP io r of
        None \<Rightarrow> (writeError 403 ''could not determine client IP'', s)
      | Some ip \<Rightarrow> if list_ex (\<lambda>n. Contains n ip) (la_allowedNets a) then nxt r s
                  else (writeError 403 ''client IP not in allowed range'', s))"

definition authMiddleware :: "local_api \<Rightarrow> api_handler \<Rightarrow> api_handler" where
  "authMiddleware a nxt r s =
     (if rp_Token r \<noteq> la_token a then (writeError 401 ''invalid or missing X-Local-Token'', s) else nxt r s)"

section \<open>Handlers\<close>

definition api_sup :: "api_state \<Rightarrow> supervisor" where
  "api_sup s = rs_sup (as_relay s)"

definition handleHealth :: api_handler where
  "handleHealth r s =
     (if rp_Method r \<noteq> ''GET'' then (writeError 405 ''method not allowed'', s)
      else (writeJSON 200
        [(''ok'', VBool True), (''version'', VString HostVersion), (''hybrid_mode'', VBool True),
         (''label'', VString (case sv_state (api_sup s) of None \<Rightarrow> '''' | Some st \<Rightarrow> hi_Label (hs_Identity st))),
         (''target_count'', VInt (int (length (sv_targets (api_sup s))))),
         (''db_stats'', case Stats (as_db s) of None \<Rightarrow> VNil
            | Some (n, u) \<Rightarrow> VMap [(''snapshot_count'', VInt64 n), (''unsynced_count'', VInt64 u)])], s))"

definition target_entry :: "target_profile \<Rightarrow> gomap" where
  "target_entry t = [(''target_id'', VString (tp_TargetID t)), (''name'', VString (tp_Name t)), (''target_type'', VString (tp_TargetType t)),
     (''enabled'', VBool (tp_Enabled t)), (''status'', VString (tp_Status t)), (''endpoint'', VString (tp_Endpoint t))]"

definition handleTargets :: api_handler where
  "handleTargets r s =
     (if rp_Method r \<noteq> ''GET'' then (writeError 405 ''method not allowed'', s)
      else (writeJSON 200 [(''targets'', VMapSlice (map target_entry (sv_targets (api_sup s))))], s))"

definition worker_part :: "string \<Rightarrow> supervisor \<Rightarrow> gomap" where
  "worker_part tid sv =
     (case find (\<lambda>w. ws_TargetID w = tid) (SupervisorStatus sv) of None \<Rightarrow> []
      | Some w \<Rightarrow> (''worker_status'', VString (worker_status_string (ws_Status w))) #
          (if ws_LastError w \<noteq> '''' then [(''worker_last_error'', VString (ws_LastError w))] else []))"

definition handleSnapshot :: "api_io \<Rightarrow> string \<Rightarrow> api_state \<Rightarrow> api_response" where
  "handleSnapshot io targetID s =
     (if as_db s = None then writeError 503 ''local DB not available''
      else case LatestSnapshot (ai_codec io) targetID (as_db s) of
        Inl e \<Rightarrow> writeError 500 ''failed to read snapshot''
      | Inr None \<Rightarrow> writeError 404 ''no snapshot found for target''
      | Inr (Some (payload, collectedAt)) \<Rightarrow>
          writeJSON 200 ([(''ok'', VBool True), (''target_id'', VString targetID), (''collected_at'', VString (ai_rfc3339 io collectedAt)),
            (''snapshot'', VMap payload)] @ worker_part targetID (api_sup s)))"

definition handleTargetRoute :: "api_io \<Rightarrow> api_handler" where
  "handleTargetRoute io r s =
     (if rp_Method r \<noteq> ''GET'' then (writeError 405 ''method not allowed'', s)
      else case split_on (CHR ''/'') (trim_prefix (rp_Path r) ''/v1/targets/'') of
        targetID # action # _ \<Rightarrow>
          (if action = ''snapshot'' then handleSnapshot io targetID s else writeError 404 (''unknown action: '' @ action), s)
      | _ \<Rightarrow> (writeError 404 ''not found'', s))"

definition handleExecute :: "api_io \<Rightarrow> local_api \<Rightarrow> api_handler" where
  "handleExecute io a r s =
     (if rp_Method r \<noteq> ''POST'' then (writeError 405 ''method not allowed'', s)
      else case la_relayHandler a of None \<Rightarrow> (writeError 503 ''execution not available'', s)
      | Some rh \<Rightarrow>
         (case ai_decode io (rp_Body r) of None \<Rightarrow> (writeError 400 ''invalid request body'', s)
          | Some cmd0 \<Rightarrow>
             (let cmd = (if rc_ID cmd0 = '''' then cmd0\<lparr>rc_ID := ai_newID io\<rparr> else cmd0)
              in if rc_Platform cmd = '''' \<or> rc_Method cmd = '''' \<or> rc_Path cmd = '''' \<or> rc_TargetProfileID cmd = ''''
                 then (writeError 400 ''platform, method, path, and target_profile_id are required'', s)
                 else case executeCommand (ai_relay io) rh cmd (as_relay s) of
                   (res, rs) \<Rightarrow>
                     (writeJSON 200 [(''ok'', VBool (rx_ErrorMessage res = '''')), (''id'', VString (rx_ID res)),
                        (''response_status'', VInt (rx_ResponseStatus res)),
                        (''response_data'', case rx_ResponseData res of None \<Rightarrow> VNil | Some d \<Rightarrow> VMap d),
                        (''error_message'', VString (rx_ErrorMessage res)), (''duration_ms'', VInt64 (rx_DurationMs res))],
                      s\<lparr>as_relay := rs\<rparr>))))"

section \<open>Routing\<close>

text \<open>The mux answers a path that is not clean with a redirect to its clean form; it keeps a trailing slash.\<close>

definition clean_url_path :: "string \<Rightarrow> string" where
  "clean_url_path p0 =
     (let p = (if take 1 p0 = ''/'' then p0 else ''/'' @ p0); np = filepath_clean p
      in if has_suffix p ''/'' \<and> np \<noteq> ''/'' then np @ ''/'' else np)"

definition serve :: "api_io \<Rightarrow> local_api \<Rightarrow> api_handler" where
  "serve io a r s =
     (let p = rp_Path r; guarded = (\<lambda>h. preflightMiddleware (ipAllowedMiddleware io a h));
          authed = (\<lambda>h. guarded (authMiddleware a h))
      in if clean_url_path p \<noteq> p then (\<lparr>ps_Status = 301, ps_CORS = False, ps_Body = RedirectTo (clean_url_path p)\<rparr>, s)
         else if p = ''/v1/health'' then guarded handleHealth r s
         else if p = ''/v1/targets'' then authed handleTargets r s
         else if p = ''/v1/execute'' then authed (handleExecute io a) r s
         else if has_prefix p ''/v1/targets/'' then authed (handleTargetRoute io) r s
         else (\<lparr>ps_Status = 404, ps_CORS = False, ps_Body = PlainBody ''404 page not found''\<rparr>, s))"

section \<open>Access\<close>

definition ip_allowed :: "api_io \<Rightarrow> local_api \<Rightarrow> api_request \<Rightarrow> bool" where
  "ip_allowed io a r = (case realIP io r of None \<Rightarrow> False | Some ip \<Rightarrow> list_ex (\<lambda>n. Contains n ip) (la_allowedNets a))"

lemma ipAllowed_cases:
  "ipAllowedMiddleware io a nxt r s =
     (if ip_allowed io a r then nxt r s
      else (writeError 403 (if realIP io r = None then ''could not determine client IP'' else ''client IP not in allowed range''), s))"
  by (simp add: ipAllowedMiddleware_def ip_allowed_def split: option.split)

lemma write_status [simp]: "ps_Status (writeError n m) = n" "ps_Status (writeJSON n v) = n"
  by (simp_all add: writeError_def writeJSON_def)

text \<open>Only \<open>handleExecute\<close> changes the state; the state it leaves is that of the relay's command.\<close>

lemma handleExecute_frame:
  assumes "handleExecute io a r s = (resp, s')"
  shows "s' = s \<or> (rp_Method r = ''POST'' \<and> (\<exists>rh cmd0 cmd res. la_relayHandler a = Some rh \<and> ai_decode io (rp_Body r) = Some cmd0 \<and>
     cmd = cmd0\<lparr>rc_ID := (if rc_ID cmd0 = '''' then ai_newID io else rc_ID cmd0)\<rparr> \<and>
     executeCommand (ai_relay io) rh cmd (as_relay s) = (res, as_relay s') \<and> as_db s' = as_db s))"
proof -
  have "(if rc_ID c = '''' then c\<lparr>rc_ID := x\<rparr> else c) = c\<lparr>rc_ID := (if rc_ID c = '''' then x else rc_ID c)\<rparr>" for c :: relay_command and x by simp
  then show ?thesis using assms by (auto simp: handleExecute_def Let_def split: if_splits option.splits prod.splits)
qed

lemma handlers_keep_state:
  "snd (handleHealth r s) = s" "snd (handleTargets r s) = s" "snd (handleTargetRoute io r s) = s"
  by (simp_all add: handleHealth_def handleTargets_def handleTargetRoute_def split: list.split)

lemma serve_effect:
  assumes "serve io a r s = (resp, s')" and "s' \<noteq> s"
  shows "rp_Path r = ''/v1/execute'' \<and> ip_allowed io a r \<and> rp_Token r = la_token a \<and> handleExecute io a r s = (resp, s')"
proof -
  have "rp_Path r = ''/v1/execute''"
    using assms handlers_keep_state(1) [of r s] handlers_keep_state(2) [of r s] handlers_keep_state(3) [of io r s]
    by (auto simp: serve_def preflightMiddleware_def ipAllowed_cases authMiddleware_def Let_def split: if_splits)
  then show ?thesis using assms
    by (auto simp: serve_def preflightMiddleware_def ipAllowed_cases authMiddleware_def Let_def split: if_splits)
qed

lemma serve_ok:
  assumes "serve io a r s = (resp, s')" and "ps_Status resp = 200"
  shows "ip_allowed io a r" "rp_Path r \<noteq> ''/v1/health'' \<Longrightarrow> rp_Token r = la_token a"
  using assms by (auto simp: serve_def preflightMiddleware_def ipAllowed_cases authMiddleware_def Let_def split: if_splits)


section \<open>Examples\<close>

definition demo_api_io :: api_io where
  "demo_api_io = \<lparr>ai_parseIP = (\<lambda>s. if s = ''127.0.0.1'' then Some [127, 0, 0, 1] else if s = ''10.0.0.9'' then Some [10, 0, 0, 9] else None),
     ai_showIP = (\<lambda>_. ''10.0.0.9''), ai_parseCIDR = (\<lambda>_. None), ai_urlPort = (\<lambda>_. Some ''7070''), ai_interfaces = None,
     ai_decode = (\<lambda>_. Some (demo_cmd ''read-only'' ''x'')), ai_newID = ''id1'', ai_codec = hex_codec, ai_rfc3339 = (\<lambda>t. t), ai_relay = demo_rio\<rparr>"

definition demo_api :: local_api where
  "demo_api = NewLocalAPIServer demo_api_io (\<lambda>_. '''') ''secret'' '''' ''/etc/filterrex'' (Some (NewRelayHandler DefaultChangePolicyConfig))"

definition demo_api_state :: api_state where
  "demo_api_state = \<lparr>as_relay = demo_rs, as_db = None\<rparr>"

definition demo_request :: "string \<Rightarrow> string \<Rightarrow> string \<Rightarrow> string \<Rightarrow> api_request" where
  "demo_request m p addr tok = \<lparr>rp_Method = m, rp_Path = p, rp_RemoteAddr = addr, rp_Token = tok, rp_Body = ''{}''\<rparr>"

lemma demo_api_allowed:
  "ip_allowed demo_api_io demo_api (demo_request m p ''127.0.0.1:5000'' t)" "\<not> ip_allowed demo_api_io demo_api (demo_request m p ''10.0.0.9:5000'' t)"
proof -
  have "realIP demo_api_io (demo_request m p ''127.0.0.1:5000'' t) = Some [127, 0, 0, 1]"
    "realIP demo_api_io (demo_request m p ''10.0.0.9:5000'' t) = Some [10, 0, 0, 9]"
    by (simp_all add: realIP_def demo_request_def SplitHostPort_def last_index_def demo_api_io_def)
  moreover have "la_allowedNets demo_api = [loopback, loopback6]"
    by (simp add: demo_api_def NewLocalAPIServer_def parseAllowedCIDRs_def Let_def)
  moreover have "Contains loopback [127, 0, 0, 1]" "\<not> Contains loopback [10, 0, 0, 9]" "\<not> Contains loopback6 [10, 0, 0, 9]" by code_simp+
  ultimately show "ip_allowed demo_api_io demo_api (demo_request m p ''127.0.0.1:5000'' t)"
    "\<not> ip_allowed demo_api_io demo_api (demo_request m p ''10.0.0.9:5000'' t)" by (simp_all add: ip_allowed_def)
qed

lemma demo_executes:
  "length (rs_requests (snd (executeCommand demo_rio (NewRelayHandler DefaultChangePolicyConfig) (demo_cmd ''read-only'' ''x'') demo_rs))) = 1"
proof -
  let ?rh = "NewRelayHandler DefaultChangePolicyConfig" and ?c = "demo_cmd ''read-only'' ''x''"
  have u: "to_upper ''get'' = ''GET''" "\<not> str_contains ''/rest/x'' ''..''" by code_simp+
  have t: "FindTarget ''a'' (rs_sup demo_rs) = Some (demo_profile ''a'')" by (simp add: FindTarget_def demo_rs_def)
  have l: "LoadSecret cx f ''a'' (sv_store (rs_sup demo_rs)) = Inr None" for cx f by (simp add: LoadSecret_def demo_rs_def demo_store_def)
  have h: "''brocade'' \<in> set (rh_allowedPlatforms ?rh)" "''read-only'' \<in> set (rh_allowedSafetyLevels ?rh)"
    by (simp_all add: NewRelayHandler_def buildAllowedPlatforms_def)
  have "executeCommand demo_rio ?rh ?c demo_rs =
      (case executeHTTP demo_rio ?c (demo_profile ''a'') [] demo_rs of (r, s1) \<Rightarrow> (r\<lparr>rx_DurationMs := ri_elapsed demo_rio ?c\<rparr>, s1))"
    using u t l h by (simp add: executeCommand_def demo_cmd_def PlatformBrocadeProbe_def Let_def)
  then show ?thesis by (simp add: executeHTTP_def demo_cmd_def demo_rio_def demo_rs_def Let_def)
qed

lemma demo_serve_execute:
  "serve demo_api_io demo_api (demo_request ''POST'' ''/v1/execute'' ''127.0.0.1:5000'' ''secret'') demo_api_state =
     handleExecute demo_api_io demo_api (demo_request ''POST'' ''/v1/execute'' ''127.0.0.1:5000'' ''secret'') demo_api_state"
  "as_relay (snd (handleExecute demo_api_io demo_api (demo_request ''POST'' ''/v1/execute'' ''127.0.0.1:5000'' ''secret'') demo_api_state)) =
     snd (executeCommand demo_rio (NewRelayHandler DefaultChangePolicyConfig) (demo_cmd ''read-only'' ''x'') demo_rs)"
proof -
  have "clean_url_path ''/v1/execute'' = ''/v1/execute''" by code_simp
  then show "serve demo_api_io demo_api (demo_request ''POST'' ''/v1/execute'' ''127.0.0.1:5000'' ''secret'') demo_api_state =
     handleExecute demo_api_io demo_api (demo_request ''POST'' ''/v1/execute'' ''127.0.0.1:5000'' ''secret'') demo_api_state"
    using demo_api_allowed(1) [of "''POST''" "''/v1/execute''" "''secret''"]
    by (simp add: serve_def preflightMiddleware_def ipAllowed_cases authMiddleware_def Let_def) (simp add: demo_request_def demo_api_def NewLocalAPIServer_def Let_def)
  show "as_relay (snd (handleExecute demo_api_io demo_api (demo_request ''POST'' ''/v1/execute'' ''127.0.0.1:5000'' ''secret'') demo_api_state)) =
     snd (executeCommand demo_rio (NewRelayHandler DefaultChangePolicyConfig) (demo_cmd ''read-only'' ''x'') demo_rs)"
    by (simp add: handleExecute_def demo_request_def demo_api_def NewLocalAPIServer_def demo_api_io_def demo_api_state_def Let_def demo_cmd_def
        split: prod.split)
qed


text \<open>The opt-in for remote live queries, which the cloud relay checks first, does not hold back the local route.\<close>

lemma local_execute_ignores_live_query:
  "\<not> live_query_enabled (api_sup demo_api_state)"
  "rs_requests (ProcessCommands demo_rio (NewRelayHandler DefaultChangePolicyConfig) [demo_cmd ''read-only'' ''x''] demo_rs) = []"
  "length (rs_requests (as_relay (snd (serve demo_api_io demo_api (demo_request ''POST'' ''/v1/execute'' ''127.0.0.1:5000'' ''secret'') demo_api_state)))) = 1"
proof -
  show n: "\<not> live_query_enabled (api_sup demo_api_state)"
    by (simp add: live_query_enabled_def api_sup_def demo_api_state_def demo_rs_def demo_state_def fresh_state_def DefaultHostConfig_def)
  have "\<not> live_query_enabled (rs_sup demo_rs)" using n by (simp add: api_sup_def demo_api_state_def)
  moreover have "\<not> bypasses_live_query (demo_cmd ''read-only'' ''x'')" by (simp add: bypasses_live_query_def demo_cmd_def PlatformBrocadeProbe_def)
  ultimately show "rs_requests (ProcessCommands demo_rio (NewRelayHandler DefaultChangePolicyConfig) [demo_cmd ''read-only'' ''x''] demo_rs) = []"
    by (simp add: ProcessCommands_def) (simp add: demo_rs_def)
  show "length (rs_requests (as_relay (snd (serve demo_api_io demo_api
      (demo_request ''POST'' ''/v1/execute'' ''127.0.0.1:5000'' ''secret'') demo_api_state)))) = 1"
    using demo_executes by (simp add: demo_serve_execute)
qed

text \<open>Without a configured range only the loopback addresses are allowed.\<close>

lemma masked_ones: "length x = n \<Longrightarrow> masked x (replicate n 255) = x"
proof -
  have "(255 :: 8 word) = - 1" by simp
  then have "and w (255 :: 8 word) = w" for w by (metis and.right_neutral)
  then show "length x = n \<Longrightarrow> masked x (replicate n 255) = x"
    unfolding masked_def by (induction x arbitrary: n) (auto simp: Suc_length_conv)
qed

lemma default_allows_loopback:
  "list_ex (\<lambda>n. Contains n ip) (parseAllowedCIDRs pc '''') \<longleftrightarrow> To4 ip = Some [127, 0, 0, 1] \<or> To4 ip = None \<and> ip = replicate 15 0 @ [1]"
proof -
  have l: "To4 ip = Some x \<Longrightarrow> length x = 4" "To4 ip = None \<Longrightarrow> length ip \<noteq> 4" for x by (auto simp: To4_def split: if_splits)
  have "length x = 4 \<Longrightarrow> masked [127, 0, 0, 1] (replicate 4 255) = masked x (replicate 4 255) \<longleftrightarrow> x = [127, 0, 0, 1]" for x
    using masked_ones [of x 4] masked_ones [of "[127, 0, 0, 1]" 4] by auto
  then have 1: "Contains loopback ip \<longleftrightarrow> To4 ip = Some [127, 0, 0, 1]"
    using l unfolding Contains_def loopback_def Let_def by (cases "To4 ip") auto
  have "length x = 16 \<Longrightarrow> masked (replicate 15 0 @ [1]) (replicate 16 255) = masked x (replicate 16 255) \<longleftrightarrow> x = replicate 15 0 @ [1]" for x
    using masked_ones [of x 16] masked_ones [of "replicate 15 0 @ [1]" 16] by auto
  then have 2: "Contains loopback6 ip \<longleftrightarrow> To4 ip = None \<and> ip = replicate 15 0 @ [1]"
    using l(1) unfolding Contains_def loopback6_def Let_def by (cases "To4 ip") auto
  show ?thesis using 1 2 by (simp add: parseAllowedCIDRs_def)
qed

text \<open>The certificate of a run that failed to write its key is found complete by the next start, with an empty key
  file; and a configured address is advertised as https even when the server falls back to plain http.\<close>

lemma truncated_key_reused:
  assumes "map_of fs (la_certFile s) = None" and "ce_make ce (san_ips io (la_lanURL s)) = Inr cert" and "\<And>f. ce_openFails ce f = None"
    and "ce_writeFails ce (la_certFile s) = None" and "ce_marshalKey ce = Inr key" and "ce_writeFails ce (la_keyFile s) = Some e"
    and "ce_partial ce (la_keyFile s) = ''''" and "la_certFile s \<noteq> la_keyFile s"
  shows "let (mode, s1, fs1) = StartAPI io ce s fs in mode = ListenHTTP \<and> map_of fs1 (la_keyFile s) = Some '''' \<and>
    fst (StartAPI io ce' s fs1) = ListenTLS (la_certFile s) (la_keyFile s)"
  using assms by (simp add: StartAPI_def ensureCert_def write_pem_def update_conv' Let_def)

lemma https_advertised_over_http:
  "let s = NewLocalAPIServer demo_api_io (\<lambda>k. if k = ''FILTERREX_LOCAL_API_URL'' then ''http://10.0.0.9:7070'' else '''') ''secret'' '''' ''/c'' None;
       ce = \<lparr>ce_make = (\<lambda>_. Inl ''no entropy''), ce_marshalKey = Inl '''', ce_openFails = (\<lambda>_. None), ce_writeFails = (\<lambda>_. None),
              ce_partial = (\<lambda>_. '''')\<rparr>
   in fst (StartAPI demo_api_io ce s []) = ListenHTTP \<and> la_lanURL (fst (snd (StartAPI demo_api_io ce s []))) = ''https://10.0.0.9:7070''"
  by (simp add: StartAPI_def ensureCert_def NewLocalAPIServer_def advertised_url_def demo_api_io_def Let_def)

lemma snapshot_path:
  assumes "CHR ''/'' \<notin> set tid" and "tid \<notin> {'''', ''.'', ''..''}"
  shows "clean_url_path (''/v1/targets/'' @ tid @ ''/snapshot'') = ''/v1/targets/'' @ tid @ ''/snapshot''"
    "split_on (CHR ''/'') (trim_prefix (''/v1/targets/'' @ tid @ ''/snapshot'') ''/v1/targets/'') = [tid, ''snapshot'']"
proof -
  have t: "split_on (CHR ''/'') (tid @ ''/snapshot'') = [tid, ''snapshot'']"
    using assms(1) split_on_append [of "CHR ''/''" tid "''snapshot''"] split_on_plain [of "CHR ''/''" tid] by simp
  have "split_on (CHR ''/'') (''/v1/targets/'' @ tid @ ''/snapshot'') = [''''] @ [''v1'', ''targets''] @ [tid, ''snapshot'']"
    using t by simp
  then have c: "filepath_clean (''/v1/targets/'' @ tid @ ''/snapshot'') = ''/v1/targets/'' @ tid @ ''/snapshot''"
    using assms(2) by (simp add: filepath_clean_def render_def is_abs_def)
  have "\<not> has_suffix (''/v1/targets/'' @ tid @ ''/snapshot'') ''/''" by (simp add: has_suffix_def)
  then show "clean_url_path (''/v1/targets/'' @ tid @ ''/snapshot'') = ''/v1/targets/'' @ tid @ ''/snapshot''"
    using c by (simp add: clean_url_path_def Let_def)
  show "split_on (CHR ''/'') (trim_prefix (''/v1/targets/'' @ tid @ ''/snapshot'') ''/v1/targets/'') = [tid, ''snapshot'']"
    using t by (simp add: trim_prefix_def)
qed

text \<open>an authorised GET of a target's snapshot is answered from the local database alone: with 200 and the payload of
  that target's row with the greatest collection time when it can be decoded, with 404 exactly when the database has no row
  of the target, and with 500 when the row cannot be decoded; nothing changes.\<close>

theorem local_snapshot_served:
  assumes "CHR ''/'' \<notin> set tid" and "tid \<notin> {'''', ''.'', ''..''}" and "rp_Path r = ''/v1/targets/'' @ tid @ ''/snapshot''"
    and "rp_Method r = ''GET''" and "ip_allowed io a r" and "rp_Token r = la_token a" and "as_db s = Some db" and "ld_enabled db"
  shows "\<exists>resp. serve io a r s = (resp, s) \<and>
    (case LatestSnapshot (ai_codec io) tid (Some db) of
       Inl e \<Rightarrow> ps_Status resp = 500
     | Inr None \<Rightarrow> ps_Status resp = 404 \<and> (\<nexists>row. row \<in> set (ld_snapshots db) \<and> sr_target_id row = tid)
     | Inr (Some (payload, collectedAt)) \<Rightarrow>
         ps_Status resp = 200 \<and> (\<exists>m. ps_Body resp = JSONBody m \<and> map_of m ''snapshot'' = Some (VMap payload)) \<and>
         (\<exists>row. row \<in> set (ld_snapshots db) \<and> sr_target_id row = tid \<and> sr_collected_at row = collectedAt \<and>
            (\<nexists>row'. row' \<in> set (ld_snapshots db) \<and> sr_target_id row' = tid \<and> collectedAt < sr_collected_at row')))"
proof -
  note p = snapshot_path [OF assms(1,2)]
  have s: "serve io a r s = (handleSnapshot io tid s, s)"
    using p assms(3-6) by (simp add: serve_def preflightMiddleware_def ipAllowed_cases authMiddleware_def handleTargetRoute_def Let_def)
  let ?rows = "filter (\<lambda>row. sr_target_id row = tid) (ld_snapshots db)"
  consider (none) "latest_row ?rows = None" | (bad) row e where "latest_row ?rows = Some row" "decode_row (ai_codec io) row = Inl e"
    | (ok) row p where "latest_row ?rows = Some row" "decode_row (ai_codec io) row = Inr p"
    by (metis not_Some_eq obj_sumE)
  then show ?thesis
  proof cases
    case none
    then have "?rows = []" by (simp only: latest_row_None)
    with none show ?thesis using assms(7,8) by (auto simp: s handleSnapshot_def LatestSnapshot_def filter_empty_conv)
  next
    case (bad row e)
    then show ?thesis using assms(7,8) by (simp add: s handleSnapshot_def LatestSnapshot_def)
  next
    case (ok row p)
    have "row \<in> set ?rows" "\<And>x. x \<in> set ?rows \<Longrightarrow> sr_collected_at x \<le> sr_collected_at row" using latest_row_max [OF ok(1)] by blast+
    then have "row \<in> set (ld_snapshots db) \<and> sr_target_id row = tid \<and>
        (\<nexists>row'. row' \<in> set (ld_snapshots db) \<and> sr_target_id row' = tid \<and> sr_collected_at row < sr_collected_at row')"
      by (auto simp: not_less)
    then show ?thesis using ok assms(7,8) by (auto simp: s handleSnapshot_def LatestSnapshot_def writeJSON_def)
  qed
qed

theorem local_snapshot_served_witness:
  "let db = \<lparr>ld_snapshots = [], ld_signals = [], ld_enabled = True, ld_foreign_keys = False\<rparr>;
       r = demo_request ''GET'' ''/v1/targets/sw1/snapshot'' ''127.0.0.1:5000'' ''secret''; s = demo_api_state\<lparr>as_db := Some db\<rparr>
   in ip_allowed demo_api_io demo_api r \<and> ps_Status (fst (serve demo_api_io demo_api r s)) = 404 \<and> snd (serve demo_api_io demo_api r s) = s"
proof -
  let ?db = "\<lparr>ld_snapshots = [], ld_signals = [], ld_enabled = True, ld_foreign_keys = False\<rparr>" and ?s = "\<lambda>db. demo_api_state\<lparr>as_db := Some db\<rparr>"
  let ?r = "demo_request ''GET'' ''/v1/targets/sw1/snapshot'' ''127.0.0.1:5000'' ''secret''"
  have r: "CHR ''/'' \<notin> set ''sw1''" "''sw1'' \<notin> {'''', ''.'', ''..''}" "rp_Path ?r = ''/v1/targets/'' @ ''sw1'' @ ''/snapshot''"
    "rp_Method ?r = ''GET''" "rp_Token ?r = la_token demo_api" "as_db (?s ?db) = Some ?db" "ld_enabled ?db"
    by (simp_all add: demo_request_def demo_api_def NewLocalAPIServer_def Let_def)
  have l: "LatestSnapshot (ai_codec demo_api_io) ''sw1'' (Some ?db) = Inr None" by (simp add: LatestSnapshot_def)
  show ?thesis
    using demo_api_allowed(1) local_snapshot_served [OF r(1-4) demo_api_allowed(1) r(5-7)] unfolding Let_def l by auto
qed

end
