(* ===== verification/AuditLog.thy ===== *)
theory AuditLog
  imports HostTypes LocalDB
begin

text \<open>
  The structured audit logger (audit.go). An entry is one line: the JSON text of a map (\<open>marshal\<close> is \<open>json.Marshal\<close>) or
  the readable form (\<open>show\<close> is the \<open>%v\<close> formatting). The logger's lock only orders the lines.
\<close>

definition LevelDebug :: int where "LevelDebug = 0"
definition LevelInfo :: int where "LevelInfo = 1"
definition LevelWarn :: int where "LevelWarn = 2"
definition LevelError :: int where "LevelError = 3"
definition LevelCritical :: int where "LevelCritical = 4"

lemmas level_defs = LevelDebug_def LevelInfo_def LevelWarn_def LevelError_def LevelCritical_def

definition levelNames :: "int \<Rightarrow> string" where
  "levelNames l =
     (if l = LevelDebug then ''debug'' else if l = LevelInfo then ''info'' else if l = LevelWarn then ''warn''
      else if l = LevelError then ''error'' else if l = LevelCritical then ''critical'' else '''')"

definition parseLogLevel :: "string \<Rightarrow> int" where
  "parseLogLevel s =
     (let l = to_lower s
      in if l = ''debug'' then LevelDebug else if l = ''info'' then LevelInfo else if l = ''warn'' \<or> l = ''warning'' then LevelWarn
         else if l = ''error'' then LevelError else if l = ''critical'' then LevelCritical else LevelInfo)"

type_synonym field = "string \<times> goval"

definition F_field :: "string \<Rightarrow> goval \<Rightarrow> field" where
  "F_field key val = (key, val)"

definition Err :: "string option \<Rightarrow> field" where
  "Err err = (''error'', case err of None \<Rightarrow> VNil | Some t \<Rightarrow> VString t)"

definition Target :: "string \<Rightarrow> string \<Rightarrow> string \<Rightarrow> field list" where
  "Target tid typ name = [(''target_id'', VString tid), (''target_type'', VString typ), (''target_name'', VString name)]"

record audit_logger =
  al_minLevel :: int
  al_jsonMode :: bool
  al_hostID :: string
  al_agentVersion :: string

definition NewAuditLogger :: "int \<Rightarrow> bool \<Rightarrow> audit_logger" where
  "NewAuditLogger minLevel jsonMode = \<lparr>al_minLevel = minLevel, al_jsonMode = jsonMode, al_hostID = '''', al_agentVersion = HostVersion\<rparr>"

definition InitAuditLogger :: "string \<Rightarrow> string \<Rightarrow> audit_logger" where
  "InitAuditLogger configLevel logFormat = NewAuditLogger (parseLogLevel configLevel) (logFormat = ''json'')"

definition SetHostID :: "string \<Rightarrow> audit_logger \<Rightarrow> audit_logger" where
  "SetHostID i a = a\<lparr>al_hostID := i\<rparr>"

definition SetLevel :: "int \<Rightarrow> audit_logger \<Rightarrow> audit_logger" where
  "SetLevel l a = a\<lparr>al_minLevel := l\<rparr>"

definition with_fields :: "field list \<Rightarrow> gomap \<Rightarrow> gomap" where
  "with_fields flds entry = fold (\<lambda>(k, v) m. if v = VNil then m else AList.update k v m) flds entry"

definition audit_entry :: "time \<Rightarrow> int \<Rightarrow> string \<Rightarrow> string \<Rightarrow> field list \<Rightarrow> audit_logger \<Rightarrow> gomap" where
  "audit_entry now level event msg flds a =
     (let base = [(''ts'', VString (rfc3339nano now)), (''level'', VString (levelNames level)), (''event'', VString event), (''msg'', VString msg),
            (''agent_version'', VString (al_agentVersion a))]
      in with_fields flds (if al_hostID a \<noteq> '''' then AList.update ''host_id'' (VString (al_hostID a)) base else base))"

definition emitJSON :: "(gomap \<Rightarrow> string + string) \<Rightarrow> time \<Rightarrow> int \<Rightarrow> string \<Rightarrow> string \<Rightarrow> field list \<Rightarrow> audit_logger \<Rightarrow> string" where
  "emitJSON marshal now level event msg flds a =
     (case marshal (audit_entry now level event msg flds a) of
        Inl e \<Rightarrow> ''[audit] JSON marshal error: '' @ e | Inr d \<Rightarrow> d)"

definition emitText :: "(goval \<Rightarrow> string) \<Rightarrow> string \<Rightarrow> string \<Rightarrow> field list \<Rightarrow> string" where
  "emitText show_val event msg flds =
     ''['' @ event @ ''] '' @ msg @ concat (map (\<lambda>(k, v). if v = VNil then '''' else '' '' @ k @ ''='' @ show_val v) flds)"

definition emit ::
  "(gomap \<Rightarrow> string + string) \<Rightarrow> (goval \<Rightarrow> string) \<Rightarrow> time \<Rightarrow> int \<Rightarrow> string \<Rightarrow> string \<Rightarrow> field list \<Rightarrow> audit_logger \<Rightarrow> string list" where
  "emit marshal show_val now level event msg flds a =
     (if level < al_minLevel a then []
      else [if al_jsonMode a then emitJSON marshal now level event msg flds a else emitText show_val event msg flds])"

definition Debug ::
  "(gomap \<Rightarrow> string + string) \<Rightarrow> (goval \<Rightarrow> string) \<Rightarrow> time \<Rightarrow> string \<Rightarrow> string \<Rightarrow> field list \<Rightarrow> audit_logger \<Rightarrow> string list" where
  "Debug marshal show_val now event msg flds a = emit marshal show_val now LevelDebug event msg flds a"

definition Info ::
  "(gomap \<Rightarrow> string + string) \<Rightarrow> (goval \<Rightarrow> string) \<Rightarrow> time \<Rightarrow> string \<Rightarrow> string \<Rightarrow> field list \<Rightarrow> audit_logger \<Rightarrow> string list" where
  "Info marshal show_val now event msg flds a = emit marshal show_val now LevelInfo event msg flds a"

definition Warn ::
  "(gomap \<Rightarrow> string + string) \<Rightarrow> (goval \<Rightarrow> string) \<Rightarrow> time \<Rightarrow> string \<Rightarrow> string \<Rightarrow> field list \<Rightarrow> audit_logger \<Rightarrow> string list" where
  "Warn marshal show_val now event msg flds a = emit marshal show_val now LevelWarn event msg flds a"

definition Error ::
  "(gomap \<Rightarrow> string + string) \<Rightarrow> (goval \<Rightarrow> string) \<Rightarrow> time \<Rightarrow> string \<Rightarrow> string \<Rightarrow> field list \<Rightarrow> audit_logger \<Rightarrow> string list" where
  "Error marshal show_val now event msg flds a = emit marshal show_val now LevelError event msg flds a"

definition Critical ::
  "(gomap \<Rightarrow> string + string) \<Rightarrow> (goval \<Rightarrow> string) \<Rightarrow> time \<Rightarrow> string \<Rightarrow> string \<Rightarrow> field list \<Rightarrow> audit_logger \<Rightarrow> string list" where
  "Critical marshal show_val now event msg flds a = emit marshal show_val now LevelCritical event msg flds a"

text \<open>A level read from the environment or the configuration always names a level, and critical events are always
  written.\<close>

lemma parseLogLevel_range: "parseLogLevel s \<in> {LevelDebug..LevelCritical}"
  by (simp add: parseLogLevel_def level_defs Let_def)

lemma parseLogLevel_roundtrip: "l \<in> {LevelDebug..LevelCritical} \<Longrightarrow> parseLogLevel (levelNames l) = l"
proof -
  assume "l \<in> {LevelDebug..LevelCritical}"
  then have "l \<in> {0, 1, 2, 3, 4}" by (auto simp: level_defs)
  moreover have "list_all (\<lambda>l. parseLogLevel (levelNames l) = l) [0, 1, 2, 3, 4]" by code_simp
  ultimately show ?thesis by auto
qed

lemma map_of_with_fields:
  "map_of (with_fields flds m) k =
     (case map_of (rev (filter (\<lambda>(k, v). v \<noteq> VNil) flds)) k of Some v \<Rightarrow> Some v | None \<Rightarrow> map_of m k)"
proof (induction flds arbitrary: m)
  case (Cons f flds)
  obtain k' v where f: "f = (k', v)" by fastforce
  have "with_fields (f # flds) m = with_fields flds (if v = VNil then m else AList.update k' v m)" by (simp add: with_fields_def f)
  then show ?case by (simp add: Cons.IH f update_conv' map_add_def split: option.split)
qed (simp add: with_fields_def)

lemma audit_entry_lookup:
  assumes "k \<notin> fst ` set flds"
  shows "map_of (audit_entry now level event msg flds a) k =
    (if k = ''host_id'' \<and> al_hostID a \<noteq> '''' then Some (VString (al_hostID a))
     else map_of [(''ts'', VString (rfc3339nano now)), (''level'', VString (levelNames level)), (''event'', VString event),
       (''msg'', VString msg), (''agent_version'', VString (al_agentVersion a))] k)"
proof -
  have "map_of (rev (filter (\<lambda>(k, v). v \<noteq> VNil) flds)) k = None" using assms by (auto simp: map_of_eq_None_iff image_iff)
  then show ?thesis by (simp add: audit_entry_def map_of_with_fields Let_def update_conv')
qed

lemma critical_always_written:
  "Critical marshal show_val now event msg flds (SetHostID h (InitAuditLogger level fmt)) \<noteq> []"
  using parseLogLevel_range [of level]
  by (simp add: Critical_def emit_def SetHostID_def InitAuditLogger_def NewAuditLogger_def level_defs)

end
