(* ===== verification/BrocadeREST.thy ===== *)
theory BrocadeREST
  imports TargetStore
begin

text \<open>
  The REST client for Brocade switches (brocaderest/): the fixed list of operations, the checks on
  parameters, the password file, the transport policy and one call with its audit record. What the
  process observes outside (environment, certificate pool, files) is \<open>rest_env\<close>; the HTTP transport is
  a function from the request to a response or an error, and every request handed to it is recorded.
  Compiled regular expressions are a parameter. Clearing the password buffer after use has no
  observable effect on byte strings that are values and is not represented.
\<close>

section \<open>Errors\<close>

definition ErrCodeUnknownOperation :: string where "ErrCodeUnknownOperation = ''unknown_operation''"
definition ErrCodeInvalidParameter :: string where "ErrCodeInvalidParameter = ''invalid_parameter''"
definition ErrCodeTransportUnsupported :: string where "ErrCodeTransportUnsupported = ''transport_unsupported''"
definition ErrCodeLabModeRequired :: string where "ErrCodeLabModeRequired = ''lab_mode_required''"
definition ErrCodeTLSUntrusted :: string where "ErrCodeTLSUntrusted = ''tls_untrusted''"
definition ErrCodeRESTAuthFailed :: string where "ErrCodeRESTAuthFailed = ''rest_auth_failed''"
definition ErrCodeRESTConnectionFailed :: string where "ErrCodeRESTConnectionFailed = ''rest_connection_failed''"
definition ErrCodeRESTTimeout :: string where "ErrCodeRESTTimeout = ''rest_timeout''"
definition ErrCodeRESTHTTPError :: string where "ErrCodeRESTHTTPError = ''rest_http_error''"
definition ErrCodeResponseTooLarge :: string where "ErrCodeResponseTooLarge = ''response_too_large''"
definition ErrCodeRedirectRefused :: string where "ErrCodeRedirectRefused = ''redirect_refused''"
definition ErrCodeMissingPassword :: string where "ErrCodeMissingPassword = ''missing_rest_password''"
definition ErrCodeReadOnlyProbeFailed :: string where "ErrCodeReadOnlyProbeFailed = ''read_only_probe_failed''"

definition rest_error_codes :: "string list" where
  "rest_error_codes = [ErrCodeUnknownOperation, ErrCodeInvalidParameter, ErrCodeTransportUnsupported,
     ErrCodeLabModeRequired, ErrCodeTLSUntrusted, ErrCodeRESTAuthFailed, ErrCodeRESTConnectionFailed, ErrCodeRESTTimeout,
     ErrCodeRESTHTTPError, ErrCodeResponseTooLarge, ErrCodeRedirectRefused, ErrCodeMissingPassword, ErrCodeReadOnlyProbeFailed]"

lemmas rest_code_defs = ErrCodeUnknownOperation_def ErrCodeInvalidParameter_def ErrCodeTransportUnsupported_def
  ErrCodeLabModeRequired_def ErrCodeTLSUntrusted_def ErrCodeRESTAuthFailed_def ErrCodeRESTConnectionFailed_def
  ErrCodeRESTTimeout_def ErrCodeRESTHTTPError_def ErrCodeResponseTooLarge_def ErrCodeRedirectRefused_def
  ErrCodeMissingPassword_def ErrCodeReadOnlyProbeFailed_def

record rest_error =
  xe_Code :: string
  xe_Detail :: string

definition newErr :: "string \<Rightarrow> string \<Rightarrow> rest_error" where
  "newErr code detail = \<lparr>xe_Code = code, xe_Detail = detail\<rparr>"

definition rest_error_text :: "rest_error \<Rightarrow> string" where
  "rest_error_text e = (if xe_Detail e = '''' then xe_Code e else xe_Code e @ '': '' @ xe_Detail e)"

section \<open>Operations\<close>

definition TransportHTTPSVerified :: string where "TransportHTTPSVerified = ''https-verified''"
definition TransportHTTPLabOnly :: string where "TransportHTTPLabOnly = ''http-lab-only''"

record param_schema =
  sc_Type :: string
  sc_Required :: bool
  sc_Pattern :: string
  sc_Max :: int

record rest_operation =
  xo_ID :: string
  xo_Method :: string
  xo_PathTemplate :: string
  xo_AllowedParams :: "(string \<times> param_schema) list"
  xo_Description :: string

definition operations :: "(string \<times> rest_operation) list" where
  "operations =
     [(''brocade.switch.status'', \<lparr>xo_ID = ''brocade.switch.status'', xo_Method = ''GET'',
         xo_PathTemplate = ''/rest/running/brocade-fibrechannel-switch/fibrechannel-switch'', xo_AllowedParams = [],
         xo_Description = ''Read-only switch identity + state.''\<rparr>),
      (''brocade.fabric.show'', \<lparr>xo_ID = ''brocade.fabric.show'', xo_Method = ''GET'',
         xo_PathTemplate = ''/rest/running/brocade-fabric/fabric-switch'', xo_AllowedParams = [],
         xo_Description = ''Read-only fabric membership snapshot.''\<rparr>)]"

definition Resolve :: "string \<Rightarrow> rest_operation option" where
  "Resolve oid = map_of operations oid"

text \<open>The map is listed in the order \<open>ops\<close> in which the runtime happens to range over it.\<close>

definition KnownOperationIDs :: "(string \<times> rest_operation) list \<Rightarrow> string list" where
  "KnownOperationIDs ops = map fst ops"

section \<open>Parameters\<close>

definition coerce :: "goval \<Rightarrow> param_schema \<Rightarrow> string + string" where
  "coerce v s =
     (if sc_Type s = ''string'' then (case v of VString str \<Rightarrow> Inr str | _ \<Rightarrow> Inl ''expected string'')
      else if sc_Type s = ''int'' then
        (case v of VInt n \<Rightarrow> Inr (show_int n)
         | VInt64 n \<Rightarrow> Inr (show_int n)
         | VFloat n \<Rightarrow>
            if n \<noteq> rat_of_int (float_to_int64 n) then Inl ''expected integer'' else Inr (show_int (float_to_int64 n))
         | VString n \<Rightarrow> (case atoi n of None \<Rightarrow> Inl ''expected integer'' | Some i \<Rightarrow> Inr n)
         | _ \<Rightarrow> Inl ''expected integer'')
      else if sc_Type s = ''bool'' then
        (case v of VBool b \<Rightarrow> Inr (if b then ''true'' else ''false'') | _ \<Rightarrow> Inl ''expected bool'')
      else Inl ''unsupported schema type'')"

definition check_param :: "(string \<Rightarrow> (string \<Rightarrow> bool) option) \<Rightarrow> string \<Rightarrow> param_schema \<Rightarrow> goval \<Rightarrow> rest_error + string" where
  "check_param compile name schema raw =
     (case coerce raw schema of
        Inl e \<Rightarrow> Inl (newErr ErrCodeInvalidParameter (''parameter '' @ go_quote name @ '': '' @ e))
      | Inr strVal \<Rightarrow>
         if sc_Max schema > 0 \<and> int (length strVal) > sc_Max schema
         then Inl (newErr ErrCodeInvalidParameter (''parameter '' @ go_quote name @ '' exceeds max length''))
         else if sc_Pattern schema \<noteq> '''' then
           (case compile (sc_Pattern schema) of
              None \<Rightarrow> Inl (newErr ErrCodeInvalidParameter (''parameter '' @ go_quote name @ '': bad schema''))
            | Some re \<Rightarrow> if re strVal then Inr strVal
                else Inl (newErr ErrCodeInvalidParameter (''parameter '' @ go_quote name @ '': value not permitted'')))
         else Inr strVal)"

fun check_allowed ::
  "(string \<Rightarrow> (string \<Rightarrow> bool) option) \<Rightarrow> gomap \<Rightarrow> (string \<times> param_schema) list \<Rightarrow> (string \<times> string) list
   \<Rightarrow> rest_error + (string \<times> string) list" where
  "check_allowed compile inp [] out = Inr out"
| "check_allowed compile inp ((name, schema) # ps) out =
     (case map_of inp name of
        None \<Rightarrow> if sc_Required schema
          then Inl (newErr ErrCodeInvalidParameter (''missing required parameter '' @ go_quote name))
          else check_allowed compile inp ps out
      | Some raw \<Rightarrow> (case check_param compile name schema raw of Inl e \<Rightarrow> Inl e
          | Inr strVal \<Rightarrow> check_allowed compile inp ps (AList.update name strVal out)))"

definition validateParams ::
  "(string \<Rightarrow> (string \<Rightarrow> bool) option) \<Rightarrow> rest_operation \<Rightarrow> gomap \<Rightarrow> rest_error + (string \<times> string) list" where
  "validateParams compile opr inp =
     (case find (\<lambda>(name, v). map_of (xo_AllowedParams opr) name = None) inp of
        Some (name, v) \<Rightarrow> Inl (newErr ErrCodeInvalidParameter (''unknown parameter '' @ go_quote name))
      | None \<Rightarrow> check_allowed compile inp (xo_AllowedParams opr) [])"

section \<open>Password file\<close>

datatype file_kind = RegularFile | SymlinkFile | OtherFile

record file_meta =
  fm_Kind :: file_kind
  fm_Perm :: nat

definition too_permissive :: "file_meta \<Rightarrow> bool" where
  "too_permissive m = (fm_Perm m mod 64 \<noteq> 0)"

record rest_env =
  qe_getenv :: "string \<Rightarrow> string"
  qe_systemPool :: "string list option"
  qe_pemCerts :: "string \<Rightarrow> string list"
  qe_lstat :: "string \<Rightarrow> file_meta option"
  qe_readFile :: "string \<Rightarrow> string option"
  qe_compile :: "string \<Rightarrow> (string \<Rightarrow> bool) option"
  qe_parseURL :: "string \<Rightarrow> bool"

definition trim_newline :: "string \<Rightarrow> string" where
  "trim_newline b = (if b \<noteq> '''' \<and> last b = CHR 0x0A then butlast b else b)"

definition readPassword :: "rest_env \<Rightarrow> string \<Rightarrow> rest_error + string" where
  "readPassword ev path =
     (if path = '''' then Inl (newErr ErrCodeMissingPassword ''password_file not configured'')
      else case qe_lstat ev path of
        None \<Rightarrow> Inl (newErr ErrCodeMissingPassword ''password_file unreadable'')
      | Some fi \<Rightarrow>
         if fm_Kind fi = SymlinkFile then Inl (newErr ErrCodeMissingPassword ''password_file must not be a symlink'')
         else if fm_Kind fi \<noteq> RegularFile then Inl (newErr ErrCodeMissingPassword ''password_file must be a regular file'')
         else if too_permissive fi then Inl (newErr ErrCodeMissingPassword (''password_file permissions 0'' @
           show_octal (fm_Perm fi) @ '' are too permissive; use 0600 or 0400''))
         else (case qe_readFile ev path of
            None \<Rightarrow> Inl (newErr ErrCodeMissingPassword ''password_file read failed'')
          | Some b \<Rightarrow>
             let pw = trim_newline b
             in if pw = '''' then Inl (newErr ErrCodeMissingPassword ''password_file is empty'') else Inr pw))"

section \<open>Client\<close>

record rest_client_config =
  xg_TargetProfileID :: string
  xg_Host :: string
  xg_Port :: int
  xg_TransportMode :: string
  xg_Username :: string
  xg_PasswordFile :: string
  xg_CAFile :: string

text \<open>The fields of \<open>tls.Config\<close> that decide whom the client trusts; without own roots it uses the
  system's.\<close>

record rest_tls =
  xt_MinVersion :: int
  xt_InsecureSkipVerify :: bool
  xt_RootCAs :: "string list option"

record rest_client =
  xl_cfg :: rest_client_config
  xl_tls :: rest_tls
  xl_Timeout :: duration

definition restMinTLSVersion :: int where "restMinTLSVersion = 0x0303"
definition MaxResponseBytes :: int where "MaxResponseBytes = 8 * 2 ^ 20"

definition transport_policy :: "rest_env \<Rightarrow> string \<Rightarrow> rest_error + string" where
  "transport_policy ev mode =
     (if mode = '''' \<or> mode = TransportHTTPSVerified then Inr TransportHTTPSVerified
      else if mode = TransportHTTPLabOnly then
        (if qe_getenv ev ''FILTERREX_LAB_MODE'' \<noteq> ''1''
         then Inl (newErr ErrCodeLabModeRequired ''http-lab-only requires FILTERREX_LAB_MODE=1'')
         else Inr TransportHTTPLabOnly)
      else Inl (newErr ErrCodeTransportUnsupported mode))"

definition root_pool :: "rest_env \<Rightarrow> rest_client_config \<Rightarrow> rest_error + string list option" where
  "root_pool ev cfg =
     (if xg_CAFile cfg \<noteq> '''' \<and> xg_TransportMode cfg = TransportHTTPSVerified then
        (let pool = (case qe_systemPool ev of None \<Rightarrow> [] | Some p \<Rightarrow> p)
         in case qe_readFile ev (xg_CAFile cfg) of
              None \<Rightarrow> Inl (newErr ErrCodeTLSUntrusted ''unable to read ca_file'')
            | Some pem \<Rightarrow>
               if qe_pemCerts ev pem = [] then Inl (newErr ErrCodeTLSUntrusted ''ca_file contains no valid PEM certificates'')
               else Inr (Some (pool @ qe_pemCerts ev pem)))
      else Inr None)"

definition New :: "rest_env \<Rightarrow> rest_client_config \<Rightarrow> rest_error + rest_client" where
  "New ev cfg0 =
     (if xg_Host cfg0 = '''' then Inl (newErr ErrCodeInvalidParameter ''host is required'')
      else case transport_policy ev (xg_TransportMode cfg0) of Inl e \<Rightarrow> Inl e
      | Inr mode \<Rightarrow>
         (let cfg = cfg0\<lparr>xg_TransportMode := mode\<rparr>
          in case root_pool ev cfg of Inl e \<Rightarrow> Inl e
             | Inr pool \<Rightarrow> Inr \<lparr>xl_cfg = cfg,
                 xl_tls = \<lparr>xt_MinVersion = restMinTLSVersion, xt_InsecureSkipVerify = False, xt_RootCAs = pool\<rparr>,
                 xl_Timeout = 15 * second\<rparr>))"

section \<open>URL\<close>

text \<open>\<open>url.URL.String\<close>: bytes that may not stand in the host or in the path are percent-encoded.\<close>

definition unreserved :: "char \<Rightarrow> bool" where
  "unreserved c = (in_range (CHR ''a'') (CHR ''z'') c \<or> in_range (CHR ''A'') (CHR ''Z'') c \<or>
     in_range (CHR ''0'') (CHR ''9'') c \<or> c \<in> set ''-_.~'')"

definition host_char :: "char \<Rightarrow> bool" where
  "host_char c = (unreserved c \<or> c \<in> set ''!$&()*+,;=:[]<>'' \<or> c = CHR 0x27 \<or> c = CHR 0x22)"

definition path_char :: "char \<Rightarrow> bool" where
  "path_char c = (unreserved c \<or> c \<in> set ''$&+,/:;=@'')"

definition upper_hex :: "nat \<Rightarrow> char" where
  "upper_hex n = (if n < 10 then char_of (48 + n) else char_of (55 + n))"

definition percent :: "char \<Rightarrow> string" where
  "percent c = [CHR ''%'', upper_hex (char_code c div 16), upper_hex (char_code c mod 16)]"

definition escape :: "(char \<Rightarrow> bool) \<Rightarrow> string \<Rightarrow> string" where
  "escape ok s = concat (map (\<lambda>c. if ok c then [c] else percent c) s)"

definition url_scheme :: "rest_client_config \<Rightarrow> string" where
  "url_scheme cfg = (if xg_TransportMode cfg = TransportHTTPLabOnly then ''http'' else ''https'')"

definition url_port :: "rest_client_config \<Rightarrow> int" where
  "url_port cfg = (if xg_Port cfg = 0 then (if xg_TransportMode cfg = TransportHTTPLabOnly then 80 else 443) else xg_Port cfg)"

definition url_authority :: "rest_client_config \<Rightarrow> string" where
  "url_authority cfg = escape host_char (JoinHostPort (xg_Host cfg) (url_port cfg))"

definition buildURL :: "rest_client_config \<Rightarrow> rest_operation \<Rightarrow> rest_error + string" where
  "buildURL cfg opr =
     (if \<not> has_prefix (xo_PathTemplate opr) ''/''
      then Inl (newErr ErrCodeInvalidParameter ''operation path template must be absolute'')
      else Inr (url_scheme cfg @ ''://'' @ url_authority cfg @ escape path_char (xo_PathTemplate opr)))"

section \<open>One call\<close>

record transport_error =
  te_Text :: string
  te_Timeout :: bool
  te_DeadlineExceeded :: bool

text \<open>A response: status, content type, the bytes the body delivers and whether the stream then breaks.\<close>

record rest_http_response =
  xr_StatusCode :: int
  xr_ContentType :: string
  xr_Body :: string
  xr_Broken :: bool

record rest_http_request =
  xq_Method :: string
  xq_URL :: string
  xq_Accept :: string
  xq_UserAgent :: string
  xq_BasicAuth :: "string \<times> string"
  xq_TLS :: rest_tls
  xq_Timeout :: duration

record rest_response =
  xp_HTTPStatus :: int
  xp_RawJSON :: "string option"
  xp_Text :: string
  xp_ElapsedMs :: int
  xp_OperationID :: string

record rest_audit =
  xa_OperationID :: string
  xa_TargetProfileID :: string
  xa_HTTPStatus :: int
  xa_ElapsedMs :: int
  xa_ErrorCode :: string

type_synonym rest_transport = "rest_http_request \<Rightarrow> transport_error + rest_http_response"

definition classifyTransportError :: "transport_error \<Rightarrow> string" where
  "classifyTransportError err =
     (let msg = te_Text err
      in if str_contains msg ''x509:'' \<or> str_contains msg ''certificate signed by unknown authority''
           \<or> str_contains msg ''tls: failed to verify'' \<or> str_contains msg ''hostname does not match''
         then ErrCodeTLSUntrusted
         else if te_Timeout err then ErrCodeRESTTimeout
         else if te_DeadlineExceeded err then ErrCodeRESTTimeout
         else ErrCodeRESTConnectionFailed)"

definition isJSONContentType :: "string \<Rightarrow> bool" where
  "isJSONContentType ct0 =
     (let ct = trim_space (takeWhile (\<lambda>c. c \<noteq> CHR '';'') (to_lower ct0))
      in ct = ''application/json'' \<or> ct = ''application/yang-data+json'' \<or> has_suffix ct ''+json'')"

definition accept_response ::
  "int \<Rightarrow> string \<Rightarrow> rest_http_response \<Rightarrow> rest_error + rest_response" where
  "accept_response elapsed operationID r =
     (if 300 \<le> xr_StatusCode r \<and> xr_StatusCode r < 400 then Inl (newErr ErrCodeRedirectRefused '''')
      else if xr_StatusCode r = 401 \<or> xr_StatusCode r = 403 then Inl (newErr ErrCodeRESTAuthFailed '''')
      else case read_limited (MaxResponseBytes + 1) (xr_Body r) (xr_Broken r) of
        None \<Rightarrow> Inl (newErr ErrCodeRESTConnectionFailed ''response read failed'')
      | Some body \<Rightarrow>
         if int (length body) > MaxResponseBytes then Inl (newErr ErrCodeResponseTooLarge '''')
         else if 400 \<le> xr_StatusCode r then Inl (newErr ErrCodeRESTHTTPError (''http '' @ show_int (xr_StatusCode r)))
         else Inr \<lparr>xp_HTTPStatus = xr_StatusCode r,
                xp_RawJSON = (if isJSONContentType (xr_ContentType r) then Some body else None),
                xp_Text = (if isJSONContentType (xr_ContentType r) then '''' else body),
                xp_ElapsedMs = elapsed, xp_OperationID = operationID\<rparr>)"

definition rest_request :: "rest_client \<Rightarrow> rest_operation \<Rightarrow> string \<Rightarrow> string \<Rightarrow> rest_http_request" where
  "rest_request c opr u pw = \<lparr>xq_Method = xo_Method opr, xq_URL = u, xq_Accept = ''application/yang-data+json, application/json'',
     xq_UserAgent = ''filterrex-connector/brocaderest'', xq_BasicAuth = (xg_Username (xl_cfg c), pw),
     xq_TLS = xl_tls c, xq_Timeout = xl_Timeout c\<rparr>"

text \<open>The steps before the request leaves: resolve, check, build, read the password.\<close>

definition prepare_call :: "rest_env \<Rightarrow> rest_client \<Rightarrow> string \<Rightarrow> gomap \<Rightarrow> rest_error + rest_http_request" where
  "prepare_call ev c operationID params =
     (case Resolve operationID of None \<Rightarrow> Inl (newErr ErrCodeUnknownOperation '''')
      | Some opr \<Rightarrow>
     (case validateParams (qe_compile ev) opr params of Inl e \<Rightarrow> Inl e
      | Inr checked \<Rightarrow>
     (case buildURL (xl_cfg c) opr of Inl e \<Rightarrow> Inl e
      | Inr u \<Rightarrow>
         if \<not> qe_parseURL ev u then Inl (newErr ErrCodeRESTConnectionFailed ''request build failed'')
         else (case readPassword ev (xg_PasswordFile (xl_cfg c)) of Inl e \<Rightarrow> Inl e
               | Inr pw \<Rightarrow> Inr (rest_request c opr u pw)))))"

definition Do ::
  "rest_env \<Rightarrow> rest_transport \<Rightarrow> int \<Rightarrow> rest_client \<Rightarrow> string \<Rightarrow> gomap
   \<Rightarrow> (rest_response option \<times> rest_audit \<times> rest_error option) \<times> rest_http_request list" where
  "Do ev rt elapsed c operationID params =
     (let audit = \<lparr>xa_OperationID = operationID, xa_TargetProfileID = xg_TargetProfileID (xl_cfg c), xa_HTTPStatus = 0,
            xa_ElapsedMs = elapsed, xa_ErrorCode = ''''\<rparr>
      in case prepare_call ev c operationID params of
           Inl e \<Rightarrow> ((None, audit\<lparr>xa_ErrorCode := xe_Code e\<rparr>, Some e), [])
         | Inr req \<Rightarrow>
            (case rt req of
               Inl err \<Rightarrow> ((None, audit\<lparr>xa_ErrorCode := classifyTransportError err\<rparr>,
                 Some (newErr (classifyTransportError err) '''')), [req])
             | Inr resp \<Rightarrow>
                (let audit1 = audit\<lparr>xa_HTTPStatus := xr_StatusCode resp\<rparr>
                 in case accept_response elapsed operationID resp of
                      Inl e \<Rightarrow> ((None, audit1\<lparr>xa_ErrorCode := xe_Code e\<rparr>, Some e), [req])
                    | Inr out \<Rightarrow> ((Some out, audit1, None), [req]))))"

definition ProbeSwitchStatus :: "rest_env \<Rightarrow> rest_transport \<Rightarrow> int \<Rightarrow> rest_client \<Rightarrow> rest_error option \<times> rest_http_request list" where
  "ProbeSwitchStatus ev rt elapsed c =
     (case Do ev rt elapsed c ''brocade.switch.status'' [] of ((resp, audit, err), reqs) \<Rightarrow> (err, reqs))"

section \<open>What a call sends and answers\<close>

lemma Resolve_cases:
  assumes "Resolve oid = Some opr"
  shows "(oid, opr) \<in> set operations" "xo_ID opr = oid" "xo_Method opr = ''GET''" "xo_AllowedParams opr = []"
    "has_prefix (xo_PathTemplate opr) ''/''" "escape path_char (xo_PathTemplate opr) = xo_PathTemplate opr"
proof -
  have m: "(oid, opr) \<in> set operations" using assms unfolding Resolve_def by (rule map_of_SomeD)
  have "list_all (\<lambda>(i, q). xo_ID q = i \<and> xo_Method q = ''GET'' \<and> xo_AllowedParams q = [] \<and> has_prefix (xo_PathTemplate q) ''/'' \<and>
      escape path_char (xo_PathTemplate q) = xo_PathTemplate q) operations" by code_simp
  with m show "(oid, opr) \<in> set operations" "xo_ID opr = oid" "xo_Method opr = ''GET''" "xo_AllowedParams opr = []"
    "has_prefix (xo_PathTemplate opr) ''/''" "escape path_char (xo_PathTemplate opr) = xo_PathTemplate opr"
    by (auto simp: list_all_iff)
qed

lemma validateParams_none:
  "xo_AllowedParams opr = [] \<Longrightarrow> validateParams cmp opr inp = Inr out \<longleftrightarrow> inp = [] \<and> out = []"
  by (cases inp) (auto simp: validateParams_def)

lemma validateParams_code: "validateParams cmp opr inp = Inl e \<Longrightarrow> xe_Code e = ErrCodeInvalidParameter"
proof -
  have "check_allowed cmp inp ps out = Inl e \<Longrightarrow> xe_Code e = ErrCodeInvalidParameter" for ps out
    by (induction cmp inp ps out rule: check_allowed.induct)
      (auto simp: newErr_def check_param_def split: option.splits sum.splits if_splits)
  then show "validateParams cmp opr inp = Inl e \<Longrightarrow> xe_Code e = ErrCodeInvalidParameter"
    by (auto simp: validateParams_def newErr_def split: option.splits)
qed

definition private_secret :: "rest_env \<Rightarrow> string \<Rightarrow> string \<Rightarrow> bool" where
  "private_secret ev path pw =
     (path \<noteq> '''' \<and> pw \<noteq> '''' \<and>
      (case qe_lstat ev path of None \<Rightarrow> False | Some m \<Rightarrow> fm_Kind m = RegularFile \<and> fm_Perm m mod 64 = 0) \<and>
      (qe_readFile ev path = Some (pw @ [CHR 0x0A]) \<or> qe_readFile ev path = Some pw \<and> last pw \<noteq> CHR 0x0A))"

lemma readPassword_iff: "readPassword ev path = Inr pw \<longleftrightarrow> private_secret ev path pw"
proof -
  have t: "trim_newline b = p \<and> p \<noteq> '''' \<longleftrightarrow> p \<noteq> '''' \<and> (b = p @ [CHR 0x0A] \<or> b = p \<and> last p \<noteq> CHR 0x0A)" for b p
    by (cases b rule: rev_cases) (auto simp: trim_newline_def)
  have "readPassword ev path = Inr pw \<longleftrightarrow> path \<noteq> '''' \<and> (\<exists>m b. qe_lstat ev path = Some m \<and> fm_Kind m = RegularFile \<and>
      \<not> too_permissive m \<and> qe_readFile ev path = Some b \<and> (trim_newline b = pw \<and> pw \<noteq> ''''))"
    unfolding readPassword_def Let_def by (cases "qe_lstat ev path"; cases "qe_readFile ev path") auto
  also have "\<dots> \<longleftrightarrow> private_secret ev path pw"
    unfolding t private_secret_def too_permissive_def by (cases "qe_lstat ev path") auto
  finally show ?thesis .
qed

lemma readPassword_code: "readPassword ev path = Inl e \<Longrightarrow> xe_Code e = ErrCodeMissingPassword"
  by (auto simp: readPassword_def newErr_def Let_def split: if_splits option.splits)

definition url_of :: "rest_client_config \<Rightarrow> rest_operation \<Rightarrow> string" where
  "url_of cfg opr = url_scheme cfg @ ''://'' @ url_authority cfg @ xo_PathTemplate opr"

lemma prepare_call_iff:
  "prepare_call ev c oid params = Inr req \<longleftrightarrow>
     (\<exists>opr pw. Resolve oid = Some opr \<and> params = [] \<and> qe_parseURL ev (url_of (xl_cfg c) opr) \<and>
        private_secret ev (xg_PasswordFile (xl_cfg c)) pw \<and> req = rest_request c opr (url_of (xl_cfg c) opr) pw)"
proof (cases "Resolve oid")
  case None
  then show ?thesis by (simp add: prepare_call_def)
next
  case (Some opr)
  note r = Resolve_cases [OF Some]
  have u: "buildURL (xl_cfg c) opr = Inr (url_of (xl_cfg c) opr)" by (simp add: buildURL_def url_of_def r)
  show ?thesis
  proof (cases "params = []")
    case True
    then have "validateParams (qe_compile ev) opr params = Inr []" using validateParams_none [OF r(4)] by blast
    with True show ?thesis unfolding readPassword_iff [symmetric] by (auto simp: prepare_call_def Some u split: sum.splits)
  next
    case False
    then have "\<exists>e. validateParams (qe_compile ev) opr params = Inl e"
      using validateParams_none [OF r(4), of "qe_compile ev" params] by (cases "validateParams (qe_compile ev) opr params") auto
    with False show ?thesis by (auto simp: prepare_call_def Some)
  qed
qed

lemma prepare_call_code:
  assumes "prepare_call ev c oid params = Inl e"
  shows "xe_Code e \<in> set rest_error_codes"
proof (cases "Resolve oid")
  case None
  then show ?thesis using assms by (auto simp: prepare_call_def newErr_def rest_error_codes_def)
next
  case (Some opr)
  have "buildURL (xl_cfg c) opr = Inr (url_of (xl_cfg c) opr)"
    by (simp add: buildURL_def url_of_def Resolve_cases [OF Some])
  then show ?thesis using assms
    by (auto simp: prepare_call_def Some rest_error_codes_def newErr_def
        dest: validateParams_code readPassword_code split: sum.splits if_splits)
qed

lemma classify_code: "classifyTransportError err \<in> set rest_error_codes"
  by (simp add: classifyTransportError_def rest_error_codes_def Let_def)

lemma accept_response_code: "accept_response el oid r = Inl e \<Longrightarrow> xe_Code e \<in> set rest_error_codes"
  by (auto simp: accept_response_def newErr_def rest_error_codes_def split: if_splits option.splits)

lemma accept_response_iff:
  "accept_response el oid r = Inr out \<longleftrightarrow>
     xr_StatusCode r < 300 \<and> int (length (xr_Body r)) \<le> MaxResponseBytes \<and> \<not> xr_Broken r \<and>
     out = \<lparr>xp_HTTPStatus = xr_StatusCode r,
       xp_RawJSON = (if isJSONContentType (xr_ContentType r) then Some (xr_Body r) else None),
       xp_Text = (if isJSONContentType (xr_ContentType r) then '''' else xr_Body r),
       xp_ElapsedMs = el, xp_OperationID = oid\<rparr>"
proof -
  have "0 \<le> MaxResponseBytes" by (simp add: MaxResponseBytes_def)
  then show ?thesis unfolding accept_response_def read_limited_def by (auto split: option.splits if_splits)
qed

lemma New_facts:
  assumes "New ev cfg = Inr c"
  shows "xg_Host (xl_cfg c) = xg_Host cfg" "xg_Port (xl_cfg c) = xg_Port cfg" "xg_Username (xl_cfg c) = xg_Username cfg"
    "xg_PasswordFile (xl_cfg c) = xg_PasswordFile cfg" "xg_TargetProfileID (xl_cfg c) = xg_TargetProfileID cfg"
    "xt_MinVersion (xl_tls c) = restMinTLSVersion" "\<not> xt_InsecureSkipVerify (xl_tls c)" "xg_Host cfg \<noteq> ''''"
    "url_scheme (xl_cfg c) = ''https'' \<or> url_scheme (xl_cfg c) = ''http'' \<and> xg_TransportMode cfg = TransportHTTPLabOnly \<and>
       qe_getenv ev ''FILTERREX_LAB_MODE'' = ''1''"
  using assms
  by (auto simp: New_def transport_policy_def url_scheme_def TransportHTTPSVerified_def TransportHTTPLabOnly_def Let_def
      split: if_splits sum.splits)

text \<open>Percent-encoding leaves no delimiter in the host part, so it cannot reach into the path.\<close>

definition url_delimiter :: "char \<Rightarrow> bool" where
  "url_delimiter c = (c \<in> set ''/?#@'')"

lemma escape_host_delimiters: "c \<in> set (escape host_char s) \<Longrightarrow> \<not> url_delimiter c"
proof -
  have h: "\<not> url_delimiter (upper_hex n)" if "n < 16" for n
  proof -
    have "list_all (\<lambda>n. \<not> url_delimiter (upper_hex n)) [0..<16]" by code_simp
    with that show ?thesis by (simp add: list_all_iff)
  qed
  have "\<not> url_delimiter d" if "host_char d" for d
    using that by (auto simp: url_delimiter_def host_char_def unreserved_def in_range_def char_code_def)
  moreover have "char_code d div 16 < 16" "char_code d mod 16 < 16" for d
    using nat_of_char_less_256 [of d] by (simp_all add: char_code_def less_mult_imp_div_less)
  ultimately show "c \<in> set (escape host_char s) \<Longrightarrow> \<not> url_delimiter c"
    using h by (auto simp: escape_def percent_def url_delimiter_def split: if_splits)
qed

text \<open>C24: What leaves the REST client. A call sends at most one request. It is a GET of an operation of
  the fixed list, called without parameters; its URL is the configured host and port, percent-encoded
  so that no delimiter of the host can reach into the path, followed by the operation's path; the scheme is
  https unless the target is set to lab mode and the process runs with lab mode on; certificates are verified
  from TLS 1.2 on; the password comes from a regular file that only its owner can access, less one final
  newline. Every failure has a code of the fixed list, and the audit record carries the same code.\<close>
theorem rest_calls_guarded:
  assumes "New ev cfg = Inr c" and "Do ev rt elapsed c oid params = ((resp, audit, err), reqs)"
  shows "length reqs \<le> 1 \<and>
    (\<forall>q \<in> set reqs. params = [] \<and> xq_Method q = ''GET'' \<and>
       (\<exists>opr scheme auth pw. (oid, opr) \<in> set operations \<and> xq_URL q = scheme @ ''://'' @ auth @ xo_PathTemplate opr \<and>
          auth = escape host_char (JoinHostPort (xg_Host cfg) (url_port (xl_cfg c))) \<and> list_all (\<lambda>d. \<not> url_delimiter d) auth \<and>
          (scheme = ''https'' \<or> scheme = ''http'' \<and> xg_TransportMode cfg = TransportHTTPLabOnly \<and>
             qe_getenv ev ''FILTERREX_LAB_MODE'' = ''1'') \<and>
          xt_MinVersion (xq_TLS q) = restMinTLSVersion \<and> \<not> xt_InsecureSkipVerify (xq_TLS q) \<and>
          xq_BasicAuth q = (xg_Username cfg, pw) \<and> private_secret ev (xg_PasswordFile cfg) pw)) \<and>
    (case err of Some e \<Rightarrow> resp = None \<and> xe_Code e \<in> set rest_error_codes \<and> xa_ErrorCode audit = xe_Code e
     | None \<Rightarrow> resp \<noteq> None \<and> reqs \<noteq> [] \<and> xa_ErrorCode audit = '''') \<and>
    xa_OperationID audit = oid \<and> xa_TargetProfileID audit = xg_TargetProfileID cfg"
proof (cases "prepare_call ev c oid params")
  case (Inl e)
  then show ?thesis using assms(2) New_facts [OF assms(1)] prepare_call_code [OF Inl] by (auto simp: Do_def)
next
  case (Inr req)
  then obtain opr pw where p: "Resolve oid = Some opr" "params = []" "private_secret ev (xg_PasswordFile (xl_cfg c)) pw"
    "req = rest_request c opr (url_of (xl_cfg c) opr) pw" unfolding prepare_call_iff by blast
  note f = New_facts [OF assms(1)] and r = Resolve_cases [OF p(1)]
  have "list_all (\<lambda>d. \<not> url_delimiter d) (url_authority (xl_cfg c))"
    unfolding list_all_iff url_authority_def using escape_host_delimiters by blast
  then have q: "xq_Method req = ''GET'' \<and> (\<exists>opr scheme auth pw. (oid, opr) \<in> set operations \<and>
      xq_URL req = scheme @ ''://'' @ auth @ xo_PathTemplate opr \<and>
      auth = escape host_char (JoinHostPort (xg_Host cfg) (url_port (xl_cfg c))) \<and> list_all (\<lambda>d. \<not> url_delimiter d) auth \<and>
      (scheme = ''https'' \<or> scheme = ''http'' \<and> xg_TransportMode cfg = TransportHTTPLabOnly \<and>
         qe_getenv ev ''FILTERREX_LAB_MODE'' = ''1'') \<and>
      xt_MinVersion (xq_TLS req) = restMinTLSVersion \<and> \<not> xt_InsecureSkipVerify (xq_TLS req) \<and>
      xq_BasicAuth req = (xg_Username cfg, pw) \<and> private_secret ev (xg_PasswordFile cfg) pw)"
    using f r(1,3) p(3) unfolding p(4) rest_request_def url_of_def url_authority_def rest_http_request.simps
    by (metis (no_types, lifting))
  have a: "length reqs \<le> 1" "set reqs \<subseteq> {req}" "reqs \<noteq> []" "xa_OperationID audit = oid" "xa_TargetProfileID audit = xg_TargetProfileID cfg"
    "case err of Some e \<Rightarrow> resp = None \<and> xe_Code e \<in> set rest_error_codes \<and> xa_ErrorCode audit = xe_Code e
     | None \<Rightarrow> resp \<noteq> None \<and> xa_ErrorCode audit = ''''"
    using assms(2) Inr f(5) classify_code accept_response_code
    by (auto simp: Do_def newErr_def Let_def split: sum.splits option.splits)
  then show ?thesis using p(2) q by (auto split: option.splits)
qed

text \<open>When a REST call succeeds. A call returns a payload exactly when the operation is registered, no
  parameter was given, the URL parses, the password file is acceptable, the transport delivers a response, and
  that response has a status below 300 and a complete body of at most 8 MiB; the payload is that body
  unchanged, as JSON or as text by its content type. A redirect is never followed and never succeeds.\<close>
theorem rest_call_succeeds_iff:
  "(\<exists>audit reqs. Do ev rt elapsed c oid params = ((Some out, audit, None), reqs)) \<longleftrightarrow>
   (\<exists>opr pw r. Resolve oid = Some opr \<and> params = [] \<and> qe_parseURL ev (url_of (xl_cfg c) opr) \<and>
      private_secret ev (xg_PasswordFile (xl_cfg c)) pw \<and> rt (rest_request c opr (url_of (xl_cfg c) opr) pw) = Inr r \<and>
      xr_StatusCode r < 300 \<and> int (length (xr_Body r)) \<le> MaxResponseBytes \<and> \<not> xr_Broken r \<and>
      xp_HTTPStatus out = xr_StatusCode r \<and> xp_OperationID out = oid \<and> xp_ElapsedMs out = elapsed \<and>
      (if isJSONContentType (xr_ContentType r) then xp_RawJSON out = Some (xr_Body r) \<and> xp_Text out = ''''
       else xp_RawJSON out = None \<and> xp_Text out = xr_Body r))"
proof -
  have "(\<exists>audit reqs. Do ev rt elapsed c oid params = ((Some out, audit, None), reqs)) \<longleftrightarrow>
    (\<exists>req r. prepare_call ev c oid params = Inr req \<and> rt req = Inr r \<and> accept_response elapsed oid r = Inr out)"
    by (auto simp: Do_def Let_def split: sum.splits)
  also have "\<dots> \<longleftrightarrow> (\<exists>opr pw r. Resolve oid = Some opr \<and> params = [] \<and> qe_parseURL ev (url_of (xl_cfg c) opr) \<and>
      private_secret ev (xg_PasswordFile (xl_cfg c)) pw \<and> rt (rest_request c opr (url_of (xl_cfg c) opr) pw) = Inr r \<and>
      accept_response elapsed oid r = Inr out)" unfolding prepare_call_iff by blast
  also have "\<dots> \<longleftrightarrow> (\<exists>opr pw r. Resolve oid = Some opr \<and> params = [] \<and> qe_parseURL ev (url_of (xl_cfg c) opr) \<and>
      private_secret ev (xg_PasswordFile (xl_cfg c)) pw \<and> rt (rest_request c opr (url_of (xl_cfg c) opr) pw) = Inr r \<and>
      xr_StatusCode r < 300 \<and> int (length (xr_Body r)) \<le> MaxResponseBytes \<and> \<not> xr_Broken r \<and>
      xp_HTTPStatus out = xr_StatusCode r \<and> xp_OperationID out = oid \<and> xp_ElapsedMs out = elapsed \<and>
      (if isJSONContentType (xr_ContentType r) then xp_RawJSON out = Some (xr_Body r) \<and> xp_Text out = ''''
       else xp_RawJSON out = None \<and> xp_Text out = xr_Body r))"
    unfolding accept_response_iff by (cases out) auto
  finally show ?thesis .
qed

lemma probe_operation_registered: "Resolve ''brocade.switch.status'' \<noteq> None"
  by code_simp

lemma ProbeSwitchStatus_code:
  assumes "ProbeSwitchStatus ev rt elapsed c = (Some e, reqs)"
  shows "xe_Code e \<in> set rest_error_codes"
  using assms prepare_call_code classify_code accept_response_code
  by (auto simp: ProbeSwitchStatus_def Do_def newErr_def Let_def split: prod.splits sum.splits)

text \<open>The identifiers come in the order of the map, not sorted.\<close>

lemma known_operations_unsorted:
  "\<exists>ops. map_of ops = map_of operations \<and> distinct (map fst ops) \<and>
     KnownOperationIDs ops = [''brocade.switch.status'', ''brocade.fabric.show'']"
  by (rule exI [of _ operations]) (simp add: KnownOperationIDs_def operations_def)

text \<open>The transport modes that the export configuration documents for a lab are refused.\<close>

lemma documented_lab_modes_refused:
  assumes "xg_Host cfg \<noteq> ''''" and "xg_TransportMode cfg = ''https-lab-insecure'' \<or> xg_TransportMode cfg = ''http-lab-insecure''"
  shows "New ev cfg = Inl (newErr ErrCodeTransportUnsupported (xg_TransportMode cfg))"
  using assms by (auto simp: New_def transport_policy_def TransportHTTPSVerified_def TransportHTTPLabOnly_def)

section \<open>A concrete call\<close>

definition demo_rest_env :: rest_env where
  "demo_rest_env = \<lparr>qe_getenv = (\<lambda>_. ''''), qe_systemPool = None, qe_pemCerts = (\<lambda>_. []),
     qe_lstat = (\<lambda>p. Some \<lparr>fm_Kind = RegularFile, fm_Perm = 384\<rparr>),
     qe_readFile = (\<lambda>p. Some (''pw'' @ [CHR 0x0A])), qe_compile = (\<lambda>_. None), qe_parseURL = (\<lambda>u. True)\<rparr>"

definition demo_rest_config :: rest_client_config where
  "demo_rest_config = \<lparr>xg_TargetProfileID = ''t'', xg_Host = ''a/b@c'', xg_Port = 0, xg_TransportMode = '''', xg_Username = ''u'',
     xg_PasswordFile = ''/p'', xg_CAFile = ''''\<rparr>"

definition demo_rest_transport :: rest_transport where
  "demo_rest_transport q = Inr \<lparr>xr_StatusCode = 200, xr_ContentType = ''application/json'', xr_Body = ''{}'', xr_Broken = False\<rparr>"

theorem rest_calls_guarded_witness:
  "case New demo_rest_env demo_rest_config of Inl e \<Rightarrow> False
   | Inr c \<Rightarrow> (case Do demo_rest_env demo_rest_transport 3 c ''brocade.fabric.show'' [] of
       ((resp, audit, err), reqs) \<Rightarrow> err = None \<and> xa_OperationID audit = ''brocade.fabric.show'' \<and>
         map xq_URL reqs = [''https://a%2Fb%40c:443/rest/running/brocade-fabric/fabric-switch''])"
proof -
  have "\<not> isl (New demo_rest_env demo_rest_config)" by code_simp
  then obtain c where c: "New demo_rest_env demo_rest_config = Inr c" by (cases "New demo_rest_env demo_rest_config") auto
  obtain resp audit err reqs where d:
    "Do demo_rest_env demo_rest_transport 3 c ''brocade.fabric.show'' [] = ((resp, audit, err), reqs)" by (metis prod.collapse)
  have "case New demo_rest_env demo_rest_config of Inl e \<Rightarrow> False
   | Inr c \<Rightarrow> (case Do demo_rest_env demo_rest_transport 3 c ''brocade.fabric.show'' [] of
       ((resp, audit, err), reqs) \<Rightarrow> err = None \<and> map xq_URL reqs = [''https://a%2Fb%40c:443/rest/running/brocade-fabric/fabric-switch''])"
    by code_simp
  then show ?thesis using rest_calls_guarded [OF c d] unfolding c sum.case d by simp
qed

end
