(* ===== verification/TargetWizard.thy ===== *)
theory TargetWizard
  imports BrocadeREST
begin

text \<open>
  The interactive wizard \<open>target configure\<close> and the diagnostic \<open>target doctor\<close>
  (targetconfigure/run.go, doctor.go). The operator's input is the byte stream \<open>ww_in\<close>, read by
  \<open>fmt.Fscanln\<close> as Go does, to the end of input and beyond; files are \<open>tfs\<close> with the mode of
  each path. Key generation, the SSH library, the presented host key, IP parsing and the hidden password
  input are in \<open>wizard_env\<close>. A question that may be repeated forever is a
  \<open>partial_function (option)\<close>: \<open>None\<close> means the wizard never gets past it.
  Printed text is not modelled, except for the lines of the status block and of the doctor.
\<close>

section \<open>Input\<close>

definition is_blank :: "char \<Rightarrow> bool" where
  "is_blank c = (is_space c \<and> c \<noteq> CHR 0x0A)"

text \<open>\<open>fmt.Fscanln(os.Stdin, &line)\<close>: the token stored, whether the call succeeded, and the input left.
  A second token on the line is an error, after its first byte has been consumed.\<close>

definition fscanln :: "string \<Rightarrow> string \<times> bool \<times> string" where
  "fscanln s =
     (case dropWhile is_blank s of [] \<Rightarrow> ('''', False, [])
      | c # r \<Rightarrow>
         if c = CHR 0x0A then ('''', False, r)
         else (let tok = takeWhile (\<lambda>d. \<not> is_space d) (c # r)
               in case dropWhile is_blank (dropWhile (\<lambda>d. \<not> is_space d) (c # r)) of [] \<Rightarrow> (tok, True, [])
                  | d # r' \<Rightarrow> (tok, d = CHR 0x0A, r')))"

definition prompt :: "string \<Rightarrow> string \<Rightarrow> string \<times> string" where
  "prompt def s =
     (case fscanln s of (tok, ok, s') \<Rightarrow>
        (let line = trim_space (if ok then tok else '''') in (if line = '''' then def else line, s')))"

definition confirmYesNo :: "bool \<Rightarrow> string \<Rightarrow> bool \<times> string" where
  "confirmYesNo def s =
     (case fscanln s of (tok, ok, s') \<Rightarrow>
        (let line = to_lower (trim_space tok)
         in (if line = '''' then def else line = ''y'' \<or> line = ''yes'', s')))"

definition confirmChoice :: "string \<Rightarrow> string \<Rightarrow> string \<times> string" where
  "confirmChoice def s =
     (case fscanln s of (tok, ok, s') \<Rightarrow>
        (let line = to_lower (trim_space tok) in (if line = '''' then def else line, s')))"

definition valid_port :: "string \<Rightarrow> int option" where
  "valid_port v = (case atoi v of Some n \<Rightarrow> if 0 < n \<and> n < 65536 then Some n else None | None \<Rightarrow> None)"

partial_function (option) promptPort :: "int \<Rightarrow> string \<Rightarrow> (int \<times> string) option" where
  [code]: "promptPort def s =
     (case prompt (show_int def) s of (v, s') \<Rightarrow>
        (case valid_port v of Some n \<Rightarrow> Some (n, s') | None \<Rightarrow> promptPort def s'))"

definition firstNonEmpty :: "string \<Rightarrow> string \<Rightarrow> string" where
  "firstNonEmpty a b = (if trim_space a \<noteq> '''' then a else b)"

definition firstNonZero :: "int \<Rightarrow> int \<Rightarrow> int" where
  "firstNonZero a b = (if a \<noteq> 0 then a else b)"

definition existingUser_rest :: "target_record \<Rightarrow> string" where
  "existingUser_rest rec = (case tr_REST rec of None \<Rightarrow> '''' | Some r \<Rightarrow> re_Username r)"

definition existingUser_ssh :: "target_record \<Rightarrow> string" where
  "existingUser_ssh rec = (case tr_SSH rec of None \<Rightarrow> '''' | Some r \<Rightarrow> se_Username r)"

section \<open>Surroundings and files\<close>

datatype secret_input = NotATerminal | SecretFails string | Secret string

text \<open>\<open>wn_parseIP\<close>: \<open>None\<close> when the text is no IP address, else whether the address is loopback or
  link-local. \<open>wn_generate\<close>: an error before the private key is written, or its PEM text and the
  public key, if it can be derived. \<open>wn_write\<close>: the outcome of the writes to a path, with 1 for the
  write of the menu.\<close>

record wizard_env =
  wn_tk :: target_codec
  wn_rest :: rest_env
  wn_rt :: rest_transport
  wn_elapsed :: int
  wn_dial :: ssh_dialer
  wn_parseIP :: "string \<Rightarrow> bool option"
  wn_hostKey :: "string \<Rightarrow> string option"
  wn_public :: "string \<Rightarrow> string"
  wn_parseKeyError :: "string \<Rightarrow> string"
  wn_rsaBits :: "string \<Rightarrow> int option"
  wn_authorized :: "string \<Rightarrow> string"
  wn_generate :: "string \<Rightarrow> string + (string \<times> string option)"
  wn_mkdir :: "string \<Rightarrow> string option"
  wn_secret :: secret_input
  wn_write :: "nat \<Rightarrow> string \<Rightarrow> write_outcome"
  wn_now_probe :: time
  wn_now_save :: time
  wn_now_menu :: time

record wizard_world =
  ww_fs :: tfs
  ww_meta :: "(string \<times> file_meta) list"
  ww_in :: string

datatype wizard_error = DirError string | LoadError load_error | RemapNotConfirmed | AbortedByOperator | SecretError string
  | PasswordEmpty | WriteError string | GenerateError string | ImportPathRequired | ImportError string | StoredKeyError string
  | UnsupportedGenerator string

definition lstat :: "wizard_world \<Rightarrow> string \<Rightarrow> file_meta option" where
  "lstat w p = map_of (ww_meta w) p"

definition existsRegularSecret :: "wizard_world \<Rightarrow> string \<Rightarrow> bool" where
  "existsRegularSecret w p = (case lstat w p of None \<Rightarrow> False | Some m \<Rightarrow> fm_Kind m = RegularFile)"

text \<open>\<open>atomicWriteFile\<close> with the mode the file has afterwards.\<close>

definition mode_after :: "wizard_env \<Rightarrow> nat \<Rightarrow> string \<Rightarrow> nat \<Rightarrow> (string \<times> file_meta) list \<Rightarrow> (string \<times> file_meta) list" where
  "mode_after env k path mode meta =
     (case wn_write env k path of WriteFailed \<Rightarrow> meta
      | WriteOk \<Rightarrow> AList.update path \<lparr>fm_Kind = RegularFile, fm_Perm = mode\<rparr> meta
      | WritePermissive \<Rightarrow> AList.update path \<lparr>fm_Kind = RegularFile, fm_Perm = mode - mode mod 64 + 63\<rparr> meta)"

definition write_mode_file :: "wizard_env \<Rightarrow> nat \<Rightarrow> string \<Rightarrow> string \<Rightarrow> nat \<Rightarrow> wizard_world \<Rightarrow> bool \<times> wizard_world" where
  "write_mode_file env k path dat mode w =
     (case atomicWriteFile (wn_write env k path) path dat (ww_fs w) of
        (ok, fs) \<Rightarrow> (ok, w\<lparr>ww_fs := fs, ww_meta := mode_after env k path mode (ww_meta w)\<rparr>))"

definition config_dirs :: "string \<Rightarrow> string list" where
  "config_dirs configDir = [configDir, filepath_join [configDir, restSecretDir], filepath_join [configDir, sshKeyDir],
     filepath_join [configDir, tlsDir]]"

fun ensure_dirs :: "(string \<Rightarrow> string option) \<Rightarrow> string list \<Rightarrow> tfs \<Rightarrow> wizard_error option \<times> tfs" where
  "ensure_dirs mkdir [] fs = (None, fs)"
| "ensure_dirs mkdir (d # ds) fs =
     (case mkdir d of Some e \<Rightarrow> (Some (DirError e), fs)
      | None \<Rightarrow> ensure_dirs mkdir ds (fs\<lparr>tf_dirs := AList.update d True (tf_dirs fs)\<rparr>))"

definition ensureDirs :: "wizard_env \<Rightarrow> string \<Rightarrow> wizard_world \<Rightarrow> wizard_error option \<times> wizard_world" where
  "ensureDirs env configDir w =
     (case ensure_dirs (wn_mkdir env) (config_dirs configDir) (ww_fs w) of (err, fs) \<Rightarrow> (err, w\<lparr>ww_fs := fs\<rparr>))"

definition verifyConnectorIdentity :: "tfs \<Rightarrow> string \<Rightarrow> bool" where
  "verifyConnectorIdentity fs stateDir =
     list_ex (\<lambda>p. map_of (tf_files fs) p \<noteq> None)
       [filepath_join [stateDir, ''identity.json''], filepath_join [stateDir, ''connector.json'']]"

section \<open>Address and ports\<close>

definition validateHost :: "wizard_env \<Rightarrow> string \<Rightarrow> string option" where
  "validateHost env s0 =
     (let s = trim_space s0
      in if s = '''' then Some ''required''
         else if str_contains s ''://'' \<or> str_contains s ''/'' \<or> str_contains s ''?'' \<or> str_contains s ''@''
         then Some ''enter a bare hostname or address; no scheme, path, query, or user@''
         else if has_prefix s ''['' then
           (if \<not> has_suffix s '']'' then Some ''malformed IPv6 literal''
            else if wn_parseIP env (butlast (tl s)) = None then Some ''malformed IPv6 literal'' else None)
         else (case wn_parseIP env s of
            Some special \<Rightarrow>
              if special \<and> qe_getenv (wn_rest env) ''FILTERREX_LAB_MODE'' \<noteq> ''1''
              then Some ''loopback/link-local requires FILTERREX_LAB_MODE=1'' else None
          | None \<Rightarrow>
              if \<not> (list_all safe_char s \<and> length s \<le> 253) then Some ''hostname contains disallowed characters''
              else if \<not> qe_parseURL (wn_rest env) (''//'' @ s) then Some ''hostname is not parseable''
              else None))"

partial_function (option) promptAddress :: "wizard_env \<Rightarrow> string \<Rightarrow> string \<Rightarrow> (string \<times> string) option" where
  [code]: "promptAddress env def s =
     (case prompt def s of (addr, s') \<Rightarrow> if validateHost env addr \<noteq> None then promptAddress env def s' else Some (addr, s'))"

definition promptAddressAndPorts :: "wizard_env \<Rightarrow> target_record \<Rightarrow> string \<Rightarrow> ((string \<times> int \<times> int) \<times> string) option" where
  "promptAddressAndPorts env rec s =
     (case promptAddress env (tr_Address rec) s of None \<Rightarrow> None
      | Some (addr, s1) \<Rightarrow>
         (case promptPort (firstNonZero (tr_RESTPort rec) 443) s1 of None \<Rightarrow> None
          | Some (restPort, s2) \<Rightarrow>
             (case promptPort (firstNonZero (tr_SSHPort rec) 22) s2 of None \<Rightarrow> None
              | Some (sshPort, s3) \<Rightarrow> Some ((addr, restPort, sshPort), s3))))"

section \<open>REST password\<close>

definition readSecretNoEcho :: "wizard_env \<Rightarrow> wizard_error + string" where
  "readSecretNoEcho env =
     (case wn_secret env of
        NotATerminal \<Rightarrow> Inl (SecretError ''stdin is not a terminal; refusing to read secret from a pipe or redirect'')
      | SecretFails e \<Rightarrow> Inl (SecretError (''read password: '' @ e))
      | Secret buf \<Rightarrow> Inr buf)"

definition configureRESTPassword :: "wizard_env \<Rightarrow> string \<Rightarrow> string \<Rightarrow> wizard_world \<Rightarrow> (wizard_error + string \<times> string) \<times> wizard_world" where
  "configureRESTPassword env configDir profile w =
     (let path = filepath_join [configDir, restSecretDir, profileSlug profile];
          (choice, s') = (if existsRegularSecret w path then confirmChoice ''reuse'' (ww_in w) else (''replace'', ww_in w));
          w1 = w\<lparr>ww_in := s'\<rparr>
      in if choice = ''reuse'' then (Inr (path, ''production_verified''), w1)
         else if choice = ''abort'' then (Inl AbortedByOperator, w1)
         else case readSecretNoEcho env of Inl e \<Rightarrow> (Inl e, w1)
         | Inr pw \<Rightarrow>
            if pw = '''' then (Inl PasswordEmpty, w1)
            else (case write_mode_file env 0 path pw 384 w1 of
                    (ok, w2) \<Rightarrow> (if ok then Inr (path, ''production_verified'') else Inl (WriteError path), w2)))"

section \<open>SSH key\<close>

record key_metadata =
  km_KeyPath :: string
  km_PublicKeyPath :: string
  km_Algorithm :: string
  km_Bits :: int
  km_Origin :: string
  km_FingerprintSHA256 :: string

definition deriveAlgoBits :: "wizard_env \<Rightarrow> string \<Rightarrow> string \<times> int" where
  "deriveAlgoBits env pub =
     (case tk_keyType (wn_tk env) pub of None \<Rightarrow> (''unknown'', 0)
      | Some ty \<Rightarrow>
         if ty = ''ssh-ed25519'' then (''ed25519'', 0)
         else if ty = ''ssh-rsa'' \<or> ty = ''rsa-sha2-256'' \<or> ty = ''rsa-sha2-512'' then
           (case wn_rsaBits env pub of Some n \<Rightarrow> (''rsa'', n) | None \<Rightarrow> (''rsa'', 0))
         else (''unknown'', 0))"

definition key_metadata_of :: "wizard_env \<Rightarrow> string \<Rightarrow> string \<Rightarrow> string \<times> int \<Rightarrow> string \<Rightarrow> string \<Rightarrow> key_metadata" where
  "key_metadata_of env keyPath pubPath ab origin pub =
     \<lparr>km_KeyPath = keyPath, km_PublicKeyPath = pubPath, km_Algorithm = fst ab, km_Bits = snd ab, km_Origin = origin,
      km_FingerprintSHA256 = sshFingerprintSHA256 (wn_tk env) pub\<rparr>"

text \<open>Both generators: write the private key, derive the public one, write it.\<close>

definition generate_key ::
  "wizard_env \<Rightarrow> string \<Rightarrow> string \<times> int \<Rightarrow> string \<Rightarrow> string \<Rightarrow> wizard_world \<Rightarrow> (wizard_error + key_metadata) \<times> wizard_world" where
  "generate_key env algo ab keyPath pubPath w =
     (case wn_generate env algo of Inl e \<Rightarrow> (Inl (GenerateError e), w)
      | Inr (pem, pub) \<Rightarrow>
         (case write_mode_file env 0 keyPath pem 384 w of (ok, w1) \<Rightarrow>
            if \<not> ok then (Inl (WriteError keyPath), w1)
            else (case pub of None \<Rightarrow> (Inl (GenerateError ''public key''), w1)
                  | Some wire \<Rightarrow>
                     (case write_mode_file env 0 pubPath (wn_authorized env wire) 420 w1 of (ok2, w2) \<Rightarrow>
                        (if ok2 then Inr (key_metadata_of env keyPath pubPath ab ''generated'' wire)
                         else Inl (WriteError pubPath), w2)))))"

definition generateEd25519 :: "wizard_env \<Rightarrow> string \<Rightarrow> string \<Rightarrow> wizard_world \<Rightarrow> (wizard_error + key_metadata) \<times> wizard_world" where
  "generateEd25519 env keyPath pubPath w = generate_key env ''ed25519'' (''ed25519'', 0) keyPath pubPath w"

definition generateRSA3072 :: "wizard_env \<Rightarrow> string \<Rightarrow> string \<Rightarrow> wizard_world \<Rightarrow> (wizard_error + key_metadata) \<times> wizard_world" where
  "generateRSA3072 env keyPath pubPath w = generate_key env ''rsa-3072'' (''rsa'', 3072) keyPath pubPath w"

definition importSSHKeyFrom ::
  "wizard_env \<Rightarrow> string \<Rightarrow> string \<Rightarrow> string \<Rightarrow> wizard_world \<Rightarrow> (wizard_error + key_metadata) \<times> wizard_world" where
  "importSSHKeyFrom env src keyPath pubPath w =
     (case lstat w src of None \<Rightarrow> (Inl (ImportError ''import source unreadable''), w)
      | Some fi \<Rightarrow>
         if fm_Kind fi = SymlinkFile then (Inl (ImportError ''import source is a symlink; refusing''), w)
         else if fm_Kind fi \<noteq> RegularFile then (Inl (ImportError ''import source is not a regular file''), w)
         else if too_permissive fi then (Inl (ImportError (''import source permissions 0'' @ show_octal (fm_Perm fi) @
           '' are too permissive; use 0600 or 0400'')), w)
         else (case read_path (ww_fs w) src of
            Content b \<Rightarrow>
              (case tk_parsePrivateKey (wn_tk env) b of
                 None \<Rightarrow> (Inl (ImportError (if str_contains (to_lower (wn_parseKeyError env b)) ''passphrase''
                            then ''encrypted_private_key_unsupported'' else ''import source is not a valid SSH private key'')), w)
               | Some signer \<Rightarrow>
                  (case write_mode_file env 0 keyPath b 384 w of (ok, w1) \<Rightarrow>
                     if \<not> ok then (Inl (WriteError keyPath), w1)
                     else (let pub = wn_public env signer
                           in case write_mode_file env 0 pubPath (wn_authorized env pub) 420 w1 of (ok2, w2) \<Rightarrow>
                              (if ok2 then Inr (key_metadata_of env keyPath pubPath (deriveAlgoBits env pub) ''imported'' pub)
                               else Inl (WriteError pubPath), w2))))
          | _ \<Rightarrow> (Inl (ImportError ''import source read failed''), w)))"

definition importSSHKey :: "wizard_env \<Rightarrow> string \<Rightarrow> string \<Rightarrow> wizard_world \<Rightarrow> (wizard_error + key_metadata) \<times> wizard_world" where
  "importSSHKey env keyPath pubPath w =
     (case prompt '''' (ww_in w) of (src, s') \<Rightarrow>
        if src = '''' then (Inl ImportPathRequired, w\<lparr>ww_in := s'\<rparr>)
        else importSSHKeyFrom env src keyPath pubPath (w\<lparr>ww_in := s'\<rparr>))"

definition deriveKeyMetadata :: "wizard_env \<Rightarrow> tfs \<Rightarrow> string \<Rightarrow> string \<Rightarrow> string \<Rightarrow> wizard_error + key_metadata" where
  "deriveKeyMetadata env fs keyPath pubPath defaultOrigin =
     (case read_path fs keyPath of
        Content b \<Rightarrow>
          (case tk_parsePrivateKey (wn_tk env) b of None \<Rightarrow> Inl (StoredKeyError ''stored key is not a valid SSH private key'')
           | Some signer \<Rightarrow> Inr (key_metadata_of env keyPath pubPath (deriveAlgoBits env (wn_public env signer)) defaultOrigin
               (wn_public env signer)))
      | _ \<Rightarrow> Inl (StoredKeyError ''read stored key''))"

definition generate_by :: "wizard_env \<Rightarrow> string \<Rightarrow> string \<Rightarrow> string \<Rightarrow> wizard_world \<Rightarrow> (wizard_error + key_metadata) \<times> wizard_world" where
  "generate_by env algo keyPath pubPath w =
     (if algo = ''ed25519'' then generateEd25519 env keyPath pubPath w
      else if algo = ''rsa-3072'' \<or> algo = ''rsa'' then generateRSA3072 env keyPath pubPath w
      else (Inl (UnsupportedGenerator algo), w))"

definition choose_new_key ::
  "wizard_env \<Rightarrow> key_choice \<Rightarrow> string \<Rightarrow> string \<Rightarrow> wizard_world \<Rightarrow> (wizard_error + key_metadata) \<times> wizard_world" where
  "choose_new_key env kc keyPath pubPath w =
     (if kc_ImportPath kc \<noteq> '''' then importSSHKeyFrom env (kc_ImportPath kc) keyPath pubPath w
      else if kc_FromFlag kc then generate_by env (kc_GenerateAlgorithm kc) keyPath pubPath w
      else (case confirmChoice ''rsa-3072'' (ww_in w) of (choice, s') \<Rightarrow>
              (let w1 = w\<lparr>ww_in := s'\<rparr>
               in if choice = ''import'' then importSSHKey env keyPath pubPath w1
                  else generate_by env (if choice = ''ed25519'' then ''ed25519'' else ''rsa-3072'') keyPath pubPath w1)))"

definition configureSSHKey ::
  "wizard_env \<Rightarrow> string \<Rightarrow> string \<Rightarrow> target_record \<Rightarrow> key_choice \<Rightarrow> wizard_world \<Rightarrow> (wizard_error + key_metadata) \<times> wizard_world" where
  "configureSSHKey env configDir profile rec kc w =
     (let keyPath = filepath_join [configDir, sshKeyDir, profileSlug profile]; pubPath = keyPath @ ''.pub''
      in if existsRegularSecret w keyPath then
           (case confirmChoice ''reuse'' (ww_in w) of (choice, s') \<Rightarrow>
              (let w1 = w\<lparr>ww_in := s'\<rparr>
               in if choice = ''reuse'' then
                    (case deriveKeyMetadata env (ww_fs w1) keyPath pubPath ''generated'' of Inl e \<Rightarrow> (Inl e, w1)
                     | Inr meta \<Rightarrow>
                        (Inr (case tr_SSH rec of None \<Rightarrow> meta
                              | Some ssh \<Rightarrow> if se_KeyOrigin ssh \<noteq> '''' then meta\<lparr>km_Origin := se_KeyOrigin ssh\<rparr> else meta), w1))
                  else if choice = ''import'' then importSSHKey env keyPath pubPath w1
                  else choose_new_key env kc keyPath pubPath w1))
         else choose_new_key env kc keyPath pubPath w)"

section \<open>Host key\<close>

datatype enroll_error = NoHostKey | NotConfirmed | ChallengeFailed | KnownHostsWriteError

definition fetchHostKey :: "wizard_env \<Rightarrow> string \<Rightarrow> int \<Rightarrow> string option" where
  "fetchHostKey env host port = wn_hostKey env (JoinHostPort host port)"

definition last_chars :: "nat \<Rightarrow> string \<Rightarrow> string" where
  "last_chars n s = drop (length s - n) s"

definition fingerprint_tail :: "wizard_env \<Rightarrow> string \<Rightarrow> string" where
  "fingerprint_tail env wire =
     last_chars 12 (trim_right (CHR ''='') (tk_b64encode (wn_tk env) (tk_sha256 (wn_tk env) wire)))"

definition enrollHostKey ::
  "wizard_env \<Rightarrow> string \<Rightarrow> string \<Rightarrow> int \<Rightarrow> wizard_world \<Rightarrow> (string \<times> bool \<times> enroll_error option) \<times> wizard_world" where
  "enrollHostKey env configDir host sshPort w =
     (let khPath = filepath_join [configDir, knownHostsFn];
          (choice, s1) = (if hasKnownHostEntry (ww_fs w) khPath host then confirmChoice ''reuse'' (ww_in w)
                          else (''refresh'', ww_in w));
          w1 = w\<lparr>ww_in := s1\<rparr>
      in if choice = ''reuse'' then ((khPath, False, None), w1)
         else case fetchHostKey env host sshPort of None \<Rightarrow> ((khPath, False, Some NoHostKey), w1)
         | Some wire \<Rightarrow>
            (case confirmYesNo False (ww_in w1) of (yes, s2) \<Rightarrow>
               if \<not> yes then ((khPath, False, Some NotConfirmed), w1\<lparr>ww_in := s2\<rparr>)
               else (case prompt '''' s2 of (got, s3) \<Rightarrow>
                 (let w3 = w1\<lparr>ww_in := s3\<rparr>
                  in if trim_space got \<noteq> fingerprint_tail env wire then ((khPath, False, Some ChallengeFailed), w3)
                     else (case appendLineAtomic (wn_write env 0 khPath) khPath (knownHostsLine (wn_tk env) host sshPort wire) (ww_fs w3) of
                       (ok, fs) \<Rightarrow> ((khPath, ok, if ok then None else Some KnownHostsWriteError),
                          w3\<lparr>ww_fs := fs, ww_meta := mode_after env 0 khPath 416 (ww_meta w3)\<rparr>))))))"

section \<open>REST probe\<close>

definition rest_env_of :: "wizard_env \<Rightarrow> wizard_world \<Rightarrow> rest_env" where
  "rest_env_of env w = (wn_rest env)\<lparr>qe_lstat := lstat w,
     qe_readFile := (\<lambda>p. case read_path (ww_fs w) p of Content b \<Rightarrow> Some b | _ \<Rightarrow> None)\<rparr>"

definition managed_or_empty :: "tfs \<Rightarrow> string \<Rightarrow> string \<Rightarrow> artifact_kind \<Rightarrow> string option" where
  "managed_or_empty fs targetsDir p kind =
     (if p = '''' then Some '''' else case ResolveManagedTargetArtifact (tf_eval fs) targetsDir p kind of
        Inl e \<Rightarrow> None | Inr r \<Rightarrow> Some r)"

definition probeREST :: "wizard_env \<Rightarrow> string \<Rightarrow> target_record \<Rightarrow> rest_entry \<Rightarrow> wizard_world \<Rightarrow> bool \<times> string" where
  "probeREST env targetsDir rec rest w =
     (case managed_or_empty (ww_fs w) targetsDir (re_PasswordFile rest) ArtifactRESTSecret of
        None \<Rightarrow> (False, TargetConfigUnmanagedArtifact)
      | Some passwordFile \<Rightarrow>
     (case managed_or_empty (ww_fs w) targetsDir (re_CAFile rest) ArtifactTLSMaterial of
        None \<Rightarrow> (False, TargetConfigUnmanagedArtifact)
      | Some caFile \<Rightarrow>
         (case New (rest_env_of env w) \<lparr>xg_TargetProfileID = ''wizard-probe'', xg_Host = tr_Address rec, xg_Port = tr_RESTPort rec,
                 xg_TransportMode = re_TransportMode rest, xg_Username = re_Username rest, xg_PasswordFile = passwordFile,
                 xg_CAFile = caFile\<rparr> of
            Inl e \<Rightarrow> (False, xe_Code e)
          | Inr client \<Rightarrow>
             (case ProbeSwitchStatus (rest_env_of env w) (wn_rt env) (wn_elapsed env) client of
                (Some e, reqs) \<Rightarrow> (False, xe_Code e) | (None, reqs) \<Rightarrow> (True, '''')))))"

section \<open>Stored paths\<close>

definition path_comps :: "string \<Rightarrow> string list" where
  "path_comps s = clean_c (is_abs s) [] (split_on (CHR ''/'') s)"

fun drop_common :: "string list \<Rightarrow> string list \<Rightarrow> string list \<times> string list" where
  "drop_common (x # xs) (y # ys) = (if x = y then drop_common xs ys else (x # xs, y # ys))"
| "drop_common xs ys = (xs, ys)"

text \<open>\<open>filepath.Rel\<close> on Unix.\<close>

definition filepath_rel :: "string \<Rightarrow> string \<Rightarrow> string option" where
  "filepath_rel basepath targpath =
     (let base = filepath_clean basepath; targ = filepath_clean targpath
      in if base = targ then Some ''.''
         else if is_abs base \<noteq> is_abs targ then None
         else (case drop_common (path_comps base) (if targ = ''.'' then [''.''] else path_comps targ) of (bs, ts) \<Rightarrow>
                 if bs \<noteq> [] \<and> hd bs = ''..'' then None
                 else Some (intercalate (CHR ''/'') (replicate (length bs) ''..'' @ ts))))"

definition managedArtifactPathForRecord :: "tfs \<Rightarrow> string \<Rightarrow> string \<Rightarrow> artifact_kind \<Rightarrow> string" where
  "managedArtifactPathForRecord fs targetsDir absolutePath kind =
     (case ResolveManagedTargetArtifact (tf_eval fs) targetsDir absolutePath kind of Inl e \<Rightarrow> absolutePath
      | Inr resolved \<Rightarrow>
         (case filepath_rel (filepath_clean targetsDir) resolved of None \<Rightarrow> absolutePath
          | Some rel \<Rightarrow> if has_prefix rel ''..'' then absolutePath else rel))"

section \<open>The wizard\<close>

definition blank_readiness :: readiness_rec where
  "blank_readiness = \<lparr>rr_RESTReady = False, rr_RESTReason = '''', rr_RESTSecurityState = '''', rr_SSHReady = False, rr_SSHReason = '''',
     rr_SSHProbeStage = '''', rr_LastSSHProbeAt = '''', rr_LastSuccessfulSSHProbeAt = ''''\<rparr>"

definition blank_record :: target_record where
  "blank_record = \<lparr>tr_TargetID = '''', tr_Address = '''', tr_RESTPort = 0, tr_SSHPort = 0, tr_REST = None, tr_SSH = None,
     tr_LastWizard = '''', tr_Readiness = blank_readiness\<rparr>"

definition existing_record :: "targets_doc \<Rightarrow> string \<Rightarrow> target_record option" where
  "existing_record doc profile = (case map_of (td_Targets doc) profile of Some (Some r) \<Rightarrow> Some r | _ \<Rightarrow> None)"

definition mapping_changed :: "string \<Rightarrow> target_record option \<Rightarrow> string \<Rightarrow> bool" where
  "mapping_changed profile existing tid =
     (case existing of None \<Rightarrow> False
      | Some r \<Rightarrow> (case EffectiveTargetID profile (Some r) of Inl e \<Rightarrow> False | Inr prev \<Rightarrow> prev \<noteq> '''' \<and> prev \<noteq> tid))"

text \<open>The values of the old record the regression probe compares with.\<close>

record prev_state =
  pv_hasSSH :: bool
  pv_wasSSHReady :: bool
  pv_address :: string
  pv_sshPort :: int
  pv_sshUsername :: string
  pv_sshKeyPath :: string
  pv_sshFingerprint :: string

definition prev_of :: "target_record option \<Rightarrow> bool \<Rightarrow> prev_state" where
  "prev_of existing changed =
     (case existing of
        None \<Rightarrow> \<lparr>pv_hasSSH = False, pv_wasSSHReady = False, pv_address = '''', pv_sshPort = 0, pv_sshUsername = '''',
                 pv_sshKeyPath = '''', pv_sshFingerprint = ''''\<rparr>
      | Some r \<Rightarrow>
         (case tr_SSH r of
            None \<Rightarrow> \<lparr>pv_hasSSH = False, pv_wasSSHReady = rr_SSHReady (tr_Readiness r) \<and> \<not> changed, pv_address = tr_Address r,
              pv_sshPort = tr_SSHPort r, pv_sshUsername = '''', pv_sshKeyPath = '''', pv_sshFingerprint = ''''\<rparr>
          | Some ssh \<Rightarrow> \<lparr>pv_hasSSH = \<not> changed, pv_wasSSHReady = rr_SSHReady (tr_Readiness r) \<and> \<not> changed, pv_address = tr_Address r,
              pv_sshPort = tr_SSHPort r, pv_sshUsername = se_Username ssh, pv_sshKeyPath = se_KeyPath ssh,
              pv_sshFingerprint = se_KeyFingerprintSHA256 ssh\<rparr>))"

definition start_record :: "target_record option \<Rightarrow> string \<Rightarrow> bool \<Rightarrow> target_record" where
  "start_record existing tid changed =
     (let rec = (case existing of None \<Rightarrow> blank_record | Some r \<Rightarrow> r)\<lparr>tr_TargetID := tid\<rparr>
      in if changed then rec\<lparr>tr_Readiness := blank_readiness\<lparr>rr_SSHReason := ''setup_pending'', rr_SSHProbeStage := ''not_run''\<rparr>\<rparr>
         else rec)"

text \<open>The new REST entry. \<open>rec\<close> and \<open>existing\<close> are one object when the profile exists, so the test for
  an old CA file reads the entry that has just been assigned.\<close>

definition assemble_rest :: "tfs \<Rightarrow> string \<Rightarrow> string \<Rightarrow> string \<Rightarrow> target_record option \<Rightarrow> rest_entry" where
  "assemble_rest fs configDir restUser restPasswordFile existing =
     (let entry = \<lparr>re_TransportMode = TransportHTTPSVerified, re_Username = restUser,
            re_PasswordFile = managedArtifactPathForRecord fs configDir restPasswordFile ArtifactRESTSecret, re_CAFile = ''''\<rparr>;
          existing_REST = (case existing of None \<Rightarrow> None | Some r \<Rightarrow> Some entry)
      in case existing_REST of None \<Rightarrow> entry
         | Some old \<Rightarrow> if re_CAFile old \<noteq> ''''
             then entry\<lparr>re_CAFile := managedArtifactPathForRecord fs configDir (re_CAFile old) ArtifactTLSMaterial\<rparr> else entry)"

definition assemble_ssh :: "tfs \<Rightarrow> string \<Rightarrow> string \<Rightarrow> key_metadata \<Rightarrow> string \<Rightarrow> ssh_entry" where
  "assemble_ssh fs configDir sshUser meta knownHostsPath =
     \<lparr>se_Username = sshUser, se_KeyPath = managedArtifactPathForRecord fs configDir (km_KeyPath meta) ArtifactSSHPrivateKey,
      se_PublicKeyPath = managedArtifactPathForRecord fs configDir (km_PublicKeyPath meta) ArtifactSSHPublicKey,
      se_KnownHostsPath = managedArtifactPathForRecord fs configDir knownHostsPath ArtifactKnownHosts,
      se_KeyAlgorithm = km_Algorithm meta, se_KeyBits = km_Bits meta, se_KeyOrigin = km_Origin meta,
      se_KeyFingerprintSHA256 = km_FingerprintSHA256 meta\<rparr>"

definition canRegressionProbe :: "enroll_error option \<Rightarrow> bool \<Rightarrow> prev_state \<Rightarrow> target_record \<Rightarrow> ssh_entry \<Rightarrow> bool" where
  "canRegressionProbe hkErr hostKeyRefreshed prev rec ssh =
     (let keyReused = pv_hasSSH prev \<and> se_KeyFingerprintSHA256 ssh \<noteq> '''' \<and>
            se_KeyFingerprintSHA256 ssh = pv_sshFingerprint prev \<and> se_KeyPath ssh = pv_sshKeyPath prev;
          identityUnchanged = (pv_hasSSH prev \<and> se_Username ssh = pv_sshUsername prev \<and> tr_Address rec = pv_address prev \<and>
            tr_SSHPort rec = pv_sshPort prev)
      in hkErr = None \<and> \<not> hostKeyRefreshed \<and> pv_hasSSH prev \<and> pv_wasSSHReady prev \<and> keyReused \<and> identityUnchanged)"

definition ssh_readiness ::
  "wizard_env \<Rightarrow> wizard_world \<Rightarrow> string \<Rightarrow> bool \<Rightarrow> target_record \<Rightarrow> ssh_entry \<Rightarrow> readiness_rec \<Rightarrow> readiness_rec" where
  "ssh_readiness env w configDir probe_it rec ssh rd =
     (if probe_it then
        (case probeSSH (wn_tk env) (wn_dial env) (ww_fs w) configDir rec ssh of (r, reason) \<Rightarrow>
           (let nowStr = tk_format (wn_tk env) (wn_now_probe env)
            in rd\<lparr>rr_LastSSHProbeAt := nowStr,
                  rr_LastSuccessfulSSHProbeAt := (if r then nowStr else rr_LastSuccessfulSSHProbeAt rd),
                  rr_SSHReady := r, rr_SSHReason := (if r then '''' else reason),
                  rr_SSHProbeStage := (if r then ''command_succeeded'' else ''auth_succeeded'')\<rparr>))
      else rd\<lparr>rr_SSHReady := False, rr_SSHReason := ''setup_pending'', rr_SSHProbeStage := ''not_run''\<rparr>)"

text \<open>Steps 2 to 7: usernames, password, key, host key, record and probes.\<close>

definition configure_record ::
  "wizard_env \<Rightarrow> string \<Rightarrow> string \<Rightarrow> key_choice \<Rightarrow> target_record option \<Rightarrow> bool \<Rightarrow> target_record \<Rightarrow> wizard_world
   \<Rightarrow> (wizard_error + target_record) \<times> wizard_world" where
  "configure_record env configDir profile kc existing changed rec w =
     (let (restUser, s1) = prompt (firstNonEmpty (existingUser_rest rec) ''filterrex_ro'') (ww_in w);
          (sshUser, s2) = prompt (firstNonEmpty (existingUser_ssh rec) restUser) s1
      in case configureRESTPassword env configDir profile (w\<lparr>ww_in := s2\<rparr>) of
           (Inl e, w1) \<Rightarrow> (Inl e, w1)
         | (Inr (restPasswordFile, restSecState), w1) \<Rightarrow>
        (case configureSSHKey env configDir profile rec kc w1 of
           (Inl e, w2) \<Rightarrow> (Inl e, w2)
         | (Inr meta, w2) \<Rightarrow>
        (case enrollHostKey env configDir (tr_Address rec) (tr_SSHPort rec) w2 of
           ((knownHostsPath, refreshed, hkErr), w3) \<Rightarrow>
             (let rest = assemble_rest (ww_fs w3) configDir restUser restPasswordFile existing;
                  ssh = assemble_ssh (ww_fs w3) configDir sshUser meta knownHostsPath;
                  rec1 = rec\<lparr>tr_REST := Some rest, tr_SSH := Some ssh\<rparr>;
                  (restReady, restReason) = probeREST env configDir rec1 rest w3;
                  rd = (tr_Readiness rec1)\<lparr>rr_RESTReady := restReady, rr_RESTReason := restReason, rr_RESTSecurityState := restSecState\<rparr>;
                  rd1 = ssh_readiness env w3 configDir (canRegressionProbe hkErr refreshed (prev_of existing changed) rec1 ssh) rec1 ssh rd
              in (Inr (rec1\<lparr>tr_Readiness := rd1, tr_LastWizard := tk_format (wn_tk env) (wn_now_save env)\<rparr>), w3)))))"

definition saved_doc :: "targets_doc \<Rightarrow> string \<Rightarrow> target_record \<Rightarrow> targets_doc" where
  "saved_doc doc profile rec = \<lparr>td_Version = (if td_Version doc = 0 then 1 else td_Version doc),
     td_Targets = AList.update profile (Some rec) (td_Targets doc)\<rparr>"

definition save_record :: "wizard_env \<Rightarrow> nat \<Rightarrow> string \<Rightarrow> targets_doc \<Rightarrow> string \<Rightarrow> target_record \<Rightarrow> wizard_world \<Rightarrow> bool \<times> wizard_world" where
  "save_record env k configDir doc profile rec w =
     (let path = filepath_join [configDir, targetsFile];
          doc' = saved_doc doc profile rec
      in case writeTargets (wn_tk env) (wn_write env k path) configDir doc' (ww_fs w) of
           (ok, fs) \<Rightarrow> (ok, w\<lparr>ww_fs := fs, ww_meta :=
             (if tk_marshalTargets (wn_tk env) doc' = None then ww_meta w else mode_after env k path 384 (ww_meta w))\<rparr>))"

text \<open>The menu asks until the operator chooses the test or the end; an empty answer ends it.\<close>

definition menu_answer :: "string \<Rightarrow> string \<times> string" where
  "menu_answer s = (case prompt ''3'' s of (choice, s') \<Rightarrow> (trim_space choice, s'))"

lemma fscanln_consumes:
  assumes "fscanln s = (tok, ok, s')"
  shows "length s' \<le> length s" and "s \<noteq> [] \<Longrightarrow> length s' < length s" and "s = [] \<Longrightarrow> tok = ''''"
proof -
  let ?a = "dropWhile is_blank s"
  have a: "length ?a \<le> length s" by (rule length_dropWhile_le)
  have b: "length (dropWhile is_blank (dropWhile (\<lambda>d. \<not> is_space d) ?a)) \<le> length ?a"
    by (rule le_trans [OF length_dropWhile_le length_dropWhile_le])
  show "length s' \<le> length s" "s \<noteq> [] \<Longrightarrow> length s' < length s"
    using assms a b by (auto simp: fscanln_def Let_def split: list.splits if_splits)
  show "s = [] \<Longrightarrow> tok = ''''" using assms by (simp add: fscanln_def)
qed

lemma prompt_consumes:
  assumes "prompt def s = (v, s')"
  shows "length s' \<le> length s" and "v \<noteq> def \<Longrightarrow> length s' < length s" and "s \<noteq> [] \<Longrightarrow> length s' < length s"
    and "s = [] \<Longrightarrow> v = def \<and> s' = []"
proof -
  obtain tok ok r where f: "fscanln s = (tok, ok, r)" by (metis prod_cases3)
  note c = fscanln_consumes [OF f]
  have t: "trim_space '''' = ''''" by (simp add: trim_space_def)
  have p: "s' = r" "v = (let line = trim_space (if ok then tok else '''') in if line = '''' then def else line)"
    using assms by (auto simp: prompt_def f Let_def)
  show "length s' \<le> length s" "s \<noteq> [] \<Longrightarrow> length s' < length s" using c p(1) by auto
  show "s = [] \<Longrightarrow> v = def \<and> s' = []" using c t p by (auto simp: Let_def)
  then show "v \<noteq> def \<Longrightarrow> length s' < length s" using c p(1) by auto
qed

function menu_choice :: "string \<Rightarrow> bool \<times> string" where
  "menu_choice s =
     (case menu_answer s of (choice, s') \<Rightarrow>
        if choice = ''1'' then (True, s')
        else if choice = '''' \<or> choice = ''3'' then (False, s')
        else menu_choice s')"
  by pat_completeness auto
termination
proof (relation "measure length")
  fix s choice s'
  assume "(choice, s') = menu_answer s" "\<not> (choice = '''' \<or> choice = ''3'')"
  moreover have "trim_space ''3'' = ''3''" by code_simp
  ultimately obtain v where "prompt ''3'' s = (v, s')" "v \<noteq> ''3''"
    by (cases "prompt ''3'' s") (auto simp: menu_answer_def)
  then show "(s', s) \<in> measure length" using prompt_consumes(2) by simp
qed simp

declare menu_choice.simps [simp del]

definition postConfigureMenu ::
  "wizard_env \<Rightarrow> string \<Rightarrow> targets_doc \<Rightarrow> string \<Rightarrow> target_record \<Rightarrow> wizard_world \<Rightarrow> (bool \<times> target_record) \<times> wizard_world" where
  "postConfigureMenu env configDir doc profile rec w =
     (case menu_choice (ww_in w) of (test, s') \<Rightarrow>
        (let w1 = w\<lparr>ww_in := s'\<rparr>
         in case (if test then tr_SSH rec else None) of None \<Rightarrow> ((False, rec), w1)
            | Some ssh \<Rightarrow>
               (case probeSSH (wn_tk env) (wn_dial env) (ww_fs w1) configDir rec ssh of (ready, reason) \<Rightarrow>
                  (let rec1 = rec\<lparr>tr_Readiness := probed_readiness ready reason
                         (if ready then ''command_succeeded'' else mapProbeStage reason)
                         (tk_format (wn_tk env) (wn_now_menu env)) (tr_Readiness rec)\<rparr>
                   in ((True, rec1), snd (save_record env 1 configDir doc profile rec1 w1))))))"

text \<open>The outcome of a run: the error, if any, whether the missing identity was warned about, whether the
  menu's test was chosen, and the record and files at the end.\<close>

record wizard_outcome =
  wo_err :: "wizard_error option"
  wo_warned :: bool
  wo_tested :: bool
  wo_rec :: "target_record option"
  wo_world :: wizard_world

definition failed :: "bool \<Rightarrow> wizard_error \<Rightarrow> wizard_world \<Rightarrow> wizard_outcome" where
  "failed warned e w = \<lparr>wo_err = Some e, wo_warned = warned, wo_tested = False, wo_rec = None, wo_world = w\<rparr>"

text \<open>Everything after the address and the ports.\<close>

definition finish_run ::
  "wizard_env \<Rightarrow> string \<Rightarrow> string \<Rightarrow> key_choice \<Rightarrow> bool \<Rightarrow> targets_doc \<Rightarrow> bool \<Rightarrow> target_record \<Rightarrow> wizard_world \<Rightarrow> wizard_outcome" where
  "finish_run env configDir profile kc warned doc changed rec w =
     (case configure_record env configDir profile kc (existing_record doc profile) changed rec w of
        (Inl e, w1) \<Rightarrow> failed warned e w1
      | (Inr rec1, w1) \<Rightarrow>
         (case save_record env 0 configDir doc profile rec1 w1 of (ok, w2) \<Rightarrow>
            if \<not> ok then failed warned (WriteError (filepath_join [configDir, targetsFile])) w2
            else if rr_SSHReady (tr_Readiness rec1)
            then \<lparr>wo_err = None, wo_warned = warned, wo_tested = False, wo_rec = Some rec1, wo_world = w2\<rparr>
            else (case postConfigureMenu env configDir doc profile rec1 w2 of ((tested, rec2), w3) \<Rightarrow>
                    \<lparr>wo_err = None, wo_warned = warned, wo_tested = tested, wo_rec = Some rec2, wo_world = w3\<rparr>)))"

definition wizard_run ::
  "wizard_env \<Rightarrow> string \<Rightarrow> string \<Rightarrow> string \<Rightarrow> string \<Rightarrow> key_choice \<Rightarrow> wizard_world \<Rightarrow> wizard_outcome option" where
  "wizard_run env configDir stateDir profile tid kc w0 =
     (case ensureDirs env configDir w0 of (Some e, w) \<Rightarrow> Some (failed False e w)
      | (None, w) \<Rightarrow>
         (let warned = (\<not> verifyConnectorIdentity (ww_fs w) stateDir)
          in case loadTargets (wn_tk env) (ww_fs w) configDir of Inl e \<Rightarrow> Some (failed warned (LoadError e) w)
             | Inr doc \<Rightarrow>
                (let existing = existing_record doc profile;
                     changed = mapping_changed profile existing tid;
                     (go, s1) = (if changed then confirmYesNo False (ww_in w) else (True, ww_in w));
                     rec = start_record existing tid changed
                 in if \<not> go then Some (failed warned RemapNotConfirmed (w\<lparr>ww_in := s1\<rparr>))
                    else (case promptAddressAndPorts env rec s1 of None \<Rightarrow> None
                          | Some ((addr, restPort, sshPort), s2) \<Rightarrow>
                              Some (finish_run env configDir profile kc warned doc changed
                                (rec\<lparr>tr_Address := addr, tr_RESTPort := restPort, tr_SSHPort := sshPort\<rparr>) (w\<lparr>ww_in := s2\<rparr>))))))"

text \<open>The command: exit code 2 for bad arguments, 1 for an error, 0 otherwise.\<close>

definition Run ::
  "wizard_env \<Rightarrow> bool \<Rightarrow> string \<Rightarrow> string \<Rightarrow> string \<Rightarrow> string \<Rightarrow> string \<Rightarrow> string \<Rightarrow> wizard_world \<Rightarrow> (nat \<times> wizard_world) option" where
  "Run env nonInteractive configDir stateDir profile targetID keyAlgo importExisting w =
     (case Run_args nonInteractive configDir profile targetID keyAlgo importExisting of Inl code \<Rightarrow> Some (code, w)
      | Inr (tid, kc) \<Rightarrow>
         (case wizard_run env configDir stateDir profile tid kc w of None \<Rightarrow> None
          | Some out \<Rightarrow> Some (if wo_err out \<noteq> None then 1 else 0, wo_world out)))"

section \<open>Status lines and doctor\<close>

definition stateLine :: "bool \<Rightarrow> string \<Rightarrow> string" where
  "stateLine ready reason =
     (if ready then ''Ready'' else ''Setup required: '' @ (if reason = '''' then ''setup_required'' else reason))"

definition describeKey :: "ssh_entry option \<Rightarrow> string" where
  "describeKey s =
     (case s of None \<Rightarrow> ''unknown''
      | Some e \<Rightarrow> if se_KeyAlgorithm e = '''' then ''unknown''
         else if se_KeyBits e > 0 then to_upper (se_KeyAlgorithm e) @ '' '' @ show_int (se_KeyBits e)
         else to_upper (se_KeyAlgorithm e))"

definition printStatusBlock :: "target_record \<Rightarrow> (string \<times> string) list" where
  "printStatusBlock rec =
     [(''Live Workbench queries'', stateLine (rr_RESTReady (tr_Readiness rec)) (rr_RESTReason (tr_Readiness rec))),
      (''SSH evidence collection'', stateLine (rr_SSHReady (tr_Readiness rec)) (rr_SSHReason (tr_Readiness rec)))] @
     (case tr_SSH rec of None \<Rightarrow> []
      | Some ssh \<Rightarrow> [(''Key'', describeKey (Some ssh) @ '' '' @ [CHR 0xC2, CHR 0xB7] @ '' '' @ se_KeyOrigin ssh),
                     (''Key fingerprint'', se_KeyFingerprintSHA256 ssh)])"

definition boolWord :: "bool \<Rightarrow> string" where
  "boolWord v = (if v then ''yes'' else ''no'')"

text \<open>The doctor: its exit code and the labelled lines it prints. \<open>env_dir\<close> and \<open>env_state\<close> are the two
  environment variables.\<close>

definition doctor_lines :: "config_resolution \<Rightarrow> target_inventory \<Rightarrow> string \<Rightarrow> bool \<times> bool \<Rightarrow> (string \<times> string) list" where
  "doctor_lines res t tid runtime =
     (let inv = cr_Inventory res
      in [(''Target config source'', cr_Source res),
          (''Target config directory present'', boolWord (ci_DirectoryPresent inv)),
          (''Target config directory readable'', boolWord (ci_DirectoryReadable inv)),
          (''targets.json present'', boolWord (ci_FilePresent inv)),
          (''targets.json readable'', boolWord (ci_FileReadable inv)),
          (''targets.json parsed'', boolWord (ci_ParseSuccessful inv)),
          (''records loaded'', show_nat (ci_RecordsLoaded inv)),
          (''target UUID'', tid),
          (''target record matches'', show_nat (ti_TargetMatchCount t)),
          (''target profile found'', boolWord (ti_TargetProfileFound t)),
          (''SSH username present'', boolWord (ti_SSHUsernamePresent t)),
          (''private key present'', boolWord (ti_PrivateKeyPresent t)),
          (''private key readable'', boolWord (ti_PrivateKeyReadable t)),
          (''public key present'', boolWord (ti_PublicKeyPresent t)),
          (''public key readable'', boolWord (ti_PublicKeyReadable t)),
          (''known_hosts present'', boolWord (ti_KnownHostsPresent t)),
          (''known_hosts readable'', boolWord (ti_KnownHostsReadable t)),
          (''known_hosts entry found'', boolWord (ti_KnownHostsEntryFound t)),
          (''runtime readiness present'', boolWord (fst runtime)),
          (''runtime readiness readable'', boolWord (snd runtime)),
          (''status'', ti_ResolvedStatus t)] @
         (if cr_Warning res \<noteq> '''' then [(''warning'', cr_Warning res)] else []))"

definition RunDoctor ::
  "target_codec \<Rightarrow> tfs \<Rightarrow> string \<Rightarrow> string \<Rightarrow> string \<Rightarrow> string \<Rightarrow> string \<Rightarrow> nat \<times> (string \<times> string) list" where
  "RunDoctor tk fs env_dir env_state configDir targetsDir targetID =
     (if trim_space targetID = '''' then (2, [])
      else let canonicalTargetID = canonicalUUID targetID
      in if canonicalTargetID = '''' then (2, [])
         else
           (let res = ResolveTargetConfigStore tk fs (if trim_space targetsDir \<noteq> '''' then targetsDir else env_dir) configDir;
                t = InspectTargetConfigForTarget tk fs (ci_Dir (cr_Inventory res)) canonicalTargetID;
                runtimeDir = (if trim_space env_state = '''' then filepath_join [configDir, ''state''] else trim_space env_state);
                runtime = filePresence fs (filepath_join [runtimeDir, runtimeReadinessFile])
            in (if ti_ResolvedStatus t \<noteq> TargetConfigOK then 1 else 0, doctor_lines res t canonicalTargetID runtime)))"

section \<open>Repeated questions\<close>

lemma valid_port_default: "0 < n \<Longrightarrow> n < 65536 \<Longrightarrow> valid_port (show_int n) = Some n"
  using atoi_show_int [of n] by (simp add: valid_port_def max_duration_def)

lemma promptPort_returns:
  assumes "0 < def" and "def < 65536"
  shows "\<exists>n s'. promptPort def s = Some (n, s') \<and> 0 < n \<and> n < 65536"
proof (induction s rule: length_induct)
  case (1 s)
  obtain v s' where p: "prompt (show_int def) s = (v, s')" by (metis surj_pair)
  show ?case
  proof (cases "valid_port v")
    case None
    then have "v \<noteq> show_int def" using valid_port_default [OF assms] by auto
    then have "length s' < length s" by (rule prompt_consumes(2) [OF p])
    then show ?thesis using 1 None by (subst promptPort.simps) (simp add: p)
  next
    case (Some n)
    then have "0 < n \<and> n < 65536" by (auto simp: valid_port_def split: option.splits if_splits)
    then show ?thesis using Some by (subst promptPort.simps) (simp add: p)
  qed
qed

lemma promptAddress_returns:
  assumes "validateHost env def = None"
  shows "\<exists>a s'. promptAddress env def s = Some (a, s') \<and> validateHost env a = None"
proof (induction s rule: length_induct)
  case (1 s)
  obtain a s' where p: "prompt def s = (a, s')" by (metis surj_pair)
  show ?case
  proof (cases "validateHost env a")
    case None
    then show ?thesis by (subst promptAddress.simps) (simp add: p)
  next
    case (Some e)
    then have "length s' < length s" using assms by (intro prompt_consumes(2) [OF p]) auto
    then show ?thesis using 1 Some by (subst promptAddress.simps) (simp add: p)
  qed
qed

lemma promptAddress_result: "promptAddress env def s = Some (a, s') \<Longrightarrow> validateHost env a = None"
proof -
  have "validateHost env (fst r) = None" if "promptAddress env def s = Some r" for r
    by (rule promptAddress.raw_induct [where P = "\<lambda>env d s r. validateHost env (fst r) = None", OF _ that])
      (auto split: prod.splits if_splits)
  then show "promptAddress env def s = Some (a, s') \<Longrightarrow> validateHost env a = None" by fastforce
qed

lemma promptPort_result: "promptPort def s = Some (n, s') \<Longrightarrow> 0 < n \<and> n < 65536"
proof -
  have "0 < fst r \<and> fst r < 65536" if "promptPort def s = Some r" for r
    by (rule promptPort.raw_induct [where P = "\<lambda>d s r. 0 < fst r \<and> fst r < 65536", OF _ that])
      (auto simp: valid_port_def split: prod.splits option.splits if_splits)
  then show "promptPort def s = Some (n, s') \<Longrightarrow> 0 < n \<and> n < 65536" by fastforce
qed

text \<open>At the end of the input every answer is the default, so a default that is refused is asked for
  without end.\<close>

lemma promptAddress_at_eof:
  assumes "validateHost env def \<noteq> None"
  shows "promptAddress env def [] = None"
proof -
  have "\<not> (s = [] \<and> validateHost env d \<noteq> None)" if "promptAddress env d s = Some r" for d s r
  proof (rule promptAddress.raw_induct [where P = "\<lambda>env d s r. \<not> (s = [] \<and> validateHost env d \<noteq> None)", OF _ that])
    fix f env d s r
    assume ih: "\<And>env d s r. f env d s = Some r \<Longrightarrow> \<not> (s = [] \<and> validateHost env d \<noteq> None)"
      and e: "(case prompt d s of (addr, s') \<Rightarrow> if validateHost env addr \<noteq> None then f env d s' else Some (addr, s')) = Some r"
    obtain v s' where p: "prompt d s = (v, s')" by (metis surj_pair)
    then show "\<not> (s = [] \<and> validateHost env d \<noteq> None)" using e ih prompt_consumes(4) [OF p] by (auto split: if_splits)
  qed
  then show ?thesis using assms by (metis option.exhaust)
qed

definition port_ok :: "int \<Rightarrow> bool" where
  "port_ok p = (0 \<le> p \<and> p < 65536)"

lemma promptAddressAndPorts_returns:
  assumes "validateHost env (tr_Address rec) = None" "port_ok (tr_RESTPort rec)" "port_ok (tr_SSHPort rec)"
  shows "promptAddressAndPorts env rec s \<noteq> None"
proof -
  have r: "0 < firstNonZero (tr_RESTPort rec) 443" "firstNonZero (tr_RESTPort rec) 443 < 65536"
    and t: "0 < firstNonZero (tr_SSHPort rec) 22" "firstNonZero (tr_SSHPort rec) 22 < 65536"
    using assms(2,3) by (auto simp: firstNonZero_def port_ok_def)
  obtain a s1 where 1: "promptAddress env (tr_Address rec) s = Some (a, s1)" using promptAddress_returns [OF assms(1)] by blast
  obtain n s2 where 2: "promptPort (firstNonZero (tr_RESTPort rec) 443) s1 = Some (n, s2)" using promptPort_returns [OF r] by blast
  obtain m s3 where 3: "promptPort (firstNonZero (tr_SSHPort rec) 22) s2 = Some (m, s3)" using promptPort_returns [OF t] by blast
  show ?thesis by (simp add: promptAddressAndPorts_def 1 2 3)
qed

section \<open>What a run leaves behind\<close>

lemma probeSSH_frame:
  assumes "tr_Address r = tr_Address q" "tr_SSHPort r = tr_SSHPort q"
  shows "probeSSH tk dial fs d r ssh = probeSSH tk dial fs d q ssh"
  unfolding probeSSH_def assms by (rule refl)

lemma ssh_readiness_ready:
  assumes "rr_SSHReady (ssh_readiness env w d b rec ssh rd)"
  shows "b" and "fst (probeSSH (wn_tk env) (wn_dial env) (ww_fs w) d rec ssh)"
  using assms by (auto simp: ssh_readiness_def Let_def split: if_splits prod.splits)

lemma assemble_rest_no_ca: "re_CAFile (assemble_rest fs d u p existing) = ''''"
  by (simp add: assemble_rest_def Let_def split: option.splits)

lemma probeSSH_reason: "fst (probeSSH tk dial fs d rec ssh) \<Longrightarrow> probeSSH tk dial fs d rec ssh = (True, '''')"
  by (auto simp: probeSSH_def split: sum.splits read_result.splits option.splits dial_result.splits if_splits)

text \<open>The conditions under which a stored success is tested again by the wizard itself.\<close>

definition same_identity :: "target_record \<Rightarrow> target_record \<Rightarrow> ssh_entry \<Rightarrow> bool" where
  "same_identity old rec ssh =
     (rr_SSHReady (tr_Readiness old) \<and> tr_Address rec = tr_Address old \<and> tr_SSHPort rec = tr_SSHPort old \<and>
      (case tr_SSH old of None \<Rightarrow> False
       | Some o' \<Rightarrow> se_Username ssh = se_Username o' \<and> se_KeyPath ssh = se_KeyPath o' \<and>
           se_KeyFingerprintSHA256 ssh = se_KeyFingerprintSHA256 o' \<and> se_KeyFingerprintSHA256 ssh \<noteq> ''''))"

lemma canRegressionProbe_same:
  assumes "canRegressionProbe hkErr refreshed (prev_of existing changed) rec ssh"
  shows "\<exists>old. existing = Some old \<and> \<not> changed \<and> same_identity old rec ssh \<and> \<not> refreshed \<and> hkErr = None"
  using assms
  by (auto simp: canRegressionProbe_def prev_of_def same_identity_def Let_def split: option.splits)

lemma configure_record_facts:
  assumes "configure_record env d profile kc existing changed rec w = (Inr rec1, w1)"
  obtains rest ssh where "tr_REST rec1 = Some rest" "re_CAFile rest = ''''" "re_TransportMode rest = TransportHTTPSVerified"
    "tr_SSH rec1 = Some ssh" "tr_TargetID rec1 = tr_TargetID rec" "tr_Address rec1 = tr_Address rec" "tr_SSHPort rec1 = tr_SSHPort rec"
    "rr_SSHReady (tr_Readiness rec1) \<longrightarrow> probeSSH (wn_tk env) (wn_dial env) (ww_fs w1) d rec1 ssh = (True, '''') \<and>
       (\<exists>old. existing = Some old \<and> \<not> changed \<and> same_identity old rec1 ssh)"
proof -
  obtain meta kh refreshed hkErr u p sshUser rd where
    e: "rec1 = rec\<lparr>tr_REST := Some (assemble_rest (ww_fs w1) d u p existing),
          tr_SSH := Some (assemble_ssh (ww_fs w1) d sshUser meta kh),
          tr_Readiness := ssh_readiness env w1 d
            (canRegressionProbe hkErr refreshed (prev_of existing changed)
               (rec\<lparr>tr_REST := Some (assemble_rest (ww_fs w1) d u p existing), tr_SSH := Some (assemble_ssh (ww_fs w1) d sshUser meta kh)\<rparr>)
               (assemble_ssh (ww_fs w1) d sshUser meta kh))
            (rec\<lparr>tr_REST := Some (assemble_rest (ww_fs w1) d u p existing), tr_SSH := Some (assemble_ssh (ww_fs w1) d sshUser meta kh)\<rparr>)
            (assemble_ssh (ww_fs w1) d sshUser meta kh) rd,
          tr_LastWizard := tk_format (wn_tk env) (wn_now_save env)\<rparr>"
    using assms unfolding configure_record_def Let_def by (auto split: prod.splits sum.splits)
  let ?rest = "assemble_rest (ww_fs w1) d u p existing" and ?ssh = "assemble_ssh (ww_fs w1) d sshUser meta kh"
  let ?mid = "rec\<lparr>tr_REST := Some ?rest, tr_SSH := Some ?ssh\<rparr>"
  have f: "probeSSH (wn_tk env) (wn_dial env) (ww_fs w1) d rec1 ?ssh = probeSSH (wn_tk env) (wn_dial env) (ww_fs w1) d ?mid ?ssh"
    by (rule probeSSH_frame) (simp_all add: e)
  have "probeSSH (wn_tk env) (wn_dial env) (ww_fs w1) d rec1 ?ssh = (True, '''') \<and>
      (\<exists>old. existing = Some old \<and> \<not> changed \<and> same_identity old rec1 ?ssh)" if r: "rr_SSHReady (tr_Readiness rec1)"
  proof -
    from r have r': "rr_SSHReady (ssh_readiness env w1 d (canRegressionProbe hkErr refreshed (prev_of existing changed) ?mid ?ssh) ?mid ?ssh rd)"
      by (simp add: e)
    note s = ssh_readiness_ready [OF r']
    have "probeSSH (wn_tk env) (wn_dial env) (ww_fs w1) d rec1 ?ssh = (True, '''')" using probeSSH_reason [OF s(2)] f by simp
    moreover have "same_identity old rec1 ?ssh = same_identity old ?mid ?ssh" for old by (simp add: same_identity_def e)
    ultimately show ?thesis using canRegressionProbe_same [OF s(1)] by auto
  qed
  then show thesis
    by (intro that [of ?rest ?ssh]) (simp_all add: e assemble_rest_no_ca assemble_rest_def Let_def split: option.splits)
qed

lemma save_record_facts:
  assumes "save_record env k d doc profile rec w = (ok, w')"
  shows "tf_eval (ww_fs w') = tf_eval (ww_fs w)"
    "p \<noteq> filepath_join [d, targetsFile] \<Longrightarrow> read_path (ww_fs w') p = read_path (ww_fs w) p"
    "ok \<Longrightarrow> \<exists>buf. tk_marshalTargets (wn_tk env) (saved_doc doc profile rec) = Some buf \<and>
       read_path (ww_fs w') (filepath_join [d, targetsFile]) = Content (with_newline buf)"
    "\<exists>buf. tk_marshalTargets (wn_tk env) (saved_doc doc profile rec) = Some buf \<and>
       read_path (ww_fs w') (filepath_join [d, targetsFile]) = Content (with_newline buf) \<or>
     (wn_write env k (filepath_join [d, targetsFile]) \<noteq> WriteOk \<or> tk_marshalTargets (wn_tk env) (saved_doc doc profile rec) = None) \<and>
     ww_fs w' = ww_fs w"
  using assms
  by (auto simp: save_record_def writeTargets_def atomicWriteFile_def read_path_def Let_def
      split: option.splits prod.splits write_outcome.splits)

lemma menu_facts:
  assumes "postConfigureMenu env d doc profile rec w = ((tested, rec2), w')"
  shows "tested \<or> rec2 = rec \<and> ww_fs w' = ww_fs w" "tr_REST rec2 = tr_REST rec" "tr_SSH rec2 = tr_SSH rec"
    "tr_TargetID rec2 = tr_TargetID rec" "tr_Address rec2 = tr_Address rec" "tr_SSHPort rec2 = tr_SSHPort rec"
    "tf_eval (ww_fs w') = tf_eval (ww_fs w)"
    "p \<noteq> filepath_join [d, targetsFile] \<Longrightarrow> read_path (ww_fs w') p = read_path (ww_fs w) p"
    "tested \<Longrightarrow> \<exists>ssh s'. tr_SSH rec = Some ssh \<and>
       rr_SSHReady (tr_Readiness rec2) = fst (probeSSH (wn_tk env) (wn_dial env) (ww_fs w) d rec ssh) \<and>
       w' = snd (save_record env 1 d doc profile rec2 (w\<lparr>ww_in := s'\<rparr>))"
proof -
  obtain test s' where m: "menu_choice (ww_in w) = (test, s')" by (metis surj_pair)
  let ?w = "w\<lparr>ww_in := s'\<rparr>"
  show "tested \<or> rec2 = rec \<and> ww_fs w' = ww_fs w" "tr_REST rec2 = tr_REST rec" "tr_SSH rec2 = tr_SSH rec"
    "tr_TargetID rec2 = tr_TargetID rec" "tr_Address rec2 = tr_Address rec" "tr_SSHPort rec2 = tr_SSHPort rec"
    "tested \<Longrightarrow> \<exists>ssh s'. tr_SSH rec = Some ssh \<and>
       rr_SSHReady (tr_Readiness rec2) = fst (probeSSH (wn_tk env) (wn_dial env) (ww_fs w) d rec ssh) \<and>
       w' = snd (save_record env 1 d doc profile rec2 (w\<lparr>ww_in := s'\<rparr>))"
    using assms by (auto simp: postConfigureMenu_def m Let_def probed_readiness_def split: option.splits prod.splits if_splits)
  obtain rec3 where "w' = ?w \<or> w' = snd (save_record env 1 d doc profile rec3 ?w)"
    using assms by (auto simp: postConfigureMenu_def m Let_def split: option.splits prod.splits if_splits)
  then show "tf_eval (ww_fs w') = tf_eval (ww_fs w)"
    "p \<noteq> filepath_join [d, targetsFile] \<Longrightarrow> read_path (ww_fs w') p = read_path (ww_fs w) p"
    using save_record_facts(1,2) [of env 1 d doc profile rec3 ?w "fst (save_record env 1 d doc profile rec3 ?w)" w'] by auto
qed

lemma ensureDirs_files: "ensureDirs env d w = (e, w') \<Longrightarrow> tf_files (ww_fs w') = tf_files (ww_fs w)"
proof -
  have "tf_files (snd (ensure_dirs m ds fs)) = tf_files fs" for m ds fs
    by (induction m ds fs rule: ensure_dirs.induct) (auto split: option.splits)
  then show "ensureDirs env d w = (e, w') \<Longrightarrow> tf_files (ww_fs w') = tf_files (ww_fs w)"
    by (auto simp: ensureDirs_def split: prod.splits) (metis snd_conv)
qed

lemma loadTargets_files: "tf_files fs = tf_files fs' \<Longrightarrow> loadTargets tk fs d = loadTargets tk fs' d"
  by (simp add: loadTargets_def read_path_def)

text \<open>Every run that ends with a record has passed through \<open>finish_run\<close>.\<close>

lemma wizard_run_cases:
  assumes "wizard_run env d stateDir profile tid kc w0 = Some out" and "wo_rec out = Some rec"
  obtains doc rec0 w b where "loadTargets (wn_tk env) (ww_fs w0) d = Inr doc" "tr_TargetID rec0 = tid"
    "finish_run env d profile kc b doc (mapping_changed profile (existing_record doc profile) tid) rec0 w = out"
proof -
  obtain e w where d: "ensureDirs env d w0 = (e, w)" by (metis surj_pair)
  note fs = ensureDirs_files [OF d]
  have "e = None" using assms d by (cases e) (auto simp: wizard_run_def failed_def)
  then obtain doc where doc: "loadTargets (wn_tk env) (ww_fs w) d = Inr doc"
    using assms d by (cases "loadTargets (wn_tk env) (ww_fs w) d") (auto simp: wizard_run_def failed_def)
  let ?ch = "mapping_changed profile (existing_record doc profile) tid"
  obtain go s1 where g: "(if ?ch then confirmYesNo False (ww_in w) else (True, ww_in w)) = (go, s1)" by (metis surj_pair)
  have go: "go" using assms d \<open>e = None\<close> doc g by (cases go) (auto simp: wizard_run_def failed_def Let_def)
  let ?r = "start_record (existing_record doc profile) tid ?ch"
  obtain a n m s2 where p: "promptAddressAndPorts env ?r s1 = Some ((a, n, m), s2)"
    using assms(1) d \<open>e = None\<close> doc g go by (auto simp: wizard_run_def Let_def split: option.splits)
  have out: "out = finish_run env d profile kc (\<not> verifyConnectorIdentity (ww_fs w) stateDir) doc ?ch
      (?r\<lparr>tr_Address := a, tr_RESTPort := n, tr_SSHPort := m\<rparr>) (w\<lparr>ww_in := s2\<rparr>)"
    using assms(1) d \<open>e = None\<close> doc g go p by (simp add: wizard_run_def Let_def)
  have "loadTargets (wn_tk env) (ww_fs w0) d = Inr doc" "tr_TargetID (?r\<lparr>tr_Address := a, tr_RESTPort := n, tr_SSHPort := m\<rparr>) = tid"
    using doc loadTargets_files [OF fs] by (simp_all add: start_record_def Let_def)
  then show thesis using out [symmetric] by (rule that)
qed

lemma finish_run_cases:
  assumes "finish_run env d profile kc b doc changed rec0 w = out" and "wo_rec out = Some rec"
  obtains rec1 w1 w2 where "configure_record env d profile kc (existing_record doc profile) changed rec0 w = (Inr rec1, w1)"
    "save_record env 0 d doc profile rec1 w1 = (True, w2)" "wo_err out = None"
    "rr_SSHReady (tr_Readiness rec1) \<and> rec = rec1 \<and> \<not> wo_tested out \<and> wo_world out = w2 \<or>
     \<not> rr_SSHReady (tr_Readiness rec1) \<and> postConfigureMenu env d doc profile rec1 w2 = ((wo_tested out, rec), wo_world out)"
  using assms unfolding finish_run_def failed_def
  by (auto split: prod.splits sum.splits if_splits)

text \<open>C31: The wizard never claims SSH readiness it has not seen. If the record a run of the wizard ends
  with says SSH is ready, then an SSH probe of exactly that record, over the files as they are at the end
  (targets.json itself aside), succeeded during the run; and unless the operator asked for the
  test in the menu, the profile was already ready before, still names the same application target, and address,
  port, username, key path and key fingerprint are unchanged.\<close>
theorem wizard_ready_only_if_proved:
  assumes "wizard_run env d stateDir profile tid kc w = Some out" and "wo_rec out = Some rec"
    and "rr_SSHReady (tr_Readiness rec)"
  shows "tr_TargetID rec = tid \<and>
    (\<exists>ssh fs. tr_SSH rec = Some ssh \<and> tf_eval fs = tf_eval (ww_fs (wo_world out)) \<and>
       (\<forall>p. p \<noteq> filepath_join [d, targetsFile] \<longrightarrow> read_path fs p = read_path (ww_fs (wo_world out)) p) \<and>
       probeSSH (wn_tk env) (wn_dial env) fs d rec ssh = (True, '''') \<and>
       (wo_tested out \<or>
        (\<exists>doc old. loadTargets (wn_tk env) (ww_fs w) d = Inr doc \<and> existing_record doc profile = Some old \<and>
           \<not> mapping_changed profile (Some old) tid \<and> same_identity old rec ssh)))"
proof -
  obtain doc rec0 w0 b where r: "loadTargets (wn_tk env) (ww_fs w) d = Inr doc" "tr_TargetID rec0 = tid"
    "finish_run env d profile kc b doc (mapping_changed profile (existing_record doc profile) tid) rec0 w0 = out"
    by (rule wizard_run_cases [OF assms(1,2)])
  let ?changed = "mapping_changed profile (existing_record doc profile) tid"
  obtain rec1 w1 w2 where f: "configure_record env d profile kc (existing_record doc profile) ?changed rec0 w0 = (Inr rec1, w1)"
    "save_record env 0 d doc profile rec1 w1 = (True, w2)"
    "rr_SSHReady (tr_Readiness rec1) \<and> rec = rec1 \<and> \<not> wo_tested out \<and> wo_world out = w2 \<or>
     \<not> rr_SSHReady (tr_Readiness rec1) \<and> postConfigureMenu env d doc profile rec1 w2 = ((wo_tested out, rec), wo_world out)"
    by (rule finish_run_cases [OF r(3) assms(2)])
  obtain rest ssh where c: "tr_SSH rec1 = Some ssh" "tr_TargetID rec1 = tid"
    "rr_SSHReady (tr_Readiness rec1) \<longrightarrow> probeSSH (wn_tk env) (wn_dial env) (ww_fs w1) d rec1 ssh = (True, '''') \<and>
       (\<exists>old. existing_record doc profile = Some old \<and> \<not> ?changed \<and> same_identity old rec1 ssh)"
    using configure_record_facts [OF f(1)] r(2) by metis
  note s = save_record_facts(1,2) [OF f(2)]
  from f(3) show ?thesis
  proof
    assume a: "rr_SSHReady (tr_Readiness rec1) \<and> rec = rec1 \<and> \<not> wo_tested out \<and> wo_world out = w2"
    then obtain old where o': "existing_record doc profile = Some old" "\<not> mapping_changed profile (Some old) tid"
      "same_identity old rec ssh" "probeSSH (wn_tk env) (wn_dial env) (ww_fs w1) d rec ssh = (True, '''')" using c(3) by auto
    then have "\<exists>doc old. loadTargets (wn_tk env) (ww_fs w) d = Inr doc \<and> existing_record doc profile = Some old \<and>
        \<not> mapping_changed profile (Some old) tid \<and> same_identity old rec ssh" using r(1) by blast
    then show ?thesis using a c(1,2) s o'(4) by (intro conjI exI [of _ ssh] exI [of _ "ww_fs w1"]) auto
  next
    assume a: "\<not> rr_SSHReady (tr_Readiness rec1) \<and> postConfigureMenu env d doc profile rec1 w2 = ((wo_tested out, rec), wo_world out)"
    note m = menu_facts [OF conjunct2 [OF a]]
    have t: "wo_tested out" using m(1) a assms(3) by auto
    then have "fst (probeSSH (wn_tk env) (wn_dial env) (ww_fs w2) d rec1 ssh)" using m(9) c(1) assms(3) by auto
    then have "probeSSH (wn_tk env) (wn_dial env) (ww_fs w2) d rec ssh = (True, '''')"
      using probeSSH_reason probeSSH_frame [OF m(5,6)] by metis
    then show ?thesis using t c m by (intro conjI exI [of _ ssh] exI [of _ "ww_fs w2"]) auto
  qed
qed

text \<open>What a run of the wizard stores. A run that ends with a record reports no error and leaves in
  targets.json the encoding of the document it had loaded, with only this profile's record replaced; the record
  carries the requested application target, an https-verified REST entry and an SSH entry. The stored record is the
  final one, or, if writing the outcome of the menu's test failed, the one saved before the test.\<close>
theorem wizard_saves_record:
  assumes "wizard_run env d stateDir profile tid kc w = Some out" and "wo_rec out = Some rec"
  shows "wo_err out = None \<and> tr_TargetID rec = tid \<and> (\<exists>rest. tr_REST rec = Some rest \<and> re_TransportMode rest = TransportHTTPSVerified) \<and>
    tr_SSH rec \<noteq> None \<and>
    (\<exists>doc rec' buf. loadTargets (wn_tk env) (ww_fs w) d = Inr doc \<and>
       tk_marshalTargets (wn_tk env) (saved_doc doc profile rec') = Some buf \<and>
       read_path (ww_fs (wo_world out)) (filepath_join [d, targetsFile]) = Content (with_newline buf) \<and>
       (rec' = rec \<or> wo_tested out \<and> (wn_write env 1 (filepath_join [d, targetsFile]) \<noteq> WriteOk \<or>
          tk_marshalTargets (wn_tk env) (saved_doc doc profile rec) = None)))"
proof -
  let ?p = "filepath_join [d, targetsFile]" and ?tk = "wn_tk env"
  obtain doc rec0 w0 b where r: "loadTargets ?tk (ww_fs w) d = Inr doc" "tr_TargetID rec0 = tid"
    "finish_run env d profile kc b doc (mapping_changed profile (existing_record doc profile) tid) rec0 w0 = out"
    by (rule wizard_run_cases [OF assms])
  obtain rec1 w1 w2 where f: "configure_record env d profile kc (existing_record doc profile)
      (mapping_changed profile (existing_record doc profile) tid) rec0 w0 = (Inr rec1, w1)"
    "save_record env 0 d doc profile rec1 w1 = (True, w2)" "wo_err out = None"
    "rr_SSHReady (tr_Readiness rec1) \<and> rec = rec1 \<and> \<not> wo_tested out \<and> wo_world out = w2 \<or>
     \<not> rr_SSHReady (tr_Readiness rec1) \<and> postConfigureMenu env d doc profile rec1 w2 = ((wo_tested out, rec), wo_world out)"
    by (rule finish_run_cases [OF r(3) assms(2)])
  obtain rest ssh where c: "tr_REST rec1 = Some rest" "re_TransportMode rest = TransportHTTPSVerified" "tr_SSH rec1 = Some ssh"
    "tr_TargetID rec1 = tid" using configure_record_facts [OF f(1)] r(2) by metis
  have same: "tr_TargetID rec = tid" "tr_REST rec = Some rest" "tr_SSH rec = Some ssh" using f(4) c menu_facts(2-4) by metis+
  obtain buf where s: "tk_marshalTargets ?tk (saved_doc doc profile rec1) = Some buf" "read_path (ww_fs w2) ?p = Content (with_newline buf)"
    using save_record_facts(3) [OF f(2)] by blast
  have "\<exists>rec' buf. tk_marshalTargets ?tk (saved_doc doc profile rec') = Some buf \<and>
      read_path (ww_fs (wo_world out)) ?p = Content (with_newline buf) \<and>
      (rec' = rec \<or> wo_tested out \<and> (wn_write env 1 ?p \<noteq> WriteOk \<or> tk_marshalTargets ?tk (saved_doc doc profile rec) = None))"
  proof (cases "wo_tested out")
    case False
    then have "rec = rec1 \<and> ww_fs (wo_world out) = ww_fs w2" using f(4) menu_facts(1) by metis
    then show ?thesis using s by metis
  next
    case True
    then obtain s' ok where k: "save_record env 1 d doc profile rec (w2\<lparr>ww_in := s'\<rparr>) = (ok, wo_world out)"
      using f(4) menu_facts(9) by (metis prod.collapse)
    show ?thesis using save_record_facts(4) [OF k] s True by (metis wizard_world.select_convs(1) wizard_world.surjective wizard_world.update_convs(3))
  qed
  then show ?thesis using f(3) same c(2) r(1) by blast
qed

text \<open>A reconfiguration always drops the CA file of the REST entry: what is tested is the new entry.\<close>

lemma reconfigure_drops_ca:
  assumes "wizard_run env d stateDir profile tid kc w = Some out" and "wo_rec out = Some rec"
  shows "\<exists>rest. tr_REST rec = Some rest \<and> re_CAFile rest = ''''"
proof -
  obtain doc rec0 w0 b where r: "loadTargets (wn_tk env) (ww_fs w) d = Inr doc" "tr_TargetID rec0 = tid"
    "finish_run env d profile kc b doc (mapping_changed profile (existing_record doc profile) tid) rec0 w0 = out"
    by (rule wizard_run_cases [OF assms])
  from finish_run_cases [OF r(3) assms(2)] show ?thesis using configure_record_facts menu_facts(2) by metis
qed

text \<open>C37: A wizard on a configured profile always ends. When the arguments are accepted and the stored address
  and ports of the profile are acceptable, the run ends whatever is typed, even at the end of the input.\<close>
theorem wizard_ends_when_configured:
  assumes "loadTargets (wn_tk env) (ww_fs w) d = Inr doc" and "existing_record doc profile = Some old"
    and "validateHost env (tr_Address old) = None" and "port_ok (tr_RESTPort old)" and "port_ok (tr_SSHPort old)"
  shows "wizard_run env d stateDir profile tid kc w \<noteq> None"
proof -
  obtain e w1 where d: "ensureDirs env d w = (e, w1)" by (metis surj_pair)
  have doc: "loadTargets (wn_tk env) (ww_fs w1) d = Inr doc" using assms(1) loadTargets_files [OF ensureDirs_files [OF d]] by simp
  show ?thesis
  proof (cases e)
    case (Some e')
    then show ?thesis using d by (simp add: wizard_run_def)
  next
    case None
    let ?ch = "mapping_changed profile (existing_record doc profile) tid"
    have "promptAddressAndPorts env (start_record (existing_record doc profile) tid ?ch) s \<noteq> None" for s
      by (rule promptAddressAndPorts_returns) (use assms in \<open>simp_all add: start_record_def Let_def\<close>)
    then have "(case promptAddressAndPorts env (start_record (existing_record doc profile) tid ?ch) s of None \<Rightarrow> None
        | Some ((addr, restPort, sshPort), s2) \<Rightarrow> Some (f addr restPort sshPort s2)) \<noteq> None" for s f
      by (auto split: option.splits)
    then show ?thesis using None d doc by (auto simp: wizard_run_def Let_def split: prod.splits)
  qed
qed

text \<open>A new profile at the end of the input: the wizard asks for the address without end.\<close>

lemma wizard_eof_never_ends:
  assumes "ensureDirs env d w = (None, w1)" and "loadTargets (wn_tk env) (ww_fs w1) d = Inr doc"
    and "existing_record doc profile = None" and "ww_in w1 = ''''"
  shows "wizard_run env d stateDir profile tid kc w = None"
proof -
  have v: "validateHost env '''' \<noteq> None" by (simp add: validateHost_def trim_space_def)
  show ?thesis
    by (simp add: wizard_run_def assms mapping_changed_def start_record_def blank_record_def promptAddressAndPorts_def
        promptAddress_at_eof [OF v])
qed

section \<open>Which keys become trusted\<close>

lemma host_key_scan_append:
  "host_key_scan tk h k (xs @ ys) = (host_key_scan tk h k xs \<or> host_key_scan tk h k ys)"
  by (induction xs) (auto simp: Let_def split: option.splits)

lemma host_key_scan_blank: "\<not> host_key_scan tk h k ['''']"
  by (simp add: trim_space_def)

lemma appended_lines:
  "host_key_scan tk h k (split_on (CHR 0x0A) ((if e \<noteq> '''' \<and> last e \<noteq> CHR 0x0A then e @ [CHR 0x0A] else e) @ line)) =
     (host_key_scan tk h k (split_on (CHR 0x0A) e) \<or> host_key_scan tk h k (split_on (CHR 0x0A) line))"
proof (cases "e = '''' \<or> last e = CHR 0x0A")
  case False
  then show ?thesis using split_on_append [of "CHR 0x0A" e line] by (simp add: host_key_scan_append)
next
  case True
  then consider "e = ''''" | f where "e = f @ [CHR 0x0A]" by (metis append_butlast_last_id)
  then show ?thesis
  proof cases
    case 1
    then show ?thesis using host_key_scan_blank [of tk h k] by simp
  next
    case 2
    have "split_on (CHR 0x0A) e = split_on (CHR 0x0A) f @ ['''']" using split_on_append [of "CHR 0x0A" f "[]"] 2 by simp
    moreover have "split_on (CHR 0x0A) (e @ line) = split_on (CHR 0x0A) f @ split_on (CHR 0x0A) line"
      using split_on_append [of "CHR 0x0A" f line] 2 by simp
    ultimately show ?thesis using 2 host_key_scan_blank [of tk h k] by (simp add: host_key_scan_append)
  qed
qed

text \<open>What the text formats of a key provide: its name and its encoding are single words, and decoding
  inverts encoding.\<close>

definition key_text_laws :: "target_codec \<Rightarrow> string \<Rightarrow> bool" where
  "key_text_laws tk wire =
     ((case tk_keyType tk wire of None \<Rightarrow> True | Some ty \<Rightarrow> word_like ty) \<and> word_like (tk_b64encode tk wire) \<and>
      tk_b64decode tk (tk_b64encode tk wire) = Some wire)"

lemma known_hosts_line_key:
  assumes "key_text_laws tk wire" and "word_like host" and "\<not> has_prefix host ''#''" and "0 < port"
    and "host_key_scan tk h k (split_on (CHR 0x0A) (knownHostsLine tk host port wire))"
  shows "k = wire"
proof (cases "tk_keyType tk wire")
  case None
  then show ?thesis using assms(5) host_key_scan_blank [of tk h k] by (simp add: knownHostsLine_def)
next
  case (Some ty)
  let ?hp = "if port \<noteq> 22 then ''['' @ host @ '']:'' @ show_int port else host"
  have w: "word_like ?hp" "\<not> has_prefix ?hp ''#''"
    using assms(2-4) show_int_plain [of port] by (auto simp: word_like_def list_all_iff is_space_def char_code_def)
  have t: "word_like ty" "word_like (tk_b64encode tk wire)" "tk_b64decode tk (tk_b64encode tk wire) = Some wire"
    using assms(1) Some by (auto simp: key_text_laws_def)
  show ?thesis using assms(5) host_key_line [OF w(1) t(1,2) w(2), of tk h k] t(3) Some by (simp add: knownHostsLine_def)
qed

lemma enroll_cases:
  assumes "enrollHostKey env d host port w = ((kh, refreshed, err), w')"
  shows "kh = filepath_join [d, knownHostsFn]"
    "ww_fs w' = ww_fs w \<and> \<not> refreshed \<or>
     (\<exists>wire s1 s2. (s1 = ww_in w \<or> s1 = snd (confirmChoice ''reuse'' (ww_in w))) \<and> fetchHostKey env host port = Some wire \<and>
        confirmYesNo False s1 = (True, s2) \<and> trim_space (fst (prompt '''' s2)) = fingerprint_tail env wire \<and>
        (refreshed, ww_fs w') = appendLineAtomic (wn_write env 0 kh) kh (knownHostsLine (wn_tk env) host port wire) (ww_fs w))"
proof -
  show "kh = filepath_join [d, knownHostsFn]"
    using assms by (auto simp: enrollHostKey_def Let_def split: prod.splits if_splits option.splits)
  obtain c s1 where c: "(if hasKnownHostEntry (ww_fs w) (filepath_join [d, knownHostsFn]) host
      then confirmChoice ''reuse'' (ww_in w) else (''refresh'', ww_in w)) = (c, s1)" by (metis surj_pair)
  then have s1: "s1 = ww_in w \<or> s1 = snd (confirmChoice ''reuse'' (ww_in w))" by (auto split: if_splits)
  show "ww_fs w' = ww_fs w \<and> \<not> refreshed \<or>
     (\<exists>wire s1 s2. (s1 = ww_in w \<or> s1 = snd (confirmChoice ''reuse'' (ww_in w))) \<and> fetchHostKey env host port = Some wire \<and>
        confirmYesNo False s1 = (True, s2) \<and> trim_space (fst (prompt '''' s2)) = fingerprint_tail env wire \<and>
        (refreshed, ww_fs w') = appendLineAtomic (wn_write env 0 kh) kh (knownHostsLine (wn_tk env) host port wire) (ww_fs w))"
  proof (cases "ww_fs w' = ww_fs w \<and> \<not> refreshed")
    case False
    obtain wire where wire: "fetchHostKey env host port = Some wire"
      using assms False by (auto simp: enrollHostKey_def c Let_def split: option.splits if_splits)
    obtain y s2 where y: "confirmYesNo False s1 = (y, s2)" by (metis surj_pair)
    obtain got s3 where g: "prompt '''' s2 = (got, s3)" by (metis surj_pair)
    have "y" "trim_space got = fingerprint_tail env wire"
      "(refreshed, ww_fs w') = appendLineAtomic (wn_write env 0 kh) kh (knownHostsLine (wn_tk env) host port wire) (ww_fs w)"
      using assms False by (auto simp: enrollHostKey_def c wire y g Let_def split: if_splits prod.splits)
    then show ?thesis using s1 wire y g by (metis fst_conv)
  qed simp
qed

text \<open>C23: A host key becomes trusted only by the operator's confirmation. Whatever is typed during
  host-key enrollment, a key that verifies afterwards verified before, or it is the key the
  switch presented and the operator both confirmed the comparison and typed the last twelve characters of its
  fingerprint; no file other than known\_hosts changes.\<close>
theorem host_key_needs_challenge:
  assumes "enrollHostKey env d host port w = ((kh, refreshed, err), w')"
    and "\<And>wire. wn_hostKey env (JoinHostPort host port) = Some wire \<Longrightarrow> key_text_laws (wn_tk env) wire"
    and "word_like host" and "\<not> has_prefix host ''#''" and "0 < port"
    and "hostKeyCallbackFromFile (wn_tk env) (ww_fs w') kh h k = HostKeyAccepted"
  shows "(hostKeyCallbackFromFile (wn_tk env) (ww_fs w) kh h k = HostKeyAccepted \<or>
     wn_hostKey env (JoinHostPort host port) = Some k \<and>
     (\<exists>s1 s2. (s1 = ww_in w \<or> s1 = snd (confirmChoice ''reuse'' (ww_in w))) \<and> confirmYesNo False s1 = (True, s2) \<and>
        trim_space (fst (prompt '''' s2)) = fingerprint_tail env k)) \<and>
    (\<forall>p. p \<noteq> kh \<longrightarrow> read_path (ww_fs w') p = read_path (ww_fs w) p)"
proof (cases "ww_fs w' = ww_fs w")
  case True
  then show ?thesis using assms(6) by simp
next
  case False
  then obtain wire s1 s2 where e: "s1 = ww_in w \<or> s1 = snd (confirmChoice ''reuse'' (ww_in w))"
    "wn_hostKey env (JoinHostPort host port) = Some wire" "confirmYesNo False s1 = (True, s2)"
    "trim_space (fst (prompt '''' s2)) = fingerprint_tail env wire"
    "(refreshed, ww_fs w') = appendLineAtomic (wn_write env 0 kh) kh (knownHostsLine (wn_tk env) host port wire) (ww_fs w)"
    using enroll_cases(2) [OF assms(1)] unfolding fetchHostKey_def by blast
  let ?ex = "case read_path (ww_fs w) kh of Content b \<Rightarrow> b | _ \<Rightarrow> ''''" and ?line = "knownHostsLine (wn_tk env) host port wire"
  have f: "read_path (ww_fs w') p = (if p = kh
      then Content ((if ?ex \<noteq> '''' \<and> last ?ex \<noteq> CHR 0x0A then ?ex @ [CHR 0x0A] else ?ex) @ ?line) else read_path (ww_fs w) p)" for p
    using e(5) False by (auto simp: appendLineAtomic_def atomicWriteFile_def read_path_def Let_def split: write_outcome.splits)
  have "host_key_scan (wn_tk env) h k (split_on (CHR 0x0A) ?ex) \<or> host_key_scan (wn_tk env) h k (split_on (CHR 0x0A) ?line)"
    using assms(6) appended_lines [of "wn_tk env" h k ?ex ?line] by (auto simp: hostKeyCallbackFromFile_def f split: if_splits)
  then have "hostKeyCallbackFromFile (wn_tk env) (ww_fs w) kh h k = HostKeyAccepted \<or> k = wire"
    using known_hosts_line_key [OF assms(2) [OF e(2)] assms(3-5), of h k] host_key_scan_blank [of "wn_tk env" h k]
    by (auto simp: hostKeyCallbackFromFile_def split: read_result.splits)
  then show ?thesis using e(1-4) f by auto
qed

text \<open>Refreshing a host key adds the new key; every key that verified before still does.\<close>

lemma refresh_keeps_old_keys:
  assumes "enrollHostKey env d host port w = ((kh, refreshed, err), w')"
    and "hostKeyCallbackFromFile (wn_tk env) (ww_fs w) kh h k = HostKeyAccepted"
  shows "hostKeyCallbackFromFile (wn_tk env) (ww_fs w') kh h k = HostKeyAccepted"
proof (cases "ww_fs w' = ww_fs w")
  case True
  then show ?thesis using assms(2) by simp
next
  case False
  then obtain wire where e: "(refreshed, ww_fs w') =
      appendLineAtomic (wn_write env 0 kh) kh (knownHostsLine (wn_tk env) host port wire) (ww_fs w)"
    using enroll_cases(2) [OF assms(1)] by blast
  obtain b where b: "read_path (ww_fs w) kh = Content b" "host_key_scan (wn_tk env) h k (split_on (CHR 0x0A) b)"
    using assms(2) by (auto simp: hostKeyCallbackFromFile_def split: read_result.splits if_splits)
  have "read_path (ww_fs w') kh = Content ((if b \<noteq> '''' \<and> last b \<noteq> CHR 0x0A then b @ [CHR 0x0A] else b) @
      knownHostsLine (wn_tk env) host port wire)"
    using e False b(1) by (auto simp: appendLineAtomic_def atomicWriteFile_def read_path_def Let_def split: write_outcome.splits)
  then show ?thesis using appended_lines [of "wn_tk env" h k b "knownHostsLine (wn_tk env) host port wire"] b(2)
    by (simp add: hostKeyCallbackFromFile_def)
qed

section \<open>Doctor and collection agree\<close>

lemma inspect_record_ok:
  assumes "ti_ResolvedStatus (inspect_record tk fs dir r out) = TargetConfigOK"
  shows "\<exists>rec ssh kp kh. r = Some rec \<and> tr_SSH rec = Some ssh \<and>
    ResolveManagedTargetArtifact (tf_eval fs) dir (se_KeyPath ssh) ArtifactSSHPrivateKey = Inr kp \<and>
    ResolveManagedTargetArtifact (tf_eval fs) dir (se_KnownHostsPath ssh) ArtifactKnownHosts = Inr kh"
  using assms
  by (auto simp: inspect_record_def config_status_defs Let_def split: option.splits sum.splits)

lemma inspect_frame:
  "ti_TargetID (inspect_record tk fs dir r out) = ti_TargetID out" "ti_Base (inspect_record tk fs dir r out) = ti_Base out"
  by (auto simp: inspect_record_def Let_def split: option.splits sum.splits)

lemma inspect_target_id: "ti_TargetID (InspectTargetConfigForTarget tk fs dir tid) = canonicalUUID tid"
  "ti_Base (InspectTargetConfigForTarget tk fs dir tid) = InspectTargetConfigDir tk fs dir"
  by (auto simp: InspectTargetConfigForTarget_def inspect_frame Let_def split: sum.splits list.splits)

lemma inspected_ok:
  assumes "ti_ResolvedStatus (InspectTargetConfigForTarget tk fs dir tid) = TargetConfigOK"
  obtains doc n rec ssh kp kh where "canonicalUUID tid \<noteq> ''''" "ci_Status (InspectTargetConfigDir tk fs dir) = TargetConfigOK"
    "loadTargets tk fs dir = Inr doc" "resolving (canonicalUUID tid) (td_Targets doc) = [(n, Some rec)]" "tr_SSH rec = Some ssh"
    "ResolveManagedTargetArtifact (tf_eval fs) dir (se_KeyPath ssh) ArtifactSSHPrivateKey = Inr kp"
    "ResolveManagedTargetArtifact (tf_eval fs) dir (se_KnownHostsPath ssh) ArtifactKnownHosts = Inr kh"
proof -
  have c: "canonicalUUID tid \<noteq> ''''" "ci_Status (InspectTargetConfigDir tk fs dir) = TargetConfigOK"
    using assms by (auto simp: InspectTargetConfigForTarget_def config_status_defs Let_def split: if_splits)
  obtain doc where doc: "loadTargets tk fs dir = Inr doc"
    using assms c by (cases "loadTargets tk fs dir") (auto simp: InspectTargetConfigForTarget_def config_status_defs Let_def)
  obtain m where m: "resolving (canonicalUUID tid) (td_Targets doc) = [m]"
    using assms c doc by (auto simp: InspectTargetConfigForTarget_def config_status_defs Let_def split: list.splits)
  then have "\<exists>rec ssh kp kh. snd m = Some rec \<and> tr_SSH rec = Some ssh \<and>
      ResolveManagedTargetArtifact (tf_eval fs) dir (se_KeyPath ssh) ArtifactSSHPrivateKey = Inr kp \<and>
      ResolveManagedTargetArtifact (tf_eval fs) dir (se_KnownHostsPath ssh) ArtifactKnownHosts = Inr kh"
    using assms c doc by (intro inspect_record_ok) (auto simp: InspectTargetConfigForTarget_def Let_def)
  then show thesis using that [OF c doc] m by (metis prod.collapse)
qed

text \<open>The doctor's verdict is the collector's. For a valid target id, \<open>target doctor\<close> exits with 0
  exactly when the evidence collector resolves that target from the directory the doctor inspects,
  whatever the environment, the flags and the runtime state are.\<close>
theorem doctor_agrees_with_collector:
  assumes "canonicalUUID tid \<noteq> ''''"
  shows "fst (RunDoctor tk fs env_dir env_state configDir targetsDir tid) = 0 \<longleftrightarrow>
     (\<exists>t r. LoadResolvedBrocadeTarget tk now fs
        (ci_Dir (cr_Inventory (ResolveTargetConfigStore tk fs (if trim_space targetsDir \<noteq> '''' then targetsDir else env_dir) configDir)))
        runtimeStateDir tid = Inr (t, r))"
proof -
  let ?dir = "ci_Dir (cr_Inventory (ResolveTargetConfigStore tk fs (if trim_space targetsDir \<noteq> '''' then targetsDir else env_dir) configDir))"
  let ?c = "canonicalUUID tid"
  have cc: "canonicalUUID ?c = ?c" using canonicalUUID_fixed [of tid] assms by simp
  have nt: "trim_space tid \<noteq> ''''" using assms by (auto simp: canonicalUUID_def isProfileUUID_def match_chars_def profileUUIDRe_def)
  have same: "InspectTargetConfigForTarget tk fs ?dir ?c = InspectTargetConfigForTarget tk fs ?dir tid"
    by (simp add: InspectTargetConfigForTarget_def cc)
  have "fst (RunDoctor tk fs env_dir env_state configDir targetsDir tid) = 0 \<longleftrightarrow>
      ti_ResolvedStatus (InspectTargetConfigForTarget tk fs ?dir tid) = TargetConfigOK"
    using assms nt same by (simp add: RunDoctor_def Let_def)
  also have "\<dots> \<longleftrightarrow> (\<exists>t r. LoadResolvedBrocadeTarget tk now fs ?dir runtimeStateDir tid = Inr (t, r))"
  proof
    assume "ti_ResolvedStatus (InspectTargetConfigForTarget tk fs ?dir tid) = TargetConfigOK"
    then show "\<exists>t r. LoadResolvedBrocadeTarget tk now fs ?dir runtimeStateDir tid = Inr (t, r)"
      by (rule inspected_ok) (simp add: LoadResolvedBrocadeTarget_def inspect_target_id \<open>ti_ResolvedStatus _ = _\<close>
          status_error_def config_status_defs Let_def)
  next
    assume "\<exists>t r. LoadResolvedBrocadeTarget tk now fs ?dir runtimeStateDir tid = Inr (t, r)"
    then have "status_error (ti_ResolvedStatus (InspectTargetConfigForTarget tk fs ?dir tid)) = None"
      by (auto simp: LoadResolvedBrocadeTarget_def Let_def split: option.splits if_splits)
    then show "ti_ResolvedStatus (InspectTargetConfigForTarget tk fs ?dir tid) = TargetConfigOK"
      by (auto simp: status_error_def split: if_splits)
  qed
  finally show ?thesis .
qed

section \<open>A concrete session\<close>

text \<open>A profile that was ready, and an operator who accepts every default.\<close>

definition demo_wizard_record :: target_record where
  "demo_wizard_record = (demo_record '''')\<lparr>
     tr_SSH := Some \<lparr>se_Username = ''ops'', se_KeyPath = ''keys/'' @ demo_uuid, se_PublicKeyPath = '''', se_KnownHostsPath = ''known_hosts'',
       se_KeyAlgorithm = ''rsa'', se_KeyBits = 3072, se_KeyOrigin = ''imported'', se_KeyFingerprintSHA256 = ''SHA256:K''\<rparr>,
     tr_Readiness := blank_readiness\<lparr>rr_SSHReady := True\<rparr>\<rparr>"

definition demo_wizard_tk :: target_codec where
  "demo_wizard_tk = demo_tk\<lparr>tk_unmarshalTargets := (\<lambda>s. if s = ''T'' then Some (1, Some [(demo_uuid, Some demo_wizard_record)]) else None),
     tk_marshalTargets := (\<lambda>_. Some ''M'')\<rparr>"

definition demo_wizard_fs :: tfs where
  "demo_wizard_fs = \<lparr>tf_dirs = [], tf_files = [(''/t/targets.json'', Some ''T''), (''/t/keys/'' @ demo_uuid, Some ''K''),
     (''/t/known_hosts'', Some ''10.0.0.12 ssh-rsa KEY''), (''/t/secrets/rest/'' @ demo_uuid, Some ''pw'')],
     tf_eval = (\<lambda>_. EvMissing)\<rparr>"

definition demo_wizard_env :: wizard_env where
  "demo_wizard_env = \<lparr>wn_tk = demo_wizard_tk, wn_rest = demo_rest_env, wn_rt = demo_rest_transport, wn_elapsed = 1,
     wn_dial = (\<lambda>user key addr cb. Dialled True), wn_parseIP = (\<lambda>s. if s = ''10.0.0.12'' then Some False else None),
     wn_hostKey = (\<lambda>a. Some ''NEWHOSTKEY123''), wn_public = id, wn_parseKeyError = (\<lambda>_. ''''), wn_rsaBits = (\<lambda>_. Some 3072),
     wn_authorized = id, wn_generate = (\<lambda>_. Inl ''''), wn_mkdir = (\<lambda>_. None), wn_secret = NotATerminal,
     wn_write = (\<lambda>k p. WriteOk), wn_now_probe = 1, wn_now_save = 2, wn_now_menu = 3\<rparr>"

definition demo_wizard_world :: wizard_world where
  "demo_wizard_world = \<lparr>ww_fs = demo_wizard_fs,
     ww_meta = [(''/t/keys/'' @ demo_uuid, \<lparr>fm_Kind = RegularFile, fm_Perm = 384\<rparr>),
       (''/t/secrets/rest/'' @ demo_uuid, \<lparr>fm_Kind = RegularFile, fm_Perm = 384\<rparr>)], ww_in = ''''\<rparr>"

definition demo_kc :: key_choice where
  "demo_kc = \<lparr>kc_GenerateAlgorithm = ''rsa-3072'', kc_ImportPath = '''', kc_FromFlag = False\<rparr>"

lemma demo_session:
  "\<exists>out rec. wizard_run demo_wizard_env ''/t'' ''/s'' demo_uuid demo_uuid demo_kc demo_wizard_world = Some out \<and> wo_rec out = Some rec \<and>
     rr_SSHReady (tr_Readiness rec) \<and> \<not> wo_tested out"
proof -
  have "case wizard_run demo_wizard_env ''/t'' ''/s'' demo_uuid demo_uuid demo_kc demo_wizard_world of None \<Rightarrow> False
    | Some out \<Rightarrow> (case wo_rec out of None \<Rightarrow> False | Some rec \<Rightarrow> rr_SSHReady (tr_Readiness rec) \<and> \<not> wo_tested out)"
    by code_simp
  then show ?thesis by (auto split: option.splits)
qed

theorem wizard_ready_only_if_proved_witness:
  "\<exists>out rec ssh doc old. wizard_run demo_wizard_env ''/t'' ''/s'' demo_uuid demo_uuid demo_kc demo_wizard_world = Some out \<and>
     wo_rec out = Some rec \<and> tr_TargetID rec = demo_uuid \<and> tr_SSH rec = Some ssh \<and>
     loadTargets demo_wizard_tk demo_wizard_fs ''/t'' = Inr doc \<and> existing_record doc demo_uuid = Some old \<and> same_identity old rec ssh"
proof -
  obtain out rec where s: "wizard_run demo_wizard_env ''/t'' ''/s'' demo_uuid demo_uuid demo_kc demo_wizard_world = Some out"
    "wo_rec out = Some rec" "rr_SSHReady (tr_Readiness rec)" "\<not> wo_tested out" using demo_session by blast
  have "wn_tk demo_wizard_env = demo_wizard_tk" "ww_fs demo_wizard_world = demo_wizard_fs"
    by (simp_all add: demo_wizard_env_def demo_wizard_world_def)
  with wizard_ready_only_if_proved [OF s(1-3)] s show ?thesis by metis
qed

theorem wizard_saves_record_witness:
  "\<exists>out rec. wizard_run demo_wizard_env ''/t'' ''/s'' demo_uuid demo_uuid demo_kc demo_wizard_world = Some out \<and> wo_rec out = Some rec \<and>
     wo_err out = None \<and> tr_TargetID rec = demo_uuid \<and>
     read_path (ww_fs (wo_world out)) (filepath_join [''/t'', targetsFile]) = Content (''M'' @ [CHR 0x0A])"
proof -
  obtain out rec where s: "wizard_run demo_wizard_env ''/t'' ''/s'' demo_uuid demo_uuid demo_kc demo_wizard_world = Some out"
    "wo_rec out = Some rec" using demo_session by blast
  have "tk_marshalTargets (wn_tk demo_wizard_env) doc = Some ''M''" for doc by (simp add: demo_wizard_env_def demo_wizard_tk_def)
  moreover have "with_newline ''M'' = ''M'' @ [CHR 0x0A]" by code_simp
  ultimately show ?thesis using wizard_saves_record [OF s] s by fastforce
qed

theorem wizard_ends_when_configured_witness:
  "tr_Address demo_wizard_record = ''10.0.0.12'' \<and> wizard_run demo_wizard_env ''/t'' ''/s'' demo_uuid demo_uuid demo_kc demo_wizard_world \<noteq> None"
proof -
  have l: "loadTargets (wn_tk demo_wizard_env) (ww_fs demo_wizard_world) ''/t'' =
      Inr \<lparr>td_Version = 1, td_Targets = [(demo_uuid, Some demo_wizard_record)]\<rparr>" by code_simp
  have e: "existing_record \<lparr>td_Version = 1, td_Targets = [(demo_uuid, Some demo_wizard_record)]\<rparr> demo_uuid = Some demo_wizard_record"
    by (simp add: existing_record_def)
  have "validateHost demo_wizard_env (tr_Address demo_wizard_record) = None" "port_ok (tr_RESTPort demo_wizard_record)"
    "port_ok (tr_SSHPort demo_wizard_record)" "tr_Address demo_wizard_record = ''10.0.0.12''" by code_simp+
  then show ?thesis using wizard_ends_when_configured [OF l e] by blast
qed

theorem host_key_needs_challenge_witness:
  "case enrollHostKey demo_wizard_env ''/t'' ''10.0.0.12'' 22
      (demo_wizard_world\<lparr>ww_in := ''refresh'' @ [CHR 0x0A] @ ''y'' @ [CHR 0x0A] @ ''EWHOSTKEY123'' @ [CHR 0x0A]\<rparr>) of
     ((kh, refreshed, err), w') \<Rightarrow> refreshed \<and>
       hostKeyCallbackFromFile demo_wizard_tk (ww_fs w') kh ''10.0.0.12:22'' ''NEWHOSTKEY123'' = HostKeyAccepted \<and>
       read_path (ww_fs w') ''/t/targets.json'' = Content ''T''"
proof -
  let ?w = "demo_wizard_world\<lparr>ww_in := ''refresh'' @ [CHR 0x0A] @ ''y'' @ [CHR 0x0A] @ ''EWHOSTKEY123'' @ [CHR 0x0A]\<rparr>"
  obtain kh refreshed err w' where e: "enrollHostKey demo_wizard_env ''/t'' ''10.0.0.12'' 22 ?w = ((kh, refreshed, err), w')"
    by (metis prod.collapse)
  have c: "case enrollHostKey demo_wizard_env ''/t'' ''10.0.0.12'' 22 ?w of ((kh, refreshed, err), w') \<Rightarrow> refreshed \<and> kh = ''/t/known_hosts'' \<and>
      hostKeyCallbackFromFile (wn_tk demo_wizard_env) (ww_fs w') kh ''10.0.0.12:22'' ''NEWHOSTKEY123'' = HostKeyAccepted"
    by code_simp
  have "key_text_laws (wn_tk demo_wizard_env) ''NEWHOSTKEY123''" "wn_hostKey demo_wizard_env a = Some ''NEWHOSTKEY123''"
    "word_like ''10.0.0.12''" "\<not> has_prefix ''10.0.0.12'' ''#''" "wn_tk demo_wizard_env = demo_wizard_tk"
    "read_path (ww_fs ?w) ''/t/targets.json'' = Content ''T''" for a
    by (simp_all add: key_text_laws_def word_like_def demo_wizard_env_def demo_wizard_tk_def demo_tk_def is_space_def char_code_def
        read_path_def demo_wizard_world_def demo_wizard_fs_def)
  then show ?thesis
    using c host_key_needs_challenge [OF e, of "''10.0.0.12:22''" "''NEWHOSTKEY123''"] unfolding e by auto
qed

theorem doctor_agrees_with_collector_witness:
  "fst (RunDoctor demo_wizard_tk demo_wizard_fs '''' '''' ''/x'' ''/t'' demo_uuid) = 0 \<and>
   (\<exists>t r. LoadResolvedBrocadeTarget demo_wizard_tk 0 demo_wizard_fs ''/t'' '''' demo_uuid = Inr (t, r))"
proof -
  have c: "canonicalUUID demo_uuid \<noteq> ''''" by code_simp
  have "fst (RunDoctor demo_wizard_tk demo_wizard_fs '''' '''' ''/x'' ''/t'' demo_uuid) = 0" by code_simp
  moreover have "ci_Dir (cr_Inventory (ResolveTargetConfigStore demo_wizard_tk demo_wizard_fs
      (if trim_space ''/t'' \<noteq> '''' then ''/t'' else '''') ''/x'')) = ''/t''" by code_simp
  ultimately show ?thesis
    using doctor_agrees_with_collector [OF c, of demo_wizard_tk demo_wizard_fs "''''" "''''" "''/x''" "''/t''" 0 "''''"] by simp
qed

end
