(* ===== verification/Startup.thy ===== *)
theory Startup
  imports Enrollment LocalAPI AuditLog TargetWizard
begin

text \<open>
  The entry point (main.go) and the opening of the store (store.go): dispatch of the local subcommands, the environment
  flags, the local API token, the state reset, the legacy configuration and the sequence of startup up to the first
  reconciliation, composed of the other components' operations. Log lines, signals, the goroutines main only launches
  and the shutdown sequence are not modelled.
\<close>

section \<open>Subcommands\<close>

definition displayVersion :: "string \<Rightarrow> string" where
  "displayVersion hostVersion =
     (let v = trim_space hostVersion
      in if v = '''' then ''unknown'' else if has_prefix v ''v'' then v else CHR ''v'' # v)"

definition targetConfigVisibilityHint :: "bool \<Rightarrow> bool \<Rightarrow> string" where
  "targetConfigVisibilityHint directoryPresent targetsPresent =
     (if directoryPresent \<and> \<not> targetsPresent then ''targets_directory_empty_or_bind_mount_missing'' else '''')"

datatype dispatched = ShowVersion string | TargetConfigure "string list" | TargetProbe "string list" | TargetDoctor "string list"
  | UnknownTarget string | NotHandled

definition dispatch :: "string list \<Rightarrow> dispatched" where
  "dispatch args =
     (if ''--version'' \<in> set args \<or> ''-v'' \<in> set args then ShowVersion (displayVersion HostVersion)
      else case args of
        a # rest \<Rightarrow>
          if a = ''target'' then
            (case rest of
               b # opts \<Rightarrow> if b = ''configure'' then TargetConfigure opts else if b = ''probe'' then TargetProbe opts
                           else if b = ''doctor'' then TargetDoctor opts else UnknownTarget (join_with '' '' rest)
             | [] \<Rightarrow> UnknownTarget '''')
          else NotHandled
      | [] \<Rightarrow> NotHandled)"

text \<open>The exit code of a handled subcommand, given those of the three commands.\<close>

definition dispatch_code :: "(string list \<Rightarrow> nat) \<Rightarrow> (string list \<Rightarrow> nat) \<Rightarrow> (string list \<Rightarrow> nat) \<Rightarrow> dispatched \<Rightarrow> nat option" where
  "dispatch_code configure probe doctor d =
     (case d of ShowVersion v \<Rightarrow> Some 0 | TargetConfigure a \<Rightarrow> Some (configure a) | TargetProbe a \<Rightarrow> Some (probe a)
      | TargetDoctor a \<Rightarrow> Some (doctor a) | UnknownTarget s \<Rightarrow> Some 2 | NotHandled \<Rightarrow> None)"

section \<open>Environment\<close>

type_synonym environ = "string \<Rightarrow> string"

definition envBool :: "environ \<Rightarrow> string \<Rightarrow> bool" where
  "envBool env name = (env name = ''true'' \<or> env name = ''1'')"

definition remote_flags :: "environ \<Rightarrow> bool \<times> bool" where
  "remote_flags env =
     (envBool env ''FILTERREX_REMOTE_LIVE_QUERY'' \<or> envBool env ''FILTERREX_REMOTE_ACTIONS'',
      envBool env ''FILTERREX_REMOTE_RESTART'' \<or> envBool env ''FILTERREX_REMOTE_ACTIONS'')"

definition config_dir :: "environ \<Rightarrow> string" where
  "config_dir env = (if env ''CONFIG_DIR'' = '''' then ''/etc/filterrex'' else env ''CONFIG_DIR'')"

definition runtime_state_dir :: "environ \<Rightarrow> string" where
  "runtime_state_dir env =
     (let d = trim_space (env ''FILTERREX_BROCADE_RUNTIME_STATE_DIR'')
      in if d = '''' then filepath_join [config_dir env, ''state''] else d)"

definition resolveBrocadeTargets :: "target_codec \<Rightarrow> tfs \<Rightarrow> environ \<Rightarrow> config_resolution" where
  "resolveBrocadeTargets tk fs env = ResolveTargetConfigStore tk fs (env ''FILTERREX_BROCADE_TARGETS_DIR'') (config_dir env)"

text \<open>The token of the local API: from the environment, from its file, or new. The log line slices its first eight
  bytes. A failed write leaves the file as \<open>write_fault\<close> says.\<close>

datatype token_outcome = Token string | TokenPanic

definition local_api_token :: "environ \<Rightarrow> bool \<Rightarrow> string option \<Rightarrow> string \<Rightarrow> string option option \<Rightarrow> token_outcome \<times> string option" where
  "local_api_token env hybridMode stored newID write_fault =
     (if env ''FILTERREX_LOCAL_API_TOKEN'' \<noteq> '''' \<or> \<not> hybridMode then (Token (env ''FILTERREX_LOCAL_API_TOKEN''), stored)
      else if stored \<noteq> None \<and> stored \<noteq> Some ''''
      then (let t = trim_space (the stored) in (if length t < 8 then TokenPanic else Token t, stored))
      else (if length newID < 8 then TokenPanic else Token newID, case write_fault of None \<Rightarrow> Some newID | Some left \<Rightarrow> left))"

definition path_comps :: "string \<Rightarrow> path" where
  "path_comps s = clean_comps [] (split_on (CHR ''/'') s)"

text \<open>Reset: the state, the key and every file of the secrets directory are removed, as far as the removals succeed.\<close>

definition in_secrets :: "path \<Rightarrow> path \<Rightarrow> bool" where
  "in_secrets dir p = (butlast p = join_path dir [''secrets''] \<and> p \<noteq> [])"

definition reset_targets :: "path \<Rightarrow> files \<Rightarrow> path list" where
  "reset_targets dir fs =
     [join_path dir [''host.json.enc''], join_path dir [''host.key'']] @ filter (in_secrets dir) (map fst fs)"

definition force_reset :: "(path \<Rightarrow> bool) \<Rightarrow> path \<Rightarrow> files \<Rightarrow> files" where
  "force_reset remove_fails dir fs = fold AList.delete (filter (\<lambda>p. \<not> remove_fails p) (reset_targets dir fs)) fs"

section \<open>The store\<close>

record store_faults =
  sf_mkdir_fails :: bool
  sf_probe_fails :: bool
  sf_probe_stays :: bool
  sf_key :: fs_fault

definition checkWritable :: "store_faults \<Rightarrow> path \<Rightarrow> files \<Rightarrow> bool \<times> files" where
  "checkWritable sf dir fs =
     (let p = join_path dir [''.write-probe'']
      in if sf_probe_fails sf then (False, fs)
         else (True, if sf_probe_stays sf then AList.update p '''' fs else AList.delete p (AList.update p '''' fs)))"

definition NewStore :: "crypto_codec \<Rightarrow> store_faults \<Rightarrow> string \<Rightarrow> string \<Rightarrow> files \<Rightarrow> store option" where
  "NewStore cx sf material configDir fs =
     (let dir = path_comps (if configDir = '''' then ''/etc/filterrex'' else configDir)
      in if sf_mkdir_fails sf then None
         else case checkWritable sf dir fs of
           (False, _) \<Rightarrow> None
         | (True, fs1) \<Rightarrow>
            (case loadOrCreateKey cx (sf_key sf) material \<lparr>st_configDir = dir, st_key = '''', st_files = fs1\<rparr> of
               (Some e, s) \<Rightarrow> None | (None, s) \<Rightarrow> Some s))"

section \<open>Legacy configuration\<close>

datatype legacy_outcome = LegacyExit | LegacyNone | LegacyFound legacy_config

definition legacy_from_env :: "environ \<Rightarrow> string \<Rightarrow> string \<Rightarrow> legacy_config" where
  "legacy_from_env env targetType base =
     \<lparr>lc_ConnectorToken = env ''CONNECTOR_TOKEN'',
      lc_BackendURL = (if env ''BACKEND_URL'' = '''' then base @ defaultHeartbeatPath else env ''BACKEND_URL''), lc_TargetType = targetType,
      lc_ProxmoxBaseURL = trim_right (CHR ''/'') (env ''PROXMOX_BASE_URL''), lc_ProxmoxUsername = env ''PROXMOX_USERNAME'',
      lc_ProxmoxPassword = env ''PROXMOX_PASSWORD'', lc_ProxmoxTokenID = env ''PROXMOX_TOKEN_ID'',
      lc_ProxmoxTokenSecret = env ''PROXMOX_TOKEN_SECRET'', lc_ProxmoxNode = env ''PROXMOX_NODE'',
      lc_TrueNASURL = trim_right (CHR ''/'') (env ''TRUENAS_URL''), lc_TrueNASAPIKey = env ''TRUENAS_API_KEY'',
      lc_PollIntervalSecs = (case atoi (env ''POLL_INTERVAL_SECONDS'') of Some n \<Rightarrow> if n \<ge> 10 then n else 30 | None \<Rightarrow> 30),
      lc_InsecureSkipVerify = envBool env ''INSECURE_SKIP_VERIFY'', lc_LogLevel = env ''LOG_LEVEL'', lc_TimeoutSecs = 0\<rparr>"

definition legacy_complete :: "legacy_config \<Rightarrow> bool" where
  "legacy_complete c =
     (if lc_TargetType c = ''proxmox'' then lc_ProxmoxBaseURL c \<noteq> ''''
      else if lc_TargetType c = ''truenas'' then lc_TrueNASURL c \<noteq> '''' \<and> lc_TrueNASAPIKey c \<noteq> ''''
      else IsValidTargetType (lc_TargetType c))"

definition detectLegacyEnvConfig :: "environ \<Rightarrow> legacy_outcome" where
  "detectLegacyEnvConfig env =
     (let targetType = to_lower (env ''TARGET_TYPE'')
      in if env ''CONNECTOR_TOKEN'' = '''' \<or> env ''FILTERREX_ENROLLMENT_TOKEN'' \<noteq> '''' \<or> targetType = '''' then LegacyNone
         else case resolveBackendBase (env ''BACKEND_URL'') of Inl e \<Rightarrow> LegacyExit
         | Inr base \<Rightarrow>
            (let c = legacy_from_env env targetType base in if legacy_complete c then LegacyFound c else LegacyNone))"

section \<open>Startup\<close>

definition registerAdapters :: "supervisor \<Rightarrow> supervisor" where
  "registerAdapters s = RegisterAdapter ''brocade'' s"

text \<open>What startup observes: the subcommand layer is past; \<open>su_db\<close> is the database \<open>NewLocalDB\<close> opened.\<close>

record start_io =
  su_env :: environ
  su_args :: "string list"
  su_files :: files
  su_removeFails :: "path \<Rightarrow> bool"
  su_faults :: store_faults
  su_material :: string
  su_tokenFile :: "string option"
  su_tokenFault :: "string option option"
  su_newID :: string
  su_hid :: string
  su_tid :: string
  su_hostname :: string
  su_db :: "local_db option"
  su_host :: host_io
  su_enroll :: enroll_io
  su_api :: api_io
  su_tk :: target_codec
  su_tfs :: tfs

datatype start_stop = StopStore | StopBackend | StopLegacy | StopEnroll host_enroll_error | StopInit sup_error | StopReconcile sup_error | StopPanic

record host_runtime =
  hr_sup :: supervisor
  hr_backend :: backend_client
  hr_audit :: audit_logger
  hr_api :: "local_api option"
  hr_tokenFile :: "string option"
  hr_syncInterval :: "duration option"

definition apply_flags :: "bool \<times> bool \<Rightarrow> supervisor \<Rightarrow> supervisor" where
  "apply_flags fl s =
     s\<lparr>sv_state := map_option (\<lambda>st. st\<lparr>hs_Config := (hs_Config st)\<lparr>
        hc_RemoteLiveQueryEnabled := hc_RemoteLiveQueryEnabled (hs_Config st) \<or> fst fl,
        hc_RemoteRestartEnabled := hc_RemoteRestartEnabled (hs_Config st) \<or> snd fl\<rparr>\<rparr>) (sv_state s)\<rparr>"

definition load_identity :: "start_io \<Rightarrow> string \<Rightarrow> supervisor \<Rightarrow> audit_logger \<Rightarrow> start_stop + supervisor \<times> audit_logger" where
  "load_identity io backendURL s al =
     (case detectLegacyEnvConfig (su_env io) of LegacyExit \<Rightarrow> Inl StopLegacy
      | legacy \<Rightarrow>
         if su_env io ''FILTERREX_ENROLLMENT_TOKEN'' \<noteq> '''' then
           (case MustEnroll (su_enroll io) (su_env io) (su_hostname io) backendURL (sv_store s) of
              ((EnrollFailed e, st'), reqs) \<Rightarrow> Inl (StopEnroll e)
            | ((EnrollPanic, st'), reqs) \<Rightarrow> Inl StopPanic
            | ((Enrolled st, st'), reqs) \<Rightarrow>
                Inr (InitializeWithState st (s\<lparr>sv_store := st'\<rparr>), SetHostID (hi_HostID (hs_Identity st)) al))
         else
           (case Initialize (su_host io) (su_hid io) (su_tid io) (case legacy of LegacyFound c \<Rightarrow> Some c | _ \<Rightarrow> None) s of
              (Some e, s1) \<Rightarrow> Inl (StopInit e)
            | (None, s1) \<Rightarrow>
                Inr (s1, case sv_state s1 of None \<Rightarrow> al
                     | Some st \<Rightarrow> if hi_HostID (hs_Identity st) \<noteq> '''' then SetHostID (hi_HostID (hs_Identity st)) al else al)))"

definition set_level :: "supervisor \<Rightarrow> audit_logger \<Rightarrow> audit_logger" where
  "set_level s al = (case sv_state s of None \<Rightarrow> al | Some st \<Rightarrow> SetLevel (parseLogLevel (hc_LogLevel (hs_Config st))) al)"

definition attach_queue :: "supervisor \<Rightarrow> supervisor" where
  "attach_queue s =
     SetUploadQueue (Some (SetOnReconnect True ((NewUploadQueue DefaultUploadQueueConfig)\<lparr>uq_connectorToken := GetConnectorToken s\<rparr>))) s"

definition attach_api :: "start_io \<Rightarrow> string \<Rightarrow> change_policy_config \<Rightarrow> local_db option \<Rightarrow> supervisor \<Rightarrow> local_api option \<times> supervisor" where
  "attach_api io token pol db s =
     (case db of None \<Rightarrow> (None, s)
      | Some d \<Rightarrow>
         (let a = NewLocalAPIServer (su_api io) (su_env io) token (su_env io ''FILTERREX_LOCAL_API_BIND'') (config_dir (su_env io))
                    (Some (NewRelayHandler pol))
          in (Some a, SetLocalAPIToken token (SetLocalAPIURL (la_lanURL a) s))))"

definition sync_interval :: "supervisor \<Rightarrow> duration option" where
  "sync_interval s =
     (if GetConnectorToken s = '''' then None
      else Some (case sv_state s of None \<Rightarrow> 60 * second
                 | Some st \<Rightarrow> if hc_SyncIntervalSecs (hs_Config st) > 0 then wrap64 (hc_SyncIntervalSecs (hs_Config st) * second) else 60 * second))"

definition hybrid_db :: "start_io \<Rightarrow> local_db option" where
  "hybrid_db io = (if envBool (su_env io) ''FILTERREX_HYBRID_MODE'' then su_db io else None)"

definition initial_supervisor :: "start_io \<Rightarrow> store \<Rightarrow> supervisor" where
  "initial_supervisor io store =
     (let res = resolveBrocadeTargets (su_tk io) (su_tfs io) (su_env io)
      in registerAdapters (SetRuntimeStateDir (runtime_state_dir (su_env io)) (SetTargetConfigSource (cr_Source res)
           (SetTargetConfigDir (ci_Dir (cr_Inventory res)) (NewSupervisor store (hybrid_db io))))))"

definition initial_audit :: "environ \<Rightarrow> audit_logger" where
  "initial_audit env = InitAuditLogger (if env ''LOG_LEVEL'' = '''' then ''info'' else env ''LOG_LEVEL'') (env ''LOG_FORMAT'')"

definition change_policy_of :: "environ \<Rightarrow> change_policy_config" where
  "change_policy_of env = ParseChangePolicyFromEnv (env ''FILTERREX_REMOTE_CHANGE_POLICY'') (env ''FILTERREX_REMOTE_ALLOWED_CHANGE_OPS'')"

text \<open>The part after the store is open and the backend address is accepted.\<close>

definition run_host :: "start_io \<Rightarrow> string \<Rightarrow> string option \<Rightarrow> store \<Rightarrow> string \<Rightarrow> start_stop + host_runtime" where
  "run_host io token tokenFile store backendURL =
     (case load_identity io backendURL (initial_supervisor io store) (initial_audit (su_env io)) of Inl e \<Rightarrow> Inl e
      | Inr (s1, al1) \<Rightarrow>
         (let s2 = attach_queue (apply_flags (remote_flags (su_env io)) s1)
          in case attach_api io token (change_policy_of (su_env io)) (hybrid_db io) s2 of (api, s3) \<Rightarrow>
               (case Reconcile (su_host io) s3 of
                  (Some e, s4) \<Rightarrow> Inl (StopReconcile e)
                | (None, s4) \<Rightarrow>
                   Inr \<lparr>hr_sup = s4, hr_backend = NewBackendClient backendURL, hr_audit = set_level s2 al1, hr_api = api, hr_tokenFile = tokenFile,
                        hr_syncInterval = sync_interval s4\<rparr>)))"

definition startup :: "start_io \<Rightarrow> start_stop + host_runtime" where
  "startup io =
     (let env = su_env io
      in case local_api_token env (envBool env ''FILTERREX_HYBRID_MODE'') (su_tokenFile io) (su_newID io) (su_tokenFault io) of
           (TokenPanic, _) \<Rightarrow> Inl StopPanic
         | (Token token, tokenFile) \<Rightarrow>
            (let fs = (if ''--force-reset-state'' \<in> set (su_args io)
                       then force_reset (su_removeFails io) (path_comps (config_dir env)) (su_files io) else su_files io)
             in case NewStore (hx_cx (su_host io)) (su_faults io) (su_material io) (config_dir env) fs of None \<Rightarrow> Inl StopStore
                | Some store \<Rightarrow>
                   (case resolveBackendBase (env ''BACKEND_URL'') of Inl e \<Rightarrow> Inl StopBackend
                    | Inr backendURL \<Rightarrow> run_host io token tokenFile store backendURL)))"

section \<open>What a started host looks like\<close>

lemma startup_parts:
  assumes "startup io = Inr h"
  obtains token tokenFile store base where
    "local_api_token (su_env io) (envBool (su_env io) ''FILTERREX_HYBRID_MODE'') (su_tokenFile io) (su_newID io) (su_tokenFault io) = (Token token, tokenFile)"
    "resolveBackendBase (su_env io ''BACKEND_URL'') = Inr base" "run_host io token tokenFile store base = Inr h"
  using assms unfolding startup_def Let_def
  by (auto split: prod.splits token_outcome.splits option.splits sum.splits)

lemma run_host_parts:
  assumes "run_host io token tokenFile store base = Inr h"
  obtains s1 al1 s3 where "load_identity io base (initial_supervisor io store) (initial_audit (su_env io)) = Inr (s1, al1)"
    "attach_api io token (change_policy_of (su_env io)) (hybrid_db io) (attach_queue (apply_flags (remote_flags (su_env io)) s1)) = (hr_api h, s3)"
    "Reconcile (su_host io) s3 = (None, hr_sup h)" "hr_backend h = NewBackendClient base" "hr_syncInterval h = sync_interval (hr_sup h)"
proof -
  obtain s1 al1 where l: "load_identity io base (initial_supervisor io store) (initial_audit (su_env io)) = Inr (s1, al1)"
    using assms by (auto simp: run_host_def split: sum.splits)
  obtain api s3 where a: "attach_api io token (change_policy_of (su_env io)) (hybrid_db io)
      (attach_queue (apply_flags (remote_flags (su_env io)) s1)) = (api, s3)" by fastforce
  obtain e s4 where r: "Reconcile (su_host io) s3 = (e, s4)" by fastforce
  have "e = None" "h = \<lparr>hr_sup = s4, hr_backend = NewBackendClient base, hr_audit = set_level (attach_queue (apply_flags (remote_flags (su_env io)) s1)) al1,
      hr_api = api, hr_tokenFile = tokenFile, hr_syncInterval = sync_interval s4\<rparr>"
    using assms by (auto simp: run_host_def l a r split: option.splits)
  with that [OF l] a r show thesis by simp
qed

lemma MustEnroll_token:
  assumes "MustEnroll io env hostname url s = ((Enrolled st, s'), reqs)"
  shows "hi_ConnectorToken (hs_Identity st) \<noteq> ''''"
proof (cases "stored_identity io s")
  case None
  then have "EnrollHost io url (enrollment_token env) (host_label env hostname) s = ((Enrolled st, s'), reqs)"
    using assms by (auto simp: MustEnroll_def split: if_splits)
  then obtain kp r status reply where "judge_response io status reply = Inr r" "persist_enrollment io kp r s = (Enrolled st, s')"
    using EnrollHost_persists [OF None] by metis
  then show ?thesis using judge_response_token
    by (auto simp: persist_enrollment_def enrolled_state_def split: prod.splits option.splits if_splits)
next
  case (Some st')
  then show ?thesis using assms by (auto simp: MustEnroll_def stored_identity_def split: if_splits sum.splits option.splits)
qed

lemma load_identity_state:
  assumes "load_identity io url s al = Inr (s1, al1)"
  shows "su_env io ''FILTERREX_ENROLLMENT_TOKEN'' \<noteq> '''' \<Longrightarrow> GetConnectorToken s1 \<noteq> ''''"
    "sv_workers s = [] \<Longrightarrow> sv_workers s1 = []"
proof -
  assume "su_env io ''FILTERREX_ENROLLMENT_TOKEN'' \<noteq> ''''"
  then obtain st st' reqs where m: "MustEnroll (su_enroll io) (su_env io) (su_hostname io) url (sv_store s) = ((Enrolled st, st'), reqs)"
    "sv_state s1 = Some st"
    using assms unfolding load_identity_def InitializeWithState_def
    by (auto split: legacy_outcome.splits prod.splits enroll_outcome.splits)
  then show "GetConnectorToken s1 \<noteq> ''''" using MustEnroll_token [OF m(1)] by (simp add: GetConnectorToken_def)
next
  have i: "sv_workers (snd (Initialize hio hid tid l s)) = sv_workers s" for hio hid tid l
    by (auto simp: Initialize_def Let_def split_beta split: option.splits sum.splits list.splits prod.splits)
  assume "sv_workers s = []"
  then show "sv_workers s1 = []"
    using assms i unfolding load_identity_def InitializeWithState_def
    by (auto split: legacy_outcome.splits prod.splits enroll_outcome.splits if_splits option.splits) (metis snd_conv)+
qed

lemma attach_state:
  "attach_api io token pol db s = (api, s') \<Longrightarrow> sv_state s' = sv_state s \<and> sv_workers s' = sv_workers s \<and> sv_store s' = sv_store s"
  "sv_state (attach_queue s) = sv_state s" "sv_workers (attach_queue s) = sv_workers s" "sv_store (attach_queue s) = sv_store s"
  "sv_workers (apply_flags fl s) = sv_workers s" "sv_store (apply_flags fl s) = sv_store s"
  by (auto simp: attach_api_def attach_queue_def apply_flags_def SetUploadQueue_def SetLocalAPIToken_def SetLocalAPIURL_def Let_def split: option.splits)

lemma initial_workers: "sv_workers (initial_supervisor io store) = []"
  by (simp add: initial_supervisor_def registerAdapters_def RegisterAdapter_def SetRuntimeStateDir_def SetTargetConfigSource_def
      SetTargetConfigDir_def NewSupervisor_def Let_def)

text \<open>The state a started host runs with: the loaded one with the flags of the environment and new target statuses; it
  is the one the reconciliation has stored.\<close>

lemma started_state:
  assumes "run_host io token tokenFile store base = Inr h"
  obtains s1 al1 st ts' s5 where "load_identity io base (initial_supervisor io store) (initial_audit (su_env io)) = Inr (s1, al1)"
    and "sv_state (apply_flags (remote_flags (su_env io)) s1) = Some st" and "sv_state (hr_sup h) = Some (st\<lparr>hs_Targets := ts'\<rparr>)"
    and "save_state (su_host io) s5 = (None, hr_sup h)" and "sv_state s5 = Some (st\<lparr>hs_Targets := ts'\<rparr>)"
    and "map tp_TargetID ts' = map tp_TargetID (hs_Targets st)" and "map wanted ts' = map wanted (hs_Targets st)"
proof -
  obtain s1 al1 s3 where p: "load_identity io base (initial_supervisor io store) (initial_audit (su_env io)) = Inr (s1, al1)"
    "attach_api io token (change_policy_of (su_env io)) (hybrid_db io) (attach_queue (apply_flags (remote_flags (su_env io)) s1)) = (hr_api h, s3)"
    "Reconcile (su_host io) s3 = (None, hr_sup h)"
    using run_host_parts [OF assms] by metis
  have w: "sv_workers s3 = []" "sv_state s3 = sv_state (apply_flags (remote_flags (su_env io)) s1)"
    using attach_state(1) [OF p(2)] load_identity_state(2) [OF p(1) initial_workers] by (simp_all add: attach_state)
  obtain st where st: "sv_state s3 = Some st" using p(3) by (cases "sv_state s3") (simp_all add: Reconcile_def)
  obtain ts' where ts: "sv_state (hr_sup h) = Some (st\<lparr>hs_Targets := ts'\<rparr>)" "map tp_TargetID ts' = map tp_TargetID (hs_Targets st)"
    "map wanted ts' = map wanted (hs_Targets st)"
    using Reconcile_state [OF st, of "su_host io"] w(1) p(3) by (auto simp: workers_ok_def)
  obtain s5 where s5: "save_state (su_host io) s5 = (None, hr_sup h)"
    using p(3) st by (auto simp: Reconcile_def Let_def split: prod.splits)
  then have "sv_state s5 = sv_state (hr_sup h)" using save_state_frame(1) [of "su_host io" s5] by simp
  with that [OF p(1)] st ts s5 w(2) show thesis by simp
qed


text \<open>the opt-in to remote live queries is sticky. A start with the flag in the environment stores it with the host
  state, so every later initialization from that store enables live queries again although the environment no longer
  asks for them.\<close>

theorem remote_optin_sticks:
  assumes "startup io = Inr h" and "fst (remote_flags (su_env io))" and "clean_dir (st_configDir (sv_store (hr_sup h)))"
    and "length (hx_nonce (su_host io) 0) = nonceSize"
    and "\<And>k p. cx_open (hx_cx (su_host io)) k (hx_nonce (su_host io) 0) (cx_seal (hx_cx (su_host io)) k (hx_nonce (su_host io) 0) p) = Some p"
    and "\<And>st d. sv_state (hr_sup h) = Some st \<Longrightarrow> cx_marshalState (hx_cx (su_host io)) st = Some d \<Longrightarrow>
           cx_unmarshalState (hx_cx (su_host io)) d = Some st"
    and "hx_cx hio = hx_cx (su_host io)" and "\<not> ff_read_fails (hx_fault hio)" and "sv_store s = sv_store (hr_sup h)"
  shows "live_query_enabled (apply_flags (False, False) (snd (Initialize hio hid tid legacy s)))"
proof -
  obtain token tokenFile store base where p: "run_host io token tokenFile store base = Inr h" using startup_parts [OF assms(1)] by metis
  obtain s1 st ts' s5 where t: "sv_state (apply_flags (remote_flags (su_env io)) s1) = Some st" "sv_state (hr_sup h) = Some (st\<lparr>hs_Targets := ts'\<rparr>)"
    "save_state (su_host io) s5 = (None, hr_sup h)" "sv_state s5 = Some (st\<lparr>hs_Targets := ts'\<rparr>)"
    using started_state [OF p] by metis
  let ?st = "st\<lparr>hs_Targets := ts'\<rparr>" and ?cx = "hx_cx (su_host io)"
  have flag: "hc_RemoteLiveQueryEnabled (hs_Config ?st)" using t(1) assms(2) by (auto simp: apply_flags_def)
  obtain st5 where s5: "SaveState ?cx (hx_fault (su_host io)) (hx_nonce (su_host io) 0) ?st (sv_store s5) = (None, st5)"
    "hr_sup h = s5\<lparr>sv_store := st5\<rparr>"
    using t(3,4) by (auto simp: save_state_def split: prod.splits)
  then have s5': "st5 = sv_store (hr_sup h)" by simp
  have dir: "st_configDir (sv_store s5) = st_configDir (sv_store (hr_sup h))"
    using configDir_Save(2) [of ?cx "hx_fault (su_host io)" "hx_nonce (su_host io) 0" ?st "sv_store s5"] s5(1) s5' by simp
  have "LoadState ?cx (hx_fault hio) (sv_store s) = Inr (Some ?st)"
    unfolding assms(9) s5' [symmetric]
    by (rule SaveState_roundtrip [OF _ assms(4) assms(5) _ s5(1) assms(8)]) (use assms(3) dir assms(6) [OF t(2)] in simp_all)
  then have "sv_state (snd (Initialize hio hid tid legacy s)) = Some ?st" by (simp add: Initialize_def assms(7))
  then show ?thesis using flag by (simp add: live_query_enabled_def apply_flags_def)
qed

section \<open>Examples\<close>

definition demo_environ :: environ where
  "demo_environ k = (if k = ''FILTERREX_HYBRID_MODE'' \<or> k = ''FILTERREX_REMOTE_LIVE_QUERY'' then ''true''
     else if k = ''FILTERREX_LOCAL_API_TOKEN'' then ''secret-token'' else '''')"

definition demo_started_state :: host_state where
  "demo_started_state = (fresh_state ''h'')\<lparr>hs_Config := DefaultHostConfig\<lparr>hc_RemoteLiveQueryEnabled := True\<rparr>\<rparr>"

definition demo_start :: start_io where
  "demo_start = \<lparr>su_env = demo_environ, su_args = [], su_files = [], su_removeFails = (\<lambda>_. False),
     su_faults = \<lparr>sf_mkdir_fails = False, sf_probe_fails = False, sf_probe_stays = False, sf_key = no_fault\<rparr>, su_material = replicate 32 (CHR ''m''),
     su_tokenFile = None, su_tokenFault = None, su_newID = ''0123456789abcdef'', su_hid = ''h'', su_tid = ''t'', su_hostname = ''box'',
     su_db = Some \<lparr>ld_snapshots = [], ld_signals = [], ld_enabled = True, ld_foreign_keys = False\<rparr>,
     su_host = demo_hio\<lparr>hx_cx := demo_codec\<lparr>cx_unmarshalState := (\<lambda>_. Some demo_started_state)\<rparr>\<rparr>,
     su_enroll = demo_enroll_io ''host-0123456789'', su_api = demo_api_io, su_tk = demo_tk, su_tfs = demo_tfs\<rparr>"

lemma Reconcile_idle:
  assumes "sv_state s = Some st" and "sv_workers s = []" and "hs_Targets st = []"
  shows "Reconcile io s = save_state io s"
  using assms by (simp add: Reconcile_def Let_def)
    (metis host_state.surjective host_state.update_convs(3) supervisor.surjective supervisor.update_convs(2) host_state.select_convs(3) supervisor.select_convs(2))

lemma save_state_demo:
  assumes "sv_state s = Some st" and "st_key (sv_store s) = replicate 32 (CHR ''k'')"
  shows "\<exists>s'. save_state (su_host demo_start) s = (None, s') \<and> s' = s\<lparr>sv_store := sv_store s'\<rparr> \<and>
    st_configDir (sv_store s') = st_configDir (sv_store s) \<and> st_key (sv_store s') = st_key (sv_store s)"
proof -
  obtain e st' where s: "SaveState (hx_cx (su_host demo_start)) (hx_fault (su_host demo_start)) (hx_nonce (su_host demo_start) 0) st (sv_store s) = (e, st')"
    by fastforce
  have "e = None" using s assms(2)
    by (auto simp: SaveState_def demo_start_def demo_hio_def demo_codec_def encrypt_def aes_key_ok_def split_beta write_atomic_no_fault)
  moreover have "st_configDir st' = st_configDir (sv_store s)" "st_key st' = st_key (sv_store s)"
    using configDir_Save(2,5) [of "hx_cx (su_host demo_start)" "hx_fault (su_host demo_start)" "hx_nonce (su_host demo_start) 0" st "sv_store s"] s by simp_all
  ultimately show ?thesis using s assms(1) by (simp add: save_state_def)
qed

lemma demo_store_opens:
  "\<exists>store. NewStore (hx_cx (su_host demo_start)) (su_faults demo_start) (su_material demo_start) (config_dir demo_environ) [] = Some store \<and>
     st_configDir store = [''etc'', ''filterrex''] \<and> st_key store = replicate 32 (CHR ''k'') \<and> map_of (st_files store) (state_path store) = None"
proof -
  have d: "path_comps ''/etc/filterrex'' = [''etc'', ''filterrex'']" "config_dir demo_environ = ''/etc/filterrex''"
    by code_simp (simp add: config_dir_def demo_environ_def)
  have j: "join_path [''etc'', ''filterrex''] [''.write-probe''] = [''etc'', ''filterrex'', ''.write-probe'']"
    "join_path [''etc'', ''filterrex''] [''host.key''] = [''etc'', ''filterrex'', ''host.key'']"
    "join_path [''etc'', ''filterrex''] [''host.json.enc''] = [''etc'', ''filterrex'', ''host.json.enc'']" by code_simp+
  show ?thesis
    by (simp add: NewStore_def d checkWritable_def j demo_start_def demo_hio_def demo_codec_def loadOrCreateKey_def write_file_def no_fault_def
        state_path_def Let_def delete_conv')
qed

lemma demo_starts:
  "\<exists>h. startup demo_start = Inr h \<and> hr_api h \<noteq> None \<and> sv_state (hr_sup h) = Some demo_started_state \<and>
     st_configDir (sv_store (hr_sup h)) = [''etc'', ''filterrex'']"
proof -
  obtain store where st: "NewStore (hx_cx (su_host demo_start)) (su_faults demo_start) (su_material demo_start) (config_dir demo_environ) [] = Some store"
    "st_configDir store = [''etc'', ''filterrex'']" "st_key store = replicate 32 (CHR ''k'')" "map_of (st_files store) (state_path store) = None"
    using demo_store_opens by blast
  have base: "resolveBackendBase '''' = Inr defaultBackendBase" by code_simp
  let ?s0 = "initial_supervisor demo_start store"
  have s0: "sv_store ?s0 = store" "sv_workers ?s0 = []"
    by (simp_all add: initial_workers) (simp add: initial_supervisor_def registerAdapters_def RegisterAdapter_def SetRuntimeStateDir_def
        SetTargetConfigSource_def SetTargetConfigDir_def NewSupervisor_def Let_def)
  obtain s1 where s1: "save_state (su_host demo_start) (?s0\<lparr>sv_state := Some (fresh_state ''h'')\<rparr>) = (None, s1)"
    "s1 = ?s0\<lparr>sv_state := Some (fresh_state ''h'')\<rparr>\<lparr>sv_store := sv_store s1\<rparr>" "st_configDir (sv_store s1) = [''etc'', ''filterrex'']"
    "st_key (sv_store s1) = replicate 32 (CHR ''k'')"
    using save_state_demo [of "?s0\<lparr>sv_state := Some (fresh_state ''h'')\<rparr>" "fresh_state ''h''"] st s0 by auto
  have w1: "sv_state s1 = Some (fresh_state ''h'')" "sv_workers s1 = []"
    using save_state_frame(1,2) [of "su_host demo_start" "?s0\<lparr>sv_state := Some (fresh_state ''h'')\<rparr>"] s1(1) s0(2) by simp_all
  have i: "Initialize (su_host demo_start) ''h'' ''t'' None ?s0 = (None, s1)"
    using s1(1) st(4) by (simp add: Initialize_def LoadState_def s0)
  obtain al1 where l: "load_identity demo_start defaultBackendBase ?s0 (initial_audit demo_environ) = Inr (s1, al1)"
    using i by (auto simp: load_identity_def detectLegacyEnvConfig_def demo_start_def demo_environ_def)
  obtain api s3 where a: "attach_api demo_start ''secret-token'' (change_policy_of demo_environ) (hybrid_db demo_start)
      (attach_queue (apply_flags (remote_flags demo_environ) s1)) = (api, s3)" by fastforce
  have api: "api \<noteq> None" using a by (auto simp: attach_api_def hybrid_db_def demo_start_def envBool_def demo_environ_def Let_def)
  have s3: "sv_state s3 = Some demo_started_state" "sv_workers s3 = []" "sv_store s3 = sv_store s1"
    using attach_state(1) [OF a] w1 by (simp_all add: attach_state)
      (simp add: apply_flags_def remote_flags_def envBool_def demo_environ_def demo_started_state_def fresh_state_def DefaultHostConfig_def)
  have t: "hs_Targets demo_started_state = []" by (simp add: demo_started_state_def fresh_state_def)
  have r: "Reconcile (su_host demo_start) s3 = save_state (su_host demo_start) s3" by (rule Reconcile_idle [OF s3(1,2) t])
  obtain s4 where s4: "save_state (su_host demo_start) s3 = (None, s4)" "st_configDir (sv_store s4) = [''etc'', ''filterrex'']"
    using save_state_demo [OF s3(1)] s1(3,4) s3(3) by auto
  have "sv_state s4 = Some demo_started_state" using save_state_frame(1) [of "su_host demo_start" s3] s4(1) s3(1) by simp
  moreover have "\<exists>h. startup demo_start = Inr h \<and> hr_api h = api \<and> hr_sup h = s4"
  proof -
    have "su_env demo_start = demo_environ" "su_files demo_start = []" "su_args demo_start = []" by (simp_all add: demo_start_def)
    moreover have "local_api_token demo_environ (envBool demo_environ ''FILTERREX_HYBRID_MODE'') (su_tokenFile demo_start) (su_newID demo_start)
        (su_tokenFault demo_start) = (Token ''secret-token'', None)" by (simp add: local_api_token_def demo_environ_def demo_start_def)
    moreover have "demo_environ ''BACKEND_URL'' = ''''" by (simp add: demo_environ_def)
    ultimately show ?thesis using st(1) base l a r s4(1) by (simp add: startup_def run_host_def Let_def)
  qed
  ultimately show ?thesis using api s4(2) by blast
qed


theorem remote_optin_sticks_witness:
  "\<exists>h. startup demo_start = Inr h \<and>
     live_query_enabled (apply_flags (False, False) (snd (Initialize (su_host demo_start) ''x'' ''y'' None (hr_sup h))))"
proof -
  obtain h where h: "startup demo_start = Inr h" "sv_state (hr_sup h) = Some demo_started_state" "st_configDir (sv_store (hr_sup h)) = [''etc'', ''filterrex'']"
    using demo_starts by blast
  have io: "fst (remote_flags (su_env demo_start))" "length (hx_nonce (su_host demo_start) 0) = nonceSize"
    "cx_open (hx_cx (su_host demo_start)) k n (cx_seal (hx_cx (su_host demo_start)) k n p) = Some p"
    "cx_unmarshalState (hx_cx (su_host demo_start)) d = Some demo_started_state" "\<not> ff_read_fails (hx_fault (su_host demo_start))" for k n p d
    by (simp_all add: demo_start_def remote_flags_def envBool_def demo_environ_def demo_hio_def demo_codec_def nonceSize_def no_fault_def)
  have "clean_dir (st_configDir (sv_store (hr_sup h)))" using h(3) by (simp add: clean_dir_def)
  then show ?thesis using h remote_optin_sticks [OF h(1) io(1) _ io(2,3), of "su_host demo_start" "hr_sup h" "''x''" "''y''" None] io(4,5) by simp
qed

text \<open>A stored token of fewer than eight characters ends every start with a panic.\<close>

lemma short_stored_token_panics:
  "local_api_token (\<lambda>_. '''') True (Some ''abc'') newID fault = (TokenPanic, Some ''abc'')"
  by (simp add: local_api_token_def trim_space_def is_space_def Let_def)

text \<open>A subcommand is dispatched before anything is started, and no word after \<^verbatim>\<open>target\<close> starts the daemon.\<close>

lemma target_never_starts:
  assumes "hd args = ''target''" and "args \<noteq> []"
  shows "dispatch_code configure probe doctor (dispatch args) \<noteq> None"
  using assms by (cases args) (auto simp: dispatch_def dispatch_code_def split: list.split)

text \<open>A reset removes the state, the key and every secret, and nothing else.\<close>

lemma reset_exact:
  "map_of (force_reset (\<lambda>_. False) dir fs) p = (if p \<in> set (reset_targets dir fs) then None else map_of fs p)"
  by (simp add: force_reset_def file_kv.get_del_all)

end
