(* ===== verification/EvidenceBundle.thy ===== *)
theory EvidenceBundle
  imports TargetIdentity "HOL-Library.List_Lexorder" "HOL-Library.Char_ord"
begin

text \<open>
  The evidence bundle writer (evidencebundle/): the embedded command profile, path sanitization, the
  packaging of captured command outputs and the assembly from a directory. Time formatting, SHA-256
  and the JSON encoding of manifest and summary are parameters (\<open>bundle_codec\<close>); an archive is the
  list of its entries, whose deflated form is that of archive/zip.
\<close>

section \<open>The command profile\<close>

record profile_command =
  pc_ID :: string
  pc_Exec :: string
  pc_Filename :: string
  pc_SupportLevel :: string
  pc_Importance :: string

record command_profile =
  pf_ProfileVersion :: string
  pf_Vendor :: string
  pf_Defaults :: "(string \<times> string) list"
  pf_Commands :: "profile_command list"

definition BundleVersion :: string where "BundleVersion = ''1.0''"
definition Vendor :: string where "Vendor = ''brocade-fos''"
definition BundleRoot :: string where "BundleRoot = ''filterrex-evidence-bundle''"
definition CollectionMethodAgent :: string where "CollectionMethodAgent = ''agent''"

text \<open>The commands of brocade_command_profile.json: id, command line, file name, support level, importance.\<close>

definition profile_cmd :: "string \<Rightarrow> string \<Rightarrow> string \<Rightarrow> string \<Rightarrow> string \<Rightarrow> profile_command" where
  "profile_cmd i e f s imp = \<lparr>pc_ID = i, pc_Exec = e, pc_Filename = f, pc_SupportLevel = s, pc_Importance = imp\<rparr>"

definition embeddedProfile :: command_profile where
  "embeddedProfile = \<lparr>pf_ProfileVersion = ''1.0'', pf_Vendor = ''brocade-fos'', pf_Defaults = [(''port_range'', ''0-895'')],
     pf_Commands = [
       profile_cmd ''switchshow'' ''switchshow'' ''switchshow.txt'' ''parsed'' ''recommended'',
       profile_cmd ''fabricshow'' ''fabricshow'' ''fabricshow.txt'' ''parsed'' ''recommended'',
       profile_cmd ''nsshow'' ''nsshow'' ''nsshow.txt'' ''parsed'' ''recommended'',
       profile_cmd ''cfgshow'' ''cfgshow'' ''cfgshow.txt'' ''parsed'' ''required'',
       profile_cmd ''zoneshow'' ''zoneshow'' ''zoneshow.txt'' ''parsed'' ''optional'',
       profile_cmd ''version'' ''version'' ''version.txt'' ''parsed'' ''recommended'',
       profile_cmd ''firmwareshow'' ''firmwareshow'' ''firmwareshow.txt'' ''parsed'' ''optional'',
       profile_cmd ''portshow'' ''portshow -i {port_range} -f'' ''portshow.txt'' ''parsed'' ''optional'',
       profile_cmd ''chassisshow'' ''chassisshow'' ''chassisshow.txt'' ''parsed'' ''optional'',
       profile_cmd ''sfpshow -all'' ''sfpshow -all'' ''sfpshow-all.txt'' ''supporting_only'' ''optional'',
       profile_cmd ''portloginshow'' ''portloginshow'' ''portloginshow.txt'' ''supporting_only'' ''optional'',
       profile_cmd ''errdump'' ''errdump'' ''errdump.txt'' ''supporting_only'' ''optional'',
       profile_cmd ''slotshow'' ''slotshow'' ''slotshow.txt'' ''supporting_only'' ''optional'',
       profile_cmd ''islshow'' ''islshow'' ''islshow.txt'' ''supporting_only'' ''optional'',
       profile_cmd ''trunkshow'' ''trunkshow'' ''trunkshow.txt'' ''supporting_only'' ''optional'',
       profile_cmd ''portcfgshow'' ''portcfgshow'' ''portcfgshow.txt'' ''supporting_only'' ''optional'',
       profile_cmd ''porterrshow'' ''porterrshow'' ''porterrshow.txt'' ''supporting_only'' ''optional'']\<rparr>"

datatype bundle_error = ProfileVendorMismatch | FolderCollision string string string | UnknownCommand string string
  | DuplicateCapture string string | FilenameMismatch string string string string | UnsafePath string string
  | PathCollision string string string
  | MarshalManifestError | MarshalSummaryError | InventoryTimeError | SwitchDirError string | NoCommandForFile string
  | CaptureReadError string

definition loadEmbeddedProfile :: "bundle_error + command_profile" where
  "loadEmbeddedProfile = (if pf_Vendor embeddedProfile \<noteq> Vendor then Inl ProfileVendorMismatch else Inr embeddedProfile)"

definition by_id :: "command_profile \<Rightarrow> string \<Rightarrow> profile_command option" where
  "by_id p i = map_of (rev (map (\<lambda>c. (pc_ID c, c)) (pf_Commands p))) i"

definition ProfileCommands :: "bundle_error + profile_command list" where
  "ProfileCommands = (case loadEmbeddedProfile of Inl e \<Rightarrow> Inl e | Inr p \<Rightarrow> Inr (pf_Commands p))"

definition DefaultPortRange :: string where
  "DefaultPortRange = (case loadEmbeddedProfile of Inl e \<Rightarrow> ''''
     | Inr p \<Rightarrow> (case map_of (pf_Defaults p) ''port_range'' of None \<Rightarrow> '''' | Some r \<Rightarrow> r))"

definition CommandForFilename :: "string \<Rightarrow> string option" where
  "CommandForFilename filename = (case loadEmbeddedProfile of Inl e \<Rightarrow> None
     | Inr p \<Rightarrow> map_option pc_ID (find (\<lambda>c. pc_Filename c = filename) (pf_Commands p)))"

definition FilenameForCommand :: "string \<Rightarrow> string option" where
  "FilenameForCommand command = (case loadEmbeddedProfile of Inl e \<Rightarrow> None | Inr p \<Rightarrow> map_option pc_Filename (by_id p command))"

definition SupportLevelForCommand :: "string \<Rightarrow> string option" where
  "SupportLevelForCommand command = (case loadEmbeddedProfile of Inl e \<Rightarrow> None | Inr p \<Rightarrow> map_option pc_SupportLevel (by_id p command))"

definition ProfileVersion :: string where
  "ProfileVersion = (case loadEmbeddedProfile of Inl e \<Rightarrow> '''' | Inr p \<Rightarrow> pf_ProfileVersion p)"

section \<open>Paths, roles and captures\<close>

text \<open>\<open>\s+\<close> of Go's regexp: tab, newline, form feed, carriage return, space.\<close>

definition re_space :: "char \<Rightarrow> bool" where
  "re_space c = (char_code c \<in> {9, 10, 12, 13, 32})"

fun squeeze :: "bool \<Rightarrow> string \<Rightarrow> string" where
  "squeeze inrun [] = []"
| "squeeze inrun (c # s) = (if re_space c then (if inrun then squeeze True s else CHR ''-'' # squeeze True s) else c # squeeze False s)"

definition trim_cutset :: "string \<Rightarrow> string \<Rightarrow> string" where
  "trim_cutset cs s = rev (dropWhile (\<lambda>c. c \<in> set cs) (rev (dropWhile (\<lambda>c. c \<in> set cs) s)))"

definition sanitizeSegment :: "string \<Rightarrow> string \<Rightarrow> string" where
  "sanitizeSegment value fallback =
     (let v = trim_space value;
          v1 = map (\<lambda>c. if c = CHR ''/'' \<or> c = CHR 0x5C then CHR ''-'' else c) v;
          v2 = squeeze False v1;
          v3 = filter safe_char v2;
          v4 = trim_cutset ''-._'' v3
      in if v4 = '''' then fallback else v4)"

definition isUnsafeBundlePath :: "string \<Rightarrow> bool" where
  "isUnsafeBundlePath p =
     (p = '''' \<or> has_prefix p ''/'' \<or> has_prefix p [CHR 0x5C] \<or>
      list_ex (\<lambda>seg. seg = ''..'') (split_on (CHR ''/'') (map (\<lambda>c. if c = CHR 0x5C then CHR ''/'' else c) p)))"

record command_capture =
  cap_SwitchName :: string
  cap_FabricRole :: string
  cap_Command :: string
  cap_Filename :: string
  cap_Stdout :: string
  cap_Stderr :: string
  cap_ExitCode :: int
  cap_TimedOut :: bool
  cap_CollectedAt :: time

definition captureOK :: "command_capture \<Rightarrow> bool" where
  "captureOK c = (cap_ExitCode c = 0 \<and> \<not> cap_TimedOut c \<and> trim_space (cap_Stdout c) \<noteq> '''')"

definition normalizeRole :: "string \<Rightarrow> string" where
  "normalizeRole role =
     (let r = to_lower (trim_space role)
      in if r = ''source'' then ''source'' else if r = ''target'' then ''target'' else ''unknown'')"


section \<open>Manifest, summary and result\<close>

record manifest_file =
  mf_Command :: string
  mf_Path :: string
  mf_SHA256 :: string
  mf_CollectedAt :: string

record switch_meta =
  me_SwitchName :: string
  me_FID :: "int option"
  me_WWN :: string
  me_DomainID :: "int option"
  me_Model :: string
  me_Notes :: string

record manifest_switch =
  ms_SwitchName :: string
  ms_Files :: "manifest_file list"
  ms_WWN :: string
  ms_DomainID :: "int option"
  ms_FID :: "int option"
  ms_Model :: string
  ms_Notes :: string

record bundle_manifest =
  bm_BundleVersion :: string
  bm_CollectionMethod :: string
  bm_CustomerSupplied :: bool
  bm_CollectedAt :: string
  bm_FabricRole :: string
  bm_Vendor :: string
  bm_Switches :: "manifest_switch list"

record bundle_summary =
  bs_Collector :: string
  bs_ProfileVersion :: string
  bs_SwitchesAttempted :: nat
  bs_CommandsAttempted :: nat
  bs_CommandsSucceeded :: nat
  bs_CommandsFailed :: nat
  bs_StartedAt :: string
  bs_FinishedAt :: string
  bs_FabricRole :: string

record build_options =
  bo_CollectionMethod :: string
  bo_FabricRole :: string
  bo_CustomerSupplied :: bool
  bo_CollectedAt :: time
  bo_SwitchMeta :: "switch_meta list"
  bo_Collector :: string

record build_result =
  br_Zip :: "(string \<times> string) list"
  br_Manifest :: bundle_manifest
  br_Summary :: bundle_summary
  br_Log :: string

record bundle_codec =
  bc_iso :: "time \<Rightarrow> string"
  bc_sha256hex :: "string \<Rightarrow> string"
  bc_marshalManifest :: "bundle_manifest \<Rightarrow> string option"
  bc_marshalSummary :: "bundle_summary \<Rightarrow> string option"
  bc_parseTime :: "string \<Rightarrow> time option"

definition isoOrEmpty :: "bundle_codec \<Rightarrow> time \<Rightarrow> string" where
  "isoOrEmpty bc t = (if t = zero_time then '''' else bc_iso bc t)"

section \<open>Building\<close>

record switch_group =
  sg_name :: string
  sg_role :: string
  sg_safeName :: string
  sg_captures :: "command_capture list"

definition new_group :: "command_capture \<Rightarrow> switch_group" where
  "new_group c = \<lparr>sg_name = cap_SwitchName c, sg_role = normalizeRole (cap_FabricRole c),
     sg_safeName = sanitizeSegment (cap_SwitchName c) ''switch'', sg_captures = [c]\<rparr>"

fun add_capture :: "command_capture \<Rightarrow> switch_group list \<Rightarrow> switch_group list" where
  "add_capture c [] = [new_group c]"
| "add_capture c (g # gs) =
     (if sg_name g = cap_SwitchName c then g\<lparr>sg_captures := sg_captures g @ [c]\<rparr> # gs else g # add_capture c gs)"

definition group_captures :: "command_capture list \<Rightarrow> switch_group list" where
  "group_captures captures = fold add_capture captures []"

definition folder :: "switch_group \<Rightarrow> string" where
  "folder g = sg_role g @ ''/'' @ sg_safeName g"

fun check_folders :: "(string \<times> string) list \<Rightarrow> switch_group list \<Rightarrow> bundle_error option" where
  "check_folders owners [] = None"
| "check_folders owners (g # gs) =
     (case map_of owners (folder g) of
        Some owner \<Rightarrow> if owner \<noteq> sg_name g then Some (FolderCollision owner (sg_name g) (folder g))
                       else check_folders (AList.update (folder g) (sg_name g) owners) gs
      | None \<Rightarrow> check_folders (AList.update (folder g) (sg_name g) owners) gs)"

fun index_captures ::
  "string list \<Rightarrow> string \<Rightarrow> command_capture list \<Rightarrow> (string \<times> command_capture) list
   \<Rightarrow> bundle_error + (string \<times> command_capture) list" where
  "index_captures known name [] byCmd = Inr byCmd"
| "index_captures known name (c # cs) byCmd =
     (if cap_Command c \<notin> set known then Inl (UnknownCommand (cap_Command c) name)
      else if map_of byCmd (cap_Command c) \<noteq> None then Inl (DuplicateCapture (cap_Command c) name)
      else index_captures known name cs ((cap_Command c, c) # byCmd))"

text \<open>The accumulators of the packaging loop.\<close>

record bundle_acc =
  ba_filesByRel :: "(string \<times> string) list"
  ba_relOwner :: "(string \<times> string) list"
  ba_attempted :: nat
  ba_succeeded :: nat
  ba_failed :: nat
  ba_log :: "string list"

definition rel_path :: "switch_group \<Rightarrow> profile_command \<Rightarrow> string" where
  "rel_path g pc = sg_role g @ ''/'' @ sg_safeName g @ ''/'' @ pc_Filename pc"

definition backquoted :: "string \<Rightarrow> string" where "backquoted s = [CHR 0x60] @ s @ [CHR 0x60]"

definition manifest_entry :: "bundle_codec \<Rightarrow> switch_group \<Rightarrow> profile_command \<Rightarrow> command_capture \<Rightarrow> manifest_file" where
  "manifest_entry bc g pc c = \<lparr>mf_Command = pc_ID pc, mf_Path = rel_path g pc,
     mf_SHA256 = bc_sha256hex bc (cap_Stdout c), mf_CollectedAt = isoOrEmpty bc (cap_CollectedAt c)\<rparr>"

definition failure_line :: "switch_group \<Rightarrow> profile_command \<Rightarrow> command_capture \<Rightarrow> string" where
  "failure_line g pc c =
     (let status = (if cap_TimedOut c then ''timeout'' else ''exit='' @ show_int (cap_ExitCode c))
      in ''['' @ status @ ''] '' @ sg_name g @ '': '' @ backquoted (pc_ID pc) @ '' '' @ em_dash @ '' not included in manifest'')"

fun package_commands ::
  "bundle_codec \<Rightarrow> switch_group \<Rightarrow> (string \<times> command_capture) list \<Rightarrow> profile_command list \<Rightarrow> string list
   \<Rightarrow> manifest_file list \<Rightarrow> bundle_acc \<Rightarrow> bundle_error + manifest_file list \<times> bundle_acc" where
  "package_commands bc g byCmd [] seenCmd files a = Inr (files, a)"
| "package_commands bc g byCmd (pc # pcs) seenCmd files a =
     (case map_of byCmd (pc_ID pc) of
        None \<Rightarrow> package_commands bc g byCmd pcs seenCmd files a
      | Some c \<Rightarrow>
         (let a1 = a\<lparr>ba_attempted := Suc (ba_attempted a)\<rparr>; rel = rel_path g pc
          in if pc_ID pc \<in> set seenCmd then Inl (DuplicateCapture (pc_ID pc) (sg_name g))
             else if cap_Filename c \<noteq> '''' \<and> cap_Filename c \<noteq> pc_Filename pc then
               Inl (FilenameMismatch (pc_ID pc) (sg_name g) (cap_Filename c) (pc_Filename pc))
             else if \<not> captureOK c then
               package_commands bc g byCmd pcs (pc_ID pc # seenCmd) files
                 (a1\<lparr>ba_failed := Suc (ba_failed a1), ba_log := ba_log a1 @ [failure_line g pc c]\<rparr>)
             else if isUnsafeBundlePath rel then Inl (UnsafePath rel (sg_name g))
             else if map_of (ba_relOwner a1) rel \<noteq> None then
               Inl (PathCollision rel (the (map_of (ba_relOwner a1) rel)) (sg_name g))
             else package_commands bc g byCmd pcs (pc_ID pc # seenCmd) (files @ [manifest_entry bc g pc c])
                    (a1\<lparr>ba_relOwner := AList.update rel (sg_name g) (ba_relOwner a1),
                        ba_filesByRel := AList.update rel (cap_Stdout c) (ba_filesByRel a1),
                        ba_succeeded := Suc (ba_succeeded a1),
                        ba_log := ba_log a1 @ [''[ok] '' @ sg_name g @ '': '' @ backquoted (pc_ID pc)]\<rparr>)))"

definition manifest_switch_of :: "(string \<times> switch_meta) list \<Rightarrow> switch_group \<Rightarrow> manifest_file list \<Rightarrow> manifest_switch" where
  "manifest_switch_of metaByName g files =
     (case map_of metaByName (sg_name g) of
        None \<Rightarrow> \<lparr>ms_SwitchName = sg_name g, ms_Files = files, ms_WWN = '''', ms_DomainID = None, ms_FID = None,
                  ms_Model = '''', ms_Notes = ''''\<rparr>
      | Some me \<Rightarrow> \<lparr>ms_SwitchName = sg_name g, ms_Files = files, ms_WWN = me_WWN me, ms_DomainID = me_DomainID me,
                  ms_FID = me_FID me, ms_Model = me_Model me, ms_Notes = me_Notes me\<rparr>)"

fun package_groups ::
  "bundle_codec \<Rightarrow> command_profile \<Rightarrow> (string \<times> switch_meta) list \<Rightarrow> switch_group list \<Rightarrow> manifest_switch list
   \<Rightarrow> bundle_acc \<Rightarrow> bundle_error + manifest_switch list \<times> bundle_acc" where
  "package_groups bc p metaByName [] switches a = Inr (switches, a)"
| "package_groups bc p metaByName (g # gs) switches a =
     (case index_captures (map pc_ID (pf_Commands p)) (sg_name g) (sg_captures g) [] of Inl e \<Rightarrow> Inl e
      | Inr byCmd \<Rightarrow>
         (case package_commands bc g byCmd (pf_Commands p) [] [] a of Inl e \<Rightarrow> Inl e
          | Inr (files, a') \<Rightarrow>
             package_groups bc p metaByName gs (switches @ [manifest_switch_of metaByName g files]) a'))"

definition bundle_role :: "string \<Rightarrow> string list \<Rightarrow> string" where
  "bundle_role optRole roles =
     (if optRole = '''' \<or> to_lower optRole = ''auto''
      then (case remdups roles of [r] \<Rightarrow> r | _ \<Rightarrow> ''unknown'')
      else normalizeRole optRole)"

definition writeZip ::
  "bundle_codec \<Rightarrow> bundle_manifest \<Rightarrow> bundle_summary \<Rightarrow> string \<Rightarrow> (string \<times> string) list
   \<Rightarrow> bundle_error + (string \<times> string) list" where
  "writeZip bc manifest summary logText filesByRel =
     (case bc_marshalManifest bc manifest of None \<Rightarrow> Inl MarshalManifestError
      | Some manifestJSON \<Rightarrow>
         (case bc_marshalSummary bc summary of None \<Rightarrow> Inl MarshalSummaryError
          | Some summaryJSON \<Rightarrow>
             (let rels = sort (map fst filesByRel)
              in Inr ([(BundleRoot @ ''/manifest.json'', manifestJSON @ [CHR 0x0A]),
                       (BundleRoot @ ''/collection-log.txt'', logText),
                       (BundleRoot @ ''/collection-summary.json'', summaryJSON @ [CHR 0x0A])] @
                      map (\<lambda>rel. (BundleRoot @ ''/'' @ rel, the (map_of filesByRel rel))) rels))))"

definition summary_line :: "bundle_acc \<Rightarrow> nat \<Rightarrow> string" where
  "summary_line a n = ''Summary: '' @ show_int (int (ba_succeeded a)) @ ''/'' @ show_int (int (ba_attempted a)) @
     '' commands captured across '' @ show_int (int n) @ '' switch(es); '' @ show_int (int (ba_failed a)) @ '' failed.''"

definition collected_at :: "time \<Rightarrow> build_options \<Rightarrow> time" where
  "collected_at now opts = (if bo_CollectedAt opts = zero_time then now else bo_CollectedAt opts)"

definition finish_bundle ::
  "bundle_codec \<Rightarrow> command_profile \<Rightarrow> time \<Rightarrow> build_options \<Rightarrow> switch_group list \<Rightarrow> manifest_switch list \<Rightarrow> bundle_acc
   \<Rightarrow> bundle_error + build_result" where
  "finish_bundle bc p now opts groups switches a =
     (let meth = (if bo_CollectionMethod opts = '''' then CollectionMethodAgent else bo_CollectionMethod opts);
          tstamp = bc_iso bc (collected_at now opts);
          collector = (if bo_Collector opts = '''' then ''filterrex_agent_brocade'' else bo_Collector opts);
          role = bundle_role (bo_FabricRole opts) (map sg_role groups);
          manifest = \<lparr>bm_BundleVersion = BundleVersion, bm_CollectionMethod = meth,
            bm_CustomerSupplied = bo_CustomerSupplied opts, bm_CollectedAt = tstamp,
            bm_FabricRole = role, bm_Vendor = Vendor, bm_Switches = switches\<rparr>;
          summary = \<lparr>bs_Collector = collector, bs_ProfileVersion = pf_ProfileVersion p,
            bs_SwitchesAttempted = length groups, bs_CommandsAttempted = ba_attempted a,
            bs_CommandsSucceeded = ba_succeeded a, bs_CommandsFailed = ba_failed a,
            bs_StartedAt = tstamp, bs_FinishedAt = tstamp, bs_FabricRole = role\<rparr>;
          logText = intercalate (CHR 0x0A) (ba_log a @ [summary_line a (length groups)]) @ [CHR 0x0A]
      in case writeZip bc manifest summary logText (ba_filesByRel a) of Inl e \<Rightarrow> Inl e
         | Inr z \<Rightarrow> Inr \<lparr>br_Zip = z, br_Manifest = manifest, br_Summary = summary, br_Log = logText\<rparr>)"

definition start_acc :: "string list \<Rightarrow> bundle_acc" where
  "start_acc lg = \<lparr>ba_filesByRel = [], ba_relOwner = [], ba_attempted = 0, ba_succeeded = 0, ba_failed = 0, ba_log = lg\<rparr>"

definition build_with ::
  "bundle_codec \<Rightarrow> command_profile \<Rightarrow> time \<Rightarrow> command_capture list \<Rightarrow> build_options \<Rightarrow> bundle_error + build_result" where
  "build_with bc p now captures opts =
     (let metaByName = rev (map (\<lambda>m. (me_SwitchName m, m)) (bo_SwitchMeta opts));
          groups = group_captures captures
      in case check_folders [] groups of Some e \<Rightarrow> Inl e
         | None \<Rightarrow>
            (case package_groups bc p metaByName groups []
                    (start_acc [''FilterREX Brocade agent bundle '' @ bc_iso bc (collected_at now opts)]) of Inl e \<Rightarrow> Inl e
             | Inr (switches, a) \<Rightarrow> finish_bundle bc p now opts groups switches a))"

definition BuildEvidenceBundle ::
  "bundle_codec \<Rightarrow> time \<Rightarrow> command_capture list \<Rightarrow> build_options \<Rightarrow> bundle_error + build_result" where
  "BuildEvidenceBundle bc now captures opts =
     (case loadEmbeddedProfile of Inl e \<Rightarrow> Inl e | Inr p \<Rightarrow> build_with bc p now captures opts)"


section \<open>Bundles from a directory\<close>

record inventory_switch =
  is_SwitchName :: string
  is_FabricRole :: string
  is_FID :: "int option"
  is_WWN :: string
  is_DomainID :: "int option"
  is_Model :: string
  is_Notes :: string

record inventory =
  iv_CollectedAt :: string
  iv_FabricRole :: string
  iv_CustomerSupplied :: bool
  iv_Switches :: "inventory_switch list"

text \<open>A directory listing gives each entry's name and whether it is a directory.\<close>

record capture_dir =
  cd_list :: "string \<Rightarrow> (string \<times> bool) list option"
  cd_read :: "string \<Rightarrow> string option"

definition parseInventoryTime :: "bundle_codec \<Rightarrow> string \<Rightarrow> time option" where
  "parseInventoryTime bc s = (if trim_space s = '''' then None else bc_parseTime bc s)"

fun read_captures ::
  "capture_dir \<Rightarrow> inventory_switch \<Rightarrow> string \<Rightarrow> time \<Rightarrow> string \<Rightarrow> string list \<Rightarrow> bundle_error + command_capture list" where
  "read_captures d s role collectedAt switchDir [] = Inr []"
| "read_captures d s role collectedAt switchDir (fname # fs) =
     (case CommandForFilename fname of None \<Rightarrow> Inl (NoCommandForFile fname)
      | Some command \<Rightarrow>
         (case cd_read d (filepath_join [switchDir, fname]) of None \<Rightarrow> Inl (CaptureReadError fname)
          | Some content \<Rightarrow>
             (case read_captures d s role collectedAt switchDir fs of Inl e \<Rightarrow> Inl e
              | Inr cs \<Rightarrow> Inr (\<lparr>cap_SwitchName = is_SwitchName s, cap_FabricRole = role, cap_Command = command, cap_Filename = fname,
                  cap_Stdout = content, cap_Stderr = '''', cap_ExitCode = 0, cap_TimedOut = False,
                  cap_CollectedAt = collectedAt\<rparr> # cs))))"

definition switch_captures ::
  "capture_dir \<Rightarrow> string \<Rightarrow> inventory \<Rightarrow> time \<Rightarrow> inventory_switch \<Rightarrow> bundle_error + command_capture list" where
  "switch_captures d inputDir ivt collectedAt s =
     (let role = (if is_FabricRole s = '''' then iv_FabricRole ivt else is_FabricRole s);
          switchDir = filepath_join [inputDir, normalizeRole role, sanitizeSegment (is_SwitchName s) ''switch'']
      in case cd_list d switchDir of None \<Rightarrow> Inl (SwitchDirError switchDir)
         | Some entries \<Rightarrow>
            read_captures d s role collectedAt switchDir
              (sort (map fst (filter (\<lambda>(n, isDir). \<not> isDir \<and> has_suffix n ''.txt'') entries))))"

fun all_captures ::
  "capture_dir \<Rightarrow> string \<Rightarrow> inventory \<Rightarrow> time \<Rightarrow> inventory_switch list \<Rightarrow> bundle_error + command_capture list" where
  "all_captures d inputDir ivt collectedAt [] = Inr []"
| "all_captures d inputDir ivt collectedAt (s # ss) =
     (case switch_captures d inputDir ivt collectedAt s of Inl e \<Rightarrow> Inl e
      | Inr cs \<Rightarrow> (case all_captures d inputDir ivt collectedAt ss of Inl e \<Rightarrow> Inl e | Inr cs' \<Rightarrow> Inr (cs @ cs')))"

definition meta_of_inventory :: "inventory_switch \<Rightarrow> switch_meta" where
  "meta_of_inventory s = \<lparr>me_SwitchName = is_SwitchName s, me_FID = is_FID s, me_WWN = is_WWN s,
     me_DomainID = is_DomainID s, me_Model = is_Model s, me_Notes = is_Notes s\<rparr>"

definition BuildFromDirectory ::
  "bundle_codec \<Rightarrow> capture_dir \<Rightarrow> time \<Rightarrow> string \<Rightarrow> inventory \<Rightarrow> string \<Rightarrow> bundle_error + build_result" where
  "BuildFromDirectory bc d now inputDir ivt collectionMethod =
     (case parseInventoryTime bc (iv_CollectedAt ivt) of None \<Rightarrow> Inl InventoryTimeError
      | Some collectedAt \<Rightarrow>
         (case all_captures d inputDir ivt collectedAt (iv_Switches ivt) of Inl e \<Rightarrow> Inl e
          | Inr captures \<Rightarrow>
             BuildEvidenceBundle bc now captures
               \<lparr>bo_CollectionMethod = collectionMethod, bo_FabricRole = iv_FabricRole ivt,
                bo_CustomerSupplied = iv_CustomerSupplied ivt, bo_CollectedAt = collectedAt,
                bo_SwitchMeta = map meta_of_inventory (iv_Switches ivt), bo_Collector = ''''\<rparr>))"

section \<open>Safe paths\<close>

definition profile_ok :: "command_profile \<Rightarrow> bool" where
  "profile_ok p = (distinct (map pc_ID (pf_Commands p)) \<and> distinct (map pc_Filename (pf_Commands p)) \<and>
     list_all (\<lambda>pc. list_all safe_char (pc_Filename pc) \<and> pc_Filename pc \<notin> {'''', ''..''}) (pf_Commands p))"

lemma embedded_profile: "loadEmbeddedProfile = Inr embeddedProfile" "profile_ok embeddedProfile"
  by (simp add: loadEmbeddedProfile_def embeddedProfile_def Vendor_def) code_simp

definition clean_segment :: "string \<Rightarrow> bool" where
  "clean_segment s = (list_all safe_char s \<and> s \<noteq> '''' \<and> s \<noteq> ''..'')"

lemma safe_char_no_sep: "safe_char c \<Longrightarrow> c \<noteq> CHR ''/'' \<and> c \<noteq> CHR 0x5C"
  by (auto simp: safe_char_def in_range_def char_code_def)

lemma sanitize_clean: "clean_segment (sanitizeSegment v ''switch'')"
proof -
  define t where "t = filter safe_char (squeeze False (map (\<lambda>c. if c = CHR ''/'' \<or> c = CHR 0x5C then CHR ''-'' else c) (trim_space v)))"
  define w where "w = trim_cutset ''-._'' t"
  have s: "sanitizeSegment v ''switch'' = (if w = '''' then ''switch'' else w)"
    by (simp add: sanitizeSegment_def Let_def w_def t_def)
  have "set w \<subseteq> set t" unfolding w_def trim_cutset_def by (auto dest!: set_dropWhileD)
  then have "list_all safe_char w" by (auto simp: list_all_iff t_def)
  moreover have "w \<noteq> ''..''"
  proof
    let ?D = "dropWhile (\<lambda>c. c \<in> set ''-._'') (rev (dropWhile (\<lambda>c. c \<in> set ''-._'') t))"
    assume "w = ''..''"
    then have "rev ?D = ''..''" unfolding w_def trim_cutset_def .
    then have "?D = rev ''..''" using rev_swap by blast
    then have d: "?D = CHR ''.'' # ''.''" by simp
    have "\<not> (CHR ''.'' \<in> set ''-._'')" by (rule dropWhile_eq_Cons_conv [THEN iffD1, OF d, THEN conjunct2])
    then show False by simp
  qed
  moreover have "clean_segment ''switch''" by code_simp
  ultimately show ?thesis by (simp add: s clean_segment_def)
qed

lemma normalizeRole_cases: "normalizeRole r \<in> {''source'', ''target'', ''unknown''}"
  by (simp add: normalizeRole_def Let_def)

lemma clean_segment_chars:
  "clean_segment s \<Longrightarrow> CHR ''/'' \<notin> set s \<and> CHR 0x5C \<notin> set s \<and> map (\<lambda>c. if c = CHR 0x5C then CHR ''/'' else c) s = s"
proof -
  assume "clean_segment s"
  then have "\<forall>c \<in> set s. c \<noteq> CHR ''/'' \<and> c \<noteq> CHR 0x5C"
    using safe_char_no_sep unfolding clean_segment_def list_all_iff by blast
  then show ?thesis by (intro conjI map_idI) auto
qed

lemma clean_role: "clean_segment (normalizeRole r)"
proof -
  have "clean_segment ''source''" "clean_segment ''target''" "clean_segment ''unknown''" by code_simp+
  then show ?thesis using normalizeRole_cases [of r] by auto
qed

lemma three_segments_safe:
  assumes "clean_segment a" and "clean_segment b" and "clean_segment c"
  shows "\<not> isUnsafeBundlePath (a @ ''/'' @ b @ ''/'' @ c)"
proof -
  let ?p = "a @ ''/'' @ b @ ''/'' @ c"
  have m: "map (\<lambda>c. if c = CHR 0x5C then CHR ''/'' else c) ?p = ?p" using assms clean_segment_chars by simp
  have "split_on (CHR ''/'') ?p = [a, b, c]"
    using assms clean_segment_chars by (simp add: split_on_append split_on_plain)
  moreover have "a \<noteq> ''..''" "b \<noteq> ''..''" "c \<noteq> ''..''" "a \<noteq> ''''" using assms by (simp_all add: clean_segment_def)
  moreover have "hd a \<noteq> CHR ''/''" "hd a \<noteq> CHR 0x5C"
    using assms(1) clean_segment_chars [OF assms(1)] by (metis clean_segment_def list.set_sel(1))+
  ultimately show ?thesis unfolding isUnsafeBundlePath_def m by (cases a) auto
qed

lemma segments_inj:
  assumes "CHR ''/'' \<notin> set c" and "CHR ''/'' \<notin> set d" and "x @ CHR ''/'' # c = y @ CHR ''/'' # d"
  shows "x = y \<and> c = d"
proof -
  have "x @ CHR ''/'' # c = y @ CHR ''/'' # d \<Longrightarrow> CHR ''/'' \<notin> set c \<Longrightarrow> CHR ''/'' \<notin> set d \<Longrightarrow> x = y \<and> c = d" for x y
  proof (induction x arbitrary: y)
    case Nil
    then show ?case by (cases y) auto
  next
    case (Cons a x)
    then show ?case by (cases y) auto
  qed
  then show ?thesis using assms by blast
qed


section \<open>Grouping\<close>

definition groups_of :: "command_capture list \<Rightarrow> switch_group list \<Rightarrow> bool" where
  "groups_of cs gs = (distinct (map sg_name gs) \<and> sg_name ` set gs = cap_SwitchName ` set cs \<and>
     (\<forall>g \<in> set gs. sg_captures g = filter (\<lambda>c. cap_SwitchName c = sg_name g) cs \<and>
        (\<exists>r. sg_role g = normalizeRole r) \<and> sg_safeName g = sanitizeSegment (sg_name g) ''switch''))"

lemma add_capture_names:
  "map sg_name (add_capture c gs) =
     (if cap_SwitchName c \<in> sg_name ` set gs then map sg_name gs else map sg_name gs @ [cap_SwitchName c])"
  by (induction gs) (auto simp: new_group_def)

lemma add_capture_mem:
  assumes "distinct (map sg_name gs)" and "g \<in> set (add_capture c gs)"
  shows "(g \<in> set gs \<and> sg_name g \<noteq> cap_SwitchName c) \<or>
     (g = new_group c \<and> cap_SwitchName c \<notin> sg_name ` set gs) \<or>
     (\<exists>g0 \<in> set gs. sg_name g0 = cap_SwitchName c \<and> g = g0\<lparr>sg_captures := sg_captures g0 @ [c]\<rparr>)"
  using assms
proof (induction gs)
  case (Cons a gs)
  have "sg_name a \<notin> sg_name ` set gs" using Cons.prems(1) by simp
  then have n: "sg_name x \<noteq> sg_name a" if "x \<in> set gs" for x using that by (metis imageI)
  show ?case
  proof (cases "sg_name a = cap_SwitchName c")
    case True
    with Cons.prems(2) consider "g = a\<lparr>sg_captures := sg_captures a @ [c]\<rparr>" | "g \<in> set gs" by auto
    then show ?thesis using True n by cases auto
  qed (use Cons in auto)
qed simp

lemma add_capture_groups: "groups_of cs gs \<Longrightarrow> groups_of (cs @ [c]) (add_capture c gs)"
proof -
  assume a: "groups_of cs gs"
  have d: "distinct (map sg_name (add_capture c gs))" and n: "sg_name ` set (add_capture c gs) = cap_SwitchName ` set (cs @ [c])"
  proof -
    show "distinct (map sg_name (add_capture c gs))" using a unfolding add_capture_names groups_of_def by auto
    have "set (map sg_name (add_capture c gs)) = insert (cap_SwitchName c) (sg_name ` set gs)"
      unfolding add_capture_names by auto
    then show "sg_name ` set (add_capture c gs) = cap_SwitchName ` set (cs @ [c])" using a by (simp add: groups_of_def)
  qed
  have "sg_captures g = filter (\<lambda>c. cap_SwitchName c = sg_name g) (cs @ [c]) \<and>
      (\<exists>r. sg_role g = normalizeRole r) \<and> sg_safeName g = sanitizeSegment (sg_name g) ''switch''"
    if gm: "g \<in> set (add_capture c gs)" for g
  proof -
    have dg: "distinct (map sg_name gs)" using a by (simp add: groups_of_def)
    consider "g \<in> set gs" "sg_name g \<noteq> cap_SwitchName c" | "g = new_group c" "cap_SwitchName c \<notin> sg_name ` set gs"
      | g0 where "g0 \<in> set gs" "sg_name g0 = cap_SwitchName c" "g = g0\<lparr>sg_captures := sg_captures g0 @ [c]\<rparr>"
      using add_capture_mem [OF dg gm] by blast
    then show ?thesis
    proof cases
      case 2
      have "cap_SwitchName x \<noteq> cap_SwitchName c" if "x \<in> set cs" for x
        using 2 a that unfolding groups_of_def by (metis imageI)
      then have "filter (\<lambda>x. cap_SwitchName x = cap_SwitchName c) cs = []"
        by (simp add: filter_empty_conv)
      then show ?thesis using 2 by (auto simp: new_group_def)
    qed (use a in \<open>auto simp: groups_of_def\<close>)
  qed
  then show ?thesis using d n unfolding groups_of_def by blast
qed

lemma group_captures_groups: "groups_of cs (group_captures cs)"
proof (induction cs rule: rev_induct)
  case Nil
  then show ?case by (simp add: group_captures_def groups_of_def)
next
  case (snoc c cs)
  then show ?case using add_capture_groups by (simp add: group_captures_def)
qed

lemma check_folders_iff:
  "distinct (map sg_name gs) \<Longrightarrow> snd ` set owners \<inter> sg_name ` set gs = {} \<Longrightarrow> distinct (map fst owners) \<Longrightarrow>
   check_folders owners gs = None \<longleftrightarrow> distinct (map folder gs) \<and> fst ` set owners \<inter> folder ` set gs = {}"
proof (induction gs arbitrary: owners)
  case (Cons g gs)
  show ?case
  proof (cases "map_of owners (folder g)")
    case None
    let ?o = "AList.update (folder g) (sg_name g) owners"
    have f: "folder g \<notin> fst ` set owners" using None by (simp add: map_of_eq_None_iff)
    then have o: "?o = owners @ [(folder g, sg_name g)]" by (induction owners) auto
    have "check_folders ?o gs = None \<longleftrightarrow> distinct (map folder gs) \<and> fst ` set ?o \<inter> folder ` set gs = {}"
      using Cons.prems f by (intro Cons.IH) (auto simp: o)
    then show ?thesis using None f by (auto simp: o)
  next
    case (Some owner)
    then have o: "owner \<in> snd ` set owners" and "folder g \<in> fst ` set owners" by (force dest: map_of_SomeD)+
    moreover have "owner \<noteq> sg_name g" using o Cons.prems(2) by force
    ultimately show ?thesis using Some by simp
  qed
qed simp

section \<open>The packaging loop\<close>

lemma index_captures_iff:
  "index_captures known name cs m =
     (if (\<forall>c \<in> set cs. cap_Command c \<in> set known) \<and> distinct (map cap_Command cs) \<and> fst ` set m \<inter> cap_Command ` set cs = {}
      then Inr (rev (map (\<lambda>c. (cap_Command c, c)) cs) @ m)
      else Inl (case index_captures known name cs m of Inl e \<Rightarrow> e | Inr _ \<Rightarrow> undefined))"
proof (induction cs arbitrary: m)
  case (Cons c cs)
  show ?case
  proof (cases "cap_Command c \<in> set known \<and> map_of m (cap_Command c) = None")
    case True
    then have "index_captures known name (c # cs) m = index_captures known name cs ((cap_Command c, c) # m)" by simp
    moreover note Cons.IH [of "(cap_Command c, c) # m"]
    moreover have "cap_Command c \<notin> fst ` set m" using True by (simp add: map_of_eq_None_iff)
    ultimately show ?thesis by (auto split: if_splits)
  next
    case False
    then have "\<not> ((\<forall>x \<in> set (c # cs). cap_Command x \<in> set known) \<and> fst ` set m \<inter> cap_Command ` set (c # cs) = {})"
      by (auto simp: map_of_eq_None_iff)
    moreover have "\<exists>e. index_captures known name (c # cs) m = Inl e" using False by auto
    ultimately show ?thesis by auto
  qed
qed simp

definition picked :: "(string \<times> command_capture) list \<Rightarrow> profile_command list \<Rightarrow> (profile_command \<times> command_capture) list" where
  "picked byCmd pcs = concat (map (\<lambda>pc. case map_of byCmd (pc_ID pc) of None \<Rightarrow> [] | Some c \<Rightarrow> [(pc, c)]) pcs)"

definition name_ok :: "profile_command \<times> command_capture \<Rightarrow> bool" where
  "name_ok x = (cap_Filename (snd x) = '''' \<or> cap_Filename (snd x) = pc_Filename (fst x))"

abbreviation ok_picks :: "(string \<times> command_capture) list \<Rightarrow> profile_command list \<Rightarrow> (profile_command \<times> command_capture) list" where
  "ok_picks byCmd pcs \<equiv> filter (\<lambda>x. captureOK (snd x)) (picked byCmd pcs)"

definition clean_group :: "switch_group \<Rightarrow> bool" where
  "clean_group g = (clean_segment (sg_role g) \<and> clean_segment (sg_safeName g))"

definition clean_commands :: "profile_command list \<Rightarrow> bool" where
  "clean_commands pcs = (distinct (map pc_ID pcs) \<and> distinct (map pc_Filename pcs) \<and> (\<forall>pc \<in> set pcs. clean_segment (pc_Filename pc)))"

lemma rel_path_folder: "rel_path g pc = folder g @ CHR ''/'' # pc_Filename pc"
  by (simp add: rel_path_def folder_def)

lemma rel_path_inj:
  assumes "clean_segment (pc_Filename a)" and "clean_segment (pc_Filename b)" and "rel_path g a = rel_path h b"
  shows "folder g = folder h \<and> pc_Filename a = pc_Filename b"
  using assms clean_segment_chars unfolding rel_path_folder by (intro segments_inj) auto

lemma AList_update_new: "k \<notin> fst ` set xs \<Longrightarrow> AList.update k v xs = xs @ [(k, v)]"
  by (induction xs) auto

definition rels_fresh :: "switch_group \<Rightarrow> profile_command list \<Rightarrow> bundle_acc \<Rightarrow> bool" where
  "rels_fresh g pcs a = (map fst (ba_relOwner a) = map fst (ba_filesByRel a) \<and>
     (\<forall>pc \<in> set pcs. rel_path g pc \<notin> fst ` set (ba_filesByRel a)))"

text \<open>The effect of the loop over the commands of one switch.\<close>

definition packaged ::
  "switch_group \<Rightarrow> (profile_command \<times> command_capture) list \<Rightarrow> bundle_acc \<Rightarrow> bundle_acc \<Rightarrow> bool" where
  "packaged g ps a a' =
     (let good = filter (\<lambda>x. captureOK (snd x)) ps
      in ba_filesByRel a' = ba_filesByRel a @ map (\<lambda>(pc, c). (rel_path g pc, cap_Stdout c)) good \<and>
         map fst (ba_relOwner a') = map fst (ba_filesByRel a') \<and>
         ba_attempted a' = ba_attempted a + length ps \<and> ba_succeeded a' = ba_succeeded a + length good \<and>
         ba_failed a' = ba_failed a + length (filter (\<lambda>x. \<not> captureOK (snd x)) ps))"

lemma package_commands_ok:
  assumes "clean_group g" and "clean_commands pcs" and "set seen \<inter> pc_ID ` set pcs = {}" and "rels_fresh g pcs a"
    and "\<forall>x \<in> set (picked byCmd pcs). name_ok x"
  shows "\<exists>a'. package_commands bc g byCmd pcs seen files a =
      Inr (files @ map (\<lambda>(pc, c). manifest_entry bc g pc c) (ok_picks byCmd pcs), a') \<and> packaged g (picked byCmd pcs) a a'"
  using assms
proof (induction pcs arbitrary: seen files a)
  case Nil
  then show ?case by (simp add: picked_def packaged_def rels_fresh_def)
next
  case (Cons pc pcs)
  have cc: "clean_commands pcs" using Cons.prems(2) by (simp add: clean_commands_def)
  show ?case
  proof (cases "map_of byCmd (pc_ID pc)")
    case None
    then have p: "picked byCmd (pc # pcs) = picked byCmd pcs" by (simp add: picked_def)
    then show ?thesis
      using None Cons.IH [of seen a files] Cons.prems cc by (auto simp: rels_fresh_def)
  next
    case (Some c)
    then have p: "picked byCmd (pc # pcs) = (pc, c) # picked byCmd pcs" by (simp add: picked_def)
    have base: "pc_ID pc \<notin> set seen" "cap_Filename c = '''' \<or> cap_Filename c = pc_Filename pc"
      "set (pc_ID pc # seen) \<inter> pc_ID ` set pcs = {}"
      using Cons.prems p by (auto simp: name_ok_def clean_commands_def)
    show ?thesis
    proof (cases "captureOK c")
      case False
      let ?a = "a\<lparr>ba_attempted := Suc (ba_attempted a), ba_failed := Suc (ba_failed a), ba_log := ba_log a @ [failure_line g pc c]\<rparr>"
      have "rels_fresh g pcs ?a" using Cons.prems(4) by (simp add: rels_fresh_def)
      from Cons.IH [OF Cons.prems(1) cc base(3) this, of files] Cons.prems(5) p
      obtain a' where "package_commands bc g byCmd pcs (pc_ID pc # seen) files ?a =
          Inr (files @ map (\<lambda>(pc, c). manifest_entry bc g pc c) (ok_picks byCmd pcs), a')" "packaged g (picked byCmd pcs) ?a a'"
        by auto
      then show ?thesis using Some False base p by (auto simp: Let_def packaged_def)
    next
      case True
      let ?rel = "rel_path g pc"
      let ?a = "a\<lparr>ba_attempted := Suc (ba_attempted a), ba_relOwner := AList.update ?rel (sg_name g) (ba_relOwner a),
          ba_filesByRel := AList.update ?rel (cap_Stdout c) (ba_filesByRel a), ba_succeeded := Suc (ba_succeeded a),
          ba_log := ba_log a @ [''[ok] '' @ sg_name g @ '': '' @ backquoted (pc_ID pc)]\<rparr>"
      have fr: "?rel \<notin> fst ` set (ba_filesByRel a)" "?rel \<notin> fst ` set (ba_relOwner a)"
        using Cons.prems(4) by (auto simp: rels_fresh_def simp flip: set_map)
      have safe: "\<not> isUnsafeBundlePath ?rel"
        unfolding rel_path_def using Cons.prems(1,2) by (intro three_segments_safe) (auto simp: clean_group_def clean_commands_def)
      have "rel_path g q \<noteq> ?rel" if "q \<in> set pcs" for q
      proof
        assume e: "rel_path g q = ?rel"
        have "pc_Filename q = pc_Filename pc"
          using rel_path_inj [OF _ _ e] that Cons.prems(2) by (simp add: clean_commands_def)
        moreover have "pc_Filename pc \<notin> pc_Filename ` set pcs" using Cons.prems(2) by (simp add: clean_commands_def)
        ultimately show False using that by (metis imageI)
      qed
      then have "rels_fresh g pcs ?a"
        using Cons.prems(4) fr by (auto simp: rels_fresh_def AList_update_new)
      from Cons.IH [OF Cons.prems(1) cc base(3) this, of "files @ [manifest_entry bc g pc c]"] Cons.prems(5) p
      obtain a' where "package_commands bc g byCmd pcs (pc_ID pc # seen) (files @ [manifest_entry bc g pc c]) ?a =
          Inr ((files @ [manifest_entry bc g pc c]) @ map (\<lambda>(pc, c). manifest_entry bc g pc c) (ok_picks byCmd pcs), a')"
          "packaged g (picked byCmd pcs) ?a a'" by auto
      then show ?thesis
        using Some True base p safe fr by (auto simp: Let_def packaged_def AList_update_new map_of_eq_None_iff)
    qed
  qed
qed


lemma package_commands_bad:
  assumes "\<exists>x \<in> set (picked byCmd pcs). \<not> name_ok x"
  shows "\<exists>e. package_commands bc g byCmd pcs seen files a = Inl e"
  using assms
proof (induction pcs arbitrary: seen files a)
  case (Cons pc pcs)
  show ?case
  proof (cases "map_of byCmd (pc_ID pc)")
    case None
    then have "picked byCmd (pc # pcs) = picked byCmd pcs" by (simp add: picked_def)
    then show ?thesis using None Cons by auto
  next
    case (Some c)
    then have p: "picked byCmd (pc # pcs) = (pc, c) # picked byCmd pcs" by (simp add: picked_def)
    show ?thesis
    proof (cases "name_ok (pc, c)")
      case True
      then have "\<exists>e. package_commands bc g byCmd pcs seen files a = Inl e" for seen files a
        using Cons p by auto
      then show ?thesis using Some by (auto simp: Let_def)
    qed (use Some in \<open>auto simp: Let_def name_ok_def\<close>)
  qed
qed (simp add: picked_def)

text \<open>What packaging asks of the captures of one switch, and what it yields.\<close>

definition index_of :: "command_capture list \<Rightarrow> (string \<times> command_capture) list" where
  "index_of cs = rev (map (\<lambda>c. (cap_Command c, c)) cs)"

definition group_picks :: "command_profile \<Rightarrow> switch_group \<Rightarrow> (profile_command \<times> command_capture) list" where
  "group_picks p g = picked (index_of (sg_captures g)) (pf_Commands p)"

definition group_ok :: "command_profile \<Rightarrow> switch_group \<Rightarrow> bool" where
  "group_ok p g = ((\<forall>c \<in> set (sg_captures g). cap_Command c \<in> pc_ID ` set (pf_Commands p)) \<and>
     distinct (map cap_Command (sg_captures g)) \<and> (\<forall>x \<in> set (group_picks p g). name_ok x))"

definition group_good :: "command_profile \<Rightarrow> switch_group \<Rightarrow> (profile_command \<times> command_capture) list" where
  "group_good p g = filter (\<lambda>x. captureOK (snd x)) (group_picks p g)"

definition group_files :: "command_profile \<Rightarrow> switch_group \<Rightarrow> (string \<times> string) list" where
  "group_files p g = map (\<lambda>(pc, c). (rel_path g pc, cap_Stdout c)) (group_good p g)"

lemma group_step:
  assumes "profile_ok p" and "clean_group g"
  shows "group_ok p g \<Longrightarrow> rels_fresh g (pf_Commands p) a \<Longrightarrow>
      \<exists>a'. package_groups bc p me (g # gs) sw a =
        package_groups bc p me gs (sw @ [manifest_switch_of me g (map (\<lambda>(pc, c). manifest_entry bc g pc c) (group_good p g))]) a'
        \<and> packaged g (group_picks p g) a a'"
    and "\<not> group_ok p g \<Longrightarrow> \<exists>e. package_groups bc p me (g # gs) sw a = Inl e"
proof -
  let ?known = "map pc_ID (pf_Commands p)"
  let ?cs = "sg_captures g"
  have ix: "(\<forall>c \<in> set ?cs. cap_Command c \<in> set ?known) \<Longrightarrow> distinct (map cap_Command ?cs) \<Longrightarrow>
      index_captures ?known (sg_name g) ?cs [] = Inr (index_of ?cs)"
    using index_captures_iff [of ?known "sg_name g" ?cs "[]"] by (simp add: index_of_def)
  have ix2: "\<not> ((\<forall>c \<in> set ?cs. cap_Command c \<in> set ?known) \<and> distinct (map cap_Command ?cs)) \<Longrightarrow>
      \<exists>e. index_captures ?known (sg_name g) ?cs [] = Inl e"
    using index_captures_iff [of ?known "sg_name g" ?cs "[]"] by (auto split: if_splits)
  have cc: "clean_commands (pf_Commands p)"
    using assms(1) by (auto simp: profile_ok_def clean_commands_def clean_segment_def list_all_iff)
  { assume g: "group_ok p g" and f: "rels_fresh g (pf_Commands p) a"
    have n: "\<forall>x \<in> set (picked (index_of ?cs) (pf_Commands p)). name_ok x"
      using g by (simp add: group_ok_def group_picks_def)
    obtain a' where "package_commands bc g (index_of ?cs) (pf_Commands p) [] [] a =
        Inr ([] @ map (\<lambda>(pc, c). manifest_entry bc g pc c) (ok_picks (index_of ?cs) (pf_Commands p)), a')"
        "packaged g (picked (index_of ?cs) (pf_Commands p)) a a'"
      using package_commands_ok [OF assms(2) cc _ f n, of "[]" bc "[]"] by auto
    then show "\<exists>a'. package_groups bc p me (g # gs) sw a =
        package_groups bc p me gs (sw @ [manifest_switch_of me g (map (\<lambda>(pc, c). manifest_entry bc g pc c) (group_good p g))]) a'
        \<and> packaged g (group_picks p g) a a'"
      using ix g by (auto simp: group_ok_def group_picks_def group_good_def) }
  assume "\<not> group_ok p g"
  then consider "\<not> ((\<forall>c \<in> set ?cs. cap_Command c \<in> set ?known) \<and> distinct (map cap_Command ?cs))"
    | "(\<forall>c \<in> set ?cs. cap_Command c \<in> set ?known) \<and> distinct (map cap_Command ?cs)" "\<exists>x \<in> set (picked (index_of ?cs) (pf_Commands p)). \<not> name_ok x"
    by (auto simp: group_ok_def group_picks_def)
  then show "\<exists>e. package_groups bc p me (g # gs) sw a = Inl e"
  proof cases
    case 1
    then show ?thesis using ix2 by fastforce
  next
    case 2
    obtain e where "package_commands bc g (index_of ?cs) (pf_Commands p) [] [] a = Inl e"
      using package_commands_bad [OF 2(2)] by blast
    then show ?thesis using ix 2(1) by simp
  qed
qed


definition switch_of :: "bundle_codec \<Rightarrow> command_profile \<Rightarrow> (string \<times> switch_meta) list \<Rightarrow> switch_group \<Rightarrow> manifest_switch" where
  "switch_of bc p me g = manifest_switch_of me g (map (\<lambda>(pc, c). manifest_entry bc g pc c) (group_good p g))"

lemma picks_in_profile: "x \<in> set (group_picks p g) \<Longrightarrow> fst x \<in> set (pf_Commands p)"
  by (auto simp: group_picks_def picked_def split: option.splits)

lemma fresh_after:
  assumes "profile_ok p" and "rels_fresh h (pf_Commands p) a" and "packaged g (group_picks p g) a a'" and "folder g \<noteq> folder h"
  shows "rels_fresh h (pf_Commands p) a'"
proof -
  have c: "clean_segment (pc_Filename pc)" if "pc \<in> set (pf_Commands p)" for pc
    using assms(1) that by (auto simp: profile_ok_def clean_segment_def list_all_iff)
  have "rel_path h pc \<noteq> rel_path g (fst x)" if "pc \<in> set (pf_Commands p)" "x \<in> set (group_picks p g)" for pc x
    using rel_path_inj [OF c [OF that(1)] c [OF picks_in_profile [OF that(2)]]] assms(4) by metis
  then show ?thesis using assms(2,3) by (auto simp: rels_fresh_def packaged_def Let_def)
qed

lemma groups_loop_ok:
  assumes "profile_ok p" and "\<forall>g \<in> set gs. clean_group g \<and> group_ok p g" and "distinct (map folder gs)"
    and "map fst (ba_relOwner a) = map fst (ba_filesByRel a)" and "\<forall>g \<in> set gs. rels_fresh g (pf_Commands p) a"
  shows "\<exists>a'. package_groups bc p me gs sw a = Inr (sw @ map (switch_of bc p me) gs, a') \<and>
     ba_filesByRel a' = ba_filesByRel a @ concat (map (group_files p) gs) \<and>
     ba_attempted a' = ba_attempted a + sum_list (map (length \<circ> group_picks p) gs) \<and>
     ba_succeeded a' = ba_succeeded a + sum_list (map (length \<circ> group_good p) gs) \<and>
     ba_failed a' = ba_failed a + sum_list (map (\<lambda>g. length (filter (\<lambda>x. \<not> captureOK (snd x)) (group_picks p g))) gs)"
  using assms
proof (induction gs arbitrary: sw a)
  case (Cons g gs)
  obtain a1 where s: "package_groups bc p me (g # gs) sw a = package_groups bc p me gs (sw @ [switch_of bc p me g]) a1"
    and pk: "packaged g (group_picks p g) a a1"
    using group_step(1) [of p g a bc me gs sw] Cons.prems unfolding switch_of_def by auto
  have "folder g \<noteq> folder h" if "h \<in> set gs" for h using Cons.prems(3) that by (metis distinct.simps(2) imageI list.simps(9) list.set_map)
  then have f: "\<forall>h \<in> set gs. rels_fresh h (pf_Commands p) a1" using fresh_after [OF Cons.prems(1)] Cons.prems(5) pk by auto
  have r: "map fst (ba_relOwner a1) = map fst (ba_filesByRel a1)" using pk by (simp add: packaged_def Let_def)
  have "\<forall>g \<in> set gs. clean_group g \<and> group_ok p g" "distinct (map folder gs)" using Cons.prems by simp_all
  from Cons.IH [OF Cons.prems(1) this r f, of "sw @ [switch_of bc p me g]"] pk show ?case
    unfolding s by (auto simp: packaged_def Let_def group_files_def group_good_def)
qed simp

lemma groups_loop_bad:
  assumes "profile_ok p" and "\<forall>g \<in> set gs. clean_group g" and "\<exists>g \<in> set gs. \<not> group_ok p g" and "distinct (map folder gs)"
    and "\<forall>g \<in> set gs. rels_fresh g (pf_Commands p) a"
  shows "\<exists>e. package_groups bc p me gs sw a = Inl e"
  using assms
proof (induction gs arbitrary: sw a)
  case (Cons g gs)
  show ?case
  proof (cases "group_ok p g")
    case True
    obtain a1 where s: "package_groups bc p me (g # gs) sw a = package_groups bc p me gs (sw @ [switch_of bc p me g]) a1"
      and pk: "packaged g (group_picks p g) a a1"
      using group_step(1) [of p g a bc me gs sw] Cons.prems True unfolding switch_of_def by auto
    have "folder g \<noteq> folder h" if "h \<in> set gs" for h using Cons.prems(4) that by (metis distinct.simps(2) imageI list.simps(9) list.set_map)
    then have f: "\<forall>h \<in> set gs. rels_fresh h (pf_Commands p) a1" using fresh_after [OF Cons.prems(1)] Cons.prems(5) pk by auto
    show ?thesis unfolding s by (rule Cons.IH) (use Cons.prems True f in auto)
  qed (use group_step(2) Cons.prems in auto)
qed simp

lemma group_clean: "groups_of cs gs \<Longrightarrow> g \<in> set gs \<Longrightarrow> clean_group g"
  using clean_role sanitize_clean by (auto simp: groups_of_def clean_group_def)

text \<open>The conditions under which a bundle can be built.\<close>

definition bundle_input_ok :: "command_profile \<Rightarrow> command_capture list \<Rightarrow> bool" where
  "bundle_input_ok p cs =
     ((\<forall>c \<in> set cs. \<exists>pc \<in> set (pf_Commands p). pc_ID pc = cap_Command c \<and> (cap_Filename c = '''' \<or> cap_Filename c = pc_Filename pc)) \<and>
      distinct (map (\<lambda>c. (cap_SwitchName c, cap_Command c)) cs) \<and> distinct (map folder (group_captures cs)))"

lemma picks_iff:
  assumes "distinct (map pc_ID (pf_Commands p))" and "distinct (map cap_Command (sg_captures g))"
  shows "(pc, c) \<in> set (group_picks p g) \<longleftrightarrow> pc \<in> set (pf_Commands p) \<and> c \<in> set (sg_captures g) \<and> pc_ID pc = cap_Command c"
proof -
  have d: "distinct (map fst (map (\<lambda>c. (cap_Command c, c)) (sg_captures g)))" using assms(2) by (simp add: comp_def)
  have "map_of (index_of (sg_captures g)) k = Some c \<longleftrightarrow> c \<in> set (sg_captures g) \<and> cap_Command c = k" for k c
    using d unfolding index_of_def by (subst map_of_eq_Some_iff) (auto simp: rev_map comp_def simp flip: rev_map)
  moreover have "(pc, c) \<in> set (picked m pcs) \<longleftrightarrow> pc \<in> set pcs \<and> map_of m (pc_ID pc) = Some c" for m pcs
    by (auto simp: picked_def split: option.splits)
  ultimately show ?thesis by (auto simp: group_picks_def)
qed

lemma distinct_pairs:
  "distinct (map (\<lambda>c. (f c, h c)) xs) \<longleftrightarrow> (\<forall>n. distinct (map h (filter (\<lambda>c. f c = n) xs)))"
proof (induction xs)
  case (Cons x xs)
  have "(f x, h x) \<in> (\<lambda>c. (f c, h c)) ` set xs \<longleftrightarrow> h x \<in> h ` set (filter (\<lambda>c. f c = f x) xs)" by (simp add: image_iff) metis
  moreover have "(\<forall>n. distinct (map h (filter (\<lambda>c. f c = n) (x # xs)))) \<longleftrightarrow>
      h x \<notin> h ` set (filter (\<lambda>c. f c = f x) xs) \<and> (\<forall>n. distinct (map h (filter (\<lambda>c. f c = n) xs)))"
  proof (intro iffI allI conjI)
    assume a: "\<forall>n. distinct (map h (filter (\<lambda>c. f c = n) (x # xs)))"
    show "h x \<notin> h ` set (filter (\<lambda>c. f c = f x) xs)" using spec [OF a, of "f x"] by simp
    show "distinct (map h (filter (\<lambda>c. f c = n) xs))" for n using spec [OF a, of n] by (simp split: if_splits)
  qed (auto simp del: set_filter)
  ultimately show ?case using Cons.IH by simp
qed simp

lemma groups_ok_iff:
  assumes p: "profile_ok p" and g: "groups_of cs gs"
  shows "(\<forall>g \<in> set gs. group_ok p g) \<longleftrightarrow>
    (\<forall>c \<in> set cs. \<exists>pc \<in> set (pf_Commands p). pc_ID pc = cap_Command c \<and> (cap_Filename c = '''' \<or> cap_Filename c = pc_Filename pc)) \<and>
    distinct (map (\<lambda>c. (cap_SwitchName c, cap_Command c)) cs)"
proof -
  have di: "distinct (map pc_ID (pf_Commands p))" using p by (simp add: profile_ok_def)
  have ids: "pc = pc'" if "pc \<in> set (pf_Commands p)" "pc' \<in> set (pf_Commands p)" "pc_ID pc = pc_ID pc'" for pc pc'
    using di that by (meson distinct_map inj_onD)
  have cap: "sg_captures g = filter (\<lambda>c. cap_SwitchName c = sg_name g) cs" if "g \<in> set gs" for g
    using assms(2) that by (auto simp: groups_of_def)
  have ex: "\<exists>g \<in> set gs. sg_name g = cap_SwitchName c" if "c \<in> set cs" for c
    using assms(2) that unfolding groups_of_def by (metis imageE imageI)
  have dist: "distinct (map (\<lambda>c. (cap_SwitchName c, cap_Command c)) cs) \<longleftrightarrow> (\<forall>g \<in> set gs. distinct (map cap_Command (sg_captures g)))"
  proof -
    note distinct_pairs [of cap_SwitchName cap_Command cs]
    moreover have "distinct (map cap_Command (filter (\<lambda>c. cap_SwitchName c = n) cs))" if "n \<notin> sg_name ` set gs" for n
    proof -
      have "cap_SwitchName c \<noteq> n" if "c \<in> set cs" for c using ex [OF that] \<open>n \<notin> sg_name ` set gs\<close> by (metis imageI)
      then have "filter (\<lambda>c. cap_SwitchName c = n) cs = []" by (simp add: filter_empty_conv)
      then show ?thesis by simp
    qed
    ultimately have "distinct (map (\<lambda>c. (cap_SwitchName c, cap_Command c)) cs) \<longleftrightarrow>
        (\<forall>n \<in> sg_name ` set gs. distinct (map cap_Command (filter (\<lambda>c. cap_SwitchName c = n) cs)))" by blast
    then show ?thesis using cap by simp
  qed
  show ?thesis
  proof
    assume a: "\<forall>g \<in> set gs. group_ok p g"
    have "\<exists>pc \<in> set (pf_Commands p). pc_ID pc = cap_Command c \<and> (cap_Filename c = '''' \<or> cap_Filename c = pc_Filename pc)" if cm: "c \<in> set cs" for c
    proof -
      obtain g where g: "g \<in> set gs" "sg_name g = cap_SwitchName c" using ex [OF cm] by blast
      then have m: "c \<in> set (sg_captures g)" using cap cm by simp
      with a g obtain pc where pc: "pc \<in> set (pf_Commands p)" "pc_ID pc = cap_Command c" by (force simp: group_ok_def)
      then have "(pc, c) \<in> set (group_picks p g)" using picks_iff [OF di] a g m by (auto simp: group_ok_def)
      then have "name_ok (pc, c)" using a g by (auto simp: group_ok_def)
      then show ?thesis using pc by (auto simp: name_ok_def)
    qed
    then show "(\<forall>c \<in> set cs. \<exists>pc \<in> set (pf_Commands p). pc_ID pc = cap_Command c \<and> (cap_Filename c = '''' \<or> cap_Filename c = pc_Filename pc)) \<and>
      distinct (map (\<lambda>c. (cap_SwitchName c, cap_Command c)) cs)" using dist a by (auto simp: group_ok_def)
  next
    assume a: "(\<forall>c \<in> set cs. \<exists>pc \<in> set (pf_Commands p). pc_ID pc = cap_Command c \<and> (cap_Filename c = '''' \<or> cap_Filename c = pc_Filename pc)) \<and>
      distinct (map (\<lambda>c. (cap_SwitchName c, cap_Command c)) cs)"
    show "\<forall>g \<in> set gs. group_ok p g"
    proof
      fix g assume g: "g \<in> set gs"
      have d: "distinct (map cap_Command (sg_captures g))" using a dist g by blast
      have "name_ok x" if x: "x \<in> set (group_picks p g)" for x
      proof -
        have m: "fst x \<in> set (pf_Commands p)" "snd x \<in> set cs" "pc_ID (fst x) = cap_Command (snd x)"
          using picks_iff [OF di d, of "fst x" "snd x"] x cap [OF g] by auto
        then obtain pc where "pc \<in> set (pf_Commands p)" "pc_ID pc = cap_Command (snd x)"
          "cap_Filename (snd x) = '''' \<or> cap_Filename (snd x) = pc_Filename pc" using a by blast
        moreover from this have "pc = fst x" using ids m by metis
        ultimately show ?thesis by (simp add: name_ok_def)
      qed
      then show "group_ok p g" using d a cap [OF g] by (force simp: group_ok_def)
    qed
  qed
qed


lemma build_with_groups:
  assumes "profile_ok p"
  shows "bundle_input_ok p cs \<Longrightarrow> check_folders [] (group_captures cs) = None \<and>
      (\<exists>a. package_groups bc p me (group_captures cs) [] (start_acc lg) = Inr (map (switch_of bc p me) (group_captures cs), a) \<and>
        ba_filesByRel a = concat (map (group_files p) (group_captures cs)) \<and>
        ba_attempted a = sum_list (map (length \<circ> group_picks p) (group_captures cs)) \<and>
        ba_succeeded a = sum_list (map (length \<circ> group_good p) (group_captures cs)) \<and>
        ba_failed a = sum_list (map (\<lambda>g. length (filter (\<lambda>x. \<not> captureOK (snd x)) (group_picks p g))) (group_captures cs)))"
    and "\<not> bundle_input_ok p cs \<Longrightarrow> check_folders [] (group_captures cs) \<noteq> None \<or>
      (\<exists>e. package_groups bc p me (group_captures cs) [] (start_acc lg) = Inl e)"
proof -
  let ?gs = "group_captures cs"
  note g = group_captures_groups [of cs]
  have dn: "distinct (map sg_name ?gs)" using g by (simp add: groups_of_def)
  have cl: "\<forall>g \<in> set ?gs. clean_group g" using group_clean [OF g] by blast
  have fr: "\<forall>g \<in> set ?gs. rels_fresh g (pf_Commands p) (start_acc lg)" by (simp add: rels_fresh_def start_acc_def)
  have cf: "check_folders [] ?gs = None \<longleftrightarrow> distinct (map folder ?gs)" using check_folders_iff [OF dn, of "[]"] by simp
  have io: "bundle_input_ok p cs \<longleftrightarrow> (\<forall>g \<in> set ?gs. group_ok p g) \<and> distinct (map folder ?gs)"
    using groups_ok_iff [OF assms g] by (auto simp: bundle_input_ok_def)
  { assume "bundle_input_ok p cs"
    then have "\<forall>g \<in> set ?gs. clean_group g \<and> group_ok p g" "distinct (map folder ?gs)" using io cl by auto
    from groups_loop_ok [OF assms this _ fr, of bc me "[]"] cf this(2)
    show "check_folders [] ?gs = None \<and>
      (\<exists>a. package_groups bc p me ?gs [] (start_acc lg) = Inr (map (switch_of bc p me) ?gs, a) \<and>
        ba_filesByRel a = concat (map (group_files p) ?gs) \<and>
        ba_attempted a = sum_list (map (length \<circ> group_picks p) ?gs) \<and>
        ba_succeeded a = sum_list (map (length \<circ> group_good p) ?gs) \<and>
        ba_failed a = sum_list (map (\<lambda>g. length (filter (\<lambda>x. \<not> captureOK (snd x)) (group_picks p g))) ?gs))"
      by (auto simp: start_acc_def) }
  assume "\<not> bundle_input_ok p cs"
  then show "check_folders [] ?gs \<noteq> None \<or> (\<exists>e. package_groups bc p me ?gs [] (start_acc lg) = Inl e)"
    using io cf groups_loop_bad [OF assms cl _ _ fr, of bc me "[]"] by blast
qed

text \<open>Two captures of one switch, one of them of a command that failed.\<close>

definition demo_bundle_codec :: bundle_codec where
  "demo_bundle_codec = \<lparr>bc_iso = (\<lambda>t. show_int t), bc_sha256hex = (\<lambda>s. ''#'' @ s), bc_marshalManifest = (\<lambda>m. Some (bm_BundleVersion m)),
     bc_marshalSummary = (\<lambda>s. Some (show_nat (bs_CommandsAttempted s))), bc_parseTime = (\<lambda>s. None)\<rparr>"

definition demo_capture :: "string \<Rightarrow> string \<Rightarrow> int \<Rightarrow> command_capture" where
  "demo_capture k out x = \<lparr>cap_SwitchName = ''sw 1'', cap_FabricRole = ''a'', cap_Command = k, cap_Filename = '''', cap_Stdout = out,
     cap_Stderr = '''', cap_ExitCode = x, cap_TimedOut = False, cap_CollectedAt = 5\<rparr>"

definition demo_captures :: "command_capture list" where
  "demo_captures = [demo_capture ''version'' ''v9'' 0, demo_capture ''switchshow'' '''' 1]"

definition demo_options :: build_options where
  "demo_options = \<lparr>bo_CollectionMethod = '''', bo_FabricRole = '''', bo_CustomerSupplied = False, bo_CollectedAt = 7,
     bo_SwitchMeta = [], bo_Collector = ''agent''\<rparr>"

section \<open>Properties\<close>

lemma built_iff_input_ok:
  assumes "\<And>m. bc_marshalManifest bc m \<noteq> None" and "\<And>s. bc_marshalSummary bc s \<noteq> None"
  shows "(\<exists>r. BuildEvidenceBundle bc now cs opts = Inr r) \<longleftrightarrow> bundle_input_ok embeddedProfile cs"
proof -
  have z: "\<exists>r. finish_bundle bc p now opts gs sw a = Inr r" for p gs sw a
  proof -
    have "\<exists>z. writeZip bc m s l f = Inr z" for m s l f
      using assms(1) [of m] assms(2) [of s] by (auto simp: writeZip_def Let_def)
    then show ?thesis unfolding finish_bundle_def Let_def by (metis (no_types, lifting) sum.simps(6))
  qed
  let ?me = "rev (map (\<lambda>m. (me_SwitchName m, m)) (bo_SwitchMeta opts))"
  define lg where "lg = [''FilterREX Brocade agent bundle '' @ bc_iso bc (collected_at now opts)]"
  have "(\<exists>r. build_with bc embeddedProfile now cs opts = Inr r) \<longleftrightarrow> bundle_input_ok embeddedProfile cs"
  proof (cases "bundle_input_ok embeddedProfile cs")
    case True
    from build_with_groups(1) [OF embedded_profile(2) True, of bc ?me lg] True z show ?thesis
      unfolding build_with_def Let_def lg_def [symmetric] by auto
  next
    case False
    from build_with_groups(2) [OF embedded_profile(2) False, of bc ?me lg] False show ?thesis
      unfolding build_with_def Let_def lg_def [symmetric] by (auto split: option.split)
  qed
  then show ?thesis by (simp add: BuildEvidenceBundle_def embedded_profile(1))
qed

text \<open>Bundling fails loudly and only for cause. Given that JSON encoding works, a bundle is built if and
  only if every capture is of a command of the profile under the file name the profile gives it, no
  switch has two captures of one command, and no two switches share a folder after sanitization; the
  guards against unsafe and colliding file paths inside the loop are never the reason for a failure.\<close>
theorem bundle_built_iff:
  assumes "\<And>m. bc_marshalManifest bc m \<noteq> None" and "\<And>s. bc_marshalSummary bc s \<noteq> None"
  shows "(\<exists>r. BuildEvidenceBundle bc now cs opts = Inr r) \<longleftrightarrow>
    (\<forall>c \<in> set cs. \<exists>pc \<in> set (pf_Commands embeddedProfile). pc_ID pc = cap_Command c \<and>
        (cap_Filename c = '''' \<or> cap_Filename c = pc_Filename pc)) \<and>
    distinct (map (\<lambda>c. (cap_SwitchName c, cap_Command c)) cs) \<and> distinct (map folder (group_captures cs))"
  using built_iff_input_ok [OF assms] by (simp add: bundle_input_ok_def)

theorem bundle_built_iff_witness:
  "(\<exists>r. BuildEvidenceBundle demo_bundle_codec 9 demo_captures demo_options = Inr r)"
proof -
  have "(\<forall>c \<in> set demo_captures. \<exists>pc \<in> set (pf_Commands embeddedProfile). pc_ID pc = cap_Command c \<and>
        (cap_Filename c = '''' \<or> cap_Filename c = pc_Filename pc)) \<and>
    distinct (map (\<lambda>c. (cap_SwitchName c, cap_Command c)) demo_captures) \<and> distinct (map folder (group_captures demo_captures))"
    by code_simp
  then show ?thesis by (subst bundle_built_iff) (simp_all add: demo_bundle_codec_def)
qed


lemma good_captures:
  assumes p: "profile_ok p" and i: "bundle_input_ok p cs"
  shows "mset (concat (map (\<lambda>g. map snd (group_picks p g)) (group_captures cs))) = mset cs"
proof -
  let ?gs = "group_captures cs"
  note g = group_captures_groups [of cs]
  have di: "distinct (map pc_ID (pf_Commands p))" using p by (simp add: profile_ok_def)
  have ok: "\<forall>g \<in> set ?gs. group_ok p g" using i groups_ok_iff [OF p g] by (auto simp: bundle_input_ok_def)
  have cap: "sg_captures h = filter (\<lambda>c. cap_SwitchName c = sg_name h) cs" if "h \<in> set ?gs" for h
    using g that by (auto simp: groups_of_def)
  have dcs: "distinct cs" using i by (simp add: bundle_input_ok_def distinct_map)
  have one: "mset (map snd (group_picks p h)) = mset (sg_captures h)" if h: "h \<in> set ?gs" for h
  proof -
    have d: "distinct (map cap_Command (sg_captures h))" using ok h by (simp add: group_ok_def)
    have pi: "(pc, c) \<in> set (group_picks p h) \<longleftrightarrow> pc \<in> set (pf_Commands p) \<and> c \<in> set (sg_captures h) \<and> pc_ID pc = cap_Command c" for pc c
      by (rule picks_iff [OF di d])
    have "set (map snd (group_picks p h)) = set (sg_captures h)"
    proof
      show "set (map snd (group_picks p h)) \<subseteq> set (sg_captures h)" using pi by auto
      show "set (sg_captures h) \<subseteq> set (map snd (group_picks p h))"
      proof
        fix c assume c: "c \<in> set (sg_captures h)"
        then obtain pc where "pc \<in> set (pf_Commands p)" "pc_ID pc = cap_Command c" using ok h by (force simp: group_ok_def)
        then show "c \<in> set (map snd (group_picks p h))" using pi c by force
      qed
    qed
    moreover have "distinct (map snd (group_picks p h))"
    proof -
      have e: "map (cap_Command \<circ> snd) (group_picks p h) = map (pc_ID \<circ> fst) (group_picks p h)"
        using pi by (auto simp: map_eq_conv)
      have "distinct (map (pc_ID \<circ> fst) (picked m pcs))" if "distinct (map pc_ID pcs)" for m pcs
        using that
      proof (induction pcs)
        case (Cons pc pcs)
        have "pc_ID ` fst ` set (picked m pcs) \<subseteq> pc_ID ` set pcs" by (auto simp: picked_def split: option.splits)
        then show ?case using Cons by (auto simp: picked_def image_comp split: option.split)
      qed (simp add: picked_def)
      then have "distinct (map (pc_ID \<circ> fst) (group_picks p h))" using di by (simp add: group_picks_def)
      then have "distinct (map cap_Command (map snd (group_picks p h)))" unfolding map_map e .
      then show ?thesis unfolding distinct_map by blast
    qed
    moreover have "distinct (sg_captures h)" using d unfolding distinct_map by blast
    ultimately show ?thesis using set_eq_iff_mset_eq_distinct by blast
  qed
  have "mset (concat (map (\<lambda>g. map snd (group_picks p g)) ?gs)) = mset (concat (map sg_captures ?gs))"
  proof -
    have "(\<forall>h \<in> set xs. mset (map snd (group_picks p h)) = mset (sg_captures h)) \<Longrightarrow>
        mset (concat (map (\<lambda>g. map snd (group_picks p g)) xs)) = mset (concat (map sg_captures xs))" for xs
      by (induction xs) auto
    then show ?thesis using one by blast
  qed
  also have "\<dots> = mset cs"
  proof -
    have "set (concat (map sg_captures ?gs)) = set cs"
    proof -
      have "\<exists>h \<in> set ?gs. c \<in> set (sg_captures h)" if "c \<in> set cs" for c
      proof -
        have "cap_SwitchName c \<in> sg_name ` set ?gs" using g that by (auto simp: groups_of_def)
        then show ?thesis using cap that by force
      qed
      then show ?thesis using cap by fastforce
    qed
    moreover have "distinct (concat (map sg_captures xs))" if "distinct (map sg_name xs)" "set xs \<subseteq> set ?gs" for xs
      using that
    proof (induction xs)
      case (Cons x xs)
      have "set (sg_captures x) \<inter> set (sg_captures y) = {}" if "y \<in> set xs" for y
      proof -
        have "sg_name x \<noteq> sg_name y" using Cons.prems(1) that by (metis distinct.simps(2) imageI list.simps(9) list.set_map)
        then show ?thesis using cap [of x] cap [of y] Cons.prems(2) that by auto
      qed
      then show ?case using Cons cap [of x] dcs by auto
    qed simp
    then have "distinct (concat (map sg_captures ?gs))" using g by (simp add: groups_of_def)
    ultimately show ?thesis using dcs set_eq_iff_mset_eq_distinct by blast
  qed
  finally show ?thesis .
qed


lemma sum_lengths: "sum_list (map (length \<circ> f) gs) = length (concat (map f gs))"
  by (induction gs) auto

lemma file_names_distinct:
  assumes "profile_ok p" and "distinct (map folder gs)" and "\<forall>g \<in> set gs. group_ok p g"
  shows "distinct (map fst (concat (map (group_files p) gs)))"
  using assms(2,3)
proof (induction gs)
  case (Cons g gs)
  have c: "clean_segment (pc_Filename pc)" if "pc \<in> set (pf_Commands p)" for pc
    using assms(1) that by (auto simp: profile_ok_def clean_segment_def list_all_iff)
  have m: "x \<in> set (group_good p h) \<Longrightarrow> fst x \<in> set (pf_Commands p)" for x h
    using picks_in_profile [of x p h] by (simp add: group_good_def)
  have "distinct (map (rel_path g) pcs)" if "distinct (map pc_Filename pcs)" "set pcs \<subseteq> set (pf_Commands p)" for pcs
    using that
  proof (induction pcs)
    case (Cons pc pcs)
    have "rel_path g q \<noteq> rel_path g pc" if "q \<in> set pcs" for q
    proof
      assume e: "rel_path g q = rel_path g pc"
      have "q \<in> set (pf_Commands p)" "pc \<in> set (pf_Commands p)" using Cons.prems(2) that by auto
      then have "pc_Filename q = pc_Filename pc" using rel_path_inj [OF c c e] by blast
      then show False using Cons.prems(1) that by (metis distinct.simps(2) imageI list.simps(9) list.set_map)
    qed
    then have "rel_path g pc \<notin> rel_path g ` set pcs" by (metis imageE)
    then show ?case using Cons by auto
  qed simp
  moreover have "map fst (group_files p g) = map (rel_path g) (map fst (group_good p g))"
    by (auto simp: group_files_def)
  moreover have "distinct (map pc_Filename (map fst (filter P (picked k pcs))))" if "distinct (map pc_Filename pcs)" for P k pcs
    using that
  proof (induction pcs)
    case (Cons pc pcs)
    have "pc_Filename ` fst ` set (picked k pcs) \<subseteq> pc_Filename ` set pcs" by (auto simp: picked_def split: option.splits)
    then show ?case using Cons by (auto simp: picked_def image_comp split: option.split)
  qed (simp add: picked_def)
  moreover have "distinct (map pc_Filename (pf_Commands p))" using assms(1) by (simp add: profile_ok_def)
  ultimately have d: "distinct (map fst (group_files p g))"
  proof -
    assume r: "\<And>pcs. \<lbrakk>distinct (map pc_Filename pcs); set pcs \<subseteq> set (pf_Commands p)\<rbrakk> \<Longrightarrow> distinct (map (rel_path g) pcs)"
      and e: "map fst (group_files p g) = map (rel_path g) (map fst (group_good p g))"
      and f: "\<And>pcs P k. distinct (map pc_Filename pcs) \<Longrightarrow> distinct (map pc_Filename (map fst (filter P (picked k pcs))))"
      and n: "distinct (map pc_Filename (pf_Commands p))"
    have "set (map fst (group_good p g)) \<subseteq> set (pf_Commands p)" using m by auto
    moreover have "distinct (map pc_Filename (map fst (group_good p g)))"
      unfolding group_good_def group_picks_def by (rule f [OF n])
    ultimately show ?thesis unfolding e by (intro r)
  qed
  have "rel_path g (fst x) \<noteq> rel_path h (fst y)" if "h \<in> set gs" "x \<in> set (group_good p g)" "y \<in> set (group_good p h)" for h x y
  proof
    assume "rel_path g (fst x) = rel_path h (fst y)"
    then have "folder g = folder h" using rel_path_inj [OF c c] m that by blast
    then show False using Cons.prems(1) that(1) by (metis distinct.simps(2) imageI list.simps(9) list.set_map)
  qed
  then have "fst ` set (group_files p g) \<inter> fst ` set (concat (map (group_files p) gs)) = {}"
    by (fastforce simp: group_files_def)
  then show ?case using d Cons by simp
qed simp

lemma writeZip_form:
  "writeZip bc m s l F = Inr z \<Longrightarrow> \<exists>mj sj. z = [(BundleRoot @ ''/manifest.json'', mj @ [CHR 0x0A]),
     (BundleRoot @ ''/collection-log.txt'', l), (BundleRoot @ ''/collection-summary.json'', sj @ [CHR 0x0A])] @
     map (\<lambda>rel. (BundleRoot @ ''/'' @ rel, the (map_of F rel))) (sort (map fst F))"
  by (auto simp: writeZip_def Let_def split: option.splits)

lemma build_result_form:
  assumes "BuildEvidenceBundle bc now cs opts = Inr r"
  defines "gs \<equiv> group_captures cs" and "p \<equiv> embeddedProfile"
  shows "bundle_input_ok p cs"
    and "\<exists>me. bm_Switches (br_Manifest r) = map (switch_of bc p me) gs"
    and "bs_CommandsAttempted (br_Summary r) = length (concat (map (group_picks p) gs))"
    and "bs_CommandsSucceeded (br_Summary r) = length (concat (map (group_good p) gs))"
    and "bs_CommandsFailed (br_Summary r) = length (concat (map (\<lambda>g. filter (\<lambda>x. \<not> captureOK (snd x)) (group_picks p g)) gs))"
    and "\<exists>a b c. br_Zip r = [(BundleRoot @ ''/manifest.json'', a), (BundleRoot @ ''/collection-log.txt'', b),
           (BundleRoot @ ''/collection-summary.json'', c)] @
        map (\<lambda>rel. (BundleRoot @ ''/'' @ rel, the (map_of (concat (map (group_files p) gs)) rel)))
          (sort (map fst (concat (map (group_files p) gs))))"
proof -
  let ?me = "rev (map (\<lambda>m. (me_SwitchName m, m)) (bo_SwitchMeta opts))"
  define lg where "lg = [''FilterREX Brocade agent bundle '' @ bc_iso bc (collected_at now opts)]"
  have b: "build_with bc p now cs opts = Inr r" using assms(1) by (simp add: BuildEvidenceBundle_def embedded_profile(1) p_def)
  show i: "bundle_input_ok p cs"
  proof (rule ccontr)
    assume "\<not> bundle_input_ok p cs"
    from build_with_groups(2) [OF embedded_profile(2) this [unfolded p_def], of bc ?me lg] b show False
      unfolding build_with_def Let_def lg_def [symmetric] p_def by (auto split: option.splits)
  qed
  from build_with_groups(1) [OF embedded_profile(2) i [unfolded p_def], of bc ?me lg]
  obtain a where a: "check_folders [] gs = None"
    "package_groups bc p ?me gs [] (start_acc lg) = Inr (map (switch_of bc p ?me) gs, a)"
    "ba_filesByRel a = concat (map (group_files p) gs)" "ba_attempted a = sum_list (map (length \<circ> group_picks p) gs)"
    "ba_succeeded a = sum_list (map (length \<circ> group_good p) gs)"
    "ba_failed a = sum_list (map (\<lambda>g. length (filter (\<lambda>x. \<not> captureOK (snd x)) (group_picks p g))) gs)"
    unfolding gs_def p_def by blast
  have f: "finish_bundle bc p now opts gs (map (switch_of bc p ?me) gs) a = Inr r"
    using b a(1,2) unfolding build_with_def Let_def lg_def [symmetric] gs_def by simp
  then show "\<exists>me. bm_Switches (br_Manifest r) = map (switch_of bc p me) gs"
    by (auto simp: finish_bundle_def Let_def split: sum.splits)
  show "bs_CommandsAttempted (br_Summary r) = length (concat (map (group_picks p) gs))"
    using f a(4) by (auto simp: finish_bundle_def Let_def sum_lengths split: sum.splits)
  show "bs_CommandsSucceeded (br_Summary r) = length (concat (map (group_good p) gs))"
    using f a(5) by (auto simp: finish_bundle_def Let_def sum_lengths split: sum.splits)
  have "ba_failed a = length (concat (map (\<lambda>g. filter (\<lambda>x. \<not> captureOK (snd x)) (group_picks p g)) gs))"
    using a(6) by (simp flip: sum_lengths add: comp_def)
  then show "bs_CommandsFailed (br_Summary r) = length (concat (map (\<lambda>g. filter (\<lambda>x. \<not> captureOK (snd x)) (group_picks p g)) gs))"
    using f by (auto simp: finish_bundle_def Let_def split: sum.splits)
  obtain m s l where "writeZip bc m s l (ba_filesByRel a) = Inr (br_Zip r)"
    using f unfolding finish_bundle_def Let_def by (auto split: sum.splits)
  then obtain mj sj where "br_Zip r = [(BundleRoot @ ''/manifest.json'', mj @ [CHR 0x0A]), (BundleRoot @ ''/collection-log.txt'', l),
           (BundleRoot @ ''/collection-summary.json'', sj @ [CHR 0x0A])] @
        map (\<lambda>rel. (BundleRoot @ ''/'' @ rel, the (map_of (concat (map (group_files p) gs)) rel)))
          (sort (map fst (concat (map (group_files p) gs))))"
    using writeZip_form unfolding a(3) by blast
  then show "\<exists>a b c. br_Zip r = [(BundleRoot @ ''/manifest.json'', a), (BundleRoot @ ''/collection-log.txt'', b),
           (BundleRoot @ ''/collection-summary.json'', c)] @
        map (\<lambda>rel. (BundleRoot @ ''/'' @ rel, the (map_of (concat (map (group_files p) gs)) rel)))
          (sort (map fst (concat (map (group_files p) gs))))" by blast
qed

lemma count_picks:
  assumes "mset (concat (map (\<lambda>g. map snd (f g)) gs)) = mset cs"
  shows "length (concat (map (\<lambda>g. filter (\<lambda>x. P (snd x)) (f g)) gs)) = length (filter P cs)"
proof -
  have "length (filter P cs) = length (filter P (concat (map (\<lambda>g. map snd (f g)) gs)))"
    using assms by (metis mset_filter size_mset)
  also have "\<dots> = length (concat (map (\<lambda>g. filter (\<lambda>x. P (snd x)) (f g)) gs))"
    by (induction gs) (auto simp: filter_map comp_def)
  finally show ?thesis by simp
qed

lemma switch_of_sel [simp]:
  "ms_SwitchName (switch_of bc p me g) = sg_name g"
  "ms_Files (switch_of bc p me g) = map (\<lambda>(pc, c). manifest_entry bc g pc c) (group_good p g)"
  by (simp_all add: switch_of_def manifest_switch_of_def split: option.split)

lemma bundle_counts:
  assumes "BuildEvidenceBundle bc now cs opts = Inr r"
  shows "bs_CommandsAttempted (br_Summary r) = length cs"
    and "bs_CommandsSucceeded (br_Summary r) = length (filter captureOK cs)"
    and "bs_CommandsFailed (br_Summary r) = length (filter (\<lambda>c. \<not> captureOK c) cs)"
    and "sum_list (map (length \<circ> ms_Files) (bm_Switches (br_Manifest r))) = length (filter captureOK cs)"
proof -
  note form = build_result_form [OF assms]
  note cp = count_picks [OF good_captures [OF embedded_profile(2) form(1)]]
  show "bs_CommandsAttempted (br_Summary r) = length cs" using form(3) cp [of "\<lambda>_. True"] by simp
  have s: "length (concat (map (group_good embeddedProfile) (group_captures cs))) = length (filter captureOK cs)"
    using cp [of captureOK] by (simp add: group_good_def [abs_def])
  then show "bs_CommandsSucceeded (br_Summary r) = length (filter captureOK cs)" using form(4) by simp
  show "bs_CommandsFailed (br_Summary r) = length (filter (\<lambda>c. \<not> captureOK c) cs)"
    using form(5) cp [of "\<lambda>c. \<not> captureOK c"] by simp
  show "sum_list (map (length \<circ> ms_Files) (bm_Switches (br_Manifest r))) = length (filter captureOK cs)"
    using form(2) s by (auto simp: sum_lengths [symmetric] comp_def)
qed

text \<open>The archive entries that \<open>writeZip\<close> makes of a list of files.\<close>

definition archive :: "string \<Rightarrow> string \<Rightarrow> string \<Rightarrow> (string \<times> string) list \<Rightarrow> (string \<times> string) list" where
  "archive a b c F = [(BundleRoot @ ''/manifest.json'', a), (BundleRoot @ ''/collection-log.txt'', b),
     (BundleRoot @ ''/collection-summary.json'', c)] @ map (\<lambda>rel. (BundleRoot @ ''/'' @ rel, the (map_of F rel))) (sort (map fst F))"

lemma archive_entry:
  assumes "distinct (map fst F)" and "(k, v) \<in> set F"
  shows "(BundleRoot @ ''/'' @ k, v) \<in> set (archive a b c F)"
proof -
  have "map_of F k = Some v" using assms by (rule map_of_is_SomeI)
  moreover have "k \<in> set (sort (map fst F))" using assms(2) by (metis fst_conv image_eqI list.set_map set_sort)
  ultimately have "(BundleRoot @ ''/'' @ k, v) \<in> set (map (\<lambda>rel. (BundleRoot @ ''/'' @ rel, the (map_of F rel))) (sort (map fst F)))"
    unfolding set_map by (intro image_eqI [of _ _ k]) simp_all
  then show ?thesis unfolding archive_def set_append by (rule UnI2)
qed

lemma archive_names_distinct:
  assumes "distinct (map fst F)" and "\<And>k. k \<in> fst ` set F \<Longrightarrow> CHR ''/'' \<in> set k"
  shows "distinct (map fst (archive a b c F))"
proof -
  let ?M = "[''manifest.json'', ''collection-log.txt'', ''collection-summary.json'']"
  have "\<forall>k \<in> set ?M. CHR ''/'' \<notin> set k" by simp
  moreover have "CHR ''/'' \<in> set k" if "k \<in> set (sort (map fst F))" for k
    using that by (intro assms(2)) (simp only: set_sort set_map)
  ultimately have "set ?M \<inter> set (sort (map fst F)) = {}" by blast
  moreover have "distinct ?M" by simp
  ultimately have "distinct (?M @ sort (map fst F))" using assms(1) by (simp only: distinct_append distinct_sort)
  then have "distinct (map ((@) (BundleRoot @ ''/'')) (?M @ sort (map fst F)))"
    by (rule distinct_map [THEN iffD2, OF conjI]) (rule inj_onI, simp only: same_append_eq)
  moreover have "map fst (archive a b c F) = map ((@) (BundleRoot @ ''/'')) (?M @ sort (map fst F))" by (simp add: archive_def)
  ultimately show ?thesis by metis
qed

lemma group_good_iff:
  assumes "bundle_input_ok embeddedProfile cs" and "h \<in> set (group_captures cs)"
  shows "(pc, c) \<in> set (group_good embeddedProfile h) \<longleftrightarrow> pc \<in> set (pf_Commands embeddedProfile) \<and> c \<in> set cs \<and>
    cap_SwitchName c = sg_name h \<and> pc_ID pc = cap_Command c \<and> captureOK c"
proof -
  note P = embedded_profile(2) and g = group_captures_groups [of cs]
  have "distinct (map pc_ID (pf_Commands embeddedProfile))" using P by (simp add: profile_ok_def)
  moreover have "group_ok embeddedProfile h" using assms groups_ok_iff [OF P g] by (auto simp: bundle_input_ok_def)
  moreover have "sg_captures h = filter (\<lambda>c. cap_SwitchName c = sg_name h) cs" using g assms(2) by (auto simp: groups_of_def)
  ultimately show ?thesis using picks_iff [of embeddedProfile h pc c] by (auto simp: group_good_def group_ok_def)
qed

lemma group_good_safe:
  assumes "bundle_input_ok embeddedProfile cs" and "h \<in> set (group_captures cs)" and "(pc, c) \<in> set (group_good embeddedProfile h)"
  shows "\<not> isUnsafeBundlePath (rel_path h pc)"
proof -
  have "clean_group h" by (rule group_clean [OF group_captures_groups assms(2)])
  moreover have "clean_segment (pc_Filename pc)"
    using group_good_iff [OF assms(1,2)] assms(3) embedded_profile(2) by (auto simp: profile_ok_def list_all_iff clean_segment_def)
  ultimately show ?thesis unfolding rel_path_def clean_group_def by (intro three_segments_safe) auto
qed

text \<open>C5: A bundle holds exactly the successful evidence. Whenever a bundle is built: its manifest lists the
  switches in the order they were first captured; every successful capture appears under its switch
  with its command, the SHA-256 of its output, and an archive entry at the listed path with exactly
  that output; every listed file comes from a successful capture; all paths are safe and no two
  archive entries share a name; and the summary counts every capture, successful or failed, once.\<close>
theorem bundle_is_faithful:
  assumes "BuildEvidenceBundle bc now cs opts = Inr r"
  shows "map ms_SwitchName (bm_Switches (br_Manifest r)) = map sg_name (group_captures cs) \<and>
    (\<forall>c \<in> set cs. captureOK c \<longrightarrow> (\<exists>sw \<in> set (bm_Switches (br_Manifest r)). \<exists>f \<in> set (ms_Files sw).
       ms_SwitchName sw = cap_SwitchName c \<and> mf_Command f = cap_Command c \<and> mf_SHA256 f = bc_sha256hex bc (cap_Stdout c) \<and>
       (BundleRoot @ ''/'' @ mf_Path f, cap_Stdout c) \<in> set (br_Zip r))) \<and>
    (\<forall>sw \<in> set (bm_Switches (br_Manifest r)). \<forall>f \<in> set (ms_Files sw). \<not> isUnsafeBundlePath (mf_Path f) \<and>
       (\<exists>c \<in> set cs. captureOK c \<and> cap_SwitchName c = ms_SwitchName sw \<and> cap_Command c = mf_Command f \<and>
          mf_SHA256 f = bc_sha256hex bc (cap_Stdout c))) \<and>
    distinct (map fst (br_Zip r)) \<and>
    bs_CommandsAttempted (br_Summary r) = length cs \<and>
    bs_CommandsSucceeded (br_Summary r) = length (filter captureOK cs) \<and>
    bs_CommandsFailed (br_Summary r) = length (filter (\<lambda>c. \<not> captureOK c) cs)"
proof -
  let ?gs = "group_captures cs" and ?p = embeddedProfile
  let ?F = "concat (map (group_files ?p) ?gs)"
  note form = build_result_form [OF assms]
  note g = group_captures_groups [of cs] and good = group_good_iff [OF form(1)] and P = embedded_profile(2)
  have "\<forall>h \<in> set ?gs. group_ok ?p h" using form(1) groups_ok_iff [OF P g] by (auto simp: bundle_input_ok_def)
  then have dF: "distinct (map fst ?F)" using file_names_distinct [OF P] form(1) by (simp add: bundle_input_ok_def)
  obtain me where sw: "bm_Switches (br_Manifest r) = map (switch_of bc ?p me) ?gs" using form(2) by blast
  obtain a b d where z: "br_Zip r = archive a b d ?F" using form(6) unfolding archive_def by blast
  have have1: "\<exists>sw \<in> set (bm_Switches (br_Manifest r)). \<exists>f \<in> set (ms_Files sw).
       ms_SwitchName sw = cap_SwitchName c \<and> mf_Command f = cap_Command c \<and> mf_SHA256 f = bc_sha256hex bc (cap_Stdout c) \<and>
       (BundleRoot @ ''/'' @ mf_Path f, cap_Stdout c) \<in> set (br_Zip r)" if c: "c \<in> set cs" "captureOK c" for c
  proof -
    have "cap_SwitchName c \<in> sg_name ` set ?gs" using g c by (auto simp: groups_of_def)
    then obtain h where h: "h \<in> set ?gs" "sg_name h = cap_SwitchName c" by (metis imageE)
    obtain pc where pc: "pc \<in> set (pf_Commands ?p)" "pc_ID pc = cap_Command c" using form(1) c by (auto simp: bundle_input_ok_def)
    then have m: "(pc, c) \<in> set (group_good ?p h)" using good h c by auto
    then have "(rel_path h pc, cap_Stdout c) \<in> set ?F" using h(1) by (force simp: group_files_def)
    then have "(BundleRoot @ ''/'' @ rel_path h pc, cap_Stdout c) \<in> set (br_Zip r)" unfolding z by (rule archive_entry [OF dF])
    moreover have "manifest_entry bc h pc c \<in> set (ms_Files (switch_of bc ?p me h))" using m by force
    moreover have "switch_of bc ?p me h \<in> set (bm_Switches (br_Manifest r))" using h sw by simp
    ultimately show ?thesis using h pc
      by (intro bexI [of _ "switch_of bc ?p me h"] bexI [of _ "manifest_entry bc h pc c"]) (auto simp: manifest_entry_def)
  qed
  have have2: "\<not> isUnsafeBundlePath (mf_Path f) \<and> (\<exists>c \<in> set cs. captureOK c \<and> cap_SwitchName c = ms_SwitchName s \<and>
      cap_Command c = mf_Command f \<and> mf_SHA256 f = bc_sha256hex bc (cap_Stdout c))"
    if s: "s \<in> set (bm_Switches (br_Manifest r))" "f \<in> set (ms_Files s)" for s f
  proof -
    obtain h where h: "h \<in> set ?gs" "s = switch_of bc ?p me h" using s(1) sw by auto
    obtain pc c where m: "(pc, c) \<in> set (group_good ?p h)" "f = manifest_entry bc h pc c" using s(2) h by auto
    then show ?thesis using h good [OF h(1), of pc c] group_good_safe [OF form(1) h(1) m(1)] by (auto simp: manifest_entry_def)
  qed
  have have3: "distinct (map fst (br_Zip r))"
    unfolding z by (rule archive_names_distinct [OF dF]) (auto simp: group_files_def rel_path_def)
  note bundle_counts [OF assms]
  moreover have "map ms_SwitchName (bm_Switches (br_Manifest r)) = map sg_name ?gs" by (simp add: sw)
  ultimately show ?thesis using have1 have2 have3 by blast
qed

theorem bundle_is_faithful_witness:
  "case BuildEvidenceBundle demo_bundle_codec 9 demo_captures demo_options of Inl e \<Rightarrow> False
   | Inr r \<Rightarrow> bs_CommandsAttempted (br_Summary r) = 2 \<and> bs_CommandsSucceeded (br_Summary r) = 1 \<and>
       bs_CommandsFailed (br_Summary r) = 1 \<and> distinct (map fst (br_Zip r)) \<and>
       (\<exists>f. (BundleRoot @ ''/'' @ f, ''v9'') \<in> set (br_Zip r))"
proof -
  have "\<not> isl (BuildEvidenceBundle demo_bundle_codec 9 demo_captures demo_options)" by code_simp
  then obtain r where r: "BuildEvidenceBundle demo_bundle_codec 9 demo_captures demo_options = Inr r"
    by (cases "BuildEvidenceBundle demo_bundle_codec 9 demo_captures demo_options") simp_all
  have "captureOK (demo_capture ''version'' ''v9'' 0)" "\<not> captureOK (demo_capture ''switchshow'' '''' 1)"
    "cap_Stdout (demo_capture ''version'' ''v9'' 0) = ''v9''" by code_simp+
  then show ?thesis using bundle_is_faithful [OF r] unfolding r sum.case by (auto simp: demo_captures_def)
qed

end
