(* ===== verification/BrocadeCLI.thy ===== *)
theory BrocadeCLI
  imports EvidenceBundle TargetStore "HOL-Library.Sublist"
begin

text \<open>
  The read-only capture over SSH (brocadecli/): the resolution of the embedded profile into commands,
  the collection loop over an abstract command runner, and the production runner with its cache of
  connections. A runner is a function that passes its state along. What one call of the SSH runner
  observes (clock, key file, dialling, session, command) is an \<open>ssh_io\<close>, one per call; the parsing of
  private keys and of known_hosts files is a parameter (\<open>ssh_lib\<close>).
\<close>

section \<open>Targets and commands\<close>

record brocade_target =
  bt_SwitchName :: string
  bt_Host :: string
  bt_Username :: string
  bt_FabricRole :: string
  bt_FID :: "int option"
  bt_SSHKeyPath :: string
  bt_PortRange :: string
  bt_Notes :: string

record resolved_command =
  rv_id :: string
  rv_exec :: string
  rv_filename :: string

datatype cli_error = EmptyExec | UnsafeExec string | ProfileUnusable bundle_error | EmptyProfile | RunnerRequired
  | TargetRequired | CommandFailed string string | BundleFailed bundle_error

text \<open>The characters semicolon, bar, ampersand, back quote, dollar, the two angles and the line ends.\<close>

definition shellMetaChars :: string where
  "shellMetaChars = '';|&'' @ [CHR 0x60] @ ''$><'' @ [CHR 0x0A, CHR 0x0D]"

definition assertSafeExec :: "string \<Rightarrow> cli_error option" where
  "assertSafeExec e =
     (if trim_space e = '''' then Some EmptyExec
      else if list_ex (\<lambda>c. c \<in> set shellMetaChars) e then Some (UnsafeExec e)
      else None)"

text \<open>\<open>strings.ReplaceAll\<close> for a non-empty pattern.\<close>

function replace_all :: "string \<Rightarrow> string \<Rightarrow> string \<Rightarrow> string" where
  "replace_all old new s =
     (if s = [] then []
      else if old \<noteq> [] \<and> has_prefix s old then new @ replace_all old new (drop (length old) s)
      else hd s # replace_all old new (tl s))"
  by pat_completeness auto
termination by (relation "measure (\<lambda>(old, new, s). length s)") auto

declare replace_all.simps [simp del]

definition resolve_command :: "string \<Rightarrow> profile_command \<Rightarrow> resolved_command" where
  "resolve_command portRange pc = \<lparr>rv_id = pc_ID pc, rv_exec = replace_all ''{port_range}'' portRange (pc_Exec pc),
     rv_filename = pc_Filename pc\<rparr>"

fun resolve_commands :: "string \<Rightarrow> profile_command list \<Rightarrow> cli_error + resolved_command list" where
  "resolve_commands portRange [] = Inr []"
| "resolve_commands portRange (pc # pcs) =
     (case assertSafeExec (rv_exec (resolve_command portRange pc)) of Some e \<Rightarrow> Inl e
      | None \<Rightarrow> (case resolve_commands portRange pcs of Inl e \<Rightarrow> Inl e | Inr out \<Rightarrow> Inr (resolve_command portRange pc # out)))"

definition port_range :: "brocade_target \<Rightarrow> string" where
  "port_range t = (if trim_space (bt_PortRange t) = '''' then DefaultPortRange else trim_space (bt_PortRange t))"

definition resolveProfileCommands :: "brocade_target \<Rightarrow> cli_error + resolved_command list" where
  "resolveProfileCommands t =
     (case ProfileCommands of Inl e \<Rightarrow> Inl (ProfileUnusable e)
      | Inr profile \<Rightarrow> if profile = [] then Inl EmptyProfile else resolve_commands (port_range t) profile)"

section \<open>Collection\<close>

record command_result =
  cr_Stdout :: string
  cr_Stderr :: string
  cr_ExitCode :: int
  cr_TimedOut :: bool
  cr_Started :: time
  cr_Elapsed :: duration
  cr_Err :: "string option"

type_synonym 's runner = "'s \<Rightarrow> brocade_target \<Rightarrow> string \<Rightarrow> command_result \<times> 's"

record collect_options =
  co_ContinueOnError :: "bool option"
  co_CollectedAt :: time

record log_entry =
  le_Host :: string
  le_SwitchName :: string
  le_CommandID :: string
  le_Started :: time
  le_Finished :: time
  le_ExitCode :: int
  le_TimedOut :: bool
  le_Included :: bool
  le_StderrSummary :: string
  le_Note :: string

definition stderrSummaryMax :: nat where "stderrSummaryMax = 200"

definition ellipsis :: string where "ellipsis = [CHR 0xE2, CHR 0x80, CHR 0xA6]"

definition summarizeStderr :: "string \<Rightarrow> string" where
  "summarizeStderr stderr =
     (let s = map (\<lambda>c. if c = CHR 0x0A then CHR '' '' else c) (trim_space stderr)
      in if length s > stderrSummaryMax then take stderrSummaryMax s @ ellipsis else s)"

definition result_ok :: "command_result \<Rightarrow> bool" where
  "result_ok r = (cr_Err r = None \<and> cr_ExitCode r = 0 \<and> \<not> cr_TimedOut r \<and> trim_space (cr_Stdout r) \<noteq> '''')"

definition log_entry_of :: "brocade_target \<Rightarrow> resolved_command \<Rightarrow> command_result \<Rightarrow> log_entry" where
  "log_entry_of t cmd r = \<lparr>le_Host = bt_Host t, le_SwitchName = bt_SwitchName t, le_CommandID = rv_id cmd,
     le_Started = cr_Started r, le_Finished = cr_Started r + cr_Elapsed r, le_ExitCode = cr_ExitCode r,
     le_TimedOut = cr_TimedOut r, le_Included = result_ok r, le_StderrSummary = summarizeStderr (cr_Stderr r),
     le_Note = (case cr_Err r of None \<Rightarrow> '''' | Some e \<Rightarrow> e)\<rparr>"

definition capture_of :: "time \<Rightarrow> brocade_target \<Rightarrow> resolved_command \<Rightarrow> command_result \<Rightarrow> command_capture" where
  "capture_of collectedAt t cmd r = \<lparr>cap_SwitchName = bt_SwitchName t, cap_FabricRole = bt_FabricRole t,
     cap_Command = rv_id cmd, cap_Filename = rv_filename cmd, cap_Stdout = cr_Stdout r, cap_Stderr = cr_Stderr r,
     cap_ExitCode = cr_ExitCode r, cap_TimedOut = cr_TimedOut r, cap_CollectedAt = collectedAt\<rparr>"

fun collect_commands ::
  "'s runner \<Rightarrow> bool \<Rightarrow> time \<Rightarrow> brocade_target \<Rightarrow> resolved_command list \<Rightarrow> command_capture list \<Rightarrow> log_entry list \<Rightarrow> 's
   \<Rightarrow> (cli_error option \<times> command_capture list \<times> log_entry list) \<times> 's" where
  "collect_commands run cont tm t [] caps lg s = ((None, caps, lg), s)"
| "collect_commands run cont tm t (cmd # cmds) caps lg s =
     (case run s t (rv_exec cmd) of (r, s1) \<Rightarrow>
        if \<not> result_ok r \<and> \<not> cont
        then ((Some (CommandFailed (rv_id cmd) (bt_SwitchName t)), caps, lg @ [log_entry_of t cmd r]), s1)
        else collect_commands run cont tm t cmds (caps @ [capture_of tm t cmd r]) (lg @ [log_entry_of t cmd r]) s1)"

fun collect_targets ::
  "'s runner \<Rightarrow> bool \<Rightarrow> time \<Rightarrow> brocade_target list \<Rightarrow> command_capture list \<Rightarrow> log_entry list \<Rightarrow> 's
   \<Rightarrow> (cli_error option \<times> command_capture list \<times> log_entry list) \<times> 's" where
  "collect_targets run cont tm [] caps lg s = ((None, caps, lg), s)"
| "collect_targets run cont tm (t # ts) caps lg s =
     (case resolveProfileCommands t of
        Inl e \<Rightarrow> ((Some e, [], lg), s)
      | Inr cmds \<Rightarrow>
         (case collect_commands run cont tm t cmds caps lg s of
            ((Some e, caps1, lg1), s1) \<Rightarrow> ((Some e, caps1, lg1), s1)
          | ((None, caps1, lg1), s1) \<Rightarrow> collect_targets run cont tm ts caps1 lg1 s1))"

definition stamp :: "time \<Rightarrow> collect_options \<Rightarrow> time" where
  "stamp now opts = (if co_CollectedAt opts = zero_time then now else co_CollectedAt opts)"

definition Collect ::
  "'s runner option \<Rightarrow> time \<Rightarrow> brocade_target list \<Rightarrow> collect_options \<Rightarrow> 's
   \<Rightarrow> (cli_error option \<times> command_capture list \<times> log_entry list) \<times> 's" where
  "Collect runner now targets opts s =
     (case runner of None \<Rightarrow> ((Some RunnerRequired, [], []), s)
      | Some run \<Rightarrow>
         if targets = [] then ((Some TargetRequired, [], []), s)
         else collect_targets run (co_ContinueOnError opts \<noteq> Some False) (stamp now opts) targets [] [] s)"

definition target_meta :: "string \<Rightarrow> int option \<Rightarrow> string \<Rightarrow> switch_meta" where
  "target_meta name fid notes = \<lparr>me_SwitchName = name, me_FID = fid, me_WWN = '''', me_DomainID = None, me_Model = '''',
     me_Notes = notes\<rparr>"

text \<open>The clock is read again for the bundle (\<open>later\<close>) when no collection time is given.\<close>

definition CollectBundle ::
  "bundle_codec \<Rightarrow> 's runner option \<Rightarrow> time \<Rightarrow> time \<Rightarrow> brocade_target list \<Rightarrow> collect_options \<Rightarrow> 's
   \<Rightarrow> ((cli_error + build_result) \<times> log_entry list) \<times> 's" where
  "CollectBundle bc runner now later targets opts s =
     (case Collect runner now targets opts s of
        ((Some e, caps, lg), s1) \<Rightarrow> ((Inl e, lg), s1)
      | ((None, caps, lg), s1) \<Rightarrow>
         (case BuildEvidenceBundle bc later caps
                 \<lparr>bo_CollectionMethod = CollectionMethodAgent, bo_FabricRole = '''', bo_CustomerSupplied = False,
                  bo_CollectedAt = stamp later opts,
                  bo_SwitchMeta = map (\<lambda>t. target_meta (bt_SwitchName t) (bt_FID t) (bt_Notes t)) targets,
                  bo_Collector = ''filterrex_agent_brocade_ssh''\<rparr> of
            Inl e \<Rightarrow> ((Inl (BundleFailed e), lg), s1)
          | Inr res \<Rightarrow> ((Inr res, lg), s1)))"


section \<open>The SSH runner\<close>

record ssh_runner_config =
  sc_KnownHostsPath :: string
  sc_ConnectTimeout :: duration
  sc_CommandTimeout :: duration
  sc_Port :: int

text \<open>A host-key database and a signer are what the SSH package makes of the bytes of their files.
  The only authentication method the runner configures is \<open>PublicKeys\<close>.\<close>

datatype host_key_db = HostKeyDB string
datatype auth_method = PublicKeys string

record client_config =
  cc_User :: string
  cc_Auth :: "auth_method list"
  cc_HostKeyCallback :: host_key_db
  cc_Timeout :: duration

record ssh_client =
  cl_addr :: string
  cl_config :: client_config

record ssh_lib =
  sl_knownhosts :: "string \<Rightarrow> string + host_key_db"
  sl_parseKey :: "string \<Rightarrow> string option"

datatype finish = Finished | ExitError int | RunError string
datatype command_outcome = TimesOut string string | Ends string string finish

record ssh_io =
  si_now :: time
  si_readKey :: "string \<Rightarrow> string + string"
  si_dial :: "string \<Rightarrow> client_config \<Rightarrow> string option"
  si_session :: "string option"
  si_outcome :: command_outcome

text \<open>\<open>sr_calls\<close> counts the calls of \<open>Run\<close> and selects what the next one observes; \<open>sr_dials\<close> and
  \<open>sr_execs\<close> list the connections made and the commands sent, for which target and over which connection.\<close>

record ssh_runner =
  sr_cfg :: ssh_runner_config
  sr_hostKeyC :: host_key_db
  sr_clients :: "(string \<times> ssh_client) list"
  sr_calls :: nat
  sr_dials :: "ssh_client list"
  sr_execs :: "(brocade_target \<times> ssh_client \<times> string) list"

datatype runner_error = KnownHostsRequired | KnownHostsLoad string string

definition NewSSHRunner :: "ssh_lib \<Rightarrow> ssh_runner_config \<Rightarrow> runner_error + ssh_runner" where
  "NewSSHRunner lib cfg =
     (if trim_space (sc_KnownHostsPath cfg) = '''' then Inl KnownHostsRequired
      else case sl_knownhosts lib (sc_KnownHostsPath cfg) of
             Inl e \<Rightarrow> Inl (KnownHostsLoad (sc_KnownHostsPath cfg) e)
           | Inr cb \<Rightarrow>
              Inr \<lparr>sr_cfg = cfg\<lparr>sc_ConnectTimeout := (if sc_ConnectTimeout cfg = 0 then 10 * second else sc_ConnectTimeout cfg),
                              sc_CommandTimeout := (if sc_CommandTimeout cfg = 0 then 30 * second else sc_CommandTimeout cfg),
                              sc_Port := (if sc_Port cfg = 0 then 22 else sc_Port cfg)\<rparr>,
                   sr_hostKeyC = cb, sr_clients = [], sr_calls = 0, sr_dials = [], sr_execs = []\<rparr>)"

text \<open>\<open>Close\<close> returns the first error of closing a connection, given as the observations \<open>errs\<close>, and
  forgets every connection.\<close>

definition Close :: "(string \<Rightarrow> string option) \<Rightarrow> ssh_runner \<Rightarrow> string option \<times> ssh_runner" where
  "Close errs r =
     ((case filter (\<lambda>e. e \<noteq> None) (map (\<lambda>hc. errs (fst hc)) (sr_clients r)) of [] \<Rightarrow> None | e # _ \<Rightarrow> e), r\<lparr>sr_clients := []\<rparr>)"

definition ssh_config :: "ssh_runner \<Rightarrow> brocade_target \<Rightarrow> string \<Rightarrow> client_config" where
  "ssh_config r t signer = \<lparr>cc_User = bt_Username t, cc_Auth = [PublicKeys signer], cc_HostKeyCallback = sr_hostKeyC r,
     cc_Timeout = sc_ConnectTimeout (sr_cfg r)\<rparr>"

definition client :: "ssh_lib \<Rightarrow> ssh_io \<Rightarrow> brocade_target \<Rightarrow> ssh_runner \<Rightarrow> (string + ssh_client) \<times> ssh_runner" where
  "client lib io t r =
     (case map_of (sr_clients r) (bt_Host t) of Some c \<Rightarrow> (Inr c, r)
      | None \<Rightarrow>
         (case si_readKey io (bt_SSHKeyPath t) of
            Inl e \<Rightarrow> (Inl (''read ssh key '' @ go_quote (bt_SSHKeyPath t) @ '': '' @ e), r)
          | Inr keyBytes \<Rightarrow>
             (case sl_parseKey lib keyBytes of
                None \<Rightarrow> (Inl (''parse ssh key for host '' @ bt_Host t @ '': invalid private key''), r)
              | Some signer \<Rightarrow>
                 (let addr = JoinHostPort (bt_Host t) (sc_Port (sr_cfg r)); c = \<lparr>cl_addr = addr, cl_config = ssh_config r t signer\<rparr>
                  in case si_dial io addr (cl_config c) of
                       Some e \<Rightarrow> (Inl (''ssh dial '' @ addr @ '': '' @ e), r)
                     | None \<Rightarrow> (Inr c, r\<lparr>sr_clients := (bt_Host t, c) # sr_clients r, sr_dials := sr_dials r @ [c]\<rparr>)))))"

definition failed_result :: "time \<Rightarrow> string \<Rightarrow> command_result" where
  "failed_result now e = \<lparr>cr_Stdout = '''', cr_Stderr = '''', cr_ExitCode = -1, cr_TimedOut = False, cr_Started = now,
     cr_Elapsed = 0, cr_Err = Some e\<rparr>"

text \<open>The deferred assignment of \<open>Elapsed\<close> changes the local variable after the result has been copied, so
  the caller always sees an elapsed time of zero.\<close>

definition result_of :: "time \<Rightarrow> command_outcome \<Rightarrow> command_result" where
  "result_of now oc =
     (case oc of
        TimesOut out err \<Rightarrow> \<lparr>cr_Stdout = out, cr_Stderr = err @ [CHR 0x0A] @ ''[filterrex] command timed out'', cr_ExitCode = -1,
                            cr_TimedOut = True, cr_Started = now, cr_Elapsed = 0, cr_Err = None\<rparr>
      | Ends out err f \<Rightarrow> \<lparr>cr_Stdout = out, cr_Stderr = err,
                            cr_ExitCode = (case f of Finished \<Rightarrow> 0 | ExitError n \<Rightarrow> n | RunError e \<Rightarrow> -1),
                            cr_TimedOut = False, cr_Started = now, cr_Elapsed = 0,
                            cr_Err = (case f of RunError e \<Rightarrow> Some e | _ \<Rightarrow> None)\<rparr>)"

definition ssh_run :: "ssh_lib \<Rightarrow> (nat \<Rightarrow> ssh_io) \<Rightarrow> ssh_runner runner" where
  "ssh_run lib env r t e =
     (let io = env (sr_calls r); r0 = r\<lparr>sr_calls := Suc (sr_calls r)\<rparr>
      in case client lib io t r0 of
           (Inl err, r1) \<Rightarrow> (failed_result (si_now io) err, r1)
         | (Inr c, r1) \<Rightarrow>
            (case si_session io of
               Some err \<Rightarrow> (failed_result (si_now io) (''open ssh session on '' @ bt_Host t @ '': '' @ err), r1)
             | None \<Rightarrow> (result_of (si_now io) (si_outcome io), r1\<lparr>sr_execs := sr_execs r1 @ [(t, c, e)]\<rparr>)))"


section \<open>What is run\<close>

lemma trim_space_blank: "trim_space s = [] \<longleftrightarrow> (\<forall>c \<in> set s. is_space c)"
  unfolding trim_space_def by (metis dropWhile_eq_Nil_conv rev_is_Nil_conv set_dropWhileD set_rev dropWhile_idem)

lemma assertSafeExec_None: "assertSafeExec e = None \<longleftrightarrow> trim_space e \<noteq> [] \<and> set e \<inter> set shellMetaChars = {}"
  unfolding assertSafeExec_def list_ex_iff by auto

lemma replace_all_free: "CHR ''{'' \<notin> set s \<Longrightarrow> replace_all ''{port_range}'' pr s = s"
proof (induction s)
  case (Cons c s)
  then show ?case by (subst replace_all.simps) auto
qed (simp add: replace_all.simps)

lemma replace_all_portshow: "replace_all ''{port_range}'' pr ''portshow -i {port_range} -f'' = ''portshow -i '' @ pr @ '' -f''"
  by (simp add: replace_all.simps)

lemma resolve_commands_ok:
  "resolve_commands pr pcs = Inr out \<longleftrightarrow>
     out = map (resolve_command pr) pcs \<and> (\<forall>pc \<in> set pcs. assertSafeExec (rv_exec (resolve_command pr pc)) = None)"
  by (induction pcs arbitrary: out) (auto split: option.splits sum.splits)

lemma profile_execs:
  "\<forall>pc \<in> set (pf_Commands embeddedProfile). pc_Exec pc = ''portshow -i {port_range} -f'' \<or>
     (CHR ''{'' \<notin> set (pc_Exec pc) \<and> assertSafeExec (pc_Exec pc) = None)"
  "\<exists>pc \<in> set (pf_Commands embeddedProfile). pc_Exec pc = ''portshow -i {port_range} -f''"
  by code_simp+

lemma portshow_safe: "assertSafeExec (''portshow -i '' @ pr @ '' -f'') = None \<longleftrightarrow> set pr \<inter> set shellMetaChars = {}"
proof -
  have "trim_space (''portshow -i '' @ pr @ '' -f'') \<noteq> []" by (simp add: trim_space_blank is_space_def char_code_def)
  moreover have "set ''portshow -i '' \<inter> set shellMetaChars = {}" "set '' -f'' \<inter> set shellMetaChars = {}" by code_simp+
  ultimately show ?thesis unfolding assertSafeExec_None set_append by blast
qed

definition profile_run :: "brocade_target \<Rightarrow> resolved_command list" where
  "profile_run t = map (resolve_command (port_range t)) (pf_Commands embeddedProfile)"

lemma profile_commands: "ProfileCommands = Inr (pf_Commands embeddedProfile)" "pf_Commands embeddedProfile \<noteq> []"
  by code_simp+

lemma resolve_exact:
  "resolveProfileCommands t = Inr cmds \<longleftrightarrow> cmds = profile_run t \<and> set (port_range t) \<inter> set shellMetaChars = {}"
proof -
  note p = profile_commands
  have "(\<forall>pc \<in> set (pf_Commands embeddedProfile). assertSafeExec (rv_exec (resolve_command (port_range t) pc)) = None) \<longleftrightarrow>
      set (port_range t) \<inter> set shellMetaChars = {}"
    using profile_execs unfolding resolve_command_def resolved_command.select_convs
    by (metis portshow_safe replace_all_free replace_all_portshow)
  then show ?thesis unfolding resolveProfileCommands_def p(1) profile_run_def by (simp add: p(2) resolve_commands_ok)
qed

lemma profile_run_safe:
  assumes "set (port_range t) \<inter> set shellMetaChars = {}" and "c \<in> set (profile_run t)"
  shows "set (rv_exec c) \<inter> set shellMetaChars = {}"
proof -
  have "resolveProfileCommands t = Inr (profile_run t)" using assms(1) resolve_exact by blast
  then have "assertSafeExec (rv_exec c) = None"
    using assms(2) unfolding resolveProfileCommands_def profile_commands
    by (auto simp: resolve_commands_ok profile_run_def split: if_splits)
  then show ?thesis by (simp add: assertSafeExec_None)
qed


text \<open>A runner that also lists the targets and commands it was given.\<close>

definition recording :: "'s runner \<Rightarrow> ('s \<times> (brocade_target \<times> string) list) runner" where
  "recording run st t e = (case run (fst st) t e of (r, s1) \<Rightarrow> (r, (s1, snd st @ [(t, e)])))"

lemma recording_step: "run s t e = (r, s1) \<Longrightarrow> recording run (s, tr) t e = (r, (s1, tr @ [(t, e)]))"
  by (simp add: recording_def)

definition labels :: "brocade_target \<Rightarrow> resolved_command list \<Rightarrow> (string \<times> string \<times> string) list" where
  "labels t cmds = map (\<lambda>c. (bt_SwitchName t, rv_id c, rv_filename c)) cmds"

definition label_of :: "command_capture \<Rightarrow> string \<times> string \<times> string" where
  "label_of c = (cap_SwitchName c, cap_Command c, cap_Filename c)"

lemma label_of_capture [simp]: "label_of (capture_of tm t cmd r) = (bt_SwitchName t, rv_id cmd, rv_filename cmd)"
  by (simp add: label_of_def capture_of_def)

lemma collect_commands_runs:
  assumes "collect_commands (recording run) cont tm t cmds caps lg (s, tr) = ((err, caps1, lg1), (s1, tr1))"
  shows "\<exists>done. prefix done cmds \<and> tr1 = tr @ map (\<lambda>c. (t, rv_exec c)) done \<and> length lg1 = length lg + length done \<and>
    (err = None \<longrightarrow> done = cmds \<and> map label_of caps1 = map label_of caps @ labels t cmds) \<and> (cont \<longrightarrow> err = None)"
  using assms
proof (induction cmds arbitrary: caps lg s tr)
  case Nil
  then show ?case by (auto simp: labels_def)
next
  case (Cons cmd cmds)
  obtain r s2 where r: "run s t (rv_exec cmd) = (r, s2)" by fastforce
  show ?case
  proof (cases "\<not> result_ok r \<and> \<not> cont")
    case True
    then show ?thesis using Cons.prems recording_step [where run = run, OF r] by (intro exI [of _ "[cmd]"]) auto
  next
    case False
    then have "collect_commands (recording run) cont tm t cmds (caps @ [capture_of tm t cmd r]) (lg @ [log_entry_of t cmd r])
        (s2, tr @ [(t, rv_exec cmd)]) = ((err, caps1, lg1), (s1, tr1))"
      using Cons.prems recording_step [where run = run, OF r] by (auto split: if_splits)
    from Cons.IH [OF this] obtain dn where "prefix dn cmds" "tr1 = tr @ (t, rv_exec cmd) # map (\<lambda>c. (t, rv_exec c)) dn"
      "length lg1 = Suc (length lg + length dn)" "err = None \<longrightarrow> dn = cmds \<and> map label_of caps1 = map label_of caps @ (bt_SwitchName t, rv_id cmd, rv_filename cmd) # labels t cmds"
      "cont \<longrightarrow> err = None" by (auto simp: labels_def)
    then show ?thesis by (intro exI [of _ "cmd # dn"]) (auto simp: labels_def)
  qed
qed


definition target_safe :: "brocade_target \<Rightarrow> bool" where
  "target_safe t = (set (port_range t) \<inter> set shellMetaChars = {})"

lemma collect_targets_runs:
  assumes "collect_targets (recording run) cont tm ts caps lg (s, tr) = ((err, caps1, lg1), (s1, tr1))"
  shows "\<exists>evs. tr1 = tr @ evs \<and> length lg1 = length lg + length evs \<and>
    (\<forall>(t, e) \<in> set evs. t \<in> set ts \<and> target_safe t \<and> e \<in> rv_exec ` set (profile_run t)) \<and>
    (err = None \<longrightarrow> evs = concat (map (\<lambda>t. map (\<lambda>c. (t, rv_exec c)) (profile_run t)) ts) \<and>
       map label_of caps1 = map label_of caps @ concat (map (\<lambda>t. labels t (profile_run t)) ts)) \<and>
    (cont \<longrightarrow> (err = None \<longleftrightarrow> list_all target_safe ts))"
  using assms
proof (induction ts arbitrary: caps lg s tr)
  case (Cons t ts)
  show ?case
  proof (cases "resolveProfileCommands t")
    case (Inl e)
    then have "\<not> target_safe t" using resolve_exact [of t "profile_run t"] by (auto simp: target_safe_def)
    then show ?thesis using Cons.prems Inl by auto
  next
    case (Inr cmds)
    then have c: "cmds = profile_run t" "target_safe t" using resolve_exact by (auto simp: target_safe_def)
    obtain err2 caps2 lg2 s2 tr2 where
      e: "collect_commands (recording run) cont tm t cmds caps lg (s, tr) = ((err2, caps2, lg2), (s2, tr2))"
      by (metis prod.collapse)
    from collect_commands_runs [OF e] obtain dn where d: "prefix dn cmds" "tr2 = tr @ map (\<lambda>c. (t, rv_exec c)) dn"
      "length lg2 = length lg + length dn" "cont \<longrightarrow> err2 = None"
      "err2 = None \<longrightarrow> dn = cmds \<and> map label_of caps2 = map label_of caps @ labels t cmds" by blast
    have dn: "set dn \<subseteq> set (profile_run t)" using d(1) c by (auto dest: set_mono_prefix)
    show ?thesis
    proof (cases err2)
      case None
      then have "collect_targets (recording run) cont tm ts caps2 lg2 (s2, tr2) = ((err, caps1, lg1), (s1, tr1))"
        using Cons.prems Inr e by simp
      from Cons.IH [OF this] obtain evs where "tr1 = tr2 @ evs" "length lg1 = length lg2 + length evs"
        "\<forall>(t, e) \<in> set evs. t \<in> set ts \<and> target_safe t \<and> e \<in> rv_exec ` set (profile_run t)"
        "err = None \<longrightarrow> evs = concat (map (\<lambda>t. map (\<lambda>c. (t, rv_exec c)) (profile_run t)) ts) \<and>
         map label_of caps1 = map label_of caps2 @ concat (map (\<lambda>t. labels t (profile_run t)) ts)"
        "cont \<longrightarrow> (err = None \<longleftrightarrow> list_all target_safe ts)" by blast
      then show ?thesis using d dn c None by (intro exI [of _ "map (\<lambda>c. (t, rv_exec c)) dn @ evs"]) auto
    next
      case (Some e2)
      then show ?thesis using Cons.prems Inr e d dn c by (intro exI [of _ "map (\<lambda>c. (t, rv_exec c)) dn"]) auto
    qed
  qed
qed auto

text \<open>Recording does not change what the collector does.\<close>

lemma recording_commands:
  "\<exists>tr1. collect_commands (recording run) cont tm t cmds caps lg (s, tr) =
     (fst (collect_commands run cont tm t cmds caps lg s), (snd (collect_commands run cont tm t cmds caps lg s), tr1))"
proof (induction cmds arbitrary: caps lg s tr)
  case (Cons cmd cmds)
  obtain r s2 where r: "run s t (rv_exec cmd) = (r, s2)" by fastforce
  then show ?case using Cons.IH recording_step [where run = run, OF r] by (cases cont) simp_all
qed simp

lemma recording_targets:
  "\<exists>tr1. collect_targets (recording run) cont tm ts caps lg (s, tr) =
     (fst (collect_targets run cont tm ts caps lg s), (snd (collect_targets run cont tm ts caps lg s), tr1))"
proof (induction ts arbitrary: caps lg s tr)
  case (Cons t ts)
  show ?case
  proof (cases "resolveProfileCommands t")
    case (Inr cmds)
    obtain err2 caps2 lg2 s2 where e: "collect_commands run cont tm t cmds caps lg s = ((err2, caps2, lg2), s2)"
      by (metis prod.collapse)
    obtain tr2 where "collect_commands (recording run) cont tm t cmds caps lg (s, tr) = ((err2, caps2, lg2), (s2, tr2))"
      using recording_commands [of run cont tm t cmds caps lg s tr] e by auto
    then show ?thesis using Inr e Cons.IH by (cases err2) simp_all
  qed simp
qed simp

lemma Collect_captures:
  assumes "Collect (Some run) now ts opts s = ((err, caps, lg), s1)"
  shows "err = None \<Longrightarrow> map label_of caps = concat (map (\<lambda>t. labels t (profile_run t)) ts)"
    and "co_ContinueOnError opts \<noteq> Some False \<Longrightarrow> ts \<noteq> [] \<Longrightarrow> (err = None \<longleftrightarrow> list_all target_safe ts)"
proof -
  have "ts = [] \<longrightarrow> err \<noteq> None" using assms by (auto simp: Collect_def)
  moreover have "(err = None \<longrightarrow> map label_of caps = concat (map (\<lambda>t. labels t (profile_run t)) ts)) \<and>
      (co_ContinueOnError opts \<noteq> Some False \<longrightarrow> (err = None \<longleftrightarrow> list_all target_safe ts))" if "ts \<noteq> []"
  proof -
    have "collect_targets run (co_ContinueOnError opts \<noteq> Some False) (stamp now opts) ts [] [] s = ((err, caps, lg), s1)"
      using assms that by (simp add: Collect_def)
    then obtain tr where "collect_targets (recording run) (co_ContinueOnError opts \<noteq> Some False) (stamp now opts) ts [] [] (s, []) =
        ((err, caps, lg), (s1, tr))"
      using recording_targets [of run "co_ContinueOnError opts \<noteq> Some False" "stamp now opts" ts "[]" "[]" s "[]"] by auto
    from collect_targets_runs [OF this] show ?thesis by auto
  qed
  ultimately show "err = None \<Longrightarrow> map label_of caps = concat (map (\<lambda>t. labels t (profile_run t)) ts)"
    and "co_ContinueOnError opts \<noteq> Some False \<Longrightarrow> ts \<noteq> [] \<Longrightarrow> (err = None \<longleftrightarrow> list_all target_safe ts)" by blast+
qed

lemma Collect_length:
  assumes "Collect (Some run) now ts opts s = ((None, caps, lg), s1)"
  shows "length caps = length ts * length (pf_Commands embeddedProfile)"
proof -
  have "length (map label_of caps) = length (concat (map (\<lambda>t. labels t (profile_run t)) ts))"
    using Collect_captures(1) [OF assms] by simp
  also have "\<dots> = length ts * length (pf_Commands embeddedProfile)"
    by (induction ts) (simp_all add: labels_def profile_run_def)
  finally show ?thesis by simp
qed

text \<open>A target with a port range of its own, a runner that always answers, and an SSH environment in
  which dialling works.\<close>

definition demo_target :: brocade_target where
  "demo_target = \<lparr>bt_SwitchName = ''core1'', bt_Host = ''10.0.0.1'', bt_Username = ''ro'', bt_FabricRole = '''', bt_FID = None,
     bt_SSHKeyPath = ''/k'', bt_PortRange = '' 0-3 '', bt_Notes = ''''\<rparr>"

definition demo_collect_run :: "unit runner" where
  "demo_collect_run s t e = (\<lparr>cr_Stdout = e, cr_Stderr = '''', cr_ExitCode = 0, cr_TimedOut = False, cr_Started = 1, cr_Elapsed = 0,
     cr_Err = None\<rparr>, s)"

definition demo_ssh_lib :: ssh_lib where
  "demo_ssh_lib = \<lparr>sl_knownhosts = (\<lambda>p. Inr (HostKeyDB p)), sl_parseKey = Some\<rparr>"

definition demo_ssh_io :: ssh_io where
  "demo_ssh_io = \<lparr>si_now = 1, si_readKey = Inr, si_dial = (\<lambda>a c. None), si_session = None, si_outcome = Ends ''v9'' '''' Finished\<rparr>"

definition demo_ssh_config :: ssh_runner_config where
  "demo_ssh_config = \<lparr>sc_KnownHostsPath = ''/kh'', sc_ConnectTimeout = 0, sc_CommandTimeout = 0, sc_Port = 0\<rparr>"

text \<open>C18: The collector only ever runs the embedded profile. For every runner and every configuration of the
  targets, each command handed to the runner is a command of the embedded profile with the target's
  port range in place of the placeholder, contains no shell-control character, and is logged. When the
  run succeeds, every target has been asked every command of the profile in order and there is one
  capture of each under its profile name and file; with the default options it succeeds exactly when
  there is a target and no port range contains a shell-control character.\<close>
theorem collect_runs_profile_only:
  assumes "Collect (Some (recording run)) now ts opts (s, []) = ((err, caps, lg), (s', tr))"
  shows "(\<forall>(t, e) \<in> set tr. t \<in> set ts \<and> set e \<inter> set shellMetaChars = {} \<and>
      (\<exists>pc \<in> set (pf_Commands embeddedProfile). e = replace_all ''{port_range}'' (port_range t) (pc_Exec pc))) \<and>
    length lg = length tr \<and>
    (err = None \<longrightarrow> tr = concat (map (\<lambda>t. map (\<lambda>c. (t, rv_exec c)) (profile_run t)) ts) \<and>
       map label_of caps = concat (map (\<lambda>t. map (\<lambda>pc. (bt_SwitchName t, pc_ID pc, pc_Filename pc)) (pf_Commands embeddedProfile)) ts)) \<and>
    (co_ContinueOnError opts \<noteq> Some False \<longrightarrow>
       (err = None \<longleftrightarrow> ts \<noteq> [] \<and> (\<forall>t \<in> set ts. set (port_range t) \<inter> set shellMetaChars = {})))"
proof (cases "ts = []")
  case True
  then show ?thesis using assms by (auto simp: Collect_def)
next
  case False
  then have "collect_targets (recording run) (co_ContinueOnError opts \<noteq> Some False) (stamp now opts) ts [] [] (s, []) =
      ((err, caps, lg), (s', tr))" using assms by (simp add: Collect_def)
  from collect_targets_runs [OF this] have k: "length lg = length tr"
    "\<forall>(t, e) \<in> set tr. t \<in> set ts \<and> target_safe t \<and> e \<in> rv_exec ` set (profile_run t)"
    "err = None \<longrightarrow> tr = concat (map (\<lambda>t. map (\<lambda>c. (t, rv_exec c)) (profile_run t)) ts) \<and>
       map label_of caps = concat (map (\<lambda>t. labels t (profile_run t)) ts)"
    "co_ContinueOnError opts \<noteq> Some False \<longrightarrow> (err = None \<longleftrightarrow> list_all target_safe ts)" by auto
  have "labels t (profile_run t) = map (\<lambda>pc. (bt_SwitchName t, pc_ID pc, pc_Filename pc)) (pf_Commands embeddedProfile)" for t
    by (simp add: labels_def profile_run_def resolve_command_def)
  moreover have "set e \<inter> set shellMetaChars = {} \<and>
      (\<exists>pc \<in> set (pf_Commands embeddedProfile). e = replace_all ''{port_range}'' (port_range t) (pc_Exec pc))"
    if "target_safe t" "e \<in> rv_exec ` set (profile_run t)" for t e
  proof -
    from that(2) obtain c where c: "c \<in> set (profile_run t)" "e = rv_exec c" by blast
    then show ?thesis using profile_run_safe [OF _ c(1)] that(1) by (auto simp: target_safe_def profile_run_def resolve_command_def)
  qed
  moreover have "\<forall>(t, e) \<in> set tr. t \<in> set ts \<and> set e \<inter> set shellMetaChars = {} \<and>
      (\<exists>pc \<in> set (pf_Commands embeddedProfile). e = replace_all ''{port_range}'' (port_range t) (pc_Exec pc))"
    using k(2) calculation(2) by blast
  ultimately show ?thesis using k(1,3,4) False by (simp add: list_all_iff target_safe_def)
qed


theorem collect_runs_profile_only_witness:
  "case Collect (Some (recording demo_collect_run)) 1 [demo_target] \<lparr>co_ContinueOnError = None, co_CollectedAt = 0\<rparr> ((), []) of
     ((err, caps, lg), (s, tr)) \<Rightarrow> err = None \<and> length lg = length tr \<and> ''portshow -i 0-3 -f'' \<in> snd ` set tr"
proof -
  obtain err caps lg s tr where c: "Collect (Some (recording demo_collect_run)) 1 [demo_target] \<lparr>co_ContinueOnError = None, co_CollectedAt = 0\<rparr> ((), []) =
      ((err, caps, lg), (s, tr))" by (metis prod.collapse)
  have p: "set (port_range demo_target) \<inter> set shellMetaChars = {}"
    "list_ex (\<lambda>c. rv_exec c = ''portshow -i 0-3 -f'') (profile_run demo_target)" by code_simp+
  note k = collect_runs_profile_only [OF c]
  have "err = None" using k p(1) by simp
  moreover from this have "tr = map (\<lambda>c. (demo_target, rv_exec c)) (profile_run demo_target)" using k by simp
  then have "snd ` set tr = rv_exec ` set (profile_run demo_target)" by (force simp: image_image)
  then have "''portshow -i 0-3 -f'' \<in> snd ` set tr" using p(2) unfolding list_ex_iff by (metis imageI)
  ultimately show ?thesis using k c by simp
qed

section \<open>The log and the captures\<close>

text \<open>
  The contract of a command runner that the collector relies on: a transport error comes with a
  non-zero exit code. Under it the log and the bundle agree on which commands succeeded, although
  only the log looks at the error.
\<close>

definition entry_matches :: "command_capture \<Rightarrow> log_entry \<Rightarrow> bool" where
  "entry_matches c l = (le_SwitchName l = cap_SwitchName c \<and> le_CommandID l = cap_Command c \<and> le_Included l = captureOK c \<and>
     le_ExitCode l = cap_ExitCode c \<and> le_TimedOut l = cap_TimedOut c)"

locale command_runner =
  fixes run :: "'s runner"
  assumes err_fails: "cr_Err (fst (run s t e)) \<noteq> None \<Longrightarrow> cr_ExitCode (fst (run s t e)) \<noteq> 0"
begin

lemma entry_matches_capture:
  assumes "run s t e = (r, s')"
  shows "entry_matches (capture_of tm t cmd r) (log_entry_of t cmd r)"
proof -
  have "result_ok r = captureOK (capture_of tm t cmd r)"
    using err_fails [of s t e] assms by (cases "cr_Err r") (auto simp: result_ok_def captureOK_def capture_of_def)
  then show ?thesis by (simp add: entry_matches_def log_entry_of_def capture_of_def)
qed

lemma collect_commands_matches:
  assumes "collect_commands run True tm t cmds caps lg s = ((err, caps1, lg1), s1)" and "list_all2 entry_matches caps lg"
  shows "err = None \<and> list_all2 entry_matches caps1 lg1"
  using assms
proof (induction cmds arbitrary: caps lg s)
  case (Cons cmd cmds)
  obtain r s2 where r: "run s t (rv_exec cmd) = (r, s2)" by fastforce
  then have "list_all2 entry_matches (caps @ [capture_of tm t cmd r]) (lg @ [log_entry_of t cmd r])"
    using Cons.prems(2) entry_matches_capture [OF r] by (simp add: list_all2_appendI)
  then show ?case using Cons.IH Cons.prems(1) r by simp
qed simp

lemma collect_targets_matches:
  assumes "collect_targets run True tm ts caps lg s = ((None, caps1, lg1), s1)" and "list_all2 entry_matches caps lg"
  shows "list_all2 entry_matches caps1 lg1"
  using assms
proof (induction ts arbitrary: caps lg s)
  case (Cons t ts)
  from Cons.prems(1) obtain cmds where c: "resolveProfileCommands t = Inr cmds" by (auto split: sum.splits)
  obtain err2 caps2 lg2 s2 where e: "collect_commands run True tm t cmds caps lg s = ((err2, caps2, lg2), s2)"
    by (metis prod.collapse)
  from collect_commands_matches [OF e Cons.prems(2)] show ?case using Cons.IH Cons.prems(1) c e by simp
qed simp

lemma Collect_matches:
  assumes "Collect (Some run) now ts opts s = ((None, caps, lg), s1)" and "co_ContinueOnError opts = None"
  shows "list_all2 entry_matches caps lg"
  using assms collect_targets_matches [where caps = "[]" and lg = "[]"] by (auto simp: Collect_def split: if_splits)

end

lemma client_io:
  assumes "client lib io t r = (x, r1)"
  shows "sr_calls r1 = sr_calls r" "sr_cfg r1 = sr_cfg r" "sr_hostKeyC r1 = sr_hostKeyC r" "sr_execs r1 = sr_execs r"
  using assms by (auto simp: client_def Let_def split: option.splits sum.splits)

interpretation ssh: command_runner "ssh_run lib env"
  by unfold_locales
    (auto simp: ssh_run_def Let_def failed_result_def result_of_def split: prod.splits sum.splits option.splits command_outcome.splits finish.splits)


section \<open>The connections of the SSH runner\<close>

text \<open>The states of a runner made from a configuration: any sequence of commands, connections closed at
  any time.\<close>

inductive ssh_reach :: "ssh_lib \<Rightarrow> (nat \<Rightarrow> ssh_io) \<Rightarrow> ssh_runner_config \<Rightarrow> ssh_runner \<Rightarrow> bool" for lib env cfg where
  new: "NewSSHRunner lib cfg = Inr r \<Longrightarrow> ssh_reach lib env cfg r"
| run: "ssh_reach lib env cfg r \<Longrightarrow> ssh_run lib env r t e = (res, r') \<Longrightarrow> ssh_reach lib env cfg r'"
| close: "ssh_reach lib env cfg r \<Longrightarrow> Close errs r = (x, r') \<Longrightarrow> ssh_reach lib env cfg r'"

definition dial_ok :: "host_key_db \<Rightarrow> ssh_client \<Rightarrow> bool" where
  "dial_ok db c = (cc_HostKeyCallback (cl_config c) = db \<and> (\<exists>k. cc_Auth (cl_config c) = [PublicKeys k]))"

definition runner_port :: "ssh_runner_config \<Rightarrow> int" where
  "runner_port cfg = (if sc_Port cfg = 0 then 22 else sc_Port cfg)"

definition runner_inv :: "ssh_runner_config \<Rightarrow> host_key_db \<Rightarrow> ssh_runner \<Rightarrow> bool" where
  "runner_inv cfg db r \<longleftrightarrow> sr_hostKeyC r = db \<and> sc_Port (sr_cfg r) = runner_port cfg \<and>
     (\<forall>(h, c) \<in> set (sr_clients r). c \<in> set (sr_dials r) \<and> cl_addr c = JoinHostPort h (runner_port cfg)) \<and>
     (\<forall>c \<in> set (sr_dials r). dial_ok db c) \<and>
     (\<forall>(t, c, e) \<in> set (sr_execs r). c \<in> set (sr_dials r) \<and> cl_addr c = JoinHostPort (bt_Host t) (runner_port cfg))"

lemma client_inv:
  assumes "runner_inv cfg db r" and "client lib io t r = (x, r1)"
  shows "runner_inv cfg db r1 \<and>
    (\<forall>c. x = Inr c \<longrightarrow> c \<in> set (sr_dials r1) \<and> cl_addr c = JoinHostPort (bt_Host t) (runner_port cfg))"
proof (cases "map_of (sr_clients r) (bt_Host t)")
  case None
  then show ?thesis
    using assms by (auto simp: client_def Let_def runner_inv_def dial_ok_def ssh_config_def split: option.splits sum.splits)
next
  case (Some c)
  then show ?thesis using assms map_of_SomeD [OF Some] by (auto simp: client_def runner_inv_def)
qed

lemma ssh_run_inv:
  assumes "runner_inv cfg db r" and "ssh_run lib env r t e = (res, r')"
  shows "runner_inv cfg db r'"
proof -
  have "runner_inv cfg db (r\<lparr>sr_calls := Suc (sr_calls r)\<rparr>)" using assms(1) by (simp add: runner_inv_def)
  moreover obtain x r1 where c: "client lib (env (sr_calls r)) t (r\<lparr>sr_calls := Suc (sr_calls r)\<rparr>) = (x, r1)" by fastforce
  ultimately have k: "runner_inv cfg db r1"
    "\<And>c. x = Inr c \<Longrightarrow> c \<in> set (sr_dials r1) \<and> cl_addr c = JoinHostPort (bt_Host t) (runner_port cfg)"
    using client_inv by blast+
  show ?thesis
  proof (cases x)
    case (Inr d)
    then show ?thesis
      using assms(2) c k(1) k(2) [OF Inr] by (auto simp: ssh_run_def Let_def runner_inv_def split: option.splits)
  qed (use assms(2) c k(1) in \<open>auto simp: ssh_run_def Let_def\<close>)
qed

lemma ssh_reach_inv: "ssh_reach lib env cfg r \<Longrightarrow>
  \<exists>db. sl_knownhosts lib (sc_KnownHostsPath cfg) = Inr db \<and> trim_space (sc_KnownHostsPath cfg) \<noteq> [] \<and> runner_inv cfg db r"
proof (induction rule: ssh_reach.induct)
  case (new r)
  then show ?case by (auto simp: NewSSHRunner_def runner_inv_def runner_port_def split: if_splits sum.splits)
next
  case (run r t e res r')
  then show ?case using ssh_run_inv by blast
next
  case (close r errs x r')
  then show ?case by (auto simp: Close_def runner_inv_def)
qed

text \<open>C20: Every SSH session is authenticated and verified. Whatever commands a runner has executed and
  whenever its connections were closed, each command went over a connection the runner dialled to the
  host of the command's target on the configured port, with public-key authentication as the only
  method and with the host keys of the configured, non-empty known_hosts file.\<close>
theorem ssh_sessions_verified:
  assumes "ssh_reach lib env cfg r" and "(t, c, e) \<in> set (sr_execs r)"
  shows "c \<in> set (sr_dials r) \<and> cl_addr c = JoinHostPort (bt_Host t) (if sc_Port cfg = 0 then 22 else sc_Port cfg) \<and>
    (\<exists>k. cc_Auth (cl_config c) = [PublicKeys k]) \<and> trim_space (sc_KnownHostsPath cfg) \<noteq> '''' \<and>
    sl_knownhosts lib (sc_KnownHostsPath cfg) = Inr (cc_HostKeyCallback (cl_config c))"
  using ssh_reach_inv [OF assms(1)] assms(2) by (fastforce simp: runner_inv_def dial_ok_def runner_port_def [symmetric])

theorem ssh_sessions_verified_witness:
  "\<exists>r c. (demo_target, c, ''version'') \<in> set (sr_execs r) \<and> cl_addr c = ''10.0.0.1:22'' \<and>
     cc_HostKeyCallback (cl_config c) = HostKeyDB ''/kh'' \<and> ssh_reach demo_ssh_lib (\<lambda>_. demo_ssh_io) demo_ssh_config r"
proof -
  have n: "trim_space ''/kh'' \<noteq> []" by code_simp
  obtain r0 where r0: "NewSSHRunner demo_ssh_lib demo_ssh_config = Inr r0" "sr_clients r0 = []"
    using n by (auto simp: NewSSHRunner_def demo_ssh_lib_def demo_ssh_config_def)
  define r where "r = snd (ssh_run demo_ssh_lib (\<lambda>_. demo_ssh_io) r0 demo_target ''version'')"
  have reach: "ssh_reach demo_ssh_lib (\<lambda>_. demo_ssh_io) demo_ssh_config r"
    unfolding r_def by (rule ssh_reach.run [OF ssh_reach.new [OF r0(1)]]) (rule prod.collapse [symmetric])
  have "\<exists>c. (demo_target, c, ''version'') \<in> set (sr_execs r)"
    unfolding r_def using r0(2) by (auto simp: ssh_run_def client_def demo_ssh_lib_def demo_ssh_io_def Let_def)
  then obtain c where c: "(demo_target, c, ''version'') \<in> set (sr_execs r)" by blast
  have "JoinHostPort ''10.0.0.1'' 22 = ''10.0.0.1:22''" by code_simp
  then have "cl_addr c = ''10.0.0.1:22'' \<and> cc_HostKeyCallback (cl_config c) = HostKeyDB ''/kh''"
    using ssh_sessions_verified [OF reach c] by (simp add: demo_target_def demo_ssh_config_def demo_ssh_lib_def)
  then show ?thesis using reach c by blast
qed

text \<open>Connections are cached by host alone: the commands of a second target with the same host run as the
  user of the first.\<close>

lemma cached_user_wins:
  assumes "map_of (sr_clients r) (bt_Host t) = Some c" and "si_session (env (sr_calls r)) = None"
  shows "last (sr_execs (snd (ssh_run lib env r t e))) = (t, c, e) \<and> sr_dials (snd (ssh_run lib env r t e)) = sr_dials r"
  using assms by (simp add: ssh_run_def client_def Let_def)

end
