(* ===== verification/BrocadeExport.thy ===== *)
theory BrocadeExport
  imports BrocadeCLI
begin

text \<open>
  The export of a bundle to local disk (brocadeexport/, cli_export.go): configuration and its
  validation, the artifact directory, the export with its audit trail and the production entry point
  that builds one SSH runner per known_hosts file and dispatches by host. The files are a list of path
  and content; the archive bytes, time formats and the JSON of an audit record are parameters.
\<close>

section \<open>Configuration\<close>

record rest_config =
  rc_TransportMode :: string
  rc_Port :: int
  rc_Username :: string
  rc_PasswordFile :: string
  rc_CAFile :: string
  rc_InsecureTLSLabOnly :: bool
  rc_InsecureHTTPLabOnly :: bool

record target_config =
  tc_SwitchName :: string
  tc_Host :: string
  tc_Username :: string
  tc_SSHKeyPath :: string
  tc_TargetProfileID :: string
  tc_KnownHostsPath :: string
  tc_FabricRole :: string
  tc_FID :: "int option"
  tc_PortRange :: string
  tc_Notes :: string
  tc_REST :: "rest_config option"

record export_config =
  xc_Enabled :: bool
  xc_ArtifactDir :: string
  xc_KnownHostsPath :: string
  xc_ConnectTimeoutSeconds :: int
  xc_CommandTimeoutSeconds :: int
  xc_SSHPort :: int
  xc_Targets :: "target_config list"
  xc_AllowInsecureArtifactDir :: bool
  xc_ConfigPath :: string

definition DefaultArtifactDir :: string where "DefaultArtifactDir = ''/var/lib/filterrex/artifacts''"
definition AuditLogName :: string where "AuditLogName = ''brocade-export-audit.jsonl''"

datatype export_error = ErrCapabilityDisabled | NoTargetsConfigured | ArtifactDirRelative string | ArtifactDirInTmp string
  | TargetFieldRequired string string | ErrArtifactDirNotWritable string | ArtifactDirError string
  | CaptureError cli_error | BundleBuildError bundle_error | ArtifactExists string | ArtifactWriteError string string
  | RunnerInitError string runner_error | AuditWriteError string

definition EffectiveArtifactDir :: "export_config \<Rightarrow> string" where
  "EffectiveArtifactDir c = (if trim_space (xc_ArtifactDir c) = '''' then DefaultArtifactDir else xc_ArtifactDir c)"

definition effectiveKnownHosts :: "export_config \<Rightarrow> target_config \<Rightarrow> string" where
  "effectiveKnownHosts c t = (if trim_space (tc_KnownHostsPath t) \<noteq> '''' then tc_KnownHostsPath t else xc_KnownHostsPath c)"

definition connectTimeout :: "export_config \<Rightarrow> duration" where
  "connectTimeout c = (if xc_ConnectTimeoutSeconds c \<le> 0 then 10 * second else wrap64 (xc_ConnectTimeoutSeconds c * second))"

definition commandTimeout :: "export_config \<Rightarrow> duration" where
  "commandTimeout c = (if xc_CommandTimeoutSeconds c \<le> 0 then 30 * second else wrap64 (xc_CommandTimeoutSeconds c * second))"

definition brocade_target_of :: "target_config \<Rightarrow> brocade_target" where
  "brocade_target_of t = \<lparr>bt_SwitchName = tc_SwitchName t, bt_Host = tc_Host t, bt_Username = tc_Username t,
     bt_FabricRole = tc_FabricRole t, bt_FID = tc_FID t, bt_SSHKeyPath = tc_SSHKeyPath t, bt_PortRange = tc_PortRange t,
     bt_Notes = tc_Notes t\<rparr>"

definition BrocadeTargets :: "export_config \<Rightarrow> brocade_target list" where
  "BrocadeTargets c = map brocade_target_of (xc_Targets c)"

definition under_tmp :: "string \<Rightarrow> bool" where
  "under_tmp clean = (clean = ''/tmp'' \<or> has_prefix clean ''/tmp/'')"

definition missing_field :: "export_config \<Rightarrow> nat \<Rightarrow> target_config \<Rightarrow> export_error option" where
  "missing_field c i t =
     (let who = (if tc_SwitchName t = '''' then ''target['' @ show_nat i @ '']'' else tc_SwitchName t)
      in if trim_space (tc_SwitchName t) = '''' then Some (TargetFieldRequired who ''switch_name is required'')
         else if trim_space (tc_Host t) = '''' then Some (TargetFieldRequired who ''host is required'')
         else if trim_space (tc_Username t) = '''' then Some (TargetFieldRequired who ''username is required'')
         else if trim_space (tc_SSHKeyPath t) = '''' then
           Some (TargetFieldRequired who ''ssh_key_path is required (key-based auth only)'')
         else if trim_space (effectiveKnownHosts c t) = '''' then
           Some (TargetFieldRequired who ''known_hosts_path is required (host-key verification is mandatory)'')
         else None)"

fun check_targets :: "export_config \<Rightarrow> nat \<Rightarrow> target_config list \<Rightarrow> export_error option" where
  "check_targets c i [] = None"
| "check_targets c i (t # ts) = (case missing_field c i t of Some e \<Rightarrow> Some e | None \<Rightarrow> check_targets c (Suc i) ts)"

definition ValidateExport :: "export_config \<Rightarrow> export_error option" where
  "ValidateExport c =
     (let dir = EffectiveArtifactDir c
      in if \<not> xc_Enabled c then Some ErrCapabilityDisabled
         else if xc_Targets c = [] then Some NoTargetsConfigured
         else if \<not> xc_AllowInsecureArtifactDir c \<and> \<not> is_abs dir then Some (ArtifactDirRelative dir)
         else if \<not> xc_AllowInsecureArtifactDir c \<and> under_tmp (filepath_clean dir) then Some (ArtifactDirInTmp dir)
         else check_targets c 0 (xc_Targets c))"

section \<open>The artifact directory\<close>

text \<open>What creating and inspecting the directory observes, and the fates of the write probe.\<close>

datatype dir_stat = StatError string | NotADirectory | Directory nat
datatype probe_fate = ProbeOk | ProbeCreateFails string | ProbeChmodFails string | ProbeCloseFails string | ProbeRemoveFails string

record dir_obs =
  do_mkdir :: "string option"
  do_stat :: dir_stat
  do_probe :: probe_fate

definition world_writable :: "nat \<Rightarrow> bool" where
  "world_writable mode = odd (mode div 2)"

definition ensureArtifactDir :: "string \<Rightarrow> dir_obs \<Rightarrow> export_error option" where
  "ensureArtifactDir dir ob =
     (case do_mkdir ob of Some e \<Rightarrow> Some (ArtifactDirError (''create artifact_dir '' @ go_quote dir @ '': '' @ e))
      | None \<Rightarrow>
         (case do_stat ob of
            StatError e \<Rightarrow> Some (ArtifactDirError (''stat artifact_dir '' @ go_quote dir @ '': '' @ e))
          | NotADirectory \<Rightarrow> Some (ArtifactDirError (''artifact_dir '' @ go_quote dir @ '' is not a directory''))
          | Directory mode \<Rightarrow>
             if world_writable mode then
               Some (ArtifactDirError (''artifact_dir '' @ go_quote dir @ '' is world-writable (mode '' @ show_octal mode @
                 ''); refuse to write evidence there''))
             else None))"

definition AgentEvidenceArtifactDir :: string where "AgentEvidenceArtifactDir = ''/etc/filterrex/artifacts''"
definition ArtifactDirNotWritableCode :: string where "ArtifactDirNotWritableCode = ''artifact_dir_not_writable''"

definition validateAgentArtifactDir :: "string \<Rightarrow> string option" where
  "validateAgentArtifactDir dir =
     (if \<not> is_abs dir then Some ''path must be absolute''
      else if list_ex is_control dir then Some ''path contains control characters''
      else let clean = filepath_clean dir
           in if clean = ''/'' then Some (''path '' @ go_quote dir @ '' refuses filesystem root'')
              else if under_tmp clean then
                Some (''path '' @ go_quote dir @ '' is under /tmp; choose a durable location like '' @ AgentEvidenceArtifactDir)
              else None)"

text \<open>The value of the environment variable, its outcome: directory and source, or the error text.\<close>

definition ResolveAgentEvidenceArtifactDir :: "string \<Rightarrow> string \<times> string \<times> string option" where
  "ResolveAgentEvidenceArtifactDir env =
     (let v = trim_space env
      in if v \<noteq> '''' then
           (case validateAgentArtifactDir v of
              Some e \<Rightarrow> ('''', ''env'', Some (''FILTERREX_AGENT_EVIDENCE_ARTIFACT_DIR='' @ go_quote v @ '': '' @ e))
            | None \<Rightarrow> (filepath_clean v, ''env'', None))
         else (AgentEvidenceArtifactDir, ''default'', None))"

definition VerifyWritableDirectory :: "string \<Rightarrow> dir_obs \<Rightarrow> export_error option" where
  "VerifyWritableDirectory path ob =
     (case do_mkdir ob of Some e \<Rightarrow> Some (ErrArtifactDirNotWritable (''mkdir '' @ path @ '': '' @ e))
      | None \<Rightarrow>
         (case do_stat ob of
            StatError e \<Rightarrow> Some (ErrArtifactDirNotWritable (''stat '' @ path @ '': '' @ e))
          | NotADirectory \<Rightarrow> Some (ErrArtifactDirNotWritable (path @ '' is not a directory''))
          | Directory mode \<Rightarrow>
             if world_writable mode then
               Some (ErrArtifactDirNotWritable (path @ '' is world-writable (mode '' @ show_octal mode @
                 ''); refuse to write evidence there''))
             else (case do_probe ob of ProbeOk \<Rightarrow> None
                   | ProbeCreateFails e \<Rightarrow> Some (ErrArtifactDirNotWritable (''create probe in '' @ path @ '': '' @ e))
                   | ProbeChmodFails e \<Rightarrow> Some (ErrArtifactDirNotWritable (''chmod probe in '' @ path @ '': '' @ e))
                   | ProbeCloseFails e \<Rightarrow> Some (ErrArtifactDirNotWritable (''close probe in '' @ path @ '': '' @ e))
                   | ProbeRemoveFails e \<Rightarrow> Some (ErrArtifactDirNotWritable (''cleanup probe in '' @ path @ '': '' @ e)))))"


section \<open>The export\<close>

record audit_target =
  at_SwitchName :: string
  at_Host :: string
  at_FabricRole :: string

record request_meta =
  rq_RequesterType :: string
  rq_Requester :: string
  rq_ConfigPath :: string

record audit_record =
  ar_Event :: string
  ar_RequesterType :: string
  ar_Requester :: string
  ar_ConfigPath :: string
  ar_Vendor :: string
  ar_CollectionMethod :: string
  ar_Targets :: "audit_target list"
  ar_CommandsAttempted :: nat
  ar_CommandsSucceeded :: nat
  ar_CommandsFailed :: nat
  ar_TargetsAttempted :: nat
  ar_TargetsSucceeded :: nat
  ar_TargetsFailed :: int
  ar_Warnings :: "string list"
  ar_OutputPath :: string
  ar_SHA256 :: string
  ar_StartedAt :: string
  ar_FinishedAt :: string
  ar_OK :: bool
  ar_Error :: string

record export_result =
  er_OK :: bool
  er_ArtifactType :: string
  er_Vendor :: string
  er_CollectionMethod :: string
  er_Path :: string
  er_Switches :: nat
  er_ParsedFiles :: nat
  er_SupportingFiles :: nat
  er_Warnings :: nat
  er_SHA256 :: string
  er_StartedAt :: string
  er_FinishedAt :: string
  er_Audit :: "audit_record option"

record export_codec =
  xk_bundle :: bundle_codec
  xk_zip :: "(string \<times> string) list \<Rightarrow> string"
  xk_stamp :: "time \<Rightarrow> string"
  xk_rfc3339 :: "time \<Rightarrow> string"
  xk_marshalAudit :: "audit_record \<Rightarrow> string option"

text \<open>\<open>ei_stat_fails\<close>: the existence check of the artifact fails for another reason than absence;
  \<open>ei_write\<close>, \<open>ei_audit_write\<close>: writing fails with an error after the given number of bytes.\<close>

record export_io =
  ei_dir :: dir_obs
  ei_started :: time
  ei_finished :: time
  ei_stat_fails :: bool
  ei_write :: "(string \<times> nat) option"
  ei_audit_open :: "string option"
  ei_audit_write :: "(string \<times> nat) option"

definition count_levels :: "profile_command list \<Rightarrow> manifest_file list \<Rightarrow> nat \<times> nat" where
  "count_levels cmds files =
     (let levels = rev (map (\<lambda>c. (pc_ID c, pc_SupportLevel c)) cmds);
          parsed = (\<lambda>f. map_of levels (mf_Command f) = Some ''parsed'')
      in (length (filter parsed files), length (filter (\<lambda>f. \<not> parsed f) files)))"

definition countSupportLevels :: "bundle_manifest \<Rightarrow> nat \<times> nat" where
  "countSupportLevels m =
     count_levels (case ProfileCommands of Inl e \<Rightarrow> [] | Inr cmds \<Rightarrow> cmds) (concat (map ms_Files (bm_Switches m)))"

definition countTargetsWithFiles :: "bundle_manifest \<Rightarrow> nat" where
  "countTargetsWithFiles m = length (filter (\<lambda>sw. ms_Files sw \<noteq> []) (bm_Switches m))"

definition auditTargets :: "export_config \<Rightarrow> audit_target list" where
  "auditTargets c = map (\<lambda>t. \<lparr>at_SwitchName = tc_SwitchName t, at_Host = tc_Host t, at_FabricRole = tc_FabricRole t\<rparr>) (xc_Targets c)"

definition warning_line :: "log_entry \<Rightarrow> string" where
  "warning_line e =
     (let status = (if le_TimedOut e then ''timeout'' else ''exit='' @ show_int (le_ExitCode e))
      in le_SwitchName e @ '' ('' @ le_Host e @ ''): '' @ le_CommandID e @ '' ['' @ status @ '']'' @
         (if le_Note e = '''' then '''' else '' '' @ le_Note e))"

definition warningLines :: "log_entry list \<Rightarrow> string list" where
  "warningLines l = map warning_line (filter (\<lambda>e. \<not> le_Included e) l)"

text \<open>The files: paths with contents. A record is appended to the audit log as one line.\<close>

type_synonym artifacts = "(string \<times> string) list"

definition writeAuditRecord :: "export_codec \<Rightarrow> export_io \<Rightarrow> string \<Rightarrow> audit_record \<Rightarrow> artifacts \<Rightarrow> export_error option \<times> artifacts" where
  "writeAuditRecord xk io dir rec fs =
     (let path = filepath_join [dir, AuditLogName]; old = (case map_of fs path of None \<Rightarrow> '''' | Some s \<Rightarrow> s)
      in case ei_audit_open io of Some e \<Rightarrow> (Some (AuditWriteError (''open audit log: '' @ e)), fs)
         | None \<Rightarrow>
            (case xk_marshalAudit xk rec of None \<Rightarrow> (Some (AuditWriteError ''marshal audit record''), AList.update path old fs)
             | Some line \<Rightarrow>
                (case ei_audit_write io of
                   Some (e, n) \<Rightarrow> (Some (AuditWriteError (''write audit record: '' @ e)),
                                  AList.update path (old @ take n (line @ [CHR 0x0A])) fs)
                 | None \<Rightarrow> (None, AList.update path (old @ line @ [CHR 0x0A]) fs))))"

definition artifact_path :: "export_codec \<Rightarrow> string \<Rightarrow> time \<Rightarrow> string" where
  "artifact_path xk dir started = filepath_join [dir, ''filterrex-agent-evidence-bundle-'' @ xk_stamp xk started @ ''.zip'']"

definition export_options :: "export_config \<Rightarrow> time \<Rightarrow> build_options" where
  "export_options c started = \<lparr>bo_CollectionMethod = CollectionMethodAgent, bo_FabricRole = '''', bo_CustomerSupplied = False,
     bo_CollectedAt = started, bo_SwitchMeta = map (\<lambda>t. target_meta (tc_SwitchName t) (tc_FID t) (tc_Notes t)) (xc_Targets c),
     bo_Collector = ''filterrex_agent_brocade_export''\<rparr>"

definition export_result_of :: "export_codec \<Rightarrow> export_io \<Rightarrow> string \<Rightarrow> build_result \<Rightarrow> export_result" where
  "export_result_of xk io outPath res = \<lparr>er_OK = True, er_ArtifactType = ''evidence_bundle'', er_Vendor = Vendor,
     er_CollectionMethod = CollectionMethodAgent, er_Path = outPath, er_Switches = bs_SwitchesAttempted (br_Summary res),
     er_ParsedFiles = fst (countSupportLevels (br_Manifest res)), er_SupportingFiles = snd (countSupportLevels (br_Manifest res)),
     er_Warnings = bs_CommandsFailed (br_Summary res), er_SHA256 = bc_sha256hex (xk_bundle xk) (xk_zip xk (br_Zip res)),
     er_StartedAt = xk_rfc3339 xk (ei_started io), er_FinishedAt = xk_rfc3339 xk (ei_finished io), er_Audit = None\<rparr>"

definition audit_record_of ::
  "export_config \<Rightarrow> request_meta \<Rightarrow> log_entry list \<Rightarrow> build_result \<Rightarrow> export_result \<Rightarrow> audit_record" where
  "audit_record_of c req lg res r =
     (let attempted = bs_SwitchesAttempted (br_Summary res); ok = countTargetsWithFiles (br_Manifest res)
      in \<lparr>ar_Event = ''brocade.export'', ar_RequesterType = rq_RequesterType req, ar_Requester = rq_Requester req,
          ar_ConfigPath = rq_ConfigPath req, ar_Vendor = Vendor, ar_CollectionMethod = CollectionMethodAgent,
          ar_Targets = auditTargets c, ar_CommandsAttempted = bs_CommandsAttempted (br_Summary res),
          ar_CommandsSucceeded = bs_CommandsSucceeded (br_Summary res), ar_CommandsFailed = bs_CommandsFailed (br_Summary res),
          ar_TargetsAttempted = attempted, ar_TargetsSucceeded = ok, ar_TargetsFailed = int attempted - int ok,
          ar_Warnings = warningLines lg, ar_OutputPath = er_Path r, ar_SHA256 = er_SHA256 r, ar_StartedAt = er_StartedAt r,
          ar_FinishedAt = er_FinishedAt r, ar_OK = True, ar_Error = ''''\<rparr>)"

definition store_bundle ::
  "export_codec \<Rightarrow> export_io \<Rightarrow> export_config \<Rightarrow> request_meta \<Rightarrow> log_entry list \<Rightarrow> build_result \<Rightarrow> artifacts
   \<Rightarrow> (export_error option \<times> export_result option) \<times> artifacts" where
  "store_bundle xk io c req lg res fs =
     (let dir = EffectiveArtifactDir c; outPath = artifact_path xk dir (ei_started io); bytes = xk_zip xk (br_Zip res)
      in if map_of fs outPath \<noteq> None \<and> \<not> ei_stat_fails io then ((Some (ArtifactExists outPath), None), fs)
         else case ei_write io of Some (e, n) \<Rightarrow> ((Some (ArtifactWriteError outPath e), None), AList.update outPath (take n bytes) fs)
         | None \<Rightarrow>
            (let result = export_result_of xk io outPath res; rec = audit_record_of c req lg res result
             in case writeAuditRecord xk io dir rec (AList.update outPath bytes fs) of
                  (Some e, fs1) \<Rightarrow> ((Some e, Some result), fs1)
                | (None, fs1) \<Rightarrow> ((None, Some (result\<lparr>er_Audit := Some rec\<rparr>)), fs1)))"

definition RunExport ::
  "export_codec \<Rightarrow> export_io \<Rightarrow> export_config \<Rightarrow> 's runner option \<Rightarrow> request_meta \<Rightarrow> artifacts \<Rightarrow> 's
   \<Rightarrow> (export_error option \<times> export_result option) \<times> artifacts \<times> 's" where
  "RunExport xk io c runner req fs s =
     (case ValidateExport c of Some e \<Rightarrow> ((Some e, None), fs, s)
      | None \<Rightarrow>
         (case ensureArtifactDir (EffectiveArtifactDir c) (ei_dir io) of Some e \<Rightarrow> ((Some e, None), fs, s)
          | None \<Rightarrow>
             (case Collect runner (ei_started io) (BrocadeTargets c) \<lparr>co_ContinueOnError = None, co_CollectedAt = ei_started io\<rparr> s of
                ((Some e, caps, lg), s1) \<Rightarrow> ((Some (CaptureError e), None), fs, s1)
              | ((None, caps, lg), s1) \<Rightarrow>
                 (case BuildEvidenceBundle (xk_bundle xk) (ei_started io) caps (export_options c (ei_started io)) of
                    Inl e \<Rightarrow> ((Some (BundleBuildError e), None), fs, s1)
                  | Inr res \<Rightarrow> (case store_bundle xk io c req lg res fs of (out, fs1) \<Rightarrow> (out, fs1, s1))))))"


section \<open>Production runners\<close>

text \<open>One SSH runner per known_hosts file; \<open>byHost\<close> names the file whose runner serves a host. The
  observations of a runner are those of its file.\<close>

fun build_runners ::
  "ssh_lib \<Rightarrow> export_config \<Rightarrow> target_config list \<Rightarrow> (string \<times> ssh_runner) list \<Rightarrow> (string \<times> string) list
   \<Rightarrow> export_error + (string \<times> ssh_runner) list \<times> (string \<times> string) list" where
  "build_runners lib c [] byKnownHosts byHost = Inr (byKnownHosts, byHost)"
| "build_runners lib c (t # ts) byKnownHosts byHost =
     (let kh = effectiveKnownHosts c t
      in case map_of byKnownHosts kh of
           Some r \<Rightarrow> build_runners lib c ts byKnownHosts (AList.update (tc_Host t) kh byHost)
         | None \<Rightarrow>
            (case NewSSHRunner lib \<lparr>sc_KnownHostsPath = kh, sc_ConnectTimeout = connectTimeout c,
                                   sc_CommandTimeout = commandTimeout c, sc_Port = xc_SSHPort c\<rparr> of
               Inl e \<Rightarrow> Inl (RunnerInitError kh e)
             | Inr nr \<Rightarrow> build_runners lib c ts (AList.update kh nr byKnownHosts) (AList.update (tc_Host t) kh byHost)))"

definition no_runner :: "time \<Rightarrow> brocade_target \<Rightarrow> command_result" where
  "no_runner now t = failed_result now (''no ssh runner configured for host '' @ bt_Host t)"

definition dispatch_run ::
  "ssh_lib \<Rightarrow> (string \<Rightarrow> nat \<Rightarrow> ssh_io) \<Rightarrow> time \<Rightarrow> (string \<times> string) list \<Rightarrow> (string \<times> ssh_runner) list runner" where
  "dispatch_run lib env now byHost rs t e =
     (case map_of byHost (bt_Host t) of None \<Rightarrow> (no_runner now t, rs)
      | Some kh \<Rightarrow>
         (case map_of rs kh of None \<Rightarrow> (no_runner now t, rs)
          | Some r \<Rightarrow> (case ssh_run lib (env kh) r t e of (res, r1) \<Rightarrow> (res, AList.update kh r1 rs))))"

definition closeAll :: "(string \<times> ssh_runner) list \<Rightarrow> (string \<times> ssh_runner) list" where
  "closeAll rs = map (\<lambda>(kh, r). (kh, snd (Close (\<lambda>_. None) r))) rs"

definition RunExportWithSSH ::
  "export_codec \<Rightarrow> ssh_lib \<Rightarrow> (string \<Rightarrow> nat \<Rightarrow> ssh_io) \<Rightarrow> export_io \<Rightarrow> export_config \<Rightarrow> request_meta \<Rightarrow> artifacts
   \<Rightarrow> (export_error option \<times> export_result option) \<times> artifacts \<times> (string \<times> ssh_runner) list" where
  "RunExportWithSSH xk lib env io c req fs =
     (case ValidateExport c of Some e \<Rightarrow> ((Some e, None), fs, [])
      | None \<Rightarrow>
         (case build_runners lib c (xc_Targets c) [] [] of Inl e \<Rightarrow> ((Some e, None), fs, [])
          | Inr (rs, byHost) \<Rightarrow>
             (case RunExport xk io c (Some (dispatch_run lib env (ei_started io) byHost)) req fs rs of
                (out, fs1, rs1) \<Rightarrow> (out, fs1, closeAll rs1))))"

text \<open>The command line: the exit code and, on success, the result that is printed. The outcome of
  parsing the flags and of reading the configuration file are arguments.\<close>

definition runExportBrocadeBundleCLI ::
  "export_codec \<Rightarrow> ssh_lib \<Rightarrow> (string \<Rightarrow> nat \<Rightarrow> ssh_io) \<Rightarrow> export_io \<Rightarrow> (string \<times> string) option \<Rightarrow> (string \<Rightarrow> export_config option) \<Rightarrow> artifacts
   \<Rightarrow> (nat \<times> export_result option) \<times> artifacts" where
  "runExportBrocadeBundleCLI xk lib env io flags loadConfig fs =
     (case flags of None \<Rightarrow> ((2, None), fs)
      | Some (configPath, outDir) \<Rightarrow>
         if configPath = '''' then ((2, None), fs)
         else case loadConfig configPath of None \<Rightarrow> ((1, None), fs)
         | Some cfg0 \<Rightarrow>
            (let cfg = (if outDir \<noteq> '''' then cfg0\<lparr>xc_ArtifactDir := outDir\<rparr> else cfg0);
                 req = \<lparr>rq_RequesterType = ''local_cli'', rq_Requester = ''connector-agent export-brocade-bundle'', rq_ConfigPath = configPath\<rparr>
             in case RunExportWithSSH xk lib env io cfg req fs of
                  ((Some e, r), fs1, rs) \<Rightarrow> ((1, None), fs1)
                | ((None, r), fs1, rs) \<Rightarrow> ((0, r), fs1)))"

section \<open>Accounting\<close>

lemma dispatch_cases:
  "fst (dispatch_run lib env now byHost rs t e) = no_runner now t \<or>
   (\<exists>kh r. fst (dispatch_run lib env now byHost rs t e) = fst (ssh_run lib (env kh) r t e))"
proof (cases "map_of byHost (bt_Host t)")
  case (Some kh)
  then show ?thesis
  proof (cases "map_of rs kh")
    case r: (Some r)
    have "fst (dispatch_run lib env now byHost rs t e) = fst (ssh_run lib (env kh) r t e)"
      using Some r by (simp add: dispatch_run_def split: prod.split)
    then show ?thesis by blast
  qed (simp add: dispatch_run_def)
qed (simp add: dispatch_run_def)

lemma no_runner_fails: "cr_ExitCode (no_runner now t) = -1"
  by (simp add: no_runner_def failed_result_def)

interpretation dispatch: command_runner "dispatch_run lib env now byHost"
proof
  fix rs t e
  assume err: "cr_Err (fst (dispatch_run lib env now byHost rs t e)) \<noteq> None"
  from dispatch_cases [of lib env now byHost rs t e] show "cr_ExitCode (fst (dispatch_run lib env now byHost rs t e)) \<noteq> 0"
    using err ssh.err_fails by (auto simp: no_runner_fails)
qed

lemma warnings_count:
  assumes "list_all2 entry_matches caps lg"
  shows "length (warningLines lg) = length (filter (\<lambda>c. \<not> captureOK c) caps)"
  using assms unfolding warningLines_def by (induction rule: list_all2_induct) (auto simp: entry_matches_def)

lemma count_levels_total: "fst (count_levels cmds fs) + snd (count_levels cmds fs) = length fs"
  unfolding count_levels_def Let_def fst_conv snd_conv by (rule sum_length_filter_compl)

lemma countSupportLevels_total:
  "fst (countSupportLevels m) + snd (countSupportLevels m) = sum_list (map (length \<circ> ms_Files) (bm_Switches m))"
  unfolding countSupportLevels_def count_levels_total by (rule sum_lengths [symmetric])

lemma store_bundle_ok:
  assumes "store_bundle xk io c req lg res fs = ((None, Some r), fs1)"
  defines "dir \<equiv> EffectiveArtifactDir c"
  shows "er_Path r = artifact_path xk dir (ei_started io)"
    and "\<not> ei_stat_fails io \<Longrightarrow> map_of fs (er_Path r) = None"
    and "er_SHA256 r = bc_sha256hex (xk_bundle xk) (xk_zip xk (br_Zip res))"
    and "er_Warnings r = bs_CommandsFailed (br_Summary res)"
    and "er_ParsedFiles r + er_SupportingFiles r = sum_list (map (length \<circ> ms_Files) (bm_Switches (br_Manifest res)))"
    and "\<exists>rec line. er_Audit r = Some rec \<and> ar_Warnings rec = warningLines lg \<and> ar_SHA256 rec = er_SHA256 r \<and>
      ar_OutputPath rec = er_Path r \<and> ar_CommandsAttempted rec = bs_CommandsAttempted (br_Summary res) \<and>
      xk_marshalAudit xk rec = Some line \<and>
      map_of fs1 = (map_of fs)(er_Path r \<mapsto> xk_zip xk (br_Zip res), filepath_join [dir, AuditLogName] \<mapsto>
        (case map_of (AList.update (er_Path r) (xk_zip xk (br_Zip res)) fs) (filepath_join [dir, AuditLogName]) of
           None \<Rightarrow> '''' | Some s \<Rightarrow> s) @ line @ [CHR 0x0A])"
  using assms countSupportLevels_total [of "br_Manifest res"]
  by (auto simp: store_bundle_def export_result_of_def audit_record_of_def writeAuditRecord_def Let_def update_conv'
      split: if_splits option.splits)


text \<open>Joining a plain file name to a directory keeps it as the last component.\<close>

lemma join_last:
  assumes "dir \<noteq> ''''" and "plain_comp n" and "CHR ''/'' \<notin> set n"
  shows "last (split_on (CHR ''/'') (filepath_join [dir, n])) = n"
proof -
  have n: "n \<noteq> ''''" using assms(2) by (simp add: plain_comp_def)
  define cs where "cs = clean_c (is_abs dir) [] (split_on (CHR ''/'') dir)"
  have a: "is_abs (dir @ CHR ''/'' # n) = is_abs dir" using assms(1) by (cases dir) (simp_all add: is_abs_def)
  have "clean_c (is_abs dir) [] (split_on (CHR ''/'') (dir @ CHR ''/'' # n)) = cs @ [n]"
    using assms(2) clean_c_plain [of "[n]"]
    by (simp add: split_on_append split_on_plain [OF assms(3)] clean_c_append cs_def del: clean_c.simps)
  then have "filepath_join [dir, n] = render (is_abs dir) (cs @ [n])"
    using assms(1) n by (simp add: filepath_join_def filepath_clean_def a)
  moreover have "sep_free (cs @ [n])" using clean_comps_of(2) assms(3) by (simp add: cs_def)
  ultimately show ?thesis by (simp add: split_render)
qed

lemma artifact_not_log:
  assumes "dir \<noteq> ''''" and "list_all safe_char (xk_stamp xk t)"
  shows "artifact_path xk dir t \<noteq> filepath_join [dir, AuditLogName]"
proof -
  let ?n = "''filterrex-agent-evidence-bundle-'' @ xk_stamp xk t @ ''.zip''"
  have "CHR ''/'' \<notin> set (xk_stamp xk t)" using assms(2) safe_char_no_sep by (auto simp: list_all_iff)
  then have "last (split_on (CHR ''/'') (artifact_path xk dir t)) = ?n"
    unfolding artifact_path_def by (intro join_last) (auto simp: assms(1) plain_comp_def)
  moreover have "last (split_on (CHR ''/'') (filepath_join [dir, AuditLogName])) = AuditLogName"
    using assms(1) by (intro join_last) (auto simp: plain_comp_def AuditLogName_def)
  moreover have "?n \<noteq> AuditLogName" by (simp add: AuditLogName_def)
  ultimately show ?thesis by metis
qed

lemma EffectiveArtifactDir_nonempty: "EffectiveArtifactDir c \<noteq> ''''"
  by (auto simp: EffectiveArtifactDir_def DefaultArtifactDir_def trim_space_def)

lemma RunExportWithSSH_ok:
  assumes "RunExportWithSSH xk lib env io c req fs = ((None, Some r), fs1, rs)"
  obtains caps lg res where "xc_Enabled c" and "list_all2 entry_matches caps lg"
    and "length caps = length (xc_Targets c) * length (pf_Commands embeddedProfile)"
    and "BuildEvidenceBundle (xk_bundle xk) (ei_started io) caps (export_options c (ei_started io)) = Inr res"
    and "store_bundle xk io c req lg res fs = ((None, Some r), fs1)"
proof -
  from assms obtain rs0 byHost rs1 where v: "ValidateExport c = None"
    and e: "RunExport xk io c (Some (dispatch_run lib env (ei_started io) byHost)) req fs rs0 = ((None, Some r), fs1, rs1)"
    by (auto simp: RunExportWithSSH_def split: option.splits sum.splits prod.splits)
  from e obtain caps lg rs2 res where
    col: "Collect (Some (dispatch_run lib env (ei_started io) byHost)) (ei_started io) (BrocadeTargets c)
        \<lparr>co_ContinueOnError = None, co_CollectedAt = ei_started io\<rparr> rs0 = ((None, caps, lg), rs2)"
    and b: "BuildEvidenceBundle (xk_bundle xk) (ei_started io) caps (export_options c (ei_started io)) = Inr res"
    and st: "store_bundle xk io c req lg res fs = ((None, Some r), fs1)"
    by (auto simp: RunExport_def split: option.splits sum.splits prod.splits)
  have "xc_Enabled c" using v by (auto simp: ValidateExport_def Let_def split: if_splits)
  moreover have "list_all2 entry_matches caps lg" by (rule dispatch.Collect_matches [OF col]) simp
  moreover have "length caps = length (xc_Targets c) * length (pf_Commands embeddedProfile)"
    using Collect_length [OF col] by (simp add: BrocadeTargets_def)
  ultimately show ?thesis using that b st by blast
qed

text \<open>C19: A successful export is accounted for. It needs the capability switched on; the artifact is a new file
  with the bytes of the bundle built from the captures, the reported hash is theirs, and nothing but
  the artifact and the audit log changes. Every command of the profile on every configured target is
  counted once, as a parsed file, a supporting file or a warning, the audit record lists one warning
  line for each failed command, and the audit log grows by exactly that record.\<close>
theorem export_is_accountable:
  assumes "RunExportWithSSH xk lib env io c req fs = ((None, Some r), fs1, rs)" and "\<And>t. list_all safe_char (xk_stamp xk t)"
  shows "\<exists>caps res rec line. let logf = filepath_join [EffectiveArtifactDir c, AuditLogName] in
    xc_Enabled c \<and> BuildEvidenceBundle (xk_bundle xk) (ei_started io) caps (export_options c (ei_started io)) = Inr res \<and>
    map_of fs1 (er_Path r) = Some (xk_zip xk (br_Zip res)) \<and> (\<not> ei_stat_fails io \<longrightarrow> map_of fs (er_Path r) = None) \<and>
    er_SHA256 r = bc_sha256hex (xk_bundle xk) (xk_zip xk (br_Zip res)) \<and>
    er_ParsedFiles r + er_SupportingFiles r + er_Warnings r = length (xc_Targets c) * length (pf_Commands embeddedProfile) \<and>
    er_Audit r = Some rec \<and> length (ar_Warnings rec) = er_Warnings r \<and> ar_SHA256 rec = er_SHA256 r \<and>
    xk_marshalAudit xk rec = Some line \<and>
    map_of fs1 logf = Some ((case map_of fs logf of None \<Rightarrow> '''' | Some s \<Rightarrow> s) @ line @ [CHR 0x0A]) \<and>
    (\<forall>p. p \<noteq> er_Path r \<and> p \<noteq> logf \<longrightarrow> map_of fs1 p = map_of fs p)"
proof -
  obtain caps lg res where k: "xc_Enabled c" "list_all2 entry_matches caps lg"
    "length caps = length (xc_Targets c) * length (pf_Commands embeddedProfile)"
    "BuildEvidenceBundle (xk_bundle xk) (ei_started io) caps (export_options c (ei_started io)) = Inr res"
    "store_bundle xk io c req lg res fs = ((None, Some r), fs1)" by (rule RunExportWithSSH_ok [OF assms(1)])
  note st = store_bundle_ok [OF k(5)] and ct = bundle_counts [OF k(4)]
  have "er_Path r \<noteq> filepath_join [EffectiveArtifactDir c, AuditLogName]"
    unfolding st(1) by (rule artifact_not_log [OF EffectiveArtifactDir_nonempty assms(2)])
  moreover have "length (filter captureOK caps) + length (filter (\<lambda>x. \<not> captureOK x) caps) = length caps"
    by (rule sum_length_filter_compl)
  moreover obtain rec line where "er_Audit r = Some rec" "ar_Warnings rec = warningLines lg" "ar_SHA256 rec = er_SHA256 r"
    "xk_marshalAudit xk rec = Some line" and
    "map_of fs1 = (map_of fs)(er_Path r \<mapsto> xk_zip xk (br_Zip res), filepath_join [EffectiveArtifactDir c, AuditLogName] \<mapsto>
        (case map_of (AList.update (er_Path r) (xk_zip xk (br_Zip res)) fs) (filepath_join [EffectiveArtifactDir c, AuditLogName]) of
           None \<Rightarrow> '''' | Some s \<Rightarrow> s) @ line @ [CHR 0x0A])" using st(6) by blast
  ultimately show ?thesis
    using k st(2-5) ct warnings_count [OF k(2)]
    by (intro exI [of _ caps] exI [of _ res] exI [of _ rec] exI [of _ line]) (auto simp: Let_def update_conv')
qed


text \<open>An export of a single switch succeeds whatever the switch answers: only the local files, the
  known_hosts file and the port range decide.\<close>

lemma labels_profile:
  "labels t (profile_run t) = map (\<lambda>pc. (bt_SwitchName t, pc_ID pc, pc_Filename pc)) (pf_Commands embeddedProfile)"
  by (simp add: labels_def profile_run_def resolve_command_def)

lemma single_target_input_ok:
  assumes "map label_of caps = labels t (profile_run t)"
  shows "bundle_input_ok embeddedProfile caps"
proof -
  have lab: "label_of c \<in> set (labels t (profile_run t))" if "c \<in> set caps" for c
    using assms that by (metis image_eqI list.set_map)
  have "\<exists>pc \<in> set (pf_Commands embeddedProfile). pc_ID pc = cap_Command c \<and> (cap_Filename c = '''' \<or> cap_Filename c = pc_Filename pc)"
    if "c \<in> set caps" for c using lab [OF that] by (force simp: labels_profile label_of_def)
  moreover have "distinct (map (\<lambda>c. (cap_SwitchName c, cap_Command c)) caps)"
  proof -
    have "map (\<lambda>c. (cap_SwitchName c, cap_Command c)) caps = map (\<lambda>(n, i, f). (n, i)) (map label_of caps)"
      by (simp add: label_of_def)
    also have "\<dots> = map (\<lambda>pc. (bt_SwitchName t, pc_ID pc)) (pf_Commands embeddedProfile)" unfolding assms labels_profile by simp
    also have "distinct \<dots>"
      using embedded_profile(2) unfolding profile_ok_def distinct_map by (auto simp: inj_on_def)
    finally show ?thesis .
  qed
  moreover have "distinct (map folder (group_captures caps))"
  proof -
    have "distinct (map sg_name (group_captures caps))" "set (map sg_name (group_captures caps)) \<subseteq> {bt_SwitchName t}"
      using group_captures_groups [of caps] lab by (auto simp: groups_of_def labels_profile label_of_def)
    then have "length (group_captures caps) \<le> 1"
      by (metis card_mono distinct_card finite.emptyI finite.insertI is_singletonI is_singleton_altdef length_map)
    then show ?thesis by (cases "group_captures caps") auto
  qed
  ultimately show ?thesis by (simp add: bundle_input_ok_def)
qed

definition export_ready :: "export_codec \<Rightarrow> ssh_lib \<Rightarrow> export_io \<Rightarrow> export_config \<Rightarrow> artifacts \<Rightarrow> bool" where
  "export_ready xk lib io c fs \<longleftrightarrow> length (xc_Targets c) = 1 \<and> ValidateExport c = None \<and>
     list_all (\<lambda>t. list_all (\<lambda>ch. ch \<notin> set shellMetaChars) (port_range (brocade_target_of t)) \<and>
       \<not> isl (sl_knownhosts lib (effectiveKnownHosts c t))) (xc_Targets c) \<and>
     ensureArtifactDir (EffectiveArtifactDir c) (ei_dir io) = None \<and>
     map_of fs (artifact_path xk (EffectiveArtifactDir c) (ei_started io)) = None \<and>
     ei_write io = None \<and> ei_audit_open io = None \<and> ei_audit_write io = None"

definition codec_total :: "export_codec \<Rightarrow> bool" where
  "codec_total xk \<longleftrightarrow> (\<forall>m. bc_marshalManifest (xk_bundle xk) m \<noteq> None) \<and> (\<forall>m. bc_marshalSummary (xk_bundle xk) m \<noteq> None) \<and>
     (\<forall>r. xk_marshalAudit xk r \<noteq> None)"

lemma single_export_ok:
  assumes "export_ready xk lib io c fs" and "codec_total xk"
  obtains r fs1 rs where "RunExportWithSSH xk lib env io c req fs = ((None, Some r), fs1, rs)"
proof -
  note rdy = assms(1) [unfolded export_ready_def]
  obtain t where t: "xc_Targets c = [t]" using rdy by (metis length_0_conv length_Suc_conv One_nat_def)
  have v: "ValidateExport c = None" using rdy by simp
  then have kh: "trim_space (effectiveKnownHosts c t) \<noteq> ''''"
    using t by (auto simp: ValidateExport_def missing_field_def Let_def split: if_splits option.splits)
  have "\<not> isl (sl_knownhosts lib (effectiveKnownHosts c t))" using rdy t by simp
  then have "\<exists>nr. NewSSHRunner lib \<lparr>sc_KnownHostsPath = effectiveKnownHosts c t, sc_ConnectTimeout = connectTimeout c,
      sc_CommandTimeout = commandTimeout c, sc_Port = xc_SSHPort c\<rparr> = Inr nr"
    using kh by (cases "sl_knownhosts lib (effectiveKnownHosts c t)") (simp_all add: NewSSHRunner_def)
  then obtain rs0 byHost where b: "build_runners lib c (xc_Targets c) [] [] = Inr (rs0, byHost)"
    by (auto simp: t Let_def)
  let ?run = "dispatch_run lib env (ei_started io) byHost"
  let ?opts = "\<lparr>co_ContinueOnError = None, co_CollectedAt = ei_started io\<rparr>"
  obtain err caps lg rs1 where col: "Collect (Some ?run) (ei_started io) (BrocadeTargets c) ?opts rs0 = ((err, caps, lg), rs1)"
    by (metis prod.collapse)
  have ts: "BrocadeTargets c = [brocade_target_of t]" by (simp add: BrocadeTargets_def t)
  have "target_safe (brocade_target_of t)" using rdy t by (auto simp: target_safe_def list_all_iff)
  then have err: "err = None" using Collect_captures(2) [OF col] by (simp add: ts)
  have "map label_of caps = labels (brocade_target_of t) (profile_run (brocade_target_of t))"
    using Collect_captures(1) [OF col err] by (simp add: ts)
  then have "bundle_input_ok embeddedProfile caps" by (rule single_target_input_ok)
  moreover have "bc_marshalManifest (xk_bundle xk) m \<noteq> None" "bc_marshalSummary (xk_bundle xk) q \<noteq> None" for m q
    using assms(2) unfolding codec_total_def by blast+
  ultimately obtain res where res: "BuildEvidenceBundle (xk_bundle xk) (ei_started io) caps (export_options c (ei_started io)) = Inr res"
    using built_iff_input_ok [of "xk_bundle xk" "ei_started io" caps] by blast
  have "\<exists>r fs1. store_bundle xk io c req lg res fs = ((None, Some r), fs1)"
  proof -
    have m: "xk_marshalAudit xk rec \<noteq> None" for rec using assms(2) unfolding codec_total_def by blast
    have "\<exists>fs1. writeAuditRecord xk io d rec gs = (None, fs1)" for d rec gs
      using rdy m [of rec] by (cases "xk_marshalAudit xk rec") (simp_all add: writeAuditRecord_def Let_def)
    then show ?thesis using rdy by (simp add: store_bundle_def Let_def) (metis (no_types, lifting) old.prod.case option.case(1))
  qed
  then show ?thesis using that rdy v b col err res by (auto simp: RunExportWithSSH_def RunExport_def)
qed

text \<open>An export of one switch that answers every command.\<close>

definition demo_export_target :: target_config where
  "demo_export_target = \<lparr>tc_SwitchName = ''core1'', tc_Host = ''10.0.0.1'', tc_Username = ''ro'', tc_SSHKeyPath = ''/k'',
     tc_TargetProfileID = '''', tc_KnownHostsPath = '''', tc_FabricRole = '''', tc_FID = None, tc_PortRange = '''', tc_Notes = '''',
     tc_REST = None\<rparr>"

definition demo_export_config :: export_config where
  "demo_export_config = \<lparr>xc_Enabled = True, xc_ArtifactDir = ''/a'', xc_KnownHostsPath = ''/kh'', xc_ConnectTimeoutSeconds = 0,
     xc_CommandTimeoutSeconds = 0, xc_SSHPort = 0, xc_Targets = [demo_export_target], xc_AllowInsecureArtifactDir = False, xc_ConfigPath = ''''\<rparr>"

definition demo_export_io :: export_io where
  "demo_export_io = \<lparr>ei_dir = \<lparr>do_mkdir = None, do_stat = Directory 448, do_probe = ProbeOk\<rparr>, ei_started = 5, ei_finished = 6,
     ei_stat_fails = False, ei_write = None, ei_audit_open = None, ei_audit_write = None\<rparr>"

definition demo_export_codec :: export_codec where
  "demo_export_codec = \<lparr>xk_bundle = demo_bundle_codec, xk_zip = (\<lambda>es. concat (map snd es)), xk_stamp = (\<lambda>t. ''20260713T143022Z''),
     xk_rfc3339 = show_int, xk_marshalAudit = (\<lambda>r. Some (ar_SHA256 r))\<rparr>"

theorem export_is_accountable_witness:
  "case RunExportWithSSH demo_export_codec demo_ssh_lib (\<lambda>_ _. demo_ssh_io) demo_export_io demo_export_config
      \<lparr>rq_RequesterType = ''local_cli'', rq_Requester = ''t'', rq_ConfigPath = ''''\<rparr> [] of
     (out, fs1, rs) \<Rightarrow> (case out of (None, Some r) \<Rightarrow>
        er_ParsedFiles r + er_SupportingFiles r + er_Warnings r = length (pf_Commands embeddedProfile) \<and> map_of fs1 (er_Path r) \<noteq> None
      | _ \<Rightarrow> False)"
proof -
  let ?X = "RunExportWithSSH demo_export_codec demo_ssh_lib (\<lambda>_ _. demo_ssh_io) demo_export_io demo_export_config
      \<lparr>rq_RequesterType = ''local_cli'', rq_Requester = ''t'', rq_ConfigPath = ''''\<rparr> []"
  have "export_ready demo_export_codec demo_ssh_lib demo_export_io demo_export_config []" by code_simp
  moreover have "codec_total demo_export_codec" by (simp add: codec_total_def demo_export_codec_def demo_bundle_codec_def)
  ultimately obtain r fs1 rs where x: "?X = ((None, Some r), fs1, rs)" by (rule single_export_ok)
  have "list_all safe_char (xk_stamp demo_export_codec t)" for t by (simp add: demo_export_codec_def) code_simp
  from export_is_accountable [OF x this] show ?thesis unfolding x
    by (auto simp: Let_def demo_export_config_def)
qed

end
