(* ===== verification/AgentEvidence.thy ===== *)
theory AgentEvidence
  imports BrocadeExport Supervisor
begin

text \<open>
  Server-initiated evidence collection (agentevidence/handler.go, agent_evidence_wiring.go): one cycle of
  the handler over an abstract readiness checker and bundle producer, their Brocade instances over the
  target store and the export, the capability status that is advertised, and the single-flight runner
  that the poll loop ticks. The replies of the coordination endpoints and the faults of file operations
  are observations; the calls made and the audit events are listed.
\<close>

section \<open>The handler\<close>

definition CollectionProfile :: string where "CollectionProfile = ''brocade-readonly-v1''"

record claimed_job =
  cj_ID :: string
  cj_ServiceRequestID :: string
  cj_TargetProfileID :: string
  cj_CollectionProfile :: string

definition PublicErrorCodes :: "string list" where
  "PublicErrorCodes = [''credential_profile_missing'', ''ssh_auth_failed'', ''host_key_failed'', ''host_key_verification_failed'',
     ''command_profile_failed'', ''bundle_generation_failed'', ''upload_url_expired'', ''upload_failed'', ''capability_disabled'',
     ''lan_only_mode'', ''target_not_found'', ''cancelled'', ''target_configuration_missing'', ''target_configuration_invalid'',
     ''target_not_configured'', ''ssh_setup_pending'', ''ssh_probe_stale'', ''ssh_not_ready'', ''ssh_key_missing'',
     ''ssh_key_unreadable'', ''known_hosts_missing'', ''artifact_dir_not_writable'']"

text \<open>Errors with and without a public code.\<close>

datatype go_error = Coded string string | Uncoded string

fun error_text :: "go_error \<Rightarrow> string" where
  "error_text (Coded code msg) = msg"
| "error_text (Uncoded msg) = msg"

fun errorCode :: "go_error \<Rightarrow> string \<Rightarrow> string" where
  "errorCode (Coded code msg) fallback = (if code \<in> set PublicErrorCodes then code else fallback)"
| "errorCode (Uncoded msg) fallback = fallback"

text \<open>A reply: none (transport error), or a status, the body as text and as decoded value.\<close>

datatype 'a reply = NoReply string | Reply int string "string + 'a"

definition doJSON :: "string \<Rightarrow> 'a reply \<Rightarrow> string + 'a" where
  "doJSON path rep =
     (case rep of NoReply e \<Rightarrow> Inl e
      | Reply status msg dec \<Rightarrow> if status \<ge> 400 then Inl (path @ '' ['' @ show_int status @ '']: '' @ msg) else dec)"

definition doJSON_discard :: "string \<Rightarrow> unit reply \<Rightarrow> string option" where
  "doJSON_discard path rep =
     (case rep of NoReply e \<Rightarrow> Some e
      | Reply status msg dec \<Rightarrow> if status \<ge> 400 then Some (path @ '' ['' @ show_int status @ '']: '' @ msg) else None)"

definition put_error :: "unit reply \<Rightarrow> string option" where
  "put_error rep =
     (case rep of NoReply e \<Rightarrow> Some e
      | Reply status msg dec \<Rightarrow> if status \<ge> 300 then Some (''upload PUT '' @ show_int status @ '': '' @ msg) else None)"

text \<open>The token sent with a request: the provider's unless it is empty, then the static one.\<close>

definition client_token :: "string option \<Rightarrow> string \<Rightarrow> string" where
  "client_token provided static = (case provided of Some t \<Rightarrow> if t \<noteq> '''' then t else static | None \<Rightarrow> static)"

datatype evidence_call = ClaimCall string | IntentCall string nat | PutCall string string
  | CompleteCall string string string string | FailCall string string string string

datatype audit_event = Claimed string string string | ReadinessFailed string string string | EvidenceFailed string string
  | BundleProduced string nat string string | Uploaded string nat | Completed string string nat string

record evidence_io =
  vi_claim :: "claimed_job option reply"
  vi_open :: "string option"
  vi_stat :: "string option"
  vi_hash :: "string option"
  vi_intent :: "string reply"
  vi_seek :: "string option"
  vi_put :: "unit reply"
  vi_complete :: "unit reply"

record evidence_log =
  el_calls :: "evidence_call list"
  el_audit :: "audit_event list"

definition call :: "evidence_call \<Rightarrow> evidence_log \<Rightarrow> evidence_log" where
  "call c l = l\<lparr>el_calls := el_calls l @ [c]\<rparr>"

definition note_event :: "audit_event \<Rightarrow> evidence_log \<Rightarrow> evidence_log" where
  "note_event a l = l\<lparr>el_audit := el_audit l @ [a]\<rparr>"

definition report_failed :: "string \<Rightarrow> string \<Rightarrow> string \<Rightarrow> string \<Rightarrow> evidence_log \<Rightarrow> evidence_log" where
  "report_failed jobID code internal msg l = note_event (EvidenceFailed jobID code) (call (FailCall jobID code internal msg) l)"

text \<open>The part of the cycle after the bundle has been opened: its content is \<open>body\<close>.\<close>

definition upload_bundle ::
  "string \<Rightarrow> (string \<Rightarrow> string) \<Rightarrow> evidence_io \<Rightarrow> string \<Rightarrow> string \<Rightarrow> string \<Rightarrow> evidence_log \<Rightarrow> string option \<times> evidence_log" where
  "upload_bundle version sha256hex io jobID profileVer body l =
     (case vi_stat io of Some e \<Rightarrow> (Some e, report_failed jobID ''bundle_generation_failed'' ''zip_stat_failed'' e l)
      | None \<Rightarrow>
     (case vi_hash io of Some e \<Rightarrow> (Some e, report_failed jobID ''bundle_generation_failed'' ''hash_failed'' e l)
      | None \<Rightarrow>
         (let size = length body; sum = sha256hex body;
              l1 = call (IntentCall jobID size) (note_event (BundleProduced jobID size sum profileVer) l)
          in case doJSON ''/functions/v1/agent-evidence-upload-intent'' (vi_intent io) of
               Inl e \<Rightarrow> (Some e, report_failed jobID ''upload_url_expired'' ''intent_failed'' e l1)
             | Inr url \<Rightarrow>
         (case vi_seek io of Some e \<Rightarrow> (Some e, l1)
          | None \<Rightarrow>
             (let l2 = call (PutCall url body) l1
              in case put_error (vi_put io) of Some e \<Rightarrow> (Some e, report_failed jobID ''upload_failed'' ''put_failed'' e l2)
                 | None \<Rightarrow>
                    (let l3 = call (CompleteCall jobID sum profileVer version) (note_event (Uploaded jobID size) l2)
                     in case doJSON_discard ''/functions/v1/agent-evidence-complete'' (vi_complete io) of Some e \<Rightarrow> (Some e, l3)
                        | None \<Rightarrow> (None, note_event (Completed jobID sum size profileVer) l3)))))))"

type_synonym checker = "string \<Rightarrow> go_error option"
type_synonym 's producer = "string \<Rightarrow> 's \<Rightarrow> (go_error + string \<times> string) \<times> 's"

definition handle_job ::
  "string \<Rightarrow> (string \<Rightarrow> string) \<Rightarrow> checker \<Rightarrow> 's producer \<Rightarrow> ('s \<Rightarrow> string \<Rightarrow> string option) \<Rightarrow> evidence_io \<Rightarrow> claimed_job
   \<Rightarrow> evidence_log \<Rightarrow> 's \<Rightarrow> string option \<times> evidence_log \<times> 's" where
  "handle_job version sha256hex check produce content io job l s =
     (let tid = cj_TargetProfileID job; jid = cj_ID job
      in if cj_CollectionProfile job \<noteq> CollectionProfile then
           (Some (''unsupported profile '' @ go_quote (cj_CollectionProfile job)),
            report_failed jid ''capability_disabled'' ''unsupported_profile'' (cj_CollectionProfile job) l, s)
         else case check tid of
           Some e \<Rightarrow>
             (let code = errorCode e ''capability_disabled''
              in (Some (error_text e), note_event (ReadinessFailed jid tid code) (call (FailCall jid code code (error_text e)) l), s))
         | None \<Rightarrow>
             (case produce tid s of
                (Inl e, s1) \<Rightarrow>
                  (let code = errorCode e ''bundle_generation_failed''
                   in (Some (error_text e), report_failed jid code code (error_text e) l, s1))
              | (Inr (zipPath, profileVer), s1) \<Rightarrow>
                  (case vi_open io of
                     Some e \<Rightarrow> (Some e, report_failed jid ''bundle_generation_failed'' ''zip_open_failed'' e l, s1)
                   | None \<Rightarrow>
                      (case content s1 zipPath of
                         None \<Rightarrow> (Some ''no such file'', report_failed jid ''bundle_generation_failed'' ''zip_open_failed'' ''no such file'' l, s1)
                       | Some body \<Rightarrow>
                          (case upload_bundle version sha256hex io jid profileVer body l of (err, l1) \<Rightarrow> (err, l1, s1))))))"

text \<open>The result of a cycle: whether a job was worked on, and its error.\<close>

definition handler_run ::
  "string \<Rightarrow> (string \<Rightarrow> string) \<Rightarrow> bool \<Rightarrow> checker \<Rightarrow> 's producer \<Rightarrow> ('s \<Rightarrow> string \<Rightarrow> string option) \<Rightarrow> evidence_io \<Rightarrow> 's
   \<Rightarrow> (bool \<times> string option) \<times> evidence_log \<times> 's" where
  "handler_run version sha256hex lanOnly check produce content io s =
     (let l0 = \<lparr>el_calls = [], el_audit = []\<rparr>
      in if lanOnly then ((False, None), l0, s)
         else (let l1 = call (ClaimCall version) l0
               in case doJSON ''/functions/v1/agent-evidence-claim'' (vi_claim io) of
                    Inl e \<Rightarrow> ((False, Some e), l1, s)
                  | Inr None \<Rightarrow> ((False, None), l1, s)
                  | Inr (Some job) \<Rightarrow>
                      (case handle_job version sha256hex check produce content io job
                              (note_event (Claimed (cj_ID job) (cj_ServiceRequestID job) (cj_TargetProfileID job)) l1) s of
                         (err, l2, s2) \<Rightarrow> ((True, err), l2, s2))))"


section \<open>Errors of the export as text\<close>

text \<open>The errors of assembling a bundle from a directory do not reach the export.\<close>

fun bundle_error_text :: "bundle_error \<Rightarrow> string" where
  "bundle_error_text ProfileVendorMismatch =
     ''embedded profile vendor '' @ go_quote (pf_Vendor embeddedProfile) @ '' != '' @ go_quote Vendor"
| "bundle_error_text (FolderCollision owner name dir) =
     ''path collision: switches '' @ go_quote owner @ '' and '' @ go_quote name @ '' both map to folder '' @ go_quote dir @
     ''; rename one before bundling''"
| "bundle_error_text (UnknownCommand cmd sw) =
     ''unknown command '' @ go_quote cmd @ '' on switch '' @ go_quote sw @ '' is not in the Brocade profile''"
| "bundle_error_text (DuplicateCapture cmd sw) = ''duplicate capture for command '' @ go_quote cmd @ '' on switch '' @ go_quote sw"
| "bundle_error_text (FilenameMismatch cmd sw got want) =
     ''filename mismatch for command '' @ go_quote cmd @ '' on switch '' @ go_quote sw @ '': got '' @ go_quote got @
     '', profile expects '' @ go_quote want"
| "bundle_error_text (UnsafePath rel sw) = ''refusing unsafe bundle path '' @ go_quote rel @ '' for switch '' @ go_quote sw"
| "bundle_error_text (PathCollision rel owner name) =
     ''path collision: '' @ go_quote rel @ '' already written for switch '' @ go_quote owner @ '', cannot reuse for '' @ go_quote name"
| "bundle_error_text MarshalManifestError = ''marshal manifest''"
| "bundle_error_text MarshalSummaryError = ''marshal summary''"
| "bundle_error_text _ = ''''"

definition first_meta :: "string \<Rightarrow> string" where
  "first_meta e = take 1 (dropWhile (\<lambda>c. c \<notin> set shellMetaChars) e)"

fun cli_error_text :: "cli_error \<Rightarrow> string" where
  "cli_error_text EmptyExec = ''empty exec string in command profile''"
| "cli_error_text (UnsafeExec e) =
     ''refusing exec '' @ go_quote e @ '': contains shell-control character '' @ go_quote (first_meta e) @ '' (possible profile tampering)''"
| "cli_error_text (ProfileUnusable e) = bundle_error_text e"
| "cli_error_text EmptyProfile = ''embedded command profile is empty''"
| "cli_error_text RunnerRequired = ''a CommandRunner is required''"
| "cli_error_text TargetRequired = ''at least one target is required''"
| "cli_error_text (CommandFailed cmd sw) =
     ''command '' @ go_quote cmd @ '' failed on switch '' @ go_quote sw @ '' and ContinueOnError is false''"
| "cli_error_text (BundleFailed e) = bundle_error_text e"

fun runner_error_text :: "runner_error \<Rightarrow> string" where
  "runner_error_text KnownHostsRequired = ''KnownHostsPath is required for the SSH runner (host-key verification is mandatory)''"
| "runner_error_text (KnownHostsLoad path e) = ''load known_hosts '' @ go_quote path @ '': '' @ e"

fun export_error_text :: "export_error \<Rightarrow> string" where
  "export_error_text ErrCapabilityDisabled =
     ''brocade_bundle_export capability is disabled (default off); enable it in the local export config to run''"
| "export_error_text NoTargetsConfigured = ''no brocade_targets configured''"
| "export_error_text (ArtifactDirRelative d) =
     ''artifact_dir '' @ go_quote d @ '' must be an absolute path (set allow_insecure_artifact_dir to override)''"
| "export_error_text (ArtifactDirInTmp d) =
     ''artifact_dir '' @ go_quote d @ '' is under /tmp; choose a durable location like '' @ DefaultArtifactDir @
     '' (set allow_insecure_artifact_dir to override)''"
| "export_error_text (TargetFieldRequired who m) = who @ '': '' @ m"
| "export_error_text (ErrArtifactDirNotWritable m) = ''agent evidence artifact directory is not writable: '' @ m"
| "export_error_text (ArtifactDirError m) = m"
| "export_error_text (CaptureError e) = ''capture failed: '' @ cli_error_text e"
| "export_error_text (BundleBuildError e) = ''bundle build failed: '' @ bundle_error_text e"
| "export_error_text (ArtifactExists p) = ''artifact '' @ go_quote p @ '' already exists; refusing to overwrite''"
| "export_error_text (ArtifactWriteError p e) = ''write artifact '' @ go_quote p @ '': '' @ e"
| "export_error_text (RunnerInitError kh e) = ''init ssh runner for known_hosts '' @ go_quote kh @ '': '' @ runner_error_text e"
| "export_error_text (AuditWriteError m) = ''export succeeded but audit write failed: '' @ m"

section \<open>The Brocade checker and producer\<close>

datatype readiness_error = LoaderError resolve_error | GateError gate_error

fun codedFromReadinessErr :: "readiness_error \<Rightarrow> go_error" where
  "codedFromReadinessErr (LoaderError (ResolveProbeError ErrTargetConfigMissing)) =
     Coded ''target_configuration_missing'' (''connector has no targets.json '' @ em_dash @ '' run '' @ backquoted ''target configure'')"
| "codedFromReadinessErr (LoaderError (ResolveProbeError ErrTargetConfigUnreadable)) =
     Coded ''target_configuration_invalid'' ''connector cannot read targets.json''"
| "codedFromReadinessErr (LoaderError (ResolveProbeError ErrTargetNotConfigured)) =
     Coded ''target_not_configured'' ''no local target maps to this target_profile_id''"
| "codedFromReadinessErr (LoaderError (ResolveProbeError ErrDuplicateTargetID)) =
     Coded ''target_not_configured'' ''multiple local targets share this target_profile_id''"
| "codedFromReadinessErr (LoaderError (ResolveProbeError ErrInvalidTarget)) =
     Coded ''target_configuration_invalid'' ''target_profile_id is not a valid UUID''"
| "codedFromReadinessErr (LoaderError (ResolveProbeError _)) = Coded ''target_configuration_invalid'' ''''"
| "codedFromReadinessErr (LoaderError (ResolveCode msg)) =
     (if msg \<in> {''ssh_key_missing'', ''ssh_key_unreadable'', ''known_hosts_missing''} then Coded msg msg
      else Coded ''target_configuration_invalid'' msg)"
| "codedFromReadinessErr (GateError ErrSSHSetupPending) =
     Coded ''ssh_setup_pending'' (''SSH has never been proven for this target '' @ em_dash @ '' run '' @ backquoted ''target probe'')"
| "codedFromReadinessErr (GateError ErrSSHProbeStale) =
     Coded ''ssh_probe_stale'' ''last successful SSH probe is older than the freshness window''"
| "codedFromReadinessErr (GateError ErrSSHNotReady) =
     Coded ''ssh_not_ready'' ''connector has not reported fresh SSH readiness for this target''"

record evidence_dirs =
  ed_targetsDir :: string
  ed_runtimeStateDir :: string
  ed_artifactDir :: string

definition load_gated ::
  "target_codec \<Rightarrow> time \<Rightarrow> tfs \<Rightarrow> evidence_dirs \<Rightarrow> string \<Rightarrow> go_error + resolved_target" where
  "load_gated tk now fs d tid =
     (case LoadResolvedBrocadeTarget tk now fs (ed_targetsDir d) (ed_runtimeStateDir d) tid of
        Inl e \<Rightarrow> Inl (codedFromReadinessErr (LoaderError e))
      | Inr (t, readiness) \<Rightarrow>
         (case ReadinessGateError readiness of Some e \<Rightarrow> Inl (codedFromReadinessErr (GateError e)) | None \<Rightarrow> Inr t))"

definition brocade_check ::
  "target_codec \<Rightarrow> time \<Rightarrow> tfs \<Rightarrow> evidence_dirs \<Rightarrow> dir_obs \<Rightarrow> bool \<Rightarrow> checker" where
  "brocade_check tk now fs d ob lanOnly tid =
     (if lanOnly then Some (Coded ''lan_only_mode'' ''connector is in LAN-only mode; server-initiated collection refused'')
      else case load_gated tk now fs d tid of Inl e \<Rightarrow> Some e
      | Inr t \<Rightarrow>
         if ed_artifactDir d \<noteq> '''' \<and> VerifyWritableDirectory (ed_artifactDir d) ob \<noteq> None
         then Some (Coded ArtifactDirNotWritableCode
           ''connector cannot write its evidence artifact directory; recreate the container so /etc/filterrex is mounted read-write'')
         else None)"

definition nonEmpty :: "string \<Rightarrow> string \<Rightarrow> string" where
  "nonEmpty a b = (if trim_space a \<noteq> '''' then a else b)"

definition scoped_config :: "evidence_dirs \<Rightarrow> resolved_target \<Rightarrow> export_config" where
  "scoped_config d t = \<lparr>xc_Enabled = True, xc_ArtifactDir = ed_artifactDir d, xc_KnownHostsPath = rt_KnownHostsPath t,
     xc_ConnectTimeoutSeconds = 0, xc_CommandTimeoutSeconds = 0, xc_SSHPort = rt_SSHPort t,
     xc_Targets = [\<lparr>tc_SwitchName = nonEmpty (rt_ProfileName t) (rt_TargetID t), tc_Host = rt_Host t,
       tc_Username = rt_SSHUsername t, tc_SSHKeyPath = rt_PrivateKeyPath t, tc_TargetProfileID = '''', tc_KnownHostsPath = '''',
       tc_FabricRole = '''', tc_FID = None, tc_PortRange = '''', tc_Notes = '''', tc_REST = None\<rparr>],
     xc_AllowInsecureArtifactDir = False, xc_ConfigPath = ''''\<rparr>"

definition evidence_request :: request_meta where
  "evidence_request = \<lparr>rq_RequesterType = ''agent_evidence'', rq_Requester = ''agent-evidence-dispatch'', rq_ConfigPath = ''''\<rparr>"

definition produce_error :: "export_error \<Rightarrow> go_error" where
  "produce_error e =
     (let msg = export_error_text e
      in if (case e of ErrArtifactDirNotWritable m \<Rightarrow> True | _ \<Rightarrow> False) \<or> str_contains msg ''read-only file system'' then
           Coded ArtifactDirNotWritableCode ''connector cannot write its evidence artifact directory''
         else if str_contains msg ''known_hosts'' then Coded ''host_key_verification_failed'' ''host-key verification failed''
         else if str_contains msg ''ssh: handshake failed'' \<or> str_contains msg ''authentication'' then
           Coded ''ssh_auth_failed'' ''ssh authentication failed''
         else Coded ''bundle_generation_failed'' msg)"

text \<open>The files written and the runners of all exports. An export without error has a result, so the case
  of neither does not arise.\<close>

record produce_state =
  ps_files :: artifacts
  ps_runners :: "(string \<times> ssh_runner) list"

definition brocade_produce ::
  "target_codec \<Rightarrow> time \<Rightarrow> tfs \<Rightarrow> evidence_dirs \<Rightarrow> export_codec \<Rightarrow> ssh_lib \<Rightarrow> (string \<Rightarrow> nat \<Rightarrow> ssh_io) \<Rightarrow> export_io \<Rightarrow> produce_state producer" where
  "brocade_produce tk now fs d xk lib env xio tid s =
     (case load_gated tk now fs d tid of Inl e \<Rightarrow> (Inl e, s)
      | Inr t \<Rightarrow>
         (case RunExportWithSSH xk lib env xio (scoped_config d t) evidence_request (ps_files s) of
            ((Some e, r), fs1, rs) \<Rightarrow> (Inl (produce_error e), s\<lparr>ps_files := fs1, ps_runners := ps_runners s @ rs\<rparr>)
          | ((None, None), fs1, rs) \<Rightarrow> (Inl (Uncoded ''''), s\<lparr>ps_files := fs1, ps_runners := ps_runners s @ rs\<rparr>)
          | ((None, Some r), fs1, rs) \<Rightarrow> (Inr (er_Path r, ProfileVersion), s\<lparr>ps_files := fs1, ps_runners := ps_runners s @ rs\<rparr>)))"


text \<open>One cycle of the wired handler. LAN-only mode is asked by the handler and again by the checker.\<close>

record cycle_io =
  ky_lanOnly_run :: bool
  ky_lanOnly_check :: bool
  ky_now_check :: time
  ky_now_produce :: time
  ky_dir :: dir_obs
  ky_export :: export_io
  ky_handler :: evidence_io

definition evidence_cycle ::
  "string \<Rightarrow> target_codec \<Rightarrow> export_codec \<Rightarrow> ssh_lib \<Rightarrow> (string \<Rightarrow> nat \<Rightarrow> ssh_io) \<Rightarrow> tfs \<Rightarrow> evidence_dirs \<Rightarrow> cycle_io \<Rightarrow> produce_state
   \<Rightarrow> (bool \<times> string option) \<times> evidence_log \<times> produce_state" where
  "evidence_cycle version tk xk lib env fs d ky s =
     handler_run version (bc_sha256hex (xk_bundle xk)) (ky_lanOnly_run ky)
       (brocade_check tk (ky_now_check ky) fs d (ky_dir ky) (ky_lanOnly_check ky))
       (brocade_produce tk (ky_now_produce ky) fs d xk lib env (ky_export ky))
       (\<lambda>s p. map_of (ps_files s) p) (ky_handler ky) s"

section \<open>The advertised capability\<close>

definition fresh_snapshot :: "target_codec \<Rightarrow> time \<Rightarrow> ssh_snapshot \<Rightarrow> bool" where
  "fresh_snapshot tk now r =
     (ss_SSHReady r \<and> trim_space (ss_LastSuccessfulProbeAt r) \<noteq> '''' \<and>
      (case tk_parse tk (ss_LastSuccessfulProbeAt r) of None \<Rightarrow> False | Some t \<Rightarrow> \<not> time_sub now t > ReadinessFreshWindow))"

definition collectReadyBrocadeTargetIDs :: "target_codec \<Rightarrow> time \<Rightarrow> tfs \<Rightarrow> string \<Rightarrow> string \<Rightarrow> string list" where
  "collectReadyBrocadeTargetIDs tk now fs targetsDir runtimeStateDir =
     (case LoadSSHReadinessSnapshotWithRuntime tk fs targetsDir runtimeStateDir of Inl e \<Rightarrow> []
      | Inr (snap, ws) \<Rightarrow> map fst (filter (\<lambda>(i, r). fresh_snapshot tk now r) snap))"

definition status_info :: "bool \<Rightarrow> string \<Rightarrow> string \<Rightarrow> string list \<Rightarrow> capability_status_info" where
  "status_info enabled st reason ready = \<lparr>ci_Enabled = enabled, ci_ConfigurationState = st, ci_ReadyTargetProfileIDs = ready,
     ci_PerTarget = [], ci_Reason = reason\<rparr>"

definition evaluateBrocadeCapabilityStatus ::
  "target_codec \<Rightarrow> time \<Rightarrow> tfs \<Rightarrow> string \<Rightarrow> string \<Rightarrow> bool \<Rightarrow> capability_status_info" where
  "evaluateBrocadeCapabilityStatus tk now fs targetsDir runtimeStateDir lanOnly =
     (if lanOnly then status_info False ''lan_only'' ''LAN-only mode refuses server-initiated collection'' []
      else (let i = InspectTargetConfigDir tk fs targetsDir
            in if \<not> ci_FileReadable i then
                 status_info False ''not_configured'' (''no targets.json at '' @ ci_File i @ '' '' @ em_dash @ '' run '' @
                   backquoted ''target configure'' @ '' on the connector host'') []
               else if \<not> ci_ParseSuccessful i then status_info False ''invalid'' ''targets.json failed to parse'' []
               else (let ready = collectReadyBrocadeTargetIDs tk now fs targetsDir runtimeStateDir
                     in if ready = [] then
                          status_info True ''not_configured'' ''no Brocade target has a fresh successful SSH probe on this host'' []
                        else status_info True ''ready'' '''' ready)))"

section \<open>The runner of the poll loop\<close>

record evidence_runner =
  xr_dirs :: "evidence_dirs option"
  xr_inFlight :: bool
  xr_lastPoll :: time

definition initAgentEvidenceRunner :: "string \<Rightarrow> string \<Rightarrow> string \<Rightarrow> evidence_runner \<Rightarrow> evidence_runner" where
  "initAgentEvidenceRunner targetsDir runtimeStateDir artifactEnv r =
     (if xr_dirs r \<noteq> None then r
      else case ResolveAgentEvidenceArtifactDir artifactEnv of
             (artifactDir, source, err) \<Rightarrow>
               r\<lparr>xr_dirs := Some \<lparr>ed_targetsDir = targetsDir, ed_runtimeStateDir = runtimeStateDir, ed_artifactDir = artifactDir\<rparr>\<rparr>)"

text \<open>A tick either starts the cycle in a goroutine of its own (\<open>True\<close>) or does nothing.\<close>

definition tickAgentEvidence :: "time \<Rightarrow> evidence_runner \<Rightarrow> bool \<times> evidence_runner" where
  "tickAgentEvidence now r =
     (if xr_dirs r = None \<or> xr_inFlight r then (False, r)
      else (True, (if time_sub now (xr_lastPoll r) > 5 * minute then r\<lparr>xr_lastPoll := now\<rparr> else r)\<lparr>xr_inFlight := True\<rparr>))"

definition cycle_done :: "evidence_runner \<Rightarrow> evidence_runner" where
  "cycle_done r = r\<lparr>xr_inFlight := False\<rparr>"


section \<open>What a cycle reports\<close>

fun report_of :: "evidence_call \<Rightarrow> bool" where
  "report_of (CompleteCall j s v a) = True"
| "report_of (FailCall j c i m) = True"
| "report_of _ = False"

fun public_call :: "evidence_call \<Rightarrow> bool" where
  "public_call (FailCall j c i m) = (c \<in> set PublicErrorCodes)"
| "public_call _ = True"

lemma errorCode_public: "fallback \<in> set PublicErrorCodes \<Longrightarrow> errorCode e fallback \<in> set PublicErrorCodes"
  by (cases e) auto

lemma public_codes [simp]: "''capability_disabled'' \<in> set PublicErrorCodes" "''bundle_generation_failed'' \<in> set PublicErrorCodes"
  "''upload_url_expired'' \<in> set PublicErrorCodes" "''upload_failed'' \<in> set PublicErrorCodes"
  by code_simp+

lemma log_calls [simp]: "el_calls (call c l) = el_calls l @ [c]" "el_calls (note_event a l) = el_calls l"
  "el_calls (report_failed j k i m l) = el_calls l @ [FailCall j k i m]"
  by (simp_all add: call_def note_event_def report_failed_def)

text \<open>The calls that follow the opening of the bundle, in the order they are made.\<close>

lemma upload_bundle_calls:
  assumes "upload_bundle version sha io jid ver body l = (err, l')"
  shows "\<exists>cs. el_calls l' = el_calls l @ cs \<and> list_all public_call cs \<and>
    (\<forall>u b. PutCall u b \<in> set cs \<longrightarrow> b = body) \<and>
    (\<forall>j s v a. CompleteCall j s v a \<in> set cs \<longrightarrow> s = sha body \<and> (\<exists>u. PutCall u body \<in> set cs)) \<and>
    (\<forall>j c i m. FailCall j c i m \<in> set cs \<longrightarrow> j = jid) \<and> (\<forall>j s v a. CompleteCall j s v a \<in> set cs \<longrightarrow> j = jid) \<and>
    length (filter report_of cs) = (if vi_stat io = None \<and> vi_hash io = None \<and> (\<exists>u. doJSON ''/functions/v1/agent-evidence-upload-intent'' (vi_intent io) = Inr u) \<and>
       vi_seek io \<noteq> None then 0 else 1)"
  using assms by (auto simp: upload_bundle_def Let_def split: option.splits sum.splits)

lemma handle_job_calls:
  assumes "handle_job version sha check produce content io job l s = (err, l', s')"
  defines "tid \<equiv> cj_TargetProfileID job"
  shows "\<exists>cs. el_calls l' = el_calls l @ cs \<and> list_all public_call cs \<and>
    (\<forall>j c i m. FailCall j c i m \<in> set cs \<longrightarrow> j = cj_ID job) \<and> (\<forall>j h v a. CompleteCall j h v a \<in> set cs \<longrightarrow> j = cj_ID job) \<and>
    (vi_seek io = None \<longrightarrow> length (filter report_of cs) = 1) \<and> length (filter report_of cs) \<le> 1 \<and>
    (s' \<noteq> s \<or> (\<exists>u b. PutCall u b \<in> set cs) \<longrightarrow> cj_CollectionProfile job = CollectionProfile \<and> check tid = None \<and>
       s' = snd (produce tid s)) \<and>
    (\<forall>u b. PutCall u b \<in> set cs \<longrightarrow> (\<exists>p v. fst (produce tid s) = Inr (p, v) \<and> content s' p = Some b)) \<and>
    (\<forall>j h v a. CompleteCall j h v a \<in> set cs \<longrightarrow> (\<exists>u b. PutCall u b \<in> set cs \<and> h = sha b))"
proof (cases "cj_CollectionProfile job = CollectionProfile \<and> check tid = None")
  case False
  then show ?thesis using assms(1) errorCode_public [of "''capability_disabled''"]
    by (auto simp: handle_job_def tid_def Let_def split: option.splits if_splits)
next
  case True
  then have pc: "cj_CollectionProfile job = CollectionProfile" "check (cj_TargetProfileID job) = None" by (simp_all add: tid_def)
  obtain res s1 where p: "produce tid s = (res, s1)" by fastforce
  show ?thesis
  proof (cases res)
    case (Inl e)
    then show ?thesis using assms(1) pc p errorCode_public [of "''bundle_generation_failed''" e]
      by (auto simp: handle_job_def tid_def Let_def)
  next
    case (Inr zv)
    obtain zp ver where z: "zv = (zp, ver)" by fastforce
    show ?thesis
    proof (cases "vi_open io = None \<and> content s1 zp \<noteq> None")
      case False
      then show ?thesis using assms(1) pc p Inr z by (auto simp: handle_job_def tid_def Let_def split: option.splits)
    next
      case True
      then obtain body where b: "vi_open io = None" "content s1 zp = Some body" by blast
      obtain err1 l1 where u: "upload_bundle version sha io (cj_ID job) ver body l = (err1, l1)" by fastforce
      then have "err1 = err" "l1 = l'" "s1 = s'" using assms(1) pc p Inr z b by (simp_all add: handle_job_def tid_def Let_def)
      then show ?thesis using upload_bundle_calls [OF u] p Inr z b pc by (fastforce simp: tid_def split: if_splits)
    qed
  qed
qed


lemma handler_run_cases:
  assumes "handler_run version sha lanOnly check produce content io s = ((worked, err), l, s')"
  obtains "lanOnly" "el_calls l = []" "s' = s" "\<not> worked"
  | "\<not> lanOnly" "el_calls l = [ClaimCall version]" "s' = s" "\<not> worked"
  | job l0 where "\<not> lanOnly" "worked" "doJSON ''/functions/v1/agent-evidence-claim'' (vi_claim io) = Inr (Some job)"
      "el_calls l0 = [ClaimCall version]" "handle_job version sha check produce content io job l0 s = (err, l, s')"
proof (cases lanOnly)
  case True
  then show ?thesis using assms that(1) by (auto simp: handler_run_def Let_def)
next
  case False
  then show ?thesis
  proof (cases "doJSON ''/functions/v1/agent-evidence-claim'' (vi_claim io)")
    case (Inl e)
    then show ?thesis using assms that(2) False by (auto simp: handler_run_def Let_def call_def)
  next
    case (Inr oj)
    then show ?thesis
    proof (cases oj)
      case None
      then show ?thesis using assms that(2) False Inr by (auto simp: handler_run_def Let_def call_def)
    next
      case (Some job)
      let ?l = "note_event (Claimed (cj_ID job) (cj_ServiceRequestID job) (cj_TargetProfileID job))
        (call (ClaimCall version) \<lparr>el_calls = [], el_audit = []\<rparr>)"
      have "worked" "handle_job version sha check produce content io job ?l s = (err, l, s')"
        using assms False Inr Some by (simp_all add: handler_run_def Let_def split: prod.splits)
      then show ?thesis using that(3) [of job ?l] False Inr Some by simp
    qed
  qed
qed

lemma brocade_check_ok:
  assumes "brocade_check tk now fs d ob lan tid = None"
  shows "\<not> lan \<and> (\<exists>t. load_gated tk now fs d tid = Inr t) \<and>
    (ed_artifactDir d \<noteq> '''' \<longrightarrow> VerifyWritableDirectory (ed_artifactDir d) ob = None)"
  using assms by (auto simp: brocade_check_def split: if_splits sum.splits)

text \<open>C17: Evidence leaves the host only through the gate. In a cycle of the handler, files change or a bundle
  is uploaded only outside LAN-only mode, for a claimed job of the supported profile whose target
  resolves with a fresh, successful SSH probe, with a writable artifact directory; what is uploaded is
  a file the export has just written, and a completion is reported only after that upload, with the
  hash of the uploaded bytes. Every reported failure carries a public code, and in LAN-only mode the
  control plane is not contacted at all.\<close>
theorem evidence_cycle_guarded:
  assumes "evidence_cycle version tk xk lib env fs d ky s = ((worked, err), l, s')"
  shows "(s' \<noteq> s \<or> (\<exists>u b. PutCall u b \<in> set (el_calls l)) \<longrightarrow> \<not> ky_lanOnly_run ky \<and> \<not> ky_lanOnly_check ky \<and>
      (\<exists>job t. doJSON ''/functions/v1/agent-evidence-claim'' (vi_claim (ky_handler ky)) = Inr (Some job) \<and>
         cj_CollectionProfile job = CollectionProfile \<and> load_gated tk (ky_now_check ky) fs d (cj_TargetProfileID job) = Inr t \<and>
         (ed_artifactDir d \<noteq> '''' \<longrightarrow> VerifyWritableDirectory (ed_artifactDir d) (ky_dir ky) = None))) \<and>
    (\<forall>u b. PutCall u b \<in> set (el_calls l) \<longrightarrow> (\<exists>p. map_of (ps_files s') p = Some b)) \<and>
    (\<forall>j h v a. CompleteCall j h v a \<in> set (el_calls l) \<longrightarrow>
       (\<exists>u b. PutCall u b \<in> set (el_calls l) \<and> h = bc_sha256hex (xk_bundle xk) b)) \<and>
    (\<forall>j c i m. FailCall j c i m \<in> set (el_calls l) \<longrightarrow> c \<in> set PublicErrorCodes) \<and>
    (ky_lanOnly_run ky \<longrightarrow> el_calls l = [] \<and> s' = s)"
  using assms unfolding evidence_cycle_def
proof (cases rule: handler_run_cases)
  case (3 job l0)
  have pub: "\<forall>j c i m. FailCall j c i m \<in> set cs \<longrightarrow> c \<in> set PublicErrorCodes" if "list_all public_call cs" for cs
    using that by (auto simp: list_all_iff)
  from handle_job_calls [OF 3(5)] obtain cs where c: "el_calls l = ClaimCall version # cs" "list_all public_call cs"
    "s' \<noteq> s \<or> (\<exists>u b. PutCall u b \<in> set cs) \<longrightarrow> cj_CollectionProfile job = CollectionProfile \<and>
       brocade_check tk (ky_now_check ky) fs d (ky_dir ky) (ky_lanOnly_check ky) (cj_TargetProfileID job) = None"
    "\<forall>u b. PutCall u b \<in> set cs \<longrightarrow> (\<exists>p. map_of (ps_files s') p = Some b)"
    "\<forall>j h v a. CompleteCall j h v a \<in> set cs \<longrightarrow> (\<exists>u b. PutCall u b \<in> set cs \<and> h = bc_sha256hex (xk_bundle xk) b)"
    using 3(4) by fastforce
  then show ?thesis using 3(1,3) pub [OF c(2)] brocade_check_ok by (auto; blast)
qed auto

text \<open>Every claimed job is answered. A cycle that works on a job reports it at most once, to the job it
  claimed, as completed or as failed; unless rewinding the opened bundle fails, it reports it exactly
  once. A cycle without a job reports nothing.\<close>
theorem claimed_job_answered:
  assumes "handler_run version sha lanOnly check produce content io s = ((worked, err), l, s')"
  shows "(\<not> worked \<longrightarrow> filter report_of (el_calls l) = []) \<and> length (filter report_of (el_calls l)) \<le> 1 \<and>
    (worked \<and> vi_seek io = None \<longrightarrow> length (filter report_of (el_calls l)) = 1) \<and>
    (\<forall>job. doJSON ''/functions/v1/agent-evidence-claim'' (vi_claim io) = Inr (Some job) \<longrightarrow>
       (\<forall>j c i m. FailCall j c i m \<in> set (el_calls l) \<longrightarrow> j = cj_ID job) \<and>
       (\<forall>j h v a. CompleteCall j h v a \<in> set (el_calls l) \<longrightarrow> j = cj_ID job))"
  using assms
proof (cases rule: handler_run_cases)
  case (3 job l0)
  from handle_job_calls [OF 3(5)] obtain cs where "el_calls l = ClaimCall version # cs"
    "\<forall>j c i m. FailCall j c i m \<in> set cs \<longrightarrow> j = cj_ID job" "\<forall>j h v a. CompleteCall j h v a \<in> set cs \<longrightarrow> j = cj_ID job"
    "vi_seek io = None \<longrightarrow> length (filter report_of cs) = 1" "length (filter report_of cs) \<le> 1"
    using 3(4) by auto
  then show ?thesis using 3(2,3) by auto
qed auto


section \<open>Producers and completed jobs\<close>

text \<open>The contract of a bundle producer: the path it returns can be read afterwards. Under it a job whose
  bundle was produced is completed whenever the endpoints cooperate.\<close>

definition replies_ok :: "evidence_io \<Rightarrow> claimed_job \<Rightarrow> string \<Rightarrow> bool" where
  "replies_ok io job url \<longleftrightarrow> doJSON ''/functions/v1/agent-evidence-claim'' (vi_claim io) = Inr (Some job) \<and>
     vi_open io = None \<and> vi_stat io = None \<and> vi_hash io = None \<and> vi_seek io = None \<and>
     doJSON ''/functions/v1/agent-evidence-upload-intent'' (vi_intent io) = Inr url \<and> put_error (vi_put io) = None \<and>
     doJSON_discard ''/functions/v1/agent-evidence-complete'' (vi_complete io) = None"

locale bundle_producer =
  fixes produce :: "'s producer" and content :: "'s \<Rightarrow> string \<Rightarrow> string option"
  assumes produced_readable: "produce tid s = (Inr (p, v), s') \<Longrightarrow> content s' p \<noteq> None"
begin

lemma cycle_completes:
  assumes "replies_ok io job url" and "cj_CollectionProfile job = CollectionProfile"
    and "check (cj_TargetProfileID job) = None" and "produce (cj_TargetProfileID job) s = (Inr (p, v), s')"
  shows "\<exists>l body. handler_run version sha False check produce content io s = ((True, None), l, s') \<and> content s' p = Some body \<and>
    el_calls l = [ClaimCall version, IntentCall (cj_ID job) (length body), PutCall url body,
      CompleteCall (cj_ID job) (sha body) v version]"
proof -
  obtain body where b: "content s' p = Some body" using produced_readable [OF assms(4)] by blast
  then show ?thesis using assms
    by (simp add: handler_run_def handle_job_def upload_bundle_def replies_ok_def Let_def)
qed

end

lemma RunExportWithSSH_file:
  assumes "RunExportWithSSH xk lib env io c req fs = ((None, Some r), fs1, rs)"
  shows "map_of fs1 (er_Path r) \<noteq> None"
proof -
  obtain lg res where "store_bundle xk io c req lg res fs = ((None, Some r), fs1)" by (rule RunExportWithSSH_ok [OF assms])
  from store_bundle_ok(6) [OF this] show ?thesis by auto
qed

interpretation brocade: bundle_producer "brocade_produce tk now fs d xk lib env xio" "\<lambda>s p. map_of (ps_files s) p"
proof
  fix tid s p v s'
  assume "brocade_produce tk now fs d xk lib env xio tid s = (Inr (p, v), s')"
  then obtain t r rs fs1 where "RunExportWithSSH xk lib env xio (scoped_config d t) evidence_request (ps_files s) = ((None, Some r), fs1, rs)"
    "p = er_Path r" "ps_files s' = fs1"
    by (auto simp: brocade_produce_def split: sum.splits prod.splits option.splits)
  then show "map_of (ps_files s') p \<noteq> None" using RunExportWithSSH_file by auto
qed

section \<open>Failing switches\<close>

lemma list_all_nil: "list_all P []"
  by simp

lemma Collect_all_fail:
  assumes "\<And>s t e r s'. I s \<Longrightarrow> run s t e = (r, s') \<Longrightarrow> I s' \<and> cr_ExitCode r \<noteq> 0"
  shows "I s \<Longrightarrow> list_all (\<lambda>c. \<not> captureOK c) caps \<Longrightarrow> collect_commands run cont tm t cmds caps lg s = ((err, caps1, lg1), s1)
      \<Longrightarrow> I s1 \<and> list_all (\<lambda>c. \<not> captureOK c) caps1"
    and "I s \<Longrightarrow> list_all (\<lambda>c. \<not> captureOK c) caps \<Longrightarrow> collect_targets run cont tm ts caps lg s = ((err, caps1, lg1), s1)
      \<Longrightarrow> list_all (\<lambda>c. \<not> captureOK c) caps1"
proof -
  have cmds: "I s1 \<and> list_all (\<lambda>c. \<not> captureOK c) caps1"
    if "I s" "list_all (\<lambda>c. \<not> captureOK c) caps" "collect_commands run cont tm t cmds caps lg s = ((err, caps1, lg1), s1)"
    for s caps lg cmds t err caps1 lg1 s1
    using that
  proof (induction cmds arbitrary: s caps lg)
    case (Cons cmd cmds)
    obtain r s2 where r: "run s t (rv_exec cmd) = (r, s2)" by fastforce
    have i: "I s2" and x: "cr_ExitCode r \<noteq> 0" using assms [OF Cons.prems(1) r] by simp_all
    have "list_all (\<lambda>c. \<not> captureOK c) (caps @ [capture_of tm t cmd r])"
      using Cons.prems(2) x by (simp add: captureOK_def capture_of_def)
    note ih = Cons.IH [OF i this]
    show ?case using ih Cons.prems(2,3) r i by (simp split: if_splits)
  qed simp
  then show "I s \<Longrightarrow> list_all (\<lambda>c. \<not> captureOK c) caps \<Longrightarrow> collect_commands run cont tm t cmds caps lg s = ((err, caps1, lg1), s1)
      \<Longrightarrow> I s1 \<and> list_all (\<lambda>c. \<not> captureOK c) caps1" by blast
  show "I s \<Longrightarrow> list_all (\<lambda>c. \<not> captureOK c) caps \<Longrightarrow> collect_targets run cont tm ts caps lg s = ((err, caps1, lg1), s1)
      \<Longrightarrow> list_all (\<lambda>c. \<not> captureOK c) caps1"
  proof (induction ts arbitrary: s caps lg)
    case (Cons t ts)
    show ?case
    proof (cases "resolveProfileCommands t")
      case (Inr rcs)
      obtain err2 caps2 lg2 s2 where e: "collect_commands run cont tm t rcs caps lg s = ((err2, caps2, lg2), s2)"
        by (metis prod.collapse)
      from cmds [OF Cons.prems(1,2) e] show ?thesis using Cons.IH Cons.prems(3) Inr e by (cases err2) auto
    qed (use Cons.prems in simp)
  qed simp
qed


definition no_dial :: "(string \<Rightarrow> nat \<Rightarrow> ssh_io) \<Rightarrow> bool" where
  "no_dial env \<longleftrightarrow> (\<forall>kh n a c. si_dial (env kh n) a c \<noteq> None)"

lemma client_no_dial:
  assumes "no_dial env" and "sr_clients r = []"
  shows "\<exists>err. client lib (env kh n) t r = (Inl err, r)"
proof -
  have d: "\<exists>err. si_dial (env kh n) a c = Some err" for a c using assms(1) by (auto simp: no_dial_def)
  show ?thesis
  proof (cases "si_readKey (env kh n) (bt_SSHKeyPath t)")
    case (Inr key)
    then show ?thesis
    proof (cases "sl_parseKey lib key")
      case (Some signer)
      let ?a = "JoinHostPort (bt_Host t) (sc_Port (sr_cfg r))"
      obtain err where "si_dial (env kh n) ?a (ssh_config r t signer) = Some err" using d by blast
      then show ?thesis using Inr Some assms(2) by (simp add: client_def Let_def)
    qed (use Inr assms(2) in \<open>simp add: client_def\<close>)
  qed (use assms(2) in \<open>simp add: client_def\<close>)
qed

lemma ssh_run_no_dial:
  assumes "no_dial env" and "sr_clients r = []" and "ssh_run lib (env kh) r t e = (res, r')"
  shows "sr_clients r' = [] \<and> cr_ExitCode res = -1"
proof -
  obtain err where "client lib (env kh (sr_calls r)) t (r\<lparr>sr_calls := Suc (sr_calls r)\<rparr>) = (Inl err, r\<lparr>sr_calls := Suc (sr_calls r)\<rparr>)"
    using client_no_dial [OF assms(1), of "r\<lparr>sr_calls := Suc (sr_calls r)\<rparr>" lib kh "sr_calls r" t] assms(2) by auto
  then show ?thesis using assms(2,3) by (auto simp: ssh_run_def failed_result_def Let_def)
qed

lemma dispatch_no_dial:
  assumes "no_dial env" and "list_all (\<lambda>kr. sr_clients (snd kr) = []) rs" and "dispatch_run lib env now byHost rs t e = (res, rs')"
  shows "list_all (\<lambda>kr. sr_clients (snd kr) = []) rs' \<and> cr_ExitCode res \<noteq> 0"
proof (cases "map_of byHost (bt_Host t)")
  case (Some kh)
  then show ?thesis
  proof (cases "map_of rs kh")
    case r: (Some r)
    obtain x r1 where s: "ssh_run lib (env kh) r t e = (x, r1)" by fastforce
    have "sr_clients r = []" using assms(2) map_of_SomeD [OF r] by (auto simp: list_all_iff)
    from ssh_run_no_dial [OF assms(1) this s] show ?thesis
      using assms(2,3) Some r s by (auto simp: dispatch_run_def intro!: list_all_AList_update)
  qed (use assms Some in \<open>auto simp: dispatch_run_def no_runner_fails\<close>)
qed (use assms in \<open>auto simp: dispatch_run_def no_runner_fails\<close>)

lemma build_runners_fresh:
  "build_runners lib c ts ks hs = Inr (rs, byHost) \<Longrightarrow> list_all (\<lambda>kr. sr_clients (snd kr) = []) ks \<Longrightarrow>
   list_all (\<lambda>kr. sr_clients (snd kr) = []) rs"
proof (induction ts arbitrary: ks hs)
  case (Cons t ts)
  show ?case
  proof (cases "map_of ks (effectiveKnownHosts c t)")
    case None
    then obtain nr where nr: "NewSSHRunner lib \<lparr>sc_KnownHostsPath = effectiveKnownHosts c t, sc_ConnectTimeout = connectTimeout c,
        sc_CommandTimeout = commandTimeout c, sc_Port = xc_SSHPort c\<rparr> = Inr nr"
      "build_runners lib c ts (AList.update (effectiveKnownHosts c t) nr ks) (AList.update (tc_Host t) (effectiveKnownHosts c t) hs) = Inr (rs, byHost)"
      using Cons.prems(1) by (auto simp: Let_def split: sum.splits)
    have "sr_clients nr = []" using nr(1) by (auto simp: NewSSHRunner_def split: if_splits sum.splits)
    then have "list_all (\<lambda>kr. sr_clients (snd kr) = []) (AList.update (effectiveKnownHosts c t) nr ks)"
      using Cons.prems(2) by (auto intro!: list_all_AList_update)
    then show ?thesis by (rule Cons.IH [OF nr(2)])
  next
    case (Some r)
    then show ?thesis using Cons by (auto simp: Let_def)
  qed
qed simp

lemma unreachable_export:
  assumes "RunExportWithSSH xk lib env io c req fs = ((None, Some r), fs1, rs)" and "no_dial env"
  shows "er_ParsedFiles r = 0 \<and> er_SupportingFiles r = 0"
proof -
  from assms(1) obtain rs0 byHost rs1 where b: "build_runners lib c (xc_Targets c) [] [] = Inr (rs0, byHost)"
    and e: "RunExport xk io c (Some (dispatch_run lib env (ei_started io) byHost)) req fs rs0 = ((None, Some r), fs1, rs1)"
    by (auto simp: RunExportWithSSH_def split: option.splits sum.splits prod.splits)
  from e obtain caps lg rs2 res where
    col: "Collect (Some (dispatch_run lib env (ei_started io) byHost)) (ei_started io) (BrocadeTargets c)
        \<lparr>co_ContinueOnError = None, co_CollectedAt = ei_started io\<rparr> rs0 = ((None, caps, lg), rs2)"
    and bd: "BuildEvidenceBundle (xk_bundle xk) (ei_started io) caps (export_options c (ei_started io)) = Inr res"
    and st: "store_bundle xk io c req lg res fs = ((None, Some r), fs1)"
    by (auto simp: RunExport_def split: option.splits sum.splits prod.splits)
  have "list_all (\<lambda>kr. sr_clients (snd kr) = []) rs0" using build_runners_fresh [OF b] by simp
  moreover obtain cont tm where "collect_targets (dispatch_run lib env (ei_started io) byHost) cont tm (BrocadeTargets c) [] [] rs0 = ((None, caps, lg), rs2)"
    using col by (auto simp: Collect_def split: if_splits)
  moreover have "list_all (\<lambda>kr. sr_clients (snd kr) = []) rs' \<and> cr_ExitCode x \<noteq> 0"
    if "list_all (\<lambda>kr. sr_clients (snd kr) = []) qs" "dispatch_run lib env (ei_started io) byHost qs t e = (x, rs')" for qs t e x rs'
    using that by (rule dispatch_no_dial [OF assms(2)])
  ultimately have "list_all (\<lambda>c. \<not> captureOK c) caps"
    using Collect_all_fail(2) [where I = "list_all (\<lambda>kr. sr_clients (snd kr) = [])" and
      run = "dispatch_run lib env (ei_started io) byHost", OF _ _ list_all_nil] by blast
  then have "filter captureOK caps = []" by (simp add: filter_empty_conv list_all_iff)
  then show ?thesis using store_bundle_ok(5) [OF st] bundle_counts(4) [OF bd] by simp
qed


text \<open>A switch that refuses every login is reported as collected. When the gate is open and the local
  files and the control plane cooperate, but no SSH connection can be made (wrong host key, rejected
  key, unreachable host), the export still succeeds with a bundle that contains no evidence file, and
  the handler uploads it and reports the job as completed; no failure code is sent.\<close>
theorem unreachable_switch_completes:
  assumes "replies_ok (ky_handler ky) job url" and "cj_CollectionProfile job = CollectionProfile"
    and "\<not> ky_lanOnly_run ky"
    and "brocade_check tk (ky_now_check ky) fs d (ky_dir ky) (ky_lanOnly_check ky) (cj_TargetProfileID job) = None"
    and "load_gated tk (ky_now_produce ky) fs d (cj_TargetProfileID job) = Inr t"
    and "export_ready xk lib (ky_export ky) (scoped_config d t) (ps_files s)" and "codec_total xk"
    and "no_dial env"
  shows "\<exists>l s' r fs1 rs body. evidence_cycle version tk xk lib env fs d ky s = ((True, None), l, s') \<and>
    RunExportWithSSH xk lib env (ky_export ky) (scoped_config d t) evidence_request (ps_files s) = ((None, Some r), fs1, rs) \<and>
    er_ParsedFiles r = 0 \<and> er_SupportingFiles r = 0 \<and> map_of (ps_files s') (er_Path r) = Some body \<and>
    PutCall url body \<in> set (el_calls l) \<and>
    CompleteCall (cj_ID job) (bc_sha256hex (xk_bundle xk) body) ProfileVersion version \<in> set (el_calls l) \<and>
    (\<forall>j c i m. FailCall j c i m \<notin> set (el_calls l))"
proof -
  obtain r fs1 rs where r: "RunExportWithSSH xk lib env (ky_export ky) (scoped_config d t) evidence_request (ps_files s) =
      ((None, Some r), fs1, rs)" by (rule single_export_ok [OF assms(6,7)])
  let ?s = "s\<lparr>ps_files := fs1, ps_runners := ps_runners s @ rs\<rparr>"
  have p: "brocade_produce tk (ky_now_produce ky) fs d xk lib env (ky_export ky) (cj_TargetProfileID job) s =
      (Inr (er_Path r, ProfileVersion), ?s)" using assms(5) r by (simp add: brocade_produce_def)
  from brocade.cycle_completes [OF assms(1,2) _ p, where check = "brocade_check tk (ky_now_check ky) fs d (ky_dir ky) (ky_lanOnly_check ky)"
      and sha = "bc_sha256hex (xk_bundle xk)" and version = version] assms(3,4)
  obtain l body where "evidence_cycle version tk xk lib env fs d ky s = ((True, None), l, ?s)" "map_of (ps_files ?s) (er_Path r) = Some body"
    "el_calls l = [ClaimCall version, IntentCall (cj_ID job) (length body), PutCall url body,
       CompleteCall (cj_ID job) (bc_sha256hex (xk_bundle xk) body) ProfileVersion version]"
    by (auto simp: evidence_cycle_def)
  then show ?thesis using r unreachable_export [OF r assms(8)]
    by (intro exI [of _ l] exI [of _ ?s] exI [of _ r] exI [of _ fs1] exI [of _ rs] exI [of _ body]) simp
qed

section \<open>One cycle at a time\<close>

text \<open>The poll loop ticks at any time; a started cycle is a goroutine that ends later. \<open>xs_active\<close> counts
  the goroutines that have been started and not ended.\<close>

record evidence_system =
  xs_runner :: evidence_runner
  xs_active :: nat

inductive evidence_step :: "evidence_system \<Rightarrow> evidence_system \<Rightarrow> bool" where
  init: "evidence_step x (x\<lparr>xs_runner := initAgentEvidenceRunner td rd env (xs_runner x)\<rparr>)"
| tick: "tickAgentEvidence now (xs_runner x) = (started, r) \<Longrightarrow>
     evidence_step x \<lparr>xs_runner = r, xs_active = (if started then Suc (xs_active x) else xs_active x)\<rparr>"
| cycle_end: "xs_active x = Suc n \<Longrightarrow> evidence_step x \<lparr>xs_runner = cycle_done (xs_runner x), xs_active = n\<rparr>"

definition evidence_start :: evidence_system where
  "evidence_start = \<lparr>xs_runner = \<lparr>xr_dirs = None, xr_inFlight = False, xr_lastPoll = zero_time\<rparr>, xs_active = 0\<rparr>"

inductive_cases evidence_stepE: "evidence_step x y"

lemma evidence_step_inv:
  assumes "evidence_step x y" and "xs_active x = (if xr_inFlight (xs_runner x) then 1 else 0)"
  shows "xs_active y = (if xr_inFlight (xs_runner y) then 1 else 0)"
  using assms by (cases rule: evidence_stepE)
    (auto simp: initAgentEvidenceRunner_def tickAgentEvidence_def cycle_done_def split: if_splits prod.splits)

text \<open>C35: Collection is single-flight. In every state reached by any interleaving of ticks, ends of cycles and
  initializations, at most one cycle runs, and a tick starts one exactly when the handler has been
  set up and none is running; once set up, the directories of the handler never change.\<close>
theorem collection_single_flight:
  assumes "evidence_step\<^sup>*\<^sup>* evidence_start x"
  shows "xs_active x \<le> 1 \<and> (\<forall>now. fst (tickAgentEvidence now (xs_runner x)) \<longleftrightarrow> xr_dirs (xs_runner x) \<noteq> None \<and> xs_active x = 0) \<and>
    (\<forall>y. evidence_step x y \<and> xr_dirs (xs_runner x) \<noteq> None \<longrightarrow> xr_dirs (xs_runner y) = xr_dirs (xs_runner x))"
proof -
  have "xs_active x = (if xr_inFlight (xs_runner x) then 1 else 0)"
    using assms by (induction rule: rtranclp_induct) (auto simp: evidence_start_def dest: evidence_step_inv)
  moreover have "xr_dirs (xs_runner y) = xr_dirs (xs_runner x)" if "evidence_step x y" "xr_dirs (xs_runner x) \<noteq> None" for y
    using that by (cases rule: evidence_stepE)
      (auto simp: initAgentEvidenceRunner_def tickAgentEvidence_def cycle_done_def split: if_splits prod.splits)
  ultimately show ?thesis by (simp add: tickAgentEvidence_def)
qed

theorem collection_single_flight_witness:
  "\<exists>x. evidence_step\<^sup>*\<^sup>* evidence_start x \<and> xs_active x \<le> 1 \<and> fst (tickAgentEvidence 0 (xs_runner x))"
proof -
  let ?x = "evidence_start\<lparr>xs_runner := initAgentEvidenceRunner ''/t'' ''/s'' '''' (xs_runner evidence_start)\<rparr>"
  have s: "evidence_step\<^sup>*\<^sup>* evidence_start ?x" by (rule r_into_rtranclp) (rule evidence_step.init)
  have "xr_dirs (xs_runner ?x) \<noteq> None" "xs_active ?x = 0"
    by (simp_all add: evidence_start_def initAgentEvidenceRunner_def split: prod.split)
  then show ?thesis using collection_single_flight [OF s] s by blast
qed


text \<open>A store with a proven target, a host key and a key file, a cooperative control plane and a switch
  that cannot be reached.\<close>

definition demo_ready_record :: target_record where
  "demo_ready_record = (demo_record '''')\<lparr>tr_Readiness := (tr_Readiness (demo_record ''''))\<lparr>rr_SSHReady := True, rr_LastSuccessfulSSHProbeAt := ''now''\<rparr>\<rparr>"

definition demo_evidence_tk :: target_codec where
  "demo_evidence_tk = demo_tk\<lparr>tk_unmarshalTargets := (\<lambda>s. if s = ''T'' then Some (1, Some [(demo_uuid, Some demo_ready_record)]) else None)\<rparr>"

definition demo_evidence_fs :: tfs where
  "demo_evidence_fs = \<lparr>tf_dirs = [(''/t'', True)], tf_files = [(''/t/targets.json'', Some ''T''), (''/t/keys/sw1'', Some ''K''),
     (''/t/known_hosts'', Some ''10.0.0.12 ssh-rsa AAAA'')], tf_eval = (\<lambda>_. EvMissing)\<rparr>"

definition demo_dirs :: evidence_dirs where
  "demo_dirs = \<lparr>ed_targetsDir = ''/t'', ed_runtimeStateDir = '''', ed_artifactDir = ''/a''\<rparr>"

definition demo_job :: claimed_job where
  "demo_job = \<lparr>cj_ID = ''j1'', cj_ServiceRequestID = ''r1'', cj_TargetProfileID = demo_uuid, cj_CollectionProfile = CollectionProfile\<rparr>"

definition demo_evidence_io :: evidence_io where
  "demo_evidence_io = \<lparr>vi_claim = Reply 200 '''' (Inr (Some demo_job)), vi_open = None, vi_stat = None, vi_hash = None,
     vi_intent = Reply 200 '''' (Inr ''https://u''), vi_seek = None, vi_put = Reply 200 '''' (Inr ()), vi_complete = Reply 200 '''' (Inr ())\<rparr>"

definition demo_cycle_io :: cycle_io where
  "demo_cycle_io = \<lparr>ky_lanOnly_run = False, ky_lanOnly_check = False, ky_now_check = 1, ky_now_produce = 2,
     ky_dir = ei_dir demo_export_io, ky_export = demo_export_io, ky_handler = demo_evidence_io\<rparr>"

definition demo_dead_env :: "string \<Rightarrow> nat \<Rightarrow> ssh_io" where
  "demo_dead_env kh n = demo_ssh_io\<lparr>si_dial := (\<lambda>a c. Some ''ssh: handshake failed'')\<rparr>"

lemma demo_ready:
  "brocade_check demo_evidence_tk 1 demo_evidence_fs demo_dirs (ei_dir demo_export_io) False demo_uuid = None"
  "\<exists>t. load_gated demo_evidence_tk 2 demo_evidence_fs demo_dirs demo_uuid = Inr t \<and>
     export_ready demo_export_codec demo_ssh_lib demo_export_io (scoped_config demo_dirs t) []"
  "replies_ok demo_evidence_io demo_job ''https://u''" "codec_total demo_export_codec" "no_dial demo_dead_env"
proof -
  show "brocade_check demo_evidence_tk 1 demo_evidence_fs demo_dirs (ei_dir demo_export_io) False demo_uuid = None" by code_simp
  have "case load_gated demo_evidence_tk 2 demo_evidence_fs demo_dirs demo_uuid of Inl e \<Rightarrow> False
    | Inr t \<Rightarrow> export_ready demo_export_codec demo_ssh_lib demo_export_io (scoped_config demo_dirs t) []" by code_simp
  then show "\<exists>t. load_gated demo_evidence_tk 2 demo_evidence_fs demo_dirs demo_uuid = Inr t \<and>
     export_ready demo_export_codec demo_ssh_lib demo_export_io (scoped_config demo_dirs t) []" by (auto split: sum.splits)
  show "replies_ok demo_evidence_io demo_job ''https://u''"
    by (simp add: replies_ok_def demo_evidence_io_def doJSON_def put_error_def doJSON_discard_def)
  show "codec_total demo_export_codec" by (simp add: codec_total_def demo_export_codec_def demo_bundle_codec_def)
  show "no_dial demo_dead_env" by (simp add: no_dial_def demo_dead_env_def)
qed

theorem unreachable_switch_completes_witness:
  "\<exists>l s' r fs1 rs. evidence_cycle ''1.2.3'' demo_evidence_tk demo_export_codec demo_ssh_lib demo_dead_env demo_evidence_fs demo_dirs
      demo_cycle_io \<lparr>ps_files = [], ps_runners = []\<rparr> = ((True, None), l, s') \<and> er_ParsedFiles r = 0 \<and>
    (\<exists>t. RunExportWithSSH demo_export_codec demo_ssh_lib demo_dead_env demo_export_io (scoped_config demo_dirs t) evidence_request [] =
       ((None, Some r), fs1, rs)) \<and> (\<exists>h. CompleteCall ''j1'' h ProfileVersion ''1.2.3'' \<in> set (el_calls l))"
proof -
  obtain t where t: "load_gated demo_evidence_tk 2 demo_evidence_fs demo_dirs demo_uuid = Inr t"
    "export_ready demo_export_codec demo_ssh_lib demo_export_io (scoped_config demo_dirs t) []" using demo_ready(2) by blast
  from unreachable_switch_completes [where ky = demo_cycle_io and job = demo_job and url = "''https://u''" and tk = demo_evidence_tk and
      fs = demo_evidence_fs and d = demo_dirs and t = t and xk = demo_export_codec and lib = demo_ssh_lib and env = demo_dead_env and
      s = "\<lparr>ps_files = [], ps_runners = []\<rparr>" and version = "''1.2.3''"] demo_ready t
  show ?thesis by (fastforce simp: demo_cycle_io_def demo_job_def)
qed


lemma demo_cycle:
  obtains l s' body where "evidence_cycle ''1.2.3'' demo_evidence_tk demo_export_codec demo_ssh_lib demo_dead_env demo_evidence_fs demo_dirs
      demo_cycle_io \<lparr>ps_files = [], ps_runners = []\<rparr> = ((True, None), l, s')"
    and "el_calls l = [ClaimCall ''1.2.3'', IntentCall ''j1'' (length body), PutCall ''https://u'' body,
      CompleteCall ''j1'' (bc_sha256hex demo_bundle_codec body) ProfileVersion ''1.2.3'']"
proof -
  obtain t where t: "load_gated demo_evidence_tk 2 demo_evidence_fs demo_dirs demo_uuid = Inr t"
    "export_ready demo_export_codec demo_ssh_lib demo_export_io (scoped_config demo_dirs t) []" using demo_ready(2) by blast
  obtain r fs1 rs where r: "RunExportWithSSH demo_export_codec demo_ssh_lib demo_dead_env demo_export_io (scoped_config demo_dirs t)
      evidence_request [] = ((None, Some r), fs1, rs)" by (rule single_export_ok [OF t(2) demo_ready(4)])
  have "brocade_produce demo_evidence_tk 2 demo_evidence_fs demo_dirs demo_export_codec demo_ssh_lib demo_dead_env demo_export_io
      (cj_TargetProfileID demo_job) \<lparr>ps_files = [], ps_runners = []\<rparr> = (Inr (er_Path r, ProfileVersion), \<lparr>ps_files = fs1, ps_runners = rs\<rparr>)"
    using t r by (simp add: brocade_produce_def demo_job_def)
  from brocade.cycle_completes [OF demo_ready(3) _ _ this, where version = "''1.2.3''" and sha = "bc_sha256hex (xk_bundle demo_export_codec)" and
      check = "brocade_check demo_evidence_tk 1 demo_evidence_fs demo_dirs (ei_dir demo_export_io) False"] demo_ready(1)
  show ?thesis using that by (auto simp: evidence_cycle_def demo_cycle_io_def demo_job_def demo_export_codec_def)
qed

theorem evidence_cycle_guarded_witness:
  "\<exists>l s' t. evidence_cycle ''1.2.3'' demo_evidence_tk demo_export_codec demo_ssh_lib demo_dead_env demo_evidence_fs demo_dirs
      demo_cycle_io \<lparr>ps_files = [], ps_runners = []\<rparr> = ((True, None), l, s') \<and> (\<exists>u b. PutCall u b \<in> set (el_calls l)) \<and>
    load_gated demo_evidence_tk 1 demo_evidence_fs demo_dirs demo_uuid = Inr t"
proof -
  obtain l s' body where c: "evidence_cycle ''1.2.3'' demo_evidence_tk demo_export_codec demo_ssh_lib demo_dead_env demo_evidence_fs demo_dirs
      demo_cycle_io \<lparr>ps_files = [], ps_runners = []\<rparr> = ((True, None), l, s')" "PutCall ''https://u'' body \<in> set (el_calls l)"
    by (rule demo_cycle) simp
  have "doJSON ''/functions/v1/agent-evidence-claim'' (vi_claim demo_evidence_io) = Inr (Some demo_job)"
    using demo_ready(3) by (simp add: replies_ok_def)
  with evidence_cycle_guarded [OF c(1)] c(2) have "\<exists>t. load_gated demo_evidence_tk 1 demo_evidence_fs demo_dirs demo_uuid = Inr t"
    by (auto simp: demo_cycle_io_def demo_job_def)
  then show ?thesis using c by blast
qed

theorem claimed_job_answered_witness:
  "\<exists>l s'. evidence_cycle ''1.2.3'' demo_evidence_tk demo_export_codec demo_ssh_lib demo_dead_env demo_evidence_fs demo_dirs
      demo_cycle_io \<lparr>ps_files = [], ps_runners = []\<rparr> = ((True, None), l, s') \<and> length (filter report_of (el_calls l)) = 1"
proof -
  obtain l s' body where c: "evidence_cycle ''1.2.3'' demo_evidence_tk demo_export_codec demo_ssh_lib demo_dead_env demo_evidence_fs demo_dirs
      demo_cycle_io \<lparr>ps_files = [], ps_runners = []\<rparr> = ((True, None), l, s')" by (rule demo_cycle)
  have "vi_seek (ky_handler demo_cycle_io) = None" by (simp add: demo_cycle_io_def demo_evidence_io_def)
  with claimed_job_answered [OF c [unfolded evidence_cycle_def]] show ?thesis using c by blast
qed


section \<open>What is advertised\<close>

lemma ssh_records_resolving:
  "ssh_records tid ts = List.map_filter (\<lambda>(n, r). case r of None \<Rightarrow> None
     | Some rec \<Rightarrow> if tr_SSH rec \<noteq> None then Some rec else None) (resolving tid ts)"
  by (induction ts) (auto simp: ssh_records_def resolving_def List.map_filter_simps split: option.splits if_splits)

lemma resolved_form:
  assumes "LoadResolvedBrocadeTarget tk now fs targetsDir runtimeDir tid = Inr (t, e)"
  obtains doc rec where "loadTargets tk fs targetsDir = Inr doc" "ssh_records (rt_TargetID t) (td_Targets doc) = [rec]"
    "e = effectiveReadinessFromRecord tk now fs targetsDir runtimeDir (rt_TargetID t) rec"
proof -
  from assms obtain doc n rec where "loadTargets tk fs targetsDir = Inr doc"
    "resolving (rt_TargetID t) (td_Targets doc) = [(n, Some rec)]" "tr_SSH rec \<noteq> None"
    "e = effectiveReadinessFromRecord tk now fs targetsDir runtimeDir (rt_TargetID t) rec"
    by (auto simp: LoadResolvedBrocadeTarget_def Let_def split: if_splits option.splits sum.splits list.splits)
  then show ?thesis using that by (simp add: ssh_records_resolving List.map_filter_simps)
qed

lemma effective_fresh:
  "er_Fresh (effectiveReadinessFromRecord tk now fs targetsDir runtimeDir tid rec) =
   readinessFresh tk (er_LastSuccessfulProbeAt (effectiveReadinessFromRecord tk now fs targetsDir runtimeDir tid rec)) now ReadinessFreshWindow"
  by (simp add: effectiveReadinessFromRecord_def Let_def)

text \<open>C36: What is advertised is what is accepted. For every target that resolves on this host, its id is
  among the ready ids of the capability manifest exactly when the readiness gate of the collection
  path lets a job for it pass at the same time.\<close>
theorem advertised_iff_accepted:
  assumes "targetsDir \<noteq> ''''" and "LoadResolvedBrocadeTarget tk now fs targetsDir runtimeDir tid = Inr (t, e)"
  shows "rt_TargetID t \<in> set (collectReadyBrocadeTargetIDs tk now fs targetsDir runtimeDir) \<longleftrightarrow> ReadinessGateError e = None"
proof -
  obtain doc rec where k: "loadTargets tk fs targetsDir = Inr doc" "ssh_records (rt_TargetID t) (td_Targets doc) = [rec]"
    "e = effectiveReadinessFromRecord tk now fs targetsDir runtimeDir (rt_TargetID t) rec" by (rule resolved_form [OF assms(2)])
  obtain out ws where o: "LoadSSHReadinessSnapshotWithRuntime tk fs targetsDir runtimeDir = Inr (out, ws)"
    using k(1) assms(1) by (cases "LoadSSHReadinessSnapshotWithRuntime tk fs targetsDir runtimeDir")
      (auto simp: LoadSSHReadinessSnapshotWithRuntime_def Let_def split: if_splits prod.splits)
  define s where "s = snapshot_of_record tk fs targetsDir (sidecar_entries tk fs runtimeDir) (rt_TargetID t) rec"
  have "map_of out (rt_TargetID t) = Some s" using snapshot_lookup [OF assms(1) k(1) o] k(2) by (simp add: s_def)
  then have "(rt_TargetID t, r) \<in> set out \<longleftrightarrow> r = s" for r
    using map_of_eq_Some_iff [OF snapshot_distinct [OF o], of "rt_TargetID t" r] by (metis option.inject)
  then have "rt_TargetID t \<in> set (collectReadyBrocadeTargetIDs tk now fs targetsDir runtimeDir) \<longleftrightarrow> fresh_snapshot tk now s"
    by (force simp: collectReadyBrocadeTargetIDs_def o)
  also have "\<dots> \<longleftrightarrow> er_Ready e \<and> er_Fresh e"
    using snapshot_effective [of tk fs targetsDir runtimeDir "rt_TargetID t" rec now] effective_fresh [of tk now fs targetsDir runtimeDir "rt_TargetID t" rec]
    by (auto simp: fresh_snapshot_def readinessFresh_def s_def k(3) Let_def not_less split: option.splits)
  also have "\<dots> \<longleftrightarrow> ReadinessGateError e = None" by (auto simp: ReadinessGateError_def)
  finally show ?thesis .
qed

theorem advertised_iff_accepted_witness:
  "demo_uuid \<in> set (collectReadyBrocadeTargetIDs demo_evidence_tk 1 demo_evidence_fs ''/t'' '''')"
proof -
  have "case LoadResolvedBrocadeTarget demo_evidence_tk 1 demo_evidence_fs ''/t'' '''' demo_uuid of Inl e \<Rightarrow> False
      | Inr (t, e) \<Rightarrow> rt_TargetID t = demo_uuid \<and> ReadinessGateError e = None" by code_simp
  then obtain t e where "LoadResolvedBrocadeTarget demo_evidence_tk 1 demo_evidence_fs ''/t'' '''' demo_uuid = Inr (t, e)"
    "rt_TargetID t = demo_uuid" "ReadinessGateError e = None" by (auto split: sum.splits)
  then show ?thesis using advertised_iff_accepted [of "''/t''" demo_evidence_tk 1 demo_evidence_fs "''''" demo_uuid t e] by simp
qed

text \<open>A target that does not resolve, here for want of a known_hosts file, is advertised as ready all the
  same: the snapshot looks at the recorded probe only.\<close>

lemma advertised_but_refused:
  "demo_uuid \<in> set (collectReadyBrocadeTargetIDs demo_evidence_tk 1 demo_tfs ''/t'' '''')"
  "LoadResolvedBrocadeTarget demo_evidence_tk 1 demo_tfs ''/t'' '''' demo_uuid = Inl (ResolveCode ''known_hosts_missing'')"
proof -
  have "list_ex (\<lambda>i. i = demo_uuid) (collectReadyBrocadeTargetIDs demo_evidence_tk 1 demo_tfs ''/t'' '''')" by code_simp
  then show "demo_uuid \<in> set (collectReadyBrocadeTargetIDs demo_evidence_tk 1 demo_tfs ''/t'' '''')" by (simp add: list_ex_iff)
  have "case LoadResolvedBrocadeTarget demo_evidence_tk 1 demo_tfs ''/t'' '''' demo_uuid of
      Inl (ResolveCode c) \<Rightarrow> c = ''known_hosts_missing'' | _ \<Rightarrow> False" by code_simp
  then show "LoadResolvedBrocadeTarget demo_evidence_tk 1 demo_tfs ''/t'' '''' demo_uuid = Inl (ResolveCode ''known_hosts_missing'')"
    by (auto split: sum.splits resolve_error.splits)
qed

end
