(* ===== verification/HostLife.thy ===== *)
theory HostLife
  imports Startup AgentEvidence
begin

text \<open>
  The life of a started host (main.go after the first reconciliation): the wiring of the synchronization, of the probe
  context and of the evidence runner, the turns of the loops main starts (reconnect callback, retention, desired-state
  fetch) and the shutdown. The loops that only call one operation of a component (watchdog, local reconciliation,
  command poll, updates) are steps of that component's theory.
\<close>

section \<open>Wiring\<close>

text \<open>The synchronization manager and the rest of the host share one supervisor: \<open>rn_sup\<close>. \<open>rn_triggered\<close> is the
  channel of capacity one that \<open>TriggerSync\<close> fills.\<close>

record running_host =
  rn_sup :: supervisor
  rn_sync :: "sync_manager option"
  rn_relay :: "relay_handler option"
  rn_api :: "local_api option"
  rn_evidence :: evidence_runner
  rn_triggered :: bool

definition idle_runner :: evidence_runner where
  "idle_runner = \<lparr>xr_dirs = None, xr_inFlight = False, xr_lastPoll = zero_time\<rparr>"

definition start_sync :: "duration \<Rightarrow> sync_manager \<Rightarrow> sync_manager" where
  "start_sync interval m = (if interval > 0 then m\<lparr>sy_interval := interval\<rparr> else m)"

definition wire_host :: "start_io \<Rightarrow> fs_fault \<Rightarrow> host_runtime \<Rightarrow> running_host" where
  "wire_host io keyFault h =
     (case hr_syncInterval h of
        None \<Rightarrow> \<lparr>rn_sup = hr_sup h, rn_sync = None, rn_relay = None, rn_api = hr_api h, rn_evidence = idle_runner, rn_triggered = False\<rparr>
      | Some interval \<Rightarrow>
         (let env = su_env io; targetsDir = ci_Dir (cr_Inventory (resolveBrocadeTargets (su_tk io) (su_tfs io) env));
              stateDir = runtime_state_dir env; probe = SetProbeContext targetsDir stateDir True;
              rh = probe (NewRelayHandler (change_policy_of env));
              sv = SetProbeCapabilityReadyFunc (Some (ProbeReady rh)) (hr_sup h)
          in \<lparr>rn_sup = sv, rn_sync = Some (start_sync interval (NewSyncManager (hx_cx (su_host io)) keyFault sv)), rn_relay = Some rh,
              rn_api = map_option (\<lambda>a. a\<lparr>la_relayHandler := map_option probe (la_relayHandler a)\<rparr>) (hr_api h),
              rn_evidence = initAgentEvidenceRunner targetsDir stateDir (env ''FILTERREX_AGENT_EVIDENCE_ARTIFACT_DIR'') idle_runner,
              rn_triggered = False\<rparr>))"

section \<open>The loops\<close>

definition TriggerSync :: "running_host \<Rightarrow> running_host" where
  "TriggerSync rn = (if rn_sync rn = None then rn else rn\<lparr>rn_triggered := True\<rparr>)"

definition replay_queue :: "host_io \<Rightarrow> (gomap \<Rightarrow> int option) \<Rightarrow> payload_codec \<Rightarrow> supervisor \<Rightarrow> supervisor" where
  "replay_queue io jlen cd s =
     (let e = sv_env s
      in case we_queue e of None \<Rightarrow> s
         | Some q \<Rightarrow>
            (case ReplayUnsynced jlen cd (hx_now io) (we_db e) q (we_metrics e) of
               (q', m') \<Rightarrow> s\<lparr>sv_env := e\<lparr>we_queue := Some q', we_metrics := m'\<rparr>\<rparr>))"

text \<open>The callback of the upload queue: replay, then heartbeats of every worker, then an immediate fetch.\<close>

definition on_reconnect :: "host_io \<Rightarrow> (gomap \<Rightarrow> int option) \<Rightarrow> payload_codec \<Rightarrow> running_host \<Rightarrow> running_host" where
  "on_reconnect io jlen cd rn =
     TriggerSync (rn\<lparr>rn_sup := BroadcastHeartbeat io (replay_queue io jlen cd (rn_sup rn))\<rparr>)"

definition retention_days :: "supervisor \<Rightarrow> int" where
  "retention_days s =
     (case sv_state s of None \<Rightarrow> 7
      | Some st \<Rightarrow> if hc_LocalRetentionDays (hs_Config st) > 0 then hc_LocalRetentionDays (hs_Config st) else 7)"

definition retention_tick :: "time \<Rightarrow> running_host \<Rightarrow> running_host" where
  "retention_tick now rn =
     (let s = rn_sup rn; e = sv_env s
      in rn\<lparr>rn_sup := s\<lparr>sv_env := e\<lparr>we_db := snd (RunRetention now (retention_days s) (we_db e))\<rparr>\<rparr>\<rparr>)"

text \<open>The wait of the synchronization loop and one fetch, which takes the trigger out of the channel or comes from the
  timer.\<close>

definition sync_wait :: "time \<Rightarrow> running_host \<Rightarrow> duration option" where
  "sync_wait now rn = map_option (\<lambda>m. if rn_triggered rn then 0 else sync_poll_interval now m) (rn_sync rn)"

definition sync_turn :: "sync_io \<Rightarrow> bool \<Rightarrow> fetch_result \<Rightarrow> running_host \<Rightarrow> running_host" where
  "sync_turn io by_trigger fr rn =
     (case rn_sync rn of None \<Rightarrow> rn
      | Some m \<Rightarrow>
         (let m' = fetchAndReconcile io fr (m\<lparr>sy_sup := rn_sup rn\<rparr>)
          in rn\<lparr>rn_sup := sy_sup m', rn_sync := Some m', rn_triggered := (rn_triggered rn \<and> \<not> by_trigger)\<rparr>))"

section \<open>Shutdown\<close>

text \<open>The synchronization stops first, then the workers (through the update manager, if there is one, with a limit of
  ten seconds: past it the program goes on and exits with the draining unfinished), then the upload queue, whose
  undelivered items are counted, then the local API.\<close>

definition host_shutdown :: "host_io \<Rightarrow> bool \<Rightarrow> bool \<Rightarrow> running_host \<Rightarrow> nat \<times> running_host" where
  "host_shutdown io has_updates drained rn =
     (let s = (if has_updates \<and> \<not> drained then rn_sup rn else Shutdown io (rn_sup rn))
      in (case we_queue (sv_env s) of None \<Rightarrow> 0 | Some q \<Rightarrow> Depth q, rn\<lparr>rn_sup := s, rn_sync := None, rn_api := None\<rparr>))"

section \<open>The key of the store\<close>

definition key_path :: "path \<Rightarrow> path" where
  "key_path dir = join_path dir [''host.key'']"

text \<open>The key the store works with is the one its key file holds, so that it can be opened again.\<close>

definition store_keyed :: "crypto_codec \<Rightarrow> store \<Rightarrow> bool" where
  "store_keyed cx s =
     (case map_of (st_files s) (key_path (st_configDir s)) of None \<Rightarrow> False
      | Some m \<Rightarrow> length m \<ge> keySize \<and> st_key s = cx_sha256 cx m)"

lemma key_path_eq: "clean_dir d \<Longrightarrow> key_path d = d @ [''host.key'']"
  by (simp add: key_path_def join_path_def clean_comps_append)

lemma probe_path_eq: "clean_dir d \<Longrightarrow> join_path d [''.write-probe''] = d @ [''.write-probe'']"
  by (simp add: join_path_def clean_comps_append)

lemma checkWritable_keeps:
  assumes "clean_dir d" and "x \<noteq> ''.write-probe''" and "checkWritable sf d fs = (True, fs')"
  shows "map_of fs' (d @ [x]) = map_of fs (d @ [x])"
  using assms by (auto simp: checkWritable_def probe_path_eq Let_def split: if_splits)

lemma loadOrCreateKey_keyed:
  assumes "loadOrCreateKey cx f material s = (None, s')" and "length material \<ge> keySize"
  shows "store_keyed cx s'"
  using assms by (auto simp: loadOrCreateKey_def store_keyed_def key_path_def write_file_def Let_def split: if_splits option.splits)

lemma NewStore_keyed:
  assumes "NewStore cx sf material configDir fs = Some s" and "length material \<ge> keySize"
  shows "store_keyed cx s"
  using assms loadOrCreateKey_keyed unfolding NewStore_def Let_def
  by (auto split: if_splits prod.splits option.splits bool.splits)

lemma store_keyed_cong:
  assumes "store_keyed cx s" and "st_key s' = st_key s" and "st_configDir s' = st_configDir s"
    and "map_of (st_files s') (key_path (st_configDir s)) = map_of (st_files s) (key_path (st_configDir s))"
  shows "store_keyed cx s'"
  using assms(1) unfolding store_keyed_def assms(2-4) by (simp add: assms(3,4))

lemma SaveState_keyed:
  assumes "store_keyed cx s" and "clean_dir (st_configDir s)"
  shows "store_keyed cx (snd (SaveState cx' f n st s))"
proof -
  have "key_path (st_configDir s) \<noteq> state_path s" "key_path (st_configDir s) \<noteq> tmp_path (state_path s)"
    using assms(2) by (simp_all add: key_path_eq state_path_eq tmp_path_def butlast_append)
  then have "map_of (st_files (snd (SaveState cx' f n st s))) (key_path (st_configDir s)) = map_of (st_files s) (key_path (st_configDir s))"
    by (auto simp: SaveState_def split_beta write_atomic_other split: option.split)
  then show ?thesis by (intro store_keyed_cong [OF assms(1)]) simp_all
qed

text \<open>A store opened on the files of another one with an intact key reads the same state.\<close>

lemma reopened_store:
  assumes "store_keyed cx s" and "clean_dir (st_configDir s)" and "\<not> ff_read_fails (sf_key sf)"
    and "NewStore cx sf material dir (st_files s) = Some s2" and "path_comps dir = st_configDir s" and "dir \<noteq> ''''"
  shows "LoadState cx f s2 = LoadState cx f s"
proof -
  obtain m where m: "map_of (st_files s) (st_configDir s @ [''host.key'']) = Some m" "length m \<ge> keySize" "st_key s = cx_sha256 cx m"
    using assms(1,2) by (auto simp: store_keyed_def key_path_eq split: option.splits)
  obtain fs1 where c: "checkWritable sf (st_configDir s) (st_files s) = (True, fs1)"
    and k: "loadOrCreateKey cx (sf_key sf) material \<lparr>st_configDir = st_configDir s, st_key = '''', st_files = fs1\<rparr> = (None, s2)"
    using assms(4-6) by (auto simp: NewStore_def Let_def split: if_splits prod.splits option.splits bool.splits)
  have "map_of fs1 (st_configDir s @ [''host.key'']) = Some m" using checkWritable_keeps [OF assms(2) _ c, of "''host.key''"] m(1) by simp
  then have s2: "s2 = \<lparr>st_configDir = st_configDir s, st_key = st_key s, st_files = fs1\<rparr>"
    using k m(2,3) assms(2,3) key_path_eq [OF assms(2)] by (auto simp: loadOrCreateKey_def key_path_def)
  then have "map_of (st_files s2) (state_path s2) = map_of (st_files s) (state_path s)"
    using checkWritable_keeps [OF assms(2) _ c, of "''host.json.enc''"] state_path_eq [of s2] state_path_eq [of s] assms(2) by simp
  moreover have "decrypt cx s2 x = decrypt cx s x" for x by (rule path_cong) (simp add: s2)
  ultimately show ?thesis by (simp add: LoadState_def split: option.split)
qed

section \<open>Restart\<close>

lemma initial_store [simp]: "sv_store (initial_supervisor io store) = store"
  by (simp add: initial_supervisor_def registerAdapters_def RegisterAdapter_def SetRuntimeStateDir_def SetTargetConfigSource_def
      SetTargetConfigDir_def NewSupervisor_def Let_def)

lemma startup_opens:
  assumes "startup io = Inr h" and "''--force-reset-state'' \<notin> set (su_args io)"
  obtains token tokenFile store base where
    "NewStore (hx_cx (su_host io)) (su_faults io) (su_material io) (config_dir (su_env io)) (su_files io) = Some store"
    "run_host io token tokenFile store base = Inr h"
  using assms unfolding startup_def Let_def
  by (auto split: prod.splits token_outcome.splits option.splits sum.splits)

lemma load_identity_stored:
  assumes "load_identity io base s al = Inr (s1, al1)"
    and "LoadState (hx_cx (su_host io)) (hx_fault (su_host io)) (sv_store s) = Inr (Some st)"
    and "LoadState (ei_cx (su_enroll io)) (ei_loadFault (su_enroll io)) (sv_store s) = Inr (Some st)"
    and "su_env io ''FILTERREX_ENROLLMENT_TOKEN'' = '''' \<or> hi_ConnectorToken (hs_Identity st) \<noteq> ''''"
  shows "sv_state s1 = Some st"
proof (cases "su_env io ''FILTERREX_ENROLLMENT_TOKEN'' = ''''")
  case True
  then show ?thesis using assms(1,2) unfolding load_identity_def Initialize_def
    by (auto split: legacy_outcome.splits)
next
  case False
  then have "stored_identity (su_enroll io) (sv_store s) = Some st" using assms(3,4) by (simp add: stored_identity_def)
  then show ?thesis using False assms(1) unfolding load_identity_def MustEnroll_def InitializeWithState_def
    by (auto split: legacy_outcome.splits prod.splits enroll_outcome.splits if_splits)
qed

text \<open>A start on the files another store left: the same directory and codecs, no reset, readable files.\<close>

definition restarted_on :: "start_io \<Rightarrow> crypto_codec \<Rightarrow> store \<Rightarrow> bool" where
  "restarted_on io cx s =
     (hx_cx (su_host io) = cx \<and> ei_cx (su_enroll io) = cx \<and> su_files io = st_files s \<and> path_comps (config_dir (su_env io)) = st_configDir s \<and>
      ''--force-reset-state'' \<notin> set (su_args io) \<and> \<not> ff_read_fails (sf_key (su_faults io)) \<and>
      \<not> ff_read_fails (hx_fault (su_host io)) \<and> \<not> ff_read_fails (ei_loadFault (su_enroll io)))"

lemma config_dir_nonempty: "config_dir env \<noteq> ''''"
  by (simp add: config_dir_def)

lemma restart_loads:
  assumes "startup io = Inr h" and "restarted_on io cx s" and "store_keyed cx s" and "clean_dir (st_configDir s)"
    and "\<And>f. \<not> ff_read_fails f \<Longrightarrow> LoadState cx f s = Inr (Some st)"
    and "su_env io ''FILTERREX_ENROLLMENT_TOKEN'' = '''' \<or> hi_ConnectorToken (hs_Identity st) \<noteq> ''''"
  obtains s1 ts' where "sv_state s1 = Some st"
    "sv_state (hr_sup h) = map_option (\<lambda>x. x\<lparr>hs_Targets := ts'\<rparr>) (sv_state (apply_flags (remote_flags (su_env io)) s1))"
    "map tp_TargetID ts' = map tp_TargetID (hs_Targets st)" "map wanted ts' = map wanted (hs_Targets st)"
proof -
  note r = assms(2) [unfolded restarted_on_def]
  obtain token tokenFile s2 base where p: "NewStore cx (su_faults io) (su_material io) (config_dir (su_env io)) (st_files s) = Some s2"
    "run_host io token tokenFile s2 base = Inr h"
    using startup_opens [OF assms(1)] r by metis
  have l: "LoadState cx f s2 = Inr (Some st)" if "\<not> ff_read_fails f" for f
    using reopened_store [OF assms(3,4) _ p(1)] r config_dir_nonempty assms(5) [OF that] by simp
  obtain s1 al1 st' ts' where t: "load_identity io base (initial_supervisor io s2) (initial_audit (su_env io)) = Inr (s1, al1)"
    "sv_state (apply_flags (remote_flags (su_env io)) s1) = Some st'" "sv_state (hr_sup h) = Some (st'\<lparr>hs_Targets := ts'\<rparr>)"
    "map tp_TargetID ts' = map tp_TargetID (hs_Targets st')" "map wanted ts' = map wanted (hs_Targets st')"
    using started_state [OF p(2)] by metis
  have s1: "sv_state s1 = Some st"
    by (rule load_identity_stored [OF t(1) _ _ assms(6)]) (use l r in simp_all)
  then have "hs_Targets st' = hs_Targets st" using t(2) by (auto simp: apply_flags_def)
  with that [OF s1, of ts'] t show thesis by simp
qed

lemma Shutdown_store:
  "sv_state s = Some st \<Longrightarrow> sv_store (Shutdown io s) = snd (SaveState (hx_cx io) (hx_fault io) (hx_nonce io 0) st (sv_store s))"
  by (simp add: Shutdown_def save_state_def split: prod.split)


section \<open>Examples\<close>

definition demo_disk :: store where
  "demo_disk = \<lparr>st_configDir = [''etc'', ''filterrex''], st_key = replicate 32 (CHR ''k''),
     st_files = [([''etc'', ''filterrex'', ''host.key''], replicate 32 (CHR ''m''))]\<rparr>"

definition demo_running :: running_host where
  "demo_running = \<lparr>rn_sup = (initial_supervisor demo_start demo_disk)\<lparr>sv_state := Some demo_started_state\<rparr>, rn_sync = None, rn_relay = None,
     rn_api = None, rn_evidence = idle_runner, rn_triggered = False\<rparr>"

definition demo_restart :: "store \<Rightarrow> start_io" where
  "demo_restart s = demo_start\<lparr>su_files := st_files s, su_enroll := (demo_enroll_io ''host-0123456789'')\<lparr>ei_cx := hx_cx (su_host demo_start)\<rparr>\<rparr>"

abbreviation demo_cx :: crypto_codec where
  "demo_cx \<equiv> hx_cx (su_host demo_start)"

lemma demo_restart_parts [simp]:
  "su_host (demo_restart s) = su_host demo_start" "su_env (demo_restart s) = demo_environ" "su_args (demo_restart s) = []"
  "su_files (demo_restart s) = st_files s" "su_faults (demo_restart s) = su_faults demo_start" "su_material (demo_restart s) = su_material demo_start"
  "ei_cx (su_enroll (demo_restart s)) = demo_cx" "ei_loadFault (su_enroll (demo_restart s)) = no_fault" "sf_key (su_faults demo_start) = no_fault"
  "hx_fault (su_host demo_start) = no_fault" "length (hx_nonce (su_host demo_start) 0) = nonceSize" "\<not> ff_read_fails no_fault"
  "cx_open demo_cx k n (cx_seal demo_cx k n p) = Some p" "cx_unmarshalState demo_cx d = Some demo_started_state"
  "path_comps (config_dir demo_environ) = [''etc'', ''filterrex'']"
proof -
  show "path_comps (config_dir demo_environ) = [''etc'', ''filterrex'']" by code_simp
qed (simp_all add: demo_restart_def demo_start_def demo_enroll_io_def demo_hio_def demo_codec_def nonceSize_def no_fault_def Let_def)

lemma demo_restart_opens:
  "st_configDir s = [''etc'', ''filterrex''] \<Longrightarrow>
   \<exists>s2. NewStore demo_cx (su_faults demo_start) (su_material demo_start) (config_dir demo_environ) (st_files s) = Some s2 \<and>
     st_configDir s2 = [''etc'', ''filterrex''] \<and> st_key s2 = replicate 32 (CHR ''k'')"
  by (auto simp: NewStore_def config_dir_nonempty checkWritable_def loadOrCreateKey_def write_file_def Let_def)
    (simp_all add: demo_start_def demo_hio_def demo_codec_def no_fault_def)

lemma demo_restarts:
  assumes "restarted_on (demo_restart s) demo_cx s" and "store_keyed demo_cx s" and "clean_dir (st_configDir s)"
    and "\<And>f. \<not> ff_read_fails f \<Longrightarrow> LoadState demo_cx f s = Inr (Some demo_started_state)"
  shows "\<exists>h. startup (demo_restart s) = Inr h"
proof -
  let ?io = "demo_restart s"
  have dir: "st_configDir s = [''etc'', ''filterrex'']" using assms(1) by (simp add: restarted_on_def)
  obtain s2 where s2: "NewStore demo_cx (su_faults demo_start) (su_material demo_start) (config_dir demo_environ) (st_files s) = Some s2"
    "st_configDir s2 = [''etc'', ''filterrex'']" "st_key s2 = replicate 32 (CHR ''k'')"
    using demo_restart_opens [OF dir] by blast
  have l: "LoadState demo_cx no_fault s2 = Inr (Some demo_started_state)"
    using reopened_store [OF assms(2,3) _ s2(1)] dir config_dir_nonempty assms(4) by simp
  let ?s1 = "(initial_supervisor ?io s2)\<lparr>sv_state := Some demo_started_state\<rparr>"
  have e: "demo_environ ''BACKEND_URL'' = ''''" "demo_environ ''FILTERREX_ENROLLMENT_TOKEN'' = ''''" "demo_environ ''CONNECTOR_TOKEN'' = ''''"
    by (simp_all add: demo_environ_def)
  obtain al1 where i: "load_identity ?io defaultBackendBase (initial_supervisor ?io s2) (initial_audit demo_environ) = Inr (?s1, al1)"
    using l e by (auto simp: load_identity_def Initialize_def detectLegacyEnvConfig_def)
  obtain api s3 where a: "attach_api ?io ''secret-token'' (change_policy_of demo_environ) (hybrid_db ?io)
      (attach_queue (apply_flags (remote_flags demo_environ) ?s1)) = (api, s3)" by fastforce
  have s3: "sv_state s3 = Some demo_started_state" "sv_workers s3 = []" "sv_store s3 = s2"
    using attach_state(1) [OF a] by (simp_all add: attach_state initial_workers)
      (simp add: apply_flags_def remote_flags_def envBool_def demo_environ_def demo_started_state_def fresh_state_def DefaultHostConfig_def)
  have "hs_Targets demo_started_state = []" by (simp add: demo_started_state_def fresh_state_def)
  then have r: "Reconcile (su_host demo_start) s3 = save_state (su_host demo_start) s3" by (rule Reconcile_idle [OF s3(1,2)])
  obtain s4 where s4: "save_state (su_host demo_start) s3 = (None, s4)" using save_state_demo [OF s3(1)] s2(3) s3(3) by auto
  have "local_api_token demo_environ (envBool demo_environ ''FILTERREX_HYBRID_MODE'') (su_tokenFile ?io) (su_newID ?io) (su_tokenFault ?io) =
      (Token ''secret-token'', su_tokenFile ?io)" by (simp add: local_api_token_def demo_environ_def)
  moreover have "resolveBackendBase '''' = Inr defaultBackendBase" by code_simp
  ultimately show ?thesis using s2(1) e(1) i a r s4 by (simp add: startup_def run_host_def Let_def)
qed


section \<open>Reconnecting\<close>

lemma replay_all_room:
  assumes "int (length (uq_items q)) + int (length ss) \<le> uq_maxSize q"
  shows "fst (replay_all jlen now ss q m) =
    q\<lparr>uq_items := uq_items q @ map (\<lambda>s. mk_item jlen now (uq_connectorToken q) (replay_payload s) PriorityLow) ss\<rparr>"
  using assms
proof (induction ss arbitrary: q m)
  case (Cons s ss)
  then have "Enqueue jlen now (uq_connectorToken q) (replay_payload s) PriorityLow q m =
      (True, append_item (mk_item jlen now (uq_connectorToken q) (replay_payload s) PriorityLow) q,
       SetQueueDepth (length (uq_items (append_item (mk_item jlen now (uq_connectorToken q) (replay_payload s) PriorityLow) q))) m)"
    by (simp add: Enqueue_def Let_def)
  with Cons show ?case by (simp add: append_item_def)
qed simp

lemma length_map_filter: "length (List.map_filter f l) \<le> length l"
  by (induction l) (simp_all add: List.map_filter_simps split: option.split)

lemma unsynced_at_most: "length (UnsyncedSnapshots cd 50 db) \<le> 50"
  by (cases db) (auto simp: UnsyncedSnapshots_def intro: order_trans [OF length_map_filter])

lemma heartbeat_all_env:
  "snd (heartbeat_all io ws e) =
   e\<lparr>we_posts := we_posts e @ map (\<lambda>(k, w). (wk_hostToken w, heartbeat_payload (hx_now io) w)) ws\<rparr>"
proof (induction ws arbitrary: e)
  case (Cons p ws)
  have "snd (sendHeartbeat (hx_post_ok io) (hx_now io) (snd p, e)) = post (wk_hostToken (snd p)) (heartbeat_payload (hx_now io) (snd p)) e"
    by (simp add: sendHeartbeat_def Let_def)
  with Cons [of "post (wk_hostToken (snd p)) (heartbeat_payload (hx_now io) (snd p)) e"] show ?case
    by (cases p) (simp add: split_beta post_def)
qed simp

text \<open>The queue of a started host is taken for offline, so that its first success calls the callback.\<close>

lemma first_success_reconnects:
  "\<exists>q. we_queue (sv_env (attach_queue s)) = Some q \<and> fst (run_marks (MarkOn # ms) q) = Suc (fst (run_marks ms (snd (markOnline q))))"
  by (auto simp: attach_queue_def SetUploadQueue_def SetOnReconnect_def NewUploadQueue_def markOnline_def split: prod.splits)


definition demo_outage :: running_host where
  "demo_outage = (let s = attach_queue (rn_sup demo_running) in demo_running\<lparr>rn_sup := s\<lparr>sv_env := (sv_env s)\<lparr>we_db := Some demo_db\<rparr>\<rparr>\<rparr>)"


text \<open>Retention keeps every row younger than the configured days, seven when none are configured.\<close>

lemma retention_keeps_young:
  assumes "we_db (sv_env (rn_sup rn)) = Some db" and "r \<in> set (ld_snapshots db)"
    and "\<not> sr_collected_at r < rfc3339nano (now - retention_days (rn_sup rn) * 86400 * second)"
  shows "\<exists>db'. we_db (sv_env (rn_sup (retention_tick now rn))) = Some db' \<and> r \<in> set (ld_snapshots db')"
proof -
  have "retention_days (rn_sup rn) > 0" by (simp add: retention_days_def split: option.split)
  then show ?thesis using assms by (simp add: retention_tick_def RunRetention_def Let_def)
qed

text \<open>A draining that ran out of time leaves the last state unsaved: the store is the one of the last save.\<close>

lemma late_drain_saves_nothing:
  "sv_store (rn_sup (snd (host_shutdown io True False rn))) = sv_store (rn_sup rn)"
  by (simp add: host_shutdown_def Let_def)

text \<open>A wired host with a token advertises the probe capability exactly when both directories of the probe are known.\<close>

lemma wired_probe_ready:
  assumes "hr_syncInterval h = Some d"
  shows "sv_probeReady (rn_sup (wire_host io f h)) =
    Some (trim_space (ci_Dir (cr_Inventory (resolveBrocadeTargets (su_tk io) (su_tfs io) (su_env io)))) \<noteq> '''' \<and>
      trim_space (runtime_state_dir (su_env io)) \<noteq> '''')"
  using assms by (simp add: wire_host_def ProbeReady_def SetProbeContext_def SetProbeCapabilityReadyFunc_def Let_def)

end
