(* ===== verification/Spec2Isabelle.thy ===== *)
theory Spec2Isabelle
  imports BrocadeAdapter HostLife
begin

text \<open>
  \<^bold>\<open>The program.\<close> The connector agent runs at a customer site next to storage-network switches. It
  enrolls with a control plane, is told there which targets to watch, runs one worker per target that
  collects snapshots, keeps the snapshots in a local database, uploads them through a bounded queue
  and executes the commands the control plane relays. A second program part, the target
  configuration store, holds the SSH identity of each switch in a directory the operator writes with
  a wizard; the agent only reads it and keeps the outcome of its SSH probes in a sidecar file. From
  that store and a fixed list of read-only commands the agent also builds evidence bundles of a
  switch, on an operator's command line or as a job of the control plane, and it replaces its own
  binary by signed updates. In hybrid mode a local API serves the stored snapshots to the LAN.

  \<^bold>\<open>How the parts interact.\<close> \<^verbatim>\<open>main.go\<close> dispatches subcommands or opens the store, enrolls the host
  (\<^verbatim>\<open>enrollment.go\<close>) or loads its state, wires the parts and reconciles once. \<^verbatim>\<open>desired_state.go\<close> polls the control plane, validates the profiles
  (\<^verbatim>\<open>validation.go\<close>), decrypts credentials (\<^verbatim>\<open>crypto.go\<close>) into the encrypted store (\<^verbatim>\<open>store.go\<close>) and
  drives the supervisor (\<^verbatim>\<open>supervisor.go\<close>), which owns the targets and the workers (\<^verbatim>\<open>worker.go\<close>).
  A worker writes to the local database (\<^verbatim>\<open>local_db.go\<close>) and enqueues into the upload queue
  (\<^verbatim>\<open>upload_queue.go\<close>), whose workers mark the rows as synced. Commands reach the relay
  (\<^verbatim>\<open>relay.go\<close>, \<^verbatim>\<open>system_commands.go\<close>, \<^verbatim>\<open>probe_handler.go\<close>), which looks the target up in the
  supervisor and either sends an HTTP request to the switch or runs an SSH probe of
  \<^verbatim>\<open>targetconfigure/\<close>. Readiness of both kinds is merged into the capability manifest
  (\<^verbatim>\<open>brocade_rest_readiness.go\<close>, \<^verbatim>\<open>brocade_ssh_readiness_merge.go\<close>). The evidence cycle
  (\<^verbatim>\<open>agent_evidence_wiring.go\<close>, \<^verbatim>\<open>agentevidence/\<close>) claims a job, resolves the target in the store,
  has the readiness gate decide, runs the collector (\<^verbatim>\<open>brocadecli/\<close>) over SSH with the pinned host
  key, packs the result (\<^verbatim>\<open>evidencebundle/\<close>) and uploads it; \<^verbatim>\<open>brocadeexport/\<close> does the same
  from a list of targets on the command line. \<^verbatim>\<open>updater.go\<close> asks the control plane for releases and
  restarts the agent as the new version. All of them reach the control plane through \<^verbatim>\<open>backend.go\<close>.
  The workers of Brocade targets run \<^verbatim>\<open>adapter_brocade.go\<close>; \<^verbatim>\<open>brocaderest/\<close> is the stricter client
  the wizard probes REST with. \<^verbatim>\<open>local_api.go\<close> reads the database and the supervisor and executes
  commands through the relay's handler.

  \<^bold>\<open>The theories.\<close>
  \<^item> Prelude: durations and instants (nanoseconds as \<^typ>\<open>int\<close>, with the wrap-around of
    \<^verbatim>\<open>time.Duration\<close> where it matters), Go maps as association lists, strings, named theorem
    collections and shared lemmas.
  \<^item> Metrics: \<^verbatim>\<open>metrics.go\<close> and \<^verbatim>\<open>collector.go\<close>. The concurrent collection runner gives the
    sequential result for every completion order.
  \<^item> LocalDB: \<^verbatim>\<open>local_db.go\<close>, the tables as lists of rows and one function per query, encryption as
    a parameter. Write/read round trip, retention, and two defects of the queries.
  \<^item> UploadQueue: \<^verbatim>\<open>upload_queue.go\<close>. Enqueue, eviction, dequeue, retries, probe loop and replay; the
    goroutines are interleaved steps of an inductive relation. Accounting invariant, exact eviction,
    refinement of dequeue to sorting by priority and age, single reconnect per outage.
  \<^item> HostTypes and Validation: \<^verbatim>\<open>types.go\<close>, \<^verbatim>\<open>validation.go\<close>, \<^verbatim>\<open>change_policy.go\<close>,
    \<^verbatim>\<open>httputil.go\<close>. The exact sets of accepted profiles and change operations; the TLS
    configuration that is compared is the one used.
  \<^item> Worker: \<^verbatim>\<open>worker.go\<close>. Life cycle, collection cycle, error escalation, heartbeat; a collected
    snapshot becomes one row and one queue item, and its upload marks that row; nothing is uploaded
    in LAN-only mode.
  \<^item> Store and Crypto: \<^verbatim>\<open>store.go\<close>, \<^verbatim>\<open>crypto.go\<close>. The file system with every failure the code handles;
    saving is atomic; the credential envelope round trip with NaCl box as a parameter.
  \<^item> Readiness: both readiness files; a target is published as ready exactly when the last event is a
    recent success.
  \<^item> Supervisor: \<^verbatim>\<open>supervisor.go\<close>. Every target operation, reconciliation, callbacks, watchdog and
    manifest; an invariant over all interleavings with the worker loops.
  \<^item> DesiredState: \<^verbatim>\<open>desired_state.go\<close>. One synchronization round: nothing unvalidated is configured,
    the applied state converges to the desired one, a wipe is complete.
  \<^item> TargetIdentity: the pure part of \<^verbatim>\<open>targetconfigure/\<close> (\<^verbatim>\<open>target_id.go\<close>, \<^verbatim>\<open>managed_artifact.go\<close>,
    argument checks of \<^verbatim>\<open>run.go\<close>) with Go's \<^verbatim>\<open>filepath.Clean\<close> and \<^verbatim>\<open>Join\<close>. Resolved artifacts never
    leave the configuration directory.
  \<^item> TargetStore: the part over files (\<^verbatim>\<open>target_config_inventory.go\<close>, \<^verbatim>\<open>runtime_readiness.go\<close>,
    \<^verbatim>\<open>readiness_snapshot.go\<close>, \<^verbatim>\<open>probe_target.go\<close>, \<^verbatim>\<open>resolved_target.go\<close>, the file and known_hosts
    helpers of \<^verbatim>\<open>run.go\<close>). Lock waits end, the published and the enforced readiness agree, a probe
    decides the gate, which host keys verify.
  \<^item> Relay: \<^verbatim>\<open>relay.go\<close>, \<^verbatim>\<open>system_commands.go\<close>, \<^verbatim>\<open>probe_handler.go\<close> and the command poll loop. Requests
    are sent only past every guard, and every command is answered.
  \<^item> Updater: \<^verbatim>\<open>updater.go\<close>. Version order, the signed release record, download, installation with
    backup and rollback, and the attempt history. Only bytes under a valid signature are ever run,
    the signed text determines its fields, a version that keeps failing is suspended.
  \<^item> EvidenceBundle: \<^verbatim>\<open>evidencebundle/\<close>. Naming, manifest, checksums and the archive; which inputs
    are refused, and that an archive holds exactly the collected outputs with their true digests.
  \<^item> BrocadeCLI: \<^verbatim>\<open>brocadecli/\<close>. The command profile, the check every command string passes, the
    session with its timeouts and limits, and the SSH dialer; the runner is a locale. Only commands
    of the profile are sent, in order, and only over connections with a verified host key.
  \<^item> BrocadeExport: \<^verbatim>\<open>brocadeexport/\<close> and \<^verbatim>\<open>cli_export.go\<close>. Configuration, scheduling of several
    targets, results and exit status; every target of the list is accounted for once.
  \<^item> AgentEvidence: \<^verbatim>\<open>agentevidence/\<close> and \<^verbatim>\<open>agent_evidence_wiring.go\<close>. The poll cycle with claim,
    collection, upload and failure report; no switch is contacted unless the gate is open, a claimed
    job is always answered, collections never overlap.
  \<^item> BrocadeREST: \<^verbatim>\<open>brocaderest/\<close>. The registry of operations, parameters, the password file, the
    client's policy and one call with its audit record; a call sends at most one guarded GET, and when it
    returns a payload.
  \<^item> TargetWizard: the dialogue of \<^verbatim>\<open>targetconfigure/run.go\<close> and \<^verbatim>\<open>doctor.go\<close>. The answers typed are the
    input; keys, host-key enrollment, readiness, the saved document and the menu. Readiness is stored only
    when a probe proved it, a host key is trusted only after the fingerprint challenge, when the dialogue
    ends, and that the doctor agrees with the collector.
  \<^item> BrocadeAdapter: \<^verbatim>\<open>adapter_brocade.go\<close>, \<^verbatim>\<open>adapters.go\<close>. Init with its http fallback, collection,
    normalization, alerts and signals. The signals are exactly those the answers justify, the counters are
    bounded, every request is a guarded GET, a collection in a worker cycle and during an outage.
  \<^item> Backend: \<^verbatim>\<open>backend.go\<close>. The calls to the control plane and the meaning of every status for the callers
    in UploadQueue, DesiredState, Updater and Relay.
  \<^item> AuditLog: \<^verbatim>\<open>audit.go\<close>. Levels, fields and entries; what is filtered and what a field can overwrite.
  \<^item> Enrollment: \<^verbatim>\<open>enrollment.go\<close>. Enrollment is done once and read back; short host identifiers panic.
  \<^item> LocalAPI: \<^verbatim>\<open>local_api.go\<close>. Allow-list, token, router, handlers and certificate files; who gets data and
    what a request can change.
  \<^item> Startup: \<^verbatim>\<open>main.go\<close> and \<^verbatim>\<open>NewStore\<close> of \<^verbatim>\<open>store.go\<close>. Subcommands, environment, reset, identity, flags and
    wiring up to the first reconciliation; what holds of a host that started.
  \<^item> HostLife: the rest of \<^verbatim>\<open>main.go\<close> and the loop of \<^verbatim>\<open>desired_state.go\<close>. Probe and evidence wiring,
    reconnect callback, retention, synchronization turns and shutdown; a restart keeps the state, and
    recovery after an outage catches up.

  \<^bold>\<open>Conventions.\<close> State is a record passed explicitly; a goroutine that runs concurrently is a step
  of a relation, so theorems about reachable states cover every interleaving of the critical sections
  the code protects by its mutexes. What the program observes (clock, random jitter, HTTP replies,
  results of system calls) is an argument. Go maps are association lists without an assumption on
  their order; where the code ranges over a map the theorems hold for every order of the list.
  JSON, AES-GCM, NaCl and SSH keys are parameters, collected in codec records or locales whose
  assumptions are the documented behaviour (decoding inverts encoding). Loops end by construction, except
  that the lock wait is a \<^theory_text>\<open>function\<close> with a measure on the time left and the questions of the
  wizard, which repeat until an answer is accepted, are \<^theory_text>\<open>partial_function (option)\<close>; that a run ends
  is a theorem there. No definition uses fuel.

  \<^bold>\<open>Not modelled.\<close> Opening and closing of the SQLite database, the listening sockets, the log lines and the
  text the wizard prints are input and output without a decision of the program. The generation of keys,
  TLS, HTTP, SSH, JSON, the ciphers, SHA-256 and the formatting of floating-point numbers belong to libraries and
  are parameters. In \<^verbatim>\<open>main.go\<close> the starting of goroutines and the signals are left out: one turn of each
  loop is a definition, in HostLife or in the theory of its component.
  In \<^verbatim>\<open>adapter_brocade.go\<close> the two helpers that only label log lines are left out.
\<close>

end
